(* ===== verification/Rust_Prelude.thy ===== *)
theory Rust_Prelude
  imports Main "HOL-Library.Word" "HOL-Library.Char_ord" "HOL-Library.List_Lexorder"
begin

text \<open>
  What the Rust sources use of the language and its standard library, shared by
  every component of the development.

  \<^item> Integers: \<open>u64\<close> is a \<^typ>\<open>64 word\<close> (\<open>saturating_add\<close> is \<open>sat_add\<close>),
    \<open>i64\<close> an \<^typ>\<open>int\<close> whose saturating operations clamp to the 64-bit range,
    \<open>usize\<close> a \<^typ>\<open>nat\<close> (only compared and counted in the code modelled here).
  \<^item> Strings: a Rust \<open>str\<close> is its UTF-8 bytes, a \<^typ>\<open>string\<close>. \<open>len\<close> is
    \<^const>\<open>length\<close>; \<open>cmp\<close> is the lexicographic order of \<open>List_Lexorder\<close>; the
    operations that work on characters (\<open>trim\<close>, \<open>is_control\<close>, \<open>chars\<close>) follow
    the encoding of the characters they look for, which is exact on valid UTF-8.
  \<^item> Errors: \<open>io::Error\<close> is \<open>io_error\<close>, a kind and a message; \<open>Result<T, E>\<close>
    is the sum \<open>'e + 'a\<close> with \<open>Inl\<close> for \<open>Err\<close>.
\<close>

named_theorems rust_str "facts on the string operations of the Rust standard library"

section \<open>Integers\<close>

type_synonym u64 = "64 word"

definition sat_add :: "u64 \<Rightarrow> u64 \<Rightarrow> u64" where
  "sat_add a b = (if unat a + unat b < 2 ^ 64 then a + b else - 1)"

definition sat_sub_i64 :: "int \<Rightarrow> int \<Rightarrow> int" where
  "sat_sub_i64 a b = max (- (2 ^ 63)) (min (2 ^ 63 - 1) (a - b))"

lemma unat_max_u64: "unat (- 1 :: u64) = 2 ^ 64 - 1"
  by (simp add: unsigned_minus_1_eq_mask mask_eq_exp_minus_1)

lemma unat_u64_less: "unat (a :: u64) < 2 ^ 64"
proof -
  have "(unsigned a :: nat) < 2 ^ LENGTH(64)" by (rule unsigned_less)
  then show ?thesis by simp
qed

lemma unat_sat_add: "unat (sat_add a b) = min (unat a + unat b) (2 ^ 64 - 1)"
proof (cases "unat a + unat b < 2 ^ 64")
  case True
  then have "unat (a + b) = unat a + unat b"
    by (simp add: unat_word_ariths)
  with True show ?thesis by (simp add: sat_add_def)
next
  case False
  then show ?thesis by (simp add: sat_add_def unat_max_u64)
qed

lemma sat_add_ge1: "a \<le> sat_add a b"
  using unat_u64_less [of a] by (simp add: word_le_nat_alt unat_sat_add)

lemma sat_add_mono: "a \<le> b \<Longrightarrow> sat_add a c \<le> sat_add b c"
  by (simp add: word_le_nat_alt unat_sat_add)

lemma sat_add_0 [simp]: "sat_add a 0 = a"
  using unat_u64_less [of a] by (simp add: sat_add_def)

lemma sat_add_1_greater: "a \<noteq> - 1 \<Longrightarrow> a < sat_add a 1"
proof -
  assume "a \<noteq> - 1"
  then have "unat a \<noteq> 2 ^ 64 - 1"
    using unat_max_u64 by (metis word_unat_eq_iff)
  then have "unat a < 2 ^ 64 - 1"
    using unat_u64_less [of a] by simp
  then show ?thesis by (simp add: word_less_nat_alt unat_sat_add)
qed

section \<open>Errors\<close>

datatype io_kind =
    NotFound | AlreadyExists | InvalidInput | InvalidData | PermissionDenied | TimedOut | OtherIo

datatype io_error = IoError io_kind string

fun io_error_kind :: "io_error \<Rightarrow> io_kind" where
  "io_error_kind (IoError k _) = k"

text \<open>Checks made one after the other, the first failure returned by \<open>?\<close>.\<close>

fun first_error :: "('e + unit) list \<Rightarrow> 'e + unit" where
  "first_error [] = Inr ()"
| "first_error (Inl e # _) = Inl e"
| "first_error (Inr _ # cs) = first_error cs"

lemma first_error_Cons: "first_error (c # cs) = (case c of Inl e \<Rightarrow> Inl e | Inr _ \<Rightarrow> first_error cs)"
  by (cases c) simp_all

lemma first_error_Inr: "first_error cs = Inr () \<longleftrightarrow> (\<forall>c \<in> set cs. c = Inr ())"
  by (induction cs) (auto simp: first_error_Cons split: sum.splits)

definition unwrap_or :: "'a option \<Rightarrow> 'a \<Rightarrow> 'a" where
  "unwrap_or v d = (case v of Some x \<Rightarrow> x | None \<Rightarrow> d)"

section \<open>Strings\<close>

definition byte :: "nat \<Rightarrow> char" where
  "byte n = char_of n"

definition nl :: char where
  "nl = CHR 0x0A"

definition cr :: char where
  "cr = CHR 0x0D"

definition starts_with :: "string \<Rightarrow> string \<Rightarrow> bool" where
  "starts_with s p \<longleftrightarrow> take (length p) s = p"

definition ends_with :: "string \<Rightarrow> string \<Rightarrow> bool" where
  "ends_with s p \<longleftrightarrow> length p \<le> length s \<and> drop (length s - length p) s = p"

definition strip_suffix :: "string \<Rightarrow> string \<Rightarrow> string option" where
  "strip_suffix s p = (if ends_with s p then Some (take (length s - length p) s) else None)"

definition strip_prefix :: "string \<Rightarrow> string \<Rightarrow> string option" where
  "strip_prefix s p = (if starts_with s p then Some (drop (length p) s) else None)"

lemma starts_with_append [simp]: "starts_with (p @ s) p"
  by (simp add: starts_with_def)

lemma starts_with_Nil [simp]: "starts_with s []"
  by (simp add: starts_with_def)

lemma starts_with_iff: "starts_with s p \<longleftrightarrow> (\<exists>r. s = p @ r)"
  by (metis append_eq_conv_conj append_take_drop_id starts_with_def)

lemma ends_with_iff: "ends_with s p \<longleftrightarrow> (\<exists>r. s = r @ p)"
proof
  assume "ends_with s p"
  then have "s = take (length s - length p) s @ p"
    by (metis append_take_drop_id ends_with_def)
  then show "\<exists>r. s = r @ p" by blast
next
  assume "\<exists>r. s = r @ p"
  then show "ends_with s p" by (auto simp: ends_with_def)
qed

lemma ends_with_append [simp]: "ends_with (r @ p) p"
  by (auto simp: ends_with_iff)

lemma strip_suffix_append [simp]: "strip_suffix (r @ p) p = Some r"
  by (simp add: strip_suffix_def)

lemma strip_suffix_Some_iff: "strip_suffix s p = Some r \<longleftrightarrow> s = r @ p"
proof
  assume "strip_suffix s p = Some r"
  then have "ends_with s p" and r: "r = take (length s - length p) s"
    by (auto simp: strip_suffix_def split: if_splits)
  then show "s = r @ p"
    by (metis append_take_drop_id ends_with_def)
qed simp

lemma strip_prefix_append [simp]: "strip_prefix (p @ s) p = Some s"
  by (simp add: strip_prefix_def)

lemma strip_suffix_None_iff: "strip_suffix s p = None \<longleftrightarrow> \<not> ends_with s p"
  by (simp add: strip_suffix_def)

subsection \<open>ASCII case\<close>

definition ascii_lower :: "char \<Rightarrow> char" where
  "ascii_lower c =
     (if 65 \<le> (of_char c :: nat) \<and> (of_char c :: nat) \<le> 90
      then char_of ((of_char c :: nat) + 32) else c)"

definition to_ascii_lowercase :: "string \<Rightarrow> string" where
  "to_ascii_lowercase s = map ascii_lower s"

definition eq_ignore_ascii_case :: "string \<Rightarrow> string \<Rightarrow> bool" where
  "eq_ignore_ascii_case a b \<longleftrightarrow> to_ascii_lowercase a = to_ascii_lowercase b"

definition is_ascii_digit :: "char \<Rightarrow> bool" where
  "is_ascii_digit c \<longleftrightarrow> 48 \<le> (of_char c :: nat) \<and> (of_char c :: nat) \<le> 57"

definition is_ascii_alphanumeric :: "char \<Rightarrow> bool" where
  "is_ascii_alphanumeric c \<longleftrightarrow>
     is_ascii_digit c \<or> (65 \<le> (of_char c :: nat) \<and> (of_char c :: nat) \<le> 90)
       \<or> (97 \<le> (of_char c :: nat) \<and> (of_char c :: nat) \<le> 122)"

definition is_lower_hex_byte :: "char \<Rightarrow> bool" where
  "is_lower_hex_byte c \<longleftrightarrow>
     is_ascii_digit c \<or> (97 \<le> (of_char c :: nat) \<and> (of_char c :: nat) \<le> 102)"

definition is_ascii_hexdigit :: "char \<Rightarrow> bool" where
  "is_ascii_hexdigit c \<longleftrightarrow>
     is_lower_hex_byte c \<or> (65 \<le> (of_char c :: nat) \<and> (of_char c :: nat) \<le> 70)"

lemma ascii_lower_idem [simp]: "ascii_lower (ascii_lower c) = ascii_lower c"
proof (cases "65 \<le> (of_char c :: nat) \<and> (of_char c :: nat) \<le> 90")
  case True
  then have "(of_char (char_of ((of_char c :: nat) + 32) :: char) :: nat) = of_char c + 32"
    by simp
  with True show ?thesis by (auto simp: ascii_lower_def)
qed (auto simp: ascii_lower_def)

lemma to_ascii_lowercase_idem [simp]:
  "to_ascii_lowercase (to_ascii_lowercase s) = to_ascii_lowercase s"
  by (simp add: to_ascii_lowercase_def)

subsection \<open>White space and control characters\<close>

text \<open>
  The UTF-8 encodings of the characters with the Unicode property White_Space,
  which \<open>str::trim\<close> removes: U+0009 to U+000D, U+0020, U+0085, U+00A0, U+1680,
  U+2000 to U+200A, U+2028, U+2029, U+202F, U+205F and U+3000.
\<close>

definition white_space_encodings :: "string list" where
  "white_space_encodings = map (map byte)
     [[9], [10], [11], [12], [13], [32], [194, 133], [194, 160], [225, 154, 128],
      [226, 128, 128], [226, 128, 129], [226, 128, 130], [226, 128, 131], [226, 128, 132],
      [226, 128, 133], [226, 128, 134], [226, 128, 135], [226, 128, 136], [226, 128, 137],
      [226, 128, 138], [226, 128, 168], [226, 128, 169], [226, 128, 175], [226, 129, 159],
      [227, 128, 128]]"

definition ws_prefix_len :: "string \<Rightarrow> nat" where
  "ws_prefix_len s = (case find (starts_with s) white_space_encodings of
     None \<Rightarrow> 0 | Some w \<Rightarrow> length w)"

definition ws_suffix_len :: "string \<Rightarrow> nat" where
  "ws_suffix_len s = (case find (ends_with s) white_space_encodings of
     None \<Rightarrow> 0 | Some w \<Rightarrow> length w)"

lemma ws_prefix_len_le: "ws_prefix_len s \<le> length s"
  by (auto simp: ws_prefix_len_def find_Some_iff starts_with_iff split: option.splits)

lemma ws_suffix_len_le: "ws_suffix_len s \<le> length s"
  by (auto simp: ws_suffix_len_def find_Some_iff ends_with_iff split: option.splits)

function trim_start :: "string \<Rightarrow> string" where
  "trim_start s = (if ws_prefix_len s = 0 then s else trim_start (drop (ws_prefix_len s) s))"
  by pat_completeness auto
termination
proof (relation "measure length")
  fix s :: string
  assume "ws_prefix_len s \<noteq> 0"
  with ws_prefix_len_le [of s] show "(drop (ws_prefix_len s) s, s) \<in> measure length" by simp
qed simp

function trim_end :: "string \<Rightarrow> string" where
  "trim_end s = (if ws_suffix_len s = 0 then s else trim_end (take (length s - ws_suffix_len s) s))"
  by pat_completeness auto
termination
proof (relation "measure length")
  fix s :: string
  assume "ws_suffix_len s \<noteq> 0"
  with ws_suffix_len_le [of s] show "(take (length s - ws_suffix_len s) s, s) \<in> measure length" by simp
qed simp

declare trim_start.simps [simp del] trim_end.simps [simp del]

definition trim :: "string \<Rightarrow> string" where
  "trim s = trim_end (trim_start s)"

definition is_blank :: "string \<Rightarrow> bool" where
  "is_blank s \<longleftrightarrow> trim s = []"

fun has_control :: "string \<Rightarrow> bool" where
  "has_control [] = False"
| "has_control (c # cs) =
     ((of_char c :: nat) < 32 \<or> (of_char c :: nat) = 127
      \<or> ((of_char c :: nat) = 194
          \<and> (case cs of [] \<Rightarrow> False | d # _ \<Rightarrow> 128 \<le> (of_char d :: nat) \<and> (of_char d :: nat) \<le> 159))
      \<or> has_control cs)"

lemma white_space_encodings_nonempty: "w \<in> set white_space_encodings \<Longrightarrow> w \<noteq> []"
  by (auto simp: white_space_encodings_def)

lemma ws_prefix_len_0_iff:
  "ws_prefix_len s = 0 \<longleftrightarrow> (\<forall>w \<in> set white_space_encodings. \<not> starts_with s w)"
  using white_space_encodings_nonempty
  by (auto simp: ws_prefix_len_def find_None_iff find_Some_iff split: option.splits)

lemma ws_suffix_len_0_iff:
  "ws_suffix_len s = 0 \<longleftrightarrow> (\<forall>w \<in> set white_space_encodings. \<not> ends_with s w)"
  using white_space_encodings_nonempty
  by (auto simp: ws_suffix_len_def find_None_iff find_Some_iff split: option.splits)

lemma trim_start_no_ws: "ws_prefix_len (trim_start s) = 0"
proof (induction s rule: trim_start.induct)
  case (1 s)
  then show ?case by (cases "ws_prefix_len s = 0") (simp_all add: trim_start.simps [of s])
qed

lemma trim_end_no_ws: "ws_suffix_len (trim_end s) = 0"
proof (induction s rule: trim_end.induct)
  case (1 s)
  then show ?case by (cases "ws_suffix_len s = 0") (simp_all add: trim_end.simps [of s])
qed

lemma trim_end_take: "\<exists>k. trim_end s = take k s"
proof (induction s rule: trim_end.induct)
  case (1 s)
  show ?case
  proof (cases "ws_suffix_len s = 0")
    case True
    then show ?thesis by (metis take_all order_refl trim_end.simps)
  next
    case False
    with "1.IH" obtain k where "trim_end s = take k (take (length s - ws_suffix_len s) s)"
      by (auto simp: trim_end.simps [of s])
    then show ?thesis by (auto simp: take_take)
  qed
qed

lemma ws_prefix_len_take_0: "ws_prefix_len s = 0 \<Longrightarrow> ws_prefix_len (take k s) = 0"
  unfolding ws_prefix_len_0_iff starts_with_iff
  by (metis append.assoc append_take_drop_id)

lemma trim_eq_self_iff: "trim s = s \<longleftrightarrow> ws_prefix_len s = 0 \<and> ws_suffix_len s = 0"
proof
  assume eq: "trim s = s"
  from trim_end_take obtain k where "s = take k (trim_start s)"
    using eq by (metis trim_def)
  then have "ws_prefix_len s = 0"
    using ws_prefix_len_take_0 [OF trim_start_no_ws] by metis
  moreover have "ws_suffix_len s = 0"
    using eq trim_end_no_ws by (metis trim_def)
  ultimately show "ws_prefix_len s = 0 \<and> ws_suffix_len s = 0" by simp
next
  assume "ws_prefix_len s = 0 \<and> ws_suffix_len s = 0"
  then show "trim s = s" by (simp add: trim_def trim_start.simps [of s] trim_end.simps [of s])
qed

lemma trim_idem [simp]: "trim (trim s) = trim s"
proof -
  obtain k where "trim s = take k (trim_start s)"
    using trim_end_take by (metis trim_def)
  then have "ws_prefix_len (trim s) = 0"
    by (simp add: ws_prefix_len_take_0 trim_start_no_ws)
  moreover have "ws_suffix_len (trim s) = 0"
    by (simp add: trim_def trim_end_no_ws)
  ultimately show ?thesis by (simp add: trim_eq_self_iff)
qed

lemma trim_Nil [simp]: "trim [] = []"
  using white_space_encodings_nonempty
  by (fastforce simp: trim_eq_self_iff ws_prefix_len_0_iff ws_suffix_len_0_iff starts_with_def
      ends_with_def)

text \<open>Strings that begin and end with a printing ASCII byte are their own trimmed form.\<close>

definition ascii_graphic :: "char \<Rightarrow> bool" where
  "ascii_graphic c \<longleftrightarrow> 33 \<le> (of_char c :: nat) \<and> (of_char c :: nat) \<le> 126"

lemma graphic_no_control: "list_all ascii_graphic s \<Longrightarrow> \<not> has_control s"
  by (induction s) (auto simp: ascii_graphic_def)

lemma white_space_hd_not_graphic:
  "w \<in> set white_space_encodings \<Longrightarrow> \<not> ascii_graphic (hd w)"
  by (auto simp: white_space_encodings_def byte_def ascii_graphic_def)

lemma white_space_last_not_graphic:
  "w \<in> set white_space_encodings \<Longrightarrow> \<not> ascii_graphic (last w)"
  by (auto simp: white_space_encodings_def byte_def ascii_graphic_def)

lemma trim_graphic_ends [rust_str]:
  assumes "s \<noteq> []" and "ascii_graphic (hd s)" and "ascii_graphic (last s)"
  shows "trim s = s"
proof -
  have "\<not> starts_with s w" if "w \<in> set white_space_encodings" for w
    using that assms(2) white_space_hd_not_graphic white_space_encodings_nonempty
    by (metis hd_append2 starts_with_iff)
  moreover have "\<not> ends_with s w" if "w \<in> set white_space_encodings" for w
    using that assms(3) white_space_last_not_graphic white_space_encodings_nonempty
    by (metis ends_with_iff last_appendR)
  ultimately show ?thesis
    by (simp add: trim_eq_self_iff ws_prefix_len_0_iff ws_suffix_len_0_iff)
qed

lemma not_blank_graphic_ends [rust_str]:
  "s \<noteq> [] \<Longrightarrow> ascii_graphic (hd s) \<Longrightarrow> ascii_graphic (last s) \<Longrightarrow> \<not> is_blank s"
  by (simp add: is_blank_def trim_graphic_ends)

section \<open>Decimal numbers\<close>

text \<open>\<open>Display\<close> and \<open>parse\<close> of unsigned integers, as \<open>format!\<close> and \<open>str::parse\<close> give them.\<close>

definition digit_char :: "nat \<Rightarrow> char" where
  "digit_char d = char_of (48 + d)"

definition digit_value :: "char \<Rightarrow> nat" where
  "digit_value c = of_char c - 48"

fun show_nat :: "nat \<Rightarrow> string" where
  "show_nat n = (if n < 10 then [digit_char n] else show_nat (n div 10) @ [digit_char (n mod 10)])"

declare show_nat.simps [simp del]

definition decimal_value :: "string \<Rightarrow> nat" where
  "decimal_value s = foldl (\<lambda>a c. 10 * a + digit_value c) 0 s"

definition parse_u64 :: "string \<Rightarrow> u64 option" where
  "parse_u64 s =
     (if s \<noteq> [] \<and> list_all is_ascii_digit s \<and> decimal_value s < 2 ^ 64
      then Some (of_nat (decimal_value s)) else None)"

definition show_int :: "int \<Rightarrow> string" where
  "show_int i = (if i < 0 then CHR ''-'' # show_nat (nat (- i)) else show_nat (nat i))"

definition show_u64 :: "u64 \<Rightarrow> string" where
  "show_u64 n = show_nat (unat n)"

lemma of_char_digit_char [simp]: "d < 10 \<Longrightarrow> (of_char (digit_char d) :: nat) = 48 + d"
  by (simp add: digit_char_def)

lemma digit_char_props [simp]:
  "d < 10 \<Longrightarrow> is_ascii_digit (digit_char d)" "d < 10 \<Longrightarrow> digit_value (digit_char d) = d"
  "d < 10 \<Longrightarrow> ascii_graphic (digit_char d)"
  by (simp_all add: is_ascii_digit_def digit_value_def ascii_graphic_def)

lemma show_nat_nonempty [simp]: "show_nat n \<noteq> []"
  by (subst show_nat.simps) simp

lemma show_nat_digits: "list_all is_ascii_digit (show_nat n)"
proof (induction n rule: show_nat.induct)
  case (1 n)
  then show ?case by (cases "n < 10") (simp_all add: show_nat.simps [of n])
qed

lemma decimal_value_show_nat [simp]: "decimal_value (show_nat n) = n"
proof (induction n rule: show_nat.induct)
  case (1 n)
  show ?case
  proof (cases "n < 10")
    case True
    then show ?thesis by (simp add: show_nat.simps [of n] decimal_value_def)
  next
    case False
    with "1.IH" have "foldl (\<lambda>a c. 10 * a + digit_value c) 0 (show_nat (n div 10)) = n div 10"
      by (simp add: decimal_value_def)
    with False show ?thesis by (simp add: show_nat.simps [of n] decimal_value_def)
  qed
qed

lemma parse_show_u64 [simp]: "parse_u64 (show_u64 n) = Some n"
  using unat_u64_less [of n] by (simp add: parse_u64_def show_u64_def show_nat_digits)

lemma show_u64_nonempty [simp]: "show_u64 n \<noteq> []"
  by (simp add: show_u64_def)

lemma show_u64_digits: "list_all is_ascii_digit (show_u64 n)"
  by (simp add: show_u64_def show_nat_digits)

section \<open>Searching lists\<close>

lemma find_append:
  "find P (xs @ ys) = (case find P xs of Some x \<Rightarrow> Some x | None \<Rightarrow> find P ys)"
  by (induction xs) auto

lemma find_SomeD: "find P xs = Some x \<Longrightarrow> x \<in> set xs \<and> P x"
  by (induction xs) (auto split: if_splits)

section \<open>Hash maps\<close>

text \<open>
  A \<open>HashMap\<close> with string keys is an association list with distinct keys. The order in which
  the library iterates over it is not specified: where the code iterates, the model takes a
  function \<open>ho\<close> that puts the keys into the order of that run.
\<close>

definition hash_order :: "(string list \<Rightarrow> string list) \<Rightarrow> bool" where
  "hash_order ho \<longleftrightarrow> (\<forall>ks. distinct ks \<longrightarrow> distinct (ho ks) \<and> set (ho ks) = set ks)"

definition map_keys :: "(string \<times> 'a) list \<Rightarrow> string list" where
  "map_keys m = map fst m"

definition map_remove :: "string \<Rightarrow> (string \<times> 'a) list \<Rightarrow> (string \<times> 'a) list" where
  "map_remove k m = filter (\<lambda>(k', v). k' \<noteq> k) m"

definition map_insert :: "string \<Rightarrow> 'a \<Rightarrow> (string \<times> 'a) list \<Rightarrow> (string \<times> 'a) list" where
  "map_insert k v m = map_remove k m @ [(k, v)]"

definition map_values_in :: "(string list \<Rightarrow> string list) \<Rightarrow> (string \<times> 'a) list \<Rightarrow> 'a list" where
  "map_values_in ho m = List.map_filter (map_of m) (ho (map_keys m))"

lemma map_of_map_remove [simp]: "map_of (map_remove k m) = (map_of m)(k := None)"
  by (rule ext, induction m) (auto simp: map_remove_def)

lemma map_of_map_insert [simp]: "map_of (map_insert k v m) = (map_of m)(k \<mapsto> v)"
  by (auto simp: map_insert_def map_add_def fun_eq_iff split: option.splits)

lemma set_map_keys: "set (map_keys m) = dom (map_of m)"
  by (simp add: map_keys_def dom_map_of_conv_image_fst)

lemma distinct_map_remove: "distinct (map_keys m) \<Longrightarrow> distinct (map_keys (map_remove k m))"
  by (induction m) (auto simp: map_keys_def map_remove_def)

lemma distinct_map_insert: "distinct (map_keys m) \<Longrightarrow> distinct (map_keys (map_insert k v m))"
  using distinct_map_remove [of m k] by (auto simp: map_keys_def map_insert_def map_remove_def)

lemma set_map_values_in:
  assumes "hash_order ho" and "distinct (map_keys m)"
  shows "set (map_values_in ho m) = ran (map_of m)"
proof -
  have "set (ho (map_keys m)) = dom (map_of m)"
    using assms by (simp add: hash_order_def set_map_keys)
  then show ?thesis
    by (auto simp: map_values_in_def List.map_filter_def ran_def image_def)
qed

lemma hash_order_id: "hash_order (\<lambda>ks. ks)"
  by (simp add: hash_order_def)

lemma hash_order_rev: "hash_order rev"
  by (simp add: hash_order_def)

section \<open>Saturating sums\<close>

definition sat_sum :: "('a \<Rightarrow> u64) \<Rightarrow> 'a list \<Rightarrow> u64 \<Rightarrow> u64" where
  "sat_sum f xs a = fold (\<lambda>x s. sat_add s (f x)) xs a"

lemma unat_sat_sum:
  "unat (sat_sum f xs a) = min (unat a + sum_list (map (\<lambda>x. unat (f x)) xs)) (2 ^ 64 - 1)"
proof (induction xs arbitrary: a)
  case Nil
  then show ?case using unat_u64_less [of a] by (simp add: sat_sum_def)
next
  case (Cons x xs)
  then have "unat (sat_sum f xs (sat_add a (f x))) =
      min (min (unat a + unat (f x)) (2 ^ 64 - 1) + sum_list (map (\<lambda>x. unat (f x)) xs)) (2 ^ 64 - 1)"
    by (simp add: unat_sat_add)
  then show ?case by (simp add: sat_sum_def min_def)
qed

lemma sat_sum_snoc: "sat_sum f (xs @ [x]) a = sat_add (sat_sum f xs a) (f x)"
  by (simp add: sat_sum_def)

section \<open>Ordered maps\<close>

text \<open>A \<open>BTreeMap\<close> is its list of entries, in the order of the keys.\<close>

fun btree_insert :: "'k::linorder \<Rightarrow> 'v \<Rightarrow> ('k \<times> 'v) list \<Rightarrow> ('k \<times> 'v) list" where
  "btree_insert k v [] = [(k, v)]"
| "btree_insert k v ((k', v') # m) =
     (if k < k' then (k, v) # (k', v') # m
      else if k = k' then (k, v) # m
      else (k', v') # btree_insert k v m)"

definition btree_values :: "('k \<times> 'v) list \<Rightarrow> 'v list" where
  "btree_values m = map snd m"

definition btree_ok :: "('k::linorder \<times> 'v) list \<Rightarrow> bool" where
  "btree_ok m \<longleftrightarrow> sorted_wrt (<) (map fst m)"

lemma set_fst_btree_insert: "set (map fst (btree_insert k v m)) = insert k (set (map fst m))"
proof (induction m)
  case (Cons e m)
  then show ?case by (cases e) (simp add: insert_commute)
qed simp

lemma btree_ok_Nil [simp]: "btree_ok []"
  by (simp add: btree_ok_def)

lemma btree_ok_insert [simp]: "btree_ok m \<Longrightarrow> btree_ok (btree_insert k v m)"
proof (induction m)
  case (Cons e m)
  obtain k' v' where e: "e = (k', v')" by (cases e)
  have "\<forall>x \<in> set (map fst (btree_insert k v m)). k' < x" if "k' < k"
    using Cons.prems e that set_fst_btree_insert [of k v m] by (auto simp: btree_ok_def)
  with Cons e show ?case by (auto simp: btree_ok_def)
qed (simp add: btree_ok_def)

lemma map_of_btree_insert [simp]:
  "btree_ok m \<Longrightarrow> map_of (btree_insert k v m) = (map_of m)(k \<mapsto> v)"
proof (induction m)
  case (Cons e m)
  obtain k' v' where e: "e = (k', v')" by (cases e)
  with Cons have "map_of (btree_insert k v m) = (map_of m)(k \<mapsto> v)"
    by (auto simp: btree_ok_def)
  with e show ?case by (auto simp: fun_upd_twist)
qed simp

text \<open>An ordered map is determined by its entries: the order of insertion leaves no trace.\<close>

lemma btree_eqI:
  assumes "btree_ok m" and "btree_ok n" and "map_of m = map_of n"
  shows "m = n"
  using assms
proof (intro map_sorted_distinct_set_unique [of fst])
  show "inj_on fst (set m \<union> set n)"
  proof (rule inj_onI)
    fix x y
    assume "x \<in> set m \<union> set n" "y \<in> set m \<union> set n" "fst x = fst y"
    moreover have "distinct (map fst m)" "distinct (map fst n)"
      using assms strict_sorted_iff by (auto simp: btree_ok_def)
    ultimately have "map_of m (fst x) = Some (snd x)" "map_of m (fst x) = Some (snd y)"
      using assms(3) by (metis Un_iff map_of_eq_Some_iff prod.collapse)+
    with \<open>fst x = fst y\<close> show "x = y" by (simp add: prod_eq_iff)
  qed
  show "set m = set n"
    using assms strict_sorted_iff by (metis btree_ok_def map_of_inject_set)
qed (use assms strict_sorted_iff in \<open>auto simp: btree_ok_def\<close>)

section \<open>Hexadecimal digests\<close>

text \<open>\<open>format!("{byte:02x}")\<close> of each byte of a digest.\<close>

definition hex_digit :: "nat \<Rightarrow> char" where
  "hex_digit d = (if d < 10 then char_of (48 + d) else char_of (87 + d))"

definition hex_encode :: "string \<Rightarrow> string" where
  "hex_encode bs = concat (map (\<lambda>b. [hex_digit (of_char b div 16), hex_digit (of_char b mod 16)]) bs)"

lemma length_hex_encode [simp]: "length (hex_encode bs) = 2 * length bs"
  by (induction bs) (simp_all add: hex_encode_def)

lemma hex_digit_lower: "d < 16 \<Longrightarrow> is_lower_hex_byte (hex_digit d)"
  by (auto simp: hex_digit_def is_lower_hex_byte_def is_ascii_digit_def)

lemma hex_encode_lower: "list_all is_lower_hex_byte (hex_encode bs)"
proof (induction bs)
  case (Cons b bs)
  have "(of_char b :: nat) < 256" by simp
  then have "(of_char b :: nat) div 16 < 16" by (simp only: less_mult_imp_div_less)
  with Cons show ?case by (simp add: hex_encode_def hex_digit_lower)
qed (simp add: hex_encode_def)

lemma hex_digit_inj: "m < 16 \<Longrightarrow> n < 16 \<Longrightarrow> hex_digit m = hex_digit n \<Longrightarrow> m = n"
proof -
  assume m: "m < 16" and n: "n < 16" and "hex_digit m = hex_digit n"
  then have "(of_char (hex_digit m) :: nat) = of_char (hex_digit n)" by simp
  with m n show ?thesis by (simp add: hex_digit_def split: if_splits)
qed

lemma hex_encode_inj: "hex_encode bs = hex_encode cs \<Longrightarrow> bs = cs"
proof (induction bs arbitrary: cs)
  case Nil
  then show ?case by (cases cs) (simp_all add: hex_encode_def)
next
  case (Cons b bs)
  then obtain c cs' where cs: "cs = c # cs'" by (cases cs) (simp_all add: hex_encode_def)
  have less: "(of_char x :: nat) div 16 < 16" for x :: char
    by (rule less_mult_imp_div_less) simp
  from Cons.prems cs have "hex_digit (of_char b div 16) = hex_digit (of_char c div 16)"
    and "hex_digit (of_char b mod 16) = hex_digit (of_char c mod 16)"
    and rest: "hex_encode bs = hex_encode cs'"
    by (simp_all add: hex_encode_def)
  then have "(of_char b :: nat) div 16 = of_char c div 16" "(of_char b :: nat) mod 16 = of_char c mod 16"
    using less by (auto intro: hex_digit_inj)
  then have "(of_char b :: nat) = of_char c" by (metis div_mult_mod_eq)
  with rest Cons.IH cs show ?case by simp
qed

section \<open>Searching strings\<close>

text \<open>\<open>str::contains\<close> and \<open>str::rsplit_once\<close> with a non-empty pattern, \<open>str::split\<close> at a character.\<close>

fun contains :: "string \<Rightarrow> string \<Rightarrow> bool" where
  "contains [] p = (p = [])"
| "contains (c # s) p = (starts_with (c # s) p \<or> contains s p)"

fun rsplit_once :: "string \<Rightarrow> string \<Rightarrow> (string \<times> string) option" where
  "rsplit_once [] p = (if p = [] then Some ([], []) else None)"
| "rsplit_once (c # s) p =
     (case rsplit_once s p of
        Some (a, b) \<Rightarrow> Some (c # a, b)
      | None \<Rightarrow> if starts_with (c # s) p then Some ([], drop (length p) (c # s)) else None)"

text \<open>\<open>str::find\<close> and \<open>str::rfind\<close> give the byte index of an occurrence; \<open>str::matches\<close> finds the ones that do not
  overlap, from the left.\<close>

fun str_find :: "string \<Rightarrow> string \<Rightarrow> nat option" where
  "str_find [] p = (if p = [] then Some 0 else None)"
| "str_find (c # s) p = (if starts_with (c # s) p then Some 0 else map_option Suc (str_find s p))"

fun str_rfind :: "string \<Rightarrow> string \<Rightarrow> nat option" where
  "str_rfind [] p = (if p = [] then Some 0 else None)"
| "str_rfind (c # s) p =
     (case str_rfind s p of
        Some n \<Rightarrow> Some (Suc n)
      | None \<Rightarrow> if starts_with (c # s) p then Some 0 else None)"

function match_count :: "string \<Rightarrow> string \<Rightarrow> nat" where
  "match_count [] p = 0"
| "match_count (c # s) p =
     (if starts_with (c # s) p then Suc (match_count (drop (length p - 1) s) p) else match_count s p)"
  by pat_completeness auto
termination
  by (relation "measure (length \<circ> fst)") auto

fun split_on :: "char \<Rightarrow> string \<Rightarrow> string list" where
  "split_on d [] = [[]]"
| "split_on d (c # s) =
     (if c = d then [] # split_on d s
      else case split_on d s of [] \<Rightarrow> [[c]] | l # ls \<Rightarrow> (c # l) # ls)"

lemma contains_Nil [simp]: "contains s []"
  by (cases s) simp_all

lemma contains_no_head: "c \<notin> set s \<Longrightarrow> \<not> contains s (c # q)"
  by (induction s) (auto simp: starts_with_iff)

lemma contains_skip: "c \<notin> set x \<Longrightarrow> contains (x @ s) (c # q) \<longleftrightarrow> contains s (c # q)"
  by (induction x) (auto simp: starts_with_iff)

text \<open>A pattern whose first character does not recur cannot straddle an occurrence of it.\<close>

lemma separated_eq:
  "c \<notin> set a \<Longrightarrow> c \<notin> set b \<Longrightarrow> a @ c # x = b @ c # y \<longleftrightarrow> a = b \<and> x = y"
proof (induction a arbitrary: b)
  case Nil
  then show ?case by (cases b) auto
next
  case (Cons d a)
  then show ?case by (cases b) auto
qed

lemma starts_with_append_sep:
  assumes "c \<notin> set q" and "a \<noteq> []"
  shows "starts_with (a @ c # b) (c # q) \<longleftrightarrow> starts_with a (c # q)"
proof
  obtain x a' where a: "a = x # a'" using assms(2) by (cases a) auto
  assume "starts_with (a @ c # b) (c # q)"
  then have x: "x = c" and q: "take (length q) (a' @ c # b) = q" by (auto simp: starts_with_def a)
  have "length q \<le> length a'"
  proof (rule ccontr)
    assume "\<not> length q \<le> length a'"
    then have "c \<in> set (take (length q) (a' @ c # b))" by (auto simp: take_Cons' split: if_splits)
    with q assms show False by simp
  qed
  with x q show "starts_with a (c # q)" by (simp add: starts_with_def a)
qed (auto simp: starts_with_iff)

lemma contains_append_sep:
  assumes "c \<notin> set q"
  shows "contains (a @ c # b) (c # q) \<longleftrightarrow> contains a (c # q) \<or> contains (c # b) (c # q)"
proof (induction a)
  case (Cons x a)
  then show ?case using starts_with_append_sep [OF assms, of "x # a" b] by auto
qed simp

lemma str_find_sep:
  assumes "c \<notin> set q" and "\<not> contains a (c # q)"
  shows "str_find (a @ c # q @ r) (c # q) = Some (length a)"
  using assms(2)
proof (induction a)
  case Nil
  show ?case by (simp add: starts_with_def)
next
  case (Cons x a)
  then show ?case using starts_with_append_sep [OF assms(1), of "x # a" "q @ r"] by simp
qed

lemma str_rfind_None: "str_rfind s p = None \<longleftrightarrow> \<not> contains s p"
  by (induction s) (auto split: option.splits)

lemma str_rfind_sep:
  assumes "c \<notin> set q" and "\<not> contains r (c # q)"
  shows "str_rfind (a @ c # q @ r) (c # q) = Some (length a)"
proof (induction a)
  case Nil
  have "str_rfind (q @ r) (c # q) = None" using assms by (simp add: str_rfind_None contains_skip)
  then show ?case by (simp add: starts_with_def)
qed simp

lemma match_count_0: "p \<noteq> [] \<Longrightarrow> match_count s p = 0 \<longleftrightarrow> \<not> contains s p"
  by (induction s p rule: match_count.induct) auto

lemma match_count_sep:
  assumes "c \<notin> set q" and "\<not> contains a (c # q)" and "\<not> contains r (c # q)"
  shows "match_count (a @ c # q @ r) (c # q) = 1"
  using assms(2)
proof (induction a)
  case Nil
  have "match_count r (c # q) = 0" using assms(3) by (simp add: match_count_0)
  then show ?case by (simp add: starts_with_def)
next
  case (Cons x a)
  then show ?case using starts_with_append_sep [OF assms(1), of "x # a" "q @ r"] by simp
qed

lemma rsplit_once_None: "p \<noteq> [] \<Longrightarrow> rsplit_once s p = None \<longleftrightarrow> \<not> contains s p"
  by (induction s) (auto split: option.splits)

lemma rsplit_once_Some: "p \<noteq> [] \<Longrightarrow> rsplit_once s p = Some (a, b) \<Longrightarrow> s = a @ p @ b"
proof (induction s arbitrary: a b)
  case (Cons c s)
  show ?case
  proof (cases "rsplit_once s p")
    case None
    with Cons.prems show ?thesis by (auto simp: starts_with_iff split: if_splits)
  next
    case (Some ab)
    with Cons show ?thesis by (cases ab) auto
  qed
qed simp

lemma rsplit_once_last:
  assumes "\<not> contains (q @ b) (c # q)"
  shows "rsplit_once (a @ (c # q) @ b) (c # q) = Some (a, b)"
proof (induction a)
  case Nil
  have "rsplit_once (q @ b) (c # q) = None" using assms by (simp add: rsplit_once_None)
  then show ?case using starts_with_append [of "c # q" b] by simp
qed simp

end
