(* ===== verification/Channel_Action.thy ===== *)
theory Channel_Action
  imports Rust_Prelude
begin

text \<open>
  Approval prompts and inbound approval actions of a channel
  (\<open>src/crates/agent-harness-core/src/channel_action.rs\<close>): the public reference of an action, derived
  from the effect and the decision, and the validation of what a provider sends back. The bearer
  token of an inbound action stays in memory; its evidence carries the digest. \<open>sha256\<close> stands for the
  digest of the library \<open>ring\<close>.
\<close>

section \<open>Data\<close>

definition CHANNEL_APPROVAL_PROMPT_SCHEMA :: string where
  "CHANNEL_APPROVAL_PROMPT_SCHEMA = ''agent-harness.channel-approval-prompt.v1''"

definition CHANNEL_INBOUND_ACTION_SCHEMA :: string where
  "CHANNEL_INBOUND_ACTION_SCHEMA = ''agent-harness.channel-inbound-action.v1''"

definition CHANNEL_INBOUND_ACTION_EVIDENCE_SCHEMA :: string where
  "CHANNEL_INBOUND_ACTION_EVIDENCE_SCHEMA = ''agent-harness.channel-inbound-action-evidence.v1''"

definition PUBLIC_ACTION_ID_PREFIX :: string where
  "PUBLIC_ACTION_ID_PREFIX = ''ahpa1_''"

definition APPROVAL_BEARER_PREFIX :: string where
  "APPROVAL_BEARER_PREFIX = ''ahx1_''"

definition MAX_EFFECT_ID_BYTES :: nat where
  "MAX_EFFECT_ID_BYTES = 160"

definition MAX_ACTION_SUMMARY_BYTES :: nat where
  "MAX_ACTION_SUMMARY_BYTES = 240"

definition MAX_ACTION_LABEL_BYTES :: nat where
  "MAX_ACTION_LABEL_BYTES = 48"

definition MAX_PROVIDER_ID_BYTES :: nat where
  "MAX_PROVIDER_ID_BYTES = 192"

definition MAX_CALLBACK_TOKEN_BYTES :: nat where
  "MAX_CALLBACK_TOKEN_BYTES = 128"

datatype ChannelApprovalDecisionV1 = Approve | Deny

fun stable_name :: "ChannelApprovalDecisionV1 \<Rightarrow> string" where
  "stable_name Approve = ''approve''"
| "stable_name Deny = ''deny''"

fun default_label :: "ChannelApprovalDecisionV1 \<Rightarrow> string" where
  "default_label Approve = ''Approve''"
| "default_label Deny = ''Deny''"

datatype ChannelActionError =
    UnsupportedActionSchema | InvalidField string | InvalidActions | PromptExpired

fun action_error_display :: "ChannelActionError \<Rightarrow> string" where
  "action_error_display UnsupportedActionSchema = ''unsupported channel action schema''"
| "action_error_display (InvalidField field) = ''invalid channel action '' @ field"
| "action_error_display InvalidActions = ''invalid channel approval action set''"
| "action_error_display PromptExpired = ''channel approval prompt is expired''"

record ChannelApprovalActionV1 =
  aa_public_action_id :: string
  aa_decision :: ChannelApprovalDecisionV1
  aa_label :: string

record ChannelApprovalPromptV1 =
  ap_schema :: string
  ap_effect_id :: string
  ap_approval_generation :: u64
  ap_source_session_key_digest :: string
  ap_source_authority_digest :: string
  ap_action_summary :: string
  ap_expires_at_ms :: int
  ap_actions :: "ChannelApprovalActionV1 list"

record ChannelInboundActionV1 =
  ia_schema :: string
  ia_provider_event_id :: string
  ia_provider_message_id :: "string option"
  ia_effect_id :: string
  ia_approval_generation :: u64
  ia_decision :: ChannelApprovalDecisionV1
  ia_source_session_key_digest :: string
  ia_source_authority_digest :: string
  ia_callback_token :: string

record ChannelInboundActionEvidenceV1 =
  ie_schema :: string
  ie_provider_event_id :: string
  ie_provider_message_id :: "string option"
  ie_effect_id :: string
  ie_approval_generation :: u64
  ie_decision :: ChannelApprovalDecisionV1
  ie_public_action_id :: string
  ie_callback_token_digest :: string
  ie_source_session_key_digest :: string
  ie_source_authority_digest :: string

section \<open>Validation\<close>

definition sha256_hex :: "(string \<Rightarrow> string) \<Rightarrow> string \<Rightarrow> string" where
  "sha256_hex sha256 bytes = hex_encode (sha256 bytes)"

definition sha256_tagged :: "(string \<Rightarrow> string) \<Rightarrow> string \<Rightarrow> string" where
  "sha256_tagged sha256 bytes = ''sha256:'' @ sha256_hex sha256 bytes"

definition validate_bounded_text :: "string \<Rightarrow> string \<Rightarrow> nat \<Rightarrow> ChannelActionError + unit" where
  "validate_bounded_text v field max_bytes =
     (if is_blank v \<or> max_bytes < length v \<or> has_control v then Inl (InvalidField field) else Inr ())"

definition validate_effect_binding :: "string \<Rightarrow> u64 \<Rightarrow> ChannelActionError + unit" where
  "validate_effect_binding effect_id generation = first_error
     [validate_bounded_text effect_id ''effect ID'' MAX_EFFECT_ID_BYTES,
      (if generation = 0 then Inl (InvalidField ''approval generation'') else Inr ())]"

definition validate_sha256_digest :: "string \<Rightarrow> string \<Rightarrow> ChannelActionError + unit" where
  "validate_sha256_digest v field =
     (case strip_prefix v ''sha256:'' of
        None \<Rightarrow> Inl (InvalidField field)
      | Some hex \<Rightarrow> if length hex \<noteq> 64 \<or> \<not> list_all is_lower_hex_byte hex
          then Inl (InvalidField field) else Inr ())"

definition validate_callback_token :: "string \<Rightarrow> ChannelActionError + unit" where
  "validate_callback_token v =
     (if \<not> starts_with v APPROVAL_BEARER_PREFIX \<or> MAX_CALLBACK_TOKEN_BYTES < length v
         \<or> length v \<le> length APPROVAL_BEARER_PREFIX \<or> \<not> list_all ascii_graphic v
      then Inl (InvalidField ''callback token'') else Inr ())"

section \<open>Public references\<close>

definition public_action_canonical :: "string \<Rightarrow> u64 \<Rightarrow> ChannelApprovalDecisionV1 \<Rightarrow> string" where
  "public_action_canonical effect_id generation decision =
     ''channel-approval-action.v1'' @ byte 0 # effect_id @ byte 0 # show_u64 generation
       @ byte 0 # stable_name decision"

definition public_approval_action_id :: "(string \<Rightarrow> string) \<Rightarrow> string \<Rightarrow> u64 \<Rightarrow> ChannelApprovalDecisionV1
    \<Rightarrow> ChannelActionError + string" where
  "public_approval_action_id sha256 effect_id generation decision =
     (case validate_effect_binding effect_id generation of
        Inl e \<Rightarrow> Inl e
      | Inr _ \<Rightarrow> Inr (PUBLIC_ACTION_ID_PREFIX
          @ take 32 (sha256_hex sha256 (public_action_canonical effect_id generation decision))))"

definition validate_public_approval_action_id :: "(string \<Rightarrow> string) \<Rightarrow> string \<Rightarrow> string \<Rightarrow> u64
    \<Rightarrow> ChannelApprovalDecisionV1 \<Rightarrow> ChannelActionError + unit" where
  "validate_public_approval_action_id sha256 public_action_id effect_id generation decision =
     (case public_approval_action_id sha256 effect_id generation decision of
        Inl e \<Rightarrow> Inl e
      | Inr expected \<Rightarrow>
          if public_action_id \<noteq> expected \<or> contains public_action_id APPROVAL_BEARER_PREFIX
          then Inl (InvalidField ''public action ID'') else Inr ())"

section \<open>Prompts\<close>

definition approval_action_new :: "(string \<Rightarrow> string) \<Rightarrow> string \<Rightarrow> u64 \<Rightarrow> ChannelApprovalDecisionV1
    \<Rightarrow> ChannelActionError + ChannelApprovalActionV1" where
  "approval_action_new sha256 effect_id generation decision =
     (case validate_effect_binding effect_id generation of
        Inl e \<Rightarrow> Inl e
      | Inr _ \<Rightarrow>
     (case public_approval_action_id sha256 effect_id generation decision of
        Inl e \<Rightarrow> Inl e
      | Inr public_action_id \<Rightarrow> Inr \<lparr>aa_public_action_id = public_action_id, aa_decision = decision,
          aa_label = default_label decision\<rparr>))"

definition validate_for :: "(string \<Rightarrow> string) \<Rightarrow> string \<Rightarrow> u64 \<Rightarrow> ChannelApprovalActionV1
    \<Rightarrow> ChannelActionError + unit" where
  "validate_for sha256 effect_id generation a = first_error
     [validate_bounded_text (aa_label a) ''action label'' MAX_ACTION_LABEL_BYTES,
      validate_public_approval_action_id sha256 (aa_public_action_id a) effect_id generation
        (aa_decision a)]"

definition decision_count :: "ChannelApprovalDecisionV1 \<Rightarrow> ChannelApprovalActionV1 list \<Rightarrow> nat" where
  "decision_count d as = length (filter (\<lambda>a. aa_decision a = d) as)"

definition prompt_validate :: "(string \<Rightarrow> string) \<Rightarrow> ChannelApprovalPromptV1 \<Rightarrow> ChannelActionError + unit" where
  "prompt_validate sha256 p = first_error
     ([if ap_schema p \<noteq> CHANNEL_APPROVAL_PROMPT_SCHEMA then Inl UnsupportedActionSchema else Inr (),
       validate_effect_binding (ap_effect_id p) (ap_approval_generation p),
       validate_sha256_digest (ap_source_session_key_digest p) ''source session key digest'',
       validate_sha256_digest (ap_source_authority_digest p) ''source authority digest'',
       validate_bounded_text (ap_action_summary p) ''action summary'' MAX_ACTION_SUMMARY_BYTES,
       if ap_expires_at_ms p \<le> 0 then Inl (InvalidField ''expiresAtMs'') else Inr (),
       if length (ap_actions p) \<noteq> 2 then Inl InvalidActions else Inr ()]
      @ map (validate_for sha256 (ap_effect_id p) (ap_approval_generation p)) (ap_actions p)
      @ [if decision_count Approve (ap_actions p) \<noteq> 1 \<or> decision_count Deny (ap_actions p) \<noteq> 1
         then Inl InvalidActions else Inr ()])"

definition prompt_validate_at :: "(string \<Rightarrow> string) \<Rightarrow> ChannelApprovalPromptV1 \<Rightarrow> int
    \<Rightarrow> ChannelActionError + unit" where
  "prompt_validate_at sha256 p now_ms = first_error
     [prompt_validate sha256 p, if ap_expires_at_ms p \<le> now_ms then Inl PromptExpired else Inr ()]"

definition prompt_new :: "(string \<Rightarrow> string) \<Rightarrow> string \<Rightarrow> u64 \<Rightarrow> string \<Rightarrow> string \<Rightarrow> string \<Rightarrow> int
    \<Rightarrow> ChannelActionError + ChannelApprovalPromptV1" where
  "prompt_new sha256 effect_id generation session_digest authority_digest summary expires_at_ms =
     (case approval_action_new sha256 effect_id generation Approve of
        Inl e \<Rightarrow> Inl e
      | Inr approve \<Rightarrow>
     (case approval_action_new sha256 effect_id generation Deny of
        Inl e \<Rightarrow> Inl e
      | Inr deny \<Rightarrow>
          let p = \<lparr>ap_schema = CHANNEL_APPROVAL_PROMPT_SCHEMA, ap_effect_id = effect_id,
            ap_approval_generation = generation, ap_source_session_key_digest = session_digest,
            ap_source_authority_digest = authority_digest, ap_action_summary = summary,
            ap_expires_at_ms = expires_at_ms, ap_actions = [approve, deny]\<rparr>
          in (case prompt_validate sha256 p of Inl e \<Rightarrow> Inl e | Inr _ \<Rightarrow> Inr p)))"

section \<open>Inbound actions\<close>

definition inbound_validate :: "ChannelInboundActionV1 \<Rightarrow> ChannelActionError + unit" where
  "inbound_validate a = first_error
     [if ia_schema a \<noteq> CHANNEL_INBOUND_ACTION_SCHEMA then Inl UnsupportedActionSchema else Inr (),
      validate_bounded_text (ia_provider_event_id a) ''provider event ID'' MAX_PROVIDER_ID_BYTES,
      (case ia_provider_message_id a of
         None \<Rightarrow> Inr ()
       | Some m \<Rightarrow> validate_bounded_text m ''provider message ID'' MAX_PROVIDER_ID_BYTES),
      validate_effect_binding (ia_effect_id a) (ia_approval_generation a),
      validate_sha256_digest (ia_source_session_key_digest a) ''source session key digest'',
      validate_sha256_digest (ia_source_authority_digest a) ''source authority digest'',
      validate_callback_token (ia_callback_token a)]"

definition inbound_new :: "string \<Rightarrow> string option \<Rightarrow> string \<Rightarrow> u64 \<Rightarrow> ChannelApprovalDecisionV1 \<Rightarrow> string
    \<Rightarrow> string \<Rightarrow> string \<Rightarrow> ChannelActionError + ChannelInboundActionV1" where
  "inbound_new event_id message_id effect_id generation decision session_digest authority_digest token =
     (let a = \<lparr>ia_schema = CHANNEL_INBOUND_ACTION_SCHEMA, ia_provider_event_id = event_id,
        ia_provider_message_id = message_id, ia_effect_id = effect_id,
        ia_approval_generation = generation, ia_decision = decision,
        ia_source_session_key_digest = session_digest,
        ia_source_authority_digest = authority_digest, ia_callback_token = token\<rparr>
      in case inbound_validate a of Inl e \<Rightarrow> Inl e | Inr _ \<Rightarrow> Inr a)"

definition redacted_evidence :: "(string \<Rightarrow> string) \<Rightarrow> ChannelInboundActionV1
    \<Rightarrow> ChannelActionError + ChannelInboundActionEvidenceV1" where
  "redacted_evidence sha256 a =
     (case inbound_validate a of
        Inl e \<Rightarrow> Inl e
      | Inr _ \<Rightarrow>
     (case public_approval_action_id sha256 (ia_effect_id a) (ia_approval_generation a) (ia_decision a) of
        Inl e \<Rightarrow> Inl e
      | Inr public_action_id \<Rightarrow> Inr
          \<lparr>ie_schema = CHANNEL_INBOUND_ACTION_EVIDENCE_SCHEMA,
           ie_provider_event_id = ia_provider_event_id a,
           ie_provider_message_id = ia_provider_message_id a, ie_effect_id = ia_effect_id a,
           ie_approval_generation = ia_approval_generation a, ie_decision = ia_decision a,
           ie_public_action_id = public_action_id,
           ie_callback_token_digest = sha256_tagged sha256 (ia_callback_token a),
           ie_source_session_key_digest = ia_source_session_key_digest a,
           ie_source_authority_digest = ia_source_authority_digest a\<rparr>))"

end
