(* ===== verification/Lane.thy ===== *)
theory Lane
  imports Rust_Prelude
begin

text \<open>
  The identity of a runtime lane (\<open>src/crates/agent-harness-core/src/lane.rs\<close>): eight named
  axes, their validation, the canonical bytes in which every component is length-prefixed, and
  the two digests computed from them. \<open>sha256\<close> stands for the digest of the library \<open>ring\<close>.

  The locale \<open>prefix_free_codec\<close> is what a sequence of components relies on: the encoding of one
  component determines the component and where it ends. It is interpreted on
  \<open>append_component\<close>, and gives that canonical bytes determine the lane.
\<close>

section \<open>Data\<close>

datatype FullLaneAxisV1 =
    Platform | AccountId | ChannelId | UserId | AgentId | RuntimeClass | RootVirtualSession
  | ConcreteSession

definition FULL_LANE_KEY_SCHEMA :: string where
  "FULL_LANE_KEY_SCHEMA = ''agent-harness.full-lane-key.v1''"

definition MAX_FULL_LANE_AXIS_BYTES :: nat where
  "MAX_FULL_LANE_AXIS_BYTES = 4096"

definition CANONICAL_DOMAIN :: string where
  "CANONICAL_DOMAIN = ''agent-harness/full-lane-key/v1''"

definition VIRTUAL_CANONICAL_DOMAIN :: string where
  "VIRTUAL_CANONICAL_DOMAIN = ''agent-harness/full-virtual-lane-key/v1''"

definition LEGACY_UNKNOWN_PREFIX :: string where
  "LEGACY_UNKNOWN_PREFIX = ''urn:agent-harness:lane:legacy-unknown:v1:''"

definition ALL_AXES :: "FullLaneAxisV1 list" where
  "ALL_AXES = [Platform, AccountId, ChannelId, UserId, AgentId, RuntimeClass, RootVirtualSession,
     ConcreteSession]"

fun field_name :: "FullLaneAxisV1 \<Rightarrow> string" where
  "field_name Platform = ''platform''"
| "field_name AccountId = ''accountId''"
| "field_name ChannelId = ''channelId''"
| "field_name UserId = ''userId''"
| "field_name AgentId = ''agentId''"
| "field_name RuntimeClass = ''runtimeClass''"
| "field_name RootVirtualSession = ''rootVirtualSession''"
| "field_name ConcreteSession = ''concreteSession''"

fun unknown_value :: "FullLaneAxisV1 \<Rightarrow> string" where
  "unknown_value Platform = ''urn:agent-harness:lane:legacy-unknown:v1:platform''"
| "unknown_value AccountId = ''urn:agent-harness:lane:legacy-unknown:v1:accountId''"
| "unknown_value ChannelId = ''urn:agent-harness:lane:legacy-unknown:v1:channelId''"
| "unknown_value UserId = ''urn:agent-harness:lane:legacy-unknown:v1:userId''"
| "unknown_value AgentId = ''urn:agent-harness:lane:legacy-unknown:v1:agentId''"
| "unknown_value RuntimeClass = ''urn:agent-harness:lane:legacy-unknown:v1:runtimeClass''"
| "unknown_value RootVirtualSession =
     ''urn:agent-harness:lane:legacy-unknown:v1:rootVirtualSession''"
| "unknown_value ConcreteSession = ''urn:agent-harness:lane:legacy-unknown:v1:concreteSession''"

record FullLaneKeyV1 =
  fl_schema :: string
  fl_platform :: string
  fl_account_id :: string
  fl_channel_id :: string
  fl_user_id :: string
  fl_agent_id :: string
  fl_runtime_class :: string
  fl_root_virtual_session :: string
  fl_concrete_session :: string

record LegacyLaneKeyV0 =
  ll_platform :: "string option"
  ll_account_id :: "string option"
  ll_channel_id :: "string option"
  ll_user_id :: "string option"
  ll_agent_id :: "string option"
  ll_runtime_class :: "string option"
  ll_root_virtual_session :: "string option"
  ll_concrete_session :: "string option"

datatype FullLaneKeyError =
    UnsupportedSchema string
  | EmptyAxis string
  | NonCanonicalAxis string
  | ControlCharacter string
  | AxisTooLong string nat nat
  | ReservedUnknownValue string

fun lane_error_display :: "FullLaneKeyError \<Rightarrow> string" where
  "lane_error_display (UnsupportedSchema schema) =
     ''unsupported full-lane schema `'' @ schema @ ''`''"
| "lane_error_display (EmptyAxis axis) = ''full-lane axis `'' @ axis @ ''` is empty''"
| "lane_error_display (NonCanonicalAxis axis) =
     ''full-lane axis `'' @ axis @ ''` is not canonical''"
| "lane_error_display (ControlCharacter axis) =
     ''full-lane axis `'' @ axis @ ''` contains a control character''"
| "lane_error_display (AxisTooLong axis actual_bytes max_bytes) =
     ''full-lane axis `'' @ axis @ ''` is '' @ show_nat actual_bytes @ '' bytes; maximum is ''
       @ show_nat max_bytes"
| "lane_error_display (ReservedUnknownValue axis) =
     ''full-lane axis `'' @ axis @ ''` uses a reserved legacy-unknown value''"

section \<open>Validation\<close>

definition validate_common :: "FullLaneAxisV1 \<Rightarrow> string \<Rightarrow> FullLaneKeyError + unit" where
  "validate_common axis v =
     (if v = [] then Inl (EmptyAxis (field_name axis))
      else if has_control v then Inl (ControlCharacter (field_name axis))
      else if MAX_FULL_LANE_AXIS_BYTES < length v
      then Inl (AxisTooLong (field_name axis) (length v) MAX_FULL_LANE_AXIS_BYTES)
      else Inr ())"

definition normalize_known :: "FullLaneAxisV1 \<Rightarrow> string \<Rightarrow> FullLaneKeyError + string" where
  "normalize_known axis v =
     (let normalized = trim v in
      case validate_common axis normalized of
        Inl e \<Rightarrow> Inl e
      | Inr _ \<Rightarrow>
          if starts_with normalized LEGACY_UNKNOWN_PREFIX
          then Inl (ReservedUnknownValue (field_name axis)) else Inr normalized)"

definition normalize_legacy :: "FullLaneAxisV1 \<Rightarrow> string option \<Rightarrow> FullLaneKeyError + string" where
  "normalize_legacy axis v =
     (case v of Some v \<Rightarrow> normalize_known axis v | None \<Rightarrow> Inr (unknown_value axis))"

definition validate_canonical :: "FullLaneAxisV1 \<Rightarrow> string \<Rightarrow> FullLaneKeyError + unit" where
  "validate_canonical axis v =
     (case validate_common axis v of
        Inl e \<Rightarrow> Inl e
      | Inr _ \<Rightarrow>
          if v \<noteq> trim v then Inl (NonCanonicalAxis (field_name axis))
          else if starts_with v LEGACY_UNKNOWN_PREFIX \<and> v \<noteq> unknown_value axis
          then Inl (ReservedUnknownValue (field_name axis))
          else Inr ())"

definition axes :: "FullLaneKeyV1 \<Rightarrow> (FullLaneAxisV1 \<times> string) list" where
  "axes k = [(Platform, fl_platform k), (AccountId, fl_account_id k), (ChannelId, fl_channel_id k),
     (UserId, fl_user_id k), (AgentId, fl_agent_id k), (RuntimeClass, fl_runtime_class k),
     (RootVirtualSession, fl_root_virtual_session k), (ConcreteSession, fl_concrete_session k)]"

fun validate_axes :: "(FullLaneAxisV1 \<times> string) list \<Rightarrow> FullLaneKeyError + unit" where
  "validate_axes [] = Inr ()"
| "validate_axes ((axis, v) # rest) =
     (case validate_canonical axis v of Inl e \<Rightarrow> Inl e | Inr _ \<Rightarrow> validate_axes rest)"

definition lane_validate :: "FullLaneKeyV1 \<Rightarrow> FullLaneKeyError + unit" where
  "lane_validate k =
     (if fl_schema k \<noteq> FULL_LANE_KEY_SCHEMA then Inl (UnsupportedSchema (fl_schema k))
      else validate_axes (axes k))"

text \<open>Deserialisation accepts the fields of the wire record only when they validate.\<close>

definition lane_deserialize :: "FullLaneKeyV1 \<Rightarrow> FullLaneKeyError + FullLaneKeyV1" where
  "lane_deserialize wire = (case lane_validate wire of Inl e \<Rightarrow> Inl e | Inr _ \<Rightarrow> Inr wire)"

text \<open>The eight results of the constructors, combined in the order in which they are evaluated.\<close>

definition lane_of_axes ::
    "(FullLaneAxisV1 \<Rightarrow> FullLaneKeyError + string) \<Rightarrow> FullLaneKeyError + FullLaneKeyV1" where
  "lane_of_axes value =
     (case value Platform of Inl e \<Rightarrow> Inl e | Inr platform \<Rightarrow>
      (case value AccountId of Inl e \<Rightarrow> Inl e | Inr account_id \<Rightarrow>
       (case value ChannelId of Inl e \<Rightarrow> Inl e | Inr channel_id \<Rightarrow>
        (case value UserId of Inl e \<Rightarrow> Inl e | Inr user_id \<Rightarrow>
         (case value AgentId of Inl e \<Rightarrow> Inl e | Inr agent_id \<Rightarrow>
          (case value RuntimeClass of Inl e \<Rightarrow> Inl e | Inr runtime_class \<Rightarrow>
           (case value RootVirtualSession of Inl e \<Rightarrow> Inl e | Inr root_virtual_session \<Rightarrow>
            (case value ConcreteSession of Inl e \<Rightarrow> Inl e | Inr concrete_session \<Rightarrow>
               Inr \<lparr>fl_schema = FULL_LANE_KEY_SCHEMA, fl_platform = platform,
                    fl_account_id = account_id, fl_channel_id = channel_id,
                    fl_user_id = user_id, fl_agent_id = agent_id,
                    fl_runtime_class = runtime_class,
                    fl_root_virtual_session = root_virtual_session,
                    fl_concrete_session = concrete_session\<rparr>))))))))"

text \<open>\<open>FullLaneKeyV1::new\<close>; the arguments are given as a function of the axis.\<close>

definition lane_new :: "(FullLaneAxisV1 \<Rightarrow> string) \<Rightarrow> FullLaneKeyError + FullLaneKeyV1" where
  "lane_new args = lane_of_axes (\<lambda>axis. normalize_known axis (args axis))"

fun legacy_axis :: "LegacyLaneKeyV0 \<Rightarrow> FullLaneAxisV1 \<Rightarrow> string option" where
  "legacy_axis l Platform = ll_platform l"
| "legacy_axis l AccountId = ll_account_id l"
| "legacy_axis l ChannelId = ll_channel_id l"
| "legacy_axis l UserId = ll_user_id l"
| "legacy_axis l AgentId = ll_agent_id l"
| "legacy_axis l RuntimeClass = ll_runtime_class l"
| "legacy_axis l RootVirtualSession = ll_root_virtual_session l"
| "legacy_axis l ConcreteSession = ll_concrete_session l"

definition from_legacy :: "LegacyLaneKeyV0 \<Rightarrow> FullLaneKeyError + FullLaneKeyV1" where
  "from_legacy legacy = lane_of_axes (\<lambda>axis. normalize_legacy axis (legacy_axis legacy axis))"

definition has_legacy_unknowns :: "FullLaneKeyV1 \<Rightarrow> bool" where
  "has_legacy_unknowns k \<longleftrightarrow> list_ex (\<lambda>(axis, v). v = unknown_value axis) (axes k)"

section \<open>Canonical bytes and digests\<close>

definition be_bytes :: "u64 \<Rightarrow> string" where
  "be_bytes n = map (\<lambda>k. char_of (unat n div 256 ^ k)) [7, 6, 5, 4, 3, 2, 1, 0]"

text \<open>A part with its length before it, as the identities of other components are built from their parts.\<close>

definition length_prefixed :: "string \<Rightarrow> string" where
  "length_prefixed v = be_bytes (of_nat (length v)) @ v"

definition component :: "string \<times> string \<Rightarrow> string" where
  "component nv = be_bytes (of_nat (length (fst nv))) @ fst nv
     @ be_bytes (of_nat (length (snd nv))) @ snd nv"

definition append_component :: "string \<Rightarrow> string \<Rightarrow> string \<Rightarrow> string" where
  "append_component bytes name v = bytes @ component (name, v)"

definition lane_bytes :: "string \<Rightarrow> FullLaneKeyV1 \<Rightarrow> (FullLaneAxisV1 \<times> string) list \<Rightarrow> string" where
  "lane_bytes domain k as =
     foldl (\<lambda>bytes (axis, v). append_component bytes (field_name axis) v)
       (append_component (append_component [] ''domain'' domain) ''schema'' (fl_schema k)) as"

definition canonical_bytes :: "FullLaneKeyV1 \<Rightarrow> FullLaneKeyError + string" where
  "canonical_bytes k =
     (case lane_validate k of
        Inl e \<Rightarrow> Inl e
      | Inr _ \<Rightarrow> Inr (lane_bytes CANONICAL_DOMAIN k (axes k)))"

definition identity_hash :: "(string \<Rightarrow> string) \<Rightarrow> FullLaneKeyV1 \<Rightarrow> FullLaneKeyError + string" where
  "identity_hash sha256 k =
     (case canonical_bytes k of Inl e \<Rightarrow> Inl e | Inr bytes \<Rightarrow> Inr (hex_encode (sha256 bytes)))"

definition virtual_identity_hash ::
    "(string \<Rightarrow> string) \<Rightarrow> FullLaneKeyV1 \<Rightarrow> FullLaneKeyError + string" where
  "virtual_identity_hash sha256 k =
     (case lane_validate k of
        Inl e \<Rightarrow> Inl e
      | Inr _ \<Rightarrow> Inr (hex_encode (sha256 (lane_bytes VIRTUAL_CANONICAL_DOMAIN k (take 7 (axes k))))))"

section \<open>Prefix-free components\<close>

locale prefix_free_codec =
  fixes enc :: "'a \<Rightarrow> 'b list"
    and okc :: "'a \<Rightarrow> bool"
  assumes enc_append_inj: "okc x \<Longrightarrow> okc y \<Longrightarrow> enc x @ r = enc y @ s \<Longrightarrow> x = y \<and> r = s"
    and enc_nonempty: "enc x \<noteq> []"
begin

text \<open>Sequences of components are determined by their concatenation.\<close>

lemma concat_inj:
  "list_all okc xs \<Longrightarrow> list_all okc ys \<Longrightarrow> concat (map enc xs) = concat (map enc ys) \<Longrightarrow> xs = ys"
proof (induction xs arbitrary: ys)
  case Nil
  then show ?case using enc_nonempty by (cases ys) auto
next
  case (Cons x xs)
  from Cons.prems(3) obtain y ys' where ys: "ys = y # ys'" using enc_nonempty by (cases ys) auto
  with Cons.prems have "enc x @ concat (map enc xs) = enc y @ concat (map enc ys')" by simp
  with Cons.prems(1,2) ys have "x = y \<and> concat (map enc xs) = concat (map enc ys')"
    by (intro enc_append_inj) auto
  moreover from this have "xs = ys'" using Cons.prems(1,2) ys by (intro Cons.IH) auto
  ultimately show ?case using ys by simp
qed

end

lemma length_be_bytes [simp]: "length (be_bytes n) = 8"
  by (simp add: be_bytes_def)

text \<open>The big-endian bytes of a number, read back.\<close>

lemma big_endian_value:
  "foldl (\<lambda>a c. 256 * a + of_char c) a (map (\<lambda>k. char_of (x div 256 ^ k)) (rev [0..<n]))
     = a * 256 ^ n + (x mod 256 ^ n :: nat)"
proof (induction n arbitrary: a)
  case (Suc n)
  have "x mod 256 ^ Suc n = 256 ^ n * (x div 256 ^ n mod 256) + x mod 256 ^ n"
    using mod_mult2_eq [of x "256 ^ n" 256] by (simp add: mult.commute)
  with Suc show ?case by (simp add: algebra_simps)
qed simp

lemma be_bytes_inj: "be_bytes m = be_bytes n \<Longrightarrow> m = n"
proof -
  have read: "foldl (\<lambda>a c. 256 * a + of_char c) 0 (be_bytes x) = unat x" for x
    using big_endian_value [of 0 "unat x" 8] unat_u64_less [of x]
    by (simp add: be_bytes_def upt_rec)
  assume "be_bytes m = be_bytes n"
  then have "unat m = unat n" using read [of m] read [of n] by simp
  then show ?thesis by (simp add: word_unat_eq_iff)
qed

definition component_ok :: "string \<times> string \<Rightarrow> bool" where
  "component_ok nv \<longleftrightarrow> length (fst nv) < 2 ^ 64 \<and> length (snd nv) < 2 ^ 64"

lemma sized_append_inj:
  assumes "length a < 2 ^ 64" and "length b < 2 ^ 64"
    and "be_bytes (of_nat (length a)) @ a @ r = be_bytes (of_nat (length b)) @ b @ s"
  shows "a = b \<and> r = s"
proof -
  have "be_bytes (of_nat (length a)) = be_bytes (of_nat (length b))" and rest: "a @ r = b @ s"
    using assms(3) by (simp_all add: append_eq_append_conv)
  then have "(of_nat (length a) :: u64) = of_nat (length b)" by (simp add: be_bytes_inj)
  then have "unat (of_nat (length a) :: u64) = unat (of_nat (length b) :: u64)" by simp
  then have "length a = length b" using assms(1,2) by (simp add: unat_of_nat)
  with rest show ?thesis by simp
qed

interpretation lane_codec: prefix_free_codec component component_ok
proof unfold_locales
  fix x y r s
  assume ok: "component_ok x" "component_ok y" and eq: "component x @ r = component y @ s"
  have 1: "fst x = fst y \<and> be_bytes (of_nat (length (snd x))) @ snd x @ r
      = be_bytes (of_nat (length (snd y))) @ snd y @ s"
    using ok eq by (intro sized_append_inj) (auto simp: component_ok_def component_def)
  then have "snd x = snd y \<and> r = s"
    using ok by (intro sized_append_inj) (auto simp: component_ok_def)
  with 1 show "x = y \<and> r = s" by (simp add: prod_eq_iff)
next
  fix x
  have "length (component x) \<noteq> 0" by (simp add: component_def)
  then show "component x \<noteq> []" by auto
qed

interpretation sized_codec: prefix_free_codec length_prefixed "\<lambda>v. length v < 2 ^ 64"
proof unfold_locales
  fix x y r s :: string
  assume "length x < 2 ^ 64" "length y < 2 ^ 64" and "length_prefixed x @ r = length_prefixed y @ s"
  then show "x = y \<and> r = s" by (intro sized_append_inj) (simp_all add: length_prefixed_def)
next
  fix x
  have "length (length_prefixed x) \<noteq> 0" by (simp add: length_prefixed_def)
  then show "length_prefixed x \<noteq> []" by auto
qed

section \<open>Validated lanes\<close>

lemma lane_bytes_concat:
  "lane_bytes domain k as = concat (map component
     ((''domain'', domain) # (''schema'', fl_schema k) # map (\<lambda>(a, v). (field_name a, v)) as))"
proof -
  have "foldl (\<lambda>bytes (axis, v). append_component bytes (field_name axis) v) b as
      = b @ concat (map component (map (\<lambda>(a, v). (field_name a, v)) as))" for b
    by (induction as arbitrary: b) (auto simp: append_component_def)
  then show ?thesis by (simp add: lane_bytes_def append_component_def)
qed

lemma validate_axes_Inr_iff:
  "validate_axes as = Inr () \<longleftrightarrow> (\<forall>(a, v) \<in> set as. validate_canonical a v = Inr ())"
  by (induction as rule: validate_axes.induct) (auto split: sum.splits)

lemma validate_canonical_Inr:
  "validate_canonical a v = Inr () \<longleftrightarrow>
     v \<noteq> [] \<and> \<not> has_control v \<and> length v \<le> 4096 \<and> trim v = v
     \<and> (starts_with v LEGACY_UNKNOWN_PREFIX \<longrightarrow> v = unknown_value a)"
  by (auto simp: validate_canonical_def validate_common_def MAX_FULL_LANE_AXIS_BYTES_def
      split: sum.splits if_splits)

lemma lane_validate_Inr_iff:
  "lane_validate k = Inr () \<longleftrightarrow> fl_schema k = FULL_LANE_KEY_SCHEMA
     \<and> (\<forall>(a, v) \<in> set (axes k). validate_canonical a v = Inr ())"
  by (simp add: lane_validate_def validate_axes_Inr_iff)

lemma lane_eqI: "fl_schema k = fl_schema k' \<Longrightarrow> axes k = axes k' \<Longrightarrow> k = k'"
  by (rule FullLaneKeyV1.equality) (simp_all add: axes_def)

lemma field_name_less: "length (field_name a) < 2 ^ 64"
  by (cases a) simp_all

lemma axes_components_ok:
  assumes "lane_validate k = Inr ()" and "set as \<subseteq> set (axes k)" and "length domain < 2 ^ 64"
  shows "list_all component_ok ((''domain'', domain) # (''schema'', fl_schema k)
    # map (\<lambda>(a, v). (field_name a, v)) as)"
proof -
  have "length v < 2 ^ 64" if "(a, v) \<in> set as" for a v
  proof -
    have "validate_canonical a v = Inr ()"
      using that assms(1,2) by (auto simp: lane_validate_Inr_iff)
    then have "length v \<le> 4096" by (simp add: validate_canonical_Inr)
    then show ?thesis by simp
  qed
  moreover have "length (fl_schema k) < 2 ^ 64"
    using assms(1) by (simp add: lane_validate_Inr_iff FULL_LANE_KEY_SCHEMA_def)
  ultimately show ?thesis
    using assms(3) field_name_less by (auto simp: component_ok_def list_all_iff)
qed

lemma map_axes_inj:
  "map fst as = map fst bs \<Longrightarrow>
   map (\<lambda>(a, v). (field_name a, v)) as = map (\<lambda>(a, v). (field_name a, v)) bs \<Longrightarrow> as = bs"
proof (induction as arbitrary: bs)
  case (Cons x as)
  then obtain y ys where "bs = y # ys" by (cases bs) auto
  with Cons.prems Cons.IH [of ys] show ?case by (cases x; cases y) auto
qed simp

lemma map_fst_axes: "map fst (axes k) = ALL_AXES"
  by (simp add: axes_def ALL_AXES_def)

text \<open>The two byte strings determine the domain, the schema and the axes that were written.\<close>

lemma lane_bytes_inj:
  assumes "lane_validate k = Inr ()" and "lane_validate k' = Inr ()"
    and "length domain < 2 ^ 64" and "length domain' < 2 ^ 64"
    and "lane_bytes domain k (take n (axes k)) = lane_bytes domain' k' (take m (axes k'))"
  shows "domain = domain' \<and> (n = m \<longrightarrow> take n (axes k) = take m (axes k'))"
proof -
  let ?cs = "\<lambda>d k n. (''domain'', d) # (''schema'', fl_schema k)
    # map (\<lambda>(a, v). (field_name a, v)) (take n (axes k))"
  have "?cs domain k n = ?cs domain' k' m"
    using assms by (intro lane_codec.concat_inj axes_components_ok)
      (auto simp: lane_bytes_concat dest: in_set_takeD)
  moreover have "map fst (take n (axes k)) = map fst (take n (axes k'))"
    by (simp add: map_fst_axes flip: take_map)
  ultimately show ?thesis by (auto intro: map_axes_inj)
qed

lemma lane_of_axes_Inr:
  "lane_of_axes f = Inr k \<Longrightarrow> fl_schema k = FULL_LANE_KEY_SCHEMA
     \<and> (\<forall>(a, v) \<in> set (axes k). f a = Inr v)"
  by (auto simp: lane_of_axes_def axes_def split: sum.splits)

lemma lane_of_axes_Inl: "lane_of_axes f = Inl e \<Longrightarrow> \<exists>a. f a = Inl e"
  by (auto simp: lane_of_axes_def split: sum.splits)

lemma normalize_known_Inr:
  "normalize_known a v = Inr w \<Longrightarrow> w = trim v \<and> validate_canonical a w = Inr ()
     \<and> \<not> starts_with w LEGACY_UNKNOWN_PREFIX"
  by (auto simp: normalize_known_def validate_canonical_def Let_def split: sum.splits if_splits)

lemma unknown_value_prefix: "starts_with (unknown_value a) LEGACY_UNKNOWN_PREFIX"
  by (cases a) (simp_all add: starts_with_def LEGACY_UNKNOWN_PREFIX_def)

lemma unknown_value_canonical: "validate_canonical a (unknown_value a) = Inr ()"
proof -
  have "trim (unknown_value a) = unknown_value a"
    by (rule trim_graphic_ends; cases a; simp add: ascii_graphic_def)
  moreover have "\<not> has_control (unknown_value a)" "length (unknown_value a) \<le> 4096"
    "unknown_value a \<noteq> []"
    by (cases a; simp)+
  ultimately show ?thesis by (simp add: validate_canonical_Inr)
qed

section \<open>Properties\<close>

text \<open>
  C37. Canonical bytes identify a lane: two lanes with the same canonical bytes are equal, so two
  lanes with the same identity digest are equal unless SHA-256 has a collision; and two lanes
  with the same virtual digest agree on every axis but the concrete session, again unless there
  is a collision. Separators inside identifiers play no role.
\<close>

theorem lane_identity_injective:
  assumes "lane_validate k = Inr ()" and "lane_validate k' = Inr ()"
  shows "(canonical_bytes k = canonical_bytes k' \<longleftrightarrow> k = k')
    \<and> (identity_hash sha256 k = identity_hash sha256 k' \<longrightarrow>
         k = k' \<or> (\<exists>x y. x \<noteq> y \<and> sha256 x = sha256 y))
    \<and> (virtual_identity_hash sha256 k = virtual_identity_hash sha256 k' \<longrightarrow>
         take 7 (axes k) = take 7 (axes k') \<or> (\<exists>x y. x \<noteq> y \<and> sha256 x = sha256 y))
    \<and> (identity_hash sha256 k = virtual_identity_hash sha256 k' \<longrightarrow>
         (\<exists>x y. x \<noteq> y \<and> sha256 x = sha256 y))"
proof -
  have d: "length CANONICAL_DOMAIN < 2 ^ 64" "length VIRTUAL_CANONICAL_DOMAIN < 2 ^ 64"
    by (simp_all add: CANONICAL_DOMAIN_def VIRTUAL_CANONICAL_DOMAIN_def)
  have take8: "take 8 (axes k) = axes k" for k by (simp add: axes_def)
  have sch: "fl_schema k = fl_schema k'" using assms by (simp add: lane_validate_Inr_iff)
  have full: "lane_bytes CANONICAL_DOMAIN k (axes k) = lane_bytes CANONICAL_DOMAIN k' (axes k') \<Longrightarrow> k = k'"
    using lane_bytes_inj [OF assms d(1) d(1), of 8 8] by (auto simp: take8 intro: lane_eqI [OF sch])
  have virt: "lane_bytes VIRTUAL_CANONICAL_DOMAIN k (take 7 (axes k))
      = lane_bytes VIRTUAL_CANONICAL_DOMAIN k' (take 7 (axes k')) \<Longrightarrow> take 7 (axes k) = take 7 (axes k')"
    using lane_bytes_inj [OF assms d(2) d(2), of 7 7] by auto
  have cross: "lane_bytes CANONICAL_DOMAIN k (axes k)
      \<noteq> lane_bytes VIRTUAL_CANONICAL_DOMAIN k' (take 7 (axes k'))"
    using lane_bytes_inj [OF assms d, of 8 7]
    by (auto simp: take8 CANONICAL_DOMAIN_def VIRTUAL_CANONICAL_DOMAIN_def)
  have hash: "identity_hash sha256 j = Inr (hex_encode (sha256 (lane_bytes CANONICAL_DOMAIN j (axes j))))"
    "virtual_identity_hash sha256 j
       = Inr (hex_encode (sha256 (lane_bytes VIRTUAL_CANONICAL_DOMAIN j (take 7 (axes j)))))"
    "canonical_bytes j = Inr (lane_bytes CANONICAL_DOMAIN j (axes j))" if "lane_validate j = Inr ()" for j
    using that by (simp_all add: identity_hash_def virtual_identity_hash_def canonical_bytes_def)
  have collide: "x = y \<or> (\<exists>x y. x \<noteq> y \<and> sha256 x = sha256 y)"
    if "hex_encode (sha256 x) = hex_encode (sha256 y)" for x y
    using hex_encode_inj [OF that] by blast
  show ?thesis
    unfolding hash [OF assms(1)] hash [OF assms(2)] sum.inject
    using full virt cross by (intro conjI impI) (blast dest: collide)+
qed

definition demo_lane :: "string \<Rightarrow> FullLaneKeyV1" where
  "demo_lane channel = \<lparr>fl_schema = FULL_LANE_KEY_SCHEMA, fl_platform = ''discord'',
     fl_account_id = ''a1'', fl_channel_id = channel, fl_user_id = ''u1'', fl_agent_id = ''main'',
     fl_runtime_class = ''interactive'', fl_root_virtual_session = ''r:1'',
     fl_concrete_session = ''s1''\<rparr>"

lemma plain_axis_canonical:
  "list_all ascii_graphic v \<Longrightarrow> v \<noteq> [] \<Longrightarrow> length v \<le> 40 \<Longrightarrow> validate_canonical a v = Inr ()"
proof -
  assume g: "list_all ascii_graphic v" "v \<noteq> []" "length v \<le> 40"
  have "trim v = v" using g by (intro trim_graphic_ends) (auto simp: list_all_iff)
  moreover have "\<not> has_control v" using g(1)
    by (induction v) (auto simp: ascii_graphic_def)
  moreover have "\<not> starts_with v LEGACY_UNKNOWN_PREFIX"
    using g(3) by (auto simp: starts_with_iff LEGACY_UNKNOWN_PREFIX_def)
  ultimately show ?thesis using g by (simp add: validate_canonical_Inr)
qed

lemma demo_lane_valid:
  "channel \<in> {''c:1'', ''c''} \<Longrightarrow> lane_validate (demo_lane channel) = Inr ()"
  by (auto simp: lane_validate_Inr_iff demo_lane_def axes_def plain_axis_canonical ascii_graphic_def)

theorem lane_identity_injective_witness:
  "canonical_bytes (demo_lane ''c:1'') \<noteq> canonical_bytes (demo_lane ''c'')"
  using lane_identity_injective [OF demo_lane_valid [of "''c:1''"] demo_lane_valid [of "''c''"]]
  by (simp add: demo_lane_def)

text \<open>
  The constructor accepts an argument list exactly when every axis, trimmed, is non-empty,
  free of control characters, at most 4096 bytes long and outside the reserved namespace. The
  lane it builds holds the trimmed values, validates, survives deserialisation unchanged and has
  no unknown axis. A rejected list names an axis that is at fault.
\<close>

theorem lane_new_spec:
  "case lane_new args of
     Inr k \<Rightarrow> axes k = map (\<lambda>a. (a, trim (args a))) ALL_AXES \<and> lane_validate k = Inr ()
       \<and> lane_deserialize k = Inr k \<and> \<not> has_legacy_unknowns k
   | Inl e \<Rightarrow> \<exists>a. normalize_known a (args a) = Inl e
       \<and> (trim (args a) = [] \<or> has_control (trim (args a)) \<or> 4096 < length (trim (args a))
          \<or> starts_with (trim (args a)) LEGACY_UNKNOWN_PREFIX)"
proof (cases "lane_new args")
  case (Inl e)
  then obtain a where a: "normalize_known a (args a) = Inl e"
    by (auto simp: lane_new_def dest: lane_of_axes_Inl)
  then have "trim (args a) = [] \<or> has_control (trim (args a)) \<or> 4096 < length (trim (args a))
      \<or> starts_with (trim (args a)) LEGACY_UNKNOWN_PREFIX"
    by (auto simp: normalize_known_def validate_common_def MAX_FULL_LANE_AXIS_BYTES_def Let_def
        split: sum.splits if_splits)
  with a Inl show ?thesis by auto
next
  case (Inr k)
  then have sch: "fl_schema k = FULL_LANE_KEY_SCHEMA"
    and ax: "\<forall>(a, v) \<in> set (axes k). normalize_known a (args a) = Inr v"
    using lane_of_axes_Inr [of "\<lambda>axis. normalize_known axis (args axis)" k]
    by (auto simp: lane_new_def)
  then have val: "lane_validate k = Inr ()"
    by (auto simp: lane_validate_Inr_iff dest: normalize_known_Inr)
  have "v \<noteq> unknown_value a" if "(a, v) \<in> set (axes k)" for a v
    using that ax normalize_known_Inr [of a "args a" v] unknown_value_prefix by auto
  then have "\<not> has_legacy_unknowns k" by (auto simp: has_legacy_unknowns_def list_ex_iff)
  moreover have "axes k = map (\<lambda>a. (a, trim (args a))) (map fst (axes k))"
  proof -
    have "trim (args a) = v" if "(a, v) \<in> set (axes k)" for a v
      using ax that normalize_known_Inr [of a "args a" v] by auto
    then show ?thesis by (auto intro!: map_idI [symmetric])
  qed
  ultimately show ?thesis
    using Inr val by (simp add: lane_deserialize_def map_fst_axes)
qed

text \<open>
  A lane migrated from a legacy identity always validates, and it is marked as having
  unknown axes exactly when the legacy record omitted one: no value a caller can supply is
  mistaken for an unknown axis.
\<close>

theorem from_legacy_spec:
  assumes "from_legacy legacy = Inr k"
  shows "lane_validate k = Inr () \<and> (has_legacy_unknowns k \<longleftrightarrow> (\<exists>a. legacy_axis legacy a = None))"
proof -
  have sch: "fl_schema k = FULL_LANE_KEY_SCHEMA"
    and ax: "\<forall>(a, v) \<in> set (axes k). normalize_legacy a (legacy_axis legacy a) = Inr v"
    using lane_of_axes_Inr [of "\<lambda>axis. normalize_legacy axis (legacy_axis legacy axis)" k] assms
    by (auto simp: from_legacy_def)
  have val: "validate_canonical a v = Inr () \<and> (v = unknown_value a \<longleftrightarrow> legacy_axis legacy a = None)"
    if "(a, v) \<in> set (axes k)" for a v
    using that ax normalize_known_Inr [of a _ v] unknown_value_prefix unknown_value_canonical
    by (fastforce simp: normalize_legacy_def split: option.splits)
  have all: "\<exists>v. (a, v) \<in> set (axes k)" for a
    by (cases a) (auto simp: axes_def)
  have "has_legacy_unknowns k \<longleftrightarrow> (\<exists>a. legacy_axis legacy a = None)"
  proof
    assume "has_legacy_unknowns k"
    then obtain a v where "(a, v) \<in> set (axes k)" "v = unknown_value a"
      by (auto simp: has_legacy_unknowns_def list_ex_iff)
    with val show "\<exists>a. legacy_axis legacy a = None" by blast
  next
    assume "\<exists>a. legacy_axis legacy a = None"
    then obtain a v where "legacy_axis legacy a = None" "(a, v) \<in> set (axes k)" using all by blast
    with val show "has_legacy_unknowns k" by (auto simp: has_legacy_unknowns_def list_ex_iff)
  qed
  with sch val show ?thesis by (auto simp: lane_validate_Inr_iff)
qed

theorem from_legacy_spec_witness:
  "\<exists>k. from_legacy \<lparr>ll_platform = Some ''discord'', ll_account_id = None, ll_channel_id = None,
      ll_user_id = None, ll_agent_id = None, ll_runtime_class = None,
      ll_root_virtual_session = None, ll_concrete_session = None\<rparr> = Inr k
    \<and> lane_validate k = Inr () \<and> has_legacy_unknowns k"
proof -
  let ?l = "\<lparr>ll_platform = Some ''discord'', ll_account_id = None, ll_channel_id = None,
      ll_user_id = None, ll_agent_id = None, ll_runtime_class = None,
      ll_root_virtual_session = None, ll_concrete_session = None\<rparr>"
  have "trim ''discord'' = ''discord''"
    by (rule trim_graphic_ends) (simp_all add: ascii_graphic_def)
  then have "normalize_known Platform ''discord'' = Inr ''discord''"
    by (simp add: normalize_known_def validate_common_def MAX_FULL_LANE_AXIS_BYTES_def
        starts_with_def LEGACY_UNKNOWN_PREFIX_def)
  then obtain k where k: "from_legacy ?l = Inr k"
    by (simp add: from_legacy_def lane_of_axes_def normalize_legacy_def)
  moreover have "legacy_axis ?l AccountId = None" by simp
  ultimately show ?thesis using from_legacy_spec [OF k] by blast
qed

end
