(* ===== verification/Jsonl.thy ===== *)
theory Jsonl
  imports Rust_Prelude
begin

text \<open>
  The append-only JSONL ledgers every component writes (\<open>src/crates/agent-harness-core/src/logging.rs\<close>).
  A file is its text. Serialisation and parsing (\<open>serde_json\<close>) are parameters: \<open>enc\<close> gives
  the bytes of a record, \<open>dec\<close> the record of a line, or \<open>None\<close> when the line does not parse.

  The locale \<open>append_ledger\<close> is what a client of a ledger relies on: appending a row to a
  file adds exactly that row at the end, whatever the file held before, a torn last line
  included. It is interpreted below on the text of a JSONL file.
\<close>

section \<open>Lines of a text\<close>

text \<open>\<open>str::lines\<close>: the pieces up to each line feed, a carriage return before it removed too.\<close>

fun split_inclusive :: "string \<Rightarrow> string list" where
  "split_inclusive [] = []"
| "split_inclusive (c # cs) =
     (if c = nl then [c] # split_inclusive cs
      else case split_inclusive cs of [] \<Rightarrow> [[c]] | l # ls \<Rightarrow> (c # l) # ls)"

definition strip_line_end :: "string \<Rightarrow> string" where
  "strip_line_end l =
     (case strip_suffix l [nl] of None \<Rightarrow> l
      | Some l' \<Rightarrow> (case strip_suffix l' [cr] of None \<Rightarrow> l' | Some l'' \<Rightarrow> l''))"

definition text_lines :: "string \<Rightarrow> string list" where
  "text_lines t = map strip_line_end (split_inclusive t)"

text \<open>What the readers of a ledger iterate over: the lines that are not blank.\<close>

definition jsonl_lines :: "string \<Rightarrow> string list" where
  "jsonl_lines t = filter (\<lambda>l. \<not> is_blank l) (text_lines t)"

section \<open>Appending\<close>

definition jsonl_needs_leading_newline :: "string \<Rightarrow> bool" where
  "jsonl_needs_leading_newline t \<longleftrightarrow> t \<noteq> [] \<and> last t \<noteq> nl"

definition append_jsonl_line :: "string \<Rightarrow> string \<Rightarrow> string" where
  "append_jsonl_line line t =
     t @ (if jsonl_needs_leading_newline t then [nl] else []) @ line @ [nl]"

definition append_jsonl_value :: "('a \<Rightarrow> string) \<Rightarrow> 'a \<Rightarrow> string \<Rightarrow> string" where
  "append_jsonl_value enc v t = append_jsonl_line (enc v) t"

text \<open>
  \<open>append_jsonl_value_once_by_event_key\<close>: \<open>key\<close> reads the field \<open>eventKey\<close> of a record. The
  scan stops at the first line that carries the key, and fails at the first line before it
  that does not parse.
\<close>

fun scan_event_key :: "(string \<Rightarrow> 'a option) \<Rightarrow> ('a \<Rightarrow> string option) \<Rightarrow> string \<Rightarrow> string list
    \<Rightarrow> io_error + bool" where
  "scan_event_key dec key k [] = Inr False"
| "scan_event_key dec key k (l # ls) =
     (if is_blank l then scan_event_key dec key k ls
      else case dec l of
        None \<Rightarrow> Inl (IoError InvalidData ''invalid JSONL record'')
      | Some v \<Rightarrow> if key v = Some k then Inr True else scan_event_key dec key k ls)"

definition append_jsonl_value_once_by_event_key ::
    "('a \<Rightarrow> string) \<Rightarrow> (string \<Rightarrow> 'a option) \<Rightarrow> ('a \<Rightarrow> string option) \<Rightarrow> 'a \<Rightarrow> string
      \<Rightarrow> string \<times> (io_error + bool)" where
  "append_jsonl_value_once_by_event_key enc dec key v t =
     (case key v of
        None \<Rightarrow> (t, Inl (IoError InvalidData ''eventKey is required''))
      | Some k \<Rightarrow>
          if is_blank k then (t, Inl (IoError InvalidData ''eventKey is required''))
          else case scan_event_key dec key k (text_lines t) of
            Inl e \<Rightarrow> (t, Inl e)
          | Inr True \<Rightarrow> (t, Inr False)
          | Inr False \<Rightarrow> (append_jsonl_line (enc v) t, Inr True))"

section \<open>The interface of an append-only ledger\<close>

locale append_ledger =
  fixes rows :: "'f \<Rightarrow> 'r list"
    and append :: "'r \<Rightarrow> 'f \<Rightarrow> 'f"
    and okf :: "'f \<Rightarrow> bool"
    and okr :: "'r \<Rightarrow> bool"
  assumes rows_append: "okf f \<Longrightarrow> okr r \<Longrightarrow> rows (append r f) = rows f @ [r]"
    and okf_append: "okf f \<Longrightarrow> okr r \<Longrightarrow> okf (append r f)"
begin

lemma rows_fold_append:
  assumes "okf f" and "\<forall>r \<in> set rs. okr r"
  shows "rows (fold append rs f) = rows f @ rs \<and> okf (fold append rs f)"
  using assms
proof (induction rs arbitrary: f)
  case Nil
  then show ?case by simp
next
  case (Cons r rs)
  then have "rows (fold append rs (append r f)) = rows (append r f) @ rs
      \<and> okf (fold append rs (append r f))"
    by (auto intro: okf_append)
  with Cons.prems show ?case by (simp add: rows_append)
qed

lemma rows_append_set: "okf f \<Longrightarrow> okr r \<Longrightarrow> set (rows (append r f)) = insert r (set (rows f))"
  by (simp add: rows_append)

text \<open>Reading the latest row with a key: the last write wins, other keys are untouched.\<close>

lemma latest_append:
  assumes "okf f" and "okr r"
  shows "find P (rev (rows (append r f))) = (if P r then Some r else find P (rev (rows f)))"
  using assms by (simp add: rows_append)

end

section \<open>The text of a JSONL file is an append-only ledger\<close>

lemma split_inclusive_eq_Nil [simp]: "split_inclusive t = [] \<longleftrightarrow> t = []"
  by (cases t) (auto split: list.splits)

lemma split_inclusive_append:
  "jsonl_needs_leading_newline t = False \<Longrightarrow>
   split_inclusive (t @ u) = split_inclusive t @ split_inclusive u"
proof (induction t)
  case (Cons c t)
  show ?case
  proof (cases t)
    case Nil
    with Cons.prems show ?thesis by (auto simp: jsonl_needs_leading_newline_def)
  next
    case (Cons d t')
    with Cons.prems have "split_inclusive (t @ u) = split_inclusive t @ split_inclusive u"
      using Cons.IH by (simp add: jsonl_needs_leading_newline_def)
    with Cons show ?thesis by (auto split: list.splits)
  qed
qed simp

lemma split_inclusive_no_nl: "nl \<notin> set l \<Longrightarrow> split_inclusive (l @ [nl]) = [l @ [nl]]"
  by (induction l) auto

lemma split_inclusive_add_nl:
  "jsonl_needs_leading_newline t \<Longrightarrow>
   split_inclusive (t @ [nl]) =
     butlast (split_inclusive t) @ [last (split_inclusive t) @ [nl]]"
proof (induction t)
  case (Cons c t)
  show ?case
  proof (cases t)
    case Nil
    with Cons.prems show ?thesis by (auto simp: jsonl_needs_leading_newline_def)
  next
    case (Cons d t')
    with Cons.prems Cons.IH
    have "split_inclusive (t @ [nl]) = butlast (split_inclusive t) @ [last (split_inclusive t) @ [nl]]"
      by (simp add: jsonl_needs_leading_newline_def)
    with Cons show ?thesis by (auto split: list.splits)
  qed
qed (simp add: jsonl_needs_leading_newline_def)

lemma last_split_inclusive:
  "t \<noteq> [] \<Longrightarrow> last (split_inclusive t) \<noteq> [] \<and> last (last (split_inclusive t)) = last t"
proof (induction t)
  case (Cons c t)
  show ?case
  proof (cases "t = []")
    case False
    then obtain l ls where "split_inclusive t = l # ls"
      by (metis list.exhaust split_inclusive_eq_Nil)
    with False Cons.IH show ?thesis by auto
  qed simp
qed simp

lemma strip_line_end_nl [simp]: "l = [] \<or> last l \<noteq> cr \<Longrightarrow> strip_line_end (l @ [nl]) = l"
  by (auto simp: strip_line_end_def strip_suffix_Some_iff split: option.splits)

lemma strip_line_end_no_nl [simp]: "l = [] \<or> last l \<noteq> nl \<Longrightarrow> strip_line_end l = l"
  by (auto simp: strip_line_end_def strip_suffix_Some_iff split: option.splits)

definition okf_text :: "string \<Rightarrow> bool" where
  "okf_text t \<longleftrightarrow> t = [] \<or> last t \<noteq> cr"

definition okr_line :: "string \<Rightarrow> bool" where
  "okr_line l \<longleftrightarrow> nl \<notin> set l \<and> last l \<noteq> cr \<and> \<not> is_blank l"

lemma text_lines_complete: "\<not> jsonl_needs_leading_newline t \<Longrightarrow> okr_line l \<Longrightarrow>
  text_lines (t @ l @ [nl]) = text_lines t @ [l]"
  by (simp add: text_lines_def split_inclusive_append split_inclusive_no_nl okr_line_def)

lemma text_lines_repair:
  assumes "jsonl_needs_leading_newline t" and "okf_text t"
  shows "text_lines (t @ [nl]) = text_lines t"
proof -
  let ?ls = "split_inclusive t"
  have t: "t \<noteq> []" "last t \<noteq> nl" "last t \<noteq> cr"
    using assms by (auto simp: jsonl_needs_leading_newline_def okf_text_def)
  then have "strip_line_end (last ?ls @ [nl]) = strip_line_end (last ?ls)"
    using last_split_inclusive [of t] by simp
  then have "text_lines (t @ [nl]) = map strip_line_end (butlast ?ls @ [last ?ls])"
    using assms(1) by (simp add: text_lines_def split_inclusive_add_nl)
  also have "butlast ?ls @ [last ?ls] = ?ls"
    using t(1) by simp
  finally show ?thesis by (simp add: text_lines_def)
qed

lemma text_lines_append_jsonl_line:
  assumes "okf_text t" and "okr_line l"
  shows "text_lines (append_jsonl_line l t) = text_lines t @ [l]"
proof (cases "jsonl_needs_leading_newline t")
  case True
  have "\<not> jsonl_needs_leading_newline (t @ [nl])"
    by (simp add: jsonl_needs_leading_newline_def)
  then have "text_lines ((t @ [nl]) @ l @ [nl]) = text_lines (t @ [nl]) @ [l]"
    using assms(2) by (rule text_lines_complete)
  with True assms(1) show ?thesis by (simp add: append_jsonl_line_def text_lines_repair)
next
  case False
  with assms(2) show ?thesis by (simp add: append_jsonl_line_def text_lines_complete)
qed

interpretation jsonl_text: append_ledger jsonl_lines append_jsonl_line okf_text okr_line
proof unfold_locales
  fix t l
  assume "okf_text t" and "okr_line l"
  then show "jsonl_lines (append_jsonl_line l t) = jsonl_lines t @ [l]"
    by (simp add: jsonl_lines_def text_lines_append_jsonl_line okr_line_def)
  show "okf_text (append_jsonl_line l t)"
    by (simp add: okf_text_def append_jsonl_line_def nl_def cr_def)
qed

text \<open>
  The rows a reader sees: the non-blank lines, each parsed. A line cut off by a crash is a
  row that does not parse, and no row before it is lost.
\<close>

definition jsonl_rows :: "(string \<Rightarrow> 'a option) \<Rightarrow> string \<Rightarrow> 'a option list" where
  "jsonl_rows dec t = map dec (jsonl_lines t)"

text \<open>What is relied on of \<open>serde_json\<close>: it parses back what it wrote, on one line.\<close>

definition codec_ok :: "('a \<Rightarrow> string) \<Rightarrow> (string \<Rightarrow> 'a option) \<Rightarrow> 'a \<Rightarrow> bool" where
  "codec_ok enc dec v \<longleftrightarrow> dec (enc v) = Some v \<and> okr_line (enc v)"

text \<open>
  Appending a record to a ledger leaves every row a reader saw before in place and adds
  exactly the new record at the end, also when the last line of the file was cut off in the
  middle by an interrupted append (the writer then starts a new line first).
\<close>

theorem append_jsonl_value_rows:
  assumes "okf_text t" and "codec_ok enc dec v"
  shows "jsonl_rows dec (append_jsonl_value enc v t) = jsonl_rows dec t @ [Some v]"
  using assms
  by (simp add: jsonl_rows_def append_jsonl_value_def codec_ok_def jsonl_text.rows_append)

theorem append_jsonl_value_rows_witness:
  "jsonl_rows (\<lambda>l. if l = ''{1}'' then Some True else None)
     (append_jsonl_value (\<lambda>_. ''{1}'') True (''{1}'' @ [nl] @ ''{tor''))
   = [Some True, None, Some True]"
proof -
  let ?dec = "\<lambda>l. if l = ''{1}'' then Some True else None"
  have ok: "\<not> is_blank ''{1}''" "\<not> is_blank ''{tor''"
    by (rule not_blank_graphic_ends; simp add: ascii_graphic_def)+
  then have c: "codec_ok (\<lambda>_. ''{1}'') ?dec True"
    by (simp add: codec_ok_def okr_line_def nl_def cr_def)
  have f: "okf_text (''{1}'' @ [nl] @ ''{tor'')"
    by (simp add: okf_text_def cr_def)
  have "jsonl_rows ?dec (''{1}'' @ [nl] @ ''{tor'') = [Some True, None]"
    using ok by (simp add: jsonl_rows_def jsonl_lines_def text_lines_def nl_def strip_line_end_def
        strip_suffix_def ends_with_def cr_def)
  then show ?thesis using append_jsonl_value_rows [OF f c] by simp
qed

section \<open>Appending once per event key\<close>

lemma scan_event_key_False:
  "scan_event_key dec key k ls = Inr False \<longleftrightarrow>
     (\<forall>l \<in> set ls. \<not> is_blank l \<longrightarrow> (\<exists>v. dec l = Some v \<and> key v \<noteq> Some k))"
  by (induction ls) (auto split: option.splits)

lemma scan_event_key_True:
  "scan_event_key dec key k ls = Inr True \<Longrightarrow>
     \<exists>l \<in> set ls. \<not> is_blank l \<and> (\<exists>v. dec l = Some v \<and> key v = Some k)"
  by (induction ls) (auto split: option.splits if_splits)

lemma scan_event_key_snoc:
  assumes "scan_event_key dec key k ls = Inr False" and "\<not> is_blank l"
    and "dec l = Some v" and "key v = Some k"
  shows "scan_event_key dec key k (ls @ [l]) = Inr True"
  using assms by (induction ls) (auto split: option.splits if_splits)

text \<open>
  Appending by event key is exactly once: when it returns, it has added the record at the end
  if no record had that event key, and changed nothing otherwise; repeating it after that
  leaves the file as it is and reports that nothing was written.
\<close>

theorem append_once_by_event_key:
  assumes "okf_text t" and "codec_ok enc dec v" and "key v = Some k"
    and "append_jsonl_value_once_by_event_key enc dec key v t = (t', Inr added)"
  shows "(added \<longleftrightarrow> (\<forall>r. Some r \<in> set (jsonl_rows dec t) \<longrightarrow> key r \<noteq> Some k))
    \<and> jsonl_rows dec t' = (if added then jsonl_rows dec t @ [Some v] else jsonl_rows dec t)
    \<and> append_jsonl_value_once_by_event_key enc dec key v t' = (t', Inr False)"
proof -
  from assms(3,4) have k: "\<not> is_blank k"
    and scan: "scan_event_key dec key k (text_lines t) = Inr (\<not> added)"
    and t': "t' = (if added then append_jsonl_line (enc v) t else t)"
    by (auto simp: append_jsonl_value_once_by_event_key_def split: sum.splits bool.splits if_splits)
  have enc: "dec (enc v) = Some v" "okr_line (enc v)" using assms(2) by (auto simp: codec_ok_def)
  have rows: "Some r \<in> set (jsonl_rows dec t) \<longleftrightarrow>
      (\<exists>l \<in> set (text_lines t). \<not> is_blank l \<and> dec l = Some r)" for r
    by (force simp: jsonl_rows_def jsonl_lines_def image_iff)
  show ?thesis
  proof (cases added)
    case True
    with scan have no: "scan_event_key dec key k (text_lines t) = Inr False" by simp
    have "scan_event_key dec key k (text_lines t') = Inr True"
      using True enc t' assms(1,3) scan_event_key_snoc [OF no _ enc(1) assms(3)]
      by (simp add: text_lines_append_jsonl_line okr_line_def)
    moreover have "jsonl_rows dec t' = jsonl_rows dec t @ [Some v]"
      using True t' enc assms(1) by (simp add: jsonl_rows_def jsonl_text.rows_append)
    moreover have "\<forall>r. Some r \<in> set (jsonl_rows dec t) \<longrightarrow> key r \<noteq> Some k"
      using no by (force simp: rows scan_event_key_False)
    ultimately show ?thesis
      using True k assms(3) by (simp add: append_jsonl_value_once_by_event_key_def)
  next
    case False
    with scan have yes: "scan_event_key dec key k (text_lines t) = Inr True" by simp
    from scan_event_key_True [OF this] obtain r where "Some r \<in> set (jsonl_rows dec t)" "key r = Some k"
      by (auto simp: rows)
    with False t' k yes assms(3) show ?thesis
      by (auto simp: append_jsonl_value_once_by_event_key_def)
  qed
qed

theorem append_once_by_event_key_witness:
  "\<exists>t'. append_jsonl_value_once_by_event_key (\<lambda>_. ''{1}'') (\<lambda>l. if l = ''{1}'' then Some True else None)
       (\<lambda>_. Some ''k'') True [] = (t', Inr True)
     \<and> append_jsonl_value_once_by_event_key (\<lambda>_. ''{1}'') (\<lambda>l. if l = ''{1}'' then Some True else None)
       (\<lambda>_. Some ''k'') True t' = (t', Inr False)"
proof -
  let ?dec = "\<lambda>l. if l = ''{1}'' then Some True else None"
  have ok: "\<not> is_blank ''{1}''" "\<not> is_blank ''k''"
    by (rule not_blank_graphic_ends; simp add: ascii_graphic_def)+
  then have c: "codec_ok (\<lambda>_. ''{1}'') ?dec True"
    by (simp add: codec_ok_def okr_line_def nl_def cr_def)
  have "append_jsonl_value_once_by_event_key (\<lambda>_. ''{1}'') ?dec (\<lambda>_. Some ''k'') True []
      = (append_jsonl_line ''{1}'' [], Inr True)"
    using ok(2) by (simp add: append_jsonl_value_once_by_event_key_def text_lines_def)
  with append_once_by_event_key [OF _ c _ this] show ?thesis by (auto simp: okf_text_def)
qed

end
