(* ===== verification/Replay_Ledger.thy ===== *)
theory Replay_Ledger
  imports Jsonl "HOL-Library.Countable"
begin

text \<open>
  The contract of a replay-safe ledger: a request either is refused and changes nothing, or is
  answered by a row that is already there and changes nothing, or appends one row that answers
  it. \<open>same i r\<close> says that row \<open>r\<close> answers request \<open>i\<close>. The budget ledgers of goal campaigns
  and of tasks both promise it; both interpret the locale on their own definitions.

  The file also holds \<open>serde_json::Value\<close>, as the configuration readers use it, and the reading
  of a ledger in which every line has to parse.
\<close>

section \<open>The interface\<close>

locale replay_ledger =
  fixes rows :: "'f \<Rightarrow> 'r list"
    and okf :: "'f \<Rightarrow> bool"
    and record_req :: "'i \<Rightarrow> 'f \<Rightarrow> 'f"
    and accepts :: "'i \<Rightarrow> bool"
    and same :: "'i \<Rightarrow> 'r \<Rightarrow> bool"
  assumes refused: "okf f \<Longrightarrow> \<not> accepts i \<Longrightarrow> record_req i f = f"
    and replayed: "okf f \<Longrightarrow> r \<in> set (rows f) \<Longrightarrow> same i r \<Longrightarrow> record_req i f = f"
    and recorded: "okf f \<Longrightarrow> accepts i \<Longrightarrow> \<forall>r \<in> set (rows f). \<not> same i r \<Longrightarrow>
      okf (record_req i f) \<and> (\<exists>r. same i r \<and> rows (record_req i f) = rows f @ [r])"
begin

text \<open>The three cases of a request.\<close>

lemma record_cases:
  assumes "okf f"
  obtains (unchanged) "record_req i f = f"
  | (appended) r where "accepts i" and "same i r" and "\<forall>r \<in> set (rows f). \<not> same i r"
    and "rows (record_req i f) = rows f @ [r]" and "okf (record_req i f)"
  using assms refused replayed recorded by metis

lemma okf_record:
  assumes "okf f"
  shows "okf (record_req i f)"
  by (cases rule: record_cases [OF assms, where i = i]) (use assms in auto)

text \<open>Recording the same request again changes nothing.\<close>

lemma record_idem:
  assumes "okf f"
  shows "record_req i (record_req i f) = record_req i f"
  using assms
proof (cases rule: record_cases [where i = i])
  case (appended r)
  then show ?thesis by (intro replayed [of _ r]) auto
qed auto

text \<open>The ledger only grows, through any sequence of requests.\<close>

lemma append_only: "okf f \<Longrightarrow> \<exists>rs. rows (fold record_req is f) = rows f @ rs"
proof (induction "is" arbitrary: f)
  case (Cons i "is")
  then obtain rs where "rows (fold record_req is (record_req i f)) = rows (record_req i f) @ rs"
    using okf_record by blast
  then show ?case by (cases rule: record_cases [OF Cons.prems, where i = i]) auto
qed simp

lemma okf_fold: "okf f \<Longrightarrow> okf (fold record_req is f)"
  by (induction "is" arbitrary: f) (auto simp: okf_record)

text \<open>At most one row answers each request.\<close>

lemma single_answer:
  assumes "okf f" and "\<And>i j r. same i r \<Longrightarrow> same j r \<Longrightarrow> same i = same j"
    and "\<forall>i. length (filter (same i) (rows f)) \<le> 1"
  shows "\<forall>i. length (filter (same i) (rows (record_req j f))) \<le> 1"
  using assms(1)
proof (cases rule: record_cases [where i = j])
  case unchanged
  with assms(3) show ?thesis by simp
next
  case (appended r)
  have "filter (same i) (rows f) = []" if "same i r" for i
    using assms(2) [OF that appended(2)] appended(3) by (simp add: filter_empty_conv)
  with assms(3) appended(4) show ?thesis by simp
qed

text \<open>
  The latest row that answers a request stays the latest one, whatever is recorded afterwards.
\<close>

lemma latest_answer_stable:
  assumes "okf f" and same: "\<And>i j r. same i r \<Longrightarrow> same j r \<Longrightarrow> same i = same j"
    and "find (same i) (rev (rows f)) = Some r"
  shows "find (same i) (rev (rows (fold record_req js f))) = Some r"
  using assms(1,3)
proof (induction js arbitrary: f)
  case (Cons j js)
  have r: "r \<in> set (rows f)" "same i r" using find_SomeD [OF Cons.prems(2)] by auto
  from Cons.prems(1) have "find (same i) (rev (rows (record_req j f))) = Some r"
  proof (cases rule: record_cases [where i = j])
    case unchanged
    with Cons.prems(2) show ?thesis by simp
  next
    case (appended r')
    have "\<not> same i r'"
      using appended(2,3) r same [of i r' j] by auto
    with appended(4) Cons.prems(2) show ?thesis by simp
  qed
  with Cons.IH okf_record [OF Cons.prems(1)] show ?case by simp
qed simp

lemma single_answer_fold:
  assumes "okf f" and same: "\<And>i j r. same i r \<Longrightarrow> same j r \<Longrightarrow> same i = same j"
    and "\<forall>i. length (filter (same i) (rows f)) \<le> 1"
  shows "\<forall>i. length (filter (same i) (rows (fold record_req js f))) \<le> 1"
  using assms(1,3)
proof (induction js arbitrary: f)
  case (Cons j js)
  from Cons.IH [OF okf_record [OF Cons.prems(1)] single_answer [OF Cons.prems(1) same Cons.prems(2)]]
  show ?case by simp
qed simp

end

section \<open>A codec for any countable type of rows\<close>

text \<open>
  The assumption that a serialiser can be inverted is satisfiable on every countable type: the
  number of a record in decimal is such an encoding.
\<close>

definition number_enc :: "'a::countable \<Rightarrow> string" where
  "number_enc v = show_nat (to_nat v)"

definition number_dec :: "string \<Rightarrow> 'a::countable option" where
  "number_dec l = Some (from_nat (decimal_value l))"

lemma digit_graphic: "is_ascii_digit c \<Longrightarrow> ascii_graphic c \<and> c \<noteq> nl \<and> c \<noteq> cr"
  by (auto simp: is_ascii_digit_def ascii_graphic_def nl_def cr_def)

lemma okr_line_show_nat: "okr_line (show_nat n)"
proof -
  have d: "is_ascii_digit c" if "c \<in> set (show_nat n)" for c
    using that show_nat_digits by (metis list.pred_set)
  have "\<not> is_blank (show_nat n)"
    using d digit_graphic by (intro not_blank_graphic_ends) auto
  with d digit_graphic show ?thesis
    by (metis last_in_set okr_line_def show_nat_nonempty)
qed

lemma codec_number: "codec_ok number_enc number_dec v"
  by (simp add: codec_ok_def number_enc_def number_dec_def okr_line_show_nat)

text \<open>A record type is encoded through an injection of its fields into such a type.\<close>

definition keyed_enc :: "('a \<Rightarrow> 'b::countable) \<Rightarrow> 'a \<Rightarrow> string" where
  "keyed_enc key v = number_enc (key v)"

definition keyed_dec :: "('a \<Rightarrow> 'b::countable) \<Rightarrow> string \<Rightarrow> 'a option" where
  "keyed_dec key l = map_option (inv key) (number_dec l)"

lemma codec_keyed: "inj key \<Longrightarrow> codec_ok (keyed_enc key) (keyed_dec key) v"
  using codec_number [of "key v"] by (simp add: codec_ok_def keyed_enc_def keyed_dec_def)

lemma u64_unat_eq: "unat (a :: u64) = unat b \<longleftrightarrow> a = b"
  by (simp add: word_unat_eq_iff)

section \<open>JSON values\<close>

text \<open>
  \<open>serde_json::Value\<close>. A number is kept as a \<open>u64\<close> when \<open>as_u64\<close> gives one; negative and
  fractional numbers are \<open>JsonNumber\<close> with their text.
\<close>

datatype Value =
    JsonNull
  | JsonBool bool
  | JsonU64 u64
  | JsonNumber string
  | JsonString string
  | JsonArray "Value list"
  | JsonObject "(string \<times> Value) list"

fun value_get :: "string \<Rightarrow> Value \<Rightarrow> Value option" where
  "value_get k (JsonObject m) = map_of m k"
| "value_get k _ = None"

fun as_object :: "Value \<Rightarrow> (string \<times> Value) list option" where
  "as_object (JsonObject m) = Some m"
| "as_object _ = None"

fun as_str :: "Value \<Rightarrow> string option" where
  "as_str (JsonString s) = Some s"
| "as_str _ = None"

fun as_array :: "Value \<Rightarrow> Value list option" where
  "as_array (JsonArray vs) = Some vs"
| "as_array _ = None"

fun as_u64 :: "Value \<Rightarrow> u64 option" where
  "as_u64 (JsonU64 n) = Some n"
| "as_u64 _ = None"

instance word :: (len) countable
  by (rule countable_classI [of unat]) (simp add: word_unat_eq_iff)

instance Value :: countable
  by countable_datatype

section \<open>Ledgers in which every line parses\<close>

text \<open>The file is readable when every line that is not blank parses to an accepted row.\<close>

definition readable :: "(string \<Rightarrow> 'a option) \<Rightarrow> ('a \<Rightarrow> bool) \<Rightarrow> string \<Rightarrow> bool" where
  "readable dec okr t \<longleftrightarrow> okf_text t \<and> (\<forall>l \<in> set (jsonl_lines t). \<exists>r. dec l = Some r \<and> okr r)"

definition parsed_rows :: "(string \<Rightarrow> 'a option) \<Rightarrow> string \<Rightarrow> 'a list" where
  "parsed_rows dec t = List.map_filter dec (jsonl_lines t)"

lemma readable_Nil [simp]: "readable dec okr []"
  by (simp add: readable_def okf_text_def jsonl_lines_def text_lines_def)

lemma parsed_rows_Nil [simp]: "parsed_rows dec [] = []"
  by (simp add: parsed_rows_def jsonl_lines_def text_lines_def List.map_filter_simps)

lemma readable_append:
  "readable dec okr t \<Longrightarrow> codec_ok enc dec r \<Longrightarrow> okr r \<Longrightarrow>
   readable dec okr (append_jsonl_value enc r t)"
  by (auto simp: readable_def append_jsonl_value_def codec_ok_def jsonl_text.rows_append
      jsonl_text.okf_append)

lemma parsed_rows_append:
  "readable dec okr t \<Longrightarrow> codec_ok enc dec r \<Longrightarrow>
   parsed_rows dec (append_jsonl_value enc r t) = parsed_rows dec t @ [r]"
  by (simp add: readable_def parsed_rows_def append_jsonl_value_def codec_ok_def
      jsonl_text.rows_append List.map_filter_def)

lemma set_parsed_rows_ok: "readable dec okr t \<Longrightarrow> r \<in> set (parsed_rows dec t) \<Longrightarrow> okr r"
  by (force simp: readable_def parsed_rows_def List.map_filter_def)

end
