(* ===== verification/Keyed_Ledger.thy ===== *)
theory Keyed_Ledger
  imports Replay_Ledger
begin

text \<open>
  Ledgers whose records carry an \<open>eventKey\<close> and are appended at most once per key, as
  \<open>goal_closure.rs\<close> and \<open>channel_session_transition.rs\<close> keep them. A record type is serialised
  through \<open>serde_json::Value\<close>: \<open>sc_to_value\<close> and \<open>sc_from_value\<close> stand for its derived
  \<open>Serialize\<close> and \<open>Deserialize\<close>, \<open>js_enc\<close> and \<open>js_dec\<close> for \<open>serde_json::to_vec\<close> and
  \<open>serde_json::from_str\<close> on values.

  The locale \<open>keyed_ledger\<close> is what the two components rely on: on a ledger that holds the rows
  \<open>rs\<close>, reading gives \<open>rs\<close>, and appending \<open>r\<close> adds it at the end unless its key is taken. It is
  interpreted on the text of a JSONL file (for every codec that satisfies \<open>serde_ok\<close>), so that a component can be reasoned about on lists.
\<close>

section \<open>Definitions\<close>

record json_codec =
  js_enc :: "Value \<Rightarrow> string"
  js_dec :: "string \<Rightarrow> Value option"

record 'r row_codec =
  sc_to_value :: "'r \<Rightarrow> Value"
  sc_from_value :: "Value \<Rightarrow> 'r option"
  sc_event_key :: "'r \<Rightarrow> string"

definition invalid_input :: "string \<Rightarrow> io_error" where
  "invalid_input m = IoError InvalidInput m"

definition invalid_data :: "string \<Rightarrow> io_error" where
  "invalid_data m = IoError InvalidData m"

lemma io_error_kind_invalid [simp]:
  "io_error_kind (invalid_input m) = InvalidInput" "io_error_kind (invalid_data m) = InvalidData"
  by (simp_all add: invalid_input_def invalid_data_def)

text \<open>The checksum of a JSON value, as each of the components computes it.\<close>

definition sha256_json :: "(string \<Rightarrow> string) \<Rightarrow> (Value \<Rightarrow> string) \<Rightarrow> Value \<Rightarrow> string" where
  "sha256_json sha256 enc v = ''sha256:'' @ hex_encode (sha256 (enc v))"

definition opt_json :: "string option \<Rightarrow> Value" where
  "opt_json o' = (case o' of None \<Rightarrow> JsonNull | Some s \<Rightarrow> JsonString s)"

definition value_event_key :: "Value \<Rightarrow> string option" where
  "value_event_key v = (case value_get ''eventKey'' v of None \<Rightarrow> None | Some w \<Rightarrow> as_str w)"

definition decode_row :: "json_codec \<Rightarrow> 'r row_codec \<Rightarrow> string \<Rightarrow> 'r option" where
  "decode_row js sc l = (case js_dec js l of None \<Rightarrow> None | Some v \<Rightarrow> sc_from_value sc v)"

fun decode_rows :: "json_codec \<Rightarrow> 'r row_codec \<Rightarrow> string list \<Rightarrow> io_error + 'r list" where
  "decode_rows js sc [] = Inr []"
| "decode_rows js sc (l # ls) =
     (case decode_row js sc l of
        None \<Rightarrow> Inl (invalid_data ''invalid JSONL record'')
      | Some r \<Rightarrow> (case decode_rows js sc ls of Inl e \<Rightarrow> Inl e | Inr rs \<Rightarrow> Inr (r # rs)))"

definition read_jsonl :: "json_codec \<Rightarrow> 'r row_codec \<Rightarrow> string \<Rightarrow> io_error + 'r list" where
  "read_jsonl js sc t = decode_rows js sc (jsonl_lines t)"

definition append_row_once :: "json_codec \<Rightarrow> 'r row_codec \<Rightarrow> 'r \<Rightarrow> string
    \<Rightarrow> string \<times> (io_error + bool)" where
  "append_row_once js sc r t =
     append_jsonl_value_once_by_event_key (js_enc js) (js_dec js) value_event_key
       (sc_to_value sc r) t"

definition find_one_by_event_key :: "json_codec \<Rightarrow> 'r row_codec \<Rightarrow> string \<Rightarrow> string
    \<Rightarrow> io_error + 'r option" where
  "find_one_by_event_key js sc k t =
     (case read_jsonl js sc t of
        Inl e \<Rightarrow> Inl e
      | Inr rs \<Rightarrow>
          (case filter (\<lambda>r. sc_event_key sc r = k) rs of
             [] \<Rightarrow> Inr None
           | [r] \<Rightarrow> Inr (Some r)
           | _ \<Rightarrow> Inl (invalid_data ''duplicate event key in append-only closure ledger'')))"

text \<open>What is relied on of \<open>serde\<close>.\<close>

definition serde_ok :: "json_codec \<Rightarrow> 'r row_codec \<Rightarrow> bool" where
  "serde_ok js sc \<longleftrightarrow>
     (\<forall>r. codec_ok (js_enc js) (js_dec js) (sc_to_value sc r)
        \<and> sc_from_value sc (sc_to_value sc r) = Some r
        \<and> value_event_key (sc_to_value sc r) = Some (sc_event_key sc r))"

section \<open>The interface\<close>

locale keyed_ledger =
  fixes okc :: "'c \<Rightarrow> bool"
    and file_of :: "'c \<Rightarrow> 'r list \<Rightarrow> 'f"
    and read_file :: "'c \<Rightarrow> 'f \<Rightarrow> io_error + 'r list"
    and append_once :: "'c \<Rightarrow> 'r \<Rightarrow> 'f \<Rightarrow> 'f \<times> (io_error + bool)"
    and event_key :: "'c \<Rightarrow> 'r \<Rightarrow> string"
  assumes read_file: "okc c \<Longrightarrow> read_file c (file_of c rs) = Inr rs"
    and append_once: "okc c \<Longrightarrow> append_once c r (file_of c rs) =
      (if is_blank (event_key c r)
       then (file_of c rs, Inl (IoError InvalidData ''eventKey is required''))
       else if event_key c r \<in> event_key c ` set rs then (file_of c rs, Inr False)
       else (file_of c (rs @ [r]), Inr True))"
begin

lemma append_once_cases:
  assumes "okc c"
  obtains (refused) "append_once c r (file_of c rs) =
      (file_of c rs, Inl (IoError InvalidData ''eventKey is required''))"
  | (taken) r' where "append_once c r (file_of c rs) = (file_of c rs, Inr False)"
    and "r' \<in> set rs" and "event_key c r' = event_key c r"
  | (added) "append_once c r (file_of c rs) = (file_of c (rs @ [r]), Inr True)"
    and "event_key c r \<notin> event_key c ` set rs"
  using assms
  by (cases "is_blank (event_key c r)"; cases "event_key c r \<in> event_key c ` set rs")
    (auto simp: append_once image_iff)

text \<open>Whatever is appended, the file holds a list of rows that extends the old one, keys distinct.\<close>

lemma append_once_rows:
  assumes "okc c" and "distinct (map (event_key c) rs)"
  obtains rs' where "fst (append_once c r (file_of c rs)) = file_of c rs'"
    and "distinct (map (event_key c) rs')" and "rs' = rs \<or> rs' = rs @ [r]"
  using assms(1) by (cases rule: append_once_cases [where r = r and rs = rs]) (use assms(2) that in auto)

text \<open>The file only grows, through any sequence of appends.\<close>

lemma append_only:
  assumes "okc c"
  shows "\<exists>new. fold (\<lambda>r f. fst (append_once c r f)) xs (file_of c rs) = file_of c (rs @ new)
    \<and> set new \<subseteq> set xs"
proof (induction xs arbitrary: rs)
  case Nil
  show ?case by (intro exI [of _ "[]"]) simp
next
  case (Cons x xs)
  from assms show ?case
  proof (cases rule: append_once_cases [where r = x and rs = rs])
    case added
    from Cons.IH [of "rs @ [x]"] obtain new where
      "fold (\<lambda>r f. fst (append_once c r f)) xs (file_of c (rs @ [x])) = file_of c ((rs @ [x]) @ new)"
      "set new \<subseteq> set xs" by blast
    with added show ?thesis by (intro exI [of _ "x # new"]) auto
  qed (use Cons.IH [of rs] in auto)
qed

end

section \<open>JSONL text as a keyed ledger\<close>

definition ledger_text :: "json_codec \<Rightarrow> 'r row_codec \<Rightarrow> 'r list \<Rightarrow> string" where
  "ledger_text js sc rs = fold (\<lambda>r. append_jsonl_value (js_enc js) (sc_to_value sc r)) rs []"

lemma ledger_text_Nil [simp]: "ledger_text js sc [] = []"
  by (simp add: ledger_text_def)

lemma ledger_text_snoc:
  "ledger_text js sc (rs @ [r]) = append_jsonl_value (js_enc js) (sc_to_value sc r) (ledger_text js sc rs)"
  by (simp add: ledger_text_def)

lemma ledger_lines:
  assumes "serde_ok js sc"
  shows "text_lines (ledger_text js sc rs) = map (\<lambda>r. js_enc js (sc_to_value sc r)) rs
    \<and> okf_text (ledger_text js sc rs)"
proof (induction rs rule: rev_induct)
  case Nil
  show ?case by (simp add: text_lines_def okf_text_def)
next
  case (snoc r rs)
  have "okr_line (js_enc js (sc_to_value sc r))" using assms by (simp add: serde_ok_def codec_ok_def)
  with snoc show ?case
    by (simp add: ledger_text_snoc append_jsonl_value_def text_lines_append_jsonl_line
        jsonl_text.okf_append)
qed

lemma not_blank_row: "serde_ok js sc \<Longrightarrow> \<not> is_blank (js_enc js (sc_to_value sc r))"
  by (simp add: serde_ok_def codec_ok_def okr_line_def)

lemma decode_rows_enc:
  "serde_ok js sc \<Longrightarrow> decode_rows js sc (map (\<lambda>r. js_enc js (sc_to_value sc r)) rs) = Inr rs"
  by (induction rs) (auto simp: serde_ok_def codec_ok_def decode_row_def)

lemma read_jsonl_ledger: "serde_ok js sc \<Longrightarrow> read_jsonl js sc (ledger_text js sc rs) = Inr rs"
  using ledger_lines [of js sc rs]
  by (simp add: read_jsonl_def jsonl_lines_def decode_rows_enc not_blank_row filter_map comp_def)

lemma scan_event_key_ledger:
  assumes "serde_ok js sc"
  shows "scan_event_key (js_dec js) value_event_key k (map (\<lambda>r. js_enc js (sc_to_value sc r)) rs)
    = Inr (k \<in> sc_event_key sc ` set rs)"
  using assms
  by (induction rs) (auto simp: not_blank_row, auto simp: serde_ok_def codec_ok_def)

lemma append_row_once_ledger:
  assumes "serde_ok js sc"
  shows "append_row_once js sc r (ledger_text js sc rs) =
      (if is_blank (sc_event_key sc r)
       then (ledger_text js sc rs, Inl (IoError InvalidData ''eventKey is required''))
       else if sc_event_key sc r \<in> sc_event_key sc ` set rs then (ledger_text js sc rs, Inr False)
       else (ledger_text js sc (rs @ [r]), Inr True))"
proof -
  have "value_event_key (sc_to_value sc r) = Some (sc_event_key sc r)"
    using assms by (simp add: serde_ok_def)
  then show ?thesis
    using ledger_lines [OF assms, of rs] scan_event_key_ledger [OF assms, of "sc_event_key sc r" rs]
    by (simp add: append_row_once_def append_jsonl_value_once_by_event_key_def ledger_text_snoc
        append_jsonl_value_def)
qed

interpretation keyed_text: keyed_ledger "\<lambda>(js, sc). serde_ok js sc" "\<lambda>(js, sc). ledger_text js sc"
    "\<lambda>(js, sc). read_jsonl js sc" "\<lambda>(js, sc). append_row_once js sc" "\<lambda>(js, sc). sc_event_key sc"
  by unfold_locales (auto simp: read_jsonl_ledger append_row_once_ledger)

lemma append_row_once_cases:
  assumes "serde_ok js sc"
  obtains (refused) "append_row_once js sc r (ledger_text js sc rs) =
      (ledger_text js sc rs, Inl (IoError InvalidData ''eventKey is required''))"
  | (taken) r' where "append_row_once js sc r (ledger_text js sc rs) = (ledger_text js sc rs, Inr False)"
    and "r' \<in> set rs" and "sc_event_key sc r' = sc_event_key sc r"
  | (added) "append_row_once js sc r (ledger_text js sc rs) = (ledger_text js sc (rs @ [r]), Inr True)"
    and "sc_event_key sc r \<notin> sc_event_key sc ` set rs"
  using assms by (rule keyed_text.append_once_cases [of "(js, sc)" r rs, simplified])

lemma find_one_ledger:
  assumes "serde_ok js sc" and "distinct (map (sc_event_key sc) rs)"
  shows "find_one_by_event_key js sc k (ledger_text js sc rs) =
    Inr (find (\<lambda>r. sc_event_key sc r = k) rs)"
proof -
  have "filter (\<lambda>r. sc_event_key sc r = k) rs =
      (case find (\<lambda>r. sc_event_key sc r = k) rs of None \<Rightarrow> [] | Some r \<Rightarrow> [r])"
    using assms(2)
  proof (induction rs)
    case (Cons r rs)
    then have "filter (\<lambda>x. sc_event_key sc x = sc_event_key sc r) rs = []"
      by (auto simp: filter_empty_conv image_iff)
    with Cons show ?case by (cases "sc_event_key sc r = k") auto
  qed simp
  then show ?thesis
    by (simp add: find_one_by_event_key_def read_jsonl_ledger [OF assms(1)] split: option.splits)
qed

section \<open>A codec for any type of rows\<close>

text \<open>
  The assumptions on \<open>serde\<close> can hold: values are numbered, and a record is an object with its
  key and the number of its fields, given an injection of the record into a countable type.
\<close>

definition number_json :: json_codec where
  "number_json = \<lparr>js_enc = number_enc, js_dec = number_dec\<rparr>"

definition number_row :: "('r \<Rightarrow> 'b::countable) \<Rightarrow> ('r \<Rightarrow> string) \<Rightarrow> 'r row_codec" where
  "number_row enum key =
     \<lparr>sc_to_value = (\<lambda>r. JsonObject [(''eventKey'', JsonString (key r)),
        (''row'', JsonString (keyed_enc enum r))]),
      sc_from_value = (\<lambda>v. case value_get ''row'' v of
        Some (JsonString l) \<Rightarrow> keyed_dec enum l | _ \<Rightarrow> None),
      sc_event_key = key\<rparr>"

lemma serde_number: "inj enum \<Longrightarrow> serde_ok number_json (number_row enum key)"
  using codec_keyed [of enum]
  by (simp add: serde_ok_def number_json_def number_row_def codec_number value_event_key_def)
    (simp add: codec_ok_def)

lemma number_enc_inj: "number_enc v = number_enc w \<longleftrightarrow> v = w"
  by (metis codec_number codec_ok_def option.inject)

end
