(* ===== verification/External_Effect.thy ===== *)
theory External_Effect
  imports Channel_Action Lane Keyed_Ledger
begin

text \<open>
  Approvals of external effects (\<open>src/crates/agent-harness-core/src/external_effect.rs\<close>): an MCP
  elicitation becomes a durable intent, which an approval policy denies or puts before the user, and
  which moves through a state machine until a readback confirms it. The files are the record
  \<open>effect_home\<close>: the protected latest snapshot of each effect (by file stem), the transitions ledger
  and the index of public approval actions. An operation returns the home after its writes together
  with its result.

  The record \<open>effect_lib\<close> holds what the code takes from libraries: the digest of \<open>ring\<close>, the
  renderings of \<open>serde_json\<close> and the derived deserialisers. The clock is a function that gives the
  readings of one operation in order; the 24 bytes of \<open>SystemRandom\<close> and the order in which
  \<open>read_dir\<close> lists a directory are arguments too. A directory that does not exist lists nothing.
\<close>

section \<open>Data\<close>

definition EXTERNAL_EFFECT_INTENT_SCHEMA :: string where
  "EXTERNAL_EFFECT_INTENT_SCHEMA = ''agent-harness.external-effect-intent.v1''"

definition EXTERNAL_EFFECT_TRANSITION_SCHEMA :: string where
  "EXTERNAL_EFFECT_TRANSITION_SCHEMA = ''agent-harness.external-effect-transition.v1''"

definition CONNECTOR_APPROVAL_TOKEN_SCHEMA :: string where
  "CONNECTOR_APPROVAL_TOKEN_SCHEMA = ''agent-harness.connector-approval-token.v1''"

definition GITHUB_ISSUE_READBACK_EVIDENCE_SCHEMA :: string where
  "GITHUB_ISSUE_READBACK_EVIDENCE_SCHEMA = ''agent-harness.github-issue-readback-evidence.v1''"

definition PROVIDER_IDEMPOTENCY_READBACK_EVIDENCE_SCHEMA :: string where
  "PROVIDER_IDEMPOTENCY_READBACK_EVIDENCE_SCHEMA =
     ''agent-harness.provider-idempotency-readback-evidence.v1''"

definition EXTERNAL_EFFECT_PUBLIC_ACTION_INDEX_SCHEMA :: string where
  "EXTERNAL_EFFECT_PUBLIC_ACTION_INDEX_SCHEMA = ''agent-harness.external-effect-public-action-index.v1''"

definition DEFAULT_APPROVAL_TOKEN_TTL_MS :: int where
  "DEFAULT_APPROVAL_TOKEN_TTL_MS = 15 * 60 * 1000"

definition MAX_CONNECTOR_BYTES :: nat where
  "MAX_CONNECTOR_BYTES = 96"

definition MAX_ACTION_BYTES :: nat where
  "MAX_ACTION_BYTES = 160"

definition MAX_SUMMARY_BYTES :: nat where
  "MAX_SUMMARY_BYTES = 240"

definition MAX_EFFECT_RECORD_BYTES :: nat where
  "MAX_EFFECT_RECORD_BYTES = 32 * 1024"

definition MAX_EXTERNAL_EFFECT_EXPIRY_SCAN_ROWS :: nat where
  "MAX_EXTERNAL_EFFECT_EXPIRY_SCAN_ROWS = 256"

record ExternalEffectPublicActionIndexV1 =
  px_schema :: string
  px_public_action_id :: string
  px_effect_id :: string
  px_approval_generation :: u64
  px_decision :: ChannelApprovalDecisionV1

datatype ConnectorApprovalModeV1 = ModeDeny | ModeNeedsUser | ModeExplicitActionToken

record ConnectorApprovalRuleV1 =
  rl_connector :: string
  rl_actions :: "string list"
  rl_mode :: ConnectorApprovalModeV1

record ConnectorApprovalPolicyV1 =
  cp_default :: ConnectorApprovalModeV1
  cp_rules :: "ConnectorApprovalRuleV1 list"

definition default_approval_policy :: ConnectorApprovalPolicyV1 where
  "default_approval_policy = \<lparr>cp_default = ModeNeedsUser, cp_rules = []\<rparr>"

datatype ExternalEffectStateV1 =
    Requested | ApprovalRequired | Approved | Denied | Submitted | Confirmed | Ambiguous

record ConnectorApprovalTokenV1 =
  tk_schema :: string
  tk_token :: string
  tk_token_digest :: string
  tk_effect_id :: string
  tk_exact_lane_digest :: string
  tk_params_digest :: string
  tk_source_session_key_digest :: string
  tk_approval_authority_digest :: string
  tk_approval_generation :: u64
  tk_expires_at_ms :: int
  tk_consumed_at_ms :: "int option"

record ExternalEffectIntentV1 =
  ei_schema :: string
  ei_effect_id :: string
  ei_exact_lane_digest :: string
  ei_logical_lineage_id :: string
  ei_source_queue_id :: string
  ei_source_session_key_digest :: string
  ei_approval_authority_digest :: string
  ei_connector :: string
  ei_action :: string
  ei_params_digest :: string
  ei_approval_generation :: u64
  ei_state :: ExternalEffectStateV1
  ei_action_summary :: string
  ei_approval_token :: "ConnectorApprovalTokenV1 option"
  ei_requested_at_ms :: int
  ei_updated_at_ms :: int
  ei_reason :: "string option"
  ei_expiry_resolution_id :: "string option"
  ei_expiry_notice_id :: "string option"

record ExternalEffectTransitionV1 =
  et_schema :: string
  et_effect_id :: string
  et_from_state :: "ExternalEffectStateV1 option"
  et_to_state :: ExternalEffectStateV1
  et_approval_generation :: u64
  et_at_ms :: int
  et_reason :: string
  et_resolution_id :: "string option"
  et_notice_id :: "string option"

record ExternalEffectRequestContextV1 =
  rc_exact_lane_digest :: string
  rc_logical_lineage_id :: string
  rc_source_queue_id :: string
  rc_source_session_key_digest :: string
  rc_approval_authority_digest :: string

record ExternalEffectExpiryReconcileRequestV1 =
  xq_now_ms :: int
  xq_max_rows :: nat
  xq_after_effect_id :: "string option"

record ExternalEffectExpiryResolutionV1 =
  xr_effect_id :: string
  xr_approval_generation :: u64
  xr_resolution_id :: string
  xr_notice_id :: string
  xr_newly_transitioned :: bool

record ExternalEffectExpiryReconcileReportV1 =
  xp_scanned_rows :: nat
  xp_resolutions :: "ExternalEffectExpiryResolutionV1 list"
  xp_next_after_effect_id :: "string option"
  xp_exhausted :: bool

record McpElicitationDescriptorV1 =
  md_connector :: string
  md_action :: string
  md_params_digest :: string
  md_action_summary :: string
  md_mode :: string

datatype ExternalEffectAdmissionV1 =
    AdmitAuthorized ExternalEffectIntentV1
  | AdmitNeedsUser ExternalEffectIntentV1 string
  | AdmitDenied ExternalEffectIntentV1
  | AdmitAlreadyConfirmed ExternalEffectIntentV1
  | AdmitAmbiguous ExternalEffectIntentV1

datatype ExternalEffectApprovalDecisionV1 = EffectApprove | EffectDeny

datatype RuntimeMutationEvidenceClass = NoObservableMutation | MutationObserved | UnknownMutation

fun external_effect_mutation_evidence :: "ExternalEffectStateV1 \<Rightarrow> RuntimeMutationEvidenceClass" where
  "external_effect_mutation_evidence Requested = NoObservableMutation"
| "external_effect_mutation_evidence ApprovalRequired = NoObservableMutation"
| "external_effect_mutation_evidence Approved = NoObservableMutation"
| "external_effect_mutation_evidence Denied = NoObservableMutation"
| "external_effect_mutation_evidence Submitted = UnknownMutation"
| "external_effect_mutation_evidence Ambiguous = UnknownMutation"
| "external_effect_mutation_evidence Confirmed = MutationObserved"

record effect_home =
  eh_latest :: "(string \<times> string) list"
  eh_transitions :: string
  eh_public_actions :: "(string \<times> string) list"

record effect_lib =
  xl_sha256 :: "string \<Rightarrow> string"
  xl_to_vec :: "Value \<Rightarrow> string"
  xl_to_vec_pretty :: "Value \<Rightarrow> string"
  xl_from_str :: "string \<Rightarrow> Value option"
  xl_intent_from_str :: "string \<Rightarrow> ExternalEffectIntentV1 option"
  xl_index_from_slice :: "string \<Rightarrow> ExternalEffectPublicActionIndexV1 option"
  xl_policy_from_value :: "Value \<Rightarrow> ConnectorApprovalPolicyV1 option"

type_synonym clock = "nat \<Rightarrow> io_error + int"

definition permission_denied :: "string \<Rightarrow> io_error" where
  "permission_denied m = IoError PermissionDenied m"

abbreviation other_io :: "string \<Rightarrow> io_error" where
  "other_io m \<equiv> IoError OtherIo m"

section \<open>Characters\<close>

text \<open>
  \<open>str::chars\<close> as the list of the encodings of the characters: a character is a byte together with
  the continuation bytes after it. \<open>split_whitespace\<close> works on these.
\<close>

definition continuation_byte :: "char \<Rightarrow> bool" where
  "continuation_byte c \<longleftrightarrow> 128 \<le> (of_char c :: nat) \<and> (of_char c :: nat) \<le> 191"

function utf8_chars :: "string \<Rightarrow> string list" where
  "utf8_chars [] = []"
| "utf8_chars (c # cs) =
     (c # takeWhile continuation_byte cs) # utf8_chars (dropWhile continuation_byte cs)"
  by pat_completeness auto
termination
  by (relation "measure length") (auto simp: less_Suc_eq_le length_dropWhile_le)

definition char_is_control :: "string \<Rightarrow> bool" where
  "char_is_control ch \<longleftrightarrow> has_control ch"

definition char_is_whitespace :: "string \<Rightarrow> bool" where
  "char_is_whitespace ch \<longleftrightarrow> ch \<in> set white_space_encodings"

fun split_words :: "string \<Rightarrow> string list \<Rightarrow> string list" where
  "split_words w [] = (if w = [] then [] else [w])"
| "split_words w (ch # chs) =
     (if char_is_whitespace ch then (if w = [] then [] else [w]) @ split_words [] chs
      else split_words (w @ ch) chs)"

fun join_words :: "string list \<Rightarrow> string" where
  "join_words [] = []"
| "join_words [w] = w"
| "join_words (w # ws) = w @ CHR '' '' # join_words ws"

definition sanitize_bounded :: "string \<Rightarrow> nat \<Rightarrow> string \<Rightarrow> string" where
  "sanitize_bounded v max_chars fallback =
     (let flattened = join_words (split_words []
        (map (\<lambda>ch. if char_is_control ch then '' '' else ch) (utf8_chars v)))
      in if flattened = [] then fallback else concat (take max_chars (utf8_chars flattened)))"

section \<open>Validation\<close>

definition validate_digest :: "string \<Rightarrow> string \<Rightarrow> io_error + unit" where
  "validate_digest v label =
     (let hex = (case strip_prefix v ''sha256:'' of Some hex \<Rightarrow> hex | None \<Rightarrow> v)
      in if length hex \<noteq> 64 \<or> \<not> list_all is_ascii_hexdigit hex
         then Inl (invalid_input (label @ '' must be a SHA-256 digest'')) else Inr ())"

definition validate_effect_id :: "string \<Rightarrow> io_error + unit" where
  "validate_effect_id effect_id =
     (if length effect_id \<noteq> 64 \<or> \<not> list_all is_lower_hex_byte effect_id
      then Inl (invalid_input ''external effect ID must be a lowercase SHA-256 digest'') else Inr ())"

definition validate_bounded_identifier :: "string \<Rightarrow> string \<Rightarrow> nat \<Rightarrow> io_error + unit" where
  "validate_bounded_identifier v label max_bytes =
     (if trim v \<noteq> v \<or> v = [] \<or> max_bytes < length v \<or> has_control v
      then Inl (invalid_input (label @ '' is empty, unbounded, or not normalized'')) else Inr ())"

definition validate_effect_marker :: "string \<Rightarrow> io_error + unit" where
  "validate_effect_marker v =
     (case Option.bind (strip_prefix v ''<!-- agent-harness-effect:ahx-'') (\<lambda>v. strip_suffix v '' -->'') of
        None \<Rightarrow> Inl (invalid_input ''connector effect marker is not canonical'')
      | Some key \<Rightarrow> if length key \<noteq> 64 \<or> \<not> list_all is_ascii_hexdigit key
          then Inl (invalid_input ''connector effect marker does not contain an exact effect digest'')
          else Inr ())"

definition validate_legacy_compatible_authority_binding :: "string \<Rightarrow> string \<Rightarrow> io_error + unit" where
  "validate_legacy_compatible_authority_binding session_digest authority_digest =
     (if session_digest = [] \<and> authority_digest = [] then Inr ()
      else if session_digest = [] \<or> authority_digest = []
      then Inl (invalid_data ''external effect approval authority binding is partial'')
      else first_error [validate_digest session_digest ''source session key digest'',
        validate_digest authority_digest ''approval authority digest''])"

definition validate_token :: "ExternalEffectIntentV1 \<Rightarrow> ConnectorApprovalTokenV1 \<Rightarrow> io_error + unit" where
  "validate_token i t = first_error
     [if tk_schema t \<noteq> CONNECTOR_APPROVAL_TOKEN_SCHEMA \<or> tk_effect_id t \<noteq> ei_effect_id i
         \<or> tk_exact_lane_digest t \<noteq> ei_exact_lane_digest i \<or> tk_params_digest t \<noteq> ei_params_digest i
         \<or> tk_approval_generation t \<noteq> ei_approval_generation i
      then Inl (invalid_data ''external effect approval token binding does not match its intent'')
      else Inr (),
      validate_digest (tk_token_digest t) ''approval token digest'',
      validate_legacy_compatible_authority_binding (tk_source_session_key_digest t)
        (tk_approval_authority_digest t),
      if (tk_source_session_key_digest t = []) \<noteq> (ei_source_session_key_digest i = [])
         \<or> (tk_source_session_key_digest t \<noteq> []
             \<and> (tk_source_session_key_digest t \<noteq> ei_source_session_key_digest i
                 \<or> tk_approval_authority_digest t \<noteq> ei_approval_authority_digest i))
      then Inl (invalid_data ''external effect approval authority binding is inconsistent'')
      else Inr ()]"

definition validate_effect_intent :: "ExternalEffectIntentV1 \<Rightarrow> io_error + unit" where
  "validate_effect_intent i = first_error
     [if ei_schema i \<noteq> EXTERNAL_EFFECT_INTENT_SCHEMA
      then Inl (invalid_data ''unsupported external effect intent schema'') else Inr (),
      if length (ei_effect_id i) \<noteq> 64 \<or> \<not> list_all is_ascii_hexdigit (ei_effect_id i)
      then Inl (invalid_data ''external effect id is not a SHA-256 hex digest'') else Inr (),
      validate_digest (ei_exact_lane_digest i) ''exact lane digest'',
      validate_digest (ei_params_digest i) ''parameter digest'',
      validate_legacy_compatible_authority_binding (ei_source_session_key_digest i)
        (ei_approval_authority_digest i),
      validate_bounded_identifier (ei_connector i) ''connector'' MAX_CONNECTOR_BYTES,
      if ei_action i = [] \<or> MAX_ACTION_BYTES < length (ei_action i)
      then Inl (invalid_data ''external effect action is empty or unbounded'') else Inr (),
      if MAX_SUMMARY_BYTES < length (ei_action_summary i)
      then Inl (invalid_data ''external effect action summary is unbounded'') else Inr (),
      (case ei_approval_token i of None \<Rightarrow> Inr () | Some t \<Rightarrow> validate_token i t)]"

section \<open>Policies\<close>

definition mode_for :: "ConnectorApprovalPolicyV1 \<Rightarrow> string \<Rightarrow> string \<Rightarrow> ConnectorApprovalModeV1" where
  "mode_for p connector action =
     (case find (\<lambda>r. eq_ignore_ascii_case (rl_connector r) connector
            \<and> (rl_actions r = [] \<or> list_ex (\<lambda>c. eq_ignore_ascii_case c action) (rl_actions r))) (cp_rules p) of
        Some r \<Rightarrow> rl_mode r
      | None \<Rightarrow> cp_default p)"

definition validate_approval_policy :: "ConnectorApprovalPolicyV1 \<Rightarrow> io_error + unit" where
  "validate_approval_policy p = first_error (concat (map (\<lambda>r.
     validate_bounded_identifier (rl_connector r) ''connector'' MAX_CONNECTOR_BYTES
     # map (\<lambda>a. validate_bounded_identifier a ''action'' MAX_ACTION_BYTES) (rl_actions r)) (cp_rules p)))"

text \<open>
  \<open>Value::pointer\<close> for the pointers of this component, whose tokens are field names: no token is a
  number, so that an array has nothing below it.
\<close>

fun value_pointer :: "string list \<Rightarrow> Value \<Rightarrow> Value option" where
  "value_pointer [] v = Some v"
| "value_pointer (k # ks) v = (case value_get k v of None \<Rightarrow> None | Some w \<Rightarrow> value_pointer ks w)"

definition load_connector_approval_policy :: "effect_lib \<Rightarrow> io_error + string
    \<Rightarrow> io_error + ConnectorApprovalPolicyV1" where
  "load_connector_approval_policy lib config =
     (case config of
        Inl e \<Rightarrow> if io_error_kind e = NotFound then Inr default_approval_policy else Inl e
      | Inr text \<Rightarrow>
     (case xl_from_str lib text of
        None \<Rightarrow> Inl (invalid_data ''invalid harness config'')
      | Some root \<Rightarrow>
     (case value_pointer [''security'', ''connectorApprovalPolicy''] root of
        None \<Rightarrow> Inr default_approval_policy
      | Some v \<Rightarrow>
     (case xl_policy_from_value lib v of
        None \<Rightarrow> Inl (invalid_data ''invalid security.connectorApprovalPolicy'')
      | Some p \<Rightarrow> (case validate_approval_policy p of Inl e \<Rightarrow> Inl e | Inr _ \<Rightarrow> Inr p)))))"

definition protected_connector_action :: "string \<Rightarrow> string \<Rightarrow> string \<Rightarrow> bool" where
  "protected_connector_action connector action summary =
     (let text = to_ascii_lowercase (connector @ '' '' @ action @ '' '' @ summary)
      in list_ex (contains text)
        [''gateway restart'', ''gateway stop'', ''live cutover'', ''live rollback'',
         ''agent-harness restart'', ''agent harness restart''])"

definition decide_mode :: "ConnectorApprovalPolicyV1 \<Rightarrow> ExternalEffectIntentV1 \<Rightarrow> ConnectorApprovalModeV1" where
  "decide_mode policy i =
     (if protected_connector_action (ei_connector i) (ei_action i) (ei_action_summary i) then ModeDeny
      else mode_for policy (ei_connector i) (ei_action i))"

section \<open>Digests and identities\<close>

definition effect_digest :: "effect_lib \<Rightarrow> string \<Rightarrow> string" where
  "effect_digest lib bytes = ''sha256:'' @ hex_encode (xl_sha256 lib bytes)"

definition external_effect_source_session_key_digest :: "effect_lib \<Rightarrow> string \<Rightarrow> io_error + string" where
  "external_effect_source_session_key_digest lib session_key =
     (if is_blank session_key
      then Inl (invalid_input ''external effect source session key must not be empty'')
      else Inr (effect_digest lib (''agent-harness.external-effect-source-session.v1'' @ byte 0 # session_key)))"

definition external_effect_approval_authority_digest :: "effect_lib \<Rightarrow> string \<Rightarrow> string \<Rightarrow> string \<Rightarrow> string
    \<Rightarrow> io_error + string" where
  "external_effect_approval_authority_digest lib lane session_digest lineage queue =
     (case first_error [validate_digest lane ''exact lane digest'',
        validate_digest session_digest ''source session key digest'',
        if is_blank lineage \<or> is_blank queue then Inl (invalid_input
          ''external effect approval authority requires lineage and source queue identity'') else Inr ()] of
        Inl e \<Rightarrow> Inl e
      | Inr _ \<Rightarrow> Inr (effect_digest lib (xl_to_vec lib (JsonObject
          [(''schema'', JsonString ''agent-harness.external-effect-approval-authority.v1''),
           (''exactLaneDigest'', JsonString lane), (''sourceSessionKeyDigest'', JsonString session_digest),
           (''logicalLineageId'', JsonString lineage), (''sourceQueueId'', JsonString queue)]))))"

definition effect_identity :: "effect_lib \<Rightarrow> ExternalEffectRequestContextV1 \<Rightarrow> McpElicitationDescriptorV1 \<Rightarrow> string" where
  "effect_identity lib c d = hex_encode (xl_sha256 lib (concat (map length_prefixed
     [rc_exact_lane_digest c, rc_logical_lineage_id c, rc_source_queue_id c, md_connector d,
      md_action d, md_params_digest d, ''1''])))"

definition expiry_resolution_identities :: "effect_lib \<Rightarrow> ExternalEffectIntentV1 \<Rightarrow> string \<times> string" where
  "expiry_resolution_identities lib i =
     (let digest = hex_encode (xl_sha256 lib (''external-effect-approval-expiry.v1'' @ byte 0 # ei_effect_id i
        @ byte 0 # show_u64 (ei_approval_generation i)))
      in (''ahex1_'' @ digest, ''ahen1_'' @ digest))"

definition external_effect_idempotency_key :: "ExternalEffectIntentV1 \<Rightarrow> string" where
  "external_effect_idempotency_key i = ''ahx-'' @ ei_effect_id i"

definition is_github_create_issue :: "ExternalEffectIntentV1 \<Rightarrow> bool" where
  "is_github_create_issue i \<longleftrightarrow> eq_ignore_ascii_case (ei_connector i) ''github''
     \<and> to_ascii_lowercase (ei_action i) \<in> {''create_issue'', ''create-issue'', ''issue/create''}"

definition github_issue_effect_marker :: "ExternalEffectIntentV1 \<Rightarrow> string option" where
  "github_issue_effect_marker i =
     (if is_github_create_issue i
      then Some (''<!-- agent-harness-effect:'' @ external_effect_idempotency_key i @ '' -->'') else None)"

section \<open>Elicitations\<close>

fun first_string :: "Value \<Rightarrow> string list list \<Rightarrow> string option" where
  "first_string v [] = None"
| "first_string v (p # ps) =
     (case Option.bind (value_pointer p v) as_str of
        Some s \<Rightarrow> if trim s \<noteq> [] then Some (trim s) else first_string v ps
      | None \<Rightarrow> first_string v ps)"

definition elicitation_action :: "Value \<Rightarrow> string \<Rightarrow> string option \<Rightarrow> string" where
  "elicitation_action params mode active_tool_preview =
     (case first_string params [[''_meta'', ''actionName''], [''_meta'', ''action''], [''actionName''], [''action'']] of
        Some a \<Rightarrow> a
      | None \<Rightarrow> unwrap_or active_tool_preview (mode @ ''-elicitation''))"

definition parse_mcp_elicitation_descriptor :: "effect_lib \<Rightarrow> Value \<Rightarrow> string option
    \<Rightarrow> io_error + McpElicitationDescriptorV1" where
  "parse_mcp_elicitation_descriptor lib v active_tool_preview =
     (if Option.bind (value_get ''method'' v) as_str \<noteq> Some ''mcpServer/elicitation/request''
      then Inl (invalid_input ''not an MCP elicitation request'')
      else case value_get ''params'' v of
        None \<Rightarrow> Inl (invalid_data ''MCP elicitation params are missing'')
      | Some params \<Rightarrow>
     (case first_string params [[''serverName''], [''server''], [''connectorName''], [''connector'']] of
        None \<Rightarrow> Inl (invalid_data ''MCP elicitation serverName is missing'')
      | Some connector \<Rightarrow>
     (case first_string params [[''mode'']] of
        None \<Rightarrow> Inl (invalid_data ''MCP elicitation mode is missing'')
      | Some mode \<Rightarrow>
          if mode \<notin> {''form'', ''openai/form'', ''url''}
          then Inl (invalid_data (''unsupported MCP elicitation mode '' @ mode))
          else case validate_bounded_identifier connector ''connector'' MAX_CONNECTOR_BYTES of
            Inl e \<Rightarrow> Inl e
          | Inr _ \<Rightarrow>
              let action = sanitize_bounded (elicitation_action params mode active_tool_preview)
                    MAX_ACTION_BYTES ''connector-action'';
                  message = unwrap_or (first_string params [[''message'']]) ''connector action approval''
              in Inr \<lparr>md_connector = connector, md_action = action,
                   md_params_digest = effect_digest lib (xl_to_vec lib params),
                   md_action_summary = sanitize_bounded (connector @ ''/'' @ action @ '': '' @ message)
                     MAX_SUMMARY_BYTES ''connector approval'',
                   md_mode = mode\<rparr>)))"

section \<open>Serialisation\<close>

text \<open>
  The derived \<open>Serialize\<close> of the records: absent options and empty digests are skipped as their
  attributes say, and the bearer token of an approval token is always skipped.
\<close>

fun effect_state_name :: "ExternalEffectStateV1 \<Rightarrow> string" where
  "effect_state_name Requested = ''requested''"
| "effect_state_name ApprovalRequired = ''approval-required''"
| "effect_state_name Approved = ''approved''"
| "effect_state_name Denied = ''denied''"
| "effect_state_name Submitted = ''submitted''"
| "effect_state_name Confirmed = ''confirmed''"
| "effect_state_name Ambiguous = ''ambiguous''"

fun effect_state_debug :: "ExternalEffectStateV1 \<Rightarrow> string" where
  "effect_state_debug Requested = ''Requested''"
| "effect_state_debug ApprovalRequired = ''ApprovalRequired''"
| "effect_state_debug Approved = ''Approved''"
| "effect_state_debug Denied = ''Denied''"
| "effect_state_debug Submitted = ''Submitted''"
| "effect_state_debug Confirmed = ''Confirmed''"
| "effect_state_debug Ambiguous = ''Ambiguous''"

definition i64_json :: "int \<Rightarrow> Value" where
  "i64_json n =
     (if 0 \<le> n \<and> n < 2 ^ 64 then JsonU64 (of_int n)
      else JsonNumber (if n < 0 then CHR ''-'' # show_nat (nat (- n)) else show_nat (nat n)))"

definition unless_empty :: "string \<Rightarrow> string \<Rightarrow> (string \<times> Value) list" where
  "unless_empty k s = (if s = [] then [] else [(k, JsonString s)])"

definition unless_none :: "string \<Rightarrow> ('a \<Rightarrow> Value) \<Rightarrow> 'a option \<Rightarrow> (string \<times> Value) list" where
  "unless_none k f o' = (case o' of None \<Rightarrow> [] | Some x \<Rightarrow> [(k, f x)])"

definition token_fields :: "ConnectorApprovalTokenV1 \<Rightarrow> (string \<times> Value) list" where
  "token_fields t =
     [(''schema'', JsonString (tk_schema t)), (''tokenDigest'', JsonString (tk_token_digest t)),
      (''effectId'', JsonString (tk_effect_id t)),
      (''exactLaneDigest'', JsonString (tk_exact_lane_digest t)),
      (''paramsDigest'', JsonString (tk_params_digest t))]
     @ unless_empty ''sourceSessionKeyDigest'' (tk_source_session_key_digest t)
     @ unless_empty ''approvalAuthorityDigest'' (tk_approval_authority_digest t)
     @ [(''approvalGeneration'', JsonU64 (tk_approval_generation t)),
        (''expiresAtMs'', i64_json (tk_expires_at_ms t))]
     @ unless_none ''consumedAtMs'' i64_json (tk_consumed_at_ms t)"

definition intent_fields :: "(ConnectorApprovalTokenV1 \<Rightarrow> Value) \<Rightarrow> ExternalEffectIntentV1 \<Rightarrow> (string \<times> Value) list" where
  "intent_fields token_json i =
     [(''schema'', JsonString (ei_schema i)), (''effectId'', JsonString (ei_effect_id i)),
      (''exactLaneDigest'', JsonString (ei_exact_lane_digest i)),
      (''logicalLineageId'', JsonString (ei_logical_lineage_id i)),
      (''sourceQueueId'', JsonString (ei_source_queue_id i))]
     @ unless_empty ''sourceSessionKeyDigest'' (ei_source_session_key_digest i)
     @ unless_empty ''approvalAuthorityDigest'' (ei_approval_authority_digest i)
     @ [(''connector'', JsonString (ei_connector i)), (''action'', JsonString (ei_action i)),
        (''paramsDigest'', JsonString (ei_params_digest i)),
        (''approvalGeneration'', JsonU64 (ei_approval_generation i)),
        (''state'', JsonString (effect_state_name (ei_state i))),
        (''actionSummary'', JsonString (ei_action_summary i))]
     @ unless_none ''approvalToken'' token_json (ei_approval_token i)
     @ [(''requestedAtMs'', i64_json (ei_requested_at_ms i)), (''updatedAtMs'', i64_json (ei_updated_at_ms i))]
     @ unless_none ''reason'' JsonString (ei_reason i)
     @ unless_none ''expiryResolutionId'' JsonString (ei_expiry_resolution_id i)
     @ unless_none ''expiryNoticeId'' JsonString (ei_expiry_notice_id i)"

text \<open>What any receipt serialises of an intent, and the protected snapshot, which adds the bearer.\<close>

definition intent_json :: "ExternalEffectIntentV1 \<Rightarrow> Value" where
  "intent_json i = JsonObject (intent_fields (\<lambda>t. JsonObject (token_fields t)) i)"

definition protected_snapshot :: "ExternalEffectIntentV1 \<Rightarrow> Value" where
  "protected_snapshot i = JsonObject (intent_fields
     (\<lambda>t. JsonObject (map_insert ''token'' (JsonString (tk_token t)) (token_fields t))) i)"

definition transition_json :: "ExternalEffectTransitionV1 \<Rightarrow> Value" where
  "transition_json t = JsonObject
     ([(''schema'', JsonString (et_schema t)), (''effectId'', JsonString (et_effect_id t)),
       (''fromState'', opt_json (map_option effect_state_name (et_from_state t))),
       (''toState'', JsonString (effect_state_name (et_to_state t))),
       (''approvalGeneration'', JsonU64 (et_approval_generation t)), (''atMs'', i64_json (et_at_ms t)),
       (''reason'', JsonString (et_reason t))]
      @ unless_none ''resolutionId'' JsonString (et_resolution_id t)
      @ unless_none ''noticeId'' JsonString (et_notice_id t))"

definition index_json :: "ExternalEffectPublicActionIndexV1 \<Rightarrow> Value" where
  "index_json x = JsonObject
     [(''schema'', JsonString (px_schema x)), (''publicActionId'', JsonString (px_public_action_id x)),
      (''effectId'', JsonString (px_effect_id x)),
      (''approvalGeneration'', JsonU64 (px_approval_generation x)),
      (''decision'', JsonString (stable_name (px_decision x)))]"

text \<open>\<open>write_json_atomic\<close> replaces a file by the indented rendering and a newline.\<close>

definition json_file :: "effect_lib \<Rightarrow> Value \<Rightarrow> string" where
  "json_file lib v = xl_to_vec_pretty lib v @ [nl]"

section \<open>Snapshots and transitions\<close>

definition load_external_effect_intent :: "effect_lib \<Rightarrow> effect_home \<Rightarrow> string
    \<Rightarrow> io_error + ExternalEffectIntentV1 option" where
  "load_external_effect_intent lib h effect_id =
     (case map_of (eh_latest h) effect_id of
        None \<Rightarrow> Inr None
      | Some text \<Rightarrow>
          if MAX_EFFECT_RECORD_BYTES < length text
          then Inl (invalid_data ''external effect snapshot exceeds the bounded record limit'')
          else case xl_intent_from_str lib text of
            None \<Rightarrow> Inl (invalid_data ''invalid external effect snapshot'')
          | Some i \<Rightarrow> (case validate_effect_intent i of Inl e \<Rightarrow> Inl e | Inr _ \<Rightarrow> Inr (Some i)))"

definition transition_of :: "ExternalEffectStateV1 option \<Rightarrow> ExternalEffectIntentV1 \<Rightarrow> ExternalEffectTransitionV1" where
  "transition_of from i =
     \<lparr>et_schema = EXTERNAL_EFFECT_TRANSITION_SCHEMA, et_effect_id = ei_effect_id i,
      et_from_state = from, et_to_state = ei_state i,
      et_approval_generation = ei_approval_generation i, et_at_ms = ei_updated_at_ms i,
      et_reason = unwrap_or (ei_reason i) [], et_resolution_id = ei_expiry_resolution_id i,
      et_notice_id = ei_expiry_notice_id i\<rparr>"

definition persist_transition :: "effect_lib \<Rightarrow> ExternalEffectStateV1 option \<Rightarrow> ExternalEffectIntentV1
    \<Rightarrow> effect_home \<Rightarrow> effect_home \<times> (io_error + unit)" where
  "persist_transition lib from i h =
     (case validate_effect_intent i of
        Inl e \<Rightarrow> (h, Inl e)
      | Inr _ \<Rightarrow>
          let line = xl_to_vec lib (transition_json (transition_of from i)) in
          if MAX_EFFECT_RECORD_BYTES < length line
          then (h, Inl (invalid_data ''external effect transition exceeds the bounded record limit''))
          else (h\<lparr>eh_transitions := eh_transitions h @ line @ [nl],
                  eh_latest := map_insert (ei_effect_id i) (json_file lib (protected_snapshot i))
                    (eh_latest h)\<rparr>, Inr ()))"

definition valid_transition :: "ExternalEffectStateV1 \<Rightarrow> ExternalEffectStateV1 \<Rightarrow> bool" where
  "valid_transition from to \<longleftrightarrow> (from, to) \<in>
     {(Requested, ApprovalRequired), (Requested, Denied), (ApprovalRequired, Approved),
      (ApprovalRequired, Denied), (Approved, Denied), (Approved, Submitted), (Submitted, Confirmed),
      (Submitted, Ambiguous), (Submitted, Approved), (Ambiguous, Approved), (Ambiguous, Confirmed)}"

definition transition_external_effect :: "effect_lib \<Rightarrow> clock \<Rightarrow> string \<Rightarrow> ExternalEffectStateV1 \<Rightarrow> string
    \<Rightarrow> effect_home \<Rightarrow> effect_home \<times> (io_error + ExternalEffectIntentV1)" where
  "transition_external_effect lib clk effect_id to reason h =
     (case load_external_effect_intent lib h effect_id of
        Inl e \<Rightarrow> (h, Inl e)
      | Inr None \<Rightarrow> (h, Inl (IoError NotFound ''external effect intent was not found''))
      | Inr (Some i) \<Rightarrow>
          if ei_state i = to then (h, Inr i)
          else if \<not> valid_transition (ei_state i) to
          then (h, Inl (invalid_input (''invalid external effect transition '' @ effect_state_debug (ei_state i)
            @ '' -> '' @ effect_state_debug to)))
          else case clk 0 of
            Inl e \<Rightarrow> (h, Inl e)
          | Inr now \<Rightarrow>
              let i' = i\<lparr>ei_state := to, ei_updated_at_ms := now,
                ei_reason := Some (sanitize_bounded reason 240 ''effect-transition'')\<rparr>
              in (case persist_transition lib (Some (ei_state i)) i' h of
                    (h', Inl e) \<Rightarrow> (h', Inl e)
                  | (h', Inr _) \<Rightarrow> (h', Inr i')))"

section \<open>Public approval actions\<close>

definition validate_external_effect_public_action_index :: "effect_lib \<Rightarrow> ExternalEffectPublicActionIndexV1
    \<Rightarrow> io_error + unit" where
  "validate_external_effect_public_action_index lib x = first_error
     [if px_schema x \<noteq> EXTERNAL_EFFECT_PUBLIC_ACTION_INDEX_SCHEMA
      then Inl (invalid_data ''unsupported public approval action index schema'') else Inr (),
      validate_effect_id (px_effect_id x),
      (case validate_public_approval_action_id (xl_sha256 lib) (px_public_action_id x) (px_effect_id x)
              (px_approval_generation x) (px_decision x) of
         Inl e \<Rightarrow> Inl (other_io (action_error_display e)) | Inr _ \<Rightarrow> Inr ())]"

definition validate_public_action_id_shape :: "string \<Rightarrow> io_error + unit" where
  "validate_public_action_id_shape public_action_id =
     (case strip_prefix public_action_id ''ahpa1_'' of
        None \<Rightarrow> Inl (permission_denied ''unsupported public approval action reference'')
      | Some suffix \<Rightarrow> if length suffix \<noteq> 32 \<or> \<not> list_all is_lower_hex_byte suffix
          then Inl (permission_denied ''malformed public approval action reference'') else Inr ())"

definition ensure_public_action_index :: "effect_lib \<Rightarrow> ExternalEffectIntentV1 \<Rightarrow> ChannelApprovalDecisionV1
    \<Rightarrow> effect_home \<Rightarrow> effect_home \<times> (io_error + unit)" where
  "ensure_public_action_index lib i decision h =
     (case public_approval_action_id (xl_sha256 lib) (ei_effect_id i) (ei_approval_generation i) decision of
        Inl e \<Rightarrow> (h, Inl (other_io (action_error_display e)))
      | Inr public_action_id \<Rightarrow>
          let index = \<lparr>px_schema = EXTERNAL_EFFECT_PUBLIC_ACTION_INDEX_SCHEMA,
            px_public_action_id = public_action_id, px_effect_id = ei_effect_id i,
            px_approval_generation = ei_approval_generation i, px_decision = decision\<rparr> in
          (case validate_external_effect_public_action_index lib index of
             Inl e \<Rightarrow> (h, Inl e)
           | Inr _ \<Rightarrow>
          (case map_of (eh_public_actions h) public_action_id of
             None \<Rightarrow> (h\<lparr>eh_public_actions := map_insert public_action_id (json_file lib (index_json index))
                       (eh_public_actions h)\<rparr>, Inr ())
           | Some text \<Rightarrow>
          (case xl_index_from_slice lib text of
             None \<Rightarrow> (h, Inl (other_io ''invalid public approval action index''))
           | Some existing \<Rightarrow>
          (case validate_external_effect_public_action_index lib existing of
             Inl e \<Rightarrow> (h, Inl e)
           | Inr _ \<Rightarrow> if existing \<noteq> index
               then (h, Inl (invalid_data ''public approval action index collision'')) else (h, Inr ()))))))"

definition ensure_external_effect_public_action_indexes :: "effect_lib \<Rightarrow> ExternalEffectIntentV1 \<Rightarrow> effect_home
    \<Rightarrow> effect_home \<times> (io_error + unit)" where
  "ensure_external_effect_public_action_indexes lib i h =
     (if ei_source_session_key_digest i = [] \<or> ei_approval_authority_digest i = []
         \<or> ei_state i \<noteq> ApprovalRequired
      then (h, Inr ())
      else case ensure_public_action_index lib i Approve h of
        (h', Inl e) \<Rightarrow> (h', Inl e)
      | (h', Inr _) \<Rightarrow> ensure_public_action_index lib i Deny h')"

end
