(* ===== verification/External_Effect_Ops.thy ===== *)
theory External_Effect_Ops
  imports External_Effect
begin

text \<open>
  The operations on external effects (\<open>src/crates/agent-harness-core/src/external_effect.rs\<close>):
  admission of a request, resolution of an approval by a bearer token, by a channel action or by its
  public reference, expiry, the fence of a lane, and reconciliation with a readback of the connector.
\<close>

section \<open>Admission\<close>

definition new_approval_token :: "effect_lib \<Rightarrow> string option \<Rightarrow> ExternalEffectIntentV1 \<Rightarrow> int
    \<Rightarrow> io_error + ConnectorApprovalTokenV1" where
  "new_approval_token lib random i expires_at_ms =
     (case random of
        None \<Rightarrow> Inl (other_io ''secure connector approval token generation failed'')
      | Some bytes \<Rightarrow>
          let token = ''ahx1_'' @ hex_encode bytes in Inr
          \<lparr>tk_schema = CONNECTOR_APPROVAL_TOKEN_SCHEMA, tk_token = token,
           tk_token_digest = effect_digest lib token, tk_effect_id = ei_effect_id i,
           tk_exact_lane_digest = ei_exact_lane_digest i, tk_params_digest = ei_params_digest i,
           tk_source_session_key_digest = ei_source_session_key_digest i,
           tk_approval_authority_digest = ei_approval_authority_digest i,
           tk_approval_generation = ei_approval_generation i, tk_expires_at_ms = expires_at_ms,
           tk_consumed_at_ms = None\<rparr>)"

definition deny_requested :: "effect_lib \<Rightarrow> clock \<Rightarrow> ExternalEffectIntentV1 \<Rightarrow> effect_home
    \<Rightarrow> effect_home \<times> (io_error + ExternalEffectAdmissionV1)" where
  "deny_requested lib clk i h =
     (case clk 1 of
        Inl e \<Rightarrow> (h, Inl e)
      | Inr updated \<Rightarrow>
          let i' = i\<lparr>ei_state := Denied, ei_updated_at_ms := updated,
            ei_reason := Some ''connector approval policy denied the action''\<rparr>
          in (case persist_transition lib (Some Requested) i' h of
                (h', Inl e) \<Rightarrow> (h', Inl e)
              | (h', Inr _) \<Rightarrow> (h', Inr (AdmitDenied i'))))"

definition require_approval :: "effect_lib \<Rightarrow> clock \<Rightarrow> ConnectorApprovalTokenV1 \<Rightarrow> ExternalEffectIntentV1
    \<Rightarrow> effect_home \<Rightarrow> effect_home \<times> (io_error + ExternalEffectAdmissionV1)" where
  "require_approval lib clk t i h =
     (case clk 1 of
        Inl e \<Rightarrow> (h, Inl e)
      | Inr updated \<Rightarrow>
          let i' = i\<lparr>ei_approval_token := Some t, ei_state := ApprovalRequired,
            ei_updated_at_ms := updated,
            ei_reason := Some ''explicit lane-bound user approval is required''\<rparr>
          in (case persist_transition lib (Some Requested) i' h of
                (h', Inl e) \<Rightarrow> (h', Inl e)
              | (h', Inr _) \<Rightarrow>
             (case ensure_external_effect_public_action_indexes lib i' h' of
                (h'', Inl e) \<Rightarrow> (h'', Inl e)
              | (h'', Inr _) \<Rightarrow> (h'', Inr (AdmitNeedsUser i' (tk_token t))))))"

definition advance_requested_external_effect :: "effect_lib \<Rightarrow> clock \<Rightarrow> string option
    \<Rightarrow> ConnectorApprovalPolicyV1 \<Rightarrow> ExternalEffectIntentV1 \<Rightarrow> effect_home
    \<Rightarrow> effect_home \<times> (io_error + ExternalEffectAdmissionV1)" where
  "advance_requested_external_effect lib clk random policy i h =
     (if ei_state i \<noteq> Requested
      then (h, Inl (invalid_input
        ''only a requested external effect can advance through approval policy''))
      else case clk 0 of
        Inl e \<Rightarrow> (h, Inl e)
      | Inr now \<Rightarrow>
     (case decide_mode policy i of
        ModeDeny \<Rightarrow> deny_requested lib clk i h
      | _ \<Rightarrow> (case new_approval_token lib random i (now + DEFAULT_APPROVAL_TOKEN_TTL_MS) of
                Inl e \<Rightarrow> (h, Inl e)
              | Inr t \<Rightarrow> require_approval lib clk t i h)))"

definition new_requested_intent :: "string \<Rightarrow> ExternalEffectRequestContextV1 \<Rightarrow> McpElicitationDescriptorV1
    \<Rightarrow> int \<Rightarrow> ExternalEffectIntentV1" where
  "new_requested_intent eid c d now =
     \<lparr>ei_schema = EXTERNAL_EFFECT_INTENT_SCHEMA, ei_effect_id = eid,
      ei_exact_lane_digest = rc_exact_lane_digest c,
      ei_logical_lineage_id = sanitize_bounded (rc_logical_lineage_id c) 160 ''logical-lineage'',
      ei_source_queue_id = sanitize_bounded (rc_source_queue_id c) 160 ''source-queue'',
      ei_source_session_key_digest = rc_source_session_key_digest c,
      ei_approval_authority_digest = rc_approval_authority_digest c,
      ei_connector = md_connector d, ei_action = md_action d,
      ei_params_digest = md_params_digest d, ei_approval_generation = 1, ei_state = Requested,
      ei_action_summary = md_action_summary d, ei_approval_token = None,
      ei_requested_at_ms = now, ei_updated_at_ms = now,
      ei_reason = Some ''MCP elicitation observed before any protocol response'',
      ei_expiry_resolution_id = None, ei_expiry_notice_id = None\<rparr>"

definition existing_authority_mismatch :: "ExternalEffectRequestContextV1 \<Rightarrow> ExternalEffectIntentV1 \<Rightarrow> bool" where
  "existing_authority_mismatch c i \<longleftrightarrow> ei_source_session_key_digest i \<noteq> []
     \<and> (ei_source_session_key_digest i \<noteq> rc_source_session_key_digest c
         \<or> ei_approval_authority_digest i \<noteq> rc_approval_authority_digest c)"

definition admit_approval_required :: "effect_lib \<Rightarrow> ExternalEffectIntentV1 \<Rightarrow> effect_home
    \<Rightarrow> effect_home \<times> (io_error + ExternalEffectAdmissionV1)" where
  "admit_approval_required lib i h =
     (case ensure_external_effect_public_action_indexes lib i h of
        (h', Inl e) \<Rightarrow> (h', Inl e)
      | (h', Inr _) \<Rightarrow>
     (case ei_approval_token i of
        None \<Rightarrow> (h', Inl (invalid_data ''approval-required effect is missing its action token''))
      | Some t \<Rightarrow> (h', Inr (AdmitNeedsUser i (tk_token t)))))"

definition admit_existing :: "effect_lib \<Rightarrow> clock \<Rightarrow> string option \<Rightarrow> ConnectorApprovalPolicyV1
    \<Rightarrow> ExternalEffectIntentV1 \<Rightarrow> effect_home \<Rightarrow> effect_home \<times> (io_error + ExternalEffectAdmissionV1)" where
  "admit_existing lib clk random policy i h =
     (case ei_state i of
        Approved \<Rightarrow> (h, Inr (AdmitAuthorized i))
      | Requested \<Rightarrow> advance_requested_external_effect lib clk random policy i h
      | ApprovalRequired \<Rightarrow> admit_approval_required lib i h
      | Denied \<Rightarrow> (h, Inr (AdmitDenied i))
      | Confirmed \<Rightarrow> (h, Inr (AdmitAlreadyConfirmed i))
      | Submitted \<Rightarrow> (h, Inr (AdmitAmbiguous i))
      | Ambiguous \<Rightarrow> (h, Inr (AdmitAmbiguous i)))"

definition check_request :: "ExternalEffectRequestContextV1 \<Rightarrow> McpElicitationDescriptorV1 \<Rightarrow> io_error + unit" where
  "check_request c d = first_error
     [validate_digest (rc_exact_lane_digest c) ''exact lane digest'',
      validate_digest (rc_source_session_key_digest c) ''source session key digest'',
      validate_digest (rc_approval_authority_digest c) ''approval authority digest'',
      validate_digest (md_params_digest d) ''parameter digest'']"

definition begin_external_effect_request :: "effect_lib \<Rightarrow> clock \<Rightarrow> string option
    \<Rightarrow> ExternalEffectRequestContextV1 \<Rightarrow> McpElicitationDescriptorV1 \<Rightarrow> ConnectorApprovalPolicyV1
    \<Rightarrow> effect_home \<Rightarrow> effect_home \<times> (io_error + ExternalEffectAdmissionV1)" where
  "begin_external_effect_request lib clk random c d policy h =
     (case check_request c d of
        Inl e \<Rightarrow> (h, Inl e)
      | Inr _ \<Rightarrow>
     (case load_external_effect_intent lib h (effect_identity lib c d) of
        Inl e \<Rightarrow> (h, Inl e)
      | Inr (Some latest) \<Rightarrow>
          if existing_authority_mismatch c latest
          then (h, Inl (permission_denied ''existing external effect belongs to another approval authority''))
          else admit_existing lib clk random policy latest h
      | Inr None \<Rightarrow>
     (case clk 0 of
        Inl e \<Rightarrow> (h, Inl e)
      | Inr now \<Rightarrow>
          let i = new_requested_intent (effect_identity lib c d) c d now in
          (case persist_transition lib None i h of
             (h', Inl e) \<Rightarrow> (h', Inl e)
           | (h', Inr _) \<Rightarrow>
               advance_requested_external_effect lib (\<lambda>n. clk (Suc n)) random policy i h'))))"

section \<open>Resolution of an approval\<close>

definition native_binding_ok :: "ChannelInboundActionV1 \<Rightarrow> ExternalEffectIntentV1 \<Rightarrow> bool" where
  "native_binding_ok a i \<longleftrightarrow> ia_effect_id a = ei_effect_id i
     \<and> ia_approval_generation a = ei_approval_generation i
     \<and> ei_source_session_key_digest i \<noteq> [] \<and> ei_approval_authority_digest i \<noteq> []
     \<and> ia_source_session_key_digest a = ei_source_session_key_digest i
     \<and> ia_source_authority_digest a = ei_approval_authority_digest i"

definition token_binding_ok :: "effect_lib \<Rightarrow> string \<Rightarrow> ExternalEffectIntentV1 \<Rightarrow> ConnectorApprovalTokenV1 \<Rightarrow> bool" where
  "token_binding_ok lib token i t \<longleftrightarrow> tk_schema t = CONNECTOR_APPROVAL_TOKEN_SCHEMA
     \<and> tk_token_digest t = effect_digest lib token \<and> tk_effect_id t = ei_effect_id i
     \<and> tk_exact_lane_digest t = ei_exact_lane_digest i \<and> tk_params_digest t = ei_params_digest i
     \<and> tk_approval_generation t = ei_approval_generation i"

definition token_authority_ok :: "ExternalEffectIntentV1 \<Rightarrow> ConnectorApprovalTokenV1 \<Rightarrow> bool" where
  "token_authority_ok i t \<longleftrightarrow> tk_source_session_key_digest t \<noteq> []
     \<and> tk_approval_authority_digest t \<noteq> []
     \<and> tk_source_session_key_digest t = ei_source_session_key_digest i
     \<and> tk_approval_authority_digest t = ei_approval_authority_digest i"

definition expired_intent :: "effect_lib \<Rightarrow> ConnectorApprovalTokenV1 \<Rightarrow> int \<Rightarrow> ExternalEffectIntentV1
    \<Rightarrow> ExternalEffectIntentV1" where
  "expired_intent lib t now i = i\<lparr>ei_approval_token := Some (t\<lparr>tk_consumed_at_ms := Some now\<rparr>),
     ei_state := Denied, ei_updated_at_ms := now,
     ei_reason := Some ''connector approval token expired and was fenced'',
     ei_expiry_resolution_id := Some (fst (expiry_resolution_identities lib i)),
     ei_expiry_notice_id := Some (snd (expiry_resolution_identities lib i))\<rparr>"

fun decided_state :: "ExternalEffectApprovalDecisionV1 \<Rightarrow> ExternalEffectStateV1" where
  "decided_state EffectApprove = Approved"
| "decided_state EffectDeny = Denied"

fun decided_reason :: "ExternalEffectApprovalDecisionV1 \<Rightarrow> string" where
  "decided_reason EffectApprove = ''explicit action token approved once''"
| "decided_reason EffectDeny = ''explicit action token denied and fenced''"

definition decided_intent :: "ConnectorApprovalTokenV1 \<Rightarrow> int \<Rightarrow> ExternalEffectApprovalDecisionV1
    \<Rightarrow> ExternalEffectIntentV1 \<Rightarrow> ExternalEffectIntentV1" where
  "decided_intent t now decision i = i\<lparr>ei_approval_token := Some (t\<lparr>tk_consumed_at_ms := Some now\<rparr>),
     ei_state := decided_state decision, ei_updated_at_ms := now,
     ei_reason := Some (decided_reason decision)\<rparr>"

definition approval_expired_error :: io_error where
  "approval_expired_error = IoError TimedOut ''connector approval token has expired''"

definition resolve_bound_token :: "effect_lib \<Rightarrow> ExternalEffectIntentV1 \<Rightarrow> ConnectorApprovalTokenV1 \<Rightarrow> int
    \<Rightarrow> ExternalEffectApprovalDecisionV1 \<Rightarrow> effect_home
    \<Rightarrow> effect_home \<times> (io_error + ExternalEffectIntentV1)" where
  "resolve_bound_token lib i t now decision h =
     (if ei_expiry_resolution_id i \<noteq> None then (h, Inl approval_expired_error)
      else if tk_expires_at_ms t \<le> now
      then (if ei_state i = ApprovalRequired
            then case persist_transition lib (Some (ei_state i)) (expired_intent lib t now i) h of
              (h', Inl e) \<Rightarrow> (h', Inl e)
            | (h', Inr _) \<Rightarrow> (h', Inl approval_expired_error)
            else (h, Inl approval_expired_error))
      else if tk_consumed_at_ms t \<noteq> None
      then (if ei_state i = decided_state decision then (h, Inr i)
            else (h, Inl (IoError AlreadyExists
              ''connector approval token was already consumed for another disposition'')))
      else if ei_state i \<noteq> ApprovalRequired
      then (h, Inl (IoError AlreadyExists
        ''connector approval token has been fenced by a later effect state''))
      else let i' = decided_intent t now decision i in
        (case persist_transition lib (Some (ei_state i)) i' h of
           (h', Inl e) \<Rightarrow> (h', Inl e)
         | (h', Inr _) \<Rightarrow> (h', Inr i')))"

definition resolve_external_effect_approval_locked :: "effect_lib \<Rightarrow> clock \<Rightarrow> ExternalEffectIntentV1 \<Rightarrow> string
    \<Rightarrow> string \<Rightarrow> ExternalEffectApprovalDecisionV1 \<Rightarrow> ChannelInboundActionV1 option \<Rightarrow> effect_home
    \<Rightarrow> effect_home \<times> (io_error + ExternalEffectIntentV1)" where
  "resolve_external_effect_approval_locked lib clk i token lane decision native_action h =
     (if ei_exact_lane_digest i \<noteq> lane
      then (h, Inl (permission_denied ''connector approval token belongs to another exact lane''))
      else if (case native_action of None \<Rightarrow> False | Some a \<Rightarrow> \<not> native_binding_ok a i)
      then (h, Inl (permission_denied ''channel approval action authority binding does not match the effect''))
      else case clk 0 of
        Inl e \<Rightarrow> (h, Inl e)
      | Inr now \<Rightarrow>
     (case ei_approval_token i of
        None \<Rightarrow> (h, Inl (invalid_data ''effect approval token is missing''))
      | Some t \<Rightarrow>
          if \<not> token_binding_ok lib token i t
          then (h, Inl (permission_denied ''connector approval token binding does not match the effect''))
          else if native_action \<noteq> None \<and> \<not> token_authority_ok i t
          then (h, Inl (permission_denied ''native approval token is missing its full authority binding''))
          else resolve_bound_token lib i t now decision h))"

text \<open>The directory is scanned in the order in which it is listed; unreadable snapshots are skipped.\<close>

fun scan_by_token :: "effect_lib \<Rightarrow> effect_home \<Rightarrow> string \<Rightarrow> string list
    \<Rightarrow> io_error + ExternalEffectIntentV1 option" where
  "scan_by_token lib h token_digest [] = Inr None"
| "scan_by_token lib h token_digest (k # ks) =
     (case map_of (eh_latest h) k of
        None \<Rightarrow> Inl (IoError NotFound [])
      | Some text \<Rightarrow>
          if MAX_EFFECT_RECORD_BYTES < length text then scan_by_token lib h token_digest ks
          else case xl_intent_from_str lib text of
            None \<Rightarrow> scan_by_token lib h token_digest ks
          | Some i \<Rightarrow>
              if (case ei_approval_token i of None \<Rightarrow> False | Some t \<Rightarrow> tk_token_digest t = token_digest)
              then Inr (Some i) else scan_by_token lib h token_digest ks)"

definition find_external_effect_by_token :: "effect_lib \<Rightarrow> (string list \<Rightarrow> string list) \<Rightarrow> effect_home \<Rightarrow> string
    \<Rightarrow> io_error + ExternalEffectIntentV1 option" where
  "find_external_effect_by_token lib ho h token_digest =
     scan_by_token lib h token_digest (ho (map_keys (eh_latest h)))"

definition resolve_external_effect_approval :: "effect_lib \<Rightarrow> clock \<Rightarrow> (string list \<Rightarrow> string list) \<Rightarrow> string
    \<Rightarrow> string \<Rightarrow> ExternalEffectApprovalDecisionV1 \<Rightarrow> effect_home
    \<Rightarrow> effect_home \<times> (io_error + ExternalEffectIntentV1)" where
  "resolve_external_effect_approval lib clk ho token lane decision h =
     (case validate_digest lane ''exact lane digest'' of
        Inl e \<Rightarrow> (h, Inl e)
      | Inr _ \<Rightarrow>
     (case find_external_effect_by_token lib ho h (effect_digest lib token) of
        Inl e \<Rightarrow> (h, Inl e)
      | Inr None \<Rightarrow> (h, Inl (IoError NotFound ''connector approval token was not found''))
      | Inr (Some i) \<Rightarrow> resolve_external_effect_approval_locked lib clk i token lane decision None h))"

fun effect_decision :: "ChannelApprovalDecisionV1 \<Rightarrow> ExternalEffectApprovalDecisionV1" where
  "effect_decision Approve = EffectApprove"
| "effect_decision Deny = EffectDeny"

definition resolve_external_effect_channel_action :: "effect_lib \<Rightarrow> clock \<Rightarrow> ChannelInboundActionV1 \<Rightarrow> string
    \<Rightarrow> effect_home \<Rightarrow> effect_home \<times> (io_error + ExternalEffectIntentV1)" where
  "resolve_external_effect_channel_action lib clk a lane h =
     (case inbound_validate a of
        Inl e \<Rightarrow> (h, Inl (permission_denied (''invalid channel approval action: '' @ action_error_display e)))
      | Inr _ \<Rightarrow>
     (case validate_digest lane ''exact lane digest'' of
        Inl e \<Rightarrow> (h, Inl e)
      | Inr _ \<Rightarrow>
     (case load_external_effect_intent lib h (ia_effect_id a) of
        Inl e \<Rightarrow> (h, Inl e)
      | Inr None \<Rightarrow> (h, Inl (IoError NotFound ''channel approval action effect was not found''))
      | Inr (Some i) \<Rightarrow> resolve_external_effect_approval_locked lib clk i (ia_callback_token a) lane
          (effect_decision (ia_decision a)) (Some a) h)))"

definition read_public_action_index :: "effect_lib \<Rightarrow> effect_home \<Rightarrow> string
    \<Rightarrow> ChannelApprovalDecisionV1 option \<Rightarrow> io_error + ExternalEffectPublicActionIndexV1" where
  "read_public_action_index lib h public_action_id expected =
     (case map_of (eh_public_actions h) public_action_id of
        None \<Rightarrow> Inl (IoError NotFound ''channel approval action reference was not found'')
      | Some bytes \<Rightarrow>
          if MAX_EFFECT_RECORD_BYTES < length bytes
          then Inl (invalid_data ''channel approval action index is unbounded'')
          else case xl_index_from_slice lib bytes of
            None \<Rightarrow> Inl (other_io ''invalid public approval action index'')
          | Some x \<Rightarrow>
         (case validate_external_effect_public_action_index lib x of
            Inl e \<Rightarrow> Inl e
          | Inr _ \<Rightarrow>
              if px_public_action_id x \<noteq> public_action_id
              then Inl (permission_denied ''channel approval action index does not match the requested reference'')
              else if expected \<noteq> None \<and> expected \<noteq> Some (px_decision x)
              then Inl (permission_denied ''public approval action decision does not match the requested command'')
              else Inr x))"

definition resolve_external_effect_public_channel_action :: "effect_lib \<Rightarrow> clock \<Rightarrow> string \<Rightarrow> string option
    \<Rightarrow> string \<Rightarrow> string \<Rightarrow> string \<Rightarrow> ChannelApprovalDecisionV1 option \<Rightarrow> effect_home
    \<Rightarrow> effect_home \<times> (io_error + ExternalEffectIntentV1)" where
  "resolve_external_effect_public_channel_action lib clk event_id message_id public_action_id lane
     session_digest expected h =
     (case first_error [validate_public_action_id_shape public_action_id,
        validate_digest lane ''exact lane digest'',
        validate_digest session_digest ''source session key digest''] of
        Inl e \<Rightarrow> (h, Inl e)
      | Inr _ \<Rightarrow>
     (case read_public_action_index lib h public_action_id expected of
        Inl e \<Rightarrow> (h, Inl e)
      | Inr x \<Rightarrow>
     (case load_external_effect_intent lib h (px_effect_id x) of
        Inl e \<Rightarrow> (h, Inl e)
      | Inr None \<Rightarrow> (h, Inl (IoError NotFound ''channel approval action effect was not found''))
      | Inr (Some i) \<Rightarrow>
          if ei_approval_generation i \<noteq> px_approval_generation x \<or> ei_exact_lane_digest i \<noteq> lane
             \<or> ei_source_session_key_digest i \<noteq> session_digest \<or> ei_approval_authority_digest i = []
          then (h, Inl (permission_denied ''channel approval action authority changed after prompt creation''))
          else if (case ei_approval_token i of None \<Rightarrow> True | Some t \<Rightarrow> tk_token t = [])
          then (h, Inl (permission_denied ''channel approval action has no protected bearer binding''))
          else case inbound_new event_id message_id (px_effect_id x) (px_approval_generation x) (px_decision x)
              session_digest (ei_approval_authority_digest i) (tk_token (the (ei_approval_token i))) of
            Inl e \<Rightarrow> (h, Inl (permission_denied (action_error_display e)))
          | Inr a \<Rightarrow> resolve_external_effect_channel_action lib clk a lane h)))"

section \<open>Expiry\<close>

definition expiry_resolution :: "ExternalEffectIntentV1 \<Rightarrow> string \<Rightarrow> string \<Rightarrow> bool \<Rightarrow> ExternalEffectExpiryResolutionV1" where
  "expiry_resolution i resolution_id notice_id newly =
     \<lparr>xr_effect_id = ei_effect_id i, xr_approval_generation = ei_approval_generation i,
      xr_resolution_id = resolution_id, xr_notice_id = notice_id, xr_newly_transitioned = newly\<rparr>"

definition expire_one :: "effect_lib \<Rightarrow> int \<Rightarrow> string \<Rightarrow> effect_home
    \<Rightarrow> effect_home \<times> (io_error + ExternalEffectExpiryResolutionV1 list)" where
  "expire_one lib now effect_id h =
     (case load_external_effect_intent lib h effect_id of
        Inl e \<Rightarrow> (h, Inl e)
      | Inr None \<Rightarrow> (h, Inr [])
      | Inr (Some i) \<Rightarrow>
          if ei_state i = Denied
          then (h, Inr (case (ei_expiry_resolution_id i, ei_expiry_notice_id i) of
              (Some resolution_id, Some notice_id) \<Rightarrow> [expiry_resolution i resolution_id notice_id False]
            | _ \<Rightarrow> []))
          else if ei_state i \<noteq> ApprovalRequired then (h, Inr [])
          else case ei_approval_token i of
            None \<Rightarrow> (h, Inl (invalid_data ''approval-required effect is missing its action token''))
          | Some t \<Rightarrow>
              if now < tk_expires_at_ms t then (h, Inr [])
              else (case persist_transition lib (Some (ei_state i)) (expired_intent lib t now i) h of
                 (h', Inl e) \<Rightarrow> (h', Inl e)
               | (h', Inr _) \<Rightarrow> (h', Inr [expiry_resolution i (fst (expiry_resolution_identities lib i))
                   (snd (expiry_resolution_identities lib i)) True])))"

fun expire_all :: "effect_lib \<Rightarrow> int \<Rightarrow> string list \<Rightarrow> effect_home
    \<Rightarrow> effect_home \<times> (io_error + ExternalEffectExpiryResolutionV1 list)" where
  "expire_all lib now [] h = (h, Inr [])"
| "expire_all lib now (k # ks) h =
     (case expire_one lib now k h of
        (h', Inl e) \<Rightarrow> (h', Inl e)
      | (h', Inr rs) \<Rightarrow>
     (case expire_all lib now ks h' of
        (h'', Inl e) \<Rightarrow> (h'', Inl e)
      | (h'', Inr rs') \<Rightarrow> (h'', Inr (rs @ rs'))))"

definition after_cursor :: "string option \<Rightarrow> string \<Rightarrow> bool" where
  "after_cursor cursor effect_id \<longleftrightarrow> (case cursor of None \<Rightarrow> True | Some c \<Rightarrow> c < effect_id)"

definition expiry_candidates :: "(string list \<Rightarrow> string list) \<Rightarrow> string option \<Rightarrow> effect_home \<Rightarrow> string list" where
  "expiry_candidates ho cursor h = sort (filter (\<lambda>k.
       length (the (map_of (eh_latest h) k)) \<le> MAX_EFFECT_RECORD_BYTES
       \<and> validate_effect_id k = Inr () \<and> after_cursor cursor k) (ho (map_keys (eh_latest h))))"

definition reconcile_expired_external_effect_approvals :: "effect_lib \<Rightarrow> (string list \<Rightarrow> string list)
    \<Rightarrow> ExternalEffectExpiryReconcileRequestV1 \<Rightarrow> effect_home
    \<Rightarrow> effect_home \<times> (io_error + ExternalEffectExpiryReconcileReportV1)" where
  "reconcile_expired_external_effect_approvals lib ho q h =
     (if xq_now_ms q < 0 \<or> xq_max_rows q = 0 \<or> MAX_EXTERNAL_EFFECT_EXPIRY_SCAN_ROWS < xq_max_rows q
      then (h, Inl (invalid_input ''external effect expiry scan request is outside its bounded policy''))
      else case (case xq_after_effect_id q of None \<Rightarrow> Inr () | Some c \<Rightarrow> validate_effect_id c) of
        Inl e \<Rightarrow> (h, Inl e)
      | Inr _ \<Rightarrow>
          let candidates = expiry_candidates ho (xq_after_effect_id q) h;
              exhausted = (length candidates \<le> xq_max_rows q);
              effect_ids = take (xq_max_rows q) candidates
          in (case expire_all lib (xq_now_ms q) effect_ids h of
                (h', Inl e) \<Rightarrow> (h', Inl e)
              | (h', Inr rs) \<Rightarrow> (h', Inr
                  \<lparr>xp_scanned_rows = length effect_ids, xp_resolutions = rs,
                   xp_next_after_effect_id = (if exhausted then None else Some (last effect_ids)),
                   xp_exhausted = exhausted\<rparr>)))"

section \<open>The fence of a lane\<close>

definition fenced_intent :: "int \<Rightarrow> string \<Rightarrow> ExternalEffectIntentV1 \<Rightarrow> ExternalEffectIntentV1" where
  "fenced_intent now reason i = i\<lparr>
     ei_approval_token := map_option (\<lambda>t. t\<lparr>tk_consumed_at_ms := Some now\<rparr>) (ei_approval_token i),
     ei_state := Denied, ei_updated_at_ms := now,
     ei_reason := Some (sanitize_bounded reason MAX_SUMMARY_BYTES ''fenced'')\<rparr>"

definition fence_one :: "effect_lib \<Rightarrow> string \<Rightarrow> string \<Rightarrow> int \<Rightarrow> string \<Rightarrow> effect_home
    \<Rightarrow> effect_home \<times> (io_error + ExternalEffectIntentV1 list)" where
  "fence_one lib lane reason now k h =
     (case map_of (eh_latest h) k of
        None \<Rightarrow> (h, Inl (IoError NotFound []))
      | Some text \<Rightarrow>
          if MAX_EFFECT_RECORD_BYTES < length text then (h, Inr [])
          else case xl_intent_from_str lib text of
            None \<Rightarrow> (h, Inr [])
          | Some i \<Rightarrow>
              if ei_exact_lane_digest i \<noteq> lane \<or> ei_state i \<notin> {ApprovalRequired, Approved}
              then (h, Inr [])
              else (case persist_transition lib (Some (ei_state i)) (fenced_intent now reason i) h of
                 (h', Inl e) \<Rightarrow> (h', Inl e)
               | (h', Inr _) \<Rightarrow> (h', Inr [fenced_intent now reason i])))"

fun fence_all :: "effect_lib \<Rightarrow> string \<Rightarrow> string \<Rightarrow> int \<Rightarrow> string list \<Rightarrow> effect_home
    \<Rightarrow> effect_home \<times> (io_error + ExternalEffectIntentV1 list)" where
  "fence_all lib lane reason now [] h = (h, Inr [])"
| "fence_all lib lane reason now (k # ks) h =
     (case fence_one lib lane reason now k h of
        (h', Inl e) \<Rightarrow> (h', Inl e)
      | (h', Inr is) \<Rightarrow>
     (case fence_all lib lane reason now ks h' of
        (h'', Inl e) \<Rightarrow> (h'', Inl e)
      | (h'', Inr is') \<Rightarrow> (h'', Inr (is @ is'))))"

definition fence_external_effects_for_lane :: "effect_lib \<Rightarrow> clock \<Rightarrow> (string list \<Rightarrow> string list) \<Rightarrow> string
    \<Rightarrow> string \<Rightarrow> effect_home \<Rightarrow> effect_home \<times> (io_error + ExternalEffectIntentV1 list)" where
  "fence_external_effects_for_lane lib clk ho lane reason h =
     (case validate_digest lane ''exact lane digest'' of
        Inl e \<Rightarrow> (h, Inl e)
      | Inr _ \<Rightarrow>
          if eh_latest h = [] then (h, Inr [])
          else case clk 0 of
            Inl e \<Rightarrow> (h, Inl e)
          | Inr now \<Rightarrow> fence_all lib lane reason now (ho (map_keys (eh_latest h))) h)"

section \<open>Readback\<close>

datatype ExternalEffectReadbackV1 = Present | Absent | Unprovable

record GithubIssueReadbackEvidenceV1 =
  gh_schema :: string
  gh_params_digest :: string
  gh_query_complete :: bool
  gh_observed_effect_markers :: "string list"

definition github_adapter_new :: "GithubIssueReadbackEvidenceV1 \<Rightarrow> io_error + GithubIssueReadbackEvidenceV1" where
  "github_adapter_new e =
     (case first_error ([if gh_schema e \<noteq> GITHUB_ISSUE_READBACK_EVIDENCE_SCHEMA
         then Inl (invalid_data ''unsupported GitHub issue readback evidence schema'') else Inr (),
         validate_digest (gh_params_digest e) ''GitHub readback parameter digest'',
         if 256 < length (gh_observed_effect_markers e)
         then Inl (invalid_data ''GitHub issue readback evidence contains too many markers'') else Inr ()]
         @ map validate_effect_marker (gh_observed_effect_markers e)) of
        Inl err \<Rightarrow> Inl err
      | Inr _ \<Rightarrow> Inr e)"

definition github_readback :: "GithubIssueReadbackEvidenceV1 \<Rightarrow> ExternalEffectIntentV1
    \<Rightarrow> io_error + ExternalEffectReadbackV1" where
  "github_readback e i =
     (if \<not> is_github_create_issue i then Inr Unprovable
      else if gh_params_digest e \<noteq> ei_params_digest i
      then Inl (permission_denied ''GitHub issue readback evidence belongs to different parameters'')
      else case github_issue_effect_marker i of
        None \<Rightarrow> Inl (invalid_data ''GitHub issue effect has no deterministic readback marker'')
      | Some marker \<Rightarrow>
          if marker \<in> set (gh_observed_effect_markers e) then Inr Present
          else if gh_query_complete e then Inr Absent else Inr Unprovable)"

datatype ProviderIdempotencyReadbackStateV1 = ProviderPresent | ProviderAbsent | ProviderUnknown

record ProviderIdempotencyReadbackEvidenceV1 =
  pv_schema :: string
  pv_connector :: string
  pv_action :: string
  pv_params_digest :: string
  pv_idempotency_key :: string
  pv_state :: ProviderIdempotencyReadbackStateV1

definition provider_adapter_new :: "ProviderIdempotencyReadbackEvidenceV1
    \<Rightarrow> io_error + ProviderIdempotencyReadbackEvidenceV1" where
  "provider_adapter_new e =
     (case first_error [if pv_schema e \<noteq> PROVIDER_IDEMPOTENCY_READBACK_EVIDENCE_SCHEMA
         then Inl (invalid_data ''unsupported provider idempotency readback evidence schema'') else Inr (),
         validate_bounded_identifier (pv_connector e) ''connector'' MAX_CONNECTOR_BYTES,
         validate_bounded_identifier (pv_action e) ''action'' MAX_ACTION_BYTES,
         validate_digest (pv_params_digest e) ''provider readback parameter digest'',
         validate_bounded_identifier (pv_idempotency_key e) ''idempotency key'' 96] of
        Inl err \<Rightarrow> Inl err
      | Inr _ \<Rightarrow> Inr e)"

fun provider_readback_state :: "ProviderIdempotencyReadbackStateV1 \<Rightarrow> ExternalEffectReadbackV1" where
  "provider_readback_state ProviderPresent = Present"
| "provider_readback_state ProviderAbsent = Absent"
| "provider_readback_state ProviderUnknown = Unprovable"

definition provider_readback :: "ProviderIdempotencyReadbackEvidenceV1 \<Rightarrow> ExternalEffectIntentV1
    \<Rightarrow> io_error + ExternalEffectReadbackV1" where
  "provider_readback e i =
     (if \<not> eq_ignore_ascii_case (pv_connector e) (ei_connector i)
         \<or> \<not> eq_ignore_ascii_case (pv_action e) (ei_action i)
         \<or> pv_params_digest e \<noteq> ei_params_digest i
         \<or> pv_idempotency_key e \<noteq> external_effect_idempotency_key i
      then Inl (permission_denied ''provider idempotency readback evidence is not bound to the durable effect'')
      else Inr (provider_readback_state (pv_state e)))"

text \<open>The adapter is any function of the intent, as the trait has it.\<close>

definition reconcile_external_effect :: "effect_lib \<Rightarrow> clock
    \<Rightarrow> (ExternalEffectIntentV1 \<Rightarrow> io_error + ExternalEffectReadbackV1) \<Rightarrow> string \<Rightarrow> effect_home
    \<Rightarrow> effect_home \<times> (io_error + ExternalEffectIntentV1)" where
  "reconcile_external_effect lib clk readback effect_id h =
     (case load_external_effect_intent lib h effect_id of
        Inl e \<Rightarrow> (h, Inl e)
      | Inr None \<Rightarrow> (h, Inl (IoError NotFound ''external effect intent was not found''))
      | Inr (Some i) \<Rightarrow>
          if ei_state i \<notin> {Submitted, Ambiguous} then (h, Inr i)
          else case readback i of
            Inl e \<Rightarrow> (h, Inl e)
          | Inr Present \<Rightarrow> transition_external_effect lib clk effect_id Confirmed
              ''connector readback confirmed the stable external effect'' h
          | Inr Absent \<Rightarrow> transition_external_effect lib clk effect_id Approved
              ''connector readback proved absence; one bounded resubmission is authorized'' h
          | Inr Unprovable \<Rightarrow> transition_external_effect lib clk effect_id Ambiguous
              ''connector readback could not prove presence or absence; user authority is required'' h)"

end
