(* ===== verification/External_Effect_Props.thy ===== *)
theory External_Effect_Props
  imports External_Effect_Ops
begin

text \<open>
  External effects as a state machine. \<open>stored\<close> reads the home as a map from effects to intents;
  \<open>effect_moves\<close> is a sequence of writes, each of which records a transition that the state machine
  allows. Every operation is such a sequence, with the transitions the operation may make, so that what
  holds of all sequences is proved once. The loops over the snapshots share the locale
  \<open>snapshot_sweep\<close>, interpreted on the expiry scan and on the fence of a lane.
\<close>

section \<open>Sweeps over the snapshots\<close>

text \<open>
  A loop over the listed snapshots that stops at the first failure: when it succeeds, each listed
  snapshot has undergone what one step does, and the others are untouched.
\<close>

locale snapshot_sweep =
  fixes ok :: "'h \<Rightarrow> bool"
    and view :: "'h \<Rightarrow> 'k \<Rightarrow> 'i option"
    and reach :: "'h \<Rightarrow> 'h \<Rightarrow> bool"
    and one :: "'k \<Rightarrow> 'h \<Rightarrow> 'h \<times> ('e + 'r list)"
    and sweep :: "'k list \<Rightarrow> 'h \<Rightarrow> 'h \<times> ('e + 'r list)"
    and due :: "'i \<Rightarrow> 'i"
  assumes sweep_Nil: "sweep [] h = (h, Inr [])"
    and sweep_Cons: "sweep (k # ks) h = (case one k h of (h', Inl e) \<Rightarrow> (h', Inl e)
      | (h', Inr rs) \<Rightarrow> (case sweep ks h' of (h'', Inl e) \<Rightarrow> (h'', Inl e) | (h'', Inr rs') \<Rightarrow> (h'', Inr (rs @ rs'))))"
    and reach_refl: "reach h h"
    and reach_trans: "reach h h' \<Longrightarrow> reach h' h'' \<Longrightarrow> reach h h''"
    and reach_ok: "reach h h' \<Longrightarrow> ok h \<Longrightarrow> ok h'"
    and one_reach: "ok h \<Longrightarrow> reach h (fst (one k h))"
    and one_exact: "ok h \<Longrightarrow> one k h = (h', Inr rs) \<Longrightarrow> view h' = (view h)(k := map_option due (view h k))"
    and due_idem: "due (due i) = due i"
begin

lemma sweep_reach: "ok h \<Longrightarrow> reach h (fst (sweep ks h))"
proof (induction ks arbitrary: h)
  case (Cons k ks)
  obtain h1 r where one: "one k h = (h1, r)" by fastforce
  with one_reach [OF Cons.prems, of k] have m: "reach h h1" by simp
  with Cons.IH [OF reach_ok [OF m Cons.prems]] have "reach h (fst (sweep ks h1))" by (rule reach_trans [rotated])
  with one m show ?case by (cases r) (auto simp: sweep_Cons split: prod.splits sum.splits)
qed (simp add: sweep_Nil reach_refl)

lemma sweep_exact:
  "ok h \<Longrightarrow> sweep ks h = (h', Inr rs) \<Longrightarrow>
   view h' = (\<lambda>k. if k \<in> set ks then map_option due (view h k) else view h k)"
proof (induction ks arbitrary: h rs)
  case (Cons k ks)
  obtain h1 r where one: "one k h = (h1, r)" by fastforce
  with Cons.prems(2) obtain r1 r2 where r: "r = Inr r1" "sweep ks h1 = (h', Inr r2)"
    by (cases r) (auto simp: sweep_Cons split: prod.splits sum.splits)
  have "ok h1" using reach_ok [OF one_reach [OF Cons.prems(1), of k] Cons.prems(1)] one by simp
  from Cons.IH [OF this r(2)] one_exact [OF Cons.prems(1), of k h1 r1] one r(1)
  show ?case by (auto simp: fun_eq_iff option.map_comp o_def due_idem)
qed (simp add: sweep_Nil)

end

section \<open>What is relied on\<close>

definition effect_lib_ok :: "effect_lib \<Rightarrow> bool" where
  "effect_lib_ok lib \<longleftrightarrow>
     (\<forall>i. xl_intent_from_str lib (json_file lib (protected_snapshot i)) = Some i)
     \<and> (\<forall>x. xl_index_from_slice lib (json_file lib (index_json x)) = Some x)"

section \<open>The home as a map of intents\<close>

definition stored :: "effect_lib \<Rightarrow> effect_home \<Rightarrow> string \<Rightarrow> ExternalEffectIntentV1 option" where
  "stored lib h k = Option.bind (map_of (eh_latest h) k) (xl_intent_from_str lib)"

definition snapshot_text :: "effect_lib \<Rightarrow> ExternalEffectIntentV1 \<Rightarrow> string" where
  "snapshot_text lib i = json_file lib (protected_snapshot i)"

text \<open>
  Every snapshot is the file of a valid intent, under its own name: a requested effect has no token
  yet, the token of one that waits for approval is unused, and only denied effects expired.
\<close>

definition state_ok :: "ExternalEffectIntentV1 \<Rightarrow> bool" where
  "state_ok i \<longleftrightarrow> (ei_state i = Requested \<longrightarrow> ei_approval_token i = None)
     \<and> (ei_state i = ApprovalRequired \<longrightarrow>
          (case ei_approval_token i of None \<Rightarrow> True | Some t \<Rightarrow> tk_consumed_at_ms t = None))
     \<and> (ei_expiry_resolution_id i \<noteq> None \<longrightarrow> ei_state i = Denied)"

definition snapshots_ok :: "effect_lib \<Rightarrow> effect_home \<Rightarrow> bool" where
  "snapshots_ok lib h \<longleftrightarrow> distinct (map_keys (eh_latest h))
     \<and> (\<forall>k text. map_of (eh_latest h) k = Some text \<longrightarrow>
          (\<exists>i. text = snapshot_text lib i \<and> ei_effect_id i = k \<and> validate_effect_intent i = Inr () \<and> state_ok i))"

lemma decode_snapshot [simp]: "effect_lib_ok lib \<Longrightarrow> xl_intent_from_str lib (snapshot_text lib i) = Some i"
  by (simp add: effect_lib_ok_def snapshot_text_def)

lemma decode_index [simp]: "effect_lib_ok lib \<Longrightarrow> xl_index_from_slice lib (json_file lib (index_json x)) = Some x"
  by (simp add: effect_lib_ok_def)

lemma stored_public [simp]: "stored lib (h\<lparr>eh_public_actions := p\<rparr>) = stored lib h"
  by (simp add: stored_def fun_eq_iff)

lemma snapshots_public [simp]: "snapshots_ok lib (h\<lparr>eh_public_actions := p\<rparr>) = snapshots_ok lib h"
  by (simp add: snapshots_ok_def)

lemma stored_some:
  assumes "effect_lib_ok lib" and "snapshots_ok lib h" and "stored lib h k = Some i"
  shows "map_of (eh_latest h) k = Some (snapshot_text lib i)" and "ei_effect_id i = k"
    and "validate_effect_intent i = Inr ()" and "state_ok i"
proof -
  from assms(3) obtain tx where tx: "map_of (eh_latest h) k = Some tx" "xl_intent_from_str lib tx = Some i"
    by (auto simp: stored_def bind_eq_Some_conv)
  with assms(2) obtain j where j: "tx = snapshot_text lib j" "ei_effect_id j = k" "validate_effect_intent j = Inr ()"
    "state_ok j" unfolding snapshots_ok_def by blast
  with assms(1) tx(2) have "j = i" by simp
  with j tx(1) show "map_of (eh_latest h) k = Some (snapshot_text lib i)" and "ei_effect_id i = k"
    and "validate_effect_intent i = Inr ()" and "state_ok i" by simp_all
qed

lemma snapshot_stored:
  assumes "effect_lib_ok lib" and "snapshots_ok lib h" and "map_of (eh_latest h) k = Some text"
  obtains i where "text = snapshot_text lib i" "stored lib h k = Some i"
  using assms by (auto simp: stored_def snapshots_ok_def)

abbreviation home_ok :: "effect_lib \<Rightarrow> effect_home \<Rightarrow> bool" where
  "home_ok lib h \<equiv> effect_lib_ok lib \<and> snapshots_ok lib h"

lemma latest_from_stored:
  "home_ok lib h \<Longrightarrow> map_of (eh_latest h) k = map_option (snapshot_text lib) (stored lib h k)"
proof (cases "map_of (eh_latest h) k")
  case (Some tx)
  moreover assume "home_ok lib h"
  ultimately obtain i where "tx = snapshot_text lib i" "stored lib h k = Some i" using snapshot_stored by blast
  with Some show ?thesis by simp
qed (simp add: stored_def)

lemma load_cases:
  assumes "effect_lib_ok lib" and "snapshots_ok lib h"
  obtains (missing) "load_external_effect_intent lib h k = Inr None" "stored lib h k = None"
  | (oversized) e i where "load_external_effect_intent lib h k = Inl e" "stored lib h k = Some i"
      "MAX_EFFECT_RECORD_BYTES < length (snapshot_text lib i)"
  | (found) i where "load_external_effect_intent lib h k = Inr (Some i)" "stored lib h k = Some i"
      "length (snapshot_text lib i) \<le> MAX_EFFECT_RECORD_BYTES"
proof (cases "map_of (eh_latest h) k")
  case None
  then show ?thesis by (intro missing) (simp_all add: load_external_effect_intent_def stored_def)
next
  case (Some tx)
  from snapshot_stored [OF assms Some] obtain i where i: "tx = snapshot_text lib i" "stored lib h k = Some i" .
  note v = stored_some(3) [OF assms i(2)]
  show ?thesis
  proof (cases "MAX_EFFECT_RECORD_BYTES < length tx")
    case True
    with Some i show ?thesis by (intro oversized) (auto simp: load_external_effect_intent_def)
  next
    case False
    with Some i v assms show ?thesis by (intro found) (auto simp: load_external_effect_intent_def)
  qed
qed

lemma load_found:
  assumes "effect_lib_ok lib" and "snapshots_ok lib h" and "load_external_effect_intent lib h k = Inr (Some i)"
  shows "stored lib h k = Some i"
  using assms by (cases rule: load_cases [OF assms(1,2), of k]) auto

lemma load_none:
  assumes "effect_lib_ok lib" and "snapshots_ok lib h" and "load_external_effect_intent lib h k = Inr None"
  shows "stored lib h k = None"
  using assms by (cases rule: load_cases [OF assms(1,2), of k]) auto

lemma load_stored:
  assumes "effect_lib_ok lib" and "snapshots_ok lib h" and "stored lib h k = Some i"
    and "length (snapshot_text lib i) \<le> MAX_EFFECT_RECORD_BYTES"
  shows "load_external_effect_intent lib h k = Inr (Some i)"
  using assms by (cases rule: load_cases [OF assms(1,2), of k]) auto

section \<open>Writes\<close>

lemma persist_cases:
  obtains (failed) e where "persist_transition lib from i h = (h, Inl e)"
  | (written) "validate_effect_intent i = Inr ()"
      "persist_transition lib from i h =
        (h\<lparr>eh_transitions := eh_transitions h @ xl_to_vec lib (transition_json (transition_of from i)) @ [nl],
          eh_latest := map_insert (ei_effect_id i) (snapshot_text lib i) (eh_latest h)\<rparr>, Inr ())"
proof (cases "validate_effect_intent i")
  case (Inl e)
  then show ?thesis by (intro failed [of e]) (simp add: persist_transition_def)
next
  case (Inr u)
  then show ?thesis
    by (cases "MAX_EFFECT_RECORD_BYTES < length (xl_to_vec lib (transition_json (transition_of from i)))")
      (auto simp: persist_transition_def snapshot_text_def Let_def intro: failed written)
qed

lemma persist_ok:
  assumes "persist_transition lib from i h = (h', Inr ())"
  shows "validate_effect_intent i = Inr ()"
    and "eh_latest h' = map_insert (ei_effect_id i) (snapshot_text lib i) (eh_latest h)"
    and "eh_transitions h' = eh_transitions h @ xl_to_vec lib (transition_json (transition_of from i)) @ [nl]"
    and "eh_public_actions h' = eh_public_actions h"
  using assms by (cases rule: persist_cases [of lib "from" i h]; auto)+

lemma persist_fails: "persist_transition lib from i h = (h', Inl e) \<Longrightarrow> h' = h"
  by (cases rule: persist_cases [of lib "from" i h]) auto

lemma persist_stored:
  assumes "effect_lib_ok lib" and "persist_transition lib from i h = (h', Inr ())"
  shows "stored lib h' = (stored lib h)(ei_effect_id i \<mapsto> i)"
  using persist_ok(2) [OF assms(2)] assms(1) by (auto simp: stored_def fun_eq_iff)

lemma persist_snapshots:
  assumes "snapshots_ok lib h" and "persist_transition lib from i h = (h', Inr ())" and "state_ok i"
  shows "snapshots_ok lib h'"
  using persist_ok(1,2) [OF assms(2)] assms(1,3) by (auto simp: snapshots_ok_def distinct_map_insert)

section \<open>Sequences of writes\<close>

text \<open>What stays fixed of an effect: what was asked, in which lane, for whom.\<close>

definition same_request :: "ExternalEffectIntentV1 \<Rightarrow> ExternalEffectIntentV1 \<Rightarrow> bool" where
  "same_request i j \<longleftrightarrow> ei_effect_id i = ei_effect_id j \<and> ei_exact_lane_digest i = ei_exact_lane_digest j
     \<and> ei_logical_lineage_id i = ei_logical_lineage_id j \<and> ei_source_queue_id i = ei_source_queue_id j
     \<and> ei_source_session_key_digest i = ei_source_session_key_digest j
     \<and> ei_approval_authority_digest i = ei_approval_authority_digest j
     \<and> ei_connector i = ei_connector j \<and> ei_action i = ei_action j
     \<and> ei_params_digest i = ei_params_digest j \<and> ei_approval_generation i = ei_approval_generation j
     \<and> ei_action_summary i = ei_action_summary j \<and> ei_requested_at_ms i = ei_requested_at_ms j"

definition token_kept :: "ConnectorApprovalTokenV1 \<Rightarrow> ConnectorApprovalTokenV1 \<Rightarrow> bool" where
  "token_kept t u \<longleftrightarrow> u\<lparr>tk_consumed_at_ms := tk_consumed_at_ms t\<rparr> = t
     \<and> (tk_consumed_at_ms t \<noteq> None \<longrightarrow> tk_consumed_at_ms u \<noteq> None)"

definition keeps_request :: "ExternalEffectIntentV1 \<Rightarrow> ExternalEffectIntentV1 \<Rightarrow> bool" where
  "keeps_request i j \<longleftrightarrow> same_request i j
     \<and> (case ei_approval_token i of None \<Rightarrow> ei_state i = Requested \<or> ei_approval_token j = None
        | Some t \<Rightarrow> (\<exists>u. ei_approval_token j = Some u \<and> token_kept t u))"

type_synonym move_pred = "string \<Rightarrow> ExternalEffectStateV1 option \<Rightarrow> ExternalEffectStateV1 \<Rightarrow> bool"

definition effect_change :: "ExternalEffectIntentV1 option \<Rightarrow> ExternalEffectIntentV1 \<Rightarrow> bool" where
  "effect_change old i \<longleftrightarrow> state_ok i \<and>
     (case old of None \<Rightarrow> ei_state i = Requested
      | Some j \<Rightarrow> valid_transition (ei_state j) (ei_state i) \<and> keeps_request j i)"

inductive effect_moves :: "effect_lib \<Rightarrow> move_pred \<Rightarrow> effect_home \<Rightarrow> effect_home \<Rightarrow> bool"
  for lib P h where
  moves_none: "effect_moves lib P h h"
| moves_index: "effect_moves lib P h h' \<Longrightarrow> effect_moves lib P h (h'\<lparr>eh_public_actions := p\<rparr>)"
| moves_write: "effect_moves lib P h h' \<Longrightarrow> effect_change (stored lib h' (ei_effect_id i)) i \<Longrightarrow>
    from = map_option ei_state (stored lib h' (ei_effect_id i)) \<Longrightarrow> P (ei_effect_id i) from (ei_state i) \<Longrightarrow>
    persist_transition lib from i h' = (h'', Inr ()) \<Longrightarrow> effect_moves lib P h h''"

lemma effect_moves_trans: "effect_moves lib P h' h'' \<Longrightarrow> effect_moves lib P h h' \<Longrightarrow> effect_moves lib P h h''"
  by (induction rule: effect_moves.induct) (auto intro: effect_moves.intros)

lemma effect_moves_mono:
  assumes "effect_moves lib P h h'" and "\<And>k r s. P k r s \<Longrightarrow> Q k r s"
  shows "effect_moves lib Q h h'"
  using assms(1) by (induction rule: effect_moves.induct) (auto intro: effect_moves.intros assms(2))

lemma moves_snapshots: "effect_moves lib P h h' \<Longrightarrow> snapshots_ok lib h \<Longrightarrow> snapshots_ok lib h'"
  by (induction rule: effect_moves.induct) (auto intro: persist_snapshots simp: effect_change_def)

lemma same_request_refl [simp]: "same_request i i"
  by (simp add: same_request_def)

lemma same_request_trans: "same_request i j \<Longrightarrow> same_request j k \<Longrightarrow> same_request i k"
  by (simp add: same_request_def)

text \<open>One write, as the operations make it.\<close>

lemma write_moves:
  assumes "effect_change (stored lib h (ei_effect_id i)) i"
    and "from = map_option ei_state (stored lib h (ei_effect_id i))" and "P (ei_effect_id i) from (ei_state i)"
    and "persist_transition lib from i h = (h', r)"
  shows "effect_moves lib P h h'"
proof (cases r)
  case (Inl e)
  with assms(4) show ?thesis using persist_fails moves_none by blast
next
  case (Inr u)
  with assms show ?thesis by (intro moves_write [OF moves_none]) auto
qed

section \<open>The operations\<close>

lemma token_kept_refl [simp]: "token_kept t t"
  by (simp add: token_kept_def)

lemma token_kept_consumed [simp]: "token_kept t (t\<lparr>tk_consumed_at_ms := Some now\<rparr>)"
  by (simp add: token_kept_def)

lemma keeps_refl [simp]: "keeps_request i i"
  by (simp add: keeps_request_def split: option.splits)

lemmas request_simps = keeps_request_def same_request_def effect_change_def valid_transition_def state_ok_def

lemma final_states [simp]: "\<not> valid_transition Denied s" "\<not> valid_transition Confirmed s"
  by (auto simp: valid_transition_def)

lemma transition_moves:
  assumes "effect_lib_ok lib" and "snapshots_ok lib h"
  shows "effect_moves lib (\<lambda>k r s. k = eid \<and> r = map_option ei_state (stored lib h eid) \<and> s = to) h
      (fst (transition_external_effect lib clk eid to reason h))"
    (is "effect_moves lib ?P h (fst ?op)")
  using assms
proof (cases rule: load_cases [where k = eid])
  case (found i)
  note i = stored_some [OF assms found(2)]
  show ?thesis
  proof (cases "ei_state i = to \<or> \<not> valid_transition (ei_state i) to")
    case True
    with found(1) show ?thesis by (auto simp: transition_external_effect_def intro: moves_none)
  next
    case False
    show ?thesis
    proof (cases "clk 0")
      case (Inl e)
      with False found(1) show ?thesis by (auto simp: transition_external_effect_def intro: moves_none)
    next
      case (Inr now)
      let ?i = "i\<lparr>ei_state := to, ei_updated_at_ms := now,
        ei_reason := Some (sanitize_bounded reason 240 ''effect-transition'')\<rparr>"
      obtain h' r where p: "persist_transition lib (Some (ei_state i)) ?i h = (h', r)" by fastforce
      with False Inr found(1) have "fst ?op = h'"
        by (cases r) (simp_all add: transition_external_effect_def Let_def)
      moreover have "effect_change (stored lib h (ei_effect_id ?i)) ?i"
        using False i found(2) by (auto simp: request_simps split: option.splits)
      ultimately show ?thesis using p i(2) found(2) by (auto intro!: write_moves [where i = ?i])
    qed
  qed
qed (auto simp: transition_external_effect_def intro: moves_none)

subsection \<open>Admission\<close>

lemma ensure_index_public: "\<exists>p. fst (ensure_public_action_index lib i d h) = h\<lparr>eh_public_actions := p\<rparr>"
proof -
  have self: "\<exists>p. h = h\<lparr>eh_public_actions := p\<rparr>" by (intro exI [of _ "eh_public_actions h"]) simp
  show ?thesis
    unfolding ensure_public_action_index_def Let_def
    by (auto split: sum.splits option.splits intro: self)
qed

lemma ensure_indexes_public:
  "\<exists>p. fst (ensure_external_effect_public_action_indexes lib i h) = h\<lparr>eh_public_actions := p\<rparr>"
proof -
  have self: "\<exists>p. h = h\<lparr>eh_public_actions := p\<rparr>" by (intro exI [of _ "eh_public_actions h"]) simp
  obtain h1 r where first: "ensure_public_action_index lib i Approve h = (h1, r)" by fastforce
  with ensure_index_public [of lib i Approve h] obtain p where p: "h1 = h\<lparr>eh_public_actions := p\<rparr>" by auto
  from ensure_index_public [of lib i Deny h1] p
  have "\<exists>p. fst (ensure_public_action_index lib i Deny h1) = h\<lparr>eh_public_actions := p\<rparr>" by auto
  with first p show ?thesis
    by (cases r) (auto simp: ensure_external_effect_public_action_indexes_def intro: self)
qed

lemma indexes_moves:
  "effect_moves lib P h h' \<Longrightarrow> effect_moves lib P h (fst (ensure_external_effect_public_action_indexes lib i h'))"
  using ensure_indexes_public [of lib i h'] by (auto intro: moves_index)

lemma new_token_fresh: "new_approval_token lib random i at = Inr t \<Longrightarrow> tk_consumed_at_ms t = None"
  by (auto simp: new_approval_token_def Let_def split: option.splits)

definition begin_move :: "string \<Rightarrow> move_pred" where
  "begin_move eid k r s \<longleftrightarrow> k = eid \<and> s \<in> {Requested, ApprovalRequired, Denied}"

lemma advance_moves:
  assumes "effect_lib_ok lib" and "snapshots_ok lib h" and st: "stored lib h (ei_effect_id i) = Some i"
  shows "effect_moves lib (begin_move (ei_effect_id i)) h
    (fst (advance_requested_external_effect lib clk random policy i h))"
proof (cases "ei_state i = Requested")
  case True
  note ok = stored_some(4) [OF assms]
  have deny: "effect_moves lib (begin_move (ei_effect_id i)) h (fst (deny_requested lib clk i h))"
  proof (cases "clk 1")
    case (Inr now)
    let ?i = "i\<lparr>ei_state := Denied, ei_updated_at_ms := now,
      ei_reason := Some ''connector approval policy denied the action''\<rparr>"
    obtain h' r where p: "persist_transition lib (Some Requested) ?i h = (h', r)" by fastforce
    have "effect_change (stored lib h (ei_effect_id ?i)) ?i"
      using True ok st by (auto simp: request_simps split: option.splits)
    with p True st have "effect_moves lib (begin_move (ei_effect_id i)) h h'"
      by (intro write_moves [where i = ?i]) (auto simp: begin_move_def)
    with p Inr show ?thesis by (cases r) (simp_all add: deny_requested_def Let_def)
  qed (simp add: deny_requested_def moves_none)
  have ask: "effect_moves lib (begin_move (ei_effect_id i)) h (fst (require_approval lib clk t i h))"
    if t: "tk_consumed_at_ms t = None" for t
  proof (cases "clk 1")
    case (Inr now)
    let ?i = "i\<lparr>ei_approval_token := Some t, ei_state := ApprovalRequired, ei_updated_at_ms := now,
      ei_reason := Some ''explicit lane-bound user approval is required''\<rparr>"
    obtain h' r where p: "persist_transition lib (Some Requested) ?i h = (h', r)" by fastforce
    have "effect_change (stored lib h (ei_effect_id ?i)) ?i"
      using True ok st t by (auto simp: request_simps split: option.splits)
    with p True st have "effect_moves lib (begin_move (ei_effect_id i)) h h'"
      by (intro write_moves [where i = ?i]) (auto simp: begin_move_def)
    with p Inr show ?thesis
      using indexes_moves [of lib "begin_move (ei_effect_id i)" h h' ?i]
      by (cases r) (auto simp: require_approval_def Let_def split: prod.splits sum.splits)
  qed (simp add: require_approval_def moves_none)
  show ?thesis
    using True deny ask new_token_fresh
    by (auto simp: advance_requested_external_effect_def moves_none split: sum.splits ConnectorApprovalModeV1.splits)
qed (simp add: advance_requested_external_effect_def moves_none)

lemma admit_existing_moves:
  assumes "effect_lib_ok lib" and "snapshots_ok lib h" and "stored lib h (ei_effect_id i) = Some i"
  shows "effect_moves lib (begin_move (ei_effect_id i)) h (fst (admit_existing lib clk random policy i h))"
  using advance_moves [OF assms] indexes_moves [OF moves_none]
  by (cases "ei_state i")
    (auto simp: admit_existing_def admit_approval_required_def moves_none
      split: prod.splits sum.splits option.splits, (metis fst_conv)+)

lemma begin_moves:
  assumes "effect_lib_ok lib" and "snapshots_ok lib h"
  shows "effect_moves lib (begin_move (effect_identity lib c d)) h
    (fst (begin_external_effect_request lib clk random c d policy h))"
  using assms
proof (cases rule: load_cases [where k = "effect_identity lib c d"])
  case missing
  let ?i = "new_requested_intent (effect_identity lib c d) c d"
  have new: "effect_change (stored lib h (ei_effect_id (?i now))) (?i now)" "ei_effect_id (?i now) = effect_identity lib c d"
    "ei_state (?i now) = Requested" for now
    using missing(2) by (simp_all add: new_requested_intent_def effect_change_def state_ok_def)
  have "effect_moves lib (begin_move (effect_identity lib c d)) h
      (fst (advance_requested_external_effect lib clk' random policy (?i now) h'))"
    if "persist_transition lib None (?i now) h = (h', Inr u)" for now h' u clk'
  proof -
    have p: "persist_transition lib None (?i now) h = (h', Inr ())" using that by simp
    have "effect_moves lib (begin_move (effect_identity lib c d)) h h'"
      using p new missing(2) by (intro write_moves [where i = "?i now"]) (auto simp: begin_move_def)
    moreover have "snapshots_ok lib h'"
      using p assms(2) new(1) [of now] by (auto intro: persist_snapshots simp: effect_change_def)
    ultimately show ?thesis
      using advance_moves [OF assms(1), of h' "?i now" clk' random policy] persist_stored [OF assms(1) p] new(2)
      by (auto intro: effect_moves_trans)
  qed
  with missing(1) show ?thesis
    by (auto simp: begin_external_effect_request_def Let_def moves_none
        split: sum.splits prod.splits dest: persist_fails)
next
  case (oversized e i)
  then show ?thesis by (auto simp: begin_external_effect_request_def moves_none split: sum.splits)
next
  case (found i)
  with admit_existing_moves [OF assms, of i clk random policy] stored_some(2) [OF assms found(2)] show ?thesis
    by (auto simp: begin_external_effect_request_def moves_none split: sum.splits)
qed

subsection \<open>Resolution\<close>

definition resolve_move :: "ExternalEffectApprovalDecisionV1 \<Rightarrow> io_error + ExternalEffectIntentV1 \<Rightarrow> move_pred" where
  "resolve_move decision res k r s \<longleftrightarrow> r = Some ApprovalRequired
     \<and> (s = Denied \<or> (s = decided_state decision \<and> (\<exists>i. res = Inr i \<and> ei_effect_id i = k)))"

lemma expired_change:
  "ei_state i = ApprovalRequired \<Longrightarrow> ei_approval_token i = Some t \<Longrightarrow> state_ok i \<Longrightarrow>
   effect_change (Some i) (expired_intent lib t now i)"
  by (simp add: request_simps expired_intent_def)

lemma decided_change:
  "ei_state i = ApprovalRequired \<Longrightarrow> ei_approval_token i = Some t \<Longrightarrow> state_ok i \<Longrightarrow>
   effect_change (Some i) (decided_intent t now decision i)"
  by (cases decision) (simp_all add: request_simps decided_intent_def)

lemma expired_simps [simp]: "ei_effect_id (expired_intent lib t now i) = ei_effect_id i"
  "ei_state (expired_intent lib t now i) = Denied"
  by (simp_all add: expired_intent_def)

lemma decided_simps [simp]: "ei_effect_id (decided_intent t now d i) = ei_effect_id i"
  "ei_state (decided_intent t now d i) = decided_state d"
  by (simp_all add: decided_intent_def)

lemma resolve_bound_moves:
  assumes "stored lib h (ei_effect_id i) = Some i" and "ei_approval_token i = Some t" and "state_ok i"
  shows "effect_moves lib (resolve_move decision (snd (resolve_bound_token lib i t now decision h))) h
    (fst (resolve_bound_token lib i t now decision h))"
proof (cases "ei_expiry_resolution_id i = None \<and> ei_state i = ApprovalRequired
    \<and> (tk_expires_at_ms t \<le> now \<or> tk_consumed_at_ms t = None)")
  case False
  then show ?thesis by (auto simp: resolve_bound_token_def moves_none)
next
  case True
  show ?thesis
  proof (cases "tk_expires_at_ms t \<le> now")
    case expired: True
    obtain h' r where p: "persist_transition lib (Some (ei_state i)) (expired_intent lib t now i) h = (h', r)" by fastforce
    with True expired have "fst (resolve_bound_token lib i t now decision h) = h'"
      by (cases r) (simp_all add: resolve_bound_token_def)
    with p assms True expired_change [of i t lib now] show ?thesis
      by (auto intro!: write_moves [where i = "expired_intent lib t now i"] simp: resolve_move_def)
  next
    case live: False
    let ?i = "decided_intent t now decision i"
    obtain h' r where p: "persist_transition lib (Some (ei_state i)) ?i h = (h', r)" by fastforce
    with True live have op: "resolve_bound_token lib i t now decision h =
        (h', case r of Inl e \<Rightarrow> Inl e | Inr _ \<Rightarrow> Inr ?i)"
      by (cases r) (simp_all add: resolve_bound_token_def Let_def)
    show ?thesis
    proof (cases r)
      case (Inl e)
      with p have "h' = h" using persist_fails by blast
      with op show ?thesis by (simp add: moves_none)
    next
      case (Inr u)
      with p assms True decided_change [of i t now decision] show ?thesis unfolding op
        by (auto intro!: write_moves [where i = ?i] simp: resolve_move_def)
    qed
  qed
qed

lemma resolve_locked_moves:
  assumes "effect_lib_ok lib" and "snapshots_ok lib h" and "stored lib h k = Some i"
  shows "effect_moves lib (resolve_move decision
      (snd (resolve_external_effect_approval_locked lib clk i token lane decision act h))) h
    (fst (resolve_external_effect_approval_locked lib clk i token lane decision act h))"
  using resolve_bound_moves [of lib h i] stored_some [OF assms] assms(3)
  unfolding resolve_external_effect_approval_locked_def
  by (auto simp: moves_none split: sum.splits option.splits)

lemma scan_found:
  assumes "scan_by_token lib h dg ks = Inr (Some i)"
  shows "\<exists>k \<in> set ks. stored lib h k = Some i" and "\<exists>t. ei_approval_token i = Some t \<and> tk_token_digest t = dg"
  using assms by (induction ks) (auto simp: stored_def split: option.splits if_splits)

lemma resolve_moves:
  assumes "effect_lib_ok lib" and "snapshots_ok lib h"
  shows "effect_moves lib (resolve_move decision (snd (resolve_external_effect_approval lib clk ho token lane decision h))) h
    (fst (resolve_external_effect_approval lib clk ho token lane decision h))"
  using resolve_locked_moves [OF assms]
  by (auto simp: resolve_external_effect_approval_def find_external_effect_by_token_def moves_none
      split: sum.splits option.splits dest!: scan_found(1))

lemma action_moves:
  assumes "effect_lib_ok lib" and "snapshots_ok lib h"
  shows "effect_moves lib (resolve_move (effect_decision (ia_decision a))
      (snd (resolve_external_effect_channel_action lib clk a lane h))) h
    (fst (resolve_external_effect_channel_action lib clk a lane h))"
  using resolve_locked_moves [OF assms]
  by (auto simp: resolve_external_effect_channel_action_def moves_none split: sum.splits option.splits
      dest!: load_found [OF assms])

text \<open>A public reference either fails without effect or is the channel action it stands for.\<close>

lemma inbound_new_fields:
  "inbound_new ev m e g d s au tok = Inr a \<Longrightarrow> ia_decision a = d \<and> ia_effect_id a = e"
  by (auto simp: inbound_new_def Let_def split: sum.splits)

lemma public_action_cases:
  assumes op: "op = resolve_external_effect_public_channel_action lib clk event_id message_id pid lane session expected h"
  shows "(\<exists>e. op = (h, Inl e)) \<or> (\<exists>a x. op = resolve_external_effect_channel_action lib clk a lane h
    \<and> read_public_action_index lib h pid expected = Inr x
    \<and> ia_decision a = px_decision x \<and> ia_effect_id a = px_effect_id x)"
  unfolding op resolve_external_effect_public_channel_action_def
  by (auto split: sum.splits option.splits dest: inbound_new_fields)

lemma index_decision:
  "read_public_action_index lib h pid (Some d) = Inr x \<Longrightarrow> px_decision x = d"
  by (auto simp: read_public_action_index_def split: option.splits if_splits sum.splits)

subsection \<open>Expiry and the fence\<close>

definition expire_move :: move_pred where
  "expire_move k r s \<longleftrightarrow> r = Some ApprovalRequired \<and> s = Denied"

definition fence_move :: move_pred where
  "fence_move k r s \<longleftrightarrow> r \<in> {Some ApprovalRequired, Some Approved} \<and> s = Denied"

lemma fenced_simps [simp]: "ei_effect_id (fenced_intent now reason i) = ei_effect_id i"
  "ei_state (fenced_intent now reason i) = Denied"
  "ei_exact_lane_digest (fenced_intent now reason i) = ei_exact_lane_digest i"
  by (simp_all add: fenced_intent_def)

lemma fenced_change:
  "ei_state i \<in> {ApprovalRequired, Approved} \<Longrightarrow> state_ok i \<Longrightarrow> effect_change (Some i) (fenced_intent now reason i)"
  by (cases "ei_approval_token i") (auto simp: request_simps fenced_intent_def)

text \<open>What one snapshot undergoes, in the three cases: nothing, a denial, a failed write.\<close>

definition overdue :: "int \<Rightarrow> ExternalEffectIntentV1 \<Rightarrow> bool" where
  "overdue now i \<longleftrightarrow> ei_state i = ApprovalRequired
     \<and> (\<exists>t. ei_approval_token i = Some t \<and> tk_expires_at_ms t \<le> now)"

lemma expire_one_cases:
  assumes "effect_lib_ok lib" and "snapshots_ok lib h"
  obtains (kept) r where "expire_one lib now k h = (h, r)"
      "\<And>i. stored lib h k = Some i \<Longrightarrow> overdue now i \<Longrightarrow> isl r"
  | (expired) i t h' where "stored lib h k = Some i" "ei_state i = ApprovalRequired"
      "ei_approval_token i = Some t" "tk_expires_at_ms t \<le> now"
      "persist_transition lib (Some ApprovalRequired) (expired_intent lib t now i) h = (h', Inr ())"
      "expire_one lib now k h = (h', Inr [expiry_resolution i (fst (expiry_resolution_identities lib i))
         (snd (expiry_resolution_identities lib i)) True])"
  using assms
proof (cases rule: load_cases [where k = k])
  case missing
  then show ?thesis by (intro kept [of "Inr []"]) (simp_all add: expire_one_def)
next
  case (oversized e i)
  then show ?thesis by (intro kept [of "Inl e"]) (simp_all add: expire_one_def)
next
  case (found i)
  show ?thesis
  proof (cases "overdue now i")
    case True
    then obtain t where t: "ei_state i = ApprovalRequired" "ei_approval_token i = Some t" "tk_expires_at_ms t \<le> now"
      by (auto simp: overdue_def)
    obtain h' r where p: "persist_transition lib (Some ApprovalRequired) (expired_intent lib t now i) h = (h', r)" by fastforce
    show ?thesis
    proof (cases r)
      case (Inl e)
      with p have "h' = h" using persist_fails by blast
      with Inl p found(1) t show ?thesis by (intro kept [of "Inl e"]) (simp_all add: expire_one_def)
    next
      case (Inr u)
      with p found t show ?thesis by (intro expired [of i t h']) (simp_all add: expire_one_def)
    qed
  next
    case False
    with found show ?thesis
      by (intro kept [of "snd (expire_one lib now k h)"])
        (auto simp: expire_one_def overdue_def split: option.splits)
  qed
qed

definition expire_if_due :: "effect_lib \<Rightarrow> int \<Rightarrow> ExternalEffectIntentV1 \<Rightarrow> ExternalEffectIntentV1" where
  "expire_if_due lib now i =
     (if overdue now i then expired_intent lib (the (ei_approval_token i)) now i else i)"

lemma not_overdue_again [simp]: "\<not> overdue now (expire_if_due lib now i)"
  by (simp add: overdue_def expire_if_due_def)

lemma expire_if_due_idem [simp]: "expire_if_due lib now (expire_if_due lib now i) = expire_if_due lib now i"
  by (simp add: expire_if_due_def [of lib now "expire_if_due lib now i"])

lemma expire_one_moves:
  assumes "effect_lib_ok lib" and "snapshots_ok lib h"
  shows "effect_moves lib expire_move h (fst (expire_one lib now k h))"
  using assms
proof (cases rule: expire_one_cases [where k = k and now = now])
  case (expired i t h')
  with stored_some [OF assms expired(1)] expired_change [of i t lib now]
  have "effect_moves lib expire_move h h'"
    by (intro write_moves [where i = "expired_intent lib t now i"]) (auto simp: expire_move_def)
  with expired(6) show ?thesis by simp
qed (simp add: moves_none)

lemma expire_one_exact:
  assumes "effect_lib_ok lib" and "snapshots_ok lib h" and "expire_one lib now k h = (h', Inr rs)"
  shows "stored lib h' = (stored lib h)(k := map_option (expire_if_due lib now) (stored lib h k))"
  using assms(1,2)
proof (cases rule: expire_one_cases [where k = k and now = now])
  case (kept r)
  with assms(3) have "h' = h" "\<And>i. stored lib h k = Some i \<Longrightarrow> \<not> overdue now i" by auto
  then show ?thesis by (cases "stored lib h k") (auto simp: expire_if_due_def fun_eq_iff)
next
  case (expired i t h2)
  then have "overdue now i" by (auto simp: overdue_def)
  moreover have "h2 = h'" using expired(6) assms(3) by simp
  ultimately show ?thesis
    using persist_stored [OF assms(1) expired(5)] stored_some(2) [OF assms(1,2) expired(1)] expired(1,3)
    by (auto simp: expire_if_due_def)
qed

interpretation expiry: snapshot_sweep "home_ok lib" "stored lib" "effect_moves lib expire_move" "expire_one lib now"
  "expire_all lib now" "expire_if_due lib now" for lib now
proof unfold_locales
  fix k ks and h h' :: effect_home and rs and i
  show "expire_all lib now [] h = (h, Inr [])" by simp
  show "expire_all lib now (k # ks) h = (case expire_one lib now k h of (h', Inl e) \<Rightarrow> (h', Inl e)
      | (h', Inr rs) \<Rightarrow> (case expire_all lib now ks h' of (h'', Inl e) \<Rightarrow> (h'', Inl e) | (h'', Inr rs') \<Rightarrow> (h'', Inr (rs @ rs'))))"
    by simp
  show "expire_one lib now k h = (h', Inr rs) \<Longrightarrow> home_ok lib h \<Longrightarrow>
      stored lib h' = (stored lib h)(k := map_option (expire_if_due lib now) (stored lib h k))"
    using expire_one_exact by blast
qed (auto intro: moves_none effect_moves_trans moves_snapshots expire_one_moves)

lemma reconcile_expired_moves:
  assumes "effect_lib_ok lib" and "snapshots_ok lib h"
  shows "effect_moves lib expire_move h (fst (reconcile_expired_external_effect_approvals lib ho q h))"
proof -
  let ?ks = "take (xq_max_rows q) (expiry_candidates ho (xq_after_effect_id q) h)"
  obtain h' r where a: "expire_all lib (xq_now_ms q) ?ks h = (h', r)" by fastforce
  with expiry.sweep_reach [of lib h "xq_now_ms q" ?ks] assms have "effect_moves lib expire_move h h'" by simp
  with a show ?thesis
    by (cases r) (auto simp: reconcile_expired_external_effect_approvals_def Let_def moves_none split: sum.splits)
qed

subsection \<open>The fence of a lane\<close>

definition fence_due :: "string \<Rightarrow> ExternalEffectIntentV1 \<Rightarrow> bool" where
  "fence_due lane i \<longleftrightarrow> ei_exact_lane_digest i = lane \<and> ei_state i \<in> {ApprovalRequired, Approved}"

definition readable_snapshot :: "effect_lib \<Rightarrow> ExternalEffectIntentV1 \<Rightarrow> bool" where
  "readable_snapshot lib i \<longleftrightarrow> length (snapshot_text lib i) \<le> MAX_EFFECT_RECORD_BYTES"

definition fence_if_due :: "effect_lib \<Rightarrow> string \<Rightarrow> int \<Rightarrow> string \<Rightarrow> ExternalEffectIntentV1 \<Rightarrow> ExternalEffectIntentV1" where
  "fence_if_due lib lane now reason i =
     (if fence_due lane i \<and> readable_snapshot lib i then fenced_intent now reason i else i)"

lemma fence_if_due_idem [simp]:
  "fence_if_due lib lane now reason (fence_if_due lib lane now reason i) = fence_if_due lib lane now reason i"
  by (auto simp: fence_if_due_def fence_due_def)

lemma fence_one_step:
  assumes "effect_lib_ok lib" and "snapshots_ok lib h" and "fence_one lib lane reason now k h = (h', r)"
  shows "effect_moves lib fence_move h h'"
    and "r = Inr is \<Longrightarrow> stored lib h' = (stored lib h)(k := map_option (fence_if_due lib lane now reason) (stored lib h k))"
proof -
  have "effect_moves lib fence_move h h' \<and>
    (r = Inr is \<longrightarrow> stored lib h' = (stored lib h)(k := map_option (fence_if_due lib lane now reason) (stored lib h k)))"
  proof (cases "map_of (eh_latest h) k")
    case None
    with assms(3) show ?thesis by (auto simp: fence_one_def moves_none)
  next
    case (Some tx)
    from snapshot_stored [OF assms(1,2) Some] obtain i where i: "tx = snapshot_text lib i" "stored lib h k = Some i" .
    note v = stored_some [OF assms(1,2) i(2)]
    show ?thesis
    proof (cases "fence_due lane i \<and> readable_snapshot lib i")
      case False
      with assms(1,3) Some i have "h' = h"
        by (auto simp: fence_one_def fence_due_def readable_snapshot_def split: if_splits)
      with False i(2) show ?thesis by (auto simp: moves_none fence_if_due_def fun_eq_iff)
    next
      case True
      obtain h2 r2 where p: "persist_transition lib (Some (ei_state i)) (fenced_intent now reason i) h = (h2, r2)" by fastforce
      with True assms(1,3) Some i have h': "h' = h2" "r = Inr is \<Longrightarrow> r2 = Inr ()"
        by (cases r2; auto simp: fence_one_def fence_due_def readable_snapshot_def)+
      have "effect_moves lib fence_move h h2"
        using p True v i(2) fenced_change [of i now reason]
        by (intro write_moves [where i = "fenced_intent now reason i"]) (auto simp: fence_move_def fence_due_def)
      moreover have "stored lib h2 = (stored lib h)(k \<mapsto> fenced_intent now reason i)" if "r2 = Inr ()"
        using persist_stored [OF assms(1)] p that v(2) by fastforce
      ultimately show ?thesis using h' True i(2) by (auto simp: fence_if_due_def)
    qed
  qed
  then show "effect_moves lib fence_move h h'"
    and "r = Inr is \<Longrightarrow> stored lib h' = (stored lib h)(k := map_option (fence_if_due lib lane now reason) (stored lib h k))"
    by auto
qed

interpretation lane_fence: snapshot_sweep "home_ok lib" "stored lib" "effect_moves lib fence_move"
  "fence_one lib lane reason now" "fence_all lib lane reason now" "fence_if_due lib lane now reason"
  for lib lane reason now
proof unfold_locales
  fix k ks and h h' :: effect_home and rs and i
  show "fence_all lib lane reason now [] h = (h, Inr [])" by simp
  show "fence_all lib lane reason now (k # ks) h = (case fence_one lib lane reason now k h of (h', Inl e) \<Rightarrow> (h', Inl e)
      | (h', Inr rs) \<Rightarrow> (case fence_all lib lane reason now ks h' of (h'', Inl e) \<Rightarrow> (h'', Inl e)
        | (h'', Inr rs') \<Rightarrow> (h'', Inr (rs @ rs'))))"
    by simp
  show "fence_one lib lane reason now k h = (h', Inr rs) \<Longrightarrow> home_ok lib h \<Longrightarrow>
      stored lib h' = (stored lib h)(k := map_option (fence_if_due lib lane now reason) (stored lib h k))"
    using fence_one_step(2) by blast
  show "home_ok lib h \<Longrightarrow> effect_moves lib fence_move h (fst (fence_one lib lane reason now k h))"
    using fence_one_step(1) by (metis prod.collapse)
qed (auto intro: moves_none effect_moves_trans moves_snapshots)

lemma fence_moves:
  assumes "effect_lib_ok lib" and "snapshots_ok lib h"
  shows "effect_moves lib fence_move h (fst (fence_external_effects_for_lane lib clk ho lane reason h))"
  using lane_fence.sweep_reach [of lib h] assms by (auto simp: fence_external_effects_for_lane_def moves_none split: sum.splits)

subsection \<open>Readback\<close>

definition readback_move :: "string \<Rightarrow> ExternalEffectIntentV1 option \<Rightarrow> (ExternalEffectIntentV1 \<Rightarrow> io_error + ExternalEffectReadbackV1)
    \<Rightarrow> move_pred" where
  "readback_move eid old readback k r s \<longleftrightarrow> k = eid \<and> r \<in> {Some Submitted, Some Ambiguous}
     \<and> (\<exists>i. old = Some i \<and> (s = Approved \<longrightarrow> readback i = Inr Absent) \<and> (s = Confirmed \<longrightarrow> readback i = Inr Present))"

lemma reconcile_moves:
  assumes "effect_lib_ok lib" and "snapshots_ok lib h"
  shows "effect_moves lib (readback_move eid (stored lib h eid) readback) h
    (fst (reconcile_external_effect lib clk readback eid h))"
  using assms
proof (cases rule: load_cases [where k = eid])
  case (found i)
  show ?thesis
  proof (cases "ei_state i \<in> {Submitted, Ambiguous}")
    case False
    with found(1) show ?thesis by (simp add: reconcile_external_effect_def moves_none)
  next
    case True
    have "effect_moves lib (readback_move eid (stored lib h eid) readback) h
        (fst (transition_external_effect lib clk eid to reason h))"
      if "to = Approved \<longrightarrow> readback i = Inr Absent" "to = Confirmed \<longrightarrow> readback i = Inr Present" for to reason
      using transition_moves [OF assms, of eid to clk reason] True found(2) that
      by (auto elim!: effect_moves_mono simp: readback_move_def)
    with True found(1) show ?thesis
      by (auto simp: reconcile_external_effect_def moves_none split: sum.splits ExternalEffectReadbackV1.splits)
  qed
qed (simp_all add: reconcile_external_effect_def moves_none)

end
