(* ===== verification/External_Effect_Demo.thy ===== *)
theory External_Effect_Demo
  imports External_Effect_Props
begin

text \<open>
  A concrete library for external effects, on which the properties are applied: a digest that repeats
  the last byte, a rendering of JSON values that is short on the snapshots of one effect and a number on
  all others, and the deserialisers of the derived forms. The requests, tokens and intents of one effect
  follow, with the first operations on it.
\<close>

section \<open>Reading the derived forms back\<close>

definition field_value :: "string \<Rightarrow> Value \<Rightarrow> Value" where
  "field_value k v = (case value_get k v of None \<Rightarrow> JsonNull | Some w \<Rightarrow> w)"

fun value_string :: "Value \<Rightarrow> string" where
  "value_string (JsonString s) = s"
| "value_string _ = []"

fun value_u64 :: "Value \<Rightarrow> u64" where
  "value_u64 (JsonU64 n) = n"
| "value_u64 _ = 0"

fun value_i64 :: "Value \<Rightarrow> int" where
  "value_i64 (JsonU64 n) = int (unat n)"
| "value_i64 (JsonNumber (c # s)) =
     (if c = CHR ''-'' then - int (decimal_value s) else int (decimal_value (c # s)))"
| "value_i64 _ = 0"

definition value_option :: "(Value \<Rightarrow> 'a) \<Rightarrow> string \<Rightarrow> Value \<Rightarrow> 'a option" where
  "value_option f k v = map_option f (value_get k v)"

definition all_states :: "ExternalEffectStateV1 list" where
  "all_states = [Requested, ApprovalRequired, Approved, Denied, Submitted, Confirmed, Ambiguous]"

definition value_state :: "Value \<Rightarrow> ExternalEffectStateV1" where
  "value_state v = the (find (\<lambda>s. effect_state_name s = value_string v) all_states)"

definition value_decision :: "Value \<Rightarrow> ChannelApprovalDecisionV1" where
  "value_decision v = (if value_string v = ''approve'' then Approve else Deny)"

definition value_token :: "Value \<Rightarrow> ConnectorApprovalTokenV1" where
  "value_token v =
     \<lparr>tk_schema = value_string (field_value ''schema'' v), tk_token = value_string (field_value ''token'' v),
      tk_token_digest = value_string (field_value ''tokenDigest'' v),
      tk_effect_id = value_string (field_value ''effectId'' v),
      tk_exact_lane_digest = value_string (field_value ''exactLaneDigest'' v),
      tk_params_digest = value_string (field_value ''paramsDigest'' v),
      tk_source_session_key_digest = value_string (field_value ''sourceSessionKeyDigest'' v),
      tk_approval_authority_digest = value_string (field_value ''approvalAuthorityDigest'' v),
      tk_approval_generation = value_u64 (field_value ''approvalGeneration'' v),
      tk_expires_at_ms = value_i64 (field_value ''expiresAtMs'' v),
      tk_consumed_at_ms = value_option value_i64 ''consumedAtMs'' v\<rparr>"

definition value_intent :: "Value \<Rightarrow> ExternalEffectIntentV1" where
  "value_intent v =
     \<lparr>ei_schema = value_string (field_value ''schema'' v), ei_effect_id = value_string (field_value ''effectId'' v),
      ei_exact_lane_digest = value_string (field_value ''exactLaneDigest'' v),
      ei_logical_lineage_id = value_string (field_value ''logicalLineageId'' v),
      ei_source_queue_id = value_string (field_value ''sourceQueueId'' v),
      ei_source_session_key_digest = value_string (field_value ''sourceSessionKeyDigest'' v),
      ei_approval_authority_digest = value_string (field_value ''approvalAuthorityDigest'' v),
      ei_connector = value_string (field_value ''connector'' v), ei_action = value_string (field_value ''action'' v),
      ei_params_digest = value_string (field_value ''paramsDigest'' v),
      ei_approval_generation = value_u64 (field_value ''approvalGeneration'' v),
      ei_state = value_state (field_value ''state'' v),
      ei_action_summary = value_string (field_value ''actionSummary'' v),
      ei_approval_token = value_option value_token ''approvalToken'' v,
      ei_requested_at_ms = value_i64 (field_value ''requestedAtMs'' v),
      ei_updated_at_ms = value_i64 (field_value ''updatedAtMs'' v),
      ei_reason = value_option value_string ''reason'' v,
      ei_expiry_resolution_id = value_option value_string ''expiryResolutionId'' v,
      ei_expiry_notice_id = value_option value_string ''expiryNoticeId'' v\<rparr>"

definition value_index :: "Value \<Rightarrow> ExternalEffectPublicActionIndexV1" where
  "value_index v =
     \<lparr>px_schema = value_string (field_value ''schema'' v),
      px_public_action_id = value_string (field_value ''publicActionId'' v),
      px_effect_id = value_string (field_value ''effectId'' v),
      px_approval_generation = value_u64 (field_value ''approvalGeneration'' v),
      px_decision = value_decision (field_value ''decision'' v)\<rparr>"

lemma map_of_unless_empty [simp]: "map_of (unless_empty k s) k' = (if k = k' \<and> s \<noteq> [] then Some (JsonString s) else None)"
  by (simp add: unless_empty_def)

lemma map_of_unless_none [simp]: "map_of (unless_none k f o') k' = (if k = k' then map_option f o' else None)"
  by (simp add: unless_none_def split: option.splits)

lemma value_i64_json [simp]: "value_i64 (i64_json n) = n"
proof (cases "0 \<le> n \<and> n < 2 ^ 64")
  case True
  then have "unat (of_int n :: u64) = nat n"
    by (simp add: unsigned_of_int take_bit_int_eq_self)
  with True show ?thesis by (simp add: i64_json_def)
next
  case False
  show ?thesis
  proof (cases "n < 0")
    case True
    then show ?thesis by (simp add: i64_json_def)
  next
    case nonneg: False
    obtain c s where cs: "show_nat (nat n) = c # s" by (meson neq_Nil_conv show_nat_nonempty)
    with show_nat_digits [of "nat n"] have "is_ascii_digit c" by simp
    then have "c \<noteq> CHR ''-''" by (auto simp: is_ascii_digit_def)
    with cs False nonneg show ?thesis using decimal_value_show_nat [of "nat n"] by (simp add: i64_json_def)
  qed
qed

lemma value_state_name [simp]: "value_state (JsonString (effect_state_name s)) = s"
  by (cases s) (simp_all add: value_state_def all_states_def)

lemma value_token_fields [simp]:
  "value_token (JsonObject (map_insert ''token'' (JsonString (tk_token t)) (token_fields t))) = t"
  by (cases t) (simp add: value_token_def token_fields_def field_value_def value_option_def map_add_def
      option.map_comp o_def option.map_ident split: option.splits)

lemma value_intent_snapshot [simp]: "value_intent (protected_snapshot i) = i"
  by (cases i) (simp add: value_intent_def protected_snapshot_def intent_fields_def field_value_def value_option_def
      map_add_def option.map_comp o_def option.map_ident split: option.splits)

lemma value_index_json [simp]: "value_index (index_json x) = x"
  by (cases x, cases "px_decision x") (simp_all add: value_index_def index_json_def field_value_def value_decision_def)

section \<open>The library\<close>

definition demo_pretty :: "Value list \<Rightarrow> Value \<Rightarrow> string" where
  "demo_pretty vs v =
     (if v \<in> set vs then replicate (Suc (length (takeWhile (\<lambda>w. w \<noteq> v) vs))) (CHR ''x'')
      else CHR ''n'' # show_nat (to_nat v))"

definition demo_parse :: "Value list \<Rightarrow> string \<Rightarrow> Value" where
  "demo_parse vs tx =
     (if hd tx = CHR ''x'' then vs ! (length tx - 2) else from_nat (decimal_value (List.tl (butlast tx))))"

lemma demo_parse_pretty [simp]: "demo_parse vs (demo_pretty vs v @ [nl]) = v"
proof (cases "v \<in> set vs")
  case True
  then have "takeWhile (\<lambda>w. w \<noteq> v) vs \<noteq> vs" by (metis set_takeWhileD)
  then have "length (takeWhile (\<lambda>w. w \<noteq> v) vs) < length vs"
    by (metis length_takeWhile_le le_neq_implies_less takeWhile_eq_take take_all order_refl)
  then have "vs ! length (takeWhile (\<lambda>w. w \<noteq> v) vs) = v" using nth_length_takeWhile by blast
  with True show ?thesis by (simp add: demo_parse_def demo_pretty_def)
next
  case False
  then show ?thesis by (simp add: demo_parse_def demo_pretty_def butlast_append)
qed

definition demo_lib_of :: "Value list \<Rightarrow> effect_lib" where
  "demo_lib_of vs =
     \<lparr>xl_sha256 = (\<lambda>s. replicate 32 (last s)), xl_to_vec = (\<lambda>_. []), xl_to_vec_pretty = demo_pretty vs,
      xl_from_str = (\<lambda>_. None), xl_intent_from_str = (\<lambda>tx. Some (value_intent (demo_parse vs tx))),
      xl_index_from_slice = (\<lambda>tx. Some (value_index (demo_parse vs tx))), xl_policy_from_value = (\<lambda>_. None)\<rparr>"

lemma demo_lib_of_ok: "effect_lib_ok (demo_lib_of vs)"
  by (simp add: effect_lib_ok_def demo_lib_of_def json_file_def)

section \<open>One effect\<close>

definition demo_digest :: "char \<Rightarrow> string" where
  "demo_digest c = ''sha256:'' @ replicate 64 c"

definition demo_context :: ExternalEffectRequestContextV1 where
  "demo_context = \<lparr>rc_exact_lane_digest = demo_digest (CHR ''a''), rc_logical_lineage_id = ''l'',
     rc_source_queue_id = ''q'', rc_source_session_key_digest = demo_digest (CHR ''b''),
     rc_approval_authority_digest = demo_digest (CHR ''c'')\<rparr>"

definition demo_request :: McpElicitationDescriptorV1 where
  "demo_request = \<lparr>md_connector = ''github'', md_action = ''create_issue'', md_params_digest = demo_digest (CHR ''d''),
     md_action_summary = ''s'', md_mode = ''form''\<rparr>"

definition demo_effect :: string where
  "demo_effect = effect_identity (demo_lib_of []) demo_context demo_request"

definition demo_bearer :: string where
  "demo_bearer = ''ahx1_'' @ hex_encode (replicate 24 (CHR ''r''))"

definition demo_token :: ConnectorApprovalTokenV1 where
  "demo_token = \<lparr>tk_schema = CONNECTOR_APPROVAL_TOKEN_SCHEMA, tk_token = demo_bearer,
     tk_token_digest = effect_digest (demo_lib_of []) demo_bearer, tk_effect_id = demo_effect,
     tk_exact_lane_digest = demo_digest (CHR ''a''), tk_params_digest = demo_digest (CHR ''d''),
     tk_source_session_key_digest = demo_digest (CHR ''b''),
     tk_approval_authority_digest = demo_digest (CHR ''c''), tk_approval_generation = 1,
     tk_expires_at_ms = 10 + DEFAULT_APPROVAL_TOKEN_TTL_MS, tk_consumed_at_ms = None\<rparr>"

definition demo_waiting :: ExternalEffectIntentV1 where
  "demo_waiting = (new_requested_intent demo_effect demo_context demo_request 10)\<lparr>ei_approval_token := Some demo_token,
     ei_state := ApprovalRequired, ei_updated_at_ms := 10,
     ei_reason := Some ''explicit lane-bound user approval is required''\<rparr>"

definition demo_decided :: "ExternalEffectApprovalDecisionV1 \<Rightarrow> ExternalEffectIntentV1" where
  "demo_decided d = decided_intent demo_token 20 d demo_waiting"

definition demo_submitted :: ExternalEffectIntentV1 where
  "demo_submitted = (demo_decided EffectApprove)\<lparr>ei_state := Submitted, ei_updated_at_ms := 30,
     ei_reason := Some (sanitize_bounded ''sent'' 240 ''effect-transition'')\<rparr>"

definition demo_xl :: effect_lib where
  "demo_xl = demo_lib_of (map protected_snapshot [demo_waiting, demo_decided EffectApprove, demo_decided EffectDeny, demo_submitted])"

lemma demo_xl_ok: "effect_lib_ok demo_xl"
  by (simp add: demo_xl_def demo_lib_of_ok)

lemma demo_readable:
  "i \<in> {demo_waiting, demo_decided EffectApprove, demo_decided EffectDeny, demo_submitted} \<Longrightarrow> readable_snapshot demo_xl i"
proof -
  assume i: "i \<in> {demo_waiting, demo_decided EffectApprove, demo_decided EffectDeny, demo_submitted}"
  let ?vs = "map protected_snapshot [demo_waiting, demo_decided EffectApprove, demo_decided EffectDeny, demo_submitted]"
  have "protected_snapshot i \<in> set ?vs" using i by auto
  moreover have "length (takeWhile (\<lambda>w. w \<noteq> protected_snapshot i) ?vs) \<le> 4"
    using length_takeWhile_le [of _ ?vs] by simp
  ultimately show ?thesis
    by (simp add: readable_snapshot_def snapshot_text_def json_file_def demo_xl_def demo_lib_of_def demo_pretty_def
        MAX_EFFECT_RECORD_BYTES_def del: list.map takeWhile.simps)
qed

lemma demo_xl_identity: "effect_identity demo_xl demo_context demo_request = demo_effect"
  "effect_digest demo_xl = effect_digest (demo_lib_of [])"
  by (simp_all add: demo_effect_def effect_identity_def effect_digest_def demo_xl_def demo_lib_of_def fun_eq_iff)

section \<open>Validation\<close>

lemma demo_digest_valid [simp]:
  assumes "c \<in> {CHR ''a'', CHR ''b'', CHR ''c'', CHR ''d''}"
  shows "validate_digest (demo_digest c) label = Inr ()" "validate_sha256_digest (demo_digest c) label = Inr ()"
  using assms by (auto simp: demo_digest_def validate_digest_def validate_sha256_digest_def is_ascii_hexdigit_def
      is_lower_hex_byte_def strip_prefix_def starts_with_def list_all_iff)

lemma hex_ascii_hexdigit: "list_all is_ascii_hexdigit (hex_encode bs)"
  using hex_encode_lower [of bs] by (auto simp: list_all_iff is_ascii_hexdigit_def)

lemma hex_graphic: "list_all ascii_graphic (hex_encode bs)"
  using hex_encode_lower [of bs]
  by (auto simp: list_all_iff is_lower_hex_byte_def is_ascii_digit_def ascii_graphic_def)

lemma demo_effect_hex: "\<exists>bs. length bs = 32 \<and> demo_effect = hex_encode bs"
  by (intro exI [of _ "replicate 32 (last (concat (map length_prefixed [rc_exact_lane_digest demo_context,
      rc_logical_lineage_id demo_context, rc_source_queue_id demo_context, md_connector demo_request,
      md_action demo_request, md_params_digest demo_request, ''1''])))"])
    (simp only: demo_effect_def effect_identity_def demo_lib_of_def effect_lib.simps length_replicate)

lemma demo_effect_valid [simp]: "length demo_effect = 64" "list_all is_ascii_hexdigit demo_effect"
  "validate_effect_id demo_effect = Inr ()"
proof -
  obtain bs where bs: "length bs = 32" "demo_effect = hex_encode bs" using demo_effect_hex by blast
  show "length demo_effect = 64" unfolding bs(2) length_hex_encode bs(1) by simp
  show "list_all is_ascii_hexdigit demo_effect" unfolding bs(2) by (rule hex_ascii_hexdigit)
  show "validate_effect_id demo_effect = Inr ()"
    unfolding bs(2) validate_effect_id_def length_hex_encode bs(1) by (simp add: hex_encode_lower)
qed

lemma demo_digest_nonempty [simp]: "demo_digest c \<noteq> []"
  by (simp add: demo_digest_def)

lemma demo_token_digest_valid: "validate_digest (effect_digest lib b) label = Inr ()" if "length (xl_sha256 lib b) = 32"
  using that hex_ascii_hexdigit by (simp add: validate_digest_def effect_digest_def Let_def strip_prefix_def starts_with_def)

definition demo_shape :: "ExternalEffectIntentV1 \<Rightarrow> bool" where
  "demo_shape i \<longleftrightarrow> same_request (i\<lparr>ei_action_summary := ''s''\<rparr>) demo_waiting
     \<and> length (ei_action_summary i) \<le> MAX_SUMMARY_BYTES \<and> ei_schema i = EXTERNAL_EFFECT_INTENT_SCHEMA
     \<and> (ei_approval_token i = None \<or> (\<exists>t. ei_approval_token i = Some t \<and> token_kept demo_token t))"

lemma demo_identifier: "validate_bounded_identifier ''github'' label MAX_CONNECTOR_BYTES = Inr ()"
proof -
  have "trim ''github'' = ''github''" by (rule trim_graphic_ends) (simp_all add: ascii_graphic_def)
  then show ?thesis by (simp add: validate_bounded_identifier_def MAX_CONNECTOR_BYTES_def)
qed

lemma demo_fields:
  "ei_effect_id demo_waiting = demo_effect" "ei_exact_lane_digest demo_waiting = demo_digest (CHR ''a'')"
  "ei_params_digest demo_waiting = demo_digest (CHR ''d'')" "ei_source_session_key_digest demo_waiting = demo_digest (CHR ''b'')"
  "ei_approval_authority_digest demo_waiting = demo_digest (CHR ''c'')" "ei_connector demo_waiting = ''github''"
  "ei_action demo_waiting = ''create_issue''" "ei_action_summary demo_waiting = ''s''" "ei_approval_generation demo_waiting = 1"
  "ei_state demo_waiting = ApprovalRequired" "ei_approval_token demo_waiting = Some demo_token"
  "ei_expiry_resolution_id demo_waiting = None"
  by (simp_all add: demo_waiting_def new_requested_intent_def demo_context_def demo_request_def)

lemma demo_shape_valid: "demo_shape i \<Longrightarrow> validate_effect_intent i = Inr ()"
proof -
  assume i: "demo_shape i"
  then have s: "same_request (i\<lparr>ei_action_summary := ''s''\<rparr>) demo_waiting" "ei_schema i = EXTERNAL_EFFECT_INTENT_SCHEMA"
    "\<not> MAX_SUMMARY_BYTES < length (ei_action_summary i)" by (simp_all add: demo_shape_def)
  have "validate_token i t = Inr ()" if "ei_approval_token i = Some t" for t
  proof -
    from i that have "t\<lparr>tk_consumed_at_ms := None\<rparr> = demo_token" by (auto simp: demo_shape_def token_kept_def demo_token_def)
    then have "tk_schema t = tk_schema demo_token" "tk_effect_id t = tk_effect_id demo_token"
      "tk_exact_lane_digest t = tk_exact_lane_digest demo_token" "tk_params_digest t = tk_params_digest demo_token"
      "tk_approval_generation t = tk_approval_generation demo_token" "tk_token_digest t = tk_token_digest demo_token"
      "tk_source_session_key_digest t = tk_source_session_key_digest demo_token"
      "tk_approval_authority_digest t = tk_approval_authority_digest demo_token"
      by (cases t; auto simp: demo_token_def)+
    moreover have "validate_digest (effect_digest (demo_lib_of []) demo_bearer) label = Inr ()" for label
      by (rule demo_token_digest_valid) (simp add: demo_lib_of_def)
    ultimately show ?thesis using s(1)
      by (simp add: validate_token_def validate_legacy_compatible_authority_binding_def demo_token_def same_request_def demo_fields)
  qed
  with s show ?thesis
    by (simp add: validate_effect_intent_def first_error_Inr same_request_def demo_fields demo_identifier
        validate_legacy_compatible_authority_binding_def MAX_ACTION_BYTES_def split: option.splits)
qed

section \<open>The first operations\<close>

lemma demo_persist:
  assumes "demo_shape i"
  shows "\<exists>h'. persist_transition demo_xl from i h = (h', Inr ()) \<and> stored demo_xl h' = (stored demo_xl h)(demo_effect \<mapsto> i)
    \<and> eh_public_actions h' = eh_public_actions h"
proof -
  have id: "ei_effect_id i = demo_effect" using assms by (simp add: demo_shape_def same_request_def demo_fields)
  obtain h' where h': "persist_transition demo_xl from i h = (h', Inr ())"
    using demo_shape_valid [OF assms] by (simp add: persist_transition_def demo_xl_def demo_lib_of_def MAX_EFFECT_RECORD_BYTES_def)
  with persist_stored [OF demo_xl_ok h'] persist_ok(4) [OF h'] id show ?thesis by auto
qed

lemma contains_subset: "contains s p \<Longrightarrow> set p \<subseteq> set s"
proof (induction s)
  case (Cons a s)
  show ?case
  proof (cases "starts_with (a # s) p")
    case True
    then obtain r where "a # s = p @ r" by (auto simp: starts_with_iff)
    then show ?thesis by (metis Un_upper1 set_append)
  next
    case False
    with Cons show ?thesis by auto
  qed
qed simp

lemma demo_effect_text: "\<not> is_blank demo_effect" "\<not> has_control demo_effect"
proof -
  have g: "list_all ascii_graphic demo_effect" using demo_effect_hex hex_graphic by metis
  have "demo_effect \<noteq> []" by (metis demo_effect_valid(1) list.size(3) zero_neq_numeral)
  with g show "\<not> is_blank demo_effect" by (intro not_blank_graphic_ends) (auto simp: list_all_iff)
  from g show "\<not> has_control demo_effect" by (rule graphic_no_control)
qed

lemma demo_binding [simp]: "validate_effect_binding demo_effect 1 = Inr ()"
  using demo_effect_text by (simp add: validate_effect_binding_def validate_bounded_text_def MAX_EFFECT_ID_BYTES_def)

fun demo_pid :: "ChannelApprovalDecisionV1 \<Rightarrow> string" where
  "demo_pid d = ''ahpa1_'' @ take 32 (hex_encode (replicate 32 (last (stable_name d))))"

lemma demo_public_id: "public_approval_action_id (xl_sha256 demo_xl) demo_effect 1 d = Inr (demo_pid d)"
  by (cases d) (simp_all add: public_approval_action_id_def PUBLIC_ACTION_ID_PREFIX_def sha256_hex_def demo_xl_def
      demo_lib_of_def public_action_canonical_def)

lemma demo_pids_differ: "demo_pid Approve \<noteq> demo_pid Deny"
  by code_simp

lemma demo_pid_no_bearer: "\<not> contains (demo_pid d) APPROVAL_BEARER_PREFIX"
proof
  assume "contains (demo_pid d) APPROVAL_BEARER_PREFIX"
  then have "set APPROVAL_BEARER_PREFIX \<subseteq> set (demo_pid d)" by (rule contains_subset)
  then have "CHR ''x'' \<in> set (demo_pid d)" by (simp add: APPROVAL_BEARER_PREFIX_def)
  then have "CHR ''x'' \<in> set (hex_encode (replicate 32 (last (stable_name d))))" by (auto dest: in_set_takeD)
  with hex_encode_lower [of "replicate 32 (last (stable_name d))"] show False
    by (auto simp: list_all_iff is_lower_hex_byte_def is_ascii_digit_def)
qed

lemma demo_index:
  assumes "map_of (eh_public_actions h) (demo_pid d) = None"
  shows "\<exists>tx. ensure_public_action_index demo_xl demo_waiting d h =
    (h\<lparr>eh_public_actions := map_insert (demo_pid d) tx (eh_public_actions h)\<rparr>, Inr ())"
  using assms demo_public_id [of d] demo_pid_no_bearer [of d]
  by (simp add: ensure_public_action_index_def demo_fields Let_def validate_external_effect_public_action_index_def
      validate_public_approval_action_id_def del: demo_pid.simps) (rule exI, rule refl)

lemma demo_indexes:
  assumes "eh_public_actions h = []"
  shows "\<exists>p. ensure_external_effect_public_action_indexes demo_xl demo_waiting h = (h\<lparr>eh_public_actions := p\<rparr>, Inr ())"
proof -
  obtain tx where a: "ensure_public_action_index demo_xl demo_waiting Approve h =
      (h\<lparr>eh_public_actions := map_insert (demo_pid Approve) tx (eh_public_actions h)\<rparr>, Inr ())" (is "_ = (?h, _)")
    using demo_index [of h Approve] assms by auto
  have "map_of (eh_public_actions ?h) (demo_pid Deny) = None" using assms demo_pids_differ by (simp del: demo_pid.simps)
  from demo_index [OF this] a show ?thesis
    by (auto simp: ensure_external_effect_public_action_indexes_def demo_fields)
qed

abbreviation demo_clock :: "int \<Rightarrow> clock" where
  "demo_clock n \<equiv> \<lambda>_. Inr n"

abbreviation demo_random :: "string option" where
  "demo_random \<equiv> Some (replicate 24 (CHR ''r''))"

lemma demo_not_protected: "decide_mode default_approval_policy (new_requested_intent demo_effect demo_context demo_request 10) = ModeNeedsUser"
proof -
  have "\<not> protected_connector_action ''github'' ''create_issue'' ''s''" by code_simp
  then show ?thesis
    by (simp add: decide_mode_def new_requested_intent_def demo_request_def mode_for_def default_approval_policy_def)
qed

lemma demo_begin:
  assumes none: "eh_latest h = []" "eh_public_actions h = []"
  shows "\<exists>h1. begin_external_effect_request demo_xl (demo_clock 10) demo_random demo_context demo_request default_approval_policy h
    = (h1, Inr (AdmitNeedsUser demo_waiting demo_bearer)) \<and> stored demo_xl h1 = (stored demo_xl h)(demo_effect \<mapsto> demo_waiting)"
proof -
  let ?i = "new_requested_intent demo_effect demo_context demo_request 10"
  have shape: "demo_shape ?i" "demo_shape demo_waiting"
    by (simp_all add: demo_shape_def same_request_def demo_waiting_def new_requested_intent_def demo_request_def
        MAX_SUMMARY_BYTES_def)
  obtain h1 where h1: "persist_transition demo_xl None ?i h = (h1, Inr ())" "eh_public_actions h1 = []"
    "stored demo_xl h1 = (stored demo_xl h)(demo_effect \<mapsto> ?i)"
    using demo_persist [OF shape(1), of None h] none by auto
  obtain h2 where h2: "persist_transition demo_xl (Some Requested) demo_waiting h1 = (h2, Inr ())" "eh_public_actions h2 = []"
    "stored demo_xl h2 = (stored demo_xl h1)(demo_effect \<mapsto> demo_waiting)"
    using demo_persist [OF shape(2), of "Some Requested" h1] h1(2) by auto
  obtain p where p: "ensure_external_effect_public_action_indexes demo_xl demo_waiting h2 = (h2\<lparr>eh_public_actions := p\<rparr>, Inr ())"
    using demo_indexes [OF h2(2)] by blast
  have t: "new_approval_token demo_xl demo_random ?i (10 + DEFAULT_APPROVAL_TOKEN_TTL_MS) = Inr demo_token"
    by (simp add: new_approval_token_def demo_token_def demo_bearer_def demo_xl_identity new_requested_intent_def
        demo_context_def demo_request_def Let_def)
  have st: "ei_state ?i = Requested" and tb: "tk_token demo_token = demo_bearer"
    by (simp_all add: new_requested_intent_def demo_token_def)
  have req: "require_approval demo_xl (demo_clock 10) demo_token ?i h1
      = (h2\<lparr>eh_public_actions := p\<rparr>, Inr (AdmitNeedsUser demo_waiting demo_bearer))"
    unfolding require_approval_def Let_def sum.case demo_waiting_def [symmetric] using h2(1) p tb by simp
  have "advance_requested_external_effect demo_xl (demo_clock 10) demo_random default_approval_policy ?i h1
      = (h2\<lparr>eh_public_actions := p\<rparr>, Inr (AdmitNeedsUser demo_waiting demo_bearer))"
    by (simp add: advance_requested_external_effect_def st t demo_not_protected req)
  moreover have "check_request demo_context demo_request = Inr ()"
    by (simp add: check_request_def demo_context_def demo_request_def)
  moreover have "load_external_effect_intent demo_xl h demo_effect = Inr None"
    using none(1) by (simp add: load_external_effect_intent_def)
  ultimately have "begin_external_effect_request demo_xl (demo_clock 10) demo_random demo_context demo_request default_approval_policy h
    = (h2\<lparr>eh_public_actions := p\<rparr>, Inr (AdmitNeedsUser demo_waiting demo_bearer))"
    using h1(1) by (simp add: begin_external_effect_request_def demo_xl_identity)
  with h1(3) h2(3) show ?thesis by auto
qed

section \<open>Later operations\<close>

definition demo_action :: "ChannelApprovalDecisionV1 \<Rightarrow> ChannelInboundActionV1" where
  "demo_action d = \<lparr>ia_schema = CHANNEL_INBOUND_ACTION_SCHEMA, ia_provider_event_id = ''e'', ia_provider_message_id = None,
     ia_effect_id = demo_effect, ia_approval_generation = 1, ia_decision = d,
     ia_source_session_key_digest = demo_digest (CHR ''b''), ia_source_authority_digest = demo_digest (CHR ''c''),
     ia_callback_token = demo_bearer\<rparr>"

abbreviation demo_lane_digest :: string where
  "demo_lane_digest \<equiv> demo_digest (CHR ''a'')"

lemma demo_bearer_valid: "validate_callback_token demo_bearer = Inr ()"
  using hex_graphic [of "replicate 24 (CHR ''r'')"]
  by (simp add: validate_callback_token_def demo_bearer_def APPROVAL_BEARER_PREFIX_def MAX_CALLBACK_TOKEN_BYTES_def
      starts_with_def ascii_graphic_def)

lemma demo_action_valid: "inbound_validate (demo_action d) = Inr ()"
proof -
  have "\<not> is_blank ''e''" by (rule not_blank_graphic_ends) (simp_all add: ascii_graphic_def)
  then have "validate_bounded_text ''e'' label MAX_PROVIDER_ID_BYTES = Inr ()" for label
    by (simp add: validate_bounded_text_def MAX_PROVIDER_ID_BYTES_def)
  then show ?thesis by (simp add: inbound_validate_def demo_action_def demo_bearer_valid)
qed

lemma demo_shapes: "demo_shape demo_waiting" "demo_shape (demo_decided d)" "demo_shape demo_submitted"
  by (auto simp: demo_shape_def demo_decided_def demo_submitted_def decided_intent_def same_request_def demo_waiting_def
      new_requested_intent_def demo_request_def MAX_SUMMARY_BYTES_def)

lemma demo_action_fields: "ia_effect_id (demo_action d) = demo_effect" "ia_callback_token (demo_action d) = demo_bearer"
  "ia_decision (demo_action d) = d"
  by (simp_all add: demo_action_def)

text \<open>The effect waits in a home; the user presses a button.\<close>

lemma demo_effect_resolve:
  assumes "home_ok demo_xl h" and "stored demo_xl h demo_effect = Some demo_waiting"
  shows "\<exists>h'. resolve_external_effect_channel_action demo_xl (demo_clock 20) (demo_action d) demo_lane_digest h
      = (h', Inr (demo_decided (effect_decision d)))
    \<and> stored demo_xl h' = (stored demo_xl h)(demo_effect \<mapsto> demo_decided (effect_decision d))"
proof -
  have load: "load_external_effect_intent demo_xl h demo_effect = Inr (Some demo_waiting)"
    using load_stored [OF demo_xl_ok _ assms(2)] assms(1) demo_readable [of demo_waiting] by (simp add: readable_snapshot_def)
  obtain h' where h': "persist_transition demo_xl (Some ApprovalRequired) (demo_decided (effect_decision d)) h = (h', Inr ())"
    "stored demo_xl h' = (stored demo_xl h)(demo_effect \<mapsto> demo_decided (effect_decision d))"
    using demo_persist [OF demo_shapes(2)] by blast
  have "token_binding_ok demo_xl demo_bearer demo_waiting demo_token" "token_authority_ok demo_waiting demo_token"
    "native_binding_ok (demo_action d) demo_waiting"
    by (simp_all add: token_binding_ok_def token_authority_ok_def native_binding_ok_def demo_fields demo_token_def
        demo_xl_identity demo_action_def)
  moreover have "resolve_bound_token demo_xl demo_waiting demo_token 20 (effect_decision d) h
      = (h', Inr (demo_decided (effect_decision d)))"
    using h'(1) by (simp add: resolve_bound_token_def demo_fields demo_token_def DEFAULT_APPROVAL_TOKEN_TTL_MS_def demo_decided_def)
  ultimately have "resolve_external_effect_channel_action demo_xl (demo_clock 20) (demo_action d) demo_lane_digest h
      = (h', Inr (demo_decided (effect_decision d)))"
    using load by (simp add: resolve_external_effect_channel_action_def demo_action_valid
        resolve_external_effect_approval_locked_def demo_fields demo_action_fields)
  with h'(2) show ?thesis by blast
qed

lemma demo_submit:
  assumes "home_ok demo_xl h" and "stored demo_xl h demo_effect = Some (demo_decided EffectApprove)"
  shows "\<exists>h'. transition_external_effect demo_xl (demo_clock 30) demo_effect Submitted ''sent'' h = (h', Inr demo_submitted)
    \<and> stored demo_xl h' = (stored demo_xl h)(demo_effect \<mapsto> demo_submitted)"
proof -
  have load: "load_external_effect_intent demo_xl h demo_effect = Inr (Some (demo_decided EffectApprove))"
    using load_stored [OF demo_xl_ok _ assms(2)] assms(1) demo_readable [of "demo_decided EffectApprove"]
    by (simp add: readable_snapshot_def)
  obtain h' where h': "persist_transition demo_xl (Some Approved) demo_submitted h = (h', Inr ())"
    "stored demo_xl h' = (stored demo_xl h)(demo_effect \<mapsto> demo_submitted)"
    using demo_persist [OF demo_shapes(3)] by blast
  have "ei_state (demo_decided EffectApprove) = Approved" by (simp add: demo_decided_def)
  with load h' show ?thesis
    by (auto simp: transition_external_effect_def valid_transition_def Let_def demo_submitted_def)
qed

end
