(* ===== verification/External_Effect_Claims.thy ===== *)
theory External_Effect_Claims
  imports External_Effect_Props External_Effect_Demo
begin

text \<open>
  What any sequence of operations on external effects guarantees: the transitions ledger replays to
  the stored states, nothing is submitted that a user did not approve in the lane of the effect, and
  a request never changes after it was made. Then what single operations do: resolution, the fence,
  expiry, admission and readback.
\<close>

section \<open>Sequences of operations\<close>

datatype effect_op =
    BeginOp clock "string option" ExternalEffectRequestContextV1 McpElicitationDescriptorV1 ConnectorApprovalPolicyV1
  | ResolveOp clock "string list \<Rightarrow> string list" string string ExternalEffectApprovalDecisionV1
  | ActionOp clock ChannelInboundActionV1 string
  | PublicOp clock string "string option" string string string "ChannelApprovalDecisionV1 option"
  | ExpireOp "string list \<Rightarrow> string list" ExternalEffectExpiryReconcileRequestV1
  | FenceOp clock "string list \<Rightarrow> string list" string string
  | TransitionOp clock string ExternalEffectStateV1 string
  | ReadbackOp clock "ExternalEffectIntentV1 \<Rightarrow> io_error + ExternalEffectReadbackV1" string

fun run_effect :: "effect_lib \<Rightarrow> effect_op \<Rightarrow> effect_home \<Rightarrow> effect_home" where
  "run_effect lib (BeginOp clk random c d policy) h = fst (begin_external_effect_request lib clk random c d policy h)"
| "run_effect lib (ResolveOp clk ho token lane decision) h =
     fst (resolve_external_effect_approval lib clk ho token lane decision h)"
| "run_effect lib (ActionOp clk a lane) h = fst (resolve_external_effect_channel_action lib clk a lane h)"
| "run_effect lib (PublicOp clk ev msg pid lane session expected) h =
     fst (resolve_external_effect_public_channel_action lib clk ev msg pid lane session expected h)"
| "run_effect lib (ExpireOp ho q) h = fst (reconcile_expired_external_effect_approvals lib ho q h)"
| "run_effect lib (FenceOp clk ho lane reason) h = fst (fence_external_effects_for_lane lib clk ho lane reason h)"
| "run_effect lib (TransitionOp clk eid to reason) h = fst (transition_external_effect lib clk eid to reason h)"
| "run_effect lib (ReadbackOp clk readback eid) h = fst (reconcile_external_effect lib clk readback eid h)"

definition effect_run :: "effect_lib \<Rightarrow> effect_op list \<Rightarrow> effect_home \<Rightarrow> effect_home" where
  "effect_run lib ops = fold (run_effect lib) ops"

definition no_effects :: effect_home where
  "no_effects = \<lparr>eh_latest = [], eh_transitions = [], eh_public_actions = []\<rparr>"

text \<open>The three ways in which a user resolves an approval, with the lane they come from.\<close>

fun resolve_result :: "effect_lib \<Rightarrow> effect_op \<Rightarrow> effect_home \<Rightarrow> (string \<times> (io_error + ExternalEffectIntentV1)) option" where
  "resolve_result lib (ResolveOp clk ho token lane decision) h =
     Some (lane, snd (resolve_external_effect_approval lib clk ho token lane decision h))"
| "resolve_result lib (ActionOp clk a lane) h = Some (lane, snd (resolve_external_effect_channel_action lib clk a lane h))"
| "resolve_result lib (PublicOp clk ev msg pid lane session expected) h =
     Some (lane, snd (resolve_external_effect_public_channel_action lib clk ev msg pid lane session expected h))"
| "resolve_result lib _ h = None"

definition approves :: "effect_lib \<Rightarrow> effect_op \<Rightarrow> effect_home \<Rightarrow> string \<Rightarrow> bool" where
  "approves lib x h k \<longleftrightarrow> (\<exists>lane i. resolve_result lib x h = Some (lane, Inr i)
     \<and> ei_effect_id i = k \<and> ei_state i = Approved \<and> ei_exact_lane_digest i = lane)"

fun direct_approval :: "effect_op \<Rightarrow> bool" where
  "direct_approval (TransitionOp clk eid to reason) = (to = Approved)"
| "direct_approval _ = False"

section \<open>Every operation is a sequence of allowed writes\<close>

definition approve_move :: "effect_lib \<Rightarrow> effect_op \<Rightarrow> effect_home \<Rightarrow> move_pred" where
  "approve_move lib x h k r s \<longleftrightarrow>
     (r = Some ApprovalRequired \<and> s = Approved \<longrightarrow> direct_approval x \<or> approves lib x h k)"

lemma resolve_bound_result:
  "resolve_bound_token lib i t now decision h = (h', Inr j) \<Longrightarrow>
   ei_state j = decided_state decision \<and> same_request i j"
  by (auto simp: resolve_bound_token_def decided_intent_def same_request_def Let_def
      split: if_splits prod.splits sum.splits)

lemma resolve_locked_result:
  assumes "resolve_external_effect_approval_locked lib clk i token lane decision act h = (h', Inr j)"
  shows "ei_state j = decided_state decision" and "ei_exact_lane_digest j = lane"
  using assms resolve_bound_result
  by (fastforce simp: resolve_external_effect_approval_locked_def same_request_def
      split: if_splits sum.splits option.splits)+

lemma resolve_result_state:
  assumes "resolve_external_effect_approval lib clk ho token lane decision h = (h', Inr j)"
  shows "ei_state j = decided_state decision" and "ei_exact_lane_digest j = lane"
  using assms resolve_locked_result
  by (fastforce simp: resolve_external_effect_approval_def split: sum.splits option.splits)+

lemma action_result_state:
  assumes "resolve_external_effect_channel_action lib clk a lane h = (h', Inr j)"
  shows "ei_state j = decided_state (effect_decision (ia_decision a))" and "ei_exact_lane_digest j = lane"
  using assms resolve_locked_result
  by (fastforce simp: resolve_external_effect_channel_action_def split: sum.splits option.splits)+

lemma resolve_approve_move:
  assumes "resolve_move decision res k r s" and "resolve_result lib x h = Some (lane, res)"
    and "\<And>j. res = Inr j \<Longrightarrow> ei_state j = decided_state decision \<and> ei_exact_lane_digest j = lane"
  shows "approve_move lib x h k r s"
  using assms by (cases decision) (auto simp: resolve_move_def approve_move_def approves_def)

lemma action_op_moves:
  assumes "effect_lib_ok lib" and "snapshots_ok lib h"
    and "resolve_result lib x h = Some (lane, snd (resolve_external_effect_channel_action lib clk a lane h))"
  shows "effect_moves lib (approve_move lib x h) h (fst (resolve_external_effect_channel_action lib clk a lane h))"
  using action_moves [OF assms(1,2), of a clk lane]
proof (rule effect_moves_mono)
  fix k r s
  assume m: "resolve_move (effect_decision (ia_decision a)) (snd (resolve_external_effect_channel_action lib clk a lane h)) k r s"
  show "approve_move lib x h k r s"
    using resolve_approve_move [OF m assms(3)] action_result_state by (metis prod.collapse)
qed

lemma run_effect_moves:
  assumes "effect_lib_ok lib" and "snapshots_ok lib h"
  shows "effect_moves lib (approve_move lib x h) h (run_effect lib x h)"
proof (cases x)
  case (BeginOp clk random c d policy)
  then show ?thesis using begin_moves [OF assms, of c d clk random policy]
    by (auto elim!: effect_moves_mono simp: begin_move_def approve_move_def)
next
  case (ResolveOp clk ho token lane decision)
  have "approve_move lib x h k r s"
    if "resolve_move decision (snd (resolve_external_effect_approval lib clk ho token lane decision h)) k r s" for k r s
    using resolve_approve_move [OF that, of lib x h lane] resolve_result_state ResolveOp
    by (metis prod.collapse resolve_result.simps(1))
  with ResolveOp show ?thesis using resolve_moves [OF assms, of decision clk ho token lane]
    by (auto elim!: effect_moves_mono)
next
  case (ActionOp clk a lane)
  then show ?thesis using action_op_moves [OF assms, of x lane clk a] by simp
next
  case (PublicOp clk ev msg pid lane session expected)
  then show ?thesis
    using public_action_cases [OF refl, of lib clk ev msg pid lane session expected h] action_op_moves [OF assms, of x lane clk]
    by (auto simp: moves_none)
next
  case (ExpireOp ho q)
  then show ?thesis using reconcile_expired_moves [OF assms, of ho q]
    by (auto elim!: effect_moves_mono simp: expire_move_def approve_move_def)
next
  case (FenceOp clk ho lane reason)
  then show ?thesis using fence_moves [OF assms, of clk ho lane reason]
    by (auto elim!: effect_moves_mono simp: fence_move_def approve_move_def)
next
  case (TransitionOp clk eid to reason)
  then show ?thesis using transition_moves [OF assms, of eid to clk reason]
    by (auto elim!: effect_moves_mono simp: approve_move_def)
next
  case (ReadbackOp clk readback eid)
  then show ?thesis using reconcile_moves [OF assms, of eid readback clk]
    by (auto elim!: effect_moves_mono simp: readback_move_def approve_move_def)
qed

abbreviation any_move :: move_pred where
  "any_move \<equiv> \<lambda>_ _ _. True"

lemma run_moves:
  assumes "effect_lib_ok lib" and "snapshots_ok lib h"
  shows "effect_moves lib any_move h (effect_run lib ops h)"
  using assms(2)
proof (induction ops arbitrary: h)
  case (Cons x ops)
  have m: "effect_moves lib any_move h (run_effect lib x h)"
    using run_effect_moves [OF assms(1) Cons.prems] by (rule effect_moves_mono) simp
  from Cons.IH [OF moves_snapshots [OF m Cons.prems]] m show ?case
    by (auto simp: effect_run_def intro: effect_moves_trans)
qed (simp add: effect_run_def moves_none)

lemma no_effects_ok [simp]: "snapshots_ok lib no_effects" "stored lib no_effects = Map.empty"
  by (auto simp: snapshots_ok_def no_effects_def stored_def map_keys_def)

lemma run_snapshots:
  assumes "effect_lib_ok lib"
  shows "snapshots_ok lib (effect_run lib ops no_effects)"
  using moves_snapshots [OF run_moves [OF assms]] by simp

lemma effect_run_snoc: "effect_run lib (ops @ [x]) h = run_effect lib x (effect_run lib ops h)"
  by (simp add: effect_run_def)

subsection \<open>An effect that waits has a token\<close>

definition waiting_ok :: "effect_lib \<Rightarrow> effect_home \<Rightarrow> bool" where
  "waiting_ok lib h \<longleftrightarrow>
     (\<forall>k i. stored lib h k = Some i \<and> ei_state i = ApprovalRequired \<longrightarrow> ei_approval_token i \<noteq> None)"

lemma waiting_public [simp]: "waiting_ok lib (h\<lparr>eh_public_actions := p\<rparr>) = waiting_ok lib h"
  by (simp add: waiting_ok_def)

lemma waiting_write:
  assumes "effect_lib_ok lib" and "waiting_ok lib h" and "persist_transition lib from i h = (h', r)"
    and "ei_state i = ApprovalRequired \<longrightarrow> ei_approval_token i \<noteq> None"
  shows "waiting_ok lib h'"
proof (cases r)
  case (Inl e)
  with assms(2,3) show ?thesis using persist_fails by blast
next
  case (Inr u)
  with assms show ?thesis using persist_stored [OF assms(1)] by (fastforce simp: waiting_ok_def split: if_splits)
qed

lemma waiting_moves:
  assumes "effect_lib_ok lib" and "effect_moves lib P h h'" and "\<And>k. \<not> P k (Some Requested) ApprovalRequired" and "waiting_ok lib h"
  shows "waiting_ok lib h'"
  using assms(2,4)
proof (induction rule: effect_moves.induct)
  case (moves_write h' i "from" h'')
  have "ei_state i \<noteq> ApprovalRequired"
    using moves_write(2-4) assms(3)
    by (cases "stored lib h' (ei_effect_id i)") (auto simp: effect_change_def valid_transition_def)
  with moves_write show ?case using waiting_write [OF assms(1)] by blast
qed simp_all

lemma waiting_indexes:
  "waiting_ok lib h \<Longrightarrow> waiting_ok lib (fst (ensure_external_effect_public_action_indexes lib i h))"
  using ensure_indexes_public [of lib i h] by auto

lemma waiting_advance:
  assumes "effect_lib_ok lib" and "waiting_ok lib h"
  shows "waiting_ok lib (fst (advance_requested_external_effect lib clk random policy i h))"
proof -
  have "waiting_ok lib (fst (deny_requested lib clk i h))"
    using waiting_write [OF assms] assms(2)
    by (auto simp: deny_requested_def Let_def split: sum.splits prod.splits)
  moreover have "waiting_ok lib (fst (require_approval lib clk t i h))" for t
  proof (cases "clk 1")
    case (Inr now)
    let ?i = "i\<lparr>ei_approval_token := Some t, ei_state := ApprovalRequired, ei_updated_at_ms := now,
      ei_reason := Some ''explicit lane-bound user approval is required''\<rparr>"
    obtain h' r where p: "persist_transition lib (Some Requested) ?i h = (h', r)" by fastforce
    then have "waiting_ok lib h'" by (rule waiting_write [OF assms]) simp
    with p Inr waiting_indexes [of lib h' ?i] show ?thesis
      by (cases r) (auto simp: require_approval_def Let_def split: prod.splits sum.splits)
  qed (simp add: require_approval_def assms(2))
  ultimately show ?thesis using assms(2)
    by (auto simp: advance_requested_external_effect_def split: sum.splits ConnectorApprovalModeV1.splits)
qed

lemma waiting_begin:
  assumes "effect_lib_ok lib" and "waiting_ok lib h"
  shows "waiting_ok lib (fst (begin_external_effect_request lib clk random c d policy h))"
proof -
  have "waiting_ok lib (fst (admit_existing lib clk random policy i h))" for i
    using waiting_advance [OF assms] waiting_indexes [OF assms(2), of i] assms(2)
    by (cases "ei_state i") (auto simp: admit_existing_def admit_approval_required_def split: prod.splits sum.splits option.splits)
  moreover have "waiting_ok lib (fst (advance_requested_external_effect lib clk' random policy i h'))"
    if "persist_transition lib None i h = (h', Inr u)" "ei_state i = Requested" for i h' u clk'
    using waiting_advance [OF assms(1) waiting_write [OF assms that(1)]] that(2) by simp
  ultimately show ?thesis
    using assms(2)
    by (auto simp: begin_external_effect_request_def Let_def new_requested_intent_def
        split: sum.splits prod.splits option.splits dest: persist_fails)
qed

text \<open>Moving an effect to the waiting state directly; the runtime does so nowhere.\<close>

fun direct_wait :: "effect_op \<Rightarrow> bool" where
  "direct_wait (TransitionOp clk eid to reason) = (to = ApprovalRequired)"
| "direct_wait _ = False"

lemma waiting_step:
  assumes "effect_lib_ok lib" and "snapshots_ok lib h" and "waiting_ok lib h" and "\<not> direct_wait x"
  shows "waiting_ok lib (run_effect lib x h)"
proof (cases x)
  case (BeginOp clk random c d policy)
  then show ?thesis using waiting_begin [OF assms(1,3)] by simp
next
  case (ResolveOp clk ho token lane decision)
  then show ?thesis using waiting_moves [OF assms(1) resolve_moves [OF assms(1,2)] _ assms(3)]
    by (simp add: resolve_move_def)
next
  case (ActionOp clk a lane)
  then show ?thesis using waiting_moves [OF assms(1) action_moves [OF assms(1,2)] _ assms(3)]
    by (simp add: resolve_move_def)
next
  case (PublicOp clk ev msg pid lane session expected)
  then show ?thesis
    using public_action_cases [OF refl, of lib clk ev msg pid lane session expected h] assms(3)
      waiting_moves [OF assms(1) action_moves [OF assms(1,2)] _ assms(3)]
    by (auto simp: resolve_move_def)
next
  case (ExpireOp ho q)
  then show ?thesis using waiting_moves [OF assms(1) reconcile_expired_moves [OF assms(1,2)] _ assms(3)]
    by (simp add: expire_move_def)
next
  case (FenceOp clk ho lane reason)
  then show ?thesis using waiting_moves [OF assms(1) fence_moves [OF assms(1,2)] _ assms(3)]
    by (simp add: fence_move_def)
next
  case (TransitionOp clk eid to reason)
  then show ?thesis using waiting_moves [OF assms(1) transition_moves [OF assms(1,2)] _ assms(3)] assms(4) by simp
next
  case (ReadbackOp clk readback eid)
  then show ?thesis using waiting_moves [OF assms(1) reconcile_moves [OF assms(1,2)] _ assms(3)]
    by (simp add: readback_move_def)
qed

lemma run_waiting:
  assumes "effect_lib_ok lib" and "\<not> list_ex direct_wait ops"
  shows "waiting_ok lib (effect_run lib ops no_effects)"
  using assms(2)
proof (induction ops rule: rev_induct)
  case Nil
  then show ?case by (simp add: effect_run_def waiting_ok_def)
next
  case (snoc x ops)
  then show ?case using waiting_step [OF assms(1) run_snapshots [OF assms(1)]] by (simp add: effect_run_snoc)
qed

text \<open>
  C32. Well-formed homes: whatever operations run, each effect has one snapshot file, which holds a valid
  intent under its own name; a requested effect has no approval token yet, the token of an effect that
  waits for approval, if there is one, is unused, and only denied effects carry the identity of an expiry. When no operation moves an effect to the
  waiting state directly (the runtime never does), every effect that waits for approval has a token, and it is bound to this
  effect, its lane, its parameters and its approval generation.
\<close>
theorem effect_home_well_formed:
  assumes "effect_lib_ok lib" and "map_of (eh_latest (effect_run lib ops no_effects)) k = Some tx"
  shows "distinct (map_keys (eh_latest (effect_run lib ops no_effects)))
    \<and> (\<exists>i. tx = json_file lib (protected_snapshot i) \<and> xl_intent_from_str lib tx = Some i \<and> ei_effect_id i = k
         \<and> validate_effect_intent i = Inr ()
         \<and> (ei_state i = Requested \<longrightarrow> ei_approval_token i = None)
         \<and> (ei_state i = ApprovalRequired \<longrightarrow> (\<forall>t. ei_approval_token i = Some t \<longrightarrow> tk_consumed_at_ms t = None))
         \<and> (ei_expiry_resolution_id i \<noteq> None \<longrightarrow> ei_state i = Denied)
         \<and> (ei_state i = ApprovalRequired \<and> \<not> list_ex direct_wait ops \<longrightarrow>
              (\<exists>t. ei_approval_token i = Some t \<and> tk_consumed_at_ms t = None \<and> tk_effect_id t = k
                 \<and> tk_exact_lane_digest t = ei_exact_lane_digest i \<and> tk_params_digest t = ei_params_digest i
                 \<and> tk_approval_generation t = ei_approval_generation i)))"
proof -
  let ?h = "effect_run lib ops no_effects"
  note ok = run_snapshots [OF assms(1), of ops]
  from snapshot_stored [OF assms(1) ok assms(2)] obtain i where i: "tx = snapshot_text lib i" "stored lib ?h k = Some i" .
  note v = stored_some [OF assms(1) ok i(2)]
  have tx: "tx = json_file lib (protected_snapshot i)" "xl_intent_from_str lib tx = Some i"
    using i(1) assms(1) by (simp_all add: snapshot_text_def [symmetric])
  have st: "ei_state i = Requested \<longrightarrow> ei_approval_token i = None"
    "ei_state i = ApprovalRequired \<longrightarrow> (\<forall>t. ei_approval_token i = Some t \<longrightarrow> tk_consumed_at_ms t = None)"
    "ei_expiry_resolution_id i \<noteq> None \<longrightarrow> ei_state i = Denied"
    using v(4) by (auto simp: state_ok_def)
  have "\<exists>t. ei_approval_token i = Some t \<and> tk_consumed_at_ms t = None \<and> tk_effect_id t = k
      \<and> tk_exact_lane_digest t = ei_exact_lane_digest i \<and> tk_params_digest t = ei_params_digest i
      \<and> tk_approval_generation t = ei_approval_generation i"
    if wait: "ei_state i = ApprovalRequired" "\<not> list_ex direct_wait ops"
  proof -
    from run_waiting [OF assms(1) wait(2)] i(2) wait(1) obtain t where t: "ei_approval_token i = Some t"
      by (auto simp: waiting_ok_def)
    then have "validate_token i t = Inr ()" using v(3) by (simp add: validate_effect_intent_def first_error_Inr)
    then show ?thesis using t st(2) wait(1) v(2) by (simp add: validate_token_def first_error_Inr split: if_splits)
  qed
  moreover have "distinct (map_keys (eh_latest ?h))" using ok by (simp add: snapshots_ok_def)
  ultimately show ?thesis using tx v(2,3) st by blast
qed

section \<open>A run\<close>

definition demo_begin_op :: effect_op where
  "demo_begin_op = BeginOp (demo_clock 10) demo_random demo_context demo_request default_approval_policy"

definition demo_action_op :: "ChannelApprovalDecisionV1 \<Rightarrow> effect_op" where
  "demo_action_op d = ActionOp (demo_clock 20) (demo_action d) demo_lane_digest"

definition demo_submit_op :: effect_op where
  "demo_submit_op = TransitionOp (demo_clock 30) demo_effect Submitted ''sent''"

lemma demo_run_begin: "stored demo_xl (effect_run demo_xl [demo_begin_op] no_effects) = [demo_effect \<mapsto> demo_waiting]"
proof -
  obtain h1 where h1: "begin_external_effect_request demo_xl (demo_clock 10) demo_random demo_context demo_request
      default_approval_policy no_effects = (h1, Inr (AdmitNeedsUser demo_waiting demo_bearer))"
    "stored demo_xl h1 = (stored demo_xl no_effects)(demo_effect \<mapsto> demo_waiting)"
    using demo_begin [of no_effects] by (auto simp: no_effects_def)
  then show ?thesis by (simp add: effect_run_def demo_begin_op_def)
qed

lemma demo_run_action:
  "stored demo_xl (effect_run demo_xl [demo_begin_op, demo_action_op d] no_effects) =
     [demo_effect \<mapsto> demo_decided (effect_decision d)]"
  "\<exists>h'. resolve_external_effect_channel_action demo_xl (demo_clock 20) (demo_action d) demo_lane_digest
     (effect_run demo_xl [demo_begin_op] no_effects) = (h', Inr (demo_decided (effect_decision d)))"
proof -
  let ?h = "effect_run demo_xl [demo_begin_op] no_effects"
  from demo_effect_resolve [of ?h d] demo_run_begin run_snapshots [OF demo_xl_ok] demo_xl_ok obtain h' where
    h': "resolve_external_effect_channel_action demo_xl (demo_clock 20) (demo_action d) demo_lane_digest ?h
      = (h', Inr (demo_decided (effect_decision d)))"
    "stored demo_xl h' = (stored demo_xl ?h)(demo_effect \<mapsto> demo_decided (effect_decision d))" by auto
  have "effect_run demo_xl [demo_begin_op, demo_action_op d] no_effects = h'"
    using h'(1) effect_run_snoc [of demo_xl "[demo_begin_op]" "demo_action_op d" no_effects] by (simp add: demo_action_op_def)
  with h' show "stored demo_xl (effect_run demo_xl [demo_begin_op, demo_action_op d] no_effects) =
      [demo_effect \<mapsto> demo_decided (effect_decision d)]"
    and "\<exists>h'. resolve_external_effect_channel_action demo_xl (demo_clock 20) (demo_action d) demo_lane_digest ?h
      = (h', Inr (demo_decided (effect_decision d)))" by (simp_all add: demo_run_begin)
qed

lemma demo_run_submit:
  "stored demo_xl (effect_run demo_xl [demo_begin_op, demo_action_op Approve, demo_submit_op] no_effects) = [demo_effect \<mapsto> demo_submitted]"
proof -
  let ?h = "effect_run demo_xl [demo_begin_op, demo_action_op Approve] no_effects"
  from demo_submit [of ?h] demo_run_action(1) [of Approve] run_snapshots [OF demo_xl_ok] demo_xl_ok obtain h' where
    h': "transition_external_effect demo_xl (demo_clock 30) demo_effect Submitted ''sent'' ?h = (h', Inr demo_submitted)"
    "stored demo_xl h' = (stored demo_xl ?h)(demo_effect \<mapsto> demo_submitted)" by auto
  have "effect_run demo_xl [demo_begin_op, demo_action_op Approve, demo_submit_op] no_effects = h'"
    using h'(1) effect_run_snoc [of demo_xl "[demo_begin_op, demo_action_op Approve]" demo_submit_op no_effects]
    by (simp add: demo_submit_op_def)
  with h'(2) show ?thesis by (simp add: demo_run_action)
qed

theorem effect_home_well_formed_witness:
  "\<exists>i t. xl_intent_from_str demo_xl (snapshot_text demo_xl demo_waiting) = Some i \<and> ei_state i = ApprovalRequired
     \<and> ei_approval_token i = Some t \<and> tk_consumed_at_ms t = None \<and> tk_effect_id t = demo_effect
     \<and> map_of (eh_latest (effect_run demo_xl [demo_begin_op] no_effects)) demo_effect = Some (snapshot_text demo_xl demo_waiting)"
proof -
  have m: "map_of (eh_latest (effect_run demo_xl [demo_begin_op] no_effects)) demo_effect = Some (snapshot_text demo_xl demo_waiting)"
    using stored_some(1) [OF demo_xl_ok run_snapshots [OF demo_xl_ok]] demo_run_begin by simp
  have "\<not> list_ex direct_wait [demo_begin_op]" by (simp add: demo_begin_op_def)
  with effect_home_well_formed [OF demo_xl_ok m]
  have "tk_consumed_at_ms demo_token = None" "tk_effect_id demo_token = demo_effect"
    using demo_xl_ok by (auto simp: demo_fields)
  with m demo_xl_ok show ?thesis
    by (intro exI [of _ demo_waiting] exI [of _ demo_token]) (simp add: demo_fields)
qed

section \<open>The ledger\<close>

text \<open>Reading the ledger from the start: each row continues the state its effect was left in.\<close>

definition replay_step :: "ExternalEffectTransitionV1 \<Rightarrow> (string \<rightharpoonup> ExternalEffectStateV1)
    \<Rightarrow> (string \<rightharpoonup> ExternalEffectStateV1) option" where
  "replay_step t m =
     (if m (et_effect_id t) = et_from_state t
         \<and> (case et_from_state t of None \<Rightarrow> et_to_state t = Requested
            | Some s \<Rightarrow> valid_transition s (et_to_state t))
      then Some (m(et_effect_id t \<mapsto> et_to_state t)) else None)"

fun replay :: "(string \<rightharpoonup> ExternalEffectStateV1) \<Rightarrow> ExternalEffectTransitionV1 list
    \<Rightarrow> (string \<rightharpoonup> ExternalEffectStateV1) option" where
  "replay m [] = Some m"
| "replay m (t # ts) = (case replay_step t m of None \<Rightarrow> None | Some m' \<Rightarrow> replay m' ts)"

definition effect_states :: "effect_lib \<Rightarrow> effect_home \<Rightarrow> string \<rightharpoonup> ExternalEffectStateV1" where
  "effect_states lib h k = map_option ei_state (stored lib h k)"

definition ledger_rows :: "effect_lib \<Rightarrow> ExternalEffectTransitionV1 list \<Rightarrow> string" where
  "ledger_rows lib ts = concat (map (\<lambda>t. xl_to_vec lib (transition_json t) @ [nl]) ts)"

lemma replay_append: "replay m (ts @ us) = Option.bind (replay m ts) (\<lambda>m'. replay m' us)"
  by (induction ts arbitrary: m) (auto split: option.splits)

lemma effect_states_public [simp]: "effect_states lib (h\<lparr>eh_public_actions := p\<rparr>) = effect_states lib h"
  by (simp add: effect_states_def fun_eq_iff)

lemma moves_replay:
  assumes "effect_moves lib P h h'" and "effect_lib_ok lib"
  shows "\<exists>ts. eh_transitions h' = eh_transitions h @ ledger_rows lib ts
    \<and> replay (effect_states lib h) ts = Some (effect_states lib h')"
  using assms(1)
proof (induction rule: effect_moves.induct)
  case moves_none
  show ?case by (intro exI [of _ "[]"]) (simp add: ledger_rows_def)
next
  case (moves_index h' p)
  then show ?case by simp
next
  case (moves_write h1 i r h2)
  from moves_write.IH obtain ts where ts: "eh_transitions h1 = eh_transitions h @ ledger_rows lib ts"
    "replay (effect_states lib h) ts = Some (effect_states lib h1)" by blast
  have "effect_states lib h2 = (effect_states lib h1)(ei_effect_id i \<mapsto> ei_state i)"
    using persist_stored [OF assms(2) moves_write.hyps(5)] by (auto simp: effect_states_def)
  moreover have "replay_step (transition_of r i) (effect_states lib h1) =
      Some ((effect_states lib h1)(ei_effect_id i \<mapsto> ei_state i))"
    using moves_write.hyps(2,3)
    by (auto simp: replay_step_def transition_of_def effect_states_def effect_change_def split: option.splits)
  ultimately have "replay (effect_states lib h) (ts @ [transition_of r i]) = Some (effect_states lib h2)"
    using ts(2) by (simp add: replay_append)
  moreover have "eh_transitions h2 = eh_transitions h @ ledger_rows lib (ts @ [transition_of r i])"
    using ts(1) persist_ok(3) [OF moves_write.hyps(5)] by (simp add: ledger_rows_def)
  ultimately show ?case by blast
qed

text \<open>
  C22. Refinement of an abstract machine: whatever operations run, the transitions ledger is the list
  of rows of a history of the state machine, in which each effect begins as requested and each row
  continues the state its effect was left in by an allowed transition; the states the history ends in
  are the states of the snapshots.
\<close>
theorem effect_ledger_replays:
  assumes "effect_lib_ok lib"
  shows "\<exists>ts. eh_transitions (effect_run lib ops no_effects) = ledger_rows lib ts
    \<and> replay Map.empty ts = Some (effect_states lib (effect_run lib ops no_effects))"
proof -
  have "effect_states lib no_effects = Map.empty" "eh_transitions no_effects = []"
    by (simp_all add: effect_states_def no_effects_def stored_def fun_eq_iff)
  then show ?thesis
    using moves_replay [OF run_moves [OF assms, of no_effects ops] assms] by simp
qed

theorem effect_ledger_replays_witness:
  "\<exists>ts. eh_transitions (effect_run demo_xl [demo_begin_op, demo_action_op Approve, demo_submit_op] no_effects) = ledger_rows demo_xl ts
    \<and> replay Map.empty ts = Some [demo_effect \<mapsto> Submitted]"
proof -
  have "effect_states demo_xl (effect_run demo_xl [demo_begin_op, demo_action_op Approve, demo_submit_op] no_effects)
      = [demo_effect \<mapsto> Submitted]"
    by (simp add: effect_states_def demo_run_submit fun_eq_iff demo_submitted_def)
  then show ?thesis
    using effect_ledger_replays [OF demo_xl_ok, of "[demo_begin_op, demo_action_op Approve, demo_submit_op]"] by simp
qed

section \<open>Approval\<close>

definition past_approval :: "ExternalEffectStateV1 option \<Rightarrow> bool" where
  "past_approval s \<longleftrightarrow> s \<in> Some ` {Approved, Submitted, Confirmed, Ambiguous}"

lemma moves_past_approval:
  assumes "effect_moves lib (approve_move lib x h) h h'" and "effect_lib_ok lib" and "\<not> direct_approval x"
    and "past_approval (effect_states lib h' k)"
  shows "past_approval (effect_states lib h k) \<or> approves lib x h k"
  using assms(1,4)
proof (induction rule: effect_moves.induct)
  case (moves_write h1 i r h2)
  have st: "effect_states lib h2 = (effect_states lib h1)(ei_effect_id i \<mapsto> ei_state i)"
    using persist_stored [OF assms(2) moves_write.hyps(5)] by (auto simp: effect_states_def)
  show ?case
  proof (cases "k = ei_effect_id i \<and> \<not> past_approval (effect_states lib h1 k)")
    case False
    with st moves_write show ?thesis by (auto split: if_splits)
  next
    case True
    with moves_write.prems st moves_write.hyps(2) have "r = Some ApprovalRequired" "ei_state i = Approved"
      by (auto simp: past_approval_def effect_change_def effect_states_def moves_write.hyps(3)
          valid_transition_def split: option.splits)
    with moves_write.hyps(4) True assms(3) show ?thesis by (auto simp: approve_move_def)
  qed
qed auto

text \<open>
  C21. Nothing is done on a user's behalf without the user: an effect that was approved, submitted,
  confirmed or left ambiguous was resolved as approved before, by a successful resolution in the exact
  lane of the effect. Only a caller's direct transition of an effect to the approved state is set aside;
  the runtime calls it to mark submitted and confirmed effects.
\<close>
theorem effect_approved_by_user:
  assumes "effect_lib_ok lib" and "\<not> list_ex direct_approval ops"
    and "past_approval (effect_states lib (effect_run lib ops no_effects) k)"
  shows "\<exists>before x after. ops = before @ x # after \<and> approves lib x (effect_run lib before no_effects) k"
  using assms(2,3)
proof (induction ops rule: rev_induct)
  case Nil
  then show ?case by (simp add: effect_run_def effect_states_def past_approval_def)
next
  case (snoc x ops)
  let ?h = "effect_run lib ops no_effects"
  have "past_approval (effect_states lib ?h k) \<or> approves lib x ?h k"
    using moves_past_approval [OF run_effect_moves [OF assms(1) run_snapshots [OF assms(1)]] assms(1)] snoc.prems
    by (simp add: effect_run_snoc)
  then show ?case
  proof
    assume "past_approval (effect_states lib ?h k)"
    with snoc obtain before y after where "ops = before @ y # after"
      "approves lib y (effect_run lib before no_effects) k" by auto
    then show ?case by (intro exI [of _ before] exI [of _ y] exI [of _ "after @ [x]"]) simp
  qed (intro exI [of _ ops] exI [of _ x] exI [of _ "[]"], simp)
qed

theorem effect_approved_by_user_witness:
  "\<exists>before x after. [demo_begin_op, demo_action_op Approve, demo_submit_op] = before @ x # after
    \<and> approves demo_xl x (effect_run demo_xl before no_effects) demo_effect"
proof (rule effect_approved_by_user [OF demo_xl_ok])
  show "\<not> list_ex direct_approval [demo_begin_op, demo_action_op Approve, demo_submit_op]"
    by (simp add: demo_begin_op_def demo_action_op_def demo_submit_op_def)
  show "past_approval (effect_states demo_xl (effect_run demo_xl [demo_begin_op, demo_action_op Approve, demo_submit_op] no_effects) demo_effect)"
    by (simp add: effect_states_def demo_run_submit demo_submitted_def past_approval_def)
qed

section \<open>What stays\<close>

lemma token_kept_trans: "token_kept t u \<Longrightarrow> token_kept u v \<Longrightarrow> token_kept t v"
  by (cases t, cases u, cases v) (auto simp: token_kept_def)

lemma keeps_request_trans:
  "keeps_request i j \<Longrightarrow> keeps_request j k \<Longrightarrow> ei_state j \<noteq> Requested \<Longrightarrow> keeps_request i k"
  by (auto simp: keeps_request_def intro: same_request_trans token_kept_trans split: option.splits)

lemma never_requested_again: "valid_transition\<^sup>+\<^sup>+ r s \<Longrightarrow> s \<noteq> Requested"
  by (erule tranclp.cases) (auto simp: valid_transition_def)

lemma moves_keep_request:
  assumes "effect_moves lib P h h'" and "effect_lib_ok lib" and "stored lib h k = Some i" and "ei_effect_id i = k"
  shows "\<exists>j. stored lib h' k = Some j \<and> keeps_request i j \<and> (j = i \<or> valid_transition\<^sup>+\<^sup>+ (ei_state i) (ei_state j))"
  using assms(1)
proof (induction rule: effect_moves.induct)
  case (moves_write h1 n r h2)
  from moves_write.IH obtain j where j: "stored lib h1 k = Some j" "keeps_request i j"
    "j = i \<or> valid_transition\<^sup>+\<^sup>+ (ei_state i) (ei_state j)" by blast
  note st = persist_stored [OF assms(2) moves_write.hyps(5)]
  show ?case
  proof (cases "ei_effect_id n = k")
    case True
    with moves_write.hyps(2) j(1) have n: "valid_transition (ei_state j) (ei_state n)" "keeps_request j n"
      by (auto simp: effect_change_def)
    have path: "valid_transition\<^sup>+\<^sup>+ (ei_state i) (ei_state n)"
      using j(3) n(1) by (auto intro: tranclp.intros)
    have "keeps_request i n"
      using j(2,3) n(2) keeps_request_trans never_requested_again by blast
    with st True path show ?thesis by auto
  next
    case False
    with st j show ?thesis by auto
  qed
qed (use assms(3) in auto)

text \<open>
  C30. What was put before the user is what is carried out: after it is stored, an effect keeps its
  request (lane, lineage, queue, authority, connector, action, parameters, summary) and its token up
  to the time of its use, through any operations; its state only moves along allowed transitions; and
  a denied or confirmed effect never changes again.
\<close>
theorem effect_request_immutable:
  assumes "effect_lib_ok lib" and "stored lib (effect_run lib before no_effects) k = Some i"
  shows "\<exists>j. stored lib (effect_run lib (before @ ops) no_effects) k = Some j \<and> keeps_request i j
    \<and> valid_transition\<^sup>*\<^sup>* (ei_state i) (ei_state j) \<and> (ei_state i \<in> {Denied, Confirmed} \<longrightarrow> j = i)"
proof -
  let ?h = "effect_run lib before no_effects"
  have "ei_effect_id i = k" using stored_some(2) [OF assms(1) run_snapshots [OF assms(1)] assms(2)] .
  from moves_keep_request [OF run_moves [OF assms(1) run_snapshots [OF assms(1)]] assms this, of ops]
  obtain j where j: "stored lib (effect_run lib ops ?h) k = Some j" "keeps_request i j"
    "j = i \<or> valid_transition\<^sup>+\<^sup>+ (ei_state i) (ei_state j)" by blast
  have "\<not> valid_transition\<^sup>+\<^sup>+ s (ei_state j)" if "s \<in> {Denied, Confirmed}" for s
    using that final_states by (metis converse_tranclpE insertE singletonD)
  with j show ?thesis
    by (intro exI [of _ j]) (auto simp: effect_run_def dest: tranclp_into_rtranclp)
qed

theorem effect_request_immutable_witness:
  "\<exists>j. stored demo_xl (effect_run demo_xl ([demo_begin_op, demo_action_op Deny] @ [demo_submit_op, demo_begin_op]) no_effects) demo_effect
    = Some j \<and> j = demo_decided EffectDeny"
proof -
  have "stored demo_xl (effect_run demo_xl [demo_begin_op, demo_action_op Deny] no_effects) demo_effect = Some (demo_decided EffectDeny)"
    by (simp add: demo_run_action)
  from effect_request_immutable [OF demo_xl_ok this, of "[demo_submit_op, demo_begin_op]"] show ?thesis
    by (auto simp: demo_decided_def)
qed

section \<open>Resolving an approval\<close>

lemma resolve_bound_Inr:
  assumes "resolve_bound_token lib i t now d h = (h', Inr j)"
  shows "now < tk_expires_at_ms t"
    and "(tk_consumed_at_ms t \<noteq> None \<and> ei_state i = decided_state d \<and> j = i \<and> h' = h)
      \<or> (ei_state i = ApprovalRequired \<and> j = decided_intent t now d i
          \<and> persist_transition lib (Some ApprovalRequired) j h = (h', Inr ()))"
  using assms by (auto simp: resolve_bound_token_def Let_def split: if_splits prod.splits sum.splits)

lemma resolve_locked_Inr:
  assumes "resolve_external_effect_approval_locked lib clk i token lane d act h = (h', Inr j)"
  obtains t now where "clk 0 = Inr now" "ei_approval_token i = Some t" "ei_exact_lane_digest i = lane"
    "token_binding_ok lib token i t" "\<And>a. act = Some a \<Longrightarrow> native_binding_ok a i \<and> token_authority_ok i t"
    "resolve_bound_token lib i t now d h = (h', Inr j)"
  using assms
  by (cases act; auto simp: resolve_external_effect_approval_locked_def split: if_splits sum.splits option.splits)

lemma action_Inr:
  assumes "resolve_external_effect_channel_action lib clk a lane h = (h', Inr j)"
  obtains i where "inbound_validate a = Inr ()" "validate_digest lane ''exact lane digest'' = Inr ()"
    "load_external_effect_intent lib h (ia_effect_id a) = Inr (Some i)"
    "resolve_external_effect_approval_locked lib clk i (ia_callback_token a) lane (effect_decision (ia_decision a)) (Some a) h
      = (h', Inr j)"
  using assms by (auto simp: resolve_external_effect_channel_action_def split: sum.splits option.splits)

text \<open>
  C23. Authority of an approval: when a channel action resolves an approval, the stored effect is the
  one the action names, at its generation, in the lane the action came from, with the session and the
  authority it carries; the bearer has the digest of the token issued for the effect, which has not
  expired. Either the effect waited and is now as decided, nothing else having changed, or it already
  was and nothing changes.
\<close>
theorem approval_needs_authority:
  assumes "effect_lib_ok lib" and "h = effect_run lib before no_effects"
    and "resolve_external_effect_channel_action lib clk a lane h = (h', Inr j)"
  shows "\<exists>i t now. clk 0 = Inr now \<and> stored lib h (ia_effect_id a) = Some i \<and> ei_approval_token i = Some t
    \<and> ei_exact_lane_digest i = lane \<and> ei_approval_generation i = ia_approval_generation a
    \<and> ei_source_session_key_digest i = ia_source_session_key_digest a
    \<and> ei_approval_authority_digest i = ia_source_authority_digest a
    \<and> tk_token_digest t = effect_digest lib (ia_callback_token a) \<and> tk_params_digest t = ei_params_digest i
    \<and> now < tk_expires_at_ms t
    \<and> stored lib h' = (stored lib h)(ia_effect_id a \<mapsto> j)
    \<and> (ei_state i = ApprovalRequired \<and> j = decided_intent t now (effect_decision (ia_decision a)) i
        \<or> ei_state i = decided_state (effect_decision (ia_decision a)) \<and> j = i \<and> h' = h)"
proof -
  from assms(1,2) have ok: "snapshots_ok lib h" by (simp add: run_snapshots)
  from assms(3) obtain i where i: "load_external_effect_intent lib h (ia_effect_id a) = Inr (Some i)"
    "resolve_external_effect_approval_locked lib clk i (ia_callback_token a) lane (effect_decision (ia_decision a)) (Some a) h
      = (h', Inr j)" by (rule action_Inr)
  note st = load_found [OF assms(1) ok i(1)]
  from i(2) obtain t now where t: "clk 0 = Inr now" "ei_approval_token i = Some t" "ei_exact_lane_digest i = lane"
    "token_binding_ok lib (ia_callback_token a) i t" "native_binding_ok a i" "token_authority_ok i t"
    "resolve_bound_token lib i t now (effect_decision (ia_decision a)) h = (h', Inr j)"
    by (rule resolve_locked_Inr) auto
  note r = resolve_bound_Inr [OF t(7)]
  have "stored lib h' = (stored lib h)(ia_effect_id a \<mapsto> j)"
    using r(2) st persist_stored [OF assms(1)] stored_some(2) [OF assms(1) ok st] by (fastforce simp: fun_upd_idem)
  moreover have "ei_state i = ApprovalRequired \<and> j = decided_intent t now (effect_decision (ia_decision a)) i
      \<or> ei_state i = decided_state (effect_decision (ia_decision a)) \<and> j = i \<and> h' = h"
    using r(2) by blast
  ultimately show ?thesis
    using t r(1) st by (intro exI [of _ i] exI [of _ t] exI [of _ now])
      (simp add: native_binding_ok_def token_binding_ok_def)
qed

theorem approval_needs_authority_witness:
  "\<exists>h'. resolve_external_effect_channel_action demo_xl (demo_clock 20) (demo_action Approve) demo_lane_digest
      (effect_run demo_xl [demo_begin_op] no_effects) = (h', Inr (demo_decided EffectApprove))
    \<and> stored demo_xl h' = [demo_effect \<mapsto> demo_decided EffectApprove]"
proof -
  obtain h' where h': "resolve_external_effect_channel_action demo_xl (demo_clock 20) (demo_action Approve) demo_lane_digest
      (effect_run demo_xl [demo_begin_op] no_effects) = (h', Inr (demo_decided EffectApprove))"
    using demo_run_action(2) [of Approve] by auto
  from approval_needs_authority [OF demo_xl_ok refl h'] have
    "stored demo_xl h' = (stored demo_xl (effect_run demo_xl [demo_begin_op] no_effects))
       (ia_effect_id (demo_action Approve) \<mapsto> demo_decided EffectApprove)" by blast
  with h' show ?thesis by (auto simp: demo_run_begin demo_action_fields)
qed

lemma inbound_validate_decision [simp]: "inbound_validate (a\<lparr>ia_decision := d\<rparr>) = inbound_validate a"
  by (simp add: inbound_validate_def)

lemma effect_decision_eq [simp]: "decided_state (effect_decision d) = decided_state (effect_decision e) \<longleftrightarrow> d = e"
  by (cases d; cases e) simp_all

text \<open>The resolved intent: its token is consumed and still bound to the action that resolved it.\<close>

lemma resolved_token:
  assumes "ei_approval_token i = Some t" and "ei_exact_lane_digest i = lane"
    and "token_binding_ok lib token i t" and "native_binding_ok a i" and "token_authority_ok i t"
    and "resolve_bound_token lib i t now d h = (h', Inr j)"
  obtains u where "ei_approval_token j = Some u" "tk_consumed_at_ms u \<noteq> None"
    "token_binding_ok lib token j u" "token_authority_ok j u" "native_binding_ok a j"
    "ei_exact_lane_digest j = lane" "ei_state j = decided_state d" "ei_expiry_resolution_id j = None"
proof -
  have e: "ei_expiry_resolution_id i = None"
    using assms(6) by (auto simp: resolve_bound_token_def split: if_splits)
  from resolve_bound_Inr(2) [OF assms(6)] show ?thesis
  proof
    assume "tk_consumed_at_ms t \<noteq> None \<and> ei_state i = decided_state d \<and> j = i \<and> h' = h"
    with assms e show ?thesis by (intro that [of t]) auto
  next
    assume "ei_state i = ApprovalRequired \<and> j = decided_intent t now d i
      \<and> persist_transition lib (Some ApprovalRequired) j h = (h', Inr ())"
    with assms e show ?thesis
      by (intro that [of "t\<lparr>tk_consumed_at_ms := Some now\<rparr>"])
        (auto simp: decided_intent_def token_binding_ok_def token_authority_ok_def native_binding_ok_def)
  qed
qed

text \<open>
  An approval is decided once: when an action has resolved an approval, pressing the same button
  again before the expiry returns the same intent, the other one is refused as already consumed, and
  neither writes anything.
\<close>
theorem approval_decided_once:
  assumes "effect_lib_ok lib" and "h = effect_run lib before no_effects"
    and "resolve_external_effect_channel_action lib clk a lane h = (h', Inr j)"
    and "readable_snapshot lib j"
    and "clk' 0 = Inr now'" and "now' < tk_expires_at_ms (the (ei_approval_token j))"
  shows "resolve_external_effect_channel_action lib clk' (a\<lparr>ia_decision := d\<rparr>) lane h' =
    (h', if d = ia_decision a then Inr j else Inl (IoError AlreadyExists
       ''connector approval token was already consumed for another disposition''))"
proof -
  from assms(1,2) have ok: "snapshots_ok lib h" by (simp add: run_snapshots)
  from assms(3) obtain i where i: "inbound_validate a = Inr ()" "validate_digest lane ''exact lane digest'' = Inr ()"
    "load_external_effect_intent lib h (ia_effect_id a) = Inr (Some i)"
    "resolve_external_effect_approval_locked lib clk i (ia_callback_token a) lane (effect_decision (ia_decision a)) (Some a) h
      = (h', Inr j)" by (rule action_Inr)
  note st = load_found [OF assms(1) ok i(3)]
  from i(4) obtain t now where t: "ei_approval_token i = Some t" "ei_exact_lane_digest i = lane"
    "token_binding_ok lib (ia_callback_token a) i t" "native_binding_ok a i" "token_authority_ok i t"
    "resolve_bound_token lib i t now (effect_decision (ia_decision a)) h = (h', Inr j)"
    by (rule resolve_locked_Inr) auto
  note r = resolve_bound_Inr [OF t(6)]
  have "snapshots_ok lib h'"
    using moves_snapshots [OF action_moves [OF assms(1) ok, of a clk lane] ok] assms(3) by simp
  moreover have "stored lib h' (ia_effect_id a) = Some j"
    using r(2) st persist_stored [OF assms(1)] stored_some(2) [OF assms(1) ok st] by fastforce
  ultimately have load: "load_external_effect_intent lib h' (ia_effect_id a) = Inr (Some j)"
    using assms(1,4) by (auto intro: load_stored simp: readable_snapshot_def)
  from resolved_token [OF t] obtain u where u: "ei_approval_token j = Some u" "tk_consumed_at_ms u \<noteq> None"
    "token_binding_ok lib (ia_callback_token a) j u" "token_authority_ok j u" "native_binding_ok a j"
    "ei_exact_lane_digest j = lane" "ei_state j = decided_state (effect_decision (ia_decision a))"
    "ei_expiry_resolution_id j = None" .
  have "native_binding_ok (a\<lparr>ia_decision := d\<rparr>) j" using u(5) by (simp add: native_binding_ok_def)
  then show ?thesis
    using i(1,2) load u assms(5,6)
    by (simp add: resolve_external_effect_channel_action_def resolve_external_effect_approval_locked_def
        resolve_bound_token_def)
qed

theorem approval_decided_once_witness:
  "\<exists>h'. resolve_external_effect_channel_action demo_xl (demo_clock 25) (demo_action Deny) demo_lane_digest h' =
    (h', Inl (IoError AlreadyExists ''connector approval token was already consumed for another disposition''))"
proof -
  obtain h' where h': "resolve_external_effect_channel_action demo_xl (demo_clock 20) (demo_action Approve) demo_lane_digest
      (effect_run demo_xl [demo_begin_op] no_effects) = (h', Inr (demo_decided EffectApprove))"
    using demo_run_action(2) [of Approve] by auto
  have "(25 :: int) < tk_expires_at_ms (the (ei_approval_token (demo_decided EffectApprove)))"
    by (simp add: demo_decided_def decided_intent_def demo_token_def DEFAULT_APPROVAL_TOKEN_TTL_MS_def)
  from approval_decided_once [OF demo_xl_ok refl h' _ _ this, of "demo_clock 25" Deny] demo_readable
  have "resolve_external_effect_channel_action demo_xl (demo_clock 25) (demo_action Approve\<lparr>ia_decision := Deny\<rparr>) demo_lane_digest h' =
    (h', Inl (IoError AlreadyExists ''connector approval token was already consumed for another disposition''))"
    by (simp add: demo_action_fields)
  moreover have "demo_action Approve\<lparr>ia_decision := Deny\<rparr> = demo_action Deny" by (simp add: demo_action_def)
  ultimately show ?thesis by auto
qed

section \<open>The fence of a lane\<close>

text \<open>
  C24. A fenced lane is closed: when the fence of a lane succeeds, every effect of the lane that waited
  for approval or was approved (and whose snapshot can be read) is denied with its token consumed,
  every other effect is as it was, and no later sequence of operations brings a fenced effect back.
\<close>
theorem lane_fence_closes:
  assumes "effect_lib_ok lib" and "hash_order ho" and "h = effect_run lib before no_effects"
    and "fence_external_effects_for_lane lib clk ho lane reason h = (h', Inr fenced)" and "clk 0 = Inr now"
    and "stored lib h k = Some i"
  shows "stored lib h' k = Some (fence_if_due lib lane now reason i)
    \<and> (fence_due lane i \<and> readable_snapshot lib i \<longrightarrow>
         stored lib (effect_run lib after h') k = Some (fenced_intent now reason i))"
proof -
  from assms(1,3) have ok: "snapshots_ok lib h" by (simp add: run_snapshots)
  have keys: "set (ho (map_keys (eh_latest h))) = dom (map_of (eh_latest h))"
    using assms(2) ok by (simp add: hash_order_def snapshots_ok_def set_map_keys)
  have k: "map_of (eh_latest h) k \<noteq> None" using stored_some(1) [OF assms(1) ok assms(6)] by simp
  then have "eh_latest h \<noteq> []" by auto
  with assms(4,5) have "fence_all lib lane reason now (ho (map_keys (eh_latest h))) h = (h', Inr fenced)"
    by (simp add: fence_external_effects_for_lane_def split: sum.splits)
  from lane_fence.sweep_exact [OF _ this] assms(1,6) ok k keys
  have st: "stored lib h' k = Some (fence_if_due lib lane now reason i)" by (auto simp: domIff)
  have moves: "effect_moves lib any_move h' (effect_run lib after h')"
    using run_moves [OF assms(1) moves_snapshots [OF fence_moves [OF assms(1) ok, of clk ho lane reason] ok]] assms(4) by simp
  have "stored lib (effect_run lib after h') k = Some (fenced_intent now reason i)"
    if "fence_due lane i" "readable_snapshot lib i"
  proof -
    from that st have st': "stored lib h' k = Some (fenced_intent now reason i)" by (simp add: fence_if_due_def)
    from moves_keep_request [OF moves assms(1) st'] stored_some(2) [OF assms(1) ok assms(6)]
    show ?thesis using final_states(1) by (auto dest: tranclpD)
  qed
  with st show ?thesis by blast
qed

lemma demo_effect_keys:
  assumes "home_ok demo_xl h" and "stored demo_xl h = [demo_effect \<mapsto> i]"
  shows "map_keys (eh_latest h) = [demo_effect]"
proof -
  have "set (map_keys (eh_latest h)) = {demo_effect}"
    using latest_from_stored [OF assms(1)] by (auto simp: set_map_keys assms(2) dom_def split: if_splits)
  moreover have "distinct (map_keys (eh_latest h))" using assms(1) by (simp add: snapshots_ok_def)
  ultimately have "length (map_keys (eh_latest h)) = 1" using distinct_card by fastforce
  then obtain x where "map_keys (eh_latest h) = [x]" by (auto simp: length_Suc_conv)
  with \<open>set (map_keys (eh_latest h)) = {demo_effect}\<close> show ?thesis by simp
qed

lemma demo_fence:
  assumes "home_ok demo_xl h" and "stored demo_xl h = [demo_effect \<mapsto> demo_waiting]"
  shows "\<exists>h'. fence_external_effects_for_lane demo_xl (demo_clock 20) (\<lambda>ks. ks) demo_lane_digest ''stop'' h
    = (h', Inr [fenced_intent 20 ''stop'' demo_waiting])"
proof -
  have "demo_shape (fenced_intent 20 ''stop'' demo_waiting)"
    using demo_shapes(1) by (simp add: demo_shape_def fenced_intent_def same_request_def demo_fields)
  from demo_persist [OF this] obtain h' where
    h': "persist_transition demo_xl (Some ApprovalRequired) (fenced_intent 20 ''stop'' demo_waiting) h = (h', Inr ())" by blast
  have tx: "map_of (eh_latest h) demo_effect = Some (snapshot_text demo_xl demo_waiting)"
    using stored_some(1) [OF demo_xl_ok] assms by simp
  then have "eh_latest h \<noteq> []" by auto
  with h' tx demo_effect_keys [OF assms] demo_readable [of demo_waiting] demo_xl_ok show ?thesis
    by (simp add: fence_external_effects_for_lane_def fence_one_def readable_snapshot_def demo_fields)
qed

theorem lane_fence_closes_witness:
  "\<exists>h'. fence_external_effects_for_lane demo_xl (demo_clock 20) (\<lambda>ks. ks) demo_lane_digest ''stop''
      (effect_run demo_xl [demo_begin_op] no_effects) = (h', Inr [fenced_intent 20 ''stop'' demo_waiting])
    \<and> stored demo_xl (effect_run demo_xl [demo_begin_op, demo_action_op Approve, demo_submit_op] h') demo_effect
      = Some (fenced_intent 20 ''stop'' demo_waiting)"
proof -
  let ?h = "effect_run demo_xl [demo_begin_op] no_effects"
  obtain h' where h': "fence_external_effects_for_lane demo_xl (demo_clock 20) (\<lambda>ks. ks) demo_lane_digest ''stop'' ?h
      = (h', Inr [fenced_intent 20 ''stop'' demo_waiting])"
    using demo_fence [of ?h] demo_run_begin run_snapshots [OF demo_xl_ok] demo_xl_ok by blast
  have "stored demo_xl ?h demo_effect = Some demo_waiting" by (simp add: demo_run_begin)
  from lane_fence_closes [OF demo_xl_ok hash_order_id refl h' refl this] demo_readable [of demo_waiting] h'
  show ?thesis by (auto simp: fence_due_def demo_fields)
qed

end
