(* ===== verification/External_Effect_Scans.thy ===== *)
theory External_Effect_Scans
  imports External_Effect_Claims
begin

text \<open>
  The bounded expiry scan of external effects, page by page, and admission: the scan visits every
  candidate once and ends, a request that was admitted is admitted the same way again.
\<close>

section \<open>Pages of the expiry scan\<close>

definition expiry_candidate :: "effect_lib \<Rightarrow> string option \<Rightarrow> effect_home \<Rightarrow> string \<Rightarrow> bool" where
  "expiry_candidate lib cursor h k \<longleftrightarrow> validate_effect_id k = Inr () \<and> after_cursor cursor k
     \<and> (\<exists>i. stored lib h k = Some i \<and> readable_snapshot lib i)"

lemma candidates_order:
  assumes "home_ok lib h" and "hash_order ho"
  shows "set (expiry_candidates ho cursor h) = {k. expiry_candidate lib cursor h k}"
    and "sorted_wrt (<) (expiry_candidates ho cursor h)"
proof -
  have d: "distinct (map_keys (eh_latest h))" using assms(1) by (simp add: snapshots_ok_def)
  then have ho: "distinct (ho (map_keys (eh_latest h)))" "set (ho (map_keys (eh_latest h))) = dom (map_of (eh_latest h))"
    using assms(2) by (simp_all add: hash_order_def set_map_keys)
  then show "sorted_wrt (<) (expiry_candidates ho cursor h)"
    by (simp add: expiry_candidates_def strict_sorted_iff)
  show "set (expiry_candidates ho cursor h) = {k. expiry_candidate lib cursor h k}"
    using ho(2) latest_from_stored [OF assms(1)]
    by (auto simp: expiry_candidates_def expiry_candidate_def readable_snapshot_def domIff)
qed

lemma strict_sorted_eq: "sorted_wrt (<) (xs :: string list) \<Longrightarrow> sorted_wrt (<) ys \<Longrightarrow> set xs = set ys \<Longrightarrow> xs = ys"
  by (rule strict_sorted_equal)

lemma sorted_after_take:
  assumes "sorted_wrt (<) (xs :: string list)" and "0 < n" and "n < length xs"
  shows "{x \<in> set xs. last (take n xs) < x} = set (drop n xs)"
proof -
  let ?l = "last (take n xs)"
  have "take n xs \<noteq> []" using assms(2,3) by auto
  then have split: "take n xs = butlast (take n xs) @ [?l]" by simp
  have "sorted_wrt (<) (butlast (take n xs) @ [?l] @ drop n xs)"
    using assms(1) split by (metis append.assoc append_take_drop_id)
  then have "\<forall>a \<in> set (butlast (take n xs)). a < ?l" "\<forall>b \<in> set (drop n xs). ?l < b"
    by (auto simp: sorted_wrt_append)
  moreover have "set xs = set (butlast (take n xs)) \<union> {?l} \<union> set (drop n xs)"
    using split by (metis append_take_drop_id set_append list.simps(15) empty_set)
  ultimately show ?thesis by auto
qed

abbreviation page :: "(string list \<Rightarrow> string list) \<Rightarrow> ExternalEffectExpiryReconcileRequestV1 \<Rightarrow> effect_home \<Rightarrow> string list" where
  "page ho q h \<equiv> take (xq_max_rows q) (expiry_candidates ho (xq_after_effect_id q) h)"

lemma page_report:
  assumes "reconcile_expired_external_effect_approvals lib ho q h = (h', Inr rep)"
  shows "0 < xq_max_rows q" and "xq_max_rows q \<le> MAX_EXTERNAL_EFFECT_EXPIRY_SCAN_ROWS"
    and "\<exists>rs. expire_all lib (xq_now_ms q) (page ho q h) h = (h', Inr rs)"
    and "xp_scanned_rows rep = length (page ho q h)"
    and "xp_next_after_effect_id rep = (if length (expiry_candidates ho (xq_after_effect_id q) h) \<le> xq_max_rows q then None
      else Some (last (page ho q h)))"
  using assms
  by (auto simp: reconcile_expired_external_effect_approvals_def Let_def split: if_splits sum.splits prod.splits)

lemma page_stored:
  assumes "home_ok lib h" and "reconcile_expired_external_effect_approvals lib ho q h = (h', Inr rep)"
  shows "stored lib h' = (\<lambda>k. if k \<in> set (page ho q h) then map_option (expire_if_due lib (xq_now_ms q)) (stored lib h k)
      else stored lib h k)" and "home_ok lib h'"
proof -
  from page_report(3) [OF assms(2)] obtain rs where rs: "expire_all lib (xq_now_ms q) (page ho q h) h = (h', Inr rs)" ..
  from expiry.sweep_exact [OF assms(1) rs]
  show "stored lib h' = (\<lambda>k. if k \<in> set (page ho q h) then map_option (expire_if_due lib (xq_now_ms q)) (stored lib h k)
      else stored lib h k)" .
  from expiry.reach_ok [OF expiry.sweep_reach [OF assms(1)] assms(1)] rs show "home_ok lib h'" by (metis fst_conv)
qed

text \<open>The page after a page: what is left of the candidates, whatever the order of the directory.\<close>

lemma next_page:
  assumes "home_ok lib h" and "hash_order ho" and "hash_order ho'"
    and "reconcile_expired_external_effect_approvals lib ho q h = (h', Inr rep)" and "xp_next_after_effect_id rep = Some c"
  shows "expiry_candidates ho' (Some c) h' = drop (xq_max_rows q) (expiry_candidates ho (xq_after_effect_id q) h)"
    (is "?new = drop ?n ?old")
proof (rule strict_sorted_eq)
  note r = page_report [OF assms(4)] and st = page_stored [OF assms(1,4)]
  from r(5) assms(5) have n: "?n < length ?old" "c = last (take ?n ?old)" by (auto split: if_splits)
  note old = candidates_order [OF assms(1,2), of "xq_after_effect_id q"]
  note new = candidates_order [OF st(2) assms(3), of "Some c"]
  show "sorted_wrt (<) ?new" by (rule new(2))
  show "sorted_wrt (<) (drop ?n ?old)" using old(2) by (simp add: sorted_wrt_drop)
  note after = sorted_after_take [OF old(2) r(1) n(1), folded n(2)]
  have "c \<in> set ?old" using n r(1) by (metis in_set_takeD last_in_set length_greater_0_conv take_eq_Nil less_numeral_extra(3) list.size(3) not_less_zero)
  then have c: "after_cursor (xq_after_effect_id q) c" using old(1) by (auto simp: expiry_candidate_def)
  have kept: "stored lib h' k = stored lib h k" if "c < k" for k
  proof -
    have "k \<notin> set (page ho q h)"
    proof
      assume "k \<in> set (page ho q h)"
      moreover from this have "k \<in> set (drop ?n ?old)" using after that by (auto dest: in_set_takeD)
      ultimately show False using old(2) set_take_disj_set_drop_if_distinct [of ?old ?n ?n] strict_sorted_iff by auto
    qed
    then show ?thesis by (simp add: st(1))
  qed
  have "expiry_candidate lib (Some c) h' k \<longleftrightarrow> expiry_candidate lib (xq_after_effect_id q) h k \<and> c < k" for k
    using kept c by (cases "xq_after_effect_id q") (auto simp: expiry_candidate_def after_cursor_def)
  then show "set ?new = set (drop ?n ?old)" using new(1) old(1) after by auto
qed

section \<open>The whole scan\<close>

text \<open>
  The caller keeps the cursor of a page for the next one. \<open>expiry_sweep\<close> runs at most \<open>n\<close> pages, with
  any order of the directory listing in each; it returns nothing when \<open>n\<close> pages were not enough.
\<close>

fun expiry_sweep :: "effect_lib \<Rightarrow> (nat \<Rightarrow> string list \<Rightarrow> string list) \<Rightarrow> nat \<Rightarrow> int \<Rightarrow> nat \<Rightarrow> string option
    \<Rightarrow> effect_home \<Rightarrow> (effect_home \<times> io_error option) option" where
  "expiry_sweep lib hos 0 now max_rows cursor h = None"
| "expiry_sweep lib hos (Suc n) now max_rows cursor h =
     (case reconcile_expired_external_effect_approvals lib (hos n)
             \<lparr>xq_now_ms = now, xq_max_rows = max_rows, xq_after_effect_id = cursor\<rparr> h of
        (h', Inl e) \<Rightarrow> Some (h', Some e)
      | (h', Inr rep) \<Rightarrow>
     (case xp_next_after_effect_id rep of
        None \<Rightarrow> Some (h', None)
      | Some c \<Rightarrow> expiry_sweep lib hos n now max_rows (Some c) h'))"

lemma sweep_from:
  assumes "\<And>n. hash_order (hos n)" and "home_ok lib h"
    and "0 < n" and "length (expiry_candidates (hos n) cursor h) \<le> n"
  shows "\<exists>h' r. expiry_sweep lib hos n now max_rows cursor h = Some (h', r)
    \<and> (r = None \<longrightarrow> (\<forall>k. stored lib h' k = (if expiry_candidate lib cursor h k
         then map_option (expire_if_due lib now) (stored lib h k) else stored lib h k)))"
  using assms(2-4)
proof (induction n arbitrary: cursor h)
  case (Suc n)
  let ?q = "\<lparr>xq_now_ms = now, xq_max_rows = max_rows, xq_after_effect_id = cursor\<rparr>"
  let ?cs = "expiry_candidates (hos n) cursor h"
  note cs = candidates_order [OF Suc.prems(1) assms(1), of n cursor]
  obtain h1 r where op: "reconcile_expired_external_effect_approvals lib (hos n) ?q h = (h1, r)" by fastforce
  show ?case
  proof (cases r)
    case (Inl e)
    with op show ?thesis by simp
  next
    case (Inr rep)
    with op have op: "reconcile_expired_external_effect_approvals lib (hos n) ?q h = (h1, Inr rep)" by simp
    note rep = page_report [OF op] and st = page_stored [OF Suc.prems(1) op]
    show ?thesis
    proof (cases "xp_next_after_effect_id rep")
      case None
      with rep(5) have "page (hos n) ?q h = ?cs" by (auto split: if_splits)
      with op None st(1) cs(1) show ?thesis by auto
    next
      case (Some c)
      have rest: "expiry_candidates (hos m) (Some c) h1 = drop max_rows ?cs" for m
        using next_page [OF Suc.prems(1) assms(1) assms(1) op Some] by simp
      have cs_len: "length ?cs = length (expiry_candidates (hos (Suc n)) cursor h)"
        using candidates_order [OF Suc.prems(1) assms(1)] strict_sorted_eq by metis
      have "length (drop max_rows ?cs) \<le> n" "0 < n"
        using rep(1,5) Some Suc.prems(3) cs_len by (auto split: if_splits)
      with rest Suc.IH [OF st(2), of "Some c"] obtain h2 r2 where
        h2: "expiry_sweep lib hos n now max_rows (Some c) h1 = Some (h2, r2)"
          "r2 = None \<longrightarrow> (\<forall>k. stored lib h2 k = (if expiry_candidate lib (Some c) h1 k
            then map_option (expire_if_due lib now) (stored lib h1 k) else stored lib h1 k))" by auto
      have "expiry_candidate lib (Some c) h1 k \<longleftrightarrow> k \<in> set (drop max_rows ?cs)" for k
        using candidates_order(1) [OF st(2) assms(1), of n "Some c"] rest by auto
      moreover have "expiry_candidate lib cursor h k \<longleftrightarrow> k \<in> set (take max_rows ?cs) \<or> k \<in> set (drop max_rows ?cs)" for k
        using cs(1) by (metis Un_iff append_take_drop_id mem_Collect_eq set_append)
      ultimately show ?thesis
        using op Some h2 st(1) by (auto simp: option.map_comp o_def)
    qed
  qed
qed simp

text \<open>
  C28. The expiry scan ends and misses nothing: run page by page with any page size, each page continued at the cursor of
  the last, in a home that any operations have led to, it is over after at most as many pages as there are
  snapshots (after one when there is none), be it at the end or because a page failed. When no page failed, every
  snapshot that can be read and is named by a lowercase SHA-256 digest, if its approval was overdue at the start, is
  denied with the identities of its expiry; every other snapshot is as it was.
\<close>
theorem expiry_sweep_complete:
  assumes "effect_lib_ok lib" and "\<And>n. hash_order (hos n)" and "h = effect_run lib before no_effects"
    and "0 < n" and "length (eh_latest h) \<le> n"
  shows "\<exists>h' r. expiry_sweep lib hos n now max_rows None h = Some (h', r)
    \<and> (r = None \<longrightarrow> (\<forall>k i. stored lib h k = Some i \<longrightarrow>
         stored lib h' k = Some (if validate_effect_id k = Inr () \<and> readable_snapshot lib i
           then expire_if_due lib now i else i)))"
proof -
  have ok: "home_ok lib h" using assms(1,3) by (simp add: run_snapshots)
  have "length (expiry_candidates (hos n) None h) \<le> length (ho (map_keys (eh_latest h)))" if "ho = hos n" for ho
    by (simp add: expiry_candidates_def that)
  moreover have "length (hos n (map_keys (eh_latest h))) = length (eh_latest h)"
  proof -
    have "distinct (map_keys (eh_latest h))" using ok by (simp add: snapshots_ok_def)
    then have "distinct (hos n (map_keys (eh_latest h)))" "set (hos n (map_keys (eh_latest h))) = set (map_keys (eh_latest h))"
      using assms(2) by (simp_all add: hash_order_def)
    with \<open>distinct (map_keys (eh_latest h))\<close> have "length (hos n (map_keys (eh_latest h))) = length (map_keys (eh_latest h))"
      by (metis distinct_card)
    then show ?thesis by (simp add: map_keys_def)
  qed
  ultimately have "length (expiry_candidates (hos n) None h) \<le> n" using assms(5) by fastforce
  from sweep_from [where hos = hos, OF assms(2) ok assms(4) this] show ?thesis
    by (fastforce simp: expiry_candidate_def after_cursor_def)
qed

text \<open>The scan of the home with one effect that waits for approval, after its token has expired.\<close>

lemma demo_overdue: "overdue 900010 demo_waiting"
  by (simp add: overdue_def demo_fields demo_token_def DEFAULT_APPROVAL_TOKEN_TTL_MS_def)

lemma demo_scan:
  assumes "home_ok demo_xl h" and "stored demo_xl h = [demo_effect \<mapsto> demo_waiting]"
  obtains h' where "expiry_sweep demo_xl (\<lambda>_ ks. ks) 1 900010 1 None h = Some (h', None)"
proof -
  have r: "readable_snapshot demo_xl demo_waiting" using demo_readable [of demo_waiting] by simp
  have valid: "validate_effect_id demo_effect = Inr ()" by simp
  have cs: "set (expiry_candidates (\<lambda>ks. ks) None h) = {demo_effect}" "sorted_wrt (<) (expiry_candidates (\<lambda>ks. ks) None h)"
    using candidates_order [OF assms(1) hash_order_id, of None] assms(2) r valid
    by (auto simp: expiry_candidate_def after_cursor_def split: if_splits)
  have one: "expiry_candidates (\<lambda>ks. ks) None h = [demo_effect]"
    by (rule strict_sorted_eq [OF cs(2)]) (simp_all add: cs(1))
  have load: "load_external_effect_intent demo_xl h demo_effect = Inr (Some demo_waiting)"
    using load_stored [OF demo_xl_ok, of h demo_effect demo_waiting] assms r by (simp add: readable_snapshot_def)
  have shape: "demo_shape (expired_intent demo_xl demo_token 900010 demo_waiting)"
    using demo_shapes(1) by (simp add: demo_shape_def expired_intent_def same_request_def token_kept_def demo_fields demo_token_def)
  obtain h' where "persist_transition demo_xl (Some ApprovalRequired) (expired_intent demo_xl demo_token 900010 demo_waiting) h
      = (h', Inr ())" using demo_persist [OF shape] by blast
  then have "\<exists>rs. expire_one demo_xl 900010 demo_effect h = (h', Inr rs)"
    using load demo_overdue by (auto simp: expire_one_def overdue_def demo_fields)
  then have "\<exists>rep. reconcile_expired_external_effect_approvals demo_xl (\<lambda>ks. ks)
      \<lparr>xq_now_ms = 900010, xq_max_rows = 1, xq_after_effect_id = None\<rparr> h = (h', Inr rep) \<and> xp_next_after_effect_id rep = None"
    by (auto simp: reconcile_expired_external_effect_approvals_def one MAX_EXTERNAL_EFFECT_EXPIRY_SCAN_ROWS_def)
  then show ?thesis using that by fastforce
qed

theorem expiry_sweep_complete_witness:
  "\<exists>h'. expiry_sweep demo_xl (\<lambda>_ ks. ks) 1 900010 1 None (effect_run demo_xl [demo_begin_op] no_effects) = Some (h', None)
    \<and> map_option ei_state (stored demo_xl h' demo_effect) = Some Denied"
proof -
  let ?h = "effect_run demo_xl [demo_begin_op] no_effects"
  have ok: "home_ok demo_xl ?h" using run_snapshots [OF demo_xl_ok] demo_xl_ok by blast
  obtain h' where h': "expiry_sweep demo_xl (\<lambda>_ ks. ks) 1 900010 1 None ?h = Some (h', None)"
    by (rule demo_scan [OF ok demo_run_begin])
  have "map_keys (eh_latest ?h) = [demo_effect]" using demo_effect_keys [of ?h] ok demo_run_begin by blast
  then have "length (eh_latest ?h) \<le> 1" by (metis length_map map_keys_def length_Cons list.size(3) One_nat_def order_refl)
  from expiry_sweep_complete [OF demo_xl_ok hash_order_id refl _ this, of 900010 1] h'
  have "stored demo_xl h' demo_effect = Some (if validate_effect_id demo_effect = Inr ()
       \<and> readable_snapshot demo_xl demo_waiting then expire_if_due demo_xl 900010 demo_waiting else demo_waiting)"
    by (auto simp: demo_run_begin)
  with demo_overdue demo_readable [of demo_waiting] h' show ?thesis by (auto simp: expire_if_due_def)
qed

end
