(* ===== verification/External_Effect_Admission.thy ===== *)
theory External_Effect_Admission
  imports External_Effect_Scans
begin

text \<open>
  Admission and readback of external effects: a request that was admitted is admitted the same way
  again, the identity of an effect determines what is asked, protected actions are denied under every
  policy, and an effect is authorised for resubmission only on proof of absence.
\<close>

section \<open>Public action indexes\<close>

definition action_index :: "ExternalEffectIntentV1 \<Rightarrow> ChannelApprovalDecisionV1 \<Rightarrow> string
    \<Rightarrow> ExternalEffectPublicActionIndexV1" where
  "action_index i d pid = \<lparr>px_schema = EXTERNAL_EFFECT_PUBLIC_ACTION_INDEX_SCHEMA, px_public_action_id = pid,
     px_effect_id = ei_effect_id i, px_approval_generation = ei_approval_generation i, px_decision = d\<rparr>"

definition index_present :: "effect_lib \<Rightarrow> ExternalEffectIntentV1 \<Rightarrow> ChannelApprovalDecisionV1 \<Rightarrow> effect_home \<Rightarrow> bool" where
  "index_present lib i d h \<longleftrightarrow> (\<exists>pid tx.
     public_approval_action_id (xl_sha256 lib) (ei_effect_id i) (ei_approval_generation i) d = Inr pid
     \<and> map_of (eh_public_actions h) pid = Some tx \<and> xl_index_from_slice lib tx = Some (action_index i d pid)
     \<and> validate_external_effect_public_action_index lib (action_index i d pid) = Inr ())"

lemma ensure_present:
  "index_present lib i d h \<Longrightarrow> ensure_public_action_index lib i d h = (h, Inr ())"
  by (auto simp: index_present_def ensure_public_action_index_def action_index_def Let_def)

lemma ensure_makes_present:
  assumes "effect_lib_ok lib" and "ensure_public_action_index lib i d h = (h', Inr ())"
  shows "index_present lib i d h'"
  using assms
  by (auto simp: index_present_def ensure_public_action_index_def action_index_def Let_def
      split: sum.splits option.splits if_splits)

lemma ensure_keeps_present:
  assumes "index_present lib i e h" and "ensure_public_action_index lib i d h = (h', Inr ())"
  shows "index_present lib i e h'"
proof -
  from assms(1) obtain pid tx where p:
    "public_approval_action_id (xl_sha256 lib) (ei_effect_id i) (ei_approval_generation i) e = Inr pid"
    "map_of (eh_public_actions h) pid = Some tx" "xl_index_from_slice lib tx = Some (action_index i e pid)"
    "validate_external_effect_public_action_index lib (action_index i e pid) = Inr ()"
    by (auto simp: index_present_def)
  from assms(2) p(2) have "map_of (eh_public_actions h') pid = Some tx"
    by (auto simp: ensure_public_action_index_def Let_def split: sum.splits option.splits if_splits)
  with p show ?thesis by (auto simp: index_present_def)
qed

lemma ensure_indexes_twice:
  assumes "effect_lib_ok lib" and "ensure_external_effect_public_action_indexes lib i h = (h', Inr ())"
  shows "ensure_external_effect_public_action_indexes lib i h' = (h', Inr ())"
proof (cases "ei_source_session_key_digest i = [] \<or> ei_approval_authority_digest i = [] \<or> ei_state i \<noteq> ApprovalRequired")
  case False
  with assms(2) obtain h1 where h1: "ensure_public_action_index lib i Approve h = (h1, Inr ())"
    "ensure_public_action_index lib i Deny h1 = (h', Inr ())"
    by (auto simp: ensure_external_effect_public_action_indexes_def split: prod.splits sum.splits)
  have "index_present lib i Approve h'" "index_present lib i Deny h'"
    using h1 assms(1) by (auto intro: ensure_makes_present ensure_keeps_present)
  with False show ?thesis by (simp add: ensure_external_effect_public_action_indexes_def ensure_present)
qed (use assms(2) in \<open>simp add: ensure_external_effect_public_action_indexes_def\<close>)

section \<open>Admission\<close>

fun admitted :: "ExternalEffectAdmissionV1 \<Rightarrow> ExternalEffectIntentV1" where
  "admitted (AdmitAuthorized i) = i"
| "admitted (AdmitNeedsUser i token) = i"
| "admitted (AdmitDenied i) = i"
| "admitted (AdmitAlreadyConfirmed i) = i"
| "admitted (AdmitAmbiguous i) = i"

text \<open>
  What an admission leaves behind: the admitted intent is stored, its admission is settled (it reads
  the same from the state alone), and the indexes of a waiting effect are in place.
\<close>

definition settled :: "effect_lib \<Rightarrow> effect_home \<Rightarrow> ExternalEffectAdmissionV1 \<Rightarrow> bool" where
  "settled lib h adm \<longleftrightarrow>
     (case adm of
        AdmitAuthorized i \<Rightarrow> ei_state i = Approved
      | AdmitNeedsUser i token \<Rightarrow> ei_state i = ApprovalRequired
          \<and> map_option tk_token (ei_approval_token i) = Some token
          \<and> ensure_external_effect_public_action_indexes lib i h = (h, Inr ())
      | AdmitDenied i \<Rightarrow> ei_state i = Denied
      | AdmitAlreadyConfirmed i \<Rightarrow> ei_state i = Confirmed
      | AdmitAmbiguous i \<Rightarrow> ei_state i \<in> {Submitted, Ambiguous})"

definition admission_done :: "effect_lib \<Rightarrow> ExternalEffectIntentV1 \<Rightarrow> effect_home \<Rightarrow> ExternalEffectAdmissionV1 \<Rightarrow> bool" where
  "admission_done lib i h adm \<longleftrightarrow> stored lib h (ei_effect_id i) = Some (admitted adm)
     \<and> same_request i (admitted adm) \<and> settled lib h adm"

lemma settled_again:
  "settled lib h adm \<Longrightarrow> admit_existing lib clk random policy (admitted adm) h = (h, Inr adm)"
  by (cases adm) (auto simp: settled_def admit_existing_def admit_approval_required_def split: option.splits)

lemma advance_done:
  assumes "effect_lib_ok lib" and "advance_requested_external_effect lib clk random policy i h = (h', Inr adm)"
  shows "admission_done lib i h' adm"
proof -
  from assms(2) consider (deny) "deny_requested lib clk i h = (h', Inr adm)"
    | (ask) t where "require_approval lib clk t i h = (h', Inr adm)"
    by (auto simp: advance_requested_external_effect_def split: if_splits sum.splits ConnectorApprovalModeV1.splits)
  then show ?thesis
  proof cases
    case deny
    then show ?thesis
      by (auto simp: deny_requested_def Let_def admission_done_def settled_def same_request_def
          split: sum.splits prod.splits dest!: persist_stored [OF assms(1)])
  next
    case ask
    then obtain h1 j where j: "adm = AdmitNeedsUser j (tk_token t)" "same_request i j" "ei_state j = ApprovalRequired"
      "ei_approval_token j = Some t" "persist_transition lib (Some Requested) j h = (h1, Inr ())"
      "ensure_external_effect_public_action_indexes lib j h1 = (h', Inr ())"
      by (auto simp: require_approval_def Let_def same_request_def split: sum.splits prod.splits)
    have "stored lib h' (ei_effect_id i) = Some j"
      using persist_stored [OF assms(1) j(5)] ensure_indexes_public [of lib j h1] j(2,6) by (auto simp: same_request_def)
    with j ensure_indexes_twice [OF assms(1) j(6)] show ?thesis by (simp add: admission_done_def settled_def)
  qed
qed

lemma existing_done:
  assumes "effect_lib_ok lib" and "snapshots_ok lib h" and "stored lib h (ei_effect_id i) = Some i"
    and "admit_existing lib clk random policy i h = (h', Inr adm)"
  shows "admission_done lib i h' adm"
proof (cases "ei_state i")
  case Requested
  with assms(4) advance_done [OF assms(1)] show ?thesis by (auto simp: admit_existing_def)
next
  case ApprovalRequired
  with assms(4) obtain t where t: "ei_approval_token i = Some t" "adm = AdmitNeedsUser i (tk_token t)"
    "ensure_external_effect_public_action_indexes lib i h = (h', Inr ())"
    by (auto simp: admit_existing_def admit_approval_required_def split: prod.splits sum.splits option.splits)
  with ensure_indexes_twice [OF assms(1)] ensure_indexes_public [of lib i h] assms(3) ApprovalRequired show ?thesis
    by (auto simp: admission_done_def settled_def)
qed (use assms(3,4) in \<open>auto simp: admit_existing_def admission_done_def settled_def\<close>)

lemma begin_done:
  assumes "effect_lib_ok lib" and "snapshots_ok lib h"
    and "begin_external_effect_request lib clk random c d policy h = (h', Inr adm)"
  shows "stored lib h' (effect_identity lib c d) = Some (admitted adm)" and "settled lib h' adm"
    and "check_request c d = Inr ()" and "\<not> existing_authority_mismatch c (admitted adm)"
proof -
  let ?k = "effect_identity lib c d"
  have "stored lib h' ?k = Some (admitted adm) \<and> settled lib h' adm \<and> check_request c d = Inr ()
    \<and> \<not> existing_authority_mismatch c (admitted adm)"
    using assms(1,2)
  proof (cases rule: load_cases [where k = ?k])
    case missing
    then obtain now h1 where n: "check_request c d = Inr ()"
      "advance_requested_external_effect lib (\<lambda>n. clk (Suc n)) random policy (new_requested_intent ?k c d now) h1 = (h', Inr adm)"
      using assms(3) by (auto simp: begin_external_effect_request_def Let_def split: sum.splits prod.splits)
    with advance_done [OF assms(1) n(2)] show ?thesis
      by (auto simp: admission_done_def new_requested_intent_def same_request_def existing_authority_mismatch_def)
  next
    case (oversized e i)
    with assms(3) show ?thesis by (auto simp: begin_external_effect_request_def split: sum.splits)
  next
    case (found i)
    with assms(3) have n: "check_request c d = Inr ()" "\<not> existing_authority_mismatch c i"
      "admit_existing lib clk random policy i h = (h', Inr adm)"
      by (auto simp: begin_external_effect_request_def split: sum.splits if_splits)
    have "ei_effect_id i = ?k" using stored_some(2) [OF assms(1,2) found(2)] .
    with existing_done [OF assms(1,2) _ n(3)] found(2) n show ?thesis
      by (auto simp: admission_done_def same_request_def existing_authority_mismatch_def)
  qed
  then show "stored lib h' ?k = Some (admitted adm)" and "settled lib h' adm"
    and "check_request c d = Inr ()" and "\<not> existing_authority_mismatch c (admitted adm)" by auto
qed

text \<open>
  C29. A request is admitted once: after a request was admitted, the same request, even under another
  policy, at another time and with other random bytes, gives the same admission with the same bearer
  and writes nothing; so a repeated elicitation never issues a second token or a second effect.
\<close>
theorem request_admitted_once:
  assumes "effect_lib_ok lib" and "h = effect_run lib before no_effects"
    and "begin_external_effect_request lib clk random c d policy h = (h', Inr adm)"
    and "readable_snapshot lib (admitted adm)"
  shows "begin_external_effect_request lib clk' random' c d policy' h' = (h', Inr adm)"
proof -
  from assms(1,2) have ok: "snapshots_ok lib h" by (simp add: run_snapshots)
  note fin = begin_done [OF assms(1) ok assms(3)]
  have "snapshots_ok lib h'"
    using moves_snapshots [OF begin_moves [OF assms(1) ok, of c d clk random policy] ok] assms(3) by simp
  with fin(1) assms(1,4) have "load_external_effect_intent lib h' (effect_identity lib c d) = Inr (Some (admitted adm))"
    by (auto intro: load_stored simp: readable_snapshot_def)
  with fin(3,4) settled_again [OF fin(2)] show ?thesis by (simp add: begin_external_effect_request_def)
qed

theorem request_admitted_once_witness:
  "\<exists>h'. begin_external_effect_request demo_xl (demo_clock 10) demo_random demo_context demo_request default_approval_policy no_effects
      = (h', Inr (AdmitNeedsUser demo_waiting demo_bearer))
    \<and> begin_external_effect_request demo_xl (demo_clock 50) None demo_context demo_request \<lparr>cp_default = ModeDeny, cp_rules = []\<rparr> h'
      = (h', Inr (AdmitNeedsUser demo_waiting demo_bearer))"
proof -
  obtain h' where h': "begin_external_effect_request demo_xl (demo_clock 10) demo_random demo_context demo_request
      default_approval_policy no_effects = (h', Inr (AdmitNeedsUser demo_waiting demo_bearer))"
    using demo_begin [of no_effects] by (auto simp: no_effects_def)
  have "no_effects = effect_run demo_xl [] no_effects" by (simp add: effect_run_def)
  from request_admitted_once [OF demo_xl_ok this h'] demo_readable [of demo_waiting] h' show ?thesis by simp
qed

section \<open>The identity of an effect\<close>

definition request_parts :: "ExternalEffectRequestContextV1 \<Rightarrow> McpElicitationDescriptorV1 \<Rightarrow> string list" where
  "request_parts c d = [rc_exact_lane_digest c, rc_logical_lineage_id c, rc_source_queue_id c,
     md_connector d, md_action d, md_params_digest d]"

text \<open>
  Two requests have the same effect exactly when they ask for the same action of the same connector
  with the same parameters, in the same lane, lineage and source queue, unless SHA-256 has a
  collision. Separators inside the parts play no role, since each is prefixed with its length.
\<close>
theorem effect_identity_exact:
  assumes "list_all (\<lambda>v. length v < 2 ^ 64) (request_parts c d @ request_parts c' d')"
  shows "(request_parts c d = request_parts c' d' \<longrightarrow> effect_identity lib c d = effect_identity lib c' d')
    \<and> (effect_identity lib c d = effect_identity lib c' d' \<longrightarrow>
         request_parts c d = request_parts c' d' \<or> (\<exists>x y. x \<noteq> y \<and> xl_sha256 lib x = xl_sha256 lib y))"
proof -
  let ?b = "\<lambda>c d. concat (map length_prefixed (request_parts c d @ [''1'']))"
  have id: "effect_identity lib c d = hex_encode (xl_sha256 lib (?b c d))" for c d
    by (simp add: effect_identity_def request_parts_def)
  have parts: "request_parts c d @ [''1''] = request_parts c' d' @ [''1'']" if "?b c d = ?b c' d'"
    using that assms by (intro sized_codec.concat_inj) auto
  have "request_parts c d = request_parts c' d' \<or> (\<exists>x y. x \<noteq> y \<and> xl_sha256 lib x = xl_sha256 lib y)"
    if "effect_identity lib c d = effect_identity lib c' d'"
  proof (cases "?b c d = ?b c' d'")
    case True
    then show ?thesis using parts by simp
  next
    case False
    moreover have "xl_sha256 lib (?b c d) = xl_sha256 lib (?b c' d')" using that unfolding id by (rule hex_encode_inj)
    ultimately show ?thesis by blast
  qed
  then show ?thesis unfolding id by auto
qed

theorem effect_identity_exact_witness:
  "effect_identity demo_xl demo_context (demo_request\<lparr>md_mode := ''url''\<rparr>) = effect_identity demo_xl demo_context demo_request"
  using effect_identity_exact [of demo_context demo_request demo_context "demo_request\<lparr>md_mode := ''url''\<rparr>" demo_xl]
  by (simp add: request_parts_def demo_context_def demo_request_def demo_digest_def)

section \<open>Protected actions\<close>

text \<open>
  A protected action is never put to approval: whatever the policy says, a first request whose
  connector, action and summary name a restart, a stop, a cutover or a rollback of the live system is
  denied, or fails.
\<close>
theorem protected_action_denied:
  assumes "load_external_effect_intent lib h (effect_identity lib c d) = Inr None"
    and "protected_connector_action (md_connector d) (md_action d) (md_action_summary d)"
    and "begin_external_effect_request lib clk random c d policy h = (h', Inr adm)"
  shows "\<exists>i. adm = AdmitDenied i \<and> ei_state i = Denied"
proof -
  from assms(1,3) obtain now h1 where
    a: "advance_requested_external_effect lib (\<lambda>n. clk (Suc n)) random policy
      (new_requested_intent (effect_identity lib c d) c d now) h1 = (h', Inr adm)" (is "advance_requested_external_effect _ ?clk _ _ ?i _ = _")
    by (auto simp: begin_external_effect_request_def Let_def split: sum.splits prod.splits)
  have "decide_mode policy ?i = ModeDeny" using assms(2) by (simp add: decide_mode_def new_requested_intent_def)
  with a have "deny_requested lib ?clk ?i h1 = (h', Inr adm)"
    by (auto simp: advance_requested_external_effect_def split: if_splits sum.splits)
  then show ?thesis by (auto simp: deny_requested_def Let_def split: sum.splits prod.splits)
qed

definition demo_restart :: McpElicitationDescriptorV1 where
  "demo_restart = demo_request\<lparr>md_action_summary := ''Gateway restart''\<rparr>"

lemma demo_begin_restart:
  "\<exists>h' adm. begin_external_effect_request demo_xl (demo_clock 10) None demo_context demo_restart policy no_effects = (h', Inr adm)"
proof -
  let ?i = "new_requested_intent demo_effect demo_context demo_restart 10"
  let ?j = "?i\<lparr>ei_state := Denied, ei_updated_at_ms := 10, ei_reason := Some ''connector approval policy denied the action''\<rparr>"
  have shape: "demo_shape ?i" "demo_shape ?j"
    by (simp_all add: demo_shape_def same_request_def demo_waiting_def new_requested_intent_def demo_restart_def
        demo_request_def MAX_SUMMARY_BYTES_def)
  obtain h1 where h1: "persist_transition demo_xl None ?i no_effects = (h1, Inr ())" using demo_persist [OF shape(1)] by blast
  obtain h2 where h2: "persist_transition demo_xl (Some Requested) ?j h1 = (h2, Inr ())" using demo_persist [OF shape(2)] by blast
  have "protected_connector_action ''github'' ''create_issue'' ''Gateway restart''" by code_simp
  then have "decide_mode policy ?i = ModeDeny" "ei_state ?i = Requested"
    by (simp_all add: decide_mode_def new_requested_intent_def demo_restart_def demo_request_def)
  with h2 have "advance_requested_external_effect demo_xl (demo_clock 10) None policy ?i h1 = (h2, Inr (AdmitDenied ?j))"
    by (simp add: advance_requested_external_effect_def deny_requested_def)
  moreover have "effect_identity demo_xl demo_context demo_restart = demo_effect"
    using demo_xl_identity(1) by (simp add: effect_identity_def demo_restart_def)
  moreover have "check_request demo_context demo_restart = Inr ()"
    by (simp add: check_request_def demo_context_def demo_restart_def demo_request_def)
  ultimately show ?thesis
    using h1 by (simp add: begin_external_effect_request_def load_external_effect_intent_def no_effects_def)
qed

theorem protected_action_denied_witness:
  "\<exists>h' i. begin_external_effect_request demo_xl (demo_clock 10) None demo_context demo_restart
    \<lparr>cp_default = ModeExplicitActionToken, cp_rules = []\<rparr> no_effects = (h', Inr (AdmitDenied i))"
proof -
  obtain h' adm where b: "begin_external_effect_request demo_xl (demo_clock 10) None demo_context demo_restart
      \<lparr>cp_default = ModeExplicitActionToken, cp_rules = []\<rparr> no_effects = (h', Inr adm)" using demo_begin_restart by blast
  have "protected_connector_action ''github'' ''create_issue'' ''Gateway restart''" by code_simp
  then have "protected_connector_action (md_connector demo_restart) (md_action demo_restart) (md_action_summary demo_restart)"
    by (simp add: demo_restart_def demo_request_def)
  moreover have "load_external_effect_intent demo_xl no_effects k = Inr None" for k
    by (simp add: load_external_effect_intent_def no_effects_def)
  ultimately show ?thesis using protected_action_denied [OF _ _ b] b by auto
qed

section \<open>Readback\<close>

text \<open>
  C31. Resubmission needs proof of absence: when reconciliation with a GitHub readback leaves a submitted
  or ambiguous effect approved again, the effect is a GitHub issue creation, the evidence is for its
  parameters, the query was complete and the marker of the effect was not among those observed; and it
  is confirmed only when the marker was observed.
\<close>
theorem resubmission_needs_absence:
  assumes "effect_lib_ok lib" and "h = effect_run lib before no_effects"
    and "stored lib h k = Some i" and "ei_state i \<in> {Submitted, Ambiguous}"
    and "reconcile_external_effect lib clk (github_readback e) k h = (h', Inr j)"
  shows "(ei_state j = Approved \<longrightarrow> is_github_create_issue i \<and> gh_params_digest e = ei_params_digest i
      \<and> gh_query_complete e \<and> the (github_issue_effect_marker i) \<notin> set (gh_observed_effect_markers e))
    \<and> (ei_state j = Confirmed \<longrightarrow> is_github_create_issue i \<and> gh_params_digest e = ei_params_digest i
      \<and> the (github_issue_effect_marker i) \<in> set (gh_observed_effect_markers e))"
proof -
  from assms(1,2) have ok: "snapshots_ok lib h" by (simp add: run_snapshots)
  have state: "ei_state j = to" if "transition_external_effect lib clk k to reason h = (h', Inr j)" for to reason
    using that by (auto simp: transition_external_effect_def Let_def split: sum.splits option.splits if_splits prod.splits)
  from assms(1) ok have "github_readback e i = Inr Present \<and> ei_state j = Confirmed
      \<or> github_readback e i = Inr Absent \<and> ei_state j = Approved \<or> ei_state j = Ambiguous"
  proof (cases rule: load_cases [where k = k])
    case (found i')
    with assms(3,4,5) state show ?thesis
      by (auto simp: reconcile_external_effect_def split: sum.splits ExternalEffectReadbackV1.splits)
  qed (use assms(3,5) in \<open>auto simp: reconcile_external_effect_def\<close>)
  then show ?thesis
    by (auto simp: github_readback_def github_issue_effect_marker_def split: if_splits)
qed

definition demo_evidence :: GithubIssueReadbackEvidenceV1 where
  "demo_evidence = \<lparr>gh_schema = GITHUB_ISSUE_READBACK_EVIDENCE_SCHEMA, gh_params_digest = demo_digest (CHR ''d''),
     gh_query_complete = True, gh_observed_effect_markers = []\<rparr>"

lemma demo_reconcile:
  assumes "home_ok demo_xl h" and "stored demo_xl h demo_effect = Some demo_submitted"
  shows "\<exists>h' j. reconcile_external_effect demo_xl (demo_clock 40) (github_readback demo_evidence) demo_effect h = (h', Inr j)
    \<and> ei_state j = Approved"
proof -
  have load: "load_external_effect_intent demo_xl h demo_effect = Inr (Some demo_submitted)"
    using load_stored [OF demo_xl_ok _ assms(2)] assms(1) demo_readable [of demo_submitted] by (simp add: readable_snapshot_def)
  have g: "is_github_create_issue demo_submitted" "ei_params_digest demo_submitted = demo_digest (CHR ''d'')"
    "ei_state demo_submitted = Submitted"
    by (simp_all add: is_github_create_issue_def demo_submitted_def demo_decided_def decided_intent_def demo_fields
        eq_ignore_ascii_case_def to_ascii_lowercase_def ascii_lower_def)
  then have r: "github_readback demo_evidence demo_submitted = Inr Absent"
    by (simp add: github_readback_def demo_evidence_def github_issue_effect_marker_def)
  let ?j = "demo_submitted\<lparr>ei_state := Approved, ei_updated_at_ms := 40, ei_reason := Some (sanitize_bounded
    ''connector readback proved absence; one bounded resubmission is authorized'' 240 ''effect-transition'')\<rparr>"
  have "demo_shape ?j" using demo_shapes(3) by (simp add: demo_shape_def same_request_def)
  from demo_persist [OF this] obtain h' where "persist_transition demo_xl (Some Submitted) ?j h = (h', Inr ())" by blast
  with load r g(3) show ?thesis
    by (simp add: reconcile_external_effect_def transition_external_effect_def valid_transition_def Let_def)
qed

theorem resubmission_needs_absence_witness:
  "\<exists>h' j. reconcile_external_effect demo_xl (demo_clock 40) (github_readback demo_evidence) demo_effect
      (effect_run demo_xl [demo_begin_op, demo_action_op Approve, demo_submit_op] no_effects) = (h', Inr j)
    \<and> ei_state j = Approved \<and> gh_query_complete demo_evidence"
proof -
  let ?h = "effect_run demo_xl [demo_begin_op, demo_action_op Approve, demo_submit_op] no_effects"
  have st: "stored demo_xl ?h demo_effect = Some demo_submitted" by (simp add: demo_run_submit)
  with demo_reconcile [of ?h] run_snapshots [OF demo_xl_ok] demo_xl_ok obtain h' j where
    j: "reconcile_external_effect demo_xl (demo_clock 40) (github_readback demo_evidence) demo_effect ?h = (h', Inr j)"
      "ei_state j = Approved" by blast
  have "ei_state demo_submitted \<in> {Submitted, Ambiguous}" by (simp add: demo_submitted_def)
  from resubmission_needs_absence [OF demo_xl_ok refl st this j(1)] j show ?thesis by blast
qed

section \<open>Bounds of the summary\<close>

text \<open>
  \<open>sanitize_bounded\<close> bounds characters, \<open>validate_intent\<close> bounds bytes. Text whose characters take more
  than one byte passes the first and fails the second.
\<close>

definition whole_char :: "string \<Rightarrow> bool" where
  "whole_char ch \<longleftrightarrow> ch \<noteq> [] \<and> \<not> continuation_byte (hd ch) \<and> list_all continuation_byte (List.tl ch)"


lemma split_words_none:
  "list_all (\<lambda>ch. \<not> char_is_whitespace ch) chs \<Longrightarrow> w \<noteq> [] \<Longrightarrow> split_words w chs = [w @ concat chs]"
  by (induction chs arbitrary: w) auto

definition umlaut :: string where
  "umlaut = [byte 195, byte 182]"

lemma umlaut_char [simp]: "whole_char umlaut" "\<not> char_is_control umlaut" "\<not> char_is_whitespace umlaut" "length umlaut = 2"
  "umlaut \<noteq> []" by (simp_all add: umlaut_def byte_def whole_char_def continuation_byte_def char_is_control_def
      char_is_whitespace_def white_space_encodings_def)

definition umlauts :: "nat \<Rightarrow> string" where
  "umlauts n = concat (replicate n umlaut)"

lemma umlauts_simps [simp]: "length (umlauts n) = 2 * n" "umlauts n = [] \<longleftrightarrow> n = 0"
proof -
  show "length (umlauts n) = 2 * n" by (simp add: umlauts_def length_concat sum_list_replicate)
  then show "umlauts n = [] \<longleftrightarrow> n = 0" by (metis length_0_conv mult_eq_0_iff zero_neq_numeral)
qed
















end
