(* ===== verification/Operation_Plan.thy ===== *)
theory Operation_Plan
  imports Jsonl "HOL-Library.Product_Lexorder"
begin

text \<open>
  The operation plans of \<open>src/crates/agent-harness-core/src/operation_plan.rs\<close>: data and operations.

  One plan is a directory of five files, here a \<open>plan_store\<close>: \<open>plan.json\<close> (or the error that
  reading it gives), the rows of \<open>items.jsonl\<close> (\<open>None\<close> for a line that does not parse) and the
  event, comment and receipt ledgers. An operation reads the store and yields the writes it
  makes, in the order the code makes them, and its result: a write that fails ends the
  operation there with the error (the \<open>?\<close> of the source), so the stores an interrupted
  operation can leave behind are those of the prefixes of its writes (\<open>run_writes_upto\<close>).
  Every operation runs under the lock of its plan directory, so operations on one plan do not
  interleave. The paths that the reports repeat are left out.
\<close>

section \<open>Data\<close>

datatype OperationPlanStatus = PlanOpen | PlanBlocked | PlanCompleted | PlanCanceled

record OperationPlan =
  pl_schema :: string
  pl_plan_id :: string
  pl_origin_queue_id :: "string option"
  pl_session_key :: string
  pl_agent_id :: string
  pl_lane_digest :: "string option"
  pl_goal :: string
  pl_status :: OperationPlanStatus
  pl_acceptance_criteria :: "string option"
  pl_constraints :: "string option"
  pl_max_open_items :: "nat option"
  pl_max_fanout :: "nat option"
  pl_created_at_ms :: int
  pl_updated_at_ms :: int
  pl_version :: u64

datatype OperationPlanItemStatus =
  Todo | Ready | Running | Review | Done | Blocked | Canceled

fun can_transition_to :: "OperationPlanItemStatus \<Rightarrow> OperationPlanItemStatus \<Rightarrow> bool" where
  "can_transition_to _ Canceled = True"
| "can_transition_to Todo Ready = True"
| "can_transition_to Ready Running = True"
| "can_transition_to Running Review = True"
| "can_transition_to Review Done = True"
| "can_transition_to Todo Blocked = True"
| "can_transition_to Ready Blocked = True"
| "can_transition_to Running Blocked = True"
| "can_transition_to Review Blocked = True"
| "can_transition_to _ _ = False"

fun is_terminal :: "OperationPlanItemStatus \<Rightarrow> bool" where
  "is_terminal Done = True"
| "is_terminal Blocked = True"
| "is_terminal Canceled = True"
| "is_terminal _ = False"

fun item_status_as_str :: "OperationPlanItemStatus \<Rightarrow> string" where
  "item_status_as_str Todo = ''todo''"
| "item_status_as_str Ready = ''ready''"
| "item_status_as_str Running = ''running''"
| "item_status_as_str Review = ''review''"
| "item_status_as_str Done = ''done''"
| "item_status_as_str Blocked = ''blocked''"
| "item_status_as_str Canceled = ''canceled''"

text \<open>The derived \<open>Debug\<close> output, used in error messages.\<close>

fun item_status_debug :: "OperationPlanItemStatus \<Rightarrow> string" where
  "item_status_debug Todo = ''Todo''"
| "item_status_debug Ready = ''Ready''"
| "item_status_debug Running = ''Running''"
| "item_status_debug Review = ''Review''"
| "item_status_debug Done = ''Done''"
| "item_status_debug Blocked = ''Blocked''"
| "item_status_debug Canceled = ''Canceled''"

record OperationPlanItem =
  it_schema :: string
  it_plan_id :: string
  it_item_id :: string
  it_title :: string
  it_body :: string
  it_status :: OperationPlanItemStatus
  it_depends_on :: "string list"
  it_assignee :: "string option"
  it_worker_job_id :: "string option"
  it_queue_id :: "string option"
  it_acceptance_criteria :: "string option"
  it_evidence :: "string list"
  it_artifacts :: "string list"
  it_risk :: "string option"
  it_delegation_idempotency_key :: "string option"
  it_version :: u64
  it_created_at_ms :: int
  it_updated_at_ms :: int

datatype OperationPlanEventKind =
  EvCreated | EvItemAdded | EvItemUpdated | EvItemDelegated | EvItemPromotedToReady
  | EvCommentAdded | EvBlocked | EvCompleted

record OperationPlanEvent =
  ev_schema :: string
  ev_at_ms :: int
  ev_plan_id :: string
  ev_item_id :: "string option"
  ev_kind :: OperationPlanEventKind
  ev_detail :: string
  ev_plan_version :: u64
  ev_item_version :: "u64 option"

datatype OperationPlanReceiptAction =
  ActCreatePlan | ActAddItem | ActUpdateItem | ActDelegateItem | ActPromoteDependencies
  | ActComment | ActBlock | ActComplete

record OperationPlanReceipt =
  rc_schema :: string
  rc_at_ms :: int
  rc_plan_id :: string
  rc_action :: OperationPlanReceiptAction
  rc_item_id :: "string option"
  rc_plan_version :: u64
  rc_item_version :: "u64 option"
  rc_success :: bool
  rc_reason :: string
  rc_duplicated :: bool

record OperationPlanComment =
  cm_schema :: string
  cm_at_ms :: int
  cm_plan_id :: string
  cm_author :: "string option"
  cm_body :: string

definition OPERATION_PLAN_SCHEMA :: string where
  "OPERATION_PLAN_SCHEMA = ''agent-harness.operation-plan.v1''"

definition OPERATION_PLAN_ITEM_SCHEMA :: string where
  "OPERATION_PLAN_ITEM_SCHEMA = ''agent-harness.operation-plan-item.v1''"

definition OPERATION_PLAN_EVENT_SCHEMA :: string where
  "OPERATION_PLAN_EVENT_SCHEMA = ''agent-harness.operation-plan-event.v1''"

definition OPERATION_PLAN_COMMENT_SCHEMA :: string where
  "OPERATION_PLAN_COMMENT_SCHEMA = ''agent-harness.operation-plan-comment.v1''"

definition OPERATION_PLAN_RECEIPT_SCHEMA :: string where
  "OPERATION_PLAN_RECEIPT_SCHEMA = ''agent-harness.operation-plan-receipt.v1''"

subsection \<open>Options and reports\<close>

record CreateOperationPlanOptions =
  co_plan_id :: string
  co_origin_queue_id :: "string option"
  co_session_key :: string
  co_agent_id :: string
  co_goal :: string
  co_acceptance_criteria :: "string option"
  co_constraints :: "string option"
  co_max_open_items :: "nat option"
  co_max_fanout :: "nat option"
  co_now_ms :: int

record OperationPlanAddItemOptions =
  ao_plan_id :: string
  ao_item_id :: string
  ao_title :: string
  ao_body :: string
  ao_depends_on :: "string list"
  ao_acceptance_criteria :: "string option"
  ao_risk :: "string option"
  ao_now_ms :: int

record OperationPlanUpdateItemOptions =
  uo_plan_id :: string
  uo_item_id :: string
  uo_expected_item_version :: "u64 option"
  uo_status :: "OperationPlanItemStatus option"
  uo_title :: "string option"
  uo_body :: "string option"
  uo_depends_on :: "string list option"
  uo_assignee :: "string option"
  uo_worker_job_id :: "string option"
  uo_queue_id :: "string option"
  uo_risk :: "string option"
  uo_evidence :: "string list option"
  uo_replace_evidence :: bool
  uo_add_evidence :: "string list"
  uo_now_ms :: int

record OperationPlanDelegateItemOptions =
  do_plan_id :: string
  do_item_id :: string
  do_expected_item_version :: "u64 option"
  do_idempotency_key :: string
  do_assignee :: string
  do_worker_job_id :: "string option"
  do_queue_id :: "string option"
  do_now_ms :: int

record OperationPlanCommentOptions =
  mo_plan_id :: string
  mo_author :: "string option"
  mo_body :: string
  mo_now_ms :: int

record OperationPlanCreateReport =
  cr_plan :: OperationPlan
  cr_created :: bool
  cr_reason :: string
  cr_receipt :: OperationPlanReceipt

record OperationPlanItemReport =
  ir_item :: OperationPlanItem
  ir_receipt :: OperationPlanReceipt

record OperationPlanPlanReport =
  pr_plan :: OperationPlan
  pr_receipt :: OperationPlanReceipt

record OperationPlanCommentReport =
  mr_comment :: OperationPlanComment
  mr_receipt :: OperationPlanReceipt

record OperationPlanPromoteReport =
  qr_promoted_item_ids :: "string list"
  qr_receipt :: OperationPlanReceipt

record OperationPlanShowReport =
  sr_plan :: OperationPlan
  sr_items :: "OperationPlanItem list"
  sr_open_items :: "nat \<times> string list"
  sr_blocked_items :: "nat \<times> string list"
  sr_receipt :: OperationPlanReceipt

section \<open>The files of a plan\<close>

record plan_store =
  st_plan :: "io_error + OperationPlan"
  st_items :: "OperationPlanItem option list"
  st_events :: "OperationPlanEvent list"
  st_comments :: "OperationPlanComment list"
  st_receipts :: "OperationPlanReceipt list"

definition empty_store :: plan_store where
  "empty_store = \<lparr>st_plan = Inl (IoError NotFound ''plan.json''), st_items = [], st_events = [],
     st_comments = [], st_receipts = []\<rparr>"

datatype plan_write =
    WritePlan OperationPlan
  | AppendItem OperationPlanItem
  | AppendEvent OperationPlanEvent
  | AppendComment OperationPlanComment
  | AppendReceipt OperationPlanReceipt

fun apply_write :: "plan_write \<Rightarrow> plan_store \<Rightarrow> plan_store" where
  "apply_write (WritePlan p) s = s\<lparr>st_plan := Inr p\<rparr>"
| "apply_write (AppendItem i) s = s\<lparr>st_items := st_items s @ [Some i]\<rparr>"
| "apply_write (AppendEvent e) s = s\<lparr>st_events := st_events s @ [e]\<rparr>"
| "apply_write (AppendComment c) s = s\<lparr>st_comments := st_comments s @ [c]\<rparr>"
| "apply_write (AppendReceipt r) s = s\<lparr>st_receipts := st_receipts s @ [r]\<rparr>"

definition apply_writes :: "plan_write list \<Rightarrow> plan_store \<Rightarrow> plan_store" where
  "apply_writes ws s = fold apply_write ws s"

type_synonym 'r plan_outcome = "plan_write list \<times> (io_error + 'r)"

definition run_writes :: "'r plan_outcome \<Rightarrow> plan_store \<Rightarrow> plan_store \<times> (io_error + 'r)" where
  "run_writes out s = (apply_writes (fst out) s, snd out)"

text \<open>The same operation when the write after the first \<open>n\<close> fails with the error \<open>e\<close>.\<close>

definition run_writes_upto :: "nat \<Rightarrow> io_error \<Rightarrow> 'r plan_outcome \<Rightarrow> plan_store
    \<Rightarrow> plan_store \<times> (io_error + 'r)" where
  "run_writes_upto n e out s =
     (apply_writes (take n (fst out)) s, if n < length (fst out) then Inl e else snd out)"

subsection \<open>Reading the items\<close>

definition upsert_item :: "OperationPlanItem \<Rightarrow> OperationPlanItem list \<Rightarrow> OperationPlanItem list" where
  "upsert_item i items = filter (\<lambda>j. it_item_id j \<noteq> it_item_id i) items @ [i]"

fun collect_items :: "OperationPlanItem list \<Rightarrow> OperationPlanItem option list
    \<Rightarrow> OperationPlanItem list" where
  "collect_items acc [] = acc"
| "collect_items acc (None # ls) = collect_items acc ls"
| "collect_items acc (Some i # ls) = collect_items (upsert_item i acc) ls"

definition read_items :: "OperationPlanItem option list \<Rightarrow> OperationPlanItem list" where
  "read_items ls = sort_key (\<lambda>i. (it_created_at_ms i, it_item_id i)) (collect_items [] ls)"

definition read_item_map :: "OperationPlanItem option list \<Rightarrow> (string \<times> OperationPlanItem) list" where
  "read_item_map ls = map (\<lambda>i. (it_item_id i, i)) (read_items ls)"

definition find_item_id_by_idempotency_key :: "(string list \<Rightarrow> string list) \<Rightarrow> string
    \<Rightarrow> (string \<times> OperationPlanItem) list \<Rightarrow> string option" where
  "find_item_id_by_idempotency_key ho key items =
     map_option it_item_id
       (find (\<lambda>i. it_delegation_idempotency_key i = Some key) (map_values_in ho items))"

section \<open>Validation of dependencies\<close>

fun validate_dependency_ids_from :: "string list \<Rightarrow> string list
    \<Rightarrow> (string \<times> OperationPlanItem) list \<Rightarrow> io_error + unit" where
  "validate_dependency_ids_from all_deps [] items = Inr ()"
| "validate_dependency_ids_from all_deps (dep # deps) items =
     (if dep = [] then Inl (IoError InvalidInput ''dependency id cannot be empty'')
      else if map_of items dep = None
        then Inl (IoError NotFound (''dependency '' @ dep @ '' does not exist''))
      else if 1 < length (filter (\<lambda>d. d = dep) all_deps)
        then Inl (IoError InvalidInput (''duplicate dependency '' @ dep))
      else validate_dependency_ids_from all_deps deps items)"

definition validate_dependency_ids :: "string list \<Rightarrow> (string \<times> OperationPlanItem) list
    \<Rightarrow> io_error + unit" where
  "validate_dependency_ids deps items = validate_dependency_ids_from deps deps items"

text \<open>
  The depth-first search: \<open>visit\<close> is the inner function of the source, \<open>visit_all\<close> its loop
  over the dependencies of an item. The set \<open>visiting\<close> is as it was when a call returns
  without error, so the model passes it down and returns only \<open>visited\<close>.
\<close>

function visit :: "(string \<times> OperationPlanItem) list \<Rightarrow> string \<Rightarrow> string list \<Rightarrow> string list
      \<Rightarrow> io_error + string list"
  and visit_all :: "(string \<times> OperationPlanItem) list \<Rightarrow> string list \<Rightarrow> string list \<Rightarrow> string list
      \<Rightarrow> io_error + string list" where
  "visit items item_id visiting visited =
     (if item_id \<in> set visited then Inr visited
      else if item_id \<in> set visiting
        then Inl (IoError InvalidInput (''dependency cycle detected at item '' @ item_id))
      else case map_of items item_id of
        None \<Rightarrow> Inr (item_id # visited)
      | Some item \<Rightarrow>
          (case visit_all items (it_depends_on item) (item_id # visiting) visited of
             Inl e \<Rightarrow> Inl e
           | Inr visited' \<Rightarrow> Inr (item_id # visited')))"
| "visit_all items [] visiting visited = Inr visited"
| "visit_all items (d # ds) visiting visited =
     (case visit items d visiting visited of
        Inl e \<Rightarrow> Inl e
      | Inr visited' \<Rightarrow> visit_all items ds visiting visited')"
  by pat_completeness auto
termination
proof (relation "measures
    [\<lambda>x. case x of Inl (items, _, vg, _) \<Rightarrow> card (dom (map_of items) - set vg)
                 | Inr (items, _, vg, _) \<Rightarrow> card (dom (map_of items) - set vg),
     \<lambda>x. case x of Inl _ \<Rightarrow> 0 | Inr (_, ds, _, _) \<Rightarrow> Suc (length ds)]", goal_cases)
  case (2 items item_id visiting visited item)
  then have "item_id \<in> dom (map_of items) - set visiting" by auto
  then have "card (dom (map_of items) - set visiting - {item_id})
      < card (dom (map_of items) - set visiting)"
    by (intro psubset_card_mono) (auto simp: finite_dom_map_of)
  moreover have "dom (map_of items) - set (item_id # visiting)
      = dom (map_of items) - set visiting - {item_id}" by auto
  ultimately show ?case by simp
qed auto

declare visit.simps [simp del]

fun visit_keys :: "(string \<times> OperationPlanItem) list \<Rightarrow> string list \<Rightarrow> string list
    \<Rightarrow> io_error + unit" where
  "visit_keys items [] visited = Inr ()"
| "visit_keys items (k # ks) visited =
     (case visit items k [] visited of
        Inl e \<Rightarrow> Inl e
      | Inr visited' \<Rightarrow> visit_keys items ks visited')"

definition validate_dependency_acyclicity :: "(string list \<Rightarrow> string list)
    \<Rightarrow> (string \<times> OperationPlanItem) list \<Rightarrow> io_error + unit" where
  "validate_dependency_acyclicity ho items = visit_keys items (ho (map_keys items)) []"

section \<open>Operations\<close>

definition plan_event :: "int \<Rightarrow> string \<Rightarrow> string option \<Rightarrow> OperationPlanEventKind \<Rightarrow> string \<Rightarrow> u64
    \<Rightarrow> u64 option \<Rightarrow> plan_write" where
  "plan_event at plan_id item_id kind detail pv iv = AppendEvent
     \<lparr>ev_schema = OPERATION_PLAN_EVENT_SCHEMA, ev_at_ms = at, ev_plan_id = plan_id,
      ev_item_id = item_id, ev_kind = kind, ev_detail = detail, ev_plan_version = pv,
      ev_item_version = iv\<rparr>"

definition plan_receipt :: "int \<Rightarrow> string \<Rightarrow> OperationPlanReceiptAction \<Rightarrow> string option \<Rightarrow> u64
    \<Rightarrow> u64 option \<Rightarrow> bool \<Rightarrow> string \<Rightarrow> bool \<Rightarrow> OperationPlanReceipt" where
  "plan_receipt at plan_id action item_id pv iv success reason duplicated =
     \<lparr>rc_schema = OPERATION_PLAN_RECEIPT_SCHEMA, rc_at_ms = at, rc_plan_id = plan_id,
      rc_action = action, rc_item_id = item_id, rc_plan_version = pv, rc_item_version = iv,
      rc_success = success, rc_reason = reason, rc_duplicated = duplicated\<rparr>"

definition touch_plan :: "int \<Rightarrow> OperationPlan \<Rightarrow> OperationPlan" where
  "touch_plan now p = p\<lparr>pl_version := sat_add (pl_version p) 1, pl_updated_at_ms := now\<rparr>"

subsection \<open>Creating and showing a plan\<close>

definition new_operation_plan :: "CreateOperationPlanOptions \<Rightarrow> string option \<Rightarrow> OperationPlan" where
  "new_operation_plan o' lane =
     \<lparr>pl_schema = OPERATION_PLAN_SCHEMA, pl_plan_id = co_plan_id o',
      pl_origin_queue_id = co_origin_queue_id o', pl_session_key = co_session_key o',
      pl_agent_id = co_agent_id o', pl_lane_digest = lane, pl_goal = co_goal o',
      pl_status = PlanOpen, pl_acceptance_criteria = co_acceptance_criteria o',
      pl_constraints = co_constraints o', pl_max_open_items = co_max_open_items o',
      pl_max_fanout = co_max_fanout o', pl_created_at_ms = co_now_ms o',
      pl_updated_at_ms = co_now_ms o', pl_version = 1\<rparr>"

definition create_operation_plan_internal_locked :: "CreateOperationPlanOptions \<Rightarrow> string option
    \<Rightarrow> bool \<Rightarrow> plan_store \<Rightarrow> OperationPlanCreateReport plan_outcome" where
  "create_operation_plan_internal_locked o' lane enforce s =
     (case st_plan s of
        Inr plan \<Rightarrow>
          if enforce \<and> pl_lane_digest plan \<noteq> lane
          then ([], Inl (IoError InvalidData (''operation plan `'' @ co_plan_id o' @
                  ''` is not owned by the requested exact lane digest'')))
          else ([], Inr \<lparr>cr_plan = plan, cr_created = False, cr_reason = ''plan already existed'',
                  cr_receipt = plan_receipt (co_now_ms o') (co_plan_id o') ActCreatePlan None
                    (pl_version plan) None True ''plan already exists'' True\<rparr>)
      | Inl _ \<Rightarrow>
          let plan = new_operation_plan o' lane;
              receipt = plan_receipt (co_now_ms o') (co_plan_id o') ActCreatePlan None
                (pl_version plan) None True ''created plan'' False
          in ([WritePlan plan,
               plan_event (co_now_ms o') (co_plan_id o') None EvCreated ''created operation plan''
                 (pl_version plan) None,
               AppendReceipt receipt],
              Inr \<lparr>cr_plan = plan, cr_created = True, cr_reason = ''created new plan'',
                   cr_receipt = receipt\<rparr>))"

definition validate_lane_digest :: "string \<Rightarrow> io_error + unit" where
  "validate_lane_digest v =
     (if length v = 64 \<and> list_all is_lower_hex_byte v then Inr ()
      else Inl (IoError InvalidInput
        ''lane digest must be a canonical lowercase SHA-256 hex string''))"

definition operation_plan_item_readback_summary :: "string list \<Rightarrow> nat \<times> string list" where
  "operation_plan_item_readback_summary ids = (length ids, ids)"

definition show_operation_plan :: "string \<Rightarrow> plan_store \<Rightarrow> io_error + OperationPlanShowReport" where
  "show_operation_plan plan_id s =
     (case st_plan s of
        Inl e \<Rightarrow> Inl e
      | Inr plan \<Rightarrow>
          let items = read_items (st_items s) in
          Inr \<lparr>sr_plan = plan, sr_items = items,
               sr_open_items = operation_plan_item_readback_summary
                 (map it_item_id (filter (\<lambda>i. \<not> is_terminal (it_status i)) items)),
               sr_blocked_items = operation_plan_item_readback_summary
                 (map it_item_id (filter (\<lambda>i. it_status i = Blocked) items)),
               sr_receipt = plan_receipt 0 plan_id ActCreatePlan None (pl_version plan) None True
                 ''read snapshot'' False\<rparr>)"

subsection \<open>Adding an item\<close>

definition new_plan_item :: "OperationPlanAddItemOptions \<Rightarrow> OperationPlanItem" where
  "new_plan_item o' =
     \<lparr>it_schema = OPERATION_PLAN_ITEM_SCHEMA, it_plan_id = ao_plan_id o',
      it_item_id = ao_item_id o', it_title = ao_title o', it_body = ao_body o',
      it_status = Todo, it_depends_on = ao_depends_on o', it_assignee = None,
      it_worker_job_id = None, it_queue_id = None,
      it_acceptance_criteria = ao_acceptance_criteria o', it_evidence = [], it_artifacts = [],
      it_risk = ao_risk o', it_delegation_idempotency_key = None, it_version = 1,
      it_created_at_ms = ao_now_ms o', it_updated_at_ms = ao_now_ms o'\<rparr>"

definition open_item_count :: "(string \<times> OperationPlanItem) list \<Rightarrow> nat" where
  "open_item_count items = length (filter (\<lambda>(k, i). \<not> is_terminal (it_status i)) items)"

definition add_operation_plan_item_locked :: "OperationPlanAddItemOptions \<Rightarrow> plan_store
    \<Rightarrow> OperationPlanItemReport plan_outcome" where
  "add_operation_plan_item_locked o' s =
     (case st_plan s of
        Inl e \<Rightarrow> ([], Inl e)
      | Inr plan \<Rightarrow>
          let items = read_item_map (st_items s) in
          if map_of items (ao_item_id o') \<noteq> None
          then ([], Inl (IoError AlreadyExists (''item '' @ ao_item_id o' @ '' already exists'')))
          else (case (case pl_max_open_items plan of
                        Some m \<Rightarrow> if m \<le> open_item_count items then Some m else None
                      | None \<Rightarrow> None) of
            Some m \<Rightarrow> ([], Inl (IoError InvalidInput
              (''maxOpenItems limit of '' @ show_nat m @ '' would be exceeded'')))
          | None \<Rightarrow>
              (case validate_dependency_ids (ao_depends_on o') items of
                 Inl e \<Rightarrow> ([], Inl e)
               | Inr _ \<Rightarrow>
                   let item = new_plan_item o';
                       plan' = touch_plan (ao_now_ms o') plan;
                       receipt = plan_receipt (ao_now_ms o') (it_plan_id item) ActAddItem
                         (Some (it_item_id item)) (pl_version plan') (Some (it_version item))
                         True ''added item'' False
                   in ([AppendItem item, WritePlan plan',
                        plan_event (ao_now_ms o') (ao_plan_id o') (Some (it_item_id item))
                          EvItemAdded (''added item '' @ ao_item_id o') (pl_version plan')
                          (Some (it_version item)),
                        AppendReceipt receipt],
                       Inr \<lparr>ir_item = item, ir_receipt = receipt\<rparr>))))"

subsection \<open>Updating an item\<close>

definition update_status :: "OperationPlanItemStatus option \<Rightarrow> OperationPlanItem
    \<Rightarrow> io_error + OperationPlanItem" where
  "update_status st current =
     (case st of
        None \<Rightarrow> Inr current
      | Some status \<Rightarrow>
          if can_transition_to (it_status current) status
          then Inr (current\<lparr>it_status := status\<rparr>)
          else Inl (IoError InvalidInput (''invalid transition '' @
            item_status_debug (it_status current) @ '' -> '' @ item_status_debug status)))"

definition update_dependencies :: "(string list \<Rightarrow> string list) \<Rightarrow> string list option
    \<Rightarrow> (string \<times> OperationPlanItem) list \<Rightarrow> OperationPlanItem \<Rightarrow> io_error + OperationPlanItem" where
  "update_dependencies ho deps items current =
     (case deps of
        None \<Rightarrow> Inr current
      | Some ds \<Rightarrow>
          (case validate_dependency_ids ds items of
             Inl e \<Rightarrow> Inl e
           | Inr _ \<Rightarrow>
               let current' = current\<lparr>it_depends_on := ds\<rparr>;
                   candidate = map_insert (it_item_id current') current' items
               in (case validate_dependency_acyclicity ho candidate of
                     Inl e \<Rightarrow> Inl e
                   | Inr _ \<Rightarrow> Inr current')))"

definition update_evidence :: "OperationPlanUpdateItemOptions \<Rightarrow> string list \<Rightarrow> string list" where
  "update_evidence o' evidence =
     (let base = (case uo_evidence o' of
            Some e \<Rightarrow> if uo_replace_evidence o' then e else evidence | None \<Rightarrow> evidence);
          to_add = (case uo_evidence o' of
            Some e \<Rightarrow> if uo_replace_evidence o' then uo_add_evidence o' else uo_add_evidence o' @ e
          | None \<Rightarrow> uo_add_evidence o')
      in if to_add = [] then base else remdups_adj (sort (base @ to_add)))"

definition update_fields :: "OperationPlanUpdateItemOptions \<Rightarrow> OperationPlanItem
    \<Rightarrow> OperationPlanItem" where
  "update_fields o' c = c\<lparr>
     it_title := case_option (it_title c) id (uo_title o'),
     it_body := case_option (it_body c) id (uo_body o'),
     it_assignee := case_option (it_assignee c) Some (uo_assignee o'),
     it_worker_job_id := case_option (it_worker_job_id c) Some (uo_worker_job_id o'),
     it_queue_id := case_option (it_queue_id c) Some (uo_queue_id o'),
     it_risk := case_option (it_risk c) Some (uo_risk o'),
     it_evidence := update_evidence o' (it_evidence c),
     it_version := sat_add (it_version c) 1,
     it_updated_at_ms := uo_now_ms o'\<rparr>"

definition check_expected_version :: "string \<Rightarrow> u64 option \<Rightarrow> u64 \<Rightarrow> io_error + unit" where
  "check_expected_version what expected found =
     (case expected of
        None \<Rightarrow> Inl (IoError InvalidInput (''--expected-version is required when '' @ what @
          '' an existing operation-plan item''))
      | Some v \<Rightarrow>
          if found \<noteq> v
          then Inl (IoError InvalidData (''version mismatch: expected '' @ show_u64 v @
            '', found '' @ show_u64 found))
          else Inr ())"

definition updated_item :: "(string list \<Rightarrow> string list) \<Rightarrow> OperationPlanUpdateItemOptions
    \<Rightarrow> (string \<times> OperationPlanItem) list \<Rightarrow> OperationPlanItem \<Rightarrow> io_error + OperationPlanItem" where
  "updated_item ho o' items current =
     (case check_expected_version ''updating'' (uo_expected_item_version o') (it_version current) of
        Inl e \<Rightarrow> Inl e
      | Inr _ \<Rightarrow>
          (case update_status (uo_status o') current of
             Inl e \<Rightarrow> Inl e
           | Inr c1 \<Rightarrow>
               (case update_dependencies ho (uo_depends_on o') items c1 of
                  Inl e \<Rightarrow> Inl e
                | Inr c2 \<Rightarrow> Inr (update_fields o' c2))))"

definition update_operation_plan_item_locked :: "(string list \<Rightarrow> string list)
    \<Rightarrow> OperationPlanUpdateItemOptions \<Rightarrow> plan_store \<Rightarrow> OperationPlanItemReport plan_outcome" where
  "update_operation_plan_item_locked ho o' s =
     (case st_plan s of
        Inl e \<Rightarrow> ([], Inl e)
      | Inr plan \<Rightarrow>
          let items = read_item_map (st_items s) in
          (case map_of items (uo_item_id o') of
             None \<Rightarrow> ([], Inl (IoError NotFound ''item not found''))
           | Some current \<Rightarrow>
               (case updated_item ho o' (map_remove (uo_item_id o') items) current of
                  Inl e \<Rightarrow> ([], Inl e)
                | Inr item \<Rightarrow>
                    let plan' = touch_plan (uo_now_ms o') plan;
                        receipt = plan_receipt (uo_now_ms o') (uo_plan_id o') ActUpdateItem
                          (Some (it_item_id item)) (pl_version plan') (Some (it_version item))
                          True ''updated item'' False
                    in ([AppendItem item, WritePlan plan',
                         plan_event (uo_now_ms o') (uo_plan_id o') (Some (it_item_id item))
                           EvItemUpdated (''updated item '' @ it_item_id item) (pl_version plan')
                           (Some (it_version item)),
                         AppendReceipt receipt],
                        Inr \<lparr>ir_item = item, ir_receipt = receipt\<rparr>))))"

subsection \<open>Delegating an item\<close>

definition delegated_item :: "OperationPlanDelegateItemOptions \<Rightarrow> OperationPlanItem
    \<Rightarrow> OperationPlanItem" where
  "delegated_item o' c = c\<lparr>
     it_version := sat_add (it_version c) 1, it_updated_at_ms := do_now_ms o',
     it_assignee := Some (do_assignee o'), it_worker_job_id := do_worker_job_id o',
     it_queue_id := do_queue_id o',
     it_delegation_idempotency_key := Some (do_idempotency_key o')\<rparr>"

definition duplicate_delegation :: "OperationPlanDelegateItemOptions \<Rightarrow> OperationPlan
    \<Rightarrow> OperationPlanItem \<Rightarrow> string \<Rightarrow> OperationPlanItemReport plan_outcome" where
  "duplicate_delegation o' plan current reason =
     ([AppendReceipt (plan_receipt (do_now_ms o') (do_plan_id o') ActDelegateItem
         (Some (do_item_id o')) (pl_version plan) (Some (it_version current)) False reason True)],
      Inl (IoError AlreadyExists reason))"

definition delegate_operation_plan_item_locked :: "(string list \<Rightarrow> string list)
    \<Rightarrow> OperationPlanDelegateItemOptions \<Rightarrow> plan_store \<Rightarrow> OperationPlanItemReport plan_outcome" where
  "delegate_operation_plan_item_locked ho o' s =
     (case st_plan s of
        Inl e \<Rightarrow> ([], Inl e)
      | Inr plan \<Rightarrow>
          let items = read_item_map (st_items s) in
          (case map_of items (do_item_id o') of
             None \<Rightarrow> ([], Inl (IoError NotFound ''item not found''))
           | Some current \<Rightarrow>
               if it_delegation_idempotency_key current = Some (do_idempotency_key o')
               then duplicate_delegation o' plan current
                 (''idempotency key already used for item '' @ it_item_id current)
               else (case find_item_id_by_idempotency_key ho (do_idempotency_key o')
                        (map_remove (do_item_id o') items) of
                 Some other \<Rightarrow> duplicate_delegation o' plan current
                   (''idempotency key reused for item '' @ other)
               | None \<Rightarrow>
                   (case check_expected_version ''delegating'' (do_expected_item_version o')
                           (it_version current) of
                      Inl e \<Rightarrow> ([], Inl e)
                    | Inr _ \<Rightarrow>
                        let item = delegated_item o' current;
                            plan' = touch_plan (do_now_ms o') plan;
                            receipt = plan_receipt (do_now_ms o') (it_plan_id item)
                              ActDelegateItem (Some (it_item_id item)) (pl_version plan')
                              (Some (it_version item)) True ''delegated item'' False
                        in ([AppendItem item,
                             plan_event (do_now_ms o') (it_plan_id item) (Some (it_item_id item))
                               EvItemDelegated (''delegated item '' @ it_item_id item @
                                 '' with key '' @ do_idempotency_key o')
                               (pl_version plan) (Some (it_version item)),
                             WritePlan plan', AppendReceipt receipt],
                            Inr \<lparr>ir_item = item, ir_receipt = receipt\<rparr>)))))"

subsection \<open>Promoting items whose dependencies are done\<close>

definition dependencies_done :: "(string \<times> OperationPlanItem) list \<Rightarrow> OperationPlanItem \<Rightarrow> bool" where
  "dependencies_done items i \<longleftrightarrow>
     list_all (\<lambda>dep. case map_of items dep of None \<Rightarrow> False | Some j \<Rightarrow> it_status j = Done)
       (it_depends_on i)"

definition promoted_item :: "int \<Rightarrow> OperationPlanItem \<Rightarrow> OperationPlanItem" where
  "promoted_item now i = i\<lparr>it_status := Ready, it_version := sat_add (it_version i) 1,
     it_updated_at_ms := now\<rparr>"

definition promote_operation_plan_items_locked :: "(string list \<Rightarrow> string list) \<Rightarrow> string \<Rightarrow> int
    \<Rightarrow> plan_store \<Rightarrow> OperationPlanPromoteReport plan_outcome" where
  "promote_operation_plan_items_locked ho plan_id now s =
     (case st_plan s of
        Inl e \<Rightarrow> ([], Inl e)
      | Inr plan \<Rightarrow>
          let items = read_item_map (st_items s);
              ready = map (promoted_item now)
                (filter (\<lambda>i. it_status i = Todo \<and> dependencies_done items i)
                  (map_values_in ho items));
              plan' = (if ready = [] then plan else touch_plan now plan);
              receipt = plan_receipt now plan_id ActPromoteDependencies None (pl_version plan')
                None True (''promoted '' @ show_nat (length ready) @ '' items'') False
          in (concat (map (\<lambda>i. [AppendItem i,
                 plan_event now plan_id (Some (it_item_id i)) EvItemPromotedToReady
                   ''dependency-ready promotion'' (pl_version plan) (Some (it_version i))]) ready)
               @ (if ready = [] then [] else [WritePlan plan']) @ [AppendReceipt receipt],
              Inr \<lparr>qr_promoted_item_ids = map it_item_id ready, qr_receipt = receipt\<rparr>))"

subsection \<open>Comments, blocking and completing\<close>

definition comment_on_operation_plan_locked :: "OperationPlanCommentOptions \<Rightarrow> plan_store
    \<Rightarrow> OperationPlanCommentReport plan_outcome" where
  "comment_on_operation_plan_locked o' s =
     (case st_plan s of
        Inl e \<Rightarrow> ([], Inl e)
      | Inr plan \<Rightarrow>
          let comment = \<lparr>cm_schema = OPERATION_PLAN_COMMENT_SCHEMA, cm_at_ms = mo_now_ms o',
                cm_plan_id = mo_plan_id o', cm_author = mo_author o', cm_body = mo_body o'\<rparr>;
              plan' = touch_plan (mo_now_ms o') plan;
              receipt = plan_receipt (mo_now_ms o') (cm_plan_id comment) ActComment None
                (pl_version plan') None True ''comment appended'' False
          in ([AppendComment comment,
               plan_event (mo_now_ms o') (mo_plan_id o') None EvCommentAdded
                 (''comment added to plan '' @ cm_plan_id comment) (pl_version plan) None,
               WritePlan plan', AppendReceipt receipt],
              Inr \<lparr>mr_comment = comment, mr_receipt = receipt\<rparr>))"

definition block_operation_plan_locked :: "string option \<Rightarrow> int \<Rightarrow> plan_store
    \<Rightarrow> OperationPlanPlanReport plan_outcome" where
  "block_operation_plan_locked reason now s =
     (case st_plan s of
        Inl e \<Rightarrow> ([], Inl e)
      | Inr plan \<Rightarrow>
          if pl_status plan = PlanCompleted
          then ([], Inl (IoError InvalidInput ''cannot block completed plan''))
          else
            let plan' = touch_plan now (plan\<lparr>pl_status := PlanBlocked\<rparr>);
                receipt = plan_receipt now (pl_plan_id plan') ActBlock None (pl_version plan')
                  None True ''plan blocked'' False
            in ([WritePlan plan',
                 plan_event now (pl_plan_id plan') None EvBlocked
                   (case_option ''plan blocked'' id reason) (pl_version plan') None,
                 AppendReceipt receipt],
                Inr \<lparr>pr_plan = plan', pr_receipt = receipt\<rparr>))"

fun completion_blocker :: "OperationPlanItem list \<Rightarrow> io_error option" where
  "completion_blocker [] = None"
| "completion_blocker (i # is) =
     (if it_status i \<in> {Todo, Ready, Running, Review}
      then Some (IoError InvalidInput (''cannot complete plan because item '' @ it_item_id i @
        '' is '' @ item_status_as_str (it_status i)))
      else if it_status i = Done \<and> it_evidence i = []
      then Some (IoError InvalidInput (''cannot complete plan because done item '' @
        it_item_id i @ '' has no evidence''))
      else completion_blocker is)"

definition complete_operation_plan_locked :: "string \<Rightarrow> string option \<Rightarrow> int \<Rightarrow> plan_store
    \<Rightarrow> OperationPlanPlanReport plan_outcome" where
  "complete_operation_plan_locked plan_id reason now s =
     (case st_plan s of
        Inl e \<Rightarrow> ([], Inl e)
      | Inr plan \<Rightarrow>
          let items = read_items (st_items s) in
          if pl_status plan = PlanCompleted
          then (let receipt = plan_receipt now plan_id ActComplete None (pl_version plan) None True
                      ''already completed'' True
                in ([AppendReceipt receipt], Inr \<lparr>pr_plan = plan, pr_receipt = receipt\<rparr>))
          else if pl_status plan = PlanCanceled
          then ([], Inl (IoError InvalidInput ''cannot complete canceled plan''))
          else (case completion_blocker items of
            Some e \<Rightarrow> ([], Inl e)
          | None \<Rightarrow>
              let plan' = touch_plan now (plan\<lparr>pl_status := PlanCompleted\<rparr>);
                  receipt = plan_receipt now plan_id ActComplete None (pl_version plan') None True
                    ''plan completed'' False
              in ([WritePlan plan',
                   plan_event now plan_id None EvCompleted
                     (case_option ''plan completed'' id reason) (pl_version plan') None,
                   AppendReceipt receipt],
                  Inr \<lparr>pr_plan = plan', pr_receipt = receipt\<rparr>)))"

section \<open>The plans of a harness home\<close>

text \<open>
  A home holds one directory per plan, named after the plan id with every character outside
  \<open>[A-Za-z0-9._-]\<close> replaced by an underscore; the bytes that continue a character of more
  than one byte are part of that character.
\<close>

definition safe_byte :: "char \<Rightarrow> string" where
  "safe_byte c =
     (if is_ascii_alphanumeric c \<or> c = CHR ''-'' \<or> c = CHR ''_'' \<or> c = CHR ''.'' then [c]
      else if 128 \<le> (of_char c :: nat) \<and> (of_char c :: nat) \<le> 191 then []
      else ''_'')"

definition safe_name :: "string \<Rightarrow> string" where
  "safe_name v = (let n = concat (map safe_byte v) in if n = [] then ''plan'' else n)"

type_synonym plan_home = "string \<Rightarrow> plan_store"

definition with_plan :: "string \<Rightarrow> (plan_store \<Rightarrow> 'r plan_outcome) \<Rightarrow> plan_home
    \<Rightarrow> plan_home \<times> (io_error + 'r)" where
  "with_plan plan_id f h =
     (let d = safe_name plan_id; (s', r) = run_writes (f (h d)) (h d) in (h(d := s'), r))"

definition create_operation_plan :: "CreateOperationPlanOptions \<Rightarrow> plan_home
    \<Rightarrow> plan_home \<times> (io_error + OperationPlanCreateReport)" where
  "create_operation_plan o' h =
     with_plan (co_plan_id o') (create_operation_plan_internal_locked o' None False) h"

definition create_operation_plan_v2 :: "CreateOperationPlanOptions \<Rightarrow> string \<Rightarrow> plan_home
    \<Rightarrow> plan_home \<times> (io_error + OperationPlanCreateReport)" where
  "create_operation_plan_v2 o' lane h =
     (case validate_lane_digest lane of
        Inl e \<Rightarrow> (h, Inl e)
      | Inr _ \<Rightarrow>
          with_plan (co_plan_id o')
            (create_operation_plan_internal_locked o' (Some lane) True) h)"

definition add_operation_plan_item :: "OperationPlanAddItemOptions \<Rightarrow> plan_home
    \<Rightarrow> plan_home \<times> (io_error + OperationPlanItemReport)" where
  "add_operation_plan_item o' h = with_plan (ao_plan_id o') (add_operation_plan_item_locked o') h"

definition update_operation_plan_item :: "(string list \<Rightarrow> string list)
    \<Rightarrow> OperationPlanUpdateItemOptions \<Rightarrow> plan_home
    \<Rightarrow> plan_home \<times> (io_error + OperationPlanItemReport)" where
  "update_operation_plan_item ho o' h =
     with_plan (uo_plan_id o') (update_operation_plan_item_locked ho o') h"

definition delegate_operation_plan_item :: "(string list \<Rightarrow> string list)
    \<Rightarrow> OperationPlanDelegateItemOptions \<Rightarrow> plan_home
    \<Rightarrow> plan_home \<times> (io_error + OperationPlanItemReport)" where
  "delegate_operation_plan_item ho o' h =
     with_plan (do_plan_id o') (delegate_operation_plan_item_locked ho o') h"

definition promote_operation_plan_items_from_dependencies :: "(string list \<Rightarrow> string list)
    \<Rightarrow> string \<Rightarrow> int \<Rightarrow> plan_home \<Rightarrow> plan_home \<times> (io_error + OperationPlanPromoteReport)" where
  "promote_operation_plan_items_from_dependencies ho plan_id now h =
     with_plan plan_id (promote_operation_plan_items_locked ho plan_id now) h"

definition comment_on_operation_plan :: "OperationPlanCommentOptions \<Rightarrow> plan_home
    \<Rightarrow> plan_home \<times> (io_error + OperationPlanCommentReport)" where
  "comment_on_operation_plan o' h =
     with_plan (mo_plan_id o') (comment_on_operation_plan_locked o') h"

definition block_operation_plan :: "string \<Rightarrow> string option \<Rightarrow> int \<Rightarrow> plan_home
    \<Rightarrow> plan_home \<times> (io_error + OperationPlanPlanReport)" where
  "block_operation_plan plan_id reason now h =
     with_plan plan_id (block_operation_plan_locked reason now) h"

definition complete_operation_plan :: "string \<Rightarrow> string option \<Rightarrow> int \<Rightarrow> plan_home
    \<Rightarrow> plan_home \<times> (io_error + OperationPlanPlanReport)" where
  "complete_operation_plan plan_id reason now h =
     with_plan plan_id (complete_operation_plan_locked plan_id reason now) h"

record OperationPlanSummary =
  su_plan_id :: string
  su_status :: OperationPlanStatus
  su_goal :: string
  su_updated_at_ms :: int
  su_version :: u64

definition plan_summary :: "OperationPlan \<Rightarrow> OperationPlanSummary" where
  "plan_summary p = \<lparr>su_plan_id = pl_plan_id p, su_status = pl_status p, su_goal = pl_goal p,
     su_updated_at_ms = pl_updated_at_ms p, su_version = pl_version p\<rparr>"

text \<open>
  \<open>entries\<close> are the directories that hold a \<open>plan.json\<close>, in the order the file system lists
  them. The sort is by falling update time, then by plan id.
\<close>

fun read_plans :: "plan_home \<Rightarrow> string list \<Rightarrow> io_error + OperationPlan list" where
  "read_plans h [] = Inr []"
| "read_plans h (d # ds) =
     (case st_plan (h d) of
        Inl e \<Rightarrow> Inl e
      | Inr p \<Rightarrow> (case read_plans h ds of Inl e \<Rightarrow> Inl e | Inr ps \<Rightarrow> Inr (p # ps)))"

definition list_operation_plans :: "plan_home \<Rightarrow> string list
    \<Rightarrow> io_error + OperationPlanSummary list" where
  "list_operation_plans h entries =
     (case read_plans h entries of
        Inl e \<Rightarrow> Inl e
      | Inr ps \<Rightarrow> Inr (sort_key (\<lambda>s. (- su_updated_at_ms s, su_plan_id s)) (map plan_summary ps)))"

end
