(* ===== verification/Operation_Plan_Graph.thy ===== *)
theory Operation_Plan_Graph
  imports Operation_Plan
begin

text \<open>
  The dependency check of operation plans against its specification: the depth-first search of
  \<open>validate_dependency_acyclicity\<close> accepts a plan exactly when the dependency relation of its
  items has no cycle, in whatever order the hash map yields the items.
\<close>

definition dep_rel :: "(string \<rightharpoonup> OperationPlanItem) \<Rightarrow> (string \<times> string) set" where
  "dep_rel m = {(a, b). \<exists>i. m a = Some i \<and> b \<in> set (it_depends_on i)}"

lemma dep_rel_iff: "(a, b) \<in> dep_rel m \<longleftrightarrow> (\<exists>i. m a = Some i \<and> b \<in> set (it_depends_on i))"
  by (simp add: dep_rel_def)

text \<open>What the search keeps true of the set it has finished with.\<close>

definition closed_acyclic :: "('a \<times> 'a) set \<Rightarrow> 'a set \<Rightarrow> bool" where
  "closed_acyclic r V \<longleftrightarrow> r `` V \<subseteq> V \<and> acyclic (Restr r V)"

lemma closed_acyclic_empty [simp]: "closed_acyclic r {}"
  by (simp add: closed_acyclic_def acyclic_def)

lemma trancl_stays:
  assumes "(a, b) \<in> s\<^sup>+" and "a \<in> V" and "\<And>x y. x \<in> V \<Longrightarrow> (x, y) \<in> s \<Longrightarrow> (x, y) \<in> t \<and> y \<in> V"
  shows "(a, b) \<in> t\<^sup>+ \<and> b \<in> V"
  using assms(1)
proof (induction rule: trancl_induct)
  case (base y)
  then show ?case using assms(2,3) by blast
next
  case (step y z)
  then show ?case using assms(3) by (blast intro: trancl_into_trancl)
qed

lemma closed_acyclic_insert:
  assumes V: "closed_acyclic r V" and "x \<notin> V" and succ: "r `` {x} \<subseteq> V"
  shows "closed_acyclic r (insert x V)"
proof -
  have into: "b \<in> V" if "(a, b) \<in> Restr r (insert x V)" for a b
    using that V succ by (auto simp: closed_acyclic_def)
  have "(a, a) \<notin> (Restr r (insert x V))\<^sup>+" for a
  proof
    assume cyc: "(a, a) \<in> (Restr r (insert x V))\<^sup>+"
    then have "a \<in> V" using into by (meson tranclD2)
    with cyc have "(a, a) \<in> (Restr r V)\<^sup>+"
      using trancl_stays [where V = V and t = "Restr r V"] into by blast
    with V show False by (auto simp: closed_acyclic_def acyclic_def)
  qed
  with V succ show ?thesis by (auto simp: closed_acyclic_def acyclic_def)
qed

lemma visit_sound:
  "visit items x vg v = Inr v' \<Longrightarrow> closed_acyclic (dep_rel (map_of items)) (set v) \<Longrightarrow>
     set v \<inter> set vg = {} \<Longrightarrow>
     closed_acyclic (dep_rel (map_of items)) (set v') \<and> set v \<subseteq> set v' \<and> x \<in> set v'
       \<and> set v' \<inter> set vg = {}"
  and visit_all_sound:
  "visit_all items ds vg v = Inr v' \<Longrightarrow> closed_acyclic (dep_rel (map_of items)) (set v) \<Longrightarrow>
     set v \<inter> set vg = {} \<Longrightarrow>
     closed_acyclic (dep_rel (map_of items)) (set v') \<and> set v \<subseteq> set v' \<and> set ds \<subseteq> set v'
       \<and> set v' \<inter> set vg = {}"
proof (induction items x vg v and items ds vg v arbitrary: v' and v' rule: visit_visit_all.induct)
  case (1 items x vg v)
  let ?r = "dep_rel (map_of items)"
  show ?case
  proof (cases "x \<in> set v")
    case True
    with "1.prems" show ?thesis by (simp add: visit.simps [of items x])
  next
    case new: False
    with "1.prems"(1) have x: "x \<notin> set vg"
      by (auto simp: visit.simps [of items x] split: if_splits)
    show ?thesis
    proof (cases "map_of items x")
      case None
      then have "?r `` {x} \<subseteq> set v" by (auto simp: dep_rel_iff)
      with new x None "1.prems" show ?thesis
        by (auto simp: visit.simps [of items x] closed_acyclic_insert)
    next
      case (Some i)
      with new x "1.prems"(1) obtain w where
        w: "visit_all items (it_depends_on i) (x # vg) v = Inr w" and v': "v' = x # w"
        by (auto simp: visit.simps [of items x] split: sum.splits)
      have IH: "closed_acyclic ?r (set w) \<and> set v \<subseteq> set w \<and> set (it_depends_on i) \<subseteq> set w
          \<and> set w \<inter> set (x # vg) = {}"
        using "1.IH" [OF new x Some w] "1.prems"(2,3) new by simp
      moreover have "?r `` {x} \<subseteq> set w"
        using IH Some by (auto simp: dep_rel_iff)
      ultimately show ?thesis
        using v' x by (auto simp: closed_acyclic_insert)
    qed
  qed
next
  case (2 items vg v)
  then show ?case by simp
next
  case (3 items d ds vg v)
  from "3.prems"(1) obtain w where w: "visit items d vg v = Inr w"
    and rest: "visit_all items ds vg w = Inr v'"
    by (auto split: sum.splits)
  from "3.IH"(1) [OF w] "3.prems"(2,3)
  have "closed_acyclic (dep_rel (map_of items)) (set w) \<and> set v \<subseteq> set w \<and> d \<in> set w
      \<and> set w \<inter> set vg = {}" by simp
  with "3.IH"(2) [OF w rest] show ?case by auto
qed

lemma visit_complete:
  "visit items x vg v = Inl e \<Longrightarrow> \<forall>y \<in> set vg. (y, x) \<in> (dep_rel (map_of items))\<^sup>+ \<Longrightarrow>
     \<not> acyclic (dep_rel (map_of items))"
  and visit_all_complete:
  "visit_all items ds vg v = Inl e \<Longrightarrow>
     \<forall>y \<in> set vg. \<forall>d \<in> set ds. (y, d) \<in> (dep_rel (map_of items))\<^sup>+ \<Longrightarrow>
     \<not> acyclic (dep_rel (map_of items))"
proof (induction items x vg v and items ds vg v rule: visit_visit_all.induct)
  case (1 items x vg v)
  let ?r = "dep_rel (map_of items)"
  show ?case
  proof (cases "x \<in> set vg")
    case True
    with "1.prems"(2) show ?thesis by (auto simp: acyclic_def)
  next
    case x: False
    with "1.prems"(1) have new: "x \<notin> set v"
      by (auto simp: visit.simps [of items x] split: if_splits)
    with x "1.prems"(1) obtain i where i: "map_of items x = Some i"
      and err: "visit_all items (it_depends_on i) (x # vg) v = Inl e"
      by (auto simp: visit.simps [of items x] split: option.splits sum.splits)
    have "\<forall>y \<in> set (x # vg). \<forall>d \<in> set (it_depends_on i). (y, d) \<in> ?r\<^sup>+"
    proof (intro ballI)
      fix y d
      assume "y \<in> set (x # vg)" and "d \<in> set (it_depends_on i)"
      moreover from this i have "(x, d) \<in> ?r" by (auto simp: dep_rel_iff)
      ultimately show "(y, d) \<in> ?r\<^sup>+"
        using "1.prems"(2) by (auto intro: trancl_into_trancl)
    qed
    then show ?thesis by (rule "1.IH" [OF new x i err])
  qed
next
  case (2 items vg v)
  then show ?case by simp
next
  case (3 items d ds vg v)
  show ?case
  proof (cases "visit items d vg v")
    case (Inl e')
    with "3.IH"(1) "3.prems" show ?thesis by auto
  next
    case (Inr w)
    with "3.IH"(2) [OF Inr] "3.prems" show ?thesis by auto
  qed
qed

lemma visit_keys_sound:
  assumes "visit_keys items ks v = Inr ()" and "closed_acyclic (dep_rel (map_of items)) (set v)"
  shows "\<exists>V. closed_acyclic (dep_rel (map_of items)) V \<and> set v \<subseteq> V \<and> set ks \<subseteq> V"
  using assms
proof (induction ks arbitrary: v)
  case Nil
  then show ?case by auto
next
  case (Cons k ks)
  then obtain w where w: "visit items k [] v = Inr w" and rest: "visit_keys items ks w = Inr ()"
    by (auto split: sum.splits)
  from visit_sound [OF w Cons.prems(2)]
  have "closed_acyclic (dep_rel (map_of items)) (set w) \<and> set v \<subseteq> set w \<and> k \<in> set w" by simp
  with Cons.IH [OF rest] show ?case by auto
qed

lemma visit_keys_complete: "visit_keys items ks v = Inl e \<Longrightarrow> \<not> acyclic (dep_rel (map_of items))"
proof (induction ks arbitrary: v)
  case (Cons k ks)
  show ?case
  proof (cases "visit items k [] v")
    case (Inl e')
    then show ?thesis using visit_complete [OF Inl] by simp
  next
    case (Inr w)
    with Cons show ?thesis by auto
  qed
qed simp

lemma validate_dependency_acyclicity_iff:
  assumes "set (ho (map_keys items)) = set (map_keys items)"
  shows "validate_dependency_acyclicity ho items = Inr () \<longleftrightarrow> acyclic (dep_rel (map_of items))"
proof
  assume "validate_dependency_acyclicity ho items = Inr ()"
  then obtain V where V: "closed_acyclic (dep_rel (map_of items)) V"
    and "set (ho (map_keys items)) \<subseteq> V"
    using visit_keys_sound [of items "ho (map_keys items)" "[]"]
    by (auto simp: validate_dependency_acyclicity_def)
  then have "dom (map_of items) \<subseteq> V" using assms by (simp add: set_map_keys)
  then have "a \<in> V" if "(a, b) \<in> dep_rel (map_of items)" for a b
    using that by (auto simp: dep_rel_iff)
  with V have "Restr (dep_rel (map_of items)) V = dep_rel (map_of items)"
    by (fastforce simp: closed_acyclic_def)
  with V show "acyclic (dep_rel (map_of items))" by (simp add: closed_acyclic_def)
next
  assume acyc: "acyclic (dep_rel (map_of items))"
  show "validate_dependency_acyclicity ho items = Inr ()"
  proof (cases "validate_dependency_acyclicity ho items")
    case (Inl e)
    then have "visit_keys items (ho (map_keys items)) [] = Inl e"
      by (simp add: validate_dependency_acyclicity_def)
    with acyc show ?thesis by (auto dest: visit_keys_complete)
  qed auto
qed

lemma validate_dependency_ids_from_Inr_iff:
  "validate_dependency_ids_from all_deps deps items = Inr () \<longleftrightarrow>
     (\<forall>d \<in> set deps. d \<noteq> [] \<and> map_of items d \<noteq> None
        \<and> length (filter (\<lambda>x. x = d) all_deps) \<le> 1)"
  by (induction deps) (auto simp: not_less)

lemma distinct_iff_count_le1: "distinct xs \<longleftrightarrow> (\<forall>x \<in> set xs. length (filter (\<lambda>y. y = x) xs) \<le> 1)"
proof (induction xs)
  case (Cons a xs)
  have "a \<in> set xs \<longleftrightarrow> filter (\<lambda>y. y = a) xs \<noteq> []"
    by (auto simp: filter_empty_conv)
  then have "length (filter (\<lambda>y. y = a) (a # xs)) \<le> 1 \<longleftrightarrow> a \<notin> set xs"
    by auto
  with Cons show ?case by auto
qed simp

lemma validate_dependency_ids_Inr_iff:
  "validate_dependency_ids deps items = Inr () \<longleftrightarrow>
     distinct deps \<and> [] \<notin> set deps \<and> set deps \<subseteq> dom (map_of items)"
  by (auto simp: validate_dependency_ids_def validate_dependency_ids_from_Inr_iff
      distinct_iff_count_le1)

end
