(* ===== verification/Operation_Plan_Inv.thy ===== *)
theory Operation_Plan_Inv
  imports Operation_Plan_Graph "HOL-Library.Multiset"
begin

text \<open>
  The items of a plan as a map, and the invariant of a plan directory.

  \<open>items_of s\<close> is the abstract state of the items ledger: for every item id the last row
  written for it. The ledger is an interpretation of \<open>append_ledger\<close>, which gives the law that
  appending a row updates the map at its id and nowhere else. \<open>store_inv\<close> is what every
  operation keeps, also when it is cut off after any of its writes.
\<close>

named_theorems plan_defs "definitions of the operations on a plan"

section \<open>The items ledger as a map\<close>

definition item_rows :: "plan_store \<Rightarrow> OperationPlanItem list" where
  "item_rows s = List.map_filter (\<lambda>x. x) (st_items s)"

abbreviation append_item :: "OperationPlanItem \<Rightarrow> plan_store \<Rightarrow> plan_store" where
  "append_item i \<equiv> apply_write (AppendItem i)"

interpretation plan_items: append_ledger item_rows append_item "\<lambda>_. True" "\<lambda>_. True"
  by unfold_locales (simp_all add: item_rows_def List.map_filter_def)

declare apply_write.simps [simp del]

lemma st_plan_apply_write [simp]:
  "st_plan (apply_write (WritePlan p) s) = Inr p"
  "st_plan (apply_write (AppendItem i) s) = st_plan s"
  "st_plan (apply_write (AppendEvent e) s) = st_plan s"
  "st_plan (apply_write (AppendComment c) s) = st_plan s"
  "st_plan (apply_write (AppendReceipt r) s) = st_plan s"
  by (simp_all add: apply_write.simps)

definition items_of :: "plan_store \<Rightarrow> string \<rightharpoonup> OperationPlanItem" where
  "items_of s k = find (\<lambda>i. it_item_id i = k) (rev (item_rows s))"

lemma items_of_append_item [simp]:
  "items_of (append_item i s) = (items_of s)(it_item_id i \<mapsto> i)"
  by (auto simp: items_of_def fun_eq_iff plan_items.latest_append)

lemma items_of_other_writes [simp]:
  "items_of (apply_write (WritePlan p) s) = items_of s"
  "items_of (apply_write (AppendEvent e) s) = items_of s"
  "items_of (apply_write (AppendComment c) s) = items_of s"
  "items_of (apply_write (AppendReceipt r) s) = items_of s"
  by (auto simp: items_of_def item_rows_def fun_eq_iff apply_write.simps)

lemma items_of_id: "items_of s k = Some i \<Longrightarrow> it_item_id i = k"
  by (auto simp: items_of_def find_Some_iff)

lemma items_of_torn [simp]: "items_of (s\<lparr>st_items := st_items s @ [None]\<rparr>) = items_of s"
  by (auto simp: items_of_def item_rows_def List.map_filter_def fun_eq_iff)

lemma items_of_empty_store [simp]: "items_of empty_store = Map.empty"
  by (auto simp: items_of_def item_rows_def empty_store_def List.map_filter_def)

lemma finite_dom_items_of: "finite (dom (items_of s))"
proof -
  have "dom (items_of s) \<subseteq> it_item_id ` set (item_rows s)"
    by (auto simp: items_of_def find_Some_iff in_set_conv_nth) (metis image_eqI length_rev nth_mem set_rev)
  then show ?thesis by (rule finite_subset) simp
qed

subsection \<open>The readers compute this map\<close>

lemma collect_items_snoc:
  "collect_items acc (ls @ [x]) =
     (case x of None \<Rightarrow> collect_items acc ls | Some i \<Rightarrow> upsert_item i (collect_items acc ls))"
  by (induction acc ls rule: collect_items.induct) (auto split: option.splits)

lemma distinct_upsert_item: "distinct (map it_item_id items) \<Longrightarrow>
    distinct (map it_item_id (upsert_item i items))"
  by (auto simp: upsert_item_def distinct_map_filter)

lemma distinct_collect_items: "distinct (map it_item_id (collect_items [] ls))"
  by (induction ls rule: rev_induct)
    (auto simp: collect_items_snoc distinct_upsert_item simp del: distinct_map split: option.splits)

abbreviation by_id :: "OperationPlanItem list \<Rightarrow> (string \<times> OperationPlanItem) list" where
  "by_id \<equiv> map (\<lambda>i. (it_item_id i, i))"

lemma map_of_by_id_upsert:
  "map_of (by_id (upsert_item i items)) = (map_of (by_id items))(it_item_id i \<mapsto> i)"
proof -
  have "map_of (by_id (filter (\<lambda>j. it_item_id j \<noteq> it_item_id i) items))
      = (map_of (by_id items))(it_item_id i := None)"
    by (induction items) (auto simp: fun_eq_iff)
  then show ?thesis by (auto simp: upsert_item_def map_add_def fun_eq_iff split: option.splits)
qed

lemma map_of_collect_items:
  "map_of (by_id (collect_items [] ls)) k
     = find (\<lambda>i. it_item_id i = k) (rev (List.map_filter (\<lambda>x. x) ls))"
proof (induction ls rule: rev_induct)
  case Nil
  then show ?case by (simp add: List.map_filter_def)
next
  case (snoc x ls)
  then show ?case
    by (cases x) (simp_all add: collect_items_snoc map_of_by_id_upsert List.map_filter_def)
qed

lemma set_read_items: "set (read_items ls) = set (collect_items [] ls)"
  by (simp add: read_items_def)

lemma distinct_read_items: "distinct (map it_item_id (read_items ls))"
proof -
  have "mset (map it_item_id (read_items ls)) = mset (map it_item_id (collect_items [] ls))"
    by (simp add: read_items_def)
  then show ?thesis using distinct_collect_items mset_eq_imp_distinct_iff by blast
qed

lemma distinct_keys_read_item_map: "distinct (map_keys (read_item_map ls))"
  using distinct_read_items by (simp add: map_keys_def read_item_map_def comp_def)

lemma map_of_read_item_map: "map_of (read_item_map (st_items s)) = items_of s"
proof -
  have "map_of (by_id (read_items (st_items s))) = map_of (by_id (collect_items [] (st_items s)))"
    using distinct_read_items distinct_collect_items
    by (subst map_of_inject_set) (simp_all add: comp_def set_read_items)
  then show ?thesis
    by (auto simp: read_item_map_def map_of_collect_items items_of_def item_rows_def fun_eq_iff)
qed

lemma set_read_items_items_of: "set (read_items (st_items s)) = ran (items_of s)"
proof -
  have "ran (map_of (read_item_map (st_items s))) = snd ` set (read_item_map (st_items s))"
    using distinct_keys_read_item_map by (simp add: ran_distinct map_keys_def)
  then show ?thesis by (simp add: map_of_read_item_map) (simp add: read_item_map_def image_image)
qed

lemma set_map_values_in_items:
  "hash_order ho \<Longrightarrow> set (map_values_in ho (read_item_map (st_items s))) = ran (items_of s)"
  by (simp add: set_map_values_in distinct_keys_read_item_map map_of_read_item_map)

definition open_ids :: "(string \<rightharpoonup> OperationPlanItem) \<Rightarrow> string set" where
  "open_ids m = {k. \<exists>i. m k = Some i \<and> \<not> is_terminal (it_status i)}"

lemma open_ids_subset: "open_ids m \<subseteq> dom m"
  by (auto simp: open_ids_def)

lemma finite_open_ids: "finite (open_ids (items_of s))"
  using finite_subset [OF open_ids_subset finite_dom_items_of] .

lemma open_item_count_eq: "open_item_count (read_item_map (st_items s)) = card (open_ids (items_of s))"
proof -
  let ?P = "\<lambda>(k :: string, i). \<not> is_terminal (it_status i)"
  let ?xs = "filter ?P (read_item_map (st_items s))"
  have d: "distinct (map fst ?xs)"
    using distinct_keys_read_item_map by (auto simp: map_keys_def distinct_map_filter)
  have "set (map fst ?xs) = open_ids (items_of s)"
  proof -
    have "(k, i) \<in> set (read_item_map (st_items s)) \<longleftrightarrow> items_of s k = Some i" for k i
      using distinct_keys_read_item_map map_of_read_item_map
      by (metis map_keys_def map_of_eq_Some_iff)
    then show ?thesis by (force simp: open_ids_def)
  qed
  then show ?thesis using distinct_card [OF d] by (simp add: open_item_count_def)
qed

section \<open>The invariant\<close>

definition keys_unique :: "(string \<rightharpoonup> OperationPlanItem) \<Rightarrow> bool" where
  "keys_unique m \<longleftrightarrow> (\<forall>a b i j. m a = Some i \<longrightarrow> m b = Some j \<longrightarrow>
     it_delegation_idempotency_key i \<noteq> None \<longrightarrow>
     it_delegation_idempotency_key i = it_delegation_idempotency_key j \<longrightarrow> a = b)"

definition items_ok :: "(string \<rightharpoonup> OperationPlanItem) \<Rightarrow> bool" where
  "items_ok m \<longleftrightarrow>
     (\<forall>k i. m k = Some i \<longrightarrow> set (it_depends_on i) \<subseteq> dom m) \<and> acyclic (dep_rel m) \<and> keys_unique m"

definition limit_ok :: "OperationPlan \<Rightarrow> (string \<rightharpoonup> OperationPlanItem) \<Rightarrow> bool" where
  "limit_ok p m \<longleftrightarrow> (\<forall>n. pl_max_open_items p = Some n \<longrightarrow> card (open_ids m) \<le> n)"

definition store_inv :: "plan_store \<Rightarrow> bool" where
  "store_inv s \<longleftrightarrow> items_ok (items_of s) \<and>
     (case st_plan s of Inl _ \<Rightarrow> items_of s = Map.empty | Inr p \<Rightarrow> limit_ok p (items_of s))"

lemma items_ok_empty [simp]: "items_ok Map.empty"
  by (auto simp: items_ok_def keys_unique_def dep_rel_def acyclic_def)

lemma open_ids_empty [simp]: "open_ids Map.empty = {}"
  by (simp add: open_ids_def)

lemma store_inv_empty: "store_inv empty_store"
  by (simp add: store_inv_def split: sum.splits) (simp add: empty_store_def)

lemma items_ok_new:
  assumes m: "items_ok m" and new: "m k = None" and deps: "set (it_depends_on i) \<subseteq> dom m"
    and key: "it_delegation_idempotency_key i = None"
  shows "items_ok (m(k \<mapsto> i))"
proof -
  have no_in: "(a, k) \<notin> dep_rel m" for a
    using m new by (auto simp: items_ok_def dep_rel_iff)
  have rel: "dep_rel (m(k \<mapsto> i)) = dep_rel m \<union> {k} \<times> set (it_depends_on i)"
    using new by (auto simp: dep_rel_def split: if_splits)
  have "k \<notin> set (it_depends_on i)" using deps new by auto
  then have no_in': "(a, k) \<notin> dep_rel (m(k \<mapsto> i))" for a
    using no_in by (auto simp: rel)
  have "(a, a) \<notin> (dep_rel (m(k \<mapsto> i)))\<^sup>+" for a
  proof
    assume cyc: "(a, a) \<in> (dep_rel (m(k \<mapsto> i)))\<^sup>+"
    then have "a \<noteq> k" using no_in' by (meson tranclD2)
    with cyc have "(a, a) \<in> (dep_rel m)\<^sup>+"
      using trancl_stays [where V = "- {k}" and t = "dep_rel m" and s = "dep_rel (m(k \<mapsto> i))"]
        no_in' by (auto simp: rel)
    with m show False by (auto simp: items_ok_def acyclic_def)
  qed
  then have "acyclic (dep_rel (m(k \<mapsto> i)))" by (simp add: acyclic_def)
  moreover have "set (it_depends_on j) \<subseteq> insert k (dom m)" if "(m(k \<mapsto> i)) a = Some j" for a j
    using that m deps unfolding items_ok_def by (metis fun_upd_apply option.inject subset_insertI2)
  moreover have "keys_unique (m(k \<mapsto> i))"
    using m key unfolding items_ok_def keys_unique_def by (metis fun_upd_apply option.inject)
  ultimately show ?thesis by (simp add: items_ok_def)
qed

lemma keys_unique_upd:
  assumes "keys_unique m" and "m k = Some i"
    and "it_delegation_idempotency_key i' = it_delegation_idempotency_key i
      \<or> (\<forall>a j. m a = Some j \<longrightarrow> it_delegation_idempotency_key j \<noteq> it_delegation_idempotency_key i')"
  shows "keys_unique (m(k \<mapsto> i'))"
  using assms unfolding keys_unique_def by (metis fun_upd_apply option.inject)

lemma items_ok_upd:
  assumes m: "items_ok m" and k: "m k = Some i" and deps: "set (it_depends_on i') \<subseteq> dom m"
    and acyc: "acyclic (dep_rel (m(k \<mapsto> i')))" and keys: "keys_unique (m(k \<mapsto> i'))"
  shows "items_ok (m(k \<mapsto> i'))"
proof -
  have "dom (m(k \<mapsto> i')) = dom m" using k by auto
  with assms show ?thesis by (auto simp: items_ok_def simp del: dom_fun_upd split: if_splits)
qed

lemma dep_rel_upd_same:
  "m k = Some i \<Longrightarrow> it_depends_on i' = it_depends_on i \<Longrightarrow> dep_rel (m(k \<mapsto> i')) = dep_rel m"
  by (auto simp: dep_rel_def split: if_splits)

lemma items_ok_upd_same_deps:
  assumes m: "items_ok m" and k: "m k = Some i" and deps: "it_depends_on i' = it_depends_on i"
    and keys: "keys_unique (m(k \<mapsto> i'))"
  shows "items_ok (m(k \<mapsto> i'))"
proof (rule items_ok_upd [OF m k])
  show "set (it_depends_on i') \<subseteq> dom m"
    using m k by (simp add: deps) (simp add: items_ok_def)
  show "acyclic (dep_rel (m(k \<mapsto> i')))"
    using m dep_rel_upd_same [where m = m, OF k deps] by (simp add: items_ok_def)
qed (rule keys)

lemma open_ids_upd_subset:
  assumes "m k = Some i" and "\<not> is_terminal (it_status i') \<Longrightarrow> \<not> is_terminal (it_status i)"
  shows "open_ids (m(k \<mapsto> i')) \<subseteq> open_ids m"
  using assms by (auto simp: open_ids_def)

lemma limit_ok_upd:
  assumes "limit_ok p m" and "finite (dom m)" and "m k = Some i"
    and "\<not> is_terminal (it_status i') \<Longrightarrow> \<not> is_terminal (it_status i)"
  shows "limit_ok p (m(k \<mapsto> i'))"
proof -
  have "finite (open_ids m)"
    using assms(2) open_ids_subset finite_subset by blast
  then have "card (open_ids (m(k \<mapsto> i'))) \<le> card (open_ids m)"
    using assms(3,4) by (intro card_mono open_ids_upd_subset) auto
  with assms(1) show ?thesis by (auto simp: limit_ok_def)
qed

lemma limit_ok_new:
  assumes "\<And>n. pl_max_open_items p = Some n \<Longrightarrow> card (open_ids m) < n" and "finite (dom m)"
  shows "limit_ok p (m(k \<mapsto> i))"
proof -
  have "open_ids (m(k \<mapsto> i)) \<subseteq> insert k (open_ids m)"
    by (auto simp: open_ids_def)
  moreover have fin: "finite (open_ids m)"
    using assms(2) open_ids_subset finite_subset by blast
  ultimately have "card (open_ids (m(k \<mapsto> i))) \<le> card (insert k (open_ids m))"
    by (intro card_mono) auto
  also have "\<dots> \<le> Suc (card (open_ids m))" using fin by (simp add: card_insert_le_m1 card_insert_if)
  finally show ?thesis using assms(1) by (fastforce simp: limit_ok_def)
qed

lemma transition_open: "can_transition_to a b \<Longrightarrow> \<not> is_terminal b \<Longrightarrow> \<not> is_terminal a"
  by (cases a; cases b) auto

section \<open>Writes that keep the invariant, one after the other\<close>

fun safe_writes :: "plan_write list \<Rightarrow> plan_store \<Rightarrow> bool" where
  "safe_writes [] s = True"
| "safe_writes (w # ws) s \<longleftrightarrow> store_inv (apply_write w s) \<and> safe_writes ws (apply_write w s)"

lemma safe_writes_take:
  "store_inv s \<Longrightarrow> safe_writes ws s \<Longrightarrow> store_inv (fold apply_write (take n ws) s)"
proof (induction ws arbitrary: s n)
  case (Cons w ws)
  then show ?case by (cases n) auto
qed simp

lemma store_inv_log [simp]:
  "store_inv (apply_write (AppendEvent e) s) = store_inv s"
  "store_inv (apply_write (AppendComment c) s) = store_inv s"
  "store_inv (apply_write (AppendReceipt r) s) = store_inv s"
  by (simp_all add: store_inv_def split: sum.splits)

lemma store_inv_plan_event [simp]:
  "store_inv (apply_write (plan_event a b c d e f g) s) = store_inv s"
  "items_of (apply_write (plan_event a b c d e f g) s) = items_of s"
  "st_plan (apply_write (plan_event a b c d e f g) s) = st_plan s"
  by (simp_all add: plan_event_def)

lemma limit_ok_touch [simp]: "limit_ok (touch_plan now p) m = limit_ok p m"
  by (simp add: limit_ok_def touch_plan_def)

lemma limit_ok_status [simp]: "limit_ok (p\<lparr>pl_status := st\<rparr>) m = limit_ok p m"
  by (simp add: limit_ok_def)

text \<open>Rewriting \<open>plan.json\<close> with a plan that has the same limit keeps the invariant.\<close>

lemma store_inv_write_plan:
  "store_inv s \<Longrightarrow> st_plan s = Inr p \<Longrightarrow> pl_max_open_items p' = pl_max_open_items p \<Longrightarrow>
   store_inv (apply_write (WritePlan p') s)"
  by (auto simp: store_inv_def limit_ok_def)

lemma touch_plan_limit [simp]: "pl_max_open_items (touch_plan now p) = pl_max_open_items p"
  by (simp add: touch_plan_def)

end
