(* ===== verification/Operation_Plan_Props.thy ===== *)
theory Operation_Plan_Props
  imports Operation_Plan_Inv
begin

text \<open>
  What the operations on a plan guarantee: the invariant in every reachable store, crashes
  included; optimistic versioning; idempotent delegation; promotion; completion.

  \<open>journaled_ops\<close> is the interface between a set of operations and whatever drives them: an
  operation is the list of writes it makes, and every prefix of that list keeps the invariant.
  The client lemma lifts this to any sequence of operations, each cut off anywhere.
\<close>

section \<open>What a successful operation writes\<close>

lemma add_writes_cases:
  obtains (rejected) e where "add_operation_plan_item_locked o' s = ([], Inl e)"
  | (added) p e r where "st_plan s = Inr p" and "items_of s (ao_item_id o') = None"
    and "\<And>n. pl_max_open_items p = Some n \<Longrightarrow> card (open_ids (items_of s)) < n"
    and "distinct (ao_depends_on o')" and "[] \<notin> set (ao_depends_on o')"
    and "set (ao_depends_on o') \<subseteq> dom (items_of s)"
    and "add_operation_plan_item_locked o' s =
      ([AppendItem (new_plan_item o'), WritePlan (touch_plan (ao_now_ms o') p), AppendEvent e,
        AppendReceipt r], Inr \<lparr>ir_item = new_plan_item o', ir_receipt = r\<rparr>)"
proof (cases "snd (add_operation_plan_item_locked o' s)")
  case (Inl e)
  then have "add_operation_plan_item_locked o' s = ([], Inl e)"
    by (auto simp: add_operation_plan_item_locked_def Let_def split: sum.splits option.splits
        if_splits)
  then show ?thesis by (rule rejected)
next
  case (Inr rep)
  then obtain p where p: "st_plan s = Inr p" and new: "items_of s (ao_item_id o') = None"
    and lim: "\<And>n. pl_max_open_items p = Some n \<Longrightarrow> card (open_ids (items_of s)) < n"
    and deps: "validate_dependency_ids (ao_depends_on o') (read_item_map (st_items s)) = Inr ()"
    by (auto simp: add_operation_plan_item_locked_def Let_def map_of_read_item_map
        open_item_count_eq not_le split: sum.splits option.splits if_splits)
  have limN: "(case pl_max_open_items p of
      Some m \<Rightarrow> if m \<le> open_item_count (read_item_map (st_items s)) then Some m else None
    | None \<Rightarrow> None) = None"
    using lim by (auto simp: open_item_count_eq not_le split: option.splits)
  have "\<exists>e r. add_operation_plan_item_locked o' s =
      ([AppendItem (new_plan_item o'), WritePlan (touch_plan (ao_now_ms o') p), AppendEvent e,
        AppendReceipt r], Inr \<lparr>ir_item = new_plan_item o', ir_receipt = r\<rparr>)"
    by (simp add: add_operation_plan_item_locked_def p new limN deps Let_def plan_event_def
        map_of_read_item_map)
  with deps show ?thesis
    by (auto simp: validate_dependency_ids_Inr_iff map_of_read_item_map intro: added [OF p new lim])
qed

lemma update_status_Inr:
  "update_status st c = Inr c1 \<Longrightarrow> c1 = c\<lparr>it_status := case_option (it_status c) id st\<rparr>
     \<and> (it_status c1 = it_status c \<or> can_transition_to (it_status c) (it_status c1))"
  by (auto simp: update_status_def split: option.splits if_splits)

lemma update_dependencies_Inr:
  "update_dependencies ho ds items c = Inr c2 \<Longrightarrow> c2 = c\<lparr>it_depends_on := case_option (it_depends_on c) id ds\<rparr>
     \<and> (ds \<noteq> None \<longrightarrow> set (it_depends_on c2) \<subseteq> dom (map_of items)
          \<and> validate_dependency_acyclicity ho (map_insert (it_item_id c) c2 items) = Inr ())"
  by (auto simp: update_dependencies_def validate_dependency_ids_Inr_iff Let_def
      split: option.splits sum.splits)

lemma updated_item_elim:
  assumes "updated_item ho o' items c = Inr i"
  obtains c1 c2 where "uo_expected_item_version o' = Some (it_version c)"
    and "update_status (uo_status o') c = Inr c1"
    and "update_dependencies ho (uo_depends_on o') items c1 = Inr c2" and "i = update_fields o' c2"
  using assms
  by (auto simp: updated_item_def check_expected_version_def
      split: sum.splits option.splits if_splits)

lemma update_fields_frame [simp]:
  "it_item_id (update_fields o' c) = it_item_id c"
  "it_status (update_fields o' c) = it_status c"
  "it_depends_on (update_fields o' c) = it_depends_on c"
  "it_created_at_ms (update_fields o' c) = it_created_at_ms c"
  "it_delegation_idempotency_key (update_fields o' c) = it_delegation_idempotency_key c"
  "it_version (update_fields o' c) = sat_add (it_version c) 1"
  by (simp_all add: update_fields_def)

lemma updated_item_Inr:
  assumes "updated_item ho o' items c = Inr i"
  shows "uo_expected_item_version o' = Some (it_version c) \<and> it_item_id i = it_item_id c
    \<and> it_version i = sat_add (it_version c) 1
    \<and> it_delegation_idempotency_key i = it_delegation_idempotency_key c
    \<and> (it_status i = it_status c \<or> can_transition_to (it_status c) (it_status i))"
proof -
  from updated_item_elim [OF assms] obtain c1 c2 where
    v: "uo_expected_item_version o' = Some (it_version c)"
    and c1: "update_status (uo_status o') c = Inr c1"
    and c2: "update_dependencies ho (uo_depends_on o') items c1 = Inr c2"
    and i: "i = update_fields o' c2" .
  from c1 have c1': "c1 = c\<lparr>it_status := case_option (it_status c) id (uo_status o')\<rparr>"
    and st: "it_status c1 = it_status c \<or> can_transition_to (it_status c) (it_status c1)"
    by (blast dest: update_status_Inr)+
  from c2 have c2': "c2 = c1\<lparr>it_depends_on := case_option (it_depends_on c1) id (uo_depends_on o')\<rparr>"
    by (blast dest: update_dependencies_Inr)
  have "it_status c2 = it_status c1" by (simp add: c2')
  with st have "it_status c2 = it_status c \<or> can_transition_to (it_status c) (it_status c2)"
    by simp
  moreover have "it_item_id c2 = it_item_id c" "it_version c2 = it_version c"
    "it_delegation_idempotency_key c2 = it_delegation_idempotency_key c"
    by (simp_all add: c2' c1')
  ultimately show ?thesis using v by (simp add: i)
qed

lemma updated_item_deps:
  assumes "updated_item ho o' items c = Inr i"
  shows "it_depends_on i = it_depends_on c
    \<or> (set (it_depends_on i) \<subseteq> dom (map_of items)
        \<and> (\<exists>j. it_depends_on j = it_depends_on i
            \<and> validate_dependency_acyclicity ho (map_insert (it_item_id c) j items) = Inr ()))"
proof -
  from updated_item_elim [OF assms] obtain c1 c2 where
    c1: "update_status (uo_status o') c = Inr c1"
    and c2: "update_dependencies ho (uo_depends_on o') items c1 = Inr c2"
    and i: "i = update_fields o' c2" .
  from c1 have c1': "c1 = c\<lparr>it_status := case_option (it_status c) id (uo_status o')\<rparr>"
    by (blast dest: update_status_Inr)
  show ?thesis
  proof (cases "uo_depends_on o'")
    case None
    with c2 have "c2 = c1" by (simp add: update_dependencies_def)
    then show ?thesis by (simp add: i c1')
  next
    case (Some ds)
    then have "set (it_depends_on c2) \<subseteq> dom (map_of items)"
      "validate_dependency_acyclicity ho (map_insert (it_item_id c1) c2 items) = Inr ()"
      using update_dependencies_Inr [OF c2] by auto
    then show ?thesis by (auto simp: i c1')
  qed
qed

lemma update_writes_cases:
  obtains (rejected) e where "update_operation_plan_item_locked ho o' s = ([], Inl e)"
  | (updated) p c i e r where "st_plan s = Inr p" and "items_of s (uo_item_id o') = Some c"
    and "updated_item ho o' (map_remove (uo_item_id o') (read_item_map (st_items s))) c = Inr i"
    and "update_operation_plan_item_locked ho o' s =
      ([AppendItem i, WritePlan (touch_plan (uo_now_ms o') p), AppendEvent e, AppendReceipt r],
       Inr \<lparr>ir_item = i, ir_receipt = r\<rparr>)"
proof (cases "\<exists>p c i. st_plan s = Inr p \<and> items_of s (uo_item_id o') = Some c
    \<and> updated_item ho o' (map_remove (uo_item_id o') (read_item_map (st_items s))) c = Inr i")
  case True
  then show ?thesis
    by (elim exE conjE, intro updated)
      (simp_all add: update_operation_plan_item_locked_def map_of_read_item_map Let_def plan_event_def)
next
  case False
  then have "\<exists>e. update_operation_plan_item_locked ho o' s = ([], Inl e)"
    by (auto simp: update_operation_plan_item_locked_def map_of_read_item_map Let_def
        split: sum.splits option.splits)
  then show ?thesis by (auto intro: rejected)
qed

lemma delegate_writes_cases:
  assumes "hash_order ho"
  obtains (rejected) e where "delegate_operation_plan_item_locked ho o' s = ([], Inl e)"
  | (duplicate) r e where "delegate_operation_plan_item_locked ho o' s =
      ([AppendReceipt r], Inl (IoError AlreadyExists e))" and "\<not> rc_success r" and "rc_duplicated r"
  | (delegated) p c e r where "st_plan s = Inr p" and "items_of s (do_item_id o') = Some c"
    and "do_expected_item_version o' = Some (it_version c)"
    and "\<forall>k i. items_of s k = Some i \<longrightarrow> it_delegation_idempotency_key i \<noteq> Some (do_idempotency_key o')"
    and "delegate_operation_plan_item_locked ho o' s =
      ([AppendItem (delegated_item o' c), AppendEvent e, WritePlan (touch_plan (do_now_ms o') p),
        AppendReceipt r], Inr \<lparr>ir_item = delegated_item o' c, ir_receipt = r\<rparr>)"
proof (cases "st_plan s")
  case (Inl e)
  then show ?thesis by (intro rejected) (simp add: delegate_operation_plan_item_locked_def)
next
  case p: (Inr p)
  let ?m = "read_item_map (st_items s)" and ?k = "do_item_id o'" and ?key = "do_idempotency_key o'"
  let ?others = "map_remove ?k ?m"
  show ?thesis
  proof (cases "items_of s ?k")
    case None
    with p show ?thesis
      by (intro rejected) (simp add: delegate_operation_plan_item_locked_def Let_def map_of_read_item_map)
  next
    case c: (Some c)
    show ?thesis
    proof (cases "it_delegation_idempotency_key c = Some ?key
        \<or> find_item_id_by_idempotency_key ho ?key ?others \<noteq> None")
      case True
      with p c have "\<exists>r e. delegate_operation_plan_item_locked ho o' s =
          ([AppendReceipt r], Inl (IoError AlreadyExists e)) \<and> \<not> rc_success r \<and> rc_duplicated r"
        by (auto simp: delegate_operation_plan_item_locked_def Let_def map_of_read_item_map
            duplicate_delegation_def plan_receipt_def)
      then show ?thesis by (auto intro: duplicate)
    next
      case fresh: False
      then have "\<forall>i \<in> set (map_values_in ho ?others). it_delegation_idempotency_key i \<noteq> Some ?key"
        by (auto simp: find_item_id_by_idempotency_key_def find_None_iff)
      moreover have "set (map_values_in ho ?others) = ran ((items_of s)(?k := None))"
        using assms distinct_map_remove [OF distinct_keys_read_item_map]
        by (simp add: set_map_values_in map_of_read_item_map)
      ultimately have keys: "\<forall>k i. items_of s k = Some i \<longrightarrow>
          it_delegation_idempotency_key i \<noteq> Some ?key"
        using fresh c unfolding ran_def by (metis (mono_tags, lifting) fun_upd_apply mem_Collect_eq option.inject)
      show ?thesis
      proof (cases "do_expected_item_version o' = Some (it_version c)")
        case True
        have "\<exists>e r. delegate_operation_plan_item_locked ho o' s =
            ([AppendItem (delegated_item o' c), AppendEvent e, WritePlan (touch_plan (do_now_ms o') p),
              AppendReceipt r], Inr \<lparr>ir_item = delegated_item o' c, ir_receipt = r\<rparr>)"
          using fresh True
          by (simp add: delegate_operation_plan_item_locked_def Let_def map_of_read_item_map p c
              check_expected_version_def plan_event_def)
        with keys True show ?thesis by (auto intro: delegated [OF p c])
      next
        case False
        then have "\<exists>e. check_expected_version ''delegating'' (do_expected_item_version o') (it_version c) = Inl e"
          by (auto simp: check_expected_version_def split: option.splits)
        with fresh show ?thesis
          by (auto simp: delegate_operation_plan_item_locked_def Let_def map_of_read_item_map p c
              intro: rejected)
      qed
    qed
  qed
qed

subsection \<open>Promotion\<close>

definition ready_items :: "(string list \<Rightarrow> string list) \<Rightarrow> int \<Rightarrow> plan_store
    \<Rightarrow> OperationPlanItem list" where
  "ready_items ho now s = map (promoted_item now)
     (filter (\<lambda>i. it_status i = Todo \<and> dependencies_done (read_item_map (st_items s)) i)
       (map_values_in ho (read_item_map (st_items s))))"

definition promotable :: "plan_store \<Rightarrow> OperationPlanItem \<Rightarrow> bool" where
  "promotable s i \<longleftrightarrow> it_status i = Todo \<and>
     (\<forall>d \<in> set (it_depends_on i). \<exists>j. items_of s d = Some j \<and> it_status j = Done)"

lemma map_id_map_filter:
  "\<forall>k \<in> set ks. \<exists>i. f k = Some i \<and> it_item_id i = k \<Longrightarrow>
   map it_item_id (List.map_filter f ks) = ks"
  by (induction ks) (auto simp: List.map_filter_simps)

lemma map_values_in_ids:
  fixes s :: plan_store
  assumes "hash_order ho"
  shows "map it_item_id (map_values_in ho (read_item_map (st_items s)))
    = ho (map_keys (read_item_map (st_items s)))"
proof -
  have "set (ho (map_keys (read_item_map (st_items s)))) = dom (items_of s)"
    using assms distinct_keys_read_item_map
    by (simp add: hash_order_def set_map_keys map_of_read_item_map)
  then show ?thesis
    unfolding map_values_in_def map_of_read_item_map
    by (intro map_id_map_filter) (auto dest: items_of_id)
qed

lemma it_item_id_promoted [simp]: "it_item_id (promoted_item now i) = it_item_id i"
  by (simp add: promoted_item_def)

lemma distinct_ready_items:
  fixes s :: plan_store
  assumes "hash_order ho"
  shows "distinct (map it_item_id (ready_items ho now s))"
proof -
  have "distinct (map it_item_id (map_values_in ho (read_item_map (st_items s))))"
    using assms distinct_keys_read_item_map [of "st_items s"]
    by (simp add: hash_order_def map_values_in_ids [OF assms])
  then show ?thesis by (simp add: ready_items_def comp_def distinct_map_filter)
qed

lemma dependencies_done_iff:
  "dependencies_done (read_item_map (st_items s)) i \<longleftrightarrow>
     (\<forall>d \<in> set (it_depends_on i). \<exists>j. items_of s d = Some j \<and> it_status j = Done)"
  by (auto simp: dependencies_done_def map_of_read_item_map list_all_iff split: option.splits)

lemma set_ready_items:
  assumes "hash_order ho"
  shows "set (ready_items ho now s)
    = {promoted_item now i | i. items_of s (it_item_id i) = Some i \<and> promotable s i}"
proof -
  have "i \<in> ran (items_of s) \<longleftrightarrow> items_of s (it_item_id i) = Some i" for i
    by (auto simp: ran_def dest: items_of_id)
  then show ?thesis
    using set_map_values_in_items [OF assms]
    by (auto simp: ready_items_def promotable_def dependencies_done_iff)
qed

lemma promote_writes:
  assumes "st_plan s = Inr p"
  obtains ev p' r where "\<forall>i. \<exists>e. ev i = AppendEvent e"
    and "p' = p \<or> p' = touch_plan now p"
    and "promote_operation_plan_items_locked ho plan_id now s =
      (concat (map (\<lambda>i. [AppendItem i, ev i]) (ready_items ho now s))
        @ (if ready_items ho now s = [] then [] else [WritePlan p']) @ [AppendReceipt r],
       Inr \<lparr>qr_promoted_item_ids = map it_item_id (ready_items ho now s), qr_receipt = r\<rparr>)"
  using assms
  by (intro that [of "\<lambda>i. plan_event now plan_id (Some (it_item_id i)) EvItemPromotedToReady
        ''dependency-ready promotion'' (pl_version p) (Some (it_version i))"])
    (auto simp: promote_operation_plan_items_locked_def Let_def ready_items_def plan_event_def)

section \<open>Every operation keeps the invariant, at every write\<close>

lemma safe_writes_append:
  "safe_writes (a @ b) s \<longleftrightarrow> safe_writes a s \<and> safe_writes b (fold apply_write a s)"
  by (induction a arbitrary: s) auto

lemma store_inv_append_item:
  assumes s: "store_inv s" and c: "items_of s (it_item_id i) = Some c"
    and deps: "it_depends_on i = it_depends_on c"
    and keys: "it_delegation_idempotency_key i = it_delegation_idempotency_key c
      \<or> (\<forall>a j. items_of s a = Some j \<longrightarrow> it_delegation_idempotency_key j \<noteq> it_delegation_idempotency_key i)"
    and st: "\<not> is_terminal (it_status i) \<Longrightarrow> \<not> is_terminal (it_status c)"
  shows "store_inv (append_item i s)"
proof -
  from s obtain p where p: "st_plan s = Inr p" and ok: "items_ok (items_of s)"
    and lim: "limit_ok p (items_of s)"
    using c by (auto simp: store_inv_def split: sum.splits)
  have "keys_unique ((items_of s)(it_item_id i \<mapsto> i))"
    using ok c keys by (intro keys_unique_upd) (auto simp: items_ok_def)
  then have "items_ok ((items_of s)(it_item_id i \<mapsto> i))"
    by (rule items_ok_upd_same_deps [OF ok c deps])
  moreover have "limit_ok p ((items_of s)(it_item_id i \<mapsto> i))"
    by (rule limit_ok_upd [OF lim finite_dom_items_of c st])
  ultimately show ?thesis by (simp add: store_inv_def p)
qed

lemma safe_writes_promote:
  assumes "store_inv s" and "distinct (map it_item_id is)" and ev: "\<forall>i. \<exists>e. ev i = AppendEvent e"
    and "\<forall>i \<in> set is. \<exists>c. items_of s (it_item_id c) = Some c \<and> it_status c = Todo
      \<and> i = promoted_item now c"
  shows "safe_writes (concat (map (\<lambda>i. [AppendItem i, ev i]) is)) s
    \<and> st_plan (fold apply_write (concat (map (\<lambda>i. [AppendItem i, ev i]) is)) s) = st_plan s"
  using assms(1,2,4)
proof (induction "is" arbitrary: s)
  case (Cons i "is")
  from Cons.prems(3) obtain c where c: "items_of s (it_item_id c) = Some c" "it_status c = Todo"
    and i: "i = promoted_item now c" by auto
  from ev obtain e where e: "ev i = AppendEvent e" by blast
  let ?s = "apply_write (ev i) (append_item i s)"
  have inv1: "store_inv (append_item i s)"
    using Cons.prems(1) c by (intro store_inv_append_item) (auto simp: i promoted_item_def)
  have "\<forall>j \<in> set is. \<exists>c. items_of ?s (it_item_id c) = Some c \<and> it_status c = Todo
      \<and> j = promoted_item now c"
  proof
    fix j
    assume j: "j \<in> set is"
    with Cons.prems(3) obtain d where d: "items_of s (it_item_id d) = Some d" "it_status d = Todo"
      "j = promoted_item now d" by auto
    moreover have "it_item_id i \<noteq> it_item_id d"
      using Cons.prems(2) j d(3) by (metis distinct.simps(2) image_eqI it_item_id_promoted list.set_map list.simps(9))
    ultimately show "\<exists>c. items_of ?s (it_item_id c) = Some c \<and> it_status c = Todo
        \<and> j = promoted_item now c"
      by (intro exI [of _ d]) (simp add: e)
  qed
  then have "safe_writes (concat (map (\<lambda>i. [AppendItem i, ev i]) is)) ?s
      \<and> st_plan (fold apply_write (concat (map (\<lambda>i. [AppendItem i, ev i]) is)) ?s) = st_plan ?s"
    using Cons.IH [of ?s] Cons.prems(2) inv1 by (simp add: e)
  then show ?case by (simp add: e inv1)
qed simp

lemma safe_promote:
  assumes "store_inv s" and "hash_order ho"
  shows "safe_writes (fst (promote_operation_plan_items_locked ho plan_id now s)) s"
proof (cases "st_plan s")
  case (Inl e)
  then show ?thesis by (simp add: promote_operation_plan_items_locked_def)
next
  case (Inr p)
  let ?is = "ready_items ho now s"
  obtain ev p' r where ev: "\<forall>i. \<exists>e. ev i = AppendEvent e"
    and p': "p' = p \<or> p' = touch_plan now p"
    and w: "promote_operation_plan_items_locked ho plan_id now s =
      (concat (map (\<lambda>i. [AppendItem i, ev i]) ?is) @ (if ?is = [] then [] else [WritePlan p'])
        @ [AppendReceipt r],
       Inr \<lparr>qr_promoted_item_ids = map it_item_id ?is, qr_receipt = r\<rparr>)"
    by (rule promote_writes [OF Inr, where now = now and ho = ho and plan_id = plan_id])
  have "\<forall>i \<in> set ?is. \<exists>c. items_of s (it_item_id c) = Some c \<and> it_status c = Todo
      \<and> i = promoted_item now c"
    by (auto simp: set_ready_items [OF assms(2)] promotable_def)
  note body = safe_writes_promote [OF assms(1) distinct_ready_items [OF assms(2)] ev this]
  let ?t = "fold apply_write (concat (map (\<lambda>i. [AppendItem i, ev i]) ?is)) s"
  have "store_inv ?t"
    using safe_writes_take [OF assms(1), of _ "length (concat (map (\<lambda>i. [AppendItem i, ev i]) ?is))"] body
    by (metis order_refl take_all)
  moreover have "st_plan ?t = Inr p" using body Inr by simp
  moreover have "pl_max_open_items p' = pl_max_open_items p" using p' by auto
  ultimately have "store_inv (apply_write (WritePlan p') ?t)"
    by (intro store_inv_write_plan) auto
  then show ?thesis
    using body \<open>store_inv ?t\<close> by (auto simp: w safe_writes_append)
qed

lemma safe_add:
  assumes "store_inv s"
  shows "safe_writes (fst (add_operation_plan_item_locked o' s)) s"
proof (cases rule: add_writes_cases [of o' s])
  case (added p e r)
  have "store_inv (append_item (new_plan_item o') s)"
    using assms added items_ok_new [of "items_of s" "ao_item_id o'" "new_plan_item o'"]
      limit_ok_new [OF added(3) finite_dom_items_of]
    by (simp add: store_inv_def new_plan_item_def)
  moreover from this have "store_inv (apply_write (WritePlan (touch_plan (ao_now_ms o') p))
      (append_item (new_plan_item o') s))"
    by (rule store_inv_write_plan) (simp_all add: added)
  ultimately show ?thesis by (simp add: added)
qed simp

lemma updated_item_inv:
  assumes s: "store_inv s" and ho: "hash_order ho" and c: "items_of s k = Some c"
    and upd: "updated_item ho o' (map_remove k (read_item_map (st_items s))) c = Inr i"
  shows "store_inv (append_item i s)"
proof -
  let ?m = "items_of s" and ?others = "map_remove k (read_item_map (st_items s))"
  note frame = updated_item_Inr [OF upd]
  have k: "it_item_id c = k" using c by (rule items_of_id)
  have open_imp: "\<not> is_terminal (it_status i) \<Longrightarrow> \<not> is_terminal (it_status c)"
    using frame transition_open by metis
  from updated_item_deps [OF upd] show ?thesis
  proof
    assume "it_depends_on i = it_depends_on c"
    then show ?thesis using frame c k open_imp by (intro store_inv_append_item [OF s]) auto
  next
    assume "set (it_depends_on i) \<subseteq> dom (map_of ?others)
      \<and> (\<exists>j. it_depends_on j = it_depends_on i
          \<and> validate_dependency_acyclicity ho (map_insert (it_item_id c) j ?others) = Inr ())"
    then obtain j where deps: "set (it_depends_on i) \<subseteq> dom ?m"
      and j: "it_depends_on j = it_depends_on i"
      and acyc: "validate_dependency_acyclicity ho (map_insert k j ?others) = Inr ()"
      by (auto simp: map_of_read_item_map k)
    have "set (ho (map_keys (map_insert k j ?others))) = set (map_keys (map_insert k j ?others))"
      using ho distinct_map_insert [OF distinct_map_remove [OF distinct_keys_read_item_map]]
      by (simp add: hash_order_def)
    with acyc have "acyclic (dep_rel (?m(k \<mapsto> j)))"
      by (simp add: validate_dependency_acyclicity_iff map_of_read_item_map)
    then have "acyclic (dep_rel (?m(k \<mapsto> i)))"
      using dep_rel_upd_same [of "?m(k \<mapsto> j)" k j i] j by simp
    moreover have "keys_unique (?m(k \<mapsto> i))"
      using s c frame by (intro keys_unique_upd [of _ _ c]) (auto simp: store_inv_def items_ok_def)
    ultimately have "items_ok (?m(k \<mapsto> i))"
      using s c deps by (intro items_ok_upd) (auto simp: store_inv_def)
    moreover obtain p where "st_plan s = Inr p" "limit_ok p ?m"
      using s c by (auto simp: store_inv_def split: sum.splits)
    ultimately show ?thesis
      using limit_ok_upd [OF _ finite_dom_items_of c open_imp] frame k by (simp add: store_inv_def)
  qed
qed

lemma safe_update:
  assumes "store_inv s" and "hash_order ho"
  shows "safe_writes (fst (update_operation_plan_item_locked ho o' s)) s"
proof (cases rule: update_writes_cases [of ho o' s])
  case (updated p c i e r)
  have "store_inv (append_item i s)"
    by (rule updated_item_inv [OF assms updated(2,3)])
  moreover from this have "store_inv (apply_write (WritePlan (touch_plan (uo_now_ms o') p))
      (append_item i s))"
    by (rule store_inv_write_plan) (simp_all add: updated)
  ultimately show ?thesis by (simp add: updated)
qed simp

lemma safe_delegate:
  assumes "store_inv s" and "hash_order ho"
  shows "safe_writes (fst (delegate_operation_plan_item_locked ho o' s)) s"
  using assms(2)
proof (cases rule: delegate_writes_cases [where o' = o' and s = s])
  case (delegated p c e r)
  have "store_inv (append_item (delegated_item o' c) s)"
    using delegated items_of_id [OF delegated(2)]
    by (intro store_inv_append_item [OF assms(1), of _ c]) (auto simp: delegated_item_def)
  moreover from this have "store_inv (apply_write (WritePlan (touch_plan (do_now_ms o') p))
      (apply_write (AppendEvent e) (append_item (delegated_item o' c) s)))"
    by (intro store_inv_write_plan) (simp_all add: delegated)
  ultimately show ?thesis by (simp add: delegated)
qed (simp_all add: assms)

lemma safe_create:
  "store_inv s \<Longrightarrow> safe_writes (fst (create_operation_plan_internal_locked o' lane enforce s)) s"
  by (auto simp: create_operation_plan_internal_locked_def Let_def store_inv_def limit_ok_def
      plan_event_def split: sum.splits)

lemma safe_comment: "store_inv s \<Longrightarrow> safe_writes (fst (comment_on_operation_plan_locked o' s)) s"
  by (auto simp: comment_on_operation_plan_locked_def Let_def store_inv_write_plan
      split: sum.splits)

lemma safe_block: "store_inv s \<Longrightarrow> safe_writes (fst (block_operation_plan_locked reason now s)) s"
  by (auto simp: block_operation_plan_locked_def Let_def store_inv_write_plan split: sum.splits)

lemma safe_complete:
  "store_inv s \<Longrightarrow> safe_writes (fst (complete_operation_plan_locked plan_id reason now s)) s"
  by (auto simp: complete_operation_plan_locked_def Let_def store_inv_write_plan
      split: sum.splits option.splits)

section \<open>Sequences of operations, interrupted anywhere\<close>

locale journaled_ops =
  fixes apply1 :: "'w \<Rightarrow> 's \<Rightarrow> 's"
    and writes :: "'o \<Rightarrow> 's \<Rightarrow> 'w list"
    and inv :: "'s \<Rightarrow> bool"
    and okop :: "'o \<Rightarrow> bool"
  assumes inv_prefix: "inv s \<Longrightarrow> okop a \<Longrightarrow> inv (fold apply1 (take n (writes a s)) s)"
begin

lemma inv_whole: "inv s \<Longrightarrow> okop a \<Longrightarrow> inv (fold apply1 (writes a s) s)"
  using inv_prefix [of s a "length (writes a s)"] by simp

lemma inv_run:
  assumes "inv s" and "\<forall>(a, n) \<in> set ops. okop a"
  shows "inv (fold (\<lambda>(a, n) s. fold apply1 (take n (writes a s)) s) ops s)"
  using assms
proof (induction ops arbitrary: s)
  case (Cons x ops)
  obtain a n where x: "x = (a, n)" by (cases x)
  with Cons.prems have "inv (fold apply1 (take n (writes a s)) s)"
    by (intro inv_prefix) auto
  with Cons x show ?case by simp
qed simp

end

datatype plan_op =
    OpCreate CreateOperationPlanOptions "string option" bool
  | OpAdd OperationPlanAddItemOptions
  | OpUpdate "string list \<Rightarrow> string list" OperationPlanUpdateItemOptions
  | OpDelegate "string list \<Rightarrow> string list" OperationPlanDelegateItemOptions
  | OpPromote "string list \<Rightarrow> string list" string int
  | OpComment OperationPlanCommentOptions
  | OpBlock "string option" int
  | OpComplete string "string option" int

fun plan_op_writes :: "plan_op \<Rightarrow> plan_store \<Rightarrow> plan_write list" where
  "plan_op_writes (OpCreate o' lane enforce) s =
     fst (create_operation_plan_internal_locked o' lane enforce s)"
| "plan_op_writes (OpAdd o') s = fst (add_operation_plan_item_locked o' s)"
| "plan_op_writes (OpUpdate ho o') s = fst (update_operation_plan_item_locked ho o' s)"
| "plan_op_writes (OpDelegate ho o') s = fst (delegate_operation_plan_item_locked ho o' s)"
| "plan_op_writes (OpPromote ho p now) s = fst (promote_operation_plan_items_locked ho p now s)"
| "plan_op_writes (OpComment o') s = fst (comment_on_operation_plan_locked o' s)"
| "plan_op_writes (OpBlock reason now) s = fst (block_operation_plan_locked reason now s)"
| "plan_op_writes (OpComplete p reason now) s = fst (complete_operation_plan_locked p reason now s)"

fun plan_op_ok :: "plan_op \<Rightarrow> bool" where
  "plan_op_ok (OpUpdate ho _) = hash_order ho"
| "plan_op_ok (OpDelegate ho _) = hash_order ho"
| "plan_op_ok (OpPromote ho _ _) = hash_order ho"
| "plan_op_ok _ = True"

lemma safe_plan_op: "store_inv s \<Longrightarrow> plan_op_ok a \<Longrightarrow> safe_writes (plan_op_writes a s) s"
  by (cases a) (simp_all add: safe_create safe_add safe_update safe_delegate safe_promote
      safe_comment safe_block safe_complete)

interpretation plan_ops: journaled_ops apply_write plan_op_writes store_inv plan_op_ok
  by unfold_locales (simp add: safe_writes_take safe_plan_op)

text \<open>
  The stores a plan directory can be in: the empty one, whatever an operation leaves behind
  after its first \<open>n\<close> writes, and a store whose items file ends in a line cut off by a crash.
\<close>

inductive plan_reachable :: "plan_store \<Rightarrow> bool" where
  start: "plan_reachable empty_store"
| operation: "plan_reachable s \<Longrightarrow> plan_op_ok a \<Longrightarrow>
    plan_reachable (apply_writes (take n (plan_op_writes a s)) s)"
| torn: "plan_reachable s \<Longrightarrow> plan_reachable (s\<lparr>st_items := st_items s @ [None]\<rparr>)"

lemma plan_reachable_inv: "plan_reachable s \<Longrightarrow> store_inv s"
proof (induction rule: plan_reachable.induct)
  case start
  show ?case by (rule store_inv_empty)
next
  case (operation s a n)
  then show ?case by (simp add: apply_writes_def plan_ops.inv_prefix)
next
  case (torn s)
  then show ?case by (auto simp: store_inv_def split: sum.splits)
qed

end
