(* ===== verification/Operation_Plan_Claims.thy ===== *)
theory Operation_Plan_Claims
  imports Operation_Plan_Props
begin

text \<open>
  The properties of operation plans, each over the operations of \<open>Operation_Plan\<close>, with a
  concrete plan (\<open>demo_store\<close>) on which their witnesses run.
\<close>

section \<open>Items appended by a list of writes\<close>

fun appended :: "plan_write list \<Rightarrow> OperationPlanItem list" where
  "appended [] = []"
| "appended (AppendItem i # ws) = i # appended ws"
| "appended (_ # ws) = appended ws"

lemma appended_append [simp]: "appended (a @ b) = appended a @ appended b"
  by (induction a rule: appended.induct) auto

lemma appended_take_subset: "set (appended (take n ws)) \<subseteq> set (appended ws)"
  by (metis Un_upper1 append_take_drop_id appended_append set_append)

lemma appended_log [simp]: "appended (plan_event a b c d e f g # ws) = appended ws"
  by (simp add: plan_event_def)

lemma appended_promote:
  "\<forall>i. \<exists>e. ev i = AppendEvent e \<Longrightarrow>
   appended (concat (map (\<lambda>i. [AppendItem i, ev i]) is)) = is"
proof (induction "is")
  case (Cons i "is")
  then obtain e where "ev i = AppendEvent e" by blast
  with Cons show ?case by simp
qed simp

lemma items_of_fold:
  "items_of (fold apply_write ws s) k =
     (case find (\<lambda>i. it_item_id i = k) (rev (appended ws)) of
        Some i \<Rightarrow> Some i | None \<Rightarrow> items_of s k)"
proof (induction ws arbitrary: s rule: appended.induct)
  case (2 i ws)
  then show ?case
    by (cases "find (\<lambda>i. it_item_id i = k) (rev (appended ws))")
      (auto simp: find_append)
qed (simp_all split: option.splits)

lemma items_of_fold_cases:
  "items_of (fold apply_write ws s) k = items_of s k
    \<or> (\<exists>i \<in> set (appended ws). it_item_id i = k \<and> items_of (fold apply_write ws s) k = Some i)"
  by (auto simp: items_of_fold split: option.splits dest: find_SomeD)

lemma st_plan_fold_cases:
  "st_plan (fold apply_write ws s) = st_plan s
    \<or> (\<exists>p. WritePlan p \<in> set ws \<and> st_plan (fold apply_write ws s) = Inr p)"
proof (induction ws arbitrary: s)
  case (Cons w ws)
  from Cons.IH [of "apply_write w s"] show ?case by (cases w) auto
qed simp

section \<open>One step of an item\<close>

definition item_step :: "OperationPlanItem \<Rightarrow> OperationPlanItem \<Rightarrow> bool" where
  "item_step i i' \<longleftrightarrow> it_item_id i' = it_item_id i \<and> it_version i' = sat_add (it_version i) 1
     \<and> it_created_at_ms i' = it_created_at_ms i
     \<and> (it_status i' = it_status i \<or> can_transition_to (it_status i) (it_status i'))"

lemma updated_item_created:
  "updated_item ho o' items c = Inr i \<Longrightarrow> it_created_at_ms i = it_created_at_ms c"
  by (elim updated_item_elim) (auto dest!: update_status_Inr update_dependencies_Inr)

lemma plan_op_appended:
  assumes "plan_op_ok a" and "i' \<in> set (appended (plan_op_writes a s))"
  shows "items_of s (it_item_id i') = None
    \<or> (\<exists>i. items_of s (it_item_id i') = Some i \<and> item_step i i')"
proof (cases a)
  case (OpCreate o' lane enforce)
  with assms(2) show ?thesis
    by (auto simp: create_operation_plan_internal_locked_def Let_def plan_event_def
        split: sum.splits if_splits)
next
  case (OpAdd o')
  show ?thesis
  proof (cases rule: add_writes_cases [of o' s])
    case (added p e r)
    with assms(2) OpAdd show ?thesis by (auto simp: new_plan_item_def)
  qed (use assms(2) OpAdd in simp)
next
  case (OpUpdate ho o')
  show ?thesis
  proof (cases rule: update_writes_cases [of ho o' s])
    case (updated p c i e r)
    with assms(2) OpUpdate have "i' = i" by simp
    with updated items_of_id [OF updated(2)] updated_item_Inr [OF updated(3)]
      updated_item_created [OF updated(3)]
    show ?thesis by (auto simp: item_step_def)
  qed (use assms(2) OpUpdate in simp)
next
  case (OpDelegate ho o')
  with assms(1) have "hash_order ho" by simp
  then show ?thesis
  proof (cases rule: delegate_writes_cases [where o' = o' and s = s])
    case (delegated p c e r)
    with assms(2) OpDelegate items_of_id [OF delegated(2)]
    show ?thesis by (auto simp: item_step_def delegated_item_def)
  qed (use assms(2) OpDelegate in simp_all)
next
  case (OpPromote ho p now)
  with assms(1) have ho: "hash_order ho" by simp
  show ?thesis
  proof (cases "st_plan s")
    case (Inl e)
    with assms(2) OpPromote show ?thesis by (simp add: promote_operation_plan_items_locked_def)
  next
    case (Inr q)
    obtain ev p' r where ev: "\<forall>i. \<exists>e. ev i = AppendEvent e"
      and "promote_operation_plan_items_locked ho p now s =
        (concat (map (\<lambda>i. [AppendItem i, ev i]) (ready_items ho now s))
          @ (if ready_items ho now s = [] then [] else [WritePlan p']) @ [AppendReceipt r],
         Inr \<lparr>qr_promoted_item_ids = map it_item_id (ready_items ho now s), qr_receipt = r\<rparr>)"
      by (rule promote_writes [OF Inr, where now = now and ho = ho and plan_id = p])
    with assms(2) OpPromote have "i' \<in> set (ready_items ho now s)"
      by (auto simp: appended_promote [OF ev] split: if_splits)
    then show ?thesis
      by (auto simp: set_ready_items [OF ho] promotable_def item_step_def promoted_item_def)
  qed
next
  case (OpComment o')
  with assms(2) show ?thesis
    by (auto simp: comment_on_operation_plan_locked_def Let_def split: sum.splits)
next
  case (OpBlock reason now)
  with assms(2) show ?thesis
    by (auto simp: block_operation_plan_locked_def Let_def split: sum.splits if_splits)
next
  case (OpComplete p reason now)
  with assms(2) show ?thesis
    by (auto simp: complete_operation_plan_locked_def Let_def
        split: sum.splits if_splits option.splits)
qed

section \<open>A concrete plan\<close>

definition demo_create :: CreateOperationPlanOptions where
  "demo_create = \<lparr>co_plan_id = ''p'', co_origin_queue_id = None, co_session_key = ''s'',
     co_agent_id = ''a'', co_goal = ''g'', co_acceptance_criteria = None, co_constraints = None,
     co_max_open_items = Some 2, co_max_fanout = None, co_now_ms = 1\<rparr>"

definition demo_add :: "string \<Rightarrow> string list \<Rightarrow> OperationPlanAddItemOptions" where
  "demo_add k deps = \<lparr>ao_plan_id = ''p'', ao_item_id = k, ao_title = ''t'', ao_body = [],
     ao_depends_on = deps, ao_acceptance_criteria = None, ao_risk = None, ao_now_ms = 2\<rparr>"

definition demo_update :: "string \<Rightarrow> u64 \<Rightarrow> OperationPlanItemStatus option \<Rightarrow> string list option
    \<Rightarrow> OperationPlanUpdateItemOptions" where
  "demo_update k v st deps = \<lparr>uo_plan_id = ''p'', uo_item_id = k, uo_expected_item_version = Some v,
     uo_status = st, uo_title = None, uo_body = None, uo_depends_on = deps, uo_assignee = None,
     uo_worker_job_id = None, uo_queue_id = None, uo_risk = None, uo_evidence = Some [''e''],
     uo_replace_evidence = False, uo_add_evidence = [], uo_now_ms = 3\<rparr>"

definition demo_delegate :: "string \<Rightarrow> u64 \<Rightarrow> string \<Rightarrow> OperationPlanDelegateItemOptions" where
  "demo_delegate k v key = \<lparr>do_plan_id = ''p'', do_item_id = k, do_expected_item_version = Some v,
     do_idempotency_key = key, do_assignee = ''w'', do_worker_job_id = None, do_queue_id = None,
     do_now_ms = 4\<rparr>"

definition demo_run :: "plan_op list \<Rightarrow> plan_store" where
  "demo_run as = fold (\<lambda>a s. apply_writes (plan_op_writes a s) s) as empty_store"

definition demo_ops :: "plan_op list" where
  "demo_ops = [OpCreate demo_create None False, OpAdd (demo_add ''a'' []), OpAdd (demo_add ''b'' [''a''])]"

definition demo_store :: plan_store where
  "demo_store = demo_run demo_ops"

lemma demo_run_snoc: "demo_run (as @ [a]) = apply_writes (plan_op_writes a (demo_run as)) (demo_run as)"
  by (simp add: demo_run_def)

lemma demo_run_reachable: "list_all plan_op_ok as \<Longrightarrow> plan_reachable (demo_run as)"
proof (induction as rule: rev_induct)
  case Nil
  show ?case by (simp add: demo_run_def plan_reachable.start)
next
  case (snoc a as)
  then have "plan_reachable (apply_writes (take (length (plan_op_writes a (demo_run as)))
      (plan_op_writes a (demo_run as))) (demo_run as))"
    by (intro plan_reachable.operation) simp_all
  then show ?case by (simp add: demo_run_snoc)
qed

lemma demo_store_reachable: "plan_reachable demo_store"
  unfolding demo_store_def by (rule demo_run_reachable) (simp add: demo_ops_def)

lemma add_accepted:
  assumes p: "st_plan s = Inr p" and new: "items_of s (ao_item_id o') = None"
    and lim: "\<And>n. pl_max_open_items p = Some n \<Longrightarrow> card (open_ids (items_of s)) < n"
    and deps: "distinct (ao_depends_on o')" "[] \<notin> set (ao_depends_on o')"
      "set (ao_depends_on o') \<subseteq> dom (items_of s)"
  shows "\<exists>e r. add_operation_plan_item_locked o' s =
    ([AppendItem (new_plan_item o'), WritePlan (touch_plan (ao_now_ms o') p), AppendEvent e,
      AppendReceipt r], Inr \<lparr>ir_item = new_plan_item o', ir_receipt = r\<rparr>)"
proof -
  have limN: "(case pl_max_open_items p of
      Some m \<Rightarrow> if m \<le> open_item_count (read_item_map (st_items s)) then Some m else None
    | None \<Rightarrow> None) = None"
    using lim by (auto simp: open_item_count_eq not_le split: option.splits)
  have "validate_dependency_ids (ao_depends_on o') (read_item_map (st_items s)) = Inr ()"
    using deps by (simp add: validate_dependency_ids_Inr_iff map_of_read_item_map)
  then show ?thesis
    by (simp add: add_operation_plan_item_locked_def p new limN Let_def plan_event_def
        map_of_read_item_map)
qed

lemma demo_create_run:
  "items_of (demo_run [OpCreate demo_create None False]) = Map.empty"
  "st_plan (demo_run [OpCreate demo_create None False]) = Inr (new_operation_plan demo_create None)"
  by (simp_all add: demo_run_def create_operation_plan_internal_locked_def Let_def apply_writes_def
      empty_store_def plan_event_def apply_write.simps items_of_def [abs_def] item_rows_def
      List.map_filter_def)

lemma demo_add_run:
  assumes "st_plan (demo_run as) = Inr p" and "items_of (demo_run as) k = None"
    and "\<And>n. pl_max_open_items p = Some n \<Longrightarrow> card (open_ids (items_of (demo_run as))) < n"
    and "distinct deps" and "[] \<notin> set deps" and "set deps \<subseteq> dom (items_of (demo_run as))"
  shows "items_of (demo_run (as @ [OpAdd (demo_add k deps)]))
      = (items_of (demo_run as))(k \<mapsto> new_plan_item (demo_add k deps))"
    and "st_plan (demo_run (as @ [OpAdd (demo_add k deps)])) = Inr (touch_plan 2 p)"
  using add_accepted [of "demo_run as" p "demo_add k deps"] assms
  by (auto simp: demo_run_snoc apply_writes_def demo_add_def new_plan_item_def)

definition demo_item :: "string \<Rightarrow> string list \<Rightarrow> OperationPlanItem" where
  "demo_item k deps = new_plan_item (demo_add k deps)"

lemma demo_store_state:
  "items_of demo_store = [''a'' \<mapsto> demo_item ''a'' [], ''b'' \<mapsto> demo_item ''b'' [''a'']]
   \<and> st_plan demo_store = Inr (touch_plan 2 (touch_plan 2 (new_operation_plan demo_create None)))"
proof -
  let ?p = "new_operation_plan demo_create None"
  have lim: "pl_max_open_items ?p = Some 2" by (simp add: new_operation_plan_def demo_create_def)
  let ?c = "[OpCreate demo_create None False]"
  have a: "items_of (demo_run (?c @ [OpAdd (demo_add ''a'' [])])) = [''a'' \<mapsto> demo_item ''a'' []]"
    "st_plan (demo_run (?c @ [OpAdd (demo_add ''a'' [])])) = Inr (touch_plan 2 ?p)"
    using demo_add_run [of ?c ?p "''a''" "[]"] lim by (simp_all add: demo_create_run demo_item_def)
  have "open_ids (items_of (demo_run (?c @ [OpAdd (demo_add ''a'' [])]))) \<subseteq> {''a''}"
    by (simp only: a) (auto simp: open_ids_def split: if_splits)
  then have "card (open_ids (items_of (demo_run (?c @ [OpAdd (demo_add ''a'' [])])))) \<le> card {''a''}"
    by (intro card_mono) auto
  then show ?thesis
    using demo_add_run [of "?c @ [OpAdd (demo_add ''a'' [])]" "touch_plan 2 ?p" "''b''" "[''a'']"] lim
    unfolding demo_store_def demo_ops_def by (simp add: a demo_item_def del: append.simps) (simp add: a)
qed

section \<open>Properties\<close>

text \<open>
  C2. In every store a plan directory can reach through its operations, each possibly cut off
  by a crash between two writes or in the middle of an item line: the dependency relation of
  the items has no cycle, every dependency names an item of the plan, no two items hold the
  same delegation key, and the number of open items does not exceed the plan's \<open>maxOpenItems\<close>.
\<close>

theorem plan_reachable_invariant:
  assumes "plan_reachable s"
  shows "acyclic (dep_rel (items_of s))
    \<and> (\<forall>k i. items_of s k = Some i \<longrightarrow> set (it_depends_on i) \<subseteq> dom (items_of s))
    \<and> keys_unique (items_of s)
    \<and> (\<forall>p n. st_plan s = Inr p \<longrightarrow> pl_max_open_items p = Some n \<longrightarrow>
         open_item_count (read_item_map (st_items s)) \<le> n)"
  using plan_reachable_inv [OF assms]
  by (auto simp: store_inv_def items_ok_def limit_ok_def open_item_count_eq)

theorem plan_reachable_invariant_witness:
  "plan_reachable demo_store \<and> acyclic (dep_rel (items_of demo_store))
   \<and> (''b'', ''a'') \<in> dep_rel (items_of demo_store)"
  using plan_reachable_invariant [OF demo_store_reachable] demo_store_reachable demo_store_state
  by (auto simp: dep_rel_iff demo_item_def new_plan_item_def demo_add_def)

text \<open>
  C25. The dependency check accepts a set of items exactly when their dependency relation is
  acyclic, in whatever order the hash map yields them.
\<close>

theorem validate_dependency_acyclicity_correct:
  assumes "hash_order ho" and "distinct (map_keys items)"
  shows "validate_dependency_acyclicity ho items = Inr () \<longleftrightarrow> acyclic (dep_rel (map_of items))"
  using assms by (intro validate_dependency_acyclicity_iff) (simp add: hash_order_def)

theorem validate_dependency_acyclicity_correct_witness:
  "validate_dependency_acyclicity rev
     [(''a'', demo_item ''a'' [''b'']), (''b'', demo_item ''b'' [''a''])] \<noteq> Inr ()"
proof -
  let ?items = "[(''a'', demo_item ''a'' [''b'']), (''b'', demo_item ''b'' [''a''])]"
  have "(''a'', ''b'') \<in> dep_rel (map_of ?items)" "(''b'', ''a'') \<in> dep_rel (map_of ?items)"
    by (simp_all add: dep_rel_iff demo_item_def new_plan_item_def demo_add_def)
  then have "(''a'', ''a'') \<in> (dep_rel (map_of ?items))\<^sup>+" by (meson trancl.intros)
  then have "\<not> acyclic (dep_rel (map_of ?items))" by (auto simp: acyclic_def)
  moreover have "distinct (map_keys ?items)" by (simp add: map_keys_def)
  ultimately show ?thesis
    using validate_dependency_acyclicity_correct [OF hash_order_rev] by blast
qed

text \<open>
  C36. No lost update: once an update of an item has been accepted, a second update that was
  prepared against the same item version is rejected as a version mismatch and writes nothing
  (as long as the version counter is not saturated).
\<close>

lemma check_expected_version_mismatch:
  "v \<noteq> found \<Longrightarrow> \<exists>m. check_expected_version what (Some v) found = Inl (IoError InvalidData m)"
  by (simp add: check_expected_version_def)

theorem update_no_lost_update:
  assumes first: "update_operation_plan_item_locked ho o1 s = (ws, Inr rep)"
    and same: "uo_item_id o2 = uo_item_id o1"
      "uo_expected_item_version o2 = uo_expected_item_version o1"
    and unsat: "uo_expected_item_version o1 \<noteq> Some (- 1)"
  shows "\<exists>m. update_operation_plan_item_locked ho' o2 (apply_writes ws s)
    = ([], Inl (IoError InvalidData m))"
proof (cases rule: update_writes_cases [of ho o1 s])
  case (rejected e)
  with first show ?thesis by simp
next
  case (updated p c i e r)
  let ?t = "apply_writes ws s"
  note frame = updated_item_Inr [OF updated(3)]
  have t: "items_of ?t (uo_item_id o2) = Some i" "st_plan ?t = Inr (touch_plan (uo_now_ms o1) p)"
    using first updated frame items_of_id [OF updated(2)] same by (auto simp: apply_writes_def)
  have "it_version c \<noteq> it_version i"
    using frame unsat sat_add_1_greater [of "it_version c"] by auto
  then obtain m where
    "check_expected_version ''updating'' (uo_expected_item_version o2) (it_version i)
      = Inl (IoError InvalidData m)"
    using check_expected_version_mismatch frame same by metis
  with t show ?thesis
    by (simp add: update_operation_plan_item_locked_def map_of_read_item_map Let_def updated_item_def)
qed

lemma demo_update_a:
  "\<exists>ws rep. update_operation_plan_item_locked rev (demo_update ''a'' 1 (Some Canceled) None) demo_store
     = (ws, Inr rep)"
  using demo_store_state
  by (simp add: update_operation_plan_item_locked_def map_of_read_item_map Let_def updated_item_def
      demo_update_def demo_item_def new_plan_item_def demo_add_def check_expected_version_def
      update_status_def update_dependencies_def)

theorem update_no_lost_update_witness:
  "\<exists>m. update_operation_plan_item_locked rev (demo_update ''a'' 1 (Some Ready) None)
     (apply_writes (fst (update_operation_plan_item_locked rev
        (demo_update ''a'' 1 (Some Canceled) None) demo_store)) demo_store)
    = ([], Inl (IoError InvalidData m))"
proof -
  obtain ws rep where
    w: "update_operation_plan_item_locked rev (demo_update ''a'' 1 (Some Canceled) None) demo_store
      = (ws, Inr rep)"
    using demo_update_a by blast
  have "\<exists>m. update_operation_plan_item_locked rev (demo_update ''a'' 1 (Some Ready) None)
      (apply_writes ws demo_store) = ([], Inl (IoError InvalidData m))"
    by (rule update_no_lost_update [OF w]) (simp_all add: demo_update_def)
  then show ?thesis by (simp add: w)
qed

text \<open>
  Items move only along the transition table: whatever operation runs on a plan, and
  wherever it is cut off, every item that existed still exists and is either untouched or has
  exactly the next version, the same id and creation time, and a status that is unchanged or
  that \<open>can_transition_to\<close> allows.
\<close>

lemma plan_op_prefix_item_step:
  assumes "plan_op_ok a" and "items_of s k = Some i"
  shows "\<exists>i'. items_of (apply_writes (take n (plan_op_writes a s)) s) k = Some i'
    \<and> (i' = i \<or> item_step i i')"
  using items_of_fold_cases [of "take n (plan_op_writes a s)" s k]
proof
  assume "items_of (fold apply_write (take n (plan_op_writes a s)) s) k = items_of s k"
  with assms(2) show ?thesis by (simp add: apply_writes_def)
next
  assume "\<exists>i \<in> set (appended (take n (plan_op_writes a s))). it_item_id i = k
    \<and> items_of (fold apply_write (take n (plan_op_writes a s)) s) k = Some i"
  then obtain i' where "i' \<in> set (appended (plan_op_writes a s))" and "it_item_id i' = k"
    and t: "items_of (apply_writes (take n (plan_op_writes a s)) s) k = Some i'"
    using appended_take_subset [of n "plan_op_writes a s"] by (auto simp: apply_writes_def)
  with plan_op_appended [OF assms(1)] assms(2) have "item_step i i'" by fastforce
  with t show ?thesis by blast
qed

theorem plan_op_item_step:
  assumes "plan_op_ok a" and "items_of s k = Some i"
  shows "\<exists>i'. items_of (apply_writes (take n (plan_op_writes a s)) s) k = Some i'
    \<and> (i' = i \<or> it_item_id i' = it_item_id i \<and> it_created_at_ms i' = it_created_at_ms i
         \<and> it_version i' = sat_add (it_version i) 1
         \<and> (it_status i' = it_status i \<or> can_transition_to (it_status i) (it_status i')))"
  using plan_op_prefix_item_step [OF assms, of n] by (auto simp: item_step_def)

theorem plan_op_item_step_witness:
  "\<exists>i'. items_of (apply_writes (take 1 (plan_op_writes
       (OpUpdate rev (demo_update ''a'' 1 (Some Canceled) None)) demo_store)) demo_store) ''a''
     = Some i'"
  using plan_op_item_step [of "OpUpdate rev (demo_update ''a'' 1 (Some Canceled) None)" demo_store
      "''a''" "demo_item ''a'' []" 1] demo_store_state hash_order_rev
  by auto

text \<open>
  Terminal statuses are final: through any sequence of operations, each cut off anywhere,
  an item that is done, blocked or canceled keeps that status or becomes canceled; it is
  never reopened and never lost.
\<close>

lemma terminal_transition: "is_terminal a \<Longrightarrow> can_transition_to a b \<Longrightarrow> b = Canceled"
  by (cases a; cases b) auto

theorem terminal_items_final:
  assumes "\<forall>(a, n) \<in> set ops. plan_op_ok a" and "items_of s k = Some i"
    and "is_terminal (it_status i)"
  shows "\<exists>i'. items_of (fold (\<lambda>(a, n) s. apply_writes (take n (plan_op_writes a s)) s) ops s) k
      = Some i' \<and> (it_status i' = it_status i \<or> it_status i' = Canceled)"
  using assms
proof (induction ops arbitrary: s i)
  case (Cons x ops)
  obtain a n where x: "x = (a, n)" by (cases x)
  let ?t = "apply_writes (take n (plan_op_writes a s)) s"
  from plan_op_prefix_item_step [of a s k i n] Cons.prems x
  obtain i1 where i1: "items_of ?t k = Some i1" "i1 = i \<or> item_step i i1" by auto
  then have st: "it_status i1 = it_status i \<or> it_status i1 = Canceled"
    using Cons.prems(3) terminal_transition by (auto simp: item_step_def)
  then have "is_terminal (it_status i1)" using Cons.prems(3) by auto
  with Cons.IH [of ?t i1] Cons.prems(1) i1(1) x st show ?case by auto
qed simp

theorem terminal_items_final_witness:
  "\<exists>i'. items_of (fold (\<lambda>(a, n) s. apply_writes (take n (plan_op_writes a s)) s)
       [(OpPromote rev ''p'' 9, 2)] (append_item ((demo_item ''a'' [])\<lparr>it_status := Done\<rparr>) demo_store)) ''a''
     = Some i' \<and> (it_status i' = Done \<or> it_status i' = Canceled)"
  using terminal_items_final [of "[(OpPromote rev ''p'' 9, 2)]"
      "append_item ((demo_item ''a'' [])\<lparr>it_status := Done\<rparr>) demo_store" "''a''"
      "(demo_item ''a'' [])\<lparr>it_status := Done\<rparr>"] hash_order_rev
  by (simp add: demo_item_def new_plan_item_def demo_add_def)

text \<open>
  Promotion turns exactly the todo items whose dependencies are all done into ready items,
  each at its next version, and leaves every other item as it was, in whatever order the hash
  map yields the items.
\<close>

theorem promote_exact:
  assumes "hash_order ho" and "st_plan s = Inr p"
  shows "items_of (apply_writes (fst (promote_operation_plan_items_locked ho plan_id now s)) s) k =
    (case items_of s k of
       None \<Rightarrow> None
     | Some i \<Rightarrow>
         Some (if it_status i = Todo
                  \<and> (\<forall>d \<in> set (it_depends_on i). \<exists>j. items_of s d = Some j \<and> it_status j = Done)
               then i\<lparr>it_status := Ready, it_version := sat_add (it_version i) 1,
                       it_updated_at_ms := now\<rparr>
               else i))"
proof -
  let ?is = "ready_items ho now s"
  let ?ws = "fst (promote_operation_plan_items_locked ho plan_id now s)"
  obtain ev p' r where ev: "\<forall>i. \<exists>e. ev i = AppendEvent e"
    and w: "promote_operation_plan_items_locked ho plan_id now s =
      (concat (map (\<lambda>i. [AppendItem i, ev i]) ?is) @ (if ?is = [] then [] else [WritePlan p'])
        @ [AppendReceipt r],
       Inr \<lparr>qr_promoted_item_ids = map it_item_id ?is, qr_receipt = r\<rparr>)"
    by (rule promote_writes [OF assms(2), where now = now and ho = ho and plan_id = plan_id])
  have app: "appended ?ws = ?is" by (simp add: w appended_promote [OF ev])
  have fold: "items_of (apply_writes ?ws s) k =
      (case find (\<lambda>i. it_item_id i = k) (rev ?is) of Some i \<Rightarrow> Some i | None \<Rightarrow> items_of s k)"
    by (simp add: apply_writes_def items_of_fold app)
  show ?thesis
  proof (cases "find (\<lambda>i. it_item_id i = k) (rev ?is)")
    case None
    then have "\<not> promotable s i" if "items_of s k = Some i" for i
      using that items_of_id [OF that]
      by (auto simp: find_None_iff set_ready_items [OF assms(1)])
    then have "items_of s k = Some i \<Longrightarrow> \<not> (it_status i = Todo
        \<and> (\<forall>d \<in> set (it_depends_on i). \<exists>j. items_of s d = Some j \<and> it_status j = Done))" for i
      unfolding promotable_def .
    then show ?thesis
      unfolding fold None by (cases "items_of s k") (simp_all only: option.case if_False simp_thms)
  next
    case (Some i')
    then have "i' \<in> set ?is" and k: "it_item_id i' = k" by (auto dest: find_SomeD)
    then obtain i where "items_of s k = Some i" "promotable s i" "i' = promoted_item now i"
      by (auto simp: set_ready_items [OF assms(1)])
    then show ?thesis
      unfolding fold by (auto simp: Some promotable_def promoted_item_def)
  qed
qed

theorem promote_exact_witness:
  "map_option it_status (items_of (apply_writes (fst
     (promote_operation_plan_items_locked rev ''p'' 9 demo_store)) demo_store) ''a'') = Some Ready
   \<and> map_option it_status (items_of (apply_writes (fst
     (promote_operation_plan_items_locked rev ''p'' 9 demo_store)) demo_store) ''b'') = Some Todo"
  using demo_store_state promote_exact [of rev demo_store _ "''p''" 9] hash_order_rev
  by (simp add: demo_item_def new_plan_item_def demo_add_def)

text \<open>
  A plan that is neither completed nor canceled can be completed exactly when each of its
  items is terminal and each done item carries evidence; otherwise the request is rejected as
  invalid and nothing is written. On success the plan is marked completed at its next version.
\<close>

lemma completion_blocker_None:
  "completion_blocker is = None \<longleftrightarrow>
     (\<forall>i \<in> set is. is_terminal (it_status i) \<and> (it_status i = Done \<longrightarrow> it_evidence i \<noteq> []))"
proof (induction "is")
  case (Cons i "is")
  then show ?case by (cases "it_status i") auto
qed simp

lemma completion_blocker_Some: "completion_blocker is = Some e \<Longrightarrow> io_error_kind e = InvalidInput"
  by (induction "is") (auto split: if_splits)

theorem complete_operation_plan_iff:
  assumes p: "st_plan s = Inr p" and st: "pl_status p \<noteq> PlanCompleted"
  shows "(if pl_status p \<noteq> PlanCanceled
            \<and> (\<forall>k i. items_of s k = Some i \<longrightarrow>
                 is_terminal (it_status i) \<and> (it_status i = Done \<longrightarrow> it_evidence i \<noteq> []))
          then st_plan (apply_writes (fst (complete_operation_plan_locked plan_id reason now s)) s)
             = Inr (p\<lparr>pl_status := PlanCompleted, pl_version := sat_add (pl_version p) 1,
                       pl_updated_at_ms := now\<rparr>)
          else \<exists>e. complete_operation_plan_locked plan_id reason now s = ([], Inl e)
                 \<and> io_error_kind e = InvalidInput)"
proof -
  have all: "(\<forall>i \<in> set (read_items (st_items s)). P i) \<longleftrightarrow> (\<forall>k i. items_of s k = Some i \<longrightarrow> P i)" for P
    by (auto simp: set_read_items_items_of ran_def)
  show ?thesis
  proof (cases "completion_blocker (read_items (st_items s))")
    case None
    then have "\<forall>k i. items_of s k = Some i \<longrightarrow>
        is_terminal (it_status i) \<and> (it_status i = Done \<longrightarrow> it_evidence i \<noteq> [])"
      using completion_blocker_None [of "read_items (st_items s)"] by (simp add: all)
    with p st None show ?thesis
      by (simp add: complete_operation_plan_locked_def Let_def apply_writes_def touch_plan_def)
  next
    case (Some e)
    then have no: "\<not> (pl_status p \<noteq> PlanCanceled \<and> (\<forall>k i. items_of s k = Some i \<longrightarrow>
        is_terminal (it_status i) \<and> (it_status i = Done \<longrightarrow> it_evidence i \<noteq> [])))"
      using completion_blocker_None [of "read_items (st_items s)"] by (simp add: all)
    from p st Some completion_blocker_Some [OF Some] show ?thesis
      unfolding if_not_P [OF no] by (simp add: complete_operation_plan_locked_def Let_def)
  qed
qed

theorem complete_operation_plan_iff_witness:
  "\<exists>e. complete_operation_plan_locked ''p'' None 9 demo_store = ([], Inl e)
     \<and> io_error_kind e = InvalidInput"
proof -
  let ?p = "touch_plan 2 (touch_plan 2 (new_operation_plan demo_create None))"
  have p: "st_plan demo_store = Inr ?p" using demo_store_state by simp
  have st: "pl_status ?p \<noteq> PlanCompleted" by (simp add: touch_plan_def new_operation_plan_def)
  have "items_of demo_store ''a'' = Some (demo_item ''a'' [])" using demo_store_state by simp
  moreover have "\<not> is_terminal (it_status (demo_item ''a'' []))"
    by (simp add: demo_item_def new_plan_item_def)
  ultimately show ?thesis
    using complete_operation_plan_iff [OF p st, of "''p''" None 9] by (auto split: if_splits)
qed

end
