(* ===== verification/Operation_Plan_Contracts.thy ===== *)
theory Operation_Plan_Contracts
  imports Operation_Plan_Claims
begin

text \<open>
  What the operations of a plan promise to their callers: a delegation key is accepted once,
  the identity of a plan never changes, a plan belongs to one lane, a rejected request leaves
  the plan as it was, and an operation on one plan leaves the directories of the others alone.
\<close>

section \<open>Delegation keys\<close>

lemma delegate_key_held:
  assumes ho: "hash_order ho" and p: "st_plan s = Inr p"
    and c: "items_of s (do_item_id o') = Some c"
    and held: "items_of s k = Some i" "it_delegation_idempotency_key i = Some (do_idempotency_key o')"
  shows "\<exists>r e. delegate_operation_plan_item_locked ho o' s =
    ([AppendReceipt r], Inl (IoError AlreadyExists e)) \<and> \<not> rc_success r \<and> rc_duplicated r"
proof -
  let ?others = "map_remove (do_item_id o') (read_item_map (st_items s))"
  have "i \<in> set (map_values_in ho ?others)" if "k \<noteq> do_item_id o'"
    using that held(1) ho distinct_map_remove [OF distinct_keys_read_item_map]
    by (auto simp: set_map_values_in map_of_read_item_map ran_def)
  then have "it_delegation_idempotency_key c = Some (do_idempotency_key o')
      \<or> find_item_id_by_idempotency_key ho (do_idempotency_key o') ?others \<noteq> None"
    using held c by (cases "k = do_item_id o'")
      (auto simp: find_item_id_by_idempotency_key_def find_None_iff)
  with p c show ?thesis
    by (auto simp: delegate_operation_plan_item_locked_def Let_def map_of_read_item_map
        duplicate_delegation_def plan_receipt_def)
qed

section \<open>What an operation may change of the plan record\<close>

definition plan_step :: "OperationPlan \<Rightarrow> OperationPlan \<Rightarrow> bool" where
  "plan_step p p' \<longleftrightarrow>
     p' = p\<lparr>pl_status := pl_status p', pl_version := pl_version p',
             pl_updated_at_ms := pl_updated_at_ms p'\<rparr>
     \<and> (pl_version p' = pl_version p \<or> pl_version p' = sat_add (pl_version p) 1)
     \<and> (pl_status p = PlanCompleted \<longrightarrow> pl_status p' = PlanCompleted)"

lemma plan_step_refl [simp]: "plan_step p p"
  by (simp add: plan_step_def)

lemma plan_step_touch [simp]: "plan_step p (touch_plan now p)"
  by (simp add: plan_step_def touch_plan_def)

lemma plan_step_status [simp]:
  "pl_status p \<noteq> PlanCompleted \<Longrightarrow> plan_step p (touch_plan now (p\<lparr>pl_status := st\<rparr>))"
  by (simp add: plan_step_def touch_plan_def)

lemma not_log [simp]: "WritePlan p \<noteq> plan_event a b c d e f g" "plan_event a b c d e f g \<noteq> WritePlan p"
  by (simp_all add: plan_event_def)

lemma plan_op_plan_step:
  assumes "plan_op_ok a" and p: "st_plan s = Inr p" and w: "WritePlan p' \<in> set (plan_op_writes a s)"
  shows "plan_step p p'"
proof (cases a)
  case (OpCreate o' lane enforce)
  with p w show ?thesis
    by (simp add: create_operation_plan_internal_locked_def split: if_splits)
next
  case (OpAdd o')
  show ?thesis by (cases rule: add_writes_cases [of o' s]) (use p w OpAdd in auto)
next
  case (OpUpdate ho o')
  show ?thesis by (cases rule: update_writes_cases [of ho o' s]) (use p w OpUpdate in auto)
next
  case (OpDelegate ho o')
  with assms(1) have "hash_order ho" by simp
  then show ?thesis
    by (cases rule: delegate_writes_cases [where o' = o' and s = s]) (use p w OpDelegate in auto)
next
  case (OpPromote ho q now)
  obtain ev p1 r where ev: "\<forall>i. \<exists>e. ev i = AppendEvent e" and p1: "p1 = p \<or> p1 = touch_plan now p"
    and "promote_operation_plan_items_locked ho q now s =
      (concat (map (\<lambda>i. [AppendItem i, ev i]) (ready_items ho now s))
        @ (if ready_items ho now s = [] then [] else [WritePlan p1]) @ [AppendReceipt r],
       Inr \<lparr>qr_promoted_item_ids = map it_item_id (ready_items ho now s), qr_receipt = r\<rparr>)"
    by (rule promote_writes [OF p, where now = now and ho = ho and plan_id = q])
  moreover have "WritePlan p' \<noteq> ev i" for i
    using ev by (metis plan_write.distinct)
  ultimately have "p' = p1" using w OpPromote by (auto split: if_splits)
  with p1 show ?thesis by auto
next
  case (OpComment o')
  with p w show ?thesis by (auto simp: comment_on_operation_plan_locked_def Let_def)
next
  case (OpBlock reason now)
  with p w show ?thesis by (auto simp: block_operation_plan_locked_def Let_def split: if_splits)
next
  case (OpComplete q reason now)
  with p w show ?thesis
    by (auto simp: complete_operation_plan_locked_def Let_def split: if_splits option.splits)
qed

section \<open>Runs of operations\<close>

text \<open>A run is a list of operations, each with the number of its writes that reach the disk.\<close>

definition plan_run :: "(plan_op \<times> nat) list \<Rightarrow> plan_store \<Rightarrow> plan_store" where
  "plan_run ops s = fold (\<lambda>(a, n) s. apply_writes (take n (plan_op_writes a s)) s) ops s"

lemma plan_run_simps [simp]:
  "plan_run [] s = s"
  "plan_run ((a, n) # ops) s = plan_run ops (apply_writes (take n (plan_op_writes a s)) s)"
  by (simp_all add: plan_run_def)

lemma plan_prefix_step:
  assumes "plan_op_ok a" and "st_plan s = Inr p"
  obtains p' where "st_plan (apply_writes (take n (plan_op_writes a s)) s) = Inr p'" "plan_step p p'"
  using st_plan_fold_cases [of "take n (plan_op_writes a s)" s] assms plan_op_plan_step [OF assms]
  by (fastforce simp: apply_writes_def dest: in_set_takeD)

lemma plan_run_frame:
  assumes "\<forall>(a, n) \<in> set ops. plan_op_ok a" and "st_plan s = Inr p"
  shows "\<exists>p'. st_plan (plan_run ops s) = Inr p'
    \<and> p' = p\<lparr>pl_status := pl_status p', pl_version := pl_version p',
              pl_updated_at_ms := pl_updated_at_ms p'\<rparr>
    \<and> pl_version p \<le> pl_version p'
    \<and> (pl_status p = PlanCompleted \<longrightarrow> pl_status p' = PlanCompleted)"
  using assms
proof (induction ops arbitrary: s p)
  case (Cons x ops)
  obtain a n where x: "x = (a, n)" by (cases x)
  with Cons.prems have "plan_op_ok a" by auto
  then obtain p1 where p1: "st_plan (apply_writes (take n (plan_op_writes a s)) s) = Inr p1"
    "plan_step p p1"
    using Cons.prems(2) by (rule plan_prefix_step)
  from Cons.IH [OF _ p1(1)] Cons.prems(1) obtain p' where
    p': "st_plan (plan_run (x # ops) s) = Inr p'"
      "p' = p1\<lparr>pl_status := pl_status p', pl_version := pl_version p',
               pl_updated_at_ms := pl_updated_at_ms p'\<rparr>"
      "pl_version p1 \<le> pl_version p'"
      "pl_status p1 = PlanCompleted \<longrightarrow> pl_status p' = PlanCompleted"
    unfolding x by auto
  have "p1 = p\<lparr>pl_status := pl_status p1, pl_version := pl_version p1,
      pl_updated_at_ms := pl_updated_at_ms p1\<rparr>" and v: "pl_version p \<le> pl_version p1"
    using p1(2) by (auto simp: plan_step_def sat_add_ge1)
  with p'(2) have "p' = p\<lparr>pl_status := pl_status p', pl_version := pl_version p',
      pl_updated_at_ms := pl_updated_at_ms p'\<rparr>"
    by (cases p; cases p1; cases p') simp
  with p' v p1(2) show ?case by (auto simp: plan_step_def)
qed auto

section \<open>Rejected requests\<close>

fun plan_op_error :: "plan_op \<Rightarrow> plan_store \<Rightarrow> io_error option" where
  "plan_op_error (OpCreate o' lane enforce) s =
     case_sum Some (\<lambda>_. None) (snd (create_operation_plan_internal_locked o' lane enforce s))"
| "plan_op_error (OpAdd o') s =
     case_sum Some (\<lambda>_. None) (snd (add_operation_plan_item_locked o' s))"
| "plan_op_error (OpUpdate ho o') s =
     case_sum Some (\<lambda>_. None) (snd (update_operation_plan_item_locked ho o' s))"
| "plan_op_error (OpDelegate ho o') s =
     case_sum Some (\<lambda>_. None) (snd (delegate_operation_plan_item_locked ho o' s))"
| "plan_op_error (OpPromote ho p now) s =
     case_sum Some (\<lambda>_. None) (snd (promote_operation_plan_items_locked ho p now s))"
| "plan_op_error (OpComment o') s =
     case_sum Some (\<lambda>_. None) (snd (comment_on_operation_plan_locked o' s))"
| "plan_op_error (OpBlock reason now) s =
     case_sum Some (\<lambda>_. None) (snd (block_operation_plan_locked reason now s))"
| "plan_op_error (OpComplete p reason now) s =
     case_sum Some (\<lambda>_. None) (snd (complete_operation_plan_locked p reason now s))"

lemma plan_op_error_writes:
  assumes "plan_op_ok a" and e: "plan_op_error a s = Some e"
  shows "plan_op_writes a s = []
    \<or> (\<exists>ho o' r. a = OpDelegate ho o' \<and> plan_op_writes a s = [AppendReceipt r]
         \<and> \<not> rc_success r \<and> rc_duplicated r \<and> io_error_kind e = AlreadyExists)"
proof (cases a)
  case (OpCreate o' lane enforce)
  with e show ?thesis
    by (auto simp: create_operation_plan_internal_locked_def Let_def split: sum.splits if_splits)
next
  case (OpAdd o')
  show ?thesis by (cases rule: add_writes_cases [of o' s]) (use e OpAdd in auto)
next
  case (OpUpdate ho o')
  show ?thesis by (cases rule: update_writes_cases [of ho o' s]) (use e OpUpdate in auto)
next
  case (OpDelegate ho o')
  with assms(1) have "hash_order ho" by simp
  then show ?thesis
    by (cases rule: delegate_writes_cases [where o' = o' and s = s]) (use e OpDelegate in auto)
next
  case (OpPromote ho p now)
  with e show ?thesis
    by (auto simp: promote_operation_plan_items_locked_def Let_def split: sum.splits)
next
  case (OpComment o')
  with e show ?thesis
    by (auto simp: comment_on_operation_plan_locked_def Let_def split: sum.splits)
next
  case (OpBlock reason now)
  with e show ?thesis
    by (auto simp: block_operation_plan_locked_def Let_def split: sum.splits if_splits)
next
  case (OpComplete p reason now)
  with e show ?thesis
    by (auto simp: complete_operation_plan_locked_def Let_def
        split: sum.splits if_splits option.splits)
qed

section \<open>The directory of a plan\<close>

lemma safe_byte_safe:
  "c' \<in> set (safe_byte c) \<Longrightarrow>
     is_ascii_alphanumeric c' \<or> c' = CHR ''-'' \<or> c' = CHR ''_'' \<or> c' = CHR ''.''"
  by (auto simp: safe_byte_def split: if_splits)

lemma concat_safe_byte_id:
  "\<forall>c \<in> set v. is_ascii_alphanumeric c \<or> c = CHR ''-'' \<or> c = CHR ''_'' \<or> c = CHR ''.'' \<Longrightarrow>
   concat (map safe_byte v) = v"
  by (induction v) (auto simp: safe_byte_def)

lemma safe_name_chars:
  assumes "c \<in> set (safe_name v)"
  shows "is_ascii_alphanumeric c \<or> c = CHR ''-'' \<or> c = CHR ''_'' \<or> c = CHR ''.''"
proof (cases "concat (map safe_byte v) = []")
  case True
  have "list_all is_ascii_alphanumeric ''plan''" by (simp add: is_ascii_alphanumeric_def)
  then have "\<forall>c \<in> set ''plan''. is_ascii_alphanumeric c" by (simp only: list_all_iff)
  moreover have "safe_name v = ''plan''" unfolding safe_name_def Let_def using True by (rule if_P)
  ultimately show ?thesis using assms by metis
next
  case False
  then have "safe_name v = concat (map safe_byte v)" unfolding safe_name_def Let_def by (rule if_not_P)
  with assms obtain b where "c \<in> set (safe_byte b)" by auto
  then show ?thesis by (rule safe_byte_safe)
qed

lemma safe_name_nonempty [simp]: "safe_name v \<noteq> []"
  by (simp add: safe_name_def Let_def)

lemma safe_name_idem: "safe_name (safe_name v) = safe_name v"
proof -
  have "concat (map safe_byte (safe_name v)) = safe_name v"
    by (rule concat_safe_byte_id) (use safe_name_chars in blast)
  then show ?thesis unfolding safe_name_def [of "safe_name v"] Let_def by simp
qed

section \<open>Properties\<close>

text \<open>
  A delegation key is accepted once: after a delegation has been accepted, a second one
  with the same key, on any item of the plan, by any assignee and against any version, is
  rejected as already existing. All it leaves is a receipt marked failed and duplicated.
\<close>

theorem delegate_key_accepted_once:
  assumes "hash_order ho" and "hash_order ho'"
    and first: "delegate_operation_plan_item_locked ho o1 s = (ws, Inr rep)"
    and key: "do_idempotency_key o2 = do_idempotency_key o1"
    and item: "items_of s (do_item_id o2) \<noteq> None"
  shows "\<exists>r e. delegate_operation_plan_item_locked ho' o2 (apply_writes ws s) =
    ([AppendReceipt r], Inl (IoError AlreadyExists e)) \<and> \<not> rc_success r \<and> rc_duplicated r"
  using assms(1)
proof (cases rule: delegate_writes_cases [where o' = o1 and s = s])
  case (delegated p c e r)
  let ?t = "apply_writes ws s"
  have t: "st_plan ?t = Inr (touch_plan (do_now_ms o1) p)"
    "items_of ?t = (items_of s)(do_item_id o1 \<mapsto> delegated_item o1 c)"
    using first delegated items_of_id [OF delegated(2)]
    by (auto simp: apply_writes_def delegated_item_def)
  have "it_delegation_idempotency_key (delegated_item o1 c) = Some (do_idempotency_key o2)"
    using key by (simp add: delegated_item_def)
  moreover have "\<exists>c. items_of ?t (do_item_id o2) = Some c" using item t(2) by auto
  ultimately show ?thesis
    using delegate_key_held [OF assms(2) t(1), where k = "do_item_id o1"] t(2) by auto
qed (use first in auto)

theorem delegate_key_accepted_once_witness:
  "\<exists>ws rep r e. delegate_operation_plan_item_locked rev (demo_delegate ''a'' 1 ''k'') demo_store = (ws, Inr rep)
     \<and> delegate_operation_plan_item_locked rev (demo_delegate ''b'' 1 ''k'') (apply_writes ws demo_store)
       = ([AppendReceipt r], Inl (IoError AlreadyExists e))"
proof -
  have "find_item_id_by_idempotency_key rev ''k'' (map_remove ''a'' (read_item_map (st_items demo_store))) = None"
    using demo_store_state set_map_values_in [OF hash_order_rev
        distinct_map_remove [OF distinct_keys_read_item_map, of "''a''" "st_items demo_store"]]
    by (auto simp: find_item_id_by_idempotency_key_def find_None_iff map_of_read_item_map
        demo_item_def new_plan_item_def demo_add_def)
  then obtain ws rep where
    w: "delegate_operation_plan_item_locked rev (demo_delegate ''a'' 1 ''k'') demo_store = (ws, Inr rep)"
    using demo_store_state
    by (auto simp: delegate_operation_plan_item_locked_def Let_def map_of_read_item_map
        demo_delegate_def demo_item_def new_plan_item_def demo_add_def check_expected_version_def)
  have "items_of demo_store (do_item_id (demo_delegate ''b'' 1 ''k'')) \<noteq> None"
    using demo_store_state by (simp add: demo_delegate_def)
  with delegate_key_accepted_once [OF hash_order_rev hash_order_rev w, of "demo_delegate ''b'' 1 ''k''"] w
  show ?thesis by (auto simp: demo_delegate_def)
qed

text \<open>
  The identity of a plan never changes: through any run of operations, each cut off
  anywhere, the plan record keeps its id, session, agent, lane digest, goal, limits and
  creation time; its version never decreases, and once completed it stays completed.
\<close>

theorem plan_identity_immutable:
  assumes "\<forall>(a, n) \<in> set ops. plan_op_ok a" and "st_plan s = Inr p"
  shows "\<exists>p'. st_plan (plan_run ops s) = Inr p'
    \<and> p' = p\<lparr>pl_status := pl_status p', pl_version := pl_version p',
              pl_updated_at_ms := pl_updated_at_ms p'\<rparr>
    \<and> pl_version p \<le> pl_version p'
    \<and> (pl_status p = PlanCompleted \<longrightarrow> pl_status p' = PlanCompleted)"
  using assms by (rule plan_run_frame)

theorem plan_identity_immutable_witness:
  "\<exists>p'. st_plan (plan_run [(OpBlock None 5, 3), (OpPromote rev ''p'' 9, 1)] demo_store) = Inr p'
     \<and> pl_plan_id p' = ''p'' \<and> pl_max_open_items p' = Some 2"
proof -
  let ?p = "touch_plan 2 (touch_plan 2 (new_operation_plan demo_create None))"
  have p: "pl_plan_id ?p = ''p''" "pl_max_open_items ?p = Some 2"
    by (simp_all add: touch_plan_def new_operation_plan_def demo_create_def)
  have "\<forall>(a, n) \<in> set [(OpBlock None 5, 3), (OpPromote rev ''p'' 9, 1)]. plan_op_ok a"
    using hash_order_rev by simp
  from plan_identity_immutable [OF this, of demo_store ?p] demo_store_state obtain p' where
    "st_plan (plan_run [(OpBlock None 5, 3), (OpPromote rev ''p'' 9, 1)] demo_store) = Inr p'"
    and eq: "p' = ?p\<lparr>pl_status := pl_status p', pl_version := pl_version p',
              pl_updated_at_ms := pl_updated_at_ms p'\<rparr>"
    by blast
  moreover have "pl_plan_id p' = pl_plan_id ?p" "pl_max_open_items p' = pl_max_open_items ?p"
    by (subst eq, simp)+
  ultimately show ?thesis using p by metis
qed

text \<open>
  A plan belongs to the lane that created it: once \<open>create_operation_plan_v2\<close> has created a
  plan for one lane digest, then after any run of operations, each cut off anywhere, creating the
  plan for the same lane returns the existing record and creating it for any other lane is
  refused as invalid data; neither writes anything.
\<close>

lemma created_plan:
  assumes "create_operation_plan_internal_locked o' lane enforce s = (ws, Inr rep)" and "cr_created rep"
  shows "st_plan (apply_writes ws s) = Inr (new_operation_plan o' lane)"
  using assms
  by (auto simp: create_operation_plan_internal_locked_def Let_def apply_writes_def plan_event_def
      split: sum.splits if_splits)

theorem plan_lane_ownership:
  assumes "create_operation_plan_internal_locked o1 (Some lane) True s = (ws, Inr rep)" and "cr_created rep"
    and ops: "\<forall>(a, n) \<in> set ops. plan_op_ok a"
  shows "case create_operation_plan_internal_locked o2 (Some lane') True (plan_run ops (apply_writes ws s)) of
      (ws', Inr rep') \<Rightarrow> ws' = [] \<and> lane' = lane \<and> \<not> cr_created rep'
        \<and> pl_lane_digest (cr_plan rep') = Some lane
    | (ws', Inl e) \<Rightarrow> ws' = [] \<and> lane' \<noteq> lane \<and> io_error_kind e = InvalidData"
proof -
  from plan_run_frame [OF ops created_plan [OF assms(1,2)]] obtain p' where
    p': "st_plan (plan_run ops (apply_writes ws s)) = Inr p'"
    and eq: "p' = (new_operation_plan o1 (Some lane))\<lparr>pl_status := pl_status p',
      pl_version := pl_version p', pl_updated_at_ms := pl_updated_at_ms p'\<rparr>" by blast
  have "pl_lane_digest p' = Some lane" by (subst eq) (simp add: new_operation_plan_def)
  with p' show ?thesis by (simp add: create_operation_plan_internal_locked_def)
qed

theorem plan_lane_ownership_witness:
  "\<exists>e. create_operation_plan_internal_locked demo_create (Some ''l2'') True
       (plan_run [(OpBlock None 5, 3)] (apply_writes
         (fst (create_operation_plan_internal_locked demo_create (Some ''l1'') True empty_store)) empty_store))
     = ([], Inl e) \<and> io_error_kind e = InvalidData"
proof -
  obtain ws rep where w: "create_operation_plan_internal_locked demo_create (Some ''l1'') True empty_store
      = (ws, Inr rep)" and "cr_created rep"
    by (simp add: create_operation_plan_internal_locked_def Let_def empty_store_def)
  from plan_lane_ownership [OF this, where ops = "[(OpBlock None 5, 3)]" and ?o2.0 = demo_create and lane' = "''l2''"]
  show ?thesis by (auto simp: w split: prod.splits sum.splits)
qed

text \<open>
  A rejected request leaves the plan as it was: if an operation returns an error, the plan
  record, the items, the events and the comments are unchanged; the only file it may have
  written is the receipts, and only for a duplicate delegation.
\<close>

theorem rejected_request_frame:
  assumes "plan_op_ok a" and "plan_op_error a s = Some e"
  shows "st_plan (apply_writes (plan_op_writes a s) s) = st_plan s
    \<and> st_items (apply_writes (plan_op_writes a s) s) = st_items s
    \<and> st_events (apply_writes (plan_op_writes a s) s) = st_events s
    \<and> st_comments (apply_writes (plan_op_writes a s) s) = st_comments s
    \<and> (st_receipts (apply_writes (plan_op_writes a s) s) \<noteq> st_receipts s \<longrightarrow>
         (\<exists>ho o'. a = OpDelegate ho o') \<and> io_error_kind e = AlreadyExists)"
  using plan_op_error_writes [OF assms] by (auto simp: apply_writes_def apply_write.simps)

theorem rejected_request_frame_witness:
  "st_items (apply_writes (plan_op_writes (OpComplete ''p'' None 9) demo_store) demo_store)
     = st_items demo_store"
proof -
  have "demo_item ''a'' [] \<in> set (read_items (st_items demo_store))"
    using conjunct1 [OF demo_store_state] by (auto simp: set_read_items_items_of intro!: ranI)
  moreover have "\<not> is_terminal (it_status (demo_item ''a'' []))"
    by (simp add: demo_item_def new_plan_item_def)
  ultimately have "completion_blocker (read_items (st_items demo_store)) \<noteq> None"
    by (metis completion_blocker_None)
  then obtain e where "plan_op_error (OpComplete ''p'' None 9) demo_store = Some e"
    using conjunct2 [OF demo_store_state]
    by (auto simp: complete_operation_plan_locked_def Let_def touch_plan_def new_operation_plan_def)
  then show ?thesis using rejected_request_frame [of "OpComplete ''p'' None 9" demo_store e] by simp
qed

text \<open>
  The directory of a plan is one path component: its name is never empty, holds only ASCII
  letters, digits, hyphens, underscores and dots (so no separator), and naming is idempotent.
\<close>

theorem safe_name_component:
  "safe_name v \<noteq> [] \<and> CHR ''/'' \<notin> set (safe_name v) \<and> safe_name (safe_name v) = safe_name v"
proof -
  have "\<not> is_ascii_alphanumeric CHR ''/''" by (simp add: is_ascii_alphanumeric_def is_ascii_digit_def)
  then have "CHR ''/'' \<notin> set (safe_name v)" using safe_name_chars [of "CHR ''/''" v] by auto
  then show ?thesis by (simp add: safe_name_idem)
qed

text \<open>
  Two plan ids that differ only in replaced characters share one directory: when a plan has
  been created under the first id, creating a plan under the second returns the first plan as
  already existing and changes nothing.
\<close>

theorem create_aliased_plan:
  assumes "safe_name (co_plan_id o2) = safe_name (co_plan_id o1)"
    and "create_operation_plan o1 h = (h1, Inr rep1)"
  shows "\<exists>rep2. create_operation_plan o2 h1 = (h1, Inr rep2) \<and> \<not> cr_created rep2
    \<and> cr_plan rep2 = cr_plan rep1"
  using assms
  by (auto simp: create_operation_plan_def with_plan_def run_writes_def Let_def apply_writes_def
      create_operation_plan_internal_locked_def plan_event_def split: sum.splits if_splits)

theorem create_aliased_plan_witness:
  "\<exists>rep2. create_operation_plan (demo_create\<lparr>co_plan_id := ''a/b''\<rparr>)
       (fst (create_operation_plan (demo_create\<lparr>co_plan_id := ''a_b''\<rparr>) (\<lambda>_. empty_store)))
     = (fst (create_operation_plan (demo_create\<lparr>co_plan_id := ''a_b''\<rparr>) (\<lambda>_. empty_store)), Inr rep2)
     \<and> pl_plan_id (cr_plan rep2) = ''a_b''"
proof -
  let ?o1 = "demo_create\<lparr>co_plan_id := ''a_b''\<rparr>" and ?o2 = "demo_create\<lparr>co_plan_id := ''a/b''\<rparr>"
  have "safe_name ''a/b'' = safe_name ''a_b''"
    by (simp add: safe_name_def safe_byte_def is_ascii_alphanumeric_def is_ascii_digit_def)
  then have n: "safe_name (co_plan_id ?o2) = safe_name (co_plan_id ?o1)" by simp
  obtain h1 rep1 where c: "create_operation_plan ?o1 (\<lambda>_. empty_store) = (h1, Inr rep1)"
    and "pl_plan_id (cr_plan rep1) = ''a_b''"
    by (auto simp: create_operation_plan_def with_plan_def run_writes_def Let_def
        create_operation_plan_internal_locked_def empty_store_def new_operation_plan_def)
  with create_aliased_plan [OF n c] show ?thesis by auto
qed

end
