(* ===== verification/Goal_Transition.thy ===== *)
theory Goal_Transition
  imports Jsonl
begin

text \<open>
  The goal transition table (\<open>src/crates/agent-harness-core/src/goal_transition.rs\<close>): what
  the harness does when a slice of work ends. The table is a pure function of the event, the
  authoritative goal status, the authority and relation of the slice and the budget flags;
  its result is recorded as a receipt.

  The main lemma \<open>transition_outcome_cases\<close> splits the table into its branches; the properties
  give the exact conditions under which a campaign is declared final and under which another
  slice is scheduled.
\<close>

section \<open>Data\<close>

datatype GoalTransitionEventKind =
    NormalCompletion | DrainCompletion | AbsoluteTimeout | IdleTimeout | ToolTimeout
  | CompactRollover | AuthDeferred | AuthorityBoundary | ProcessRestart | OperatorStop
  | NewerSteer | OlderCompletion | RuntimeFailure

datatype GoalTransitionAuthority =
    AuthorityNotApplicable | AuthorityReady | AuthorityMissing | AuthorityStale
  | AuthorityConflict | AuthorityInvalid

datatype GoalTransitionRelation =
    CurrentGoalSlice | AuthorizedCampaignContinuation | FreshUnrelatedTurn | HistoricalState
  | Unproven

datatype GoalTransitionCorrelationSourceV1 = BackendGoal | DurableContinuation | NoCorrelation

datatype GoalTransitionDecision =
    DecideContinue | DecideComplete | DecidePause | DecideStop | NeedsUser | NeedsAuthority
  | NeedsOperatorAuth | Rollover | BudgetExhausted | NoProgressExhausted | DecideFailed

datatype GoalTransitionSurface =
    CampaignFinal | OrdinaryFinal | ProgressOnly | TerminalNotice | FailureNotice | SuppressStale

record GoalTransitionInput =
  gi_queue_id :: "string option"
  gi_event :: GoalTransitionEventKind
  gi_runtime_status :: string
  gi_runtime_reason :: string
  gi_goal_status :: "string option"
  gi_lineage_id :: "string option"
  gi_campaign_family_id :: "string option"
  gi_lane_digest :: "string option"
  gi_virtual_session_id :: "string option"
  gi_backend_context_generation :: "string option"
  gi_source_thread_id :: "string option"
  gi_source_turn_id :: "string option"
  gi_backend_goal_ref :: "string option"
  gi_correlation_source :: GoalTransitionCorrelationSourceV1
  gi_goal_checksum :: "string option"
  gi_source_slice_generation :: u64
  gi_decision_generation :: u64
  gi_authority :: GoalTransitionAuthority
  gi_relation :: GoalTransitionRelation
  gi_retryable_failure :: bool
  gi_context_rollover_required :: bool
  gi_budget_exhausted :: bool
  gi_no_progress_exhausted :: bool
  gi_observed_at_ms :: int

record GoalTransitionReceiptV1 =
  gr_schema :: string
  gr_slice_schema :: string
  gr_queue_id :: "string option"
  gr_event :: GoalTransitionEventKind
  gr_runtime_status :: string
  gr_runtime_reason :: string
  gr_goal_status :: "string option"
  gr_lineage_id :: "string option"
  gr_campaign_family_id :: "string option"
  gr_lane_digest :: "string option"
  gr_virtual_session_id :: "string option"
  gr_backend_context_generation :: "string option"
  gr_source_thread_id :: "string option"
  gr_source_turn_id :: "string option"
  gr_backend_goal_ref :: "string option"
  gr_correlation_source :: GoalTransitionCorrelationSourceV1
  gr_goal_checksum :: "string option"
  gr_source_slice_generation :: u64
  gr_decision_generation :: u64
  gr_authority :: GoalTransitionAuthority
  gr_relation :: GoalTransitionRelation
  gr_decision :: GoalTransitionDecision
  gr_surface :: GoalTransitionSurface
  gr_schedule_continuation :: bool
  gr_allow_campaign_final :: bool
  gr_terminal :: bool
  gr_reason :: string
  gr_observed_at_ms :: int

definition GOAL_TRANSITION_SCHEMA :: string where
  "GOAL_TRANSITION_SCHEMA = ''agent-harness.goal-transition.v1''"

definition GOAL_SLICE_SCHEMA :: string where
  "GOAL_SLICE_SCHEMA = ''agent-harness.goal-slice.v1''"

fun authority_debug :: "GoalTransitionAuthority \<Rightarrow> string" where
  "authority_debug AuthorityNotApplicable = ''NotApplicable''"
| "authority_debug AuthorityReady = ''Ready''"
| "authority_debug AuthorityMissing = ''Missing''"
| "authority_debug AuthorityStale = ''Stale''"
| "authority_debug AuthorityConflict = ''Conflict''"
| "authority_debug AuthorityInvalid = ''Invalid''"

section \<open>The goal status\<close>

definition normalize_status :: "string \<Rightarrow> string" where
  "normalize_status v = filter (\<lambda>c. c \<notin> set ''-_ '') (to_ascii_lowercase (trim v))"

definition normalized_goal_status :: "GoalTransitionInput \<Rightarrow> string" where
  "normalized_goal_status i = (case gi_goal_status i of None \<Rightarrow> [] | Some v \<Rightarrow> normalize_status v)"

definition goal_status_is_active :: "string \<Rightarrow> bool" where
  "goal_status_is_active n \<longleftrightarrow> n \<in> set [''active'', ''running'', ''inprogress'']"

definition goal_status_is_complete :: "string \<Rightarrow> bool" where
  "goal_status_is_complete n \<longleftrightarrow>
     n \<in> set [''completed'', ''complete'', ''succeeded'', ''achieved'']"

definition goal_status_is_paused :: "string \<Rightarrow> bool" where
  "goal_status_is_paused n \<longleftrightarrow> n \<in> set [''paused'', ''pause'']"

definition goal_status_is_blocked :: "string \<Rightarrow> bool" where
  "goal_status_is_blocked n \<longleftrightarrow> n = ''blocked''"

definition goal_status_is_stopped :: "string \<Rightarrow> bool" where
  "goal_status_is_stopped n \<longleftrightarrow>
     n \<in> set [''stopped'', ''stop'', ''canceled'', ''cancelled'']"

definition goal_status_needs_user :: "string \<Rightarrow> bool" where
  "goal_status_needs_user n \<longleftrightarrow> n \<in> set [''needsuser'', ''needsinput'', ''needsapproval'']"

definition goal_status_needs_authority :: "string \<Rightarrow> bool" where
  "goal_status_needs_authority n \<longleftrightarrow>
     n \<in> set [''needsauthority'', ''needsauthorization'', ''needsauthorisation'']"

definition goal_status_needs_operator_auth :: "string \<Rightarrow> bool" where
  "goal_status_needs_operator_auth n \<longleftrightarrow>
     n \<in> set [''needsoperatorauth'', ''operatorauthrequired'', ''authenticationrequired'']"

definition goal_status_is_recognized :: "string \<Rightarrow> bool" where
  "goal_status_is_recognized n \<longleftrightarrow>
     goal_status_is_active n \<or> goal_status_is_complete n \<or> goal_status_is_paused n
     \<or> goal_status_is_blocked n \<or> goal_status_is_stopped n \<or> goal_status_needs_user n
     \<or> goal_status_needs_authority n \<or> goal_status_needs_operator_auth n"

fun campaign_relation :: "GoalTransitionRelation \<Rightarrow> bool" where
  "campaign_relation CurrentGoalSlice = True"
| "campaign_relation AuthorizedCampaignContinuation = True"
| "campaign_relation FreshUnrelatedTurn = False"
| "campaign_relation HistoricalState = False"
| "campaign_relation Unproven = False"

definition campaign_authorized :: "GoalTransitionInput \<Rightarrow> bool" where
  "campaign_authorized i \<longleftrightarrow> gi_authority i = AuthorityReady \<and> campaign_relation (gi_relation i)"

section \<open>The table\<close>

type_synonym outcome = "GoalTransitionDecision \<times> GoalTransitionSurface \<times> bool \<times> bool \<times> string"

definition active_goal_outcome :: "GoalTransitionInput \<Rightarrow> outcome" where
  "active_goal_outcome i =
     (if gi_event i = CompactRollover
      then (Rollover, ProgressOnly, True, False,
            ''active goal crosses a verified compact/rollover boundary'')
      else if gi_event i = ToolTimeout \<and> gi_context_rollover_required i
      then (Rollover, ProgressOnly, True, False,
            ''active goal tool timeout requires a fresh context generation'')
      else if gi_event i = RuntimeFailure \<and> \<not> gi_retryable_failure i
      then (DecideFailed, FailureNotice, False, True,
            ''active goal hit a non-retryable runtime failure'')
      else (DecideContinue, ProgressOnly, True, False,
            ''slice ended while the authoritative goal remains active''))"

definition plain_turn_outcome :: "GoalTransitionInput \<Rightarrow> outcome" where
  "plain_turn_outcome i =
     (if gi_event i \<in> {NormalCompletion, DrainCompletion}
      then (DecideComplete, OrdinaryFinal, False, True,
            ''completed non-goal turn owns its normal final surface'')
      else if gi_event i = ProcessRestart
              \<and> eq_ignore_ascii_case (gi_runtime_status i) ''completed''
      then (DecideComplete, OrdinaryFinal, False, True,
            ''restart reconciliation recovered an already completed non-goal turn'')
      else if gi_event i = CompactRollover
      then (Rollover, ProgressOnly, True, False,
            ''runtime crossed a verified compact/rollover boundary'')
      else if gi_event i = ProcessRestart \<and> gi_retryable_failure i
      then (DecideContinue, ProgressOnly, True, False,
            ''restart reconciliation found resumable slice work'')
      else if gi_event i \<in> {AbsoluteTimeout, IdleTimeout, ToolTimeout, RuntimeFailure}
              \<and> gi_retryable_failure i
      then (DecideContinue, ProgressOnly, True, False,
            ''legacy non-goal work remains retryable under the unified transition'')
      else (DecideFailed, FailureNotice, False, True,
            ''runtime slice failed without an active authoritative goal''))"

definition authorized_status_outcome :: "GoalTransitionInput \<Rightarrow> outcome option" where
  "authorized_status_outcome i =
     (let n = normalized_goal_status i in
      if goal_status_is_complete n
      then Some (DecideComplete, CampaignFinal, False, True,
                 ''authoritative goal status is complete'')
      else if goal_status_is_paused n
      then Some (DecidePause, TerminalNotice, False, True,
                 ''authoritative goal status is paused'')
      else if goal_status_is_blocked n
      then Some (DecidePause, TerminalNotice, False, True,
                 ''authoritative goal status is blocked; park without claiming completion'')
      else if goal_status_is_stopped n
      then Some (DecideStop, TerminalNotice, False, True,
                 ''authoritative goal status is stopped'')
      else if goal_status_needs_user n
      then Some (NeedsUser, TerminalNotice, False, True,
                 ''authoritative goal status requires user input or authority'')
      else if goal_status_needs_authority n
      then Some (NeedsAuthority, TerminalNotice, False, True,
                 ''authoritative goal status requires additional authority'')
      else if goal_status_needs_operator_auth n
      then Some (NeedsOperatorAuth, TerminalNotice, False, True,
                 ''authoritative goal status requires operator authentication'')
      else None)"

definition preempting_outcome :: "GoalTransitionInput \<Rightarrow> outcome option" where
  "preempting_outcome i =
     (if gi_event i \<in> {NewerSteer, OlderCompletion}
      then Some (DecideStop, SuppressStale, False, True,
        if gi_event i = OlderCompletion
        then ''a newer authoritative goal lineage suppresses this older slice completion''
        else ''newer user steer preempts the older slice and suppresses its stale final'')
      else if gi_event i = OperatorStop
      then Some (DecideStop, TerminalNotice, False, True,
        ''operator stop terminates this goal slice and campaign continuation'')
      else if gi_event i = AuthDeferred
      then Some (NeedsOperatorAuth, ProgressOnly, False, False,
        ''backend auth is not ready; defer without a normal-channel credential or final surface'')
      else if gi_event i = AuthorityBoundary
      then Some (NeedsAuthority, ProgressOnly, False, False,
        ''native Goal continuation crossed a turn boundary without exact current-turn authority'')
      else None)"

definition authority_outcome :: "GoalTransitionInput \<Rightarrow> outcome option" where
  "authority_outcome i =
     (if campaign_relation (gi_relation i) \<and> gi_authority i \<noteq> AuthorityReady
      then Some (NeedsAuthority, ProgressOnly, False, False,
        ''goal-correlated work cannot transition because exact authority is ''
          @ authority_debug (gi_authority i))
      else if campaign_authorized i \<and> \<not> goal_status_is_recognized (normalized_goal_status i)
      then Some (NeedsAuthority, ProgressOnly, False, False,
        if gi_goal_status i \<noteq> None
        then ''goal-correlated work has an unrecognized authoritative status `''
          @ normalized_goal_status i @ ''`''
        else ''goal-correlated work has no authoritative goal status'')
      else if gi_goal_status i \<noteq> None \<and> gi_relation i \<noteq> FreshUnrelatedTurn
              \<and> \<not> campaign_authorized i
      then Some (NeedsAuthority, ProgressOnly, False, False,
        ''present goal state is not proven to belong to this exact campaign slice'')
      else if gi_relation i \<noteq> FreshUnrelatedTurn \<and> \<not> campaign_authorized i
      then Some (NeedsAuthority, ProgressOnly, False, False,
        ''non-fresh goal lineage has no authoritative current-slice status'')
      else None)"

definition working_outcome :: "GoalTransitionInput \<Rightarrow> outcome" where
  "working_outcome i =
     (let active = goal_status_is_active (normalized_goal_status i) in
      if active \<and> gi_relation i \<noteq> FreshUnrelatedTurn \<and> \<not> campaign_authorized i
      then (NeedsAuthority, ProgressOnly, False, False,
            ''active goal cannot transition autonomously because exact authority is ''
              @ authority_debug (gi_authority i))
      else if gi_budget_exhausted i
      then (BudgetExhausted, TerminalNotice, False, True, ''campaign budget is exhausted'')
      else if gi_no_progress_exhausted i
      then (NoProgressExhausted, TerminalNotice, False, True,
            ''campaign no-progress breaker is exhausted'')
      else if active \<and> campaign_authorized i then active_goal_outcome i
      else plain_turn_outcome i)"

definition transition_outcome :: "GoalTransitionInput \<Rightarrow> outcome" where
  "transition_outcome i =
     (case preempting_outcome i of
        Some r \<Rightarrow> r
      | None \<Rightarrow>
          (case authority_outcome i of
             Some r \<Rightarrow> r
           | None \<Rightarrow>
               (case (if campaign_authorized i then authorized_status_outcome i else None) of
                  Some r \<Rightarrow> r
                | None \<Rightarrow> working_outcome i)))"

definition evaluate_goal_transition :: "GoalTransitionInput \<Rightarrow> GoalTransitionReceiptV1" where
  "evaluate_goal_transition i =
     (case transition_outcome i of (decision, surface, schedule, terminal, reason) \<Rightarrow>
       \<lparr>gr_schema = GOAL_TRANSITION_SCHEMA, gr_slice_schema = GOAL_SLICE_SCHEMA,
        gr_queue_id = gi_queue_id i, gr_event = gi_event i,
        gr_runtime_status = gi_runtime_status i, gr_runtime_reason = gi_runtime_reason i,
        gr_goal_status = gi_goal_status i, gr_lineage_id = gi_lineage_id i,
        gr_campaign_family_id = gi_campaign_family_id i, gr_lane_digest = gi_lane_digest i,
        gr_virtual_session_id = gi_virtual_session_id i,
        gr_backend_context_generation = gi_backend_context_generation i,
        gr_source_thread_id = gi_source_thread_id i, gr_source_turn_id = gi_source_turn_id i,
        gr_backend_goal_ref = gi_backend_goal_ref i,
        gr_correlation_source = gi_correlation_source i, gr_goal_checksum = gi_goal_checksum i,
        gr_source_slice_generation = gi_source_slice_generation i,
        gr_decision_generation = gi_decision_generation i, gr_authority = gi_authority i,
        gr_relation = gi_relation i, gr_decision = decision, gr_surface = surface,
        gr_schedule_continuation = schedule,
        gr_allow_campaign_final = (surface = CampaignFinal), gr_terminal = terminal,
        gr_reason = reason, gr_observed_at_ms = gi_observed_at_ms i\<rparr>)"

text \<open>\<open>record_goal_transition\<close> appends the receipt to \<open>transition-receipts.jsonl\<close>.\<close>

definition record_goal_transition ::
    "(GoalTransitionReceiptV1 \<Rightarrow> string) \<Rightarrow> GoalTransitionReceiptV1 \<Rightarrow> string \<Rightarrow> string" where
  "record_goal_transition enc receipt t = append_jsonl_value enc receipt t"

section \<open>The branches of the table\<close>

definition preempting_event :: "GoalTransitionEventKind \<Rightarrow> bool" where
  "preempting_event e \<longleftrightarrow>
     e \<in> {NewerSteer, OlderCompletion, OperatorStop, AuthDeferred, AuthorityBoundary}"

lemmas goal_status_defs = goal_status_is_active_def goal_status_is_complete_def
  goal_status_is_paused_def goal_status_is_blocked_def goal_status_is_stopped_def
  goal_status_needs_user_def goal_status_needs_authority_def goal_status_needs_operator_auth_def

text \<open>The classes of goal statuses are disjoint, so the order of the tests does not matter.\<close>

lemma active_not_final:
  "goal_status_is_active n \<Longrightarrow> \<not> goal_status_is_complete n"
  "goal_status_is_active n \<Longrightarrow> authorized_status_outcome i = None" if "n = normalized_goal_status i"
  using that by (auto simp: authorized_status_outcome_def Let_def goal_status_defs)

lemma authorized_status_None:
  "authorized_status_outcome i = None \<longleftrightarrow>
     \<not> goal_status_is_recognized (normalized_goal_status i)
     \<or> goal_status_is_active (normalized_goal_status i)"
  by (auto simp: authorized_status_outcome_def goal_status_is_recognized_def Let_def goal_status_defs)

lemma authorized_status_Some:
  "authorized_status_outcome i = Some (d, s, c, t, r) \<Longrightarrow>
     \<not> c \<and> t \<and> s \<in> {CampaignFinal, TerminalNotice}
     \<and> (s = CampaignFinal \<longleftrightarrow> goal_status_is_complete (normalized_goal_status i))"
  by (auto simp: authorized_status_outcome_def Let_def split: if_splits)

lemma preempting_None: "preempting_outcome i = None \<longleftrightarrow> \<not> preempting_event (gi_event i)"
  by (auto simp: preempting_outcome_def preempting_event_def)

lemma authority_None:
  "authority_outcome i = None \<longleftrightarrow>
     gi_relation i = FreshUnrelatedTurn
     \<or> campaign_authorized i \<and> goal_status_is_recognized (normalized_goal_status i)"
  by (cases "gi_relation i") (auto simp: authority_outcome_def campaign_authorized_def)

lemma fresh_not_authorized [simp]: "gi_relation i = FreshUnrelatedTurn \<Longrightarrow> \<not> campaign_authorized i"
  by (simp add: campaign_authorized_def)

text \<open>The five kinds of branches a slice can end in.\<close>

lemma transition_outcome_cases:
  obtains (preempted) r where "preempting_event (gi_event i)"
      and "preempting_outcome i = Some r" and "transition_outcome i = r"
  | (unauthorized) r where "\<not> preempting_event (gi_event i)" and "authority_outcome i = Some r"
      and "gi_relation i \<noteq> FreshUnrelatedTurn"
      and "\<not> (campaign_authorized i \<and> goal_status_is_recognized (normalized_goal_status i))"
      and "transition_outcome i = r"
  | (settled) r where "\<not> preempting_event (gi_event i)" and "campaign_authorized i"
      and "goal_status_is_recognized (normalized_goal_status i)"
      and "\<not> goal_status_is_active (normalized_goal_status i)"
      and "authorized_status_outcome i = Some r" and "transition_outcome i = r"
  | (active) "\<not> preempting_event (gi_event i)" and "campaign_authorized i"
      and "goal_status_is_active (normalized_goal_status i)"
      and "transition_outcome i =
        (if gi_budget_exhausted i
         then (BudgetExhausted, TerminalNotice, False, True, ''campaign budget is exhausted'')
         else if gi_no_progress_exhausted i
         then (NoProgressExhausted, TerminalNotice, False, True,
               ''campaign no-progress breaker is exhausted'')
         else active_goal_outcome i)"
  | (fresh) "\<not> preempting_event (gi_event i)" and "gi_relation i = FreshUnrelatedTurn"
      and "\<not> campaign_authorized i"
      and "transition_outcome i =
        (if gi_budget_exhausted i
         then (BudgetExhausted, TerminalNotice, False, True, ''campaign budget is exhausted'')
         else if gi_no_progress_exhausted i
         then (NoProgressExhausted, TerminalNotice, False, True,
               ''campaign no-progress breaker is exhausted'')
         else plain_turn_outcome i)"
proof (cases "preempting_outcome i")
  case (Some r)
  then have "preempting_event (gi_event i)" by (metis option.distinct(1) preempting_None)
  with Some show ?thesis by (intro preempted) (auto simp: transition_outcome_def)
next
  case pre: None
  then have np: "\<not> preempting_event (gi_event i)" by (simp add: preempting_None)
  show ?thesis
  proof (cases "authority_outcome i")
    case (Some r)
    then have "\<not> (gi_relation i = FreshUnrelatedTurn
      \<or> campaign_authorized i \<and> goal_status_is_recognized (normalized_goal_status i))"
      using authority_None by (metis option.distinct(1))
    with np pre Some show ?thesis by (intro unauthorized) (auto simp: transition_outcome_def)
  next
    case auth: None
    show ?thesis
    proof (cases "campaign_authorized i")
      case False
      then have "gi_relation i = FreshUnrelatedTurn" using auth by (simp add: authority_None)
      with False auth np pre show ?thesis
        by (intro fresh) (auto simp: transition_outcome_def working_outcome_def Let_def)
    next
      case True
      then have rec: "goal_status_is_recognized (normalized_goal_status i)"
        using auth by (auto simp: authority_None)
      show ?thesis
      proof (cases "goal_status_is_active (normalized_goal_status i)")
        case act: True
        then have "authorized_status_outcome i = None" by (simp add: authorized_status_None)
        with act auth np pre True show ?thesis
          by (intro active) (auto simp: transition_outcome_def working_outcome_def Let_def)
      next
        case inact: False
        with rec obtain r where "authorized_status_outcome i = Some r"
          using authorized_status_None by blast
        with inact rec auth np pre True show ?thesis
          by (intro settled) (auto simp: transition_outcome_def)
      qed
    qed
  qed
qed

section \<open>Properties\<close>

lemma evaluate_sel [simp]:
  "gr_decision (evaluate_goal_transition i) = fst (transition_outcome i)"
  "gr_surface (evaluate_goal_transition i) = fst (snd (transition_outcome i))"
  "gr_schedule_continuation (evaluate_goal_transition i) = fst (snd (snd (transition_outcome i)))"
  "gr_terminal (evaluate_goal_transition i) = fst (snd (snd (snd (transition_outcome i))))"
  "gr_allow_campaign_final (evaluate_goal_transition i) \<longleftrightarrow>
     fst (snd (transition_outcome i)) = CampaignFinal"
  by (simp_all add: evaluate_goal_transition_def split: prod.splits)

lemma evaluate_ids [simp]:
  "gr_queue_id (evaluate_goal_transition i) = gi_queue_id i"
  "gr_campaign_family_id (evaluate_goal_transition i) = gi_campaign_family_id i"
  "gr_lane_digest (evaluate_goal_transition i) = gi_lane_digest i"
  "gr_virtual_session_id (evaluate_goal_transition i) = gi_virtual_session_id i"
  "gr_goal_status (evaluate_goal_transition i) = gi_goal_status i"
  "gr_source_slice_generation (evaluate_goal_transition i) = gi_source_slice_generation i"
  "gr_goal_checksum (evaluate_goal_transition i) = gi_goal_checksum i"
  "gr_lineage_id (evaluate_goal_transition i) = gi_lineage_id i"
  by (simp_all add: evaluate_goal_transition_def split: prod.splits)

lemma preempting_Some:
  "preempting_outcome i = Some (d, s, c, t, r) \<Longrightarrow>
     \<not> c \<and> s \<in> {SuppressStale, TerminalNotice, ProgressOnly} \<and> (t \<longleftrightarrow> s \<noteq> ProgressOnly)
     \<and> d \<in> {DecideStop, NeedsOperatorAuth, NeedsAuthority}"
  by (auto simp: preempting_outcome_def split: if_splits)

lemma authority_Some:
  "authority_outcome i = Some (d, s, c, t, r) \<Longrightarrow>
     d = NeedsAuthority \<and> s = ProgressOnly \<and> \<not> c \<and> \<not> t"
  by (auto simp: authority_outcome_def split: if_splits)

lemma campaign_authorized_iff:
  "campaign_authorized i \<longleftrightarrow> gi_authority i = AuthorityReady
     \<and> gi_relation i \<in> {CurrentGoalSlice, AuthorizedCampaignContinuation}"
  by (cases "gi_relation i") (auto simp: campaign_authorized_def)

lemma campaign_final_outcome:
  "fst (snd (transition_outcome i)) = CampaignFinal \<longleftrightarrow> \<not> preempting_event (gi_event i)
     \<and> campaign_authorized i \<and> goal_status_is_complete (normalized_goal_status i)"
proof -
  have rec: "goal_status_is_complete (normalized_goal_status i)
      \<Longrightarrow> goal_status_is_recognized (normalized_goal_status i)"
    by (simp add: goal_status_is_recognized_def)
  have act: "goal_status_is_active (normalized_goal_status i)
      \<Longrightarrow> \<not> goal_status_is_complete (normalized_goal_status i)"
    by (auto simp: goal_status_defs)
  have plain: "fst (snd (active_goal_outcome i)) \<noteq> CampaignFinal"
    "fst (snd (plain_turn_outcome i)) \<noteq> CampaignFinal"
    by (simp_all add: active_goal_outcome_def plain_turn_outcome_def)
  show ?thesis
  proof (cases i rule: transition_outcome_cases)
    case (preempted r)
    then show ?thesis by (cases r) (auto dest: preempting_Some)
  next
    case (unauthorized r)
    then show ?thesis using rec by (cases r) (auto dest: authority_Some)
  next
    case (settled r)
    then show ?thesis by (cases r) (auto dest: authorized_status_Some)
  next
    case active
    then show ?thesis using plain act by simp
  next
    case fresh
    then show ?thesis using plain by simp
  qed
qed

lemma exhausted_not_scheduled:
  "gi_budget_exhausted i \<or> gi_no_progress_exhausted i \<Longrightarrow> \<not> fst (snd (snd (transition_outcome i)))"
proof (cases i rule: transition_outcome_cases)
  case (preempted r)
  then show ?thesis by (cases r) (auto dest: preempting_Some)
next
  case (unauthorized r)
  then show ?thesis by (cases r) (auto dest: authority_Some)
next
  case (settled r)
  then show ?thesis by (cases r) (auto dest: authorized_status_Some)
qed auto

text \<open>A slice of a goal is continued only with authority, and only while the goal is active.\<close>

lemma scheduled_authorized:
  "fst (snd (snd (transition_outcome i))) \<Longrightarrow> gi_relation i \<noteq> FreshUnrelatedTurn \<Longrightarrow>
     campaign_authorized i \<and> goal_status_is_active (normalized_goal_status i)"
proof (cases i rule: transition_outcome_cases)
  case (preempted r)
  then show "fst (snd (snd (transition_outcome i))) \<Longrightarrow> ?thesis" by (cases r) (auto dest: preempting_Some)
next
  case (unauthorized r)
  then show "fst (snd (snd (transition_outcome i))) \<Longrightarrow> ?thesis" by (cases r) (auto dest: authority_Some)
next
  case (settled r)
  then show "fst (snd (snd (transition_outcome i))) \<Longrightarrow> ?thesis" by (cases r) (auto dest: authorized_status_Some)
qed auto

text \<open>
  A campaign is declared final exactly when the slice holds ready authority for its
  campaign, the authoritative goal status reads as complete, and the event neither stops,
  defers nor preempts the slice. No other input allows a campaign-final message.
\<close>

theorem campaign_final_iff:
  "gr_allow_campaign_final (evaluate_goal_transition i) \<longleftrightarrow>
     gi_event i \<notin> {NewerSteer, OlderCompletion, OperatorStop, AuthDeferred, AuthorityBoundary}
     \<and> gi_authority i = AuthorityReady
     \<and> gi_relation i \<in> {CurrentGoalSlice, AuthorizedCampaignContinuation}
     \<and> goal_status_is_complete (normalized_goal_status i)"
  by (simp add: campaign_final_outcome campaign_authorized_iff preempting_event_def)

text \<open>
  C26. Another slice is scheduled exactly in two situations, and never when a budget flag is
  set: an authorised campaign slice whose goal is still active ended without a stopping event
  or a non-retryable failure; or a turn that belongs to no goal rolled over, or was cut off
  while its work can be retried.
\<close>

theorem schedule_continuation_iff:
  "gr_schedule_continuation (evaluate_goal_transition i) \<longleftrightarrow>
     \<not> gi_budget_exhausted i \<and> \<not> gi_no_progress_exhausted i
     \<and> (gi_event i \<notin> {NewerSteer, OlderCompletion, OperatorStop, AuthDeferred, AuthorityBoundary}
           \<and> campaign_authorized i \<and> goal_status_is_active (normalized_goal_status i)
           \<and> (gi_event i \<noteq> RuntimeFailure \<or> gi_retryable_failure i)
        \<or> gi_relation i = FreshUnrelatedTurn
           \<and> (gi_event i = CompactRollover
              \<or> gi_retryable_failure i
                 \<and> (gi_event i \<in> {AbsoluteTimeout, IdleTimeout, ToolTimeout, RuntimeFailure}
                    \<or> gi_event i = ProcessRestart
                       \<and> \<not> eq_ignore_ascii_case (gi_runtime_status i) ''completed'')))"
proof (cases i rule: transition_outcome_cases)
  case (preempted r)
  then show ?thesis
    by (cases r) (auto simp: preempting_event_def dest: preempting_Some)
next
  case (unauthorized r)
  then show ?thesis
    by (cases r) (auto simp: goal_status_is_recognized_def preempting_event_def dest: authority_Some)
next
  case (settled r)
  then show ?thesis
    by (cases r) (auto simp: campaign_authorized_def dest: authorized_status_Some)
next
  case active
  then show ?thesis
    by (auto simp: active_goal_outcome_def preempting_event_def)
next
  case fresh
  then show ?thesis
    by (auto simp: plain_turn_outcome_def)
qed

definition demo_timeout_input :: GoalTransitionInput where
  "demo_timeout_input =
     \<lparr>gi_queue_id = None, gi_event = IdleTimeout, gi_runtime_status = ''failed'', gi_runtime_reason = [],
      gi_goal_status = None, gi_lineage_id = None, gi_campaign_family_id = None, gi_lane_digest = None,
      gi_virtual_session_id = None, gi_backend_context_generation = None, gi_source_thread_id = None,
      gi_source_turn_id = None, gi_backend_goal_ref = None, gi_correlation_source = NoCorrelation,
      gi_goal_checksum = None, gi_source_slice_generation = 0, gi_decision_generation = 0,
      gi_authority = AuthorityReady, gi_relation = FreshUnrelatedTurn, gi_retryable_failure = True,
      gi_context_rollover_required = False, gi_budget_exhausted = False,
      gi_no_progress_exhausted = False, gi_observed_at_ms = 0\<rparr>"

theorem schedule_continuation_iff_witness:
  "gr_schedule_continuation (evaluate_goal_transition demo_timeout_input)
   \<and> \<not> gr_schedule_continuation
         (evaluate_goal_transition (demo_timeout_input\<lparr>gi_budget_exhausted := True\<rparr>))"
  unfolding schedule_continuation_iff by (simp add: demo_timeout_input_def)

text \<open>
  Every receipt is coherent: a slice is terminal exactly when it owns a visible surface,
  only non-terminal slices are continued, a continuation is scheduled exactly for the decisions
  to continue and to roll over, and the fields that identify the slice are those of the input.
\<close>

theorem transition_receipt_coherent:
  "let r = evaluate_goal_transition i in
    (gr_terminal r \<longleftrightarrow> gr_surface r \<noteq> ProgressOnly)
    \<and> \<not> (gr_schedule_continuation r \<and> gr_terminal r)
    \<and> (gr_schedule_continuation r \<longleftrightarrow> gr_decision r \<in> {DecideContinue, Rollover})
    \<and> (gr_surface r = SuppressStale \<longleftrightarrow> gi_event i \<in> {NewerSteer, OlderCompletion})
    \<and> gr_queue_id r = gi_queue_id i \<and> gr_campaign_family_id r = gi_campaign_family_id i
    \<and> gr_source_slice_generation r = gi_source_slice_generation i
    \<and> gr_goal_checksum r = gi_goal_checksum i"
proof -
  obtain d s c t m where o: "transition_outcome i = (d, s, c, t, m)" by (cases "transition_outcome i")
  have "(t \<longleftrightarrow> s \<noteq> ProgressOnly) \<and> \<not> (c \<and> t) \<and> (c \<longleftrightarrow> d \<in> {DecideContinue, Rollover})
      \<and> (s = SuppressStale \<longleftrightarrow> gi_event i \<in> {NewerSteer, OlderCompletion})"
  proof (cases i rule: transition_outcome_cases)
    case (preempted r)
    with o show ?thesis by (auto simp: preempting_outcome_def split: if_splits)
  next
    case (unauthorized r)
    with o show ?thesis by (auto simp: preempting_event_def dest: authority_Some)
  next
    case (settled r)
    with o have "authorized_status_outcome i = Some (d, s, c, t, m)" by simp
    then show ?thesis using settled(1)
      by (auto simp: preempting_event_def authorized_status_outcome_def Let_def split: if_splits)
  next
    case active
    with o show ?thesis
      by (auto simp: preempting_event_def active_goal_outcome_def split: if_splits)
  next
    case fresh
    with o show ?thesis
      by (auto simp: preempting_event_def plain_turn_outcome_def split: if_splits)
  qed
  with o show ?thesis unfolding Let_def by auto
qed

end
