(* ===== verification/Goal_Budget.thy ===== *)
theory Goal_Budget
  imports Replay_Ledger Goal_Transition
begin

text \<open>
  Budgets of goal campaigns (\<open>src/crates/agent-harness-core/src/goal_budget.rs\<close>): the policy
  read from the harness configuration, the accounting of one slice of a campaign against the
  receipts of the slices before it, and the status report.

  The ledger of receipts is the text of a JSONL file; \<open>enc\<close> and \<open>dec\<close> stand for \<open>serde_json\<close>
  on receipts, \<open>dec_value\<close> for its parser of a configuration, \<open>sha256\<close> for the digest of the
  library \<open>ring\<close>. A file that does not exist is the empty text, and reading an existing
  file succeeds. Messages that quote a parser error leave out the parser's own words.
\<close>

section \<open>Policy\<close>

definition GOAL_CAMPAIGN_BUDGET_SCHEMA :: string where
  "GOAL_CAMPAIGN_BUDGET_SCHEMA = ''agent-harness.goal-campaign-budget.v1''"

definition GOAL_CAMPAIGN_STATUS_SCHEMA :: string where
  "GOAL_CAMPAIGN_STATUS_SCHEMA = ''agent-harness.goal-campaign-status.v1''"

definition DEFAULT_GOAL_SLICE_HARD_TIMEOUT_MS :: u64 where
  "DEFAULT_GOAL_SLICE_HARD_TIMEOUT_MS = 30 * 60 * 1000"

definition DEFAULT_GOAL_SLICE_IDLE_TIMEOUT_MS :: u64 where
  "DEFAULT_GOAL_SLICE_IDLE_TIMEOUT_MS = 5 * 60 * 1000"

definition DEFAULT_GOAL_SLICE_DRAIN_WINDOW_MS :: u64 where
  "DEFAULT_GOAL_SLICE_DRAIN_WINDOW_MS = 3 * 60 * 1000"

definition DEFAULT_GOAL_WALL_CLOCK_BUDGET_MS :: u64 where
  "DEFAULT_GOAL_WALL_CLOCK_BUDGET_MS = 48 * 60 * 60 * 1000"

definition DEFAULT_GOAL_MAX_SLICES :: u64 where
  "DEFAULT_GOAL_MAX_SLICES = 96"

definition DEFAULT_GOAL_MAX_TOTAL_TOKENS :: u64 where
  "DEFAULT_GOAL_MAX_TOTAL_TOKENS = 100000000"

definition DEFAULT_GOAL_MAX_NO_PROGRESS_SLICES :: u64 where
  "DEFAULT_GOAL_MAX_NO_PROGRESS_SLICES = 6"

definition DEFAULT_GOAL_MAX_RECOVERY_SLICES :: u64 where
  "DEFAULT_GOAL_MAX_RECOVERY_SLICES = 12"

datatype GoalCampaignBudgetBoundary =
    WithinBudget | WallClock | SliceCount | TokenCost | NoProgress | RecoveryCount

record GoalCampaignPolicyV1 =
  gp_mode :: string
  gp_active_lane_digests :: "string list"
  gp_slice_hard_timeout_ms :: u64
  gp_slice_idle_timeout_ms :: u64
  gp_slice_drain_window_ms :: u64
  gp_wall_clock_budget_ms :: u64
  gp_max_slices :: u64
  gp_max_total_tokens :: u64
  gp_max_no_progress_slices :: u64
  gp_max_recovery_slices :: u64

definition default_policy :: GoalCampaignPolicyV1 where
  "default_policy = \<lparr>gp_mode = ''observe'', gp_active_lane_digests = [],
     gp_slice_hard_timeout_ms = DEFAULT_GOAL_SLICE_HARD_TIMEOUT_MS,
     gp_slice_idle_timeout_ms = DEFAULT_GOAL_SLICE_IDLE_TIMEOUT_MS,
     gp_slice_drain_window_ms = DEFAULT_GOAL_SLICE_DRAIN_WINDOW_MS,
     gp_wall_clock_budget_ms = DEFAULT_GOAL_WALL_CLOCK_BUDGET_MS,
     gp_max_slices = DEFAULT_GOAL_MAX_SLICES,
     gp_max_total_tokens = DEFAULT_GOAL_MAX_TOTAL_TOKENS,
     gp_max_no_progress_slices = DEFAULT_GOAL_MAX_NO_PROGRESS_SLICES,
     gp_max_recovery_slices = DEFAULT_GOAL_MAX_RECOVERY_SLICES\<rparr>"

definition invalid_policy :: "string \<Rightarrow> io_error" where
  "invalid_policy message = IoError InvalidData message"

definition policy_validate :: "GoalCampaignPolicyV1 \<Rightarrow> io_error + unit" where
  "policy_validate p =
     (if gp_mode p \<notin> set [''disabled'', ''observe'', ''active'']
      then Inl (invalid_policy ''mode must be disabled, observe, or active'')
      else if \<not> (30 * 60 * 1000 \<le> gp_slice_hard_timeout_ms p
                \<and> gp_slice_hard_timeout_ms p \<le> 45 * 60 * 1000)
      then Inl (invalid_policy ''sliceHardTimeoutMs must be between 30 and 45 minutes'')
      else if gp_slice_idle_timeout_ms p < 60000
              \<or> gp_slice_hard_timeout_ms p \<le> gp_slice_idle_timeout_ms p
      then Inl (invalid_policy
        ''sliceIdleTimeoutMs must be at least 60000 and below sliceHardTimeoutMs'')
      else if gp_slice_drain_window_ms p
              \<noteq> min (gp_slice_hard_timeout_ms p div 10) (3 * 60 * 1000)
      then Inl (invalid_policy
        ''sliceDrainWindowMs must equal min(sliceHardTimeoutMs / 10, 180000)'')
      else if gp_wall_clock_budget_ms p < gp_slice_hard_timeout_ms p
              \<or> DEFAULT_GOAL_WALL_CLOCK_BUDGET_MS < gp_wall_clock_budget_ms p
      then Inl (invalid_policy
        ''wallClockBudgetMs must cover one slice and may not exceed 48 hours'')
      else if gp_max_slices p = 0 \<or> gp_max_total_tokens p = 0
              \<or> gp_max_no_progress_slices p = 0 \<or> gp_max_recovery_slices p = 0
      then Inl (invalid_policy
        ''campaign slice/token/no-progress/recovery budgets must be non-zero'')
      else if gp_mode p = ''active'' \<and> gp_active_lane_digests p = []
      then Inl (invalid_policy
        ''active mode requires at least one exact activeLaneDigests entry'')
      else if list_ex (\<lambda>v. length v \<noteq> 64 \<or> \<not> list_all is_lower_hex_byte v)
                (gp_active_lane_digests p)
      then Inl (invalid_policy
        ''activeLaneDigests entries must be lowercase 64-character SHA-256 digests'')
      else Inr ())"

definition effective_timeouts :: "GoalCampaignPolicyV1 \<Rightarrow> u64 \<Rightarrow> u64 \<Rightarrow> u64 \<times> u64" where
  "effective_timeouts p requested_hard_ms requested_idle_ms =
     (min requested_hard_ms (gp_slice_hard_timeout_ms p),
      min requested_idle_ms (gp_slice_idle_timeout_ms p))"

definition apply_u64 :: "(string \<times> Value) list \<Rightarrow> string \<Rightarrow> u64 \<Rightarrow> io_error + u64" where
  "apply_u64 object key target =
     (case map_of object key of
        None \<Rightarrow> Inr target
      | Some v \<Rightarrow>
          (case as_u64 v of
             Some n \<Rightarrow> Inr n
           | None \<Rightarrow> Inl (IoError InvalidData
               (''goalAutonomy.'' @ key @ '' must be an unsigned integer''))))"

text \<open>The eight settings of type \<open>u64\<close>, in the order in which they are read.\<close>

definition policy_settings ::
    "(string \<times> (GoalCampaignPolicyV1 \<Rightarrow> u64) \<times> (u64 \<Rightarrow> GoalCampaignPolicyV1 \<Rightarrow> GoalCampaignPolicyV1)) list" where
  "policy_settings =
     [(''sliceHardTimeoutMs'', gp_slice_hard_timeout_ms, \<lambda>n. gp_slice_hard_timeout_ms_update (\<lambda>_. n)),
      (''sliceIdleTimeoutMs'', gp_slice_idle_timeout_ms, \<lambda>n. gp_slice_idle_timeout_ms_update (\<lambda>_. n)),
      (''sliceDrainWindowMs'', gp_slice_drain_window_ms, \<lambda>n. gp_slice_drain_window_ms_update (\<lambda>_. n)),
      (''wallClockBudgetMs'', gp_wall_clock_budget_ms, \<lambda>n. gp_wall_clock_budget_ms_update (\<lambda>_. n)),
      (''maxSlices'', gp_max_slices, \<lambda>n. gp_max_slices_update (\<lambda>_. n)),
      (''maxTotalTokens'', gp_max_total_tokens, \<lambda>n. gp_max_total_tokens_update (\<lambda>_. n)),
      (''maxNoProgressSlices'', gp_max_no_progress_slices, \<lambda>n. gp_max_no_progress_slices_update (\<lambda>_. n)),
      (''maxRecoverySlices'', gp_max_recovery_slices, \<lambda>n. gp_max_recovery_slices_update (\<lambda>_. n))]"

fun apply_settings ::
    "(string \<times> Value) list
      \<Rightarrow> (string \<times> (GoalCampaignPolicyV1 \<Rightarrow> u64) \<times> (u64 \<Rightarrow> GoalCampaignPolicyV1 \<Rightarrow> GoalCampaignPolicyV1)) list
      \<Rightarrow> GoalCampaignPolicyV1 \<Rightarrow> io_error + GoalCampaignPolicyV1" where
  "apply_settings object [] p = Inr p"
| "apply_settings object ((key, get, upd) # rest) p =
     (case apply_u64 object key (get p) of
        Inl e \<Rightarrow> Inl e
      | Inr n \<Rightarrow> apply_settings object rest (upd n p))"

definition policy_mode_and_lanes :: "(string \<times> Value) list \<Rightarrow> GoalCampaignPolicyV1" where
  "policy_mode_and_lanes object =
     (let p = default_policy;
          p = (case Option.bind (map_of object ''mode'') as_str of
                 Some v \<Rightarrow> p\<lparr>gp_mode := to_ascii_lowercase v\<rparr> | None \<Rightarrow> p);
          p = (case Option.bind (map_of object ''activeLaneDigests'') as_array of
                 Some vs \<Rightarrow> p\<lparr>gp_active_lane_digests := List.map_filter as_str vs\<rparr> | None \<Rightarrow> p)
      in p)"

definition load_goal_campaign_policy ::
    "(string \<Rightarrow> Value option) \<Rightarrow> io_error + string \<Rightarrow> io_error + GoalCampaignPolicyV1" where
  "load_goal_campaign_policy dec_value config =
     (case config of
        Inl e \<Rightarrow> if io_error_kind e = NotFound then Inr default_policy else Inl e
      | Inr bytes \<Rightarrow>
          (case dec_value bytes of
             None \<Rightarrow> Inl (IoError InvalidData ''invalid JSON'')
           | Some value \<Rightarrow>
               (case Option.bind (value_get ''goalAutonomy'' value) as_object of
                  None \<Rightarrow> Inr default_policy
                | Some object \<Rightarrow>
                    (case apply_settings object policy_settings (policy_mode_and_lanes object) of
                       Inl e \<Rightarrow> Inl e
                     | Inr p \<Rightarrow> (case policy_validate p of Inl e \<Rightarrow> Inl e | Inr _ \<Rightarrow> Inr p)))))"

definition current_goal_campaign_timeouts ::
    "(string \<Rightarrow> Value option) \<Rightarrow> io_error + string \<Rightarrow> u64 \<Rightarrow> u64
      \<Rightarrow> io_error + GoalCampaignPolicyV1 \<times> u64 \<times> u64" where
  "current_goal_campaign_timeouts dec_value config requested_hard_ms requested_idle_ms =
     (case load_goal_campaign_policy dec_value config of
        Inl e \<Rightarrow> Inl e
      | Inr policy \<Rightarrow> Inr (policy, effective_timeouts policy requested_hard_ms requested_idle_ms))"

section \<open>Receipts\<close>

record GoalCampaignBudgetInput =
  bi_campaign_family_id :: string
  bi_lane_digest :: string
  bi_virtual_session_id :: string
  bi_queue_id :: "string option"
  bi_goal_checksum :: "string option"
  bi_source_slice_generation :: u64
  bi_event :: GoalTransitionEventKind
  bi_slice_elapsed_ms :: u64
  bi_slice_tokens :: u64
  bi_output_tokens :: u64
  bi_event_count :: nat
  bi_runtime_status :: string
  bi_recovery_slice :: bool
  bi_now_ms :: int

record GoalCampaignBudgetReceiptV1 =
  br_schema :: string
  br_campaign_family_id :: string
  br_lane_digest :: string
  br_virtual_session_id :: string
  br_queue_id :: "string option"
  br_goal_checksum :: "string option"
  br_source_slice_generation :: u64
  br_event :: GoalTransitionEventKind
  br_mode :: string
  br_slice_hard_timeout_ms :: u64
  br_slice_idle_timeout_ms :: u64
  br_slice_drain_window_ms :: u64
  br_wall_clock_budget_ms :: u64
  br_max_slices :: u64
  br_max_total_tokens :: u64
  br_max_no_progress_slices :: u64
  br_max_recovery_slices :: u64
  br_campaign_started_at_ms :: int
  br_campaign_elapsed_ms :: u64
  br_slices_observed :: u64
  br_total_tokens_observed :: u64
  br_consecutive_no_progress_slices :: u64
  br_recovery_slices_observed :: u64
  br_slice_elapsed_ms :: u64
  br_slice_tokens :: u64
  br_progress_fingerprint :: string
  br_boundary :: GoalCampaignBudgetBoundary
  br_budget_exhausted :: bool
  br_no_progress_exhausted :: bool
  br_observed_at_ms :: int

text \<open>The separator U+001F of the canonical text.\<close>

definition us :: string where
  "us = [CHR 0x1F]"

definition progress_fingerprint :: "(string \<Rightarrow> string) \<Rightarrow> GoalCampaignBudgetInput \<Rightarrow> string" where
  "progress_fingerprint sha256 i =
     hex_encode (sha256
       (case_option [] id (bi_goal_checksum i) @ us @ show_u64 (bi_output_tokens i) @ us
        @ show_nat (bi_event_count i) @ us @ bi_runtime_status i))"

fun read_budget_lines ::
    "(string \<Rightarrow> GoalCampaignBudgetReceiptV1 option) \<Rightarrow> nat \<Rightarrow> string list
      \<Rightarrow> io_error + GoalCampaignBudgetReceiptV1 list" where
  "read_budget_lines dec index [] = Inr []"
| "read_budget_lines dec index (l # ls) =
     (if is_blank l then read_budget_lines dec (index + 1) ls
      else case dec l of
        None \<Rightarrow> Inl (IoError InvalidData
          (''invalid goal campaign budget receipt at line '' @ show_nat (index + 1)))
      | Some receipt \<Rightarrow>
          if br_schema receipt \<noteq> GOAL_CAMPAIGN_BUDGET_SCHEMA
          then Inl (IoError InvalidData
            (''unsupported goal campaign budget schema '' @ br_schema receipt))
          else (case read_budget_lines dec (index + 1) ls of
            Inl e \<Rightarrow> Inl e
          | Inr rs \<Rightarrow> Inr (receipt # rs)))"

definition read_budget_receipts ::
    "(string \<Rightarrow> GoalCampaignBudgetReceiptV1 option) \<Rightarrow> string
      \<Rightarrow> io_error + GoalCampaignBudgetReceiptV1 list" where
  "read_budget_receipts dec t = read_budget_lines dec 0 (text_lines t)"

section \<open>Accounting of a slice\<close>

definition input_gap :: "GoalCampaignBudgetInput \<Rightarrow> string option" where
  "input_gap i =
     map_option fst (find (\<lambda>(name, v). is_blank v)
       [(''campaignFamilyId'', bi_campaign_family_id i), (''laneDigest'', bi_lane_digest i),
        (''virtualSessionId'', bi_virtual_session_id i)])"

definition answers :: "GoalCampaignBudgetInput \<Rightarrow> GoalCampaignBudgetReceiptV1 \<Rightarrow> bool" where
  "answers i r \<longleftrightarrow>
     br_campaign_family_id r = bi_campaign_family_id i \<and> br_queue_id r = bi_queue_id i
     \<and> br_source_slice_generation r = bi_source_slice_generation i
     \<and> br_goal_checksum r = bi_goal_checksum i"

definition is_recovery_slice :: "GoalCampaignBudgetInput \<Rightarrow> bool" where
  "is_recovery_slice i \<longleftrightarrow>
     bi_recovery_slice i \<or> bi_event i \<in> {CompactRollover, ProcessRestart, ToolTimeout}"

definition no_progress_count ::
    "GoalCampaignBudgetReceiptV1 option \<Rightarrow> string \<Rightarrow> nat \<Rightarrow> u64" where
  "no_progress_count previous fingerprint event_count =
     (case previous of
        None \<Rightarrow> 0
      | Some r \<Rightarrow>
          if br_progress_fingerprint r = fingerprint \<or> event_count = 0
          then sat_add (br_consecutive_no_progress_slices r) 1 else 0)"

definition budget_boundary ::
    "GoalCampaignPolicyV1 \<Rightarrow> u64 \<Rightarrow> u64 \<Rightarrow> u64 \<Rightarrow> u64 \<Rightarrow> u64 \<Rightarrow> GoalCampaignBudgetBoundary" where
  "budget_boundary p elapsed slices tokens no_progress recovery =
     (if gp_wall_clock_budget_ms p \<le> elapsed then WallClock
      else if gp_max_slices p \<le> slices then SliceCount
      else if gp_max_total_tokens p \<le> tokens then TokenCost
      else if gp_max_no_progress_slices p \<le> no_progress then NoProgress
      else if gp_max_recovery_slices p \<le> recovery then RecoveryCount
      else WithinBudget)"

definition budget_receipt ::
    "(string \<Rightarrow> string) \<Rightarrow> GoalCampaignPolicyV1 \<Rightarrow> GoalCampaignBudgetInput
      \<Rightarrow> GoalCampaignBudgetReceiptV1 option \<Rightarrow> GoalCampaignBudgetReceiptV1" where
  "budget_receipt sha256 p i previous =
     (let fingerprint = progress_fingerprint sha256 i;
          started = (case previous of Some r \<Rightarrow> br_campaign_started_at_ms r | None \<Rightarrow> bi_now_ms i);
          elapsed = (of_int (max 0 (sat_sub_i64 (bi_now_ms i) started)) :: u64);
          slices = sat_add (case_option 0 br_slices_observed previous) 1;
          tokens = sat_add (case_option 0 br_total_tokens_observed previous) (bi_slice_tokens i);
          no_progress = no_progress_count previous fingerprint (bi_event_count i);
          recovery = sat_add (case_option 0 br_recovery_slices_observed previous)
            (if is_recovery_slice i then 1 else 0);
          boundary = budget_boundary p elapsed slices tokens no_progress recovery
      in \<lparr>br_schema = GOAL_CAMPAIGN_BUDGET_SCHEMA,
          br_campaign_family_id = bi_campaign_family_id i, br_lane_digest = bi_lane_digest i,
          br_virtual_session_id = bi_virtual_session_id i, br_queue_id = bi_queue_id i,
          br_goal_checksum = bi_goal_checksum i,
          br_source_slice_generation = bi_source_slice_generation i, br_event = bi_event i,
          br_mode = gp_mode p, br_slice_hard_timeout_ms = gp_slice_hard_timeout_ms p,
          br_slice_idle_timeout_ms = gp_slice_idle_timeout_ms p,
          br_slice_drain_window_ms = gp_slice_drain_window_ms p,
          br_wall_clock_budget_ms = gp_wall_clock_budget_ms p, br_max_slices = gp_max_slices p,
          br_max_total_tokens = gp_max_total_tokens p,
          br_max_no_progress_slices = gp_max_no_progress_slices p,
          br_max_recovery_slices = gp_max_recovery_slices p,
          br_campaign_started_at_ms = started, br_campaign_elapsed_ms = elapsed,
          br_slices_observed = slices, br_total_tokens_observed = tokens,
          br_consecutive_no_progress_slices = no_progress,
          br_recovery_slices_observed = recovery, br_slice_elapsed_ms = bi_slice_elapsed_ms i,
          br_slice_tokens = bi_slice_tokens i, br_progress_fingerprint = fingerprint,
          br_boundary = boundary,
          br_budget_exhausted = (boundary \<in> {WallClock, SliceCount, TokenCost, RecoveryCount}),
          br_no_progress_exhausted = (boundary = NoProgress),
          br_observed_at_ms = bi_now_ms i\<rparr>)"

text \<open>
  \<open>evaluate_goal_campaign_budget\<close>: the text of the receipts file afterwards and the result.
\<close>

definition evaluate_goal_campaign_budget ::
    "(GoalCampaignBudgetReceiptV1 \<Rightarrow> string) \<Rightarrow> (string \<Rightarrow> GoalCampaignBudgetReceiptV1 option)
      \<Rightarrow> (string \<Rightarrow> string) \<Rightarrow> GoalCampaignPolicyV1 \<Rightarrow> GoalCampaignBudgetInput \<Rightarrow> string
      \<Rightarrow> string \<times> (io_error + GoalCampaignBudgetReceiptV1)" where
  "evaluate_goal_campaign_budget enc dec sha256 p i t =
     (case policy_validate p of
        Inl e \<Rightarrow> (t, Inl e)
      | Inr _ \<Rightarrow>
          (case input_gap i of
             Some name \<Rightarrow> (t, Inl (IoError InvalidData (''goal campaign budget lacks exact '' @ name)))
           | None \<Rightarrow>
               (case read_budget_receipts dec t of
                  Inl e \<Rightarrow> (t, Inl e)
                | Inr receipts \<Rightarrow>
                    (case find (answers i) (rev receipts) of
                       Some existing \<Rightarrow> (t, Inr existing)
                     | None \<Rightarrow>
                         let previous = find (\<lambda>r. br_campaign_family_id r = bi_campaign_family_id i)
                               (rev receipts);
                             receipt = budget_receipt sha256 p i previous
                         in (append_jsonl_value enc receipt t, Inr receipt)))))"

section \<open>Status\<close>

record GoalCampaignStatusReportV1 =
  gs_schema :: string
  gs_read_only :: bool
  gs_policy :: GoalCampaignPolicyV1
  gs_receipts_file :: string
  gs_campaigns :: "GoalCampaignBudgetReceiptV1 list"
  gs_observed_at_ms :: int

definition latest_by_family ::
    "GoalCampaignBudgetReceiptV1 list \<Rightarrow> (string \<times> GoalCampaignBudgetReceiptV1) list" where
  "latest_by_family rs = fold (\<lambda>r. btree_insert (br_campaign_family_id r) r) rs []"

definition collect_goal_campaign_status ::
    "(string \<Rightarrow> Value option) \<Rightarrow> (string \<Rightarrow> GoalCampaignBudgetReceiptV1 option)
      \<Rightarrow> io_error + string \<Rightarrow> string \<Rightarrow> int \<Rightarrow> string \<Rightarrow> io_error + GoalCampaignStatusReportV1" where
  "collect_goal_campaign_status dec_value dec config receipts_file now t =
     (case load_goal_campaign_policy dec_value config of
        Inl e \<Rightarrow> Inl e
      | Inr policy \<Rightarrow>
          (case read_budget_receipts dec t of
             Inl e \<Rightarrow> Inl e
           | Inr receipts \<Rightarrow>
               Inr \<lparr>gs_schema = GOAL_CAMPAIGN_STATUS_SCHEMA, gs_read_only = True,
                 gs_policy = policy, gs_receipts_file = receipts_file,
                 gs_campaigns = btree_values (latest_by_family receipts),
                 gs_observed_at_ms = now\<rparr>))"

end
