(* ===== verification/Goal_Budget_Props.thy ===== *)
theory Goal_Budget_Props
  imports Goal_Budget
begin

text \<open>
  Lemmas and properties of the campaign budgets. The text of the receipts file is related to
  the list of receipts it holds (\<open>read_budget_receipts_readable\<close>), the accounting is shown to be
  a replay-safe ledger (the interpretation \<open>campaign_ledger\<close>), and the counters of the latest
  receipt of a campaign are shown to be the exact totals over the campaign's receipts.
\<close>

section \<open>Reading the receipts\<close>

abbreviation "receipt_ok r \<equiv> br_schema r = GOAL_CAMPAIGN_BUDGET_SCHEMA"

lemma read_budget_lines_Inr_iff:
  "read_budget_lines dec n ls = Inr rs \<longleftrightarrow>
     (\<forall>l \<in> set (filter (\<lambda>l. \<not> is_blank l) ls). \<exists>r. dec l = Some r \<and> receipt_ok r)
     \<and> rs = List.map_filter dec (filter (\<lambda>l. \<not> is_blank l) ls)"
proof (induction ls arbitrary: n rs)
  case (Cons l ls)
  show ?case
  proof (cases "is_blank l \<or> dec l = None")
    case True
    with Cons show ?thesis by (auto simp: List.map_filter_simps)
  next
    case False
    then obtain r where r: "\<not> is_blank l" "dec l = Some r" by auto
    show ?thesis
    proof (cases "read_budget_lines dec (n + 1) ls")
      case (Inl e)
      with Cons.IH [of "n + 1"] r show ?thesis by (auto simp: List.map_filter_simps)
    next
      case (Inr rs')
      with Cons.IH [of "n + 1" rs'] r show ?thesis by (auto simp: List.map_filter_simps)
    qed
  qed
qed (auto simp: List.map_filter_simps)

lemma read_budget_receipts_readable:
  "readable dec receipt_ok t \<Longrightarrow> read_budget_receipts dec t = Inr (parsed_rows dec t)"
  unfolding read_budget_receipts_def read_budget_lines_Inr_iff
  by (simp add: readable_def parsed_rows_def jsonl_lines_def)

lemma answers_eq: "answers i r \<Longrightarrow> answers j r \<Longrightarrow> answers i = answers j"
  by (auto simp: answers_def fun_eq_iff)

lemma budget_receipt_answers [simp]:
  "answers i (budget_receipt sha256 p i prev)" "receipt_ok (budget_receipt sha256 p i prev)"
  "br_campaign_family_id (budget_receipt sha256 p i prev) = bi_campaign_family_id i"
  by (simp_all add: answers_def budget_receipt_def Let_def)

section \<open>The accounting is a replay-safe ledger\<close>

definition budget_file_ok ::
    "(GoalCampaignBudgetReceiptV1 \<Rightarrow> string) \<Rightarrow> (string \<Rightarrow> GoalCampaignBudgetReceiptV1 option)
      \<Rightarrow> string \<Rightarrow> bool" where
  "budget_file_ok enc dec t \<longleftrightarrow> readable dec receipt_ok t \<and> (\<forall>r. codec_ok enc dec r)"

abbreviation record_slice ::
    "(GoalCampaignBudgetReceiptV1 \<Rightarrow> string) \<Rightarrow> (string \<Rightarrow> GoalCampaignBudgetReceiptV1 option)
      \<Rightarrow> (string \<Rightarrow> string) \<Rightarrow> GoalCampaignPolicyV1 \<times> GoalCampaignBudgetInput \<Rightarrow> string \<Rightarrow> string" where
  "record_slice enc dec sha256 q t \<equiv>
     fst (evaluate_goal_campaign_budget enc dec sha256 (fst q) (snd q) t)"

abbreviation request_ok :: "GoalCampaignPolicyV1 \<times> GoalCampaignBudgetInput \<Rightarrow> bool" where
  "request_ok q \<equiv> policy_validate (fst q) = Inr () \<and> input_gap (snd q) = None"

abbreviation of_family :: "string \<Rightarrow> GoalCampaignBudgetReceiptV1 \<Rightarrow> bool" where
  "of_family f r \<equiv> br_campaign_family_id r = f"

lemma evaluate_refused:
  "\<not> request_ok (p, i) \<Longrightarrow> \<exists>e. evaluate_goal_campaign_budget enc dec sha256 p i t = (t, Inl e)"
  by (auto simp: evaluate_goal_campaign_budget_def split: sum.splits option.splits)

lemma evaluate_accepted:
  assumes "budget_file_ok enc dec t" and "request_ok (p, i)"
  shows "evaluate_goal_campaign_budget enc dec sha256 p i t =
    (case find (answers i) (rev (parsed_rows dec t)) of
       Some r \<Rightarrow> (t, Inr r)
     | None \<Rightarrow>
         let r = budget_receipt sha256 p i
               (find (of_family (bi_campaign_family_id i)) (rev (parsed_rows dec t)))
         in (append_jsonl_value enc r t, Inr r))"
  using assms
  by (simp add: evaluate_goal_campaign_budget_def budget_file_ok_def read_budget_receipts_readable
      Let_def split: option.split)

interpretation campaign_ledger: replay_ledger "parsed_rows dec" "budget_file_ok enc dec"
  "record_slice enc dec sha256" request_ok "\<lambda>q. answers (snd q)"
  for enc dec sha256
proof unfold_locales
  fix t and q :: "GoalCampaignPolicyV1 \<times> GoalCampaignBudgetInput"
  assume "\<not> request_ok q"
  with evaluate_refused [of "fst q" "snd q" enc dec sha256 t] show "record_slice enc dec sha256 q t = t"
    by auto
next
  fix t r and q :: "GoalCampaignPolicyV1 \<times> GoalCampaignBudgetInput"
  assume "budget_file_ok enc dec t" "r \<in> set (parsed_rows dec t)" "answers (snd q) r"
  moreover from this have "find (answers (snd q)) (rev (parsed_rows dec t)) \<noteq> None"
    by (auto simp: find_None_iff)
  ultimately show "record_slice enc dec sha256 q t = t"
    using evaluate_refused [of "fst q" "snd q" enc dec sha256 t]
      evaluate_accepted [of enc dec t "fst q" "snd q" sha256]
    by (cases "request_ok q") (auto split: option.splits)
next
  fix t and q :: "GoalCampaignPolicyV1 \<times> GoalCampaignBudgetInput"
  assume ok: "budget_file_ok enc dec t" "request_ok q"
    and no: "\<forall>r \<in> set (parsed_rows dec t). \<not> answers (snd q) r"
  let ?r = "budget_receipt sha256 (fst q) (snd q)
    (find (of_family (bi_campaign_family_id (snd q))) (rev (parsed_rows dec t)))"
  from no have "find (answers (snd q)) (rev (parsed_rows dec t)) = None"
    by (auto simp: find_None_iff)
  then have f: "record_slice enc dec sha256 q t = append_jsonl_value enc ?r t"
    using evaluate_accepted [of enc dec t "fst q" "snd q" sha256] ok by (simp add: Let_def)
  have c: "readable dec receipt_ok t" "codec_ok enc dec ?r" using ok by (auto simp: budget_file_ok_def)
  show "budget_file_ok enc dec (record_slice enc dec sha256 q t) \<and>
      (\<exists>r. answers (snd q) r \<and> parsed_rows dec (record_slice enc dec sha256 q t) = parsed_rows dec t @ [r])"
    unfolding f using c ok(1) readable_append [OF c] parsed_rows_append [OF c]
    by (auto simp: budget_file_ok_def)
qed

section \<open>The counters are exact totals\<close>

definition counters_ok :: "GoalCampaignBudgetReceiptV1 list \<Rightarrow> bool" where
  "counters_ok rs \<longleftrightarrow> (\<forall>f r. find (of_family f) (rev rs) = Some r \<longrightarrow>
     unat (br_slices_observed r) = min (length (filter (of_family f) rs)) (2 ^ 64 - 1)
     \<and> br_total_tokens_observed r = sat_sum br_slice_tokens (filter (of_family f) rs) 0
     \<and> br_campaign_started_at_ms r = br_observed_at_ms (hd (filter (of_family f) rs)))"

definition receipt_coherent :: "GoalCampaignBudgetReceiptV1 \<Rightarrow> bool" where
  "receipt_coherent r \<longleftrightarrow>
     (br_budget_exhausted r \<longleftrightarrow> br_boundary r \<in> {WallClock, SliceCount, TokenCost, RecoveryCount})
     \<and> (br_no_progress_exhausted r \<longleftrightarrow> br_boundary r = NoProgress)
     \<and> (br_boundary r = WithinBudget \<longleftrightarrow>
          br_campaign_elapsed_ms r < br_wall_clock_budget_ms r
          \<and> br_slices_observed r < br_max_slices r
          \<and> br_total_tokens_observed r < br_max_total_tokens r
          \<and> br_consecutive_no_progress_slices r < br_max_no_progress_slices r
          \<and> br_recovery_slices_observed r < br_max_recovery_slices r)"

lemma budget_boundary_within:
  "budget_boundary p elapsed slices tokens no_progress recovery = WithinBudget \<longleftrightarrow>
     elapsed < gp_wall_clock_budget_ms p \<and> slices < gp_max_slices p
     \<and> tokens < gp_max_total_tokens p \<and> no_progress < gp_max_no_progress_slices p
     \<and> recovery < gp_max_recovery_slices p"
  by (auto simp: budget_boundary_def not_le)

lemma receipt_coherent_budget_receipt: "receipt_coherent (budget_receipt sha256 p i prev)"
  by (simp add: receipt_coherent_def budget_receipt_def Let_def budget_boundary_within)

lemma find_rev_None_filter: "find P (rev xs) = None \<longleftrightarrow> filter P xs = []"
  by (auto simp: find_None_iff filter_empty_conv)

lemma find_rev_Some_filter: "find P (rev xs) = Some x \<Longrightarrow> filter P xs \<noteq> []"
  by (metis find_rev_None_filter option.distinct(1))

lemma counters_ok_snoc:
  assumes "counters_ok rs"
  shows "counters_ok (rs @ [budget_receipt sha256 p i
           (find (of_family (bi_campaign_family_id i)) (rev rs))])"
    (is "counters_ok (rs @ [?r])")
  unfolding counters_ok_def
proof (intro allI impI)
  fix f r
  let ?prev = "find (of_family (bi_campaign_family_id i)) (rev rs)"
  assume a: "find (of_family f) (rev (rs @ [?r])) = Some r"
  show "unat (br_slices_observed r) = min (length (filter (of_family f) (rs @ [?r]))) (2 ^ 64 - 1)
     \<and> br_total_tokens_observed r = sat_sum br_slice_tokens (filter (of_family f) (rs @ [?r])) 0
     \<and> br_campaign_started_at_ms r = br_observed_at_ms (hd (filter (of_family f) (rs @ [?r])))"
  proof (cases "f = bi_campaign_family_id i")
    case False
    then have "\<not> of_family f ?r" by simp
    with a assms show ?thesis by (simp add: counters_ok_def)
  next
    case fam: True
    with a have r: "r = ?r" by simp
    have sel: "br_slices_observed ?r = sat_add (case_option 0 br_slices_observed ?prev) 1"
      "br_total_tokens_observed ?r =
         sat_add (case_option 0 br_total_tokens_observed ?prev) (br_slice_tokens ?r)"
      "br_campaign_started_at_ms ?r =
         (case ?prev of Some r \<Rightarrow> br_campaign_started_at_ms r | None \<Rightarrow> br_observed_at_ms ?r)"
      by (simp_all add: budget_receipt_def Let_def split: option.split)
    show ?thesis
    proof (cases ?prev)
      case None
      then have "filter (of_family f) rs = []" using fam by (simp add: find_rev_None_filter)
      with fam None r sel show ?thesis by (simp add: unat_sat_add sat_sum_def)
    next
      case (Some q)
      then have ne: "filter (of_family f) rs \<noteq> []" using fam by (simp add: find_rev_Some_filter)
      from Some fam assms have q:
        "unat (br_slices_observed q) = min (length (filter (of_family f) rs)) (2 ^ 64 - 1)"
        "br_total_tokens_observed q = sat_sum br_slice_tokens (filter (of_family f) rs) 0"
        "br_campaign_started_at_ms q = br_observed_at_ms (hd (filter (of_family f) rs))"
        by (auto simp: counters_ok_def)
      with fam Some r sel ne show ?thesis by (simp add: unat_sat_add sat_sum_snoc)
    qed
  qed
qed

lemma record_slice_rows:
  assumes "budget_file_ok enc dec t"
  shows "parsed_rows dec (record_slice enc dec sha256 q t) = parsed_rows dec t
    \<or> parsed_rows dec (record_slice enc dec sha256 q t) = parsed_rows dec t @ [budget_receipt sha256
      (fst q) (snd q) (find (of_family (bi_campaign_family_id (snd q))) (rev (parsed_rows dec t)))]"
proof (cases "request_ok q \<and> find (answers (snd q)) (rev (parsed_rows dec t)) = None")
  case True
  then have "record_slice enc dec sha256 q t = append_jsonl_value enc (budget_receipt sha256
      (fst q) (snd q) (find (of_family (bi_campaign_family_id (snd q))) (rev (parsed_rows dec t)))) t"
    using evaluate_accepted [OF assms, of "fst q" "snd q" sha256] by (simp add: Let_def)
  with assms show ?thesis
    by (simp add: budget_file_ok_def parsed_rows_append [where okr = receipt_ok])
next
  case False
  have "record_slice enc dec sha256 q t = t"
  proof (cases "request_ok q")
    case True
    then show ?thesis using False evaluate_accepted [OF assms, of "fst q" "snd q" sha256]
      by (auto split: option.splits)
  next
    case False
    then show ?thesis using evaluate_refused [of "fst q" "snd q" enc dec sha256 t] by auto
  qed
  then show ?thesis by simp
qed

lemma record_slices_rows:
  assumes "budget_file_ok enc dec t" and "Q (parsed_rows dec t)"
    and step: "\<And>rs p i. Q rs \<Longrightarrow>
      Q (rs @ [budget_receipt sha256 p i (find (of_family (bi_campaign_family_id i)) (rev rs))])"
  shows "Q (parsed_rows dec (fold (record_slice enc dec sha256) qs t))"
  using assms(1,2)
proof (induction qs arbitrary: t)
  case (Cons q qs)
  from record_slice_rows [OF Cons.prems(1), of sha256 q]
  have "Q (parsed_rows dec (record_slice enc dec sha256 q t))"
  proof (elim disjE)
    assume "parsed_rows dec (record_slice enc dec sha256 q t) = parsed_rows dec t"
    with Cons.prems(2) show ?thesis by simp
  qed (use step [OF Cons.prems(2)] in simp)
  with Cons.IH campaign_ledger.okf_record [OF Cons.prems(1)] show ?case by simp
qed simp

lemma budget_file_ok_Nil: "\<forall>r. codec_ok enc dec r \<Longrightarrow> budget_file_ok enc dec []"
  by (simp add: budget_file_ok_def)

section \<open>A concrete campaign\<close>

text \<open>
  Receipts are countable, so the numbering of \<open>Replay_Ledger\<close> is a serialiser for them. The
  campaign below records one slice under the default policy.
\<close>

instance GoalTransitionEventKind :: countable
  by countable_datatype

instance GoalCampaignBudgetBoundary :: countable
  by countable_datatype

definition receipt_key :: "GoalCampaignBudgetReceiptV1 \<Rightarrow>
    (string list \<times> string option list \<times> nat list \<times> int list) \<times> bool list
      \<times> GoalTransitionEventKind \<times> GoalCampaignBudgetBoundary" where
  "receipt_key r =
     (([br_schema r, br_campaign_family_id r, br_lane_digest r, br_virtual_session_id r, br_mode r,
        br_progress_fingerprint r],
       [br_queue_id r, br_goal_checksum r],
       map unat [br_source_slice_generation r, br_slice_hard_timeout_ms r,
         br_slice_idle_timeout_ms r, br_slice_drain_window_ms r, br_wall_clock_budget_ms r,
         br_max_slices r, br_max_total_tokens r, br_max_no_progress_slices r,
         br_max_recovery_slices r, br_campaign_elapsed_ms r, br_slices_observed r,
         br_total_tokens_observed r, br_consecutive_no_progress_slices r,
         br_recovery_slices_observed r, br_slice_elapsed_ms r, br_slice_tokens r],
       [br_campaign_started_at_ms r, br_observed_at_ms r]),
      [br_budget_exhausted r, br_no_progress_exhausted r], br_event r, br_boundary r)"

lemma receipt_key_inj: "receipt_key r = receipt_key s \<Longrightarrow> r = s"
  by (rule GoalCampaignBudgetReceiptV1.equality) (simp_all add: receipt_key_def u64_unat_eq)

abbreviation "receipt_enc \<equiv> keyed_enc receipt_key"

abbreviation "receipt_dec \<equiv> keyed_dec receipt_key"

lemma receipt_codec: "codec_ok receipt_enc receipt_dec r"
  by (rule codec_keyed, rule injI, rule receipt_key_inj)

definition demo_slice :: GoalCampaignBudgetInput where
  "demo_slice = \<lparr>bi_campaign_family_id = ''fam'', bi_lane_digest = ''lane'',
     bi_virtual_session_id = ''vs'', bi_queue_id = Some ''q'', bi_goal_checksum = None,
     bi_source_slice_generation = 1, bi_event = NormalCompletion, bi_slice_elapsed_ms = 5,
     bi_slice_tokens = 7, bi_output_tokens = 3, bi_event_count = 2,
     bi_runtime_status = ''completed'', bi_recovery_slice = False, bi_now_ms = 100\<rparr>"

lemma default_policy_valid: "policy_validate default_policy = Inr ()"
  by (simp add: policy_validate_def default_policy_def DEFAULT_GOAL_SLICE_HARD_TIMEOUT_MS_def
      DEFAULT_GOAL_SLICE_IDLE_TIMEOUT_MS_def DEFAULT_GOAL_SLICE_DRAIN_WINDOW_MS_def
      DEFAULT_GOAL_WALL_CLOCK_BUDGET_MS_def DEFAULT_GOAL_MAX_SLICES_def
      DEFAULT_GOAL_MAX_TOTAL_TOKENS_def DEFAULT_GOAL_MAX_NO_PROGRESS_SLICES_def
      DEFAULT_GOAL_MAX_RECOVERY_SLICES_def)

lemma demo_slice_complete: "input_gap demo_slice = None"
proof -
  have "\<not> is_blank ''fam''" "\<not> is_blank ''lane''" "\<not> is_blank ''vs''"
    by (rule not_blank_graphic_ends; simp add: ascii_graphic_def)+
  then show ?thesis by (simp add: input_gap_def demo_slice_def)
qed

abbreviation "demo_receipt \<equiv> budget_receipt (\<lambda>s. s) default_policy demo_slice None"

lemma demo_evaluate:
  "evaluate_goal_campaign_budget receipt_enc receipt_dec (\<lambda>s. s) default_policy demo_slice []
     = (append_jsonl_value receipt_enc demo_receipt [], Inr demo_receipt)"
  "parsed_rows receipt_dec (append_jsonl_value receipt_enc demo_receipt []) = [demo_receipt]"
proof -
  have ok: "budget_file_ok receipt_enc receipt_dec []"
    by (simp add: budget_file_ok_Nil receipt_codec)
  show "evaluate_goal_campaign_budget receipt_enc receipt_dec (\<lambda>s. s) default_policy demo_slice []
     = (append_jsonl_value receipt_enc demo_receipt [], Inr demo_receipt)"
    using evaluate_accepted [OF ok, of default_policy demo_slice "\<lambda>s. s"]
    by (simp add: default_policy_valid demo_slice_complete Let_def)
  show "parsed_rows receipt_dec (append_jsonl_value receipt_enc demo_receipt []) = [demo_receipt]"
    by (simp add: parsed_rows_append [where okr = receipt_ok] receipt_codec)
qed

section \<open>Properties\<close>

text \<open>
  C34. Campaign accounting is exact: after any sequence of evaluations on an initially empty
  ledger, under whatever policies, the latest receipt of a campaign counts the slices recorded
  for it and the sum of their tokens, both clamped at the largest 64-bit value, and dates the
  campaign from its first slice.
\<close>

theorem campaign_counters_exact:
  assumes "\<forall>r. codec_ok enc dec r"
    and "rows = parsed_rows dec (fold (\<lambda>(p, i) t.
           fst (evaluate_goal_campaign_budget enc dec sha256 p i t)) qs [])"
    and "find (\<lambda>r. br_campaign_family_id r = f) (rev rows) = Some r"
    and "slices = filter (\<lambda>r. br_campaign_family_id r = f) rows"
  shows "unat (br_slices_observed r) = min (length slices) (2 ^ 64 - 1)
    \<and> unat (br_total_tokens_observed r)
        = min (sum_list (map (\<lambda>r. unat (br_slice_tokens r)) slices)) (2 ^ 64 - 1)
    \<and> br_campaign_started_at_ms r = br_observed_at_ms (hd slices)"
proof -
  have "counters_ok (parsed_rows dec (fold (record_slice enc dec sha256) qs []))"
    by (rule record_slices_rows [OF budget_file_ok_Nil])
      (simp_all add: assms(1) counters_ok_snoc counters_ok_def [of "[]"])
  then have "counters_ok rows"
    by (simp add: assms(2) case_prod_unfold)
  with assms(3) show ?thesis by (simp add: assms(4) counters_ok_def unat_sat_sum)
qed

theorem campaign_counters_exact_witness:
  "unat (br_slices_observed demo_receipt) = 1 \<and> unat (br_total_tokens_observed demo_receipt) = 7
   \<and> br_campaign_started_at_ms demo_receipt = 100"
  using campaign_counters_exact [of receipt_enc receipt_dec "[demo_receipt]" "\<lambda>s. s"
      "[(default_policy, demo_slice)]" "''fam''" demo_receipt "[demo_receipt]"]
    receipt_codec demo_evaluate
  by (simp add: budget_receipt_def Let_def demo_slice_def)

text \<open>
  Every receipt of such a ledger names its boundary correctly: it is within budget exactly
  when each of the five counters is below the limit the receipt states, exhaustion is flagged
  for exactly the other boundaries, and the no-progress breaker is flagged apart from the rest.
\<close>

theorem campaign_boundary_exact:
  assumes "\<forall>r. codec_ok enc dec r"
    and "r \<in> set (parsed_rows dec (fold (\<lambda>(p, i) t.
           fst (evaluate_goal_campaign_budget enc dec sha256 p i t)) qs []))"
  shows "(\<not> br_budget_exhausted r \<and> \<not> br_no_progress_exhausted r \<longleftrightarrow>
            br_campaign_elapsed_ms r < br_wall_clock_budget_ms r
            \<and> br_slices_observed r < br_max_slices r
            \<and> br_total_tokens_observed r < br_max_total_tokens r
            \<and> br_consecutive_no_progress_slices r < br_max_no_progress_slices r
            \<and> br_recovery_slices_observed r < br_max_recovery_slices r)
    \<and> (br_no_progress_exhausted r \<longleftrightarrow> br_boundary r = NoProgress)
    \<and> \<not> (br_budget_exhausted r \<and> br_no_progress_exhausted r)"
proof -
  have "\<forall>r \<in> set (parsed_rows dec (fold (record_slice enc dec sha256) qs [])). receipt_coherent r"
    by (rule record_slices_rows [OF budget_file_ok_Nil])
      (simp_all add: assms(1) receipt_coherent_budget_receipt)
  with assms(2) have "receipt_coherent r" by (simp add: case_prod_unfold)
  then show ?thesis by (cases "br_boundary r") (auto simp: receipt_coherent_def)
qed

theorem campaign_boundary_exact_witness:
  "\<not> br_budget_exhausted demo_receipt \<and> \<not> br_no_progress_exhausted demo_receipt \<longleftrightarrow>
     br_campaign_elapsed_ms demo_receipt < br_wall_clock_budget_ms demo_receipt
     \<and> br_slices_observed demo_receipt < br_max_slices demo_receipt
     \<and> br_total_tokens_observed demo_receipt < br_max_total_tokens demo_receipt
     \<and> br_consecutive_no_progress_slices demo_receipt < br_max_no_progress_slices demo_receipt
     \<and> br_recovery_slices_observed demo_receipt < br_max_recovery_slices demo_receipt"
proof -
  have "demo_receipt \<in> set (parsed_rows receipt_dec (fold (\<lambda>(p, i) t. fst
      (evaluate_goal_campaign_budget receipt_enc receipt_dec (\<lambda>s. s) p i t))
      [(default_policy, demo_slice)] []))"
    using demo_evaluate by simp
  from campaign_boundary_exact [OF _ this] receipt_codec show ?thesis by blast
qed

text \<open>
  Replays are answered from the ledger: once a slice has been evaluated, evaluating a slice
  with the same campaign, queue item, generation and goal checksum again, under any valid policy
  and after any other evaluations, returns the same receipt and writes nothing.
\<close>

theorem campaign_replay_stable:
  assumes "\<forall>r. codec_ok enc dec r" and "readable dec (\<lambda>r. br_schema r = GOAL_CAMPAIGN_BUDGET_SCHEMA) t"
    and "evaluate_goal_campaign_budget enc dec sha256 p i t = (t1, Inr r)"
    and "t2 = fold (\<lambda>(p, i) t. fst (evaluate_goal_campaign_budget enc dec sha256 p i t)) qs t1"
    and "policy_validate p' = Inr ()" and "input_gap i' = None"
    and "bi_campaign_family_id i' = bi_campaign_family_id i" and "bi_queue_id i' = bi_queue_id i"
    and "bi_source_slice_generation i' = bi_source_slice_generation i"
    and "bi_goal_checksum i' = bi_goal_checksum i"
  shows "evaluate_goal_campaign_budget enc dec sha256 p' i' t2 = (t2, Inr r)"
proof -
  have ok: "budget_file_ok enc dec t" using assms(1,2) by (simp add: budget_file_ok_def)
  have req: "request_ok (p, i)"
    using evaluate_refused [of p i enc dec sha256 t] assms(3) by (metis Inl_Inr_False snd_conv)
  have i': "answers i' = answers i" using assms(7-10) by (auto simp: answers_def fun_eq_iff)
  have t1: "t1 = record_slice enc dec sha256 (p, i) t" using assms(3) by simp
  have ok1: "budget_file_ok enc dec t1"
    unfolding t1 by (rule campaign_ledger.okf_record [OF ok])
  have "find (answers i) (rev (parsed_rows dec t1)) = Some r"
  proof (cases "find (answers i) (rev (parsed_rows dec t))")
    case None
    then show ?thesis using assms(3) evaluate_accepted [OF ok req, of sha256] assms(1)
      assms(2) by (auto simp: Let_def parsed_rows_append)
  next
    case (Some r')
    then show ?thesis using assms(3) evaluate_accepted [OF ok req, of sha256] by auto
  qed
  then have "find (answers i) (rev (parsed_rows dec t2)) = Some r"
    using campaign_ledger.latest_answer_stable [OF ok1, of "(p, i)" r sha256 qs] answers_eq
    by (simp add: assms(4) case_prod_unfold)
  then show ?thesis
    using evaluate_accepted [of enc dec t2 p' i' sha256] campaign_ledger.okf_fold [OF ok1, of sha256 qs]
      assms(5,6) i' by (simp add: assms(4) case_prod_unfold)
qed

theorem campaign_replay_stable_witness:
  "evaluate_goal_campaign_budget receipt_enc receipt_dec (\<lambda>s. s) default_policy
     (demo_slice\<lparr>bi_slice_tokens := 9, bi_now_ms := 500\<rparr>)
     (append_jsonl_value receipt_enc demo_receipt [])
   = (append_jsonl_value receipt_enc demo_receipt [], Inr demo_receipt)"
proof -
  have "input_gap (demo_slice\<lparr>bi_slice_tokens := 9, bi_now_ms := 500\<rparr>) = None"
    using demo_slice_complete by (simp add: input_gap_def)
  then show ?thesis
    using campaign_replay_stable [of receipt_enc receipt_dec "[]" "\<lambda>s. s" default_policy demo_slice
        _ demo_receipt _ "[]" default_policy "demo_slice\<lparr>bi_slice_tokens := 9, bi_now_ms := 500\<rparr>"]
      receipt_codec demo_evaluate default_policy_valid
    by simp
qed

text \<open>
  Every policy the harness loads is safe to run under, whatever the configuration file
  holds: it is the default or has passed validation, so that the slice timeouts it grants never
  exceed the requested ones nor 45 minutes, the drain window is three minutes, the campaign's
  wall clock covers a slice and stays within 48 hours, and no counter limit is zero.
\<close>

lemma load_policy_valid:
  "load_goal_campaign_policy dec_value config = Inr p \<Longrightarrow> policy_validate p = Inr ()"
  by (auto simp: load_goal_campaign_policy_def default_policy_valid split: sum.splits option.splits
      if_splits)

lemma policy_validate_Inr:
  "policy_validate p = Inr () \<Longrightarrow>
     1800000 \<le> gp_slice_hard_timeout_ms p \<and> gp_slice_hard_timeout_ms p \<le> 2700000
     \<and> 60000 \<le> gp_slice_idle_timeout_ms p
     \<and> gp_slice_idle_timeout_ms p < gp_slice_hard_timeout_ms p
     \<and> gp_slice_drain_window_ms p = min (gp_slice_hard_timeout_ms p div 10) 180000
     \<and> gp_slice_hard_timeout_ms p \<le> gp_wall_clock_budget_ms p
     \<and> gp_wall_clock_budget_ms p \<le> 172800000
     \<and> 0 < gp_max_slices p \<and> 0 < gp_max_total_tokens p
     \<and> 0 < gp_max_no_progress_slices p \<and> 0 < gp_max_recovery_slices p
     \<and> (gp_mode p \<noteq> ''active'' \<or> gp_active_lane_digests p \<noteq> [])"
  by (auto simp: policy_validate_def DEFAULT_GOAL_WALL_CLOCK_BUDGET_MS_def not_less not_le
      word_gt_0 split: if_splits)

lemma drain_window_constant:
  assumes "1800000 \<le> (h :: u64)"
  shows "min (h div 10) 180000 = 180000"
proof -
  have "1800000 \<le> unat h" using assms by (simp add: word_le_nat_alt)
  then have "180000 \<le> unat h div 10" by simp
  then have "(180000 :: u64) \<le> h div 10" by (simp add: word_le_nat_alt unat_div)
  then show ?thesis by simp
qed

theorem loaded_policy_safe:
  assumes "current_goal_campaign_timeouts dec_value config requested_hard requested_idle
    = Inr (p, hard, idle)"
  shows "policy_validate p = Inr ()
    \<and> hard \<le> requested_hard \<and> hard \<le> 45 * 60 * 1000
    \<and> idle \<le> requested_idle \<and> idle < 45 * 60 * 1000
    \<and> gp_slice_drain_window_ms p = 3 * 60 * 1000
    \<and> gp_slice_hard_timeout_ms p \<le> gp_wall_clock_budget_ms p
    \<and> gp_wall_clock_budget_ms p \<le> 48 * 60 * 60 * 1000
    \<and> 0 < gp_max_slices p \<and> 0 < gp_max_total_tokens p
    \<and> 0 < gp_max_no_progress_slices p \<and> 0 < gp_max_recovery_slices p"
proof -
  have v: "policy_validate p = Inr ()" and h: "hard = min requested_hard (gp_slice_hard_timeout_ms p)"
    and i: "idle = min requested_idle (gp_slice_idle_timeout_ms p)"
    using assms by (auto simp: current_goal_campaign_timeouts_def effective_timeouts_def
        load_policy_valid split: sum.splits)
  note b = policy_validate_Inr [OF v]
  have "gp_slice_drain_window_ms p = 180000" using b drain_window_constant by simp
  moreover have "hard \<le> 2700000" using b h by (metis min.coboundedI2)
  moreover have "idle < 2700000"
  proof -
    have "idle \<le> gp_slice_idle_timeout_ms p" by (simp add: i)
    also have "\<dots> < gp_slice_hard_timeout_ms p" using b by blast
    also have "\<dots> \<le> 2700000" using b by blast
    finally show ?thesis .
  qed
  ultimately show ?thesis using v b by (simp add: h i)
qed

theorem loaded_policy_safe_witness:
  "gp_slice_drain_window_ms default_policy = 3 * 60 * 1000"
  using loaded_policy_safe [of "\<lambda>_. None" "Inl (IoError NotFound [])" "3000000" "600000"
      default_policy "30 * 60 * 1000" "5 * 60 * 1000"]
  by (simp add: current_goal_campaign_timeouts_def load_goal_campaign_policy_def
      effective_timeouts_def default_policy_def DEFAULT_GOAL_SLICE_HARD_TIMEOUT_MS_def
      DEFAULT_GOAL_SLICE_IDLE_TIMEOUT_MS_def)

end
