(* ===== verification/Goal_Lineage.thy ===== *)
theory Goal_Lineage
  imports Keyed_Ledger "HOL-Library.Product_Lexorder"
begin

text \<open>
  The lineage doctor (\<open>src/crates/agent-harness-core/src/goal_lineage.rs\<close>): it reads the goal
  projections observed on backend threads, the authority receipts of virtual sessions and the
  supersession receipts, and reports which goal lineages are runnable. The three ledgers are
  texts; the typed parsers and SHA-256 are parameters. The text of a blocker about a malformed
  line leaves out the path, the line number and the parser's message.
\<close>

section \<open>Data\<close>

definition GOAL_LINEAGE_SCHEMA :: string where
  "GOAL_LINEAGE_SCHEMA = ''agent-harness.goal-lineage.v1''"

definition GOAL_LINEAGE_DOCTOR_SCHEMA :: string where
  "GOAL_LINEAGE_DOCTOR_SCHEMA = ''agent-harness.goal-lineage-doctor.v1''"

definition GOAL_LINEAGE_SUPERSESSION_SCHEMA :: string where
  "GOAL_LINEAGE_SUPERSESSION_SCHEMA = ''agent-harness.goal-lineage-supersession.v1''"

definition GOAL_PROJECTION_SCHEMA :: string where
  "GOAL_PROJECTION_SCHEMA = ''agent-harness.codex-goal-projection.v1''"

definition VIRTUAL_SESSION_AUTHORITY_SCHEMA :: string where
  "VIRTUAL_SESSION_AUTHORITY_SCHEMA = ''agent-harness.virtual-session-authority.v1''"

datatype GoalLineageDoctorStatus =
    DoctorReady | DoctorEmpty | DoctorReconciliationRequired | DoctorBlocked

datatype GoalLineageDisposition =
    Runnable | Inactive | Superseded | StaleGeneration | MissingAuthority | InvalidIdentity

datatype GoalProjectionObservationPhaseV1 =
    ResumeSettle | OwnedTurn | GoalRehydration | CompactMaintenance | StdoutRecovery
  | GovernedClosure | LegacyUnknown

datatype GoalProjectionTurnRelationV1 =
    CurrentOwnedTurn | ExplicitCampaignContinuation | HistoricalThreadState
  | AuthoritativeGoalClosure | Uncorrelated

record GoalLineageV1 =
  gl_schema :: string
  gl_lineage_id :: string
  gl_campaign_family_id :: string
  gl_queue_id :: "string option"
  gl_source_session_key :: string
  gl_virtual_session_id :: "string option"
  gl_lane_digest :: "string option"
  gl_backend_context_generation :: "string option"
  gl_source_thread_id :: string
  gl_source_turn_id :: "string option"
  gl_goal_reference :: string
  gl_backend_goal_ref :: "string option"
  gl_objective_checksum :: string
  gl_goal_checksum :: string
  gl_projection_checksum :: string
  gl_goal_status :: string
  gl_observation_phase :: GoalProjectionObservationPhaseV1
  gl_turn_relation :: GoalProjectionTurnRelationV1
  gl_source_final_eligible :: bool
  gl_observation_order :: u64
  gl_observed_at_ms :: int
  gl_authority_observed_at_ms :: "int option"
  gl_disposition :: GoalLineageDisposition
  gl_runnable :: bool
  gl_superseded_by_lineage_id :: "string option"
  gl_reason :: string

record GoalLineageCampaignV1 =
  gc_campaign_family_id :: string
  gc_objective_checksum :: string
  gc_lane_digest :: "string option"
  gc_virtual_session_id :: "string option"
  gc_active_lineages :: nat
  gc_runnable_lineages :: nat
  gc_unresolved_active_lineages :: nat
  gc_canonical_lineage_id :: "string option"
  gc_reconciliation_required :: bool

record GoalLineageDoctorReport =
  lr_schema :: string
  lr_status :: GoalLineageDoctorStatus
  lr_read_only :: bool
  lr_projections_seen :: nat
  lr_authority_receipts_seen :: nat
  lr_supersession_receipts_seen :: nat
  lr_campaigns :: "GoalLineageCampaignV1 list"
  lr_lineages :: "GoalLineageV1 list"
  lr_blockers :: "string list"
  lr_warnings :: "string list"

record GoalLineageSupersessionV1 =
  gs_sup_schema :: string
  gs_supersession_id :: string
  gs_campaign_family_id :: string
  gs_winner_lineage_id :: string
  gs_superseded_lineage_id :: string
  gs_lane_digest :: string
  gs_virtual_session_id :: string
  gs_reason :: string
  gs_recorded_at_ms :: int

record GoalProjectionHint =
  ph_queue_id :: "string option"
  ph_session_key :: string
  ph_source_thread_id :: string
  ph_source_turn_id :: "string option"
  ph_goal_reference :: string
  ph_backend_goal_ref :: "string option"
  ph_lane_digest :: "string option"
  ph_backend_context_generation :: "string option"
  ph_status :: string
  ph_observation_phase :: GoalProjectionObservationPhaseV1
  ph_turn_relation :: GoalProjectionTurnRelationV1
  ph_source_final_eligible :: bool
  ph_goal_checksum :: string
  ph_projection_checksum :: string
  ph_projection_complete :: bool
  ph_observation_order :: u64
  ph_observed_at_ms :: int

record GoalProjectionReceipt =
  pj_schema :: string
  pj_queue_id :: "string option"
  pj_session_key :: string
  pj_source_thread_id :: string
  pj_source_turn_id :: "string option"
  pj_goal_reference :: string
  pj_backend_goal_ref :: "string option"
  pj_lane_digest :: "string option"
  pj_backend_context_generation :: "string option"
  pj_objective :: string
  pj_status :: string
  pj_observation_phase :: GoalProjectionObservationPhaseV1
  pj_turn_relation :: GoalProjectionTurnRelationV1
  pj_source_final_eligible :: bool
  pj_goal_checksum :: string
  pj_projection_checksum :: string
  pj_projection_complete :: bool
  pj_observation_order :: u64
  pj_observed_at_ms :: int

record VirtualSessionAuthorityReceipt =
  au_schema :: string
  au_queue_id :: "string option"
  au_virtual_session_id :: string
  au_working_session_key :: string
  au_lane_digest :: string
  au_backend_context_generation :: "string option"
  au_status :: string
  au_updated_at_ms :: int

record lineage_lib =
  ll_sha256 :: "string \<Rightarrow> string"
  ll_json :: "Value \<Rightarrow> string"
  ll_projection_dec :: "string \<Rightarrow> GoalProjectionReceipt option"
  ll_authority_dec :: "string \<Rightarrow> VirtualSessionAuthorityReceipt option"
  ll_supersession_dec :: "string \<Rightarrow> GoalLineageSupersessionV1 option"
  ll_supersession_enc :: "GoalLineageSupersessionV1 \<Rightarrow> string"

record lineage_home =
  lh_projections :: string
  lh_authorities :: string
  lh_supersessions :: string

section \<open>Helpers\<close>

definition is_active_status :: "string \<Rightarrow> bool" where
  "is_active_status status \<longleftrightarrow>
     filter (\<lambda>c. c \<notin> set ''-_ '') (to_ascii_lowercase (trim status))
       \<in> set [''active'', ''running'', ''inprogress'']"

definition projection_goal_identity :: "GoalProjectionReceipt \<Rightarrow> string" where
  "projection_goal_identity p =
     (case pj_backend_goal_ref p of
        Some v \<Rightarrow> if \<not> is_blank v then v
          else if \<not> is_blank (pj_goal_reference p) then pj_goal_reference p else pj_goal_checksum p
      | None \<Rightarrow> if \<not> is_blank (pj_goal_reference p) then pj_goal_reference p else pj_goal_checksum p)"

definition is_authoritative_terminal_closure :: "GoalProjectionReceipt \<Rightarrow> bool" where
  "is_authoritative_terminal_closure p \<longleftrightarrow>
     pj_observation_phase p = GovernedClosure \<and> pj_turn_relation p = AuthoritativeGoalClosure
     \<and> \<not> pj_source_final_eligible p \<and> \<not> is_active_status (pj_status p)"

definition projection_source_final_is_eligible :: "bool \<Rightarrow> GoalProjectionObservationPhaseV1
    \<Rightarrow> GoalProjectionTurnRelationV1 \<Rightarrow> bool" where
  "projection_source_final_is_eligible claimed phase relation \<longleftrightarrow>
     claimed \<and> phase \<noteq> LegacyUnknown
     \<and> relation \<in> {CurrentOwnedTurn, ExplicitCampaignContinuation}"

definition lineage_checksum :: "lineage_lib \<Rightarrow> Value \<Rightarrow> string" where
  "lineage_checksum ll v = sha256_json (ll_sha256 ll) (ll_json ll) v"

fun read_values :: "(string \<Rightarrow> 'a option) \<Rightarrow> ('a \<Rightarrow> string) \<Rightarrow> string \<Rightarrow> string \<Rightarrow> string list
    \<Rightarrow> 'a list \<times> string list" where
  "read_values dec schema expected label [] = ([], [])"
| "read_values dec schema expected label (l # ls) =
     (let (vs, bs) = read_values dec schema expected label ls in
      if is_blank l then (vs, bs)
      else case dec l of
        None \<Rightarrow> (vs, (''malformed '' @ label @ '' receipt'') # bs)
      | Some v \<Rightarrow> if schema v = expected then (v # vs, bs) else (vs, bs))"

definition read_schema_jsonl :: "(string \<Rightarrow> 'a option) \<Rightarrow> ('a \<Rightarrow> string) \<Rightarrow> string \<Rightarrow> string \<Rightarrow> string
    \<Rightarrow> 'a list \<times> string list" where
  "read_schema_jsonl dec schema expected label t = read_values dec schema expected label (text_lines t)"

definition authority_key :: "string option \<Rightarrow> string \<Rightarrow> string" where
  "authority_key queue_id session_key =
     (case queue_id of None \<Rightarrow> [] | Some q \<Rightarrow> q) @ CHR 0x1F # session_key"

definition authority_insert :: "VirtualSessionAuthorityReceipt
    \<Rightarrow> (string \<times> VirtualSessionAuthorityReceipt) list \<Rightarrow> (string \<times> VirtualSessionAuthorityReceipt) list" where
  "authority_insert v latest =
     (let key = authority_key (au_queue_id v) (au_working_session_key v) in
      if case map_of latest key of None \<Rightarrow> True
         | Some current \<Rightarrow> au_updated_at_ms current \<le> au_updated_at_ms v
      then btree_insert key v latest else latest)"

definition latest_authorities :: "VirtualSessionAuthorityReceipt list
    \<Rightarrow> (string \<times> VirtualSessionAuthorityReceipt) list" where
  "latest_authorities vs = fold authority_insert vs []"

definition projection_authority :: "GoalProjectionReceipt
    \<Rightarrow> (string \<times> VirtualSessionAuthorityReceipt) list \<Rightarrow> VirtualSessionAuthorityReceipt option" where
  "projection_authority p authorities =
     map_of authorities (authority_key (pj_queue_id p) (pj_session_key p))"

definition projection_key :: "GoalProjectionReceipt \<Rightarrow> string" where
  "projection_key p = pj_source_thread_id p @ [CHR 0x1F]
     @ (case pj_backend_context_generation p of None \<Rightarrow> [] | Some g \<Rightarrow> g) @ [CHR 0x1F]
     @ projection_goal_identity p"

definition observed_no_later :: "GoalProjectionReceipt \<Rightarrow> GoalProjectionReceipt \<Rightarrow> bool" where
  "observed_no_later a b \<longleftrightarrow> pj_observed_at_ms a < pj_observed_at_ms b
     \<or> pj_observed_at_ms a = pj_observed_at_ms b \<and> pj_observation_order a \<le> pj_observation_order b"

definition projection_replaces :: "GoalProjectionReceipt \<Rightarrow> GoalProjectionReceipt \<Rightarrow> bool" where
  "projection_replaces incoming current \<longleftrightarrow>
     (is_authoritative_terminal_closure incoming \<and> \<not> is_authoritative_terminal_closure current)
     \<or> (is_authoritative_terminal_closure incoming = is_authoritative_terminal_closure current
        \<and> observed_no_later current incoming)"

definition projection_insert :: "GoalProjectionReceipt \<Rightarrow> (string \<times> GoalProjectionReceipt) list
    \<Rightarrow> (string \<times> GoalProjectionReceipt) list" where
  "projection_insert p latest =
     (if case map_of latest (projection_key p) of None \<Rightarrow> True
         | Some current \<Rightarrow> projection_replaces p current
      then btree_insert (projection_key p) p latest else latest)"

definition latest_projections :: "GoalProjectionReceipt list \<Rightarrow> (string \<times> GoalProjectionReceipt) list" where
  "latest_projections ps = fold projection_insert ps []"

section \<open>Lineages\<close>

definition exact_identity :: "GoalProjectionReceipt \<Rightarrow> VirtualSessionAuthorityReceipt option \<Rightarrow> bool" where
  "exact_identity p authority \<longleftrightarrow>
     (case authority of None \<Rightarrow> False
      | Some a \<Rightarrow> pj_projection_complete p \<and> \<not> is_blank (pj_objective p)
          \<and> pj_lane_digest p = Some (au_lane_digest a)
          \<and> pj_backend_context_generation p = au_backend_context_generation a
          \<and> au_status a = ''authoritative-v2'')"

definition lineage_disposition :: "GoalProjectionReceipt \<Rightarrow> VirtualSessionAuthorityReceipt option
    \<Rightarrow> GoalLineageDisposition \<times> bool \<times> string" where
  "lineage_disposition p authority =
     (case authority of
        None \<Rightarrow> (MissingAuthority, False,
          ''no exact-v2 virtual-session authority exists for this queue/session'')
      | Some a \<Rightarrow>
          if \<not> exact_identity p authority
          then (if pj_lane_digest p = Some (au_lane_digest a)
                   \<and> pj_backend_context_generation p \<noteq> au_backend_context_generation a
                then (StaleGeneration, False,
                  ''backend goal projection belongs to a stale backend generation'')
                else (InvalidIdentity, False,
                  ''backend goal projection does not match exact lane/virtual-session authority''))
          else if \<not> is_active_status (pj_status p)
          then (Inactive, False, ''exact-authority backend goal projection is not active'')
          else (Runnable, True,
            ''active goal matches current exact-v2 lane and backend generation''))"

definition projection_lineage :: "lineage_lib \<Rightarrow> (string \<times> VirtualSessionAuthorityReceipt) list
    \<Rightarrow> GoalProjectionReceipt \<Rightarrow> GoalLineageV1" where
  "projection_lineage ll authorities p =
     (let authority = projection_authority p authorities;
          lane = map_option au_lane_digest authority;
          session = map_option au_virtual_session_id authority;
          objective = lineage_checksum ll (JsonString (pj_objective p));
          family = lineage_checksum ll (JsonObject
            [(''laneDigest'', opt_json lane), (''objectiveChecksum'', JsonString objective),
             (''virtualSessionId'', opt_json session)]);
          goal_reference = projection_goal_identity p;
          lineage_id = lineage_checksum ll (JsonObject
            [(''backendContextGeneration'', opt_json (pj_backend_context_generation p)),
             (''campaignFamilyId'', JsonString family),
             (''goalReference'', JsonString goal_reference),
             (''sourceThreadId'', JsonString (pj_source_thread_id p))]);
          (disposition, runnable, reason) = lineage_disposition p authority
      in \<lparr>gl_schema = GOAL_LINEAGE_SCHEMA, gl_lineage_id = lineage_id,
          gl_campaign_family_id = family, gl_queue_id = pj_queue_id p,
          gl_source_session_key = pj_session_key p, gl_virtual_session_id = session,
          gl_lane_digest = lane,
          gl_backend_context_generation = pj_backend_context_generation p,
          gl_source_thread_id = pj_source_thread_id p, gl_source_turn_id = pj_source_turn_id p,
          gl_goal_reference = goal_reference, gl_backend_goal_ref = pj_backend_goal_ref p,
          gl_objective_checksum = objective, gl_goal_checksum = pj_goal_checksum p,
          gl_projection_checksum = pj_projection_checksum p, gl_goal_status = pj_status p,
          gl_observation_phase = pj_observation_phase p, gl_turn_relation = pj_turn_relation p,
          gl_source_final_eligible = projection_source_final_is_eligible
            (pj_source_final_eligible p) (pj_observation_phase p) (pj_turn_relation p),
          gl_observation_order = pj_observation_order p, gl_observed_at_ms = pj_observed_at_ms p,
          gl_authority_observed_at_ms = map_option au_updated_at_ms authority,
          gl_disposition = disposition, gl_runnable = runnable,
          gl_superseded_by_lineage_id = None, gl_reason = reason\<rparr>)"

section \<open>Supersession\<close>

definition supersession_identity :: "lineage_lib \<Rightarrow> string \<Rightarrow> string \<Rightarrow> string \<Rightarrow> string" where
  "supersession_identity ll family winner superseded = lineage_checksum ll (JsonObject
     [(''campaignFamilyId'', JsonString family), (''supersededLineageId'', JsonString superseded),
      (''winnerLineageId'', JsonString winner)])"

definition supersession_valid :: "lineage_lib \<Rightarrow> string set \<Rightarrow> GoalLineageSupersessionV1
    \<Rightarrow> GoalLineageV1 \<Rightarrow> GoalLineageV1 \<Rightarrow> bool" where
  "supersession_valid ll superseded_ids r winner loser \<longleftrightarrow>
     gl_campaign_family_id winner = gl_campaign_family_id loser
     \<and> gs_campaign_family_id r = gl_campaign_family_id winner
     \<and> gl_lane_digest winner = Some (gs_lane_digest r)
     \<and> gl_virtual_session_id winner = Some (gs_virtual_session_id r)
     \<and> gs_supersession_id r = supersession_identity ll (gl_campaign_family_id winner)
          (gl_lineage_id winner) (gl_lineage_id loser)
     \<and> gl_runnable winner \<and> gs_winner_lineage_id r \<notin> superseded_ids"

record supersession_state =
  sm_map :: "(string \<times> string) list"
  sm_ids :: "string list"
  sm_blockers :: "string list"

definition supersession_step :: "lineage_lib \<Rightarrow> string set \<Rightarrow> GoalLineageV1 list
    \<Rightarrow> GoalLineageSupersessionV1 \<Rightarrow> supersession_state \<Rightarrow> supersession_state" where
  "supersession_step ll superseded_ids lineages r st =
     (if gs_supersession_id r \<in> set (sm_ids st) then st
      else
        let st = st\<lparr>sm_ids := gs_supersession_id r # sm_ids st\<rparr>;
            block = (\<lambda>m. st\<lparr>sm_blockers := sm_blockers st @ [m]\<rparr>)
        in if gs_winner_lineage_id r = gs_superseded_lineage_id r
           then block (''invalid self-supersession receipt '' @ gs_supersession_id r)
           else case find (\<lambda>l. gl_lineage_id l = gs_winner_lineage_id r) lineages of
             None \<Rightarrow> block (''supersession receipt '' @ gs_supersession_id r @
               '' references a missing winner'')
           | Some winner \<Rightarrow>
               (case find (\<lambda>l. gl_lineage_id l = gs_superseded_lineage_id r) lineages of
                  None \<Rightarrow> block (''supersession receipt '' @ gs_supersession_id r @
                    '' references a missing superseded lineage'')
                | Some loser \<Rightarrow>
                    if \<not> supersession_valid ll superseded_ids r winner loser
                    then block (''supersession receipt '' @ gs_supersession_id r @
                      '' failed same-campaign/exact-authority/winner validation'')
                    else
                      let existing = map_of (sm_map st) (gs_superseded_lineage_id r);
                          st = st\<lparr>sm_map := btree_insert (gs_superseded_lineage_id r)
                            (gs_winner_lineage_id r) (sm_map st)\<rparr>
                      in if existing \<noteq> None \<and> existing \<noteq> Some (gs_winner_lineage_id r)
                         then st\<lparr>sm_blockers := sm_blockers st @
                           [''conflicting supersession winners for lineage '' @ gs_superseded_lineage_id r]\<rparr>
                         else st))"

definition valid_supersession_map :: "lineage_lib \<Rightarrow> GoalLineageSupersessionV1 list
    \<Rightarrow> GoalLineageV1 list \<Rightarrow> string list \<Rightarrow> (string \<times> string) list \<times> string list" where
  "valid_supersession_map ll receipts lineages blockers =
     (let st = fold (supersession_step ll (set (map gs_superseded_lineage_id receipts)) lineages)
            receipts \<lparr>sm_map = [], sm_ids = [], sm_blockers = blockers\<rparr>
      in (sm_map st, sm_blockers st))"

definition apply_supersession :: "(string \<times> string) list \<Rightarrow> GoalLineageV1 \<Rightarrow> GoalLineageV1" where
  "apply_supersession superseded_by l =
     (case map_of superseded_by (gl_lineage_id l) of
        None \<Rightarrow> l
      | Some winner \<Rightarrow> l\<lparr>gl_disposition := Superseded, gl_runnable := False,
          gl_superseded_by_lineage_id := Some winner,
          gl_reason := ''append-only reconciliation superseded this backend goal row with '' @ winner\<rparr>)"

section \<open>Campaigns\<close>

definition group_lineage :: "GoalLineageV1 \<Rightarrow> (string \<times> GoalLineageV1 list) list
    \<Rightarrow> (string \<times> GoalLineageV1 list) list" where
  "group_lineage l grouped = btree_insert (gl_campaign_family_id l)
     ((case map_of grouped (gl_campaign_family_id l) of None \<Rightarrow> [] | Some ls \<Rightarrow> ls) @ [l]) grouped"

definition active_count :: "GoalLineageV1 list \<Rightarrow> nat" where
  "active_count rows = length (filter (\<lambda>l. is_active_status (gl_goal_status l)) rows)"

definition runnable_count :: "GoalLineageV1 list \<Rightarrow> nat" where
  "runnable_count rows = length (filter gl_runnable rows)"

definition unresolved_count :: "GoalLineageV1 list \<Rightarrow> nat" where
  "unresolved_count rows = length (filter (\<lambda>l. is_active_status (gl_goal_status l)
     \<and> gl_disposition l \<noteq> Superseded) rows)"

definition campaign_needs_reconciliation :: "GoalLineageV1 list \<Rightarrow> bool" where
  "campaign_needs_reconciliation rows \<longleftrightarrow> 1 < unresolved_count rows \<or> 1 < runnable_count rows"

definition campaign_identity_blocked :: "GoalLineageV1 list \<Rightarrow> bool" where
  "campaign_identity_blocked rows \<longleftrightarrow>
     list_ex (\<lambda>l. is_active_status (gl_goal_status l)
       \<and> gl_disposition l \<in> {MissingAuthority, InvalidIdentity}) rows
     \<or> (0 < active_count rows \<and> runnable_count rows = 0)"

definition campaign_row :: "string \<Rightarrow> GoalLineageV1 list \<Rightarrow> GoalLineageCampaignV1" where
  "campaign_row family rows =
     \<lparr>gc_campaign_family_id = family, gc_objective_checksum = gl_objective_checksum (hd rows),
      gc_lane_digest = gl_lane_digest (hd rows),
      gc_virtual_session_id = gl_virtual_session_id (hd rows),
      gc_active_lineages = active_count rows, gc_runnable_lineages = runnable_count rows,
      gc_unresolved_active_lineages = unresolved_count rows,
      gc_canonical_lineage_id = (if runnable_count rows = 1
        then map_option gl_lineage_id (find gl_runnable rows) else None),
      gc_reconciliation_required = (1 < unresolved_count rows)\<rparr>"

section \<open>The doctor\<close>

definition lineage_warning :: "GoalLineageV1 \<Rightarrow> bool" where
  "lineage_warning l \<longleftrightarrow>
     is_active_status (gl_goal_status l) \<and> \<not> gl_runnable l \<and> gl_disposition l \<noteq> Superseded"

definition selected_by_option :: "string option \<Rightarrow> (GoalLineageV1 \<Rightarrow> string option) \<Rightarrow> GoalLineageV1 \<Rightarrow> bool" where
  "selected_by_option expected f l \<longleftrightarrow> (case expected of None \<Rightarrow> True | Some e \<Rightarrow> f l = Some e)"

definition run_goal_lineage_doctor :: "lineage_lib \<Rightarrow> string option \<Rightarrow> string option \<Rightarrow> lineage_home
    \<Rightarrow> GoalLineageDoctorReport" where
  "run_goal_lineage_doctor ll lane_digest virtual_session_id h =
     (let (projections, b1) = read_schema_jsonl (ll_projection_dec ll) pj_schema
            GOAL_PROJECTION_SCHEMA ''goal projection'' (lh_projections h);
          (authorities, b2) = read_schema_jsonl (ll_authority_dec ll) au_schema
            VIRTUAL_SESSION_AUTHORITY_SCHEMA ''virtual-session authority'' (lh_authorities h);
          (supersessions, b3) = read_schema_jsonl (ll_supersession_dec ll) gs_sup_schema
            GOAL_LINEAGE_SUPERSESSION_SCHEMA ''goal-lineage supersession'' (lh_supersessions h);
          all = map (projection_lineage ll (latest_authorities authorities))
            (btree_values (latest_projections projections));
          (superseded_by, blockers) = valid_supersession_map ll supersessions all (b1 @ b2 @ b3);
          lineages = sort_key (\<lambda>l. (gl_campaign_family_id l, gl_observed_at_ms l, gl_lineage_id l))
            (filter (selected_by_option virtual_session_id gl_virtual_session_id)
              (filter (selected_by_option lane_digest gl_lane_digest)
                (map (apply_supersession superseded_by) all)));
          grouped = fold group_lineage lineages [];
          status = (if blockers \<noteq> [] \<or> list_ex campaign_identity_blocked (map snd grouped)
            then DoctorBlocked
            else if list_ex campaign_needs_reconciliation (map snd grouped)
            then DoctorReconciliationRequired
            else if grouped = [] then DoctorEmpty else DoctorReady)
      in \<lparr>lr_schema = GOAL_LINEAGE_DOCTOR_SCHEMA, lr_status = status, lr_read_only = True,
          lr_projections_seen = length projections,
          lr_authority_receipts_seen = length authorities,
          lr_supersession_receipts_seen = length supersessions,
          lr_campaigns = map (\<lambda>(family, rows). campaign_row family rows) grouped,
          lr_lineages = lineages, lr_blockers = blockers,
          lr_warnings = map (\<lambda>l. ''active lineage '' @ gl_lineage_id l @ '' is fail-closed: '' @
            gl_reason l) (filter lineage_warning lineages)\<rparr>)"

text \<open>\<open>char\<close>s are counted as the bytes that do not continue a character.\<close>

definition char_count :: "string \<Rightarrow> nat" where
  "char_count v = length (filter (\<lambda>c. \<not> (128 \<le> (of_char c :: nat) \<and> (of_char c :: nat) \<le> 191)) v)"

definition append_goal_lineage_supersession :: "lineage_lib \<Rightarrow> string \<Rightarrow> string \<Rightarrow> string \<Rightarrow> int
    \<Rightarrow> lineage_home \<Rightarrow> lineage_home \<times> (io_error + GoalLineageSupersessionV1)" where
  "append_goal_lineage_supersession ll winner_lineage_id superseded_lineage_id reason now h =
     (let winner = trim winner_lineage_id; superseded = trim superseded_lineage_id;
          reason = trim reason in
      if winner = [] \<or> superseded = [] \<or> reason = []
      then (h, Inl (invalid_input ''winner, superseded lineage, and reason are required''))
      else if winner = superseded
      then (h, Inl (invalid_input ''a lineage cannot supersede itself''))
      else if 240 < char_count reason
      then (h, Inl (invalid_input ''supersession reason exceeds 240 characters''))
      else
        let rows = lr_lineages (run_goal_lineage_doctor ll None None h) in
        case find (\<lambda>l. gl_lineage_id l = winner) rows of
          None \<Rightarrow> (h, Inl (IoError NotFound ''winner lineage not found''))
        | Some w \<Rightarrow>
        (case find (\<lambda>l. gl_lineage_id l = superseded) rows of
          None \<Rightarrow> (h, Inl (IoError NotFound ''superseded lineage not found''))
        | Some s \<Rightarrow>
            if gl_campaign_family_id w \<noteq> gl_campaign_family_id s
            then (h, Inl (invalid_input
              ''winner and superseded lineage are not in the same campaign family''))
            else (case gl_lane_digest w of
              None \<Rightarrow> (h, Inl (invalid_data ''winner lacks exact lane authority''))
            | Some lane \<Rightarrow>
            (case gl_virtual_session_id w of
              None \<Rightarrow> (h, Inl (invalid_data ''winner lacks virtual-session authority''))
            | Some session \<Rightarrow>
                if \<not> gl_runnable w
                then (h, Inl (invalid_input
                  ''winner lineage is not the current exact-lane runnable row''))
                else
                  let sid = supersession_identity ll (gl_campaign_family_id w) winner superseded;
                      existing = fst (read_schema_jsonl (ll_supersession_dec ll) gs_sup_schema
                        GOAL_LINEAGE_SUPERSESSION_SCHEMA ''goal-lineage supersession''
                        (lh_supersessions h))
                  in (case find (\<lambda>r. gs_supersession_id r = sid) existing of
                       Some r \<Rightarrow> (h, Inr r)
                     | None \<Rightarrow>
                         let r = \<lparr>gs_sup_schema = GOAL_LINEAGE_SUPERSESSION_SCHEMA,
                               gs_supersession_id = sid,
                               gs_campaign_family_id = gl_campaign_family_id w,
                               gs_winner_lineage_id = winner,
                               gs_superseded_lineage_id = superseded, gs_lane_digest = lane,
                               gs_virtual_session_id = session, gs_reason = reason,
                               gs_recorded_at_ms = now\<rparr>
                         in (h\<lparr>lh_supersessions := append_jsonl_value (ll_supersession_enc ll) r
                               (lh_supersessions h)\<rparr>, Inr r))))))"

text \<open>\<open>latest_goal_projection_for_queue\<close>: the last maximum by observation time and order.\<close>

definition projection_hint :: "GoalProjectionReceipt \<Rightarrow> GoalProjectionHint" where
  "projection_hint p =
     \<lparr>ph_queue_id = pj_queue_id p, ph_session_key = pj_session_key p,
      ph_source_thread_id = pj_source_thread_id p, ph_source_turn_id = pj_source_turn_id p,
      ph_goal_reference = (if is_blank (pj_goal_reference p) then pj_goal_checksum p
        else pj_goal_reference p),
      ph_backend_goal_ref = pj_backend_goal_ref p, ph_lane_digest = pj_lane_digest p,
      ph_backend_context_generation = pj_backend_context_generation p, ph_status = pj_status p,
      ph_observation_phase = pj_observation_phase p, ph_turn_relation = pj_turn_relation p,
      ph_source_final_eligible = projection_source_final_is_eligible (pj_source_final_eligible p)
        (pj_observation_phase p) (pj_turn_relation p),
      ph_goal_checksum = pj_goal_checksum p, ph_projection_checksum = pj_projection_checksum p,
      ph_projection_complete = pj_projection_complete p,
      ph_observation_order = pj_observation_order p, ph_observed_at_ms = pj_observed_at_ms p\<rparr>"

fun join :: "string \<Rightarrow> string list \<Rightarrow> string" where
  "join sep [] = []"
| "join sep [v] = v"
| "join sep (v # vs) = v @ sep @ join sep vs"

definition latest_goal_projection_for_queue :: "lineage_lib \<Rightarrow> string \<Rightarrow> lineage_home
    \<Rightarrow> io_error + GoalProjectionHint option" where
  "latest_goal_projection_for_queue ll queue_id h =
     (let (values, blockers) = read_schema_jsonl (ll_projection_dec ll) pj_schema
            GOAL_PROJECTION_SCHEMA ''goal projection'' (lh_projections h) in
      if blockers \<noteq> [] then Inl (invalid_data (join ''; '' blockers))
      else Inr (map_option projection_hint
        (fold (\<lambda>p m. case m of None \<Rightarrow> Some p
            | Some best \<Rightarrow> if observed_no_later best p then Some p else Some best)
          (filter (\<lambda>p. pj_queue_id p = Some queue_id) values) None)))"

end
