(* ===== verification/Goal_Campaign.thy ===== *)
theory Goal_Campaign
  imports Goal_Budget_Props Goal_Lineage
begin

text \<open>
  How the runtime pipeline settles a finished slice
  (\<open>evaluate_runtime_goal_transition\<close> and its helpers in
  \<open>src/crates/agent-harness-core/src/runtime_pipeline.rs\<close>): it classifies the run, selects the
  goal lineage the slice belongs to, charges the campaign budget, and records the transition.

  The report of the lineage doctor is an argument, as are the two readings of the clock (for the
  budget and for the transition) and the verdict of the context-recovery checks. Of the run receipt the model keeps the fields this
  code reads. The
  diagnostics pushed to \<open>warnings\<close> are left out.
\<close>

section \<open>Data\<close>

datatype RuntimeRunOnceStatus =
    RunCompleted | RunNeedsUser | RunExternalEffectDenied | RunSuppressed | RunSkipped
  | RunLeaseBusy | RunNoWork | RunNoPreparedExecution | RunNoRuntimePlan | RunPreflightBlocked
  | RunAuthDeferred | RunSpawnFailed | RunProtocolError | RunContextExhausted | RunTimeout
  | RunRetryPending | RunDeadLetter | RunFailedTerminal | RunCanceled

fun run_status_as_str :: "RuntimeRunOnceStatus \<Rightarrow> string" where
  "run_status_as_str RunCompleted = ''completed''"
| "run_status_as_str RunNeedsUser = ''needs-user''"
| "run_status_as_str RunExternalEffectDenied = ''external-effect-denied''"
| "run_status_as_str RunSuppressed = ''suppressed''"
| "run_status_as_str RunSkipped = ''skipped''"
| "run_status_as_str RunLeaseBusy = ''lease-busy''"
| "run_status_as_str RunNoWork = ''no-work''"
| "run_status_as_str RunNoPreparedExecution = ''no-prepared-execution''"
| "run_status_as_str RunNoRuntimePlan = ''no-runtime-plan''"
| "run_status_as_str RunPreflightBlocked = ''preflight-blocked''"
| "run_status_as_str RunAuthDeferred = ''auth-deferred''"
| "run_status_as_str RunSpawnFailed = ''spawn-failed''"
| "run_status_as_str RunProtocolError = ''protocol-error''"
| "run_status_as_str RunContextExhausted = ''context-exhausted''"
| "run_status_as_str RunTimeout = ''timeout''"
| "run_status_as_str RunRetryPending = ''retry-pending''"
| "run_status_as_str RunDeadLetter = ''dead-letter''"
| "run_status_as_str RunFailedTerminal = ''failed-terminal''"
| "run_status_as_str RunCanceled = ''canceled''"

datatype CodexRuntimeRunStatus =
    CodexCompleted | CodexApprovalRequired | CodexExternalEffectDenied | CodexPreflightBlocked
  | CodexNoRuntimePlan | CodexSpawnFailed | CodexProtocolError | CodexContextExhausted
  | CodexTimeout | CodexCanceled

datatype WorkAuthorityClassV1 =
    OrdinaryTaskFamily | GoalCampaignWork | OperationPlanWork | ExternalEffectOperation
  | BackgroundWorker | UnknownWork

text \<open>
  The fields of \<open>CodexRuntimeRunReceipt\<close> read here. \<open>rn_context_recovery\<close> and
  \<open>rn_tool_use_timeout\<close> say whether the optional parts are present, \<open>rn_context_rollover\<close> is the
  verdict of the two \<open>context_recovery_indicates\<close> checks on the run.
\<close>

record run_receipt =
  rn_queue_id :: "string option"
  rn_status :: CodexRuntimeRunStatus
  rn_reason :: string
  rn_interruption_reason :: "string option"
  rn_elapsed_ms :: nat
  rn_event_count :: nat
  rn_total_tokens :: "u64 option"
  rn_output_tokens :: "u64 option"
  rn_context_recovery :: bool
  rn_tool_use_timeout :: bool
  rn_context_rollover :: bool
  rn_work_authority_class :: WorkAuthorityClassV1

record RuntimeGoalAuthorityContext =
  ac_lane_digest :: "string option"
  ac_virtual_session_id :: "string option"
  ac_projection_hint :: "GoalProjectionHint option"

section \<open>Classification of the run\<close>

definition GOAL_CONTINUATION_AUTHORITY_BOUNDARY_MARKER :: string where
  "GOAL_CONTINUATION_AUTHORITY_BOUNDARY_MARKER = ''goal-continuation-authority-boundary''"

definition classify_goal_transition_event :: "run_receipt \<Rightarrow> GoalTransitionEventKind" where
  "classify_goal_transition_event run =
     (if contains (rn_reason run) GOAL_CONTINUATION_AUTHORITY_BOUNDARY_MARKER
      then AuthorityBoundary
      else if rn_status run = CodexPreflightBlocked
              \<and> contains (rn_reason run) ''needs-operator-auth''
      then AuthDeferred
      else if rn_status run = CodexCanceled
      then (if rn_interruption_reason run = Some ''interrupted_by_new_turn'' then NewerSteer
            else OperatorStop)
      else if rn_event_count run = 0 \<and> contains (rn_reason run) ''already recorded''
      then ProcessRestart
      else if rn_status run = CodexCompleted
      then (if contains (rn_reason run) ''deadline drain'' then DrainCompletion
            else NormalCompletion)
      else if rn_context_recovery run then CompactRollover
      else if rn_status run = CodexTimeout
      then (if rn_tool_use_timeout run then ToolTimeout
            else if contains (rn_reason run) ''JSONL event''
                    \<or> contains (rn_reason run) ''inactivity''
            then IdleTimeout
            else AbsoluteTimeout)
      else RuntimeFailure)"

definition is_goal_status_active :: "string \<Rightarrow> bool" where
  "is_goal_status_active status \<longleftrightarrow>
     filter (\<lambda>c. c \<notin> set ''-_ '') (to_ascii_lowercase (trim status))
       \<in> set [''active'', ''running'', ''inprogress'']"

section \<open>Selection of the lineage\<close>

text \<open>\<open>Iterator::max_by_key\<close> on the pair of observation time and order: the last maximum.\<close>

definition observed_le :: "GoalLineageV1 \<Rightarrow> GoalLineageV1 \<Rightarrow> bool" where
  "observed_le a b \<longleftrightarrow> gl_observed_at_ms a < gl_observed_at_ms b
     \<or> gl_observed_at_ms a = gl_observed_at_ms b \<and> gl_observation_order a \<le> gl_observation_order b"

definition latest_lineage :: "GoalLineageV1 list \<Rightarrow> GoalLineageV1 option" where
  "latest_lineage ls = fold (\<lambda>l m. case m of
       None \<Rightarrow> Some l | Some best \<Rightarrow> if observed_le best l then Some l else Some best) ls None"

definition current_lineage :: "run_receipt \<Rightarrow> GoalLineageV1 list \<Rightarrow> GoalLineageV1 option" where
  "current_lineage run ls = latest_lineage (filter (\<lambda>l. gl_queue_id l = rn_queue_id run) ls)"

definition older_than_authoritative_lineage :: "run_receipt \<Rightarrow> GoalLineageV1 list \<Rightarrow> bool" where
  "older_than_authoritative_lineage run ls =
     (case current_lineage run ls of
        None \<Rightarrow> False
      | Some current \<Rightarrow>
          list_ex (\<lambda>c. gl_campaign_family_id c = gl_campaign_family_id current
            \<and> gl_lineage_id c \<noteq> gl_lineage_id current \<and> \<not> observed_le c current) ls)"

definition selected_lineage :: "run_receipt \<Rightarrow> GoalLineageV1 list \<Rightarrow> GoalLineageV1 option" where
  "selected_lineage run ls =
     (case current_lineage run ls of
        Some l \<Rightarrow> Some l
      | None \<Rightarrow> latest_lineage
          (filter (\<lambda>l. is_goal_status_active (gl_goal_status l) \<and> gl_runnable l) ls))"

fun owned_relation :: "GoalProjectionTurnRelationV1 \<Rightarrow> bool" where
  "owned_relation CurrentOwnedTurn = True"
| "owned_relation ExplicitCampaignContinuation = True"
| "owned_relation HistoricalThreadState = False"
| "owned_relation AuthoritativeGoalClosure = False"
| "owned_relation Uncorrelated = False"

definition lineage_authority :: "GoalLineageV1 \<Rightarrow> GoalTransitionAuthority" where
  "lineage_authority l =
     (case gl_disposition l of
        Runnable \<Rightarrow> if gl_source_final_eligible l \<and> owned_relation (gl_turn_relation l)
                    then AuthorityReady else AuthorityMissing
      | Inactive \<Rightarrow> if gl_source_final_eligible l \<and> owned_relation (gl_turn_relation l)
                    then AuthorityReady else AuthorityMissing
      | StaleGeneration \<Rightarrow> AuthorityStale
      | MissingAuthority \<Rightarrow> AuthorityMissing
      | InvalidIdentity \<Rightarrow> AuthorityInvalid
      | Superseded \<Rightarrow> AuthorityConflict)"

definition report_authority :: "run_receipt \<Rightarrow> GoalLineageDoctorReport \<Rightarrow> GoalTransitionAuthority" where
  "report_authority run report =
     (if older_than_authoritative_lineage run (lr_lineages report) then AuthorityStale
      else case lr_status report of
        DoctorReconciliationRequired \<Rightarrow> AuthorityConflict
      | DoctorBlocked \<Rightarrow> AuthorityInvalid
      | DoctorReady \<Rightarrow>
          (case selected_lineage run (lr_lineages report) of
             Some l \<Rightarrow> lineage_authority l | None \<Rightarrow> AuthorityNotApplicable)
      | DoctorEmpty \<Rightarrow> AuthorityNotApplicable)"

fun transition_relation :: "GoalProjectionTurnRelationV1 \<Rightarrow> GoalTransitionRelation" where
  "transition_relation CurrentOwnedTurn = CurrentGoalSlice"
| "transition_relation ExplicitCampaignContinuation = AuthorizedCampaignContinuation"
| "transition_relation HistoricalThreadState = HistoricalState"
| "transition_relation AuthoritativeGoalClosure = HistoricalState"
| "transition_relation Uncorrelated = Unproven"

definition concrete_goal_ref :: "string option \<Rightarrow> bool" where
  "concrete_goal_ref r = (case r of None \<Rightarrow> False | Some v \<Rightarrow> \<not> is_blank v)"

definition prepared_durable_goal :: "run_receipt \<Rightarrow> u64 option \<Rightarrow> bool" where
  "prepared_durable_goal run slice_generation \<longleftrightarrow>
     slice_generation \<noteq> None \<or> rn_work_authority_class run = GoalCampaignWork"

text \<open>What the code settles before it looks at the ledgers.\<close>

record resolution =
  rs_older :: bool
  rs_authority :: GoalTransitionAuthority
  rs_selected :: "GoalLineageV1 option"
  rs_hint :: "GoalProjectionHint option"

definition resolve_goal ::
    "io_error + GoalLineageDoctorReport \<Rightarrow> run_receipt \<Rightarrow> u64 option \<Rightarrow> RuntimeGoalAuthorityContext
      \<Rightarrow> resolution" where
  "resolve_goal report run slice_generation ctx =
     (let older = (case report of Inr r \<Rightarrow> older_than_authoritative_lineage run (lr_lineages r)
                                | Inl _ \<Rightarrow> False);
          selected = (case report of Inr r \<Rightarrow> selected_lineage run (lr_lineages r) | Inl _ \<Rightarrow> None);
          authority = (case report of Inr r \<Rightarrow> report_authority run r | Inl _ \<Rightarrow> AuthorityInvalid);
          raw_hint = ac_projection_hint ctx;
          prepared = prepared_durable_goal run slice_generation;
          selected_owned = (case selected of None \<Rightarrow> False | Some l \<Rightarrow>
            concrete_goal_ref (gl_backend_goal_ref l) \<and> gl_source_final_eligible l
            \<and> owned_relation (gl_turn_relation l));
          hint_owned = (case raw_hint of None \<Rightarrow> False | Some h \<Rightarrow>
            concrete_goal_ref (ph_backend_goal_ref h) \<and> ph_source_final_eligible h
            \<and> owned_relation (ph_turn_relation h));
          correlated = (prepared \<or> selected_owned \<or> hint_owned);
          selected' = (if correlated then selected else None);
          hint = (if correlated then raw_hint else None);
          authority1 = (if \<not> correlated then AuthorityNotApplicable
            else if prepared \<and> authority = AuthorityNotApplicable then AuthorityMissing
            else authority);
          authority2 = (if selected' = None \<and> hint \<noteq> None \<and> authority1 = AuthorityNotApplicable
            then AuthorityMissing else authority1)
      in \<lparr>rs_older = older, rs_authority = authority2, rs_selected = selected', rs_hint = hint\<rparr>)"

text \<open>\<open>a.or_else(|| b)\<close> on options.\<close>

definition or_else :: "'a option \<Rightarrow> 'a option \<Rightarrow> 'a option" where
  "or_else a b = (case a of Some x \<Rightarrow> Some x | None \<Rightarrow> b)"

text \<open>The transition input, still without the budget flags and the decision generation.\<close>

definition slice_input ::
    "resolution \<Rightarrow> run_receipt \<Rightarrow> RuntimeRunOnceStatus \<Rightarrow> u64 option \<Rightarrow> RuntimeGoalAuthorityContext
      \<Rightarrow> int \<Rightarrow> GoalTransitionInput" where
  "slice_input rs run receipt_status slice_generation ctx now =
     (let selected = rs_selected rs; hint = rs_hint rs;
          goal_ref = or_else (Option.bind selected gl_backend_goal_ref)
            (Option.bind hint ph_backend_goal_ref)
      in \<lparr>gi_queue_id = rn_queue_id run,
          gi_event = (if rs_older rs then OlderCompletion else classify_goal_transition_event run),
          gi_runtime_status = run_status_as_str receipt_status,
          gi_runtime_reason = rn_reason run,
          gi_goal_status = or_else (map_option gl_goal_status selected) (map_option ph_status hint),
          gi_lineage_id = map_option gl_lineage_id selected,
          gi_campaign_family_id = map_option gl_campaign_family_id selected,
          gi_lane_digest = or_else (Option.bind selected gl_lane_digest) (ac_lane_digest ctx),
          gi_virtual_session_id =
            or_else (Option.bind selected gl_virtual_session_id) (ac_virtual_session_id ctx),
          gi_backend_context_generation =
            or_else (Option.bind selected gl_backend_context_generation)
              (Option.bind hint ph_backend_context_generation),
          gi_source_thread_id =
            or_else (map_option gl_source_thread_id selected) (map_option ph_source_thread_id hint),
          gi_source_turn_id =
            or_else (Option.bind selected gl_source_turn_id) (Option.bind hint ph_source_turn_id),
          gi_backend_goal_ref = goal_ref,
          gi_correlation_source = (if goal_ref \<noteq> None then BackendGoal
            else if prepared_durable_goal run slice_generation then DurableContinuation
            else NoCorrelation),
          gi_goal_checksum =
            or_else (map_option gl_goal_checksum selected) (map_option ph_goal_checksum hint),
          gi_source_slice_generation = case_option 0 id slice_generation,
          gi_decision_generation = 0,
          gi_authority = rs_authority rs,
          gi_relation = (case or_else (map_option (transition_relation \<circ> gl_turn_relation) selected)
              (map_option (transition_relation \<circ> ph_turn_relation) hint) of
            Some r \<Rightarrow> r
          | None \<Rightarrow> if prepared_durable_goal run slice_generation then CurrentGoalSlice
                    else FreshUnrelatedTurn),
          gi_retryable_failure = (receipt_status = RunRetryPending),
          gi_context_rollover_required = rn_context_rollover run,
          gi_budget_exhausted = False, gi_no_progress_exhausted = False,
          gi_observed_at_ms = now\<rparr>)"

section \<open>The ledgers\<close>

record campaign_home =
  ch_config :: "io_error + string"
  ch_budget :: string
  ch_transitions :: string

text \<open>
  \<open>find_existing_goal_transition\<close> and \<open>next_goal_transition_generation\<close> on the text of the
  transition receipts; \<open>dec\<close> parses a receipt, \<open>dec_value\<close> any JSON value.
\<close>

definition same_transition :: "GoalTransitionInput \<Rightarrow> GoalTransitionReceiptV1 \<Rightarrow> bool" where
  "same_transition i r \<longleftrightarrow> gr_queue_id r = gi_queue_id i \<and> gr_event r = gi_event i
     \<and> gr_runtime_status r = gi_runtime_status i
     \<and> gr_source_slice_generation r = gi_source_slice_generation i
     \<and> gr_source_turn_id r = gi_source_turn_id i \<and> gr_goal_checksum r = gi_goal_checksum i"

definition find_existing_goal_transition ::
    "(string \<Rightarrow> GoalTransitionReceiptV1 option) \<Rightarrow> GoalTransitionInput \<Rightarrow> string
      \<Rightarrow> GoalTransitionReceiptV1 option" where
  "find_existing_goal_transition dec i t =
     find (same_transition i) (rev (List.map_filter dec (text_lines t)))"

definition next_goal_transition_generation ::
    "(string \<Rightarrow> Value option) \<Rightarrow> string option \<Rightarrow> string \<Rightarrow> u64" where
  "next_goal_transition_generation dec_value queue_id t =
     sat_add (of_nat (length (filter (\<lambda>v. Option.bind (value_get ''queueId'' v) as_str = queue_id)
       (List.map_filter dec_value (text_lines t))))) 1"

section \<open>The whole evaluation\<close>

definition slice_budget_input ::
    "GoalTransitionInput \<Rightarrow> run_receipt \<Rightarrow> int \<Rightarrow> string \<Rightarrow> string \<Rightarrow> string
      \<Rightarrow> GoalCampaignBudgetInput" where
  "slice_budget_input i run now family lane session =
     \<lparr>bi_campaign_family_id = family, bi_lane_digest = lane, bi_virtual_session_id = session,
      bi_queue_id = rn_queue_id run, bi_goal_checksum = gi_goal_checksum i,
      bi_source_slice_generation = gi_source_slice_generation i, bi_event = gi_event i,
      bi_slice_elapsed_ms = of_nat (min (rn_elapsed_ms run) (2 ^ 64 - 1)),
      bi_slice_tokens = case_option 0 id (rn_total_tokens run),
      bi_output_tokens = case_option 0 id (rn_output_tokens run),
      bi_event_count = rn_event_count run, bi_runtime_status = gi_runtime_status i,
      bi_recovery_slice = rn_context_recovery run, bi_now_ms = now\<rparr>"

text \<open>The codecs and the digest, bundled.\<close>

record codecs =
  cx_budget_enc :: "GoalCampaignBudgetReceiptV1 \<Rightarrow> string"
  cx_budget_dec :: "string \<Rightarrow> GoalCampaignBudgetReceiptV1 option"
  cx_transition_enc :: "GoalTransitionReceiptV1 \<Rightarrow> string"
  cx_transition_dec :: "string \<Rightarrow> GoalTransitionReceiptV1 option"
  cx_value_dec :: "string \<Rightarrow> Value option"
  cx_sha256 :: "string \<Rightarrow> string"

text \<open>The budget of the slice, charged when its goal is active and its campaign fully known.\<close>

definition charge_campaign ::
    "codecs \<Rightarrow> GoalTransitionInput \<Rightarrow> run_receipt \<Rightarrow> int \<Rightarrow> campaign_home
      \<Rightarrow> string \<times> (io_error + GoalCampaignBudgetReceiptV1 option)" where
  "charge_campaign cx i run now h =
     (if case_option False is_goal_status_active (gi_goal_status i)
      then (case (gi_campaign_family_id i, gi_lane_digest i, gi_virtual_session_id i) of
         (Some family, Some lane, Some session) \<Rightarrow>
           (case load_goal_campaign_policy (cx_value_dec cx) (ch_config h) of
              Inl e \<Rightarrow> (ch_budget h, Inl e)
            | Inr policy \<Rightarrow>
                (case evaluate_goal_campaign_budget (cx_budget_enc cx) (cx_budget_dec cx)
                    (cx_sha256 cx) policy (slice_budget_input i run now family lane session)
                    (ch_budget h) of
                   (t, Inl e) \<Rightarrow> (t, Inl e)
                 | (t, Inr r) \<Rightarrow> (t, Inr (Some r))))
       | _ \<Rightarrow> (ch_budget h, Inr None))
      else (ch_budget h, Inr None))"

definition evaluate_runtime_goal_transition ::
    "codecs \<Rightarrow> io_error + GoalLineageDoctorReport \<Rightarrow> run_receipt \<Rightarrow> RuntimeRunOnceStatus \<Rightarrow> u64 option
      \<Rightarrow> RuntimeGoalAuthorityContext \<Rightarrow> int \<Rightarrow> int \<Rightarrow> campaign_home
      \<Rightarrow> campaign_home \<times> (io_error + GoalTransitionReceiptV1)" where
  "evaluate_runtime_goal_transition cx report run receipt_status slice_generation ctx budget_now now h =
     (let rs = resolve_goal report run slice_generation ctx;
          i = slice_input rs run receipt_status slice_generation ctx now
      in case find_existing_goal_transition (cx_transition_dec cx) i (ch_transitions h) of
           Some existing \<Rightarrow> (h, Inr existing)
         | None \<Rightarrow>
             (case charge_campaign cx i run budget_now h of
                (budget, Inl e) \<Rightarrow> (h\<lparr>ch_budget := budget\<rparr>, Inl e)
              | (budget, Inr charged) \<Rightarrow>
                  let receipt = evaluate_goal_transition
                        (i\<lparr>gi_decision_generation := next_goal_transition_generation
                              (cx_value_dec cx) (rn_queue_id run) (ch_transitions h),
                           gi_budget_exhausted := case_option False br_budget_exhausted charged,
                           gi_no_progress_exhausted :=
                             case_option False br_no_progress_exhausted charged\<rparr>)
                  in (h\<lparr>ch_budget := budget,
                        ch_transitions := record_goal_transition (cx_transition_enc cx) receipt
                          (ch_transitions h)\<rparr>, Inr receipt)))"

end
