(* ===== verification/Goal_Lineage_Props.thy ===== *)
theory Goal_Lineage_Props
  imports Goal_Lineage
begin

text \<open>
  What the report of the lineage doctor guarantees: a governed closure is never undone by another
  observation of the same goal, a runnable lineage has exact authority, a ready report leaves no
  doubt about which lineage of a campaign may run, and every superseded lineage has a winner that
  runs.
\<close>

section \<open>The latest projection of each goal\<close>

lemma set_btree_values: "btree_ok m \<Longrightarrow> set (btree_values m) = ran (map_of m)"
  by (simp add: btree_values_def btree_ok_def ran_distinct strict_sorted_iff)

definition projections_inv :: "GoalProjectionReceipt list \<Rightarrow> (string \<times> GoalProjectionReceipt) list \<Rightarrow> bool" where
  "projections_inv ps m \<longleftrightarrow> btree_ok m
     \<and> (\<forall>k p. map_of m k = Some p \<longrightarrow> p \<in> set ps \<and> projection_key p = k)
     \<and> (\<forall>p \<in> set ps. \<exists>p'. map_of m (projection_key p) = Some p'
          \<and> (is_authoritative_terminal_closure p \<longrightarrow> is_authoritative_terminal_closure p'))"

lemma projections_inv_insert:
  assumes "projections_inv ps m"
  shows "projections_inv (ps @ [p]) (projection_insert p m)"
proof (cases "map_of m (projection_key p)")
  case None
  with assms show ?thesis by (fastforce simp: projections_inv_def projection_insert_def)
next
  case (Some current)
  with assms show ?thesis
    by (fastforce simp: projections_inv_def projection_insert_def projection_replaces_def)
qed

lemma latest_projections_inv: "projections_inv ps (latest_projections ps)"
proof (induction ps rule: rev_induct)
  case Nil
  show ?case by (simp add: projections_inv_def latest_projections_def)
next
  case (snoc p ps)
  from projections_inv_insert [OF snoc] show ?case by (simp add: latest_projections_def)
qed

lemma set_latest_projections:
  "set (btree_values (latest_projections ps)) = ran (map_of (latest_projections ps))"
  using latest_projections_inv [of ps] by (simp add: projections_inv_def set_btree_values)

lemma latest_authorities_inv:
  "btree_ok (latest_authorities vs)
   \<and> (\<forall>k a. map_of (latest_authorities vs) k = Some a \<longrightarrow>
        a \<in> set vs \<and> authority_key (au_queue_id a) (au_working_session_key a) = k)"
proof (induction vs rule: rev_induct)
  case (snoc v vs)
  then show ?case by (auto simp: latest_authorities_def authority_insert_def Let_def)
qed (simp add: latest_authorities_def)

section \<open>From projections to lineages\<close>

lemma lineage_disposition_runnable:
  "lineage_disposition p a = (d, True, r) \<longleftrightarrow>
     d = Runnable \<and> exact_identity p a \<and> is_active_status (pj_status p)
     \<and> r = ''active goal matches current exact-v2 lane and backend generation''"
  by (auto simp: lineage_disposition_def exact_identity_def split: option.splits)

lemma projection_lineage_sel [simp]:
  "gl_goal_status (projection_lineage ll as p) = pj_status p"
  "gl_source_thread_id (projection_lineage ll as p) = pj_source_thread_id p"
  "gl_backend_context_generation (projection_lineage ll as p) = pj_backend_context_generation p"
  "gl_goal_reference (projection_lineage ll as p) = projection_goal_identity p"
  "gl_queue_id (projection_lineage ll as p) = pj_queue_id p"
  "gl_source_session_key (projection_lineage ll as p) = pj_session_key p"
  "gl_lane_digest (projection_lineage ll as p) = map_option au_lane_digest (projection_authority p as)"
  "gl_virtual_session_id (projection_lineage ll as p)
     = map_option au_virtual_session_id (projection_authority p as)"
  "gl_runnable (projection_lineage ll as p) = fst (snd (lineage_disposition p (projection_authority p as)))"
  "gl_disposition (projection_lineage ll as p) = fst (lineage_disposition p (projection_authority p as))"
  by (simp_all add: projection_lineage_def Let_def split_beta)

lemma projection_lineage_runnable:
  "gl_runnable (projection_lineage ll as p) \<longleftrightarrow>
     exact_identity p (projection_authority p as) \<and> is_active_status (pj_status p)"
  "gl_disposition (projection_lineage ll as p) = Runnable \<longleftrightarrow>
     exact_identity p (projection_authority p as) \<and> is_active_status (pj_status p)"
  "gl_disposition (projection_lineage ll as p) \<noteq> Superseded"
  by (auto simp: lineage_disposition_def exact_identity_def split: option.splits)

lemma apply_supersession_sel [simp]:
  "gl_lineage_id (apply_supersession m l) = gl_lineage_id l"
  "gl_campaign_family_id (apply_supersession m l) = gl_campaign_family_id l"
  "gl_goal_status (apply_supersession m l) = gl_goal_status l"
  "gl_source_thread_id (apply_supersession m l) = gl_source_thread_id l"
  "gl_backend_context_generation (apply_supersession m l) = gl_backend_context_generation l"
  "gl_goal_reference (apply_supersession m l) = gl_goal_reference l"
  "gl_queue_id (apply_supersession m l) = gl_queue_id l"
  "gl_source_session_key (apply_supersession m l) = gl_source_session_key l"
  "gl_lane_digest (apply_supersession m l) = gl_lane_digest l"
  "gl_virtual_session_id (apply_supersession m l) = gl_virtual_session_id l"
  "gl_runnable (apply_supersession m l) \<longleftrightarrow> gl_runnable l \<and> map_of m (gl_lineage_id l) = None"
  by (simp_all add: apply_supersession_def split: option.splits)

section \<open>Reading the report\<close>

abbreviation doctor_projections :: "lineage_lib \<Rightarrow> lineage_home \<Rightarrow> GoalProjectionReceipt list" where
  "doctor_projections ll h \<equiv> fst (read_schema_jsonl (ll_projection_dec ll) pj_schema
     GOAL_PROJECTION_SCHEMA ''goal projection'' (lh_projections h))"

abbreviation doctor_authorities :: "lineage_lib \<Rightarrow> lineage_home \<Rightarrow> VirtualSessionAuthorityReceipt list" where
  "doctor_authorities ll h \<equiv> fst (read_schema_jsonl (ll_authority_dec ll) au_schema
     VIRTUAL_SESSION_AUTHORITY_SCHEMA ''virtual-session authority'' (lh_authorities h))"

abbreviation doctor_supersessions :: "lineage_lib \<Rightarrow> lineage_home \<Rightarrow> GoalLineageSupersessionV1 list" where
  "doctor_supersessions ll h \<equiv> fst (read_schema_jsonl (ll_supersession_dec ll) gs_sup_schema
     GOAL_LINEAGE_SUPERSESSION_SCHEMA ''goal-lineage supersession'' (lh_supersessions h))"

definition doctor_rows :: "lineage_lib \<Rightarrow> lineage_home \<Rightarrow> GoalLineageV1 list" where
  "doctor_rows ll h = map (projection_lineage ll (latest_authorities (doctor_authorities ll h)))
     (btree_values (latest_projections (doctor_projections ll h)))"

definition doctor_read_blockers :: "lineage_lib \<Rightarrow> lineage_home \<Rightarrow> string list" where
  "doctor_read_blockers ll h =
     snd (read_schema_jsonl (ll_projection_dec ll) pj_schema GOAL_PROJECTION_SCHEMA
       ''goal projection'' (lh_projections h))
     @ snd (read_schema_jsonl (ll_authority_dec ll) au_schema VIRTUAL_SESSION_AUTHORITY_SCHEMA
       ''virtual-session authority'' (lh_authorities h))
     @ snd (read_schema_jsonl (ll_supersession_dec ll) gs_sup_schema GOAL_LINEAGE_SUPERSESSION_SCHEMA
       ''goal-lineage supersession'' (lh_supersessions h))"

definition doctor_superseded :: "lineage_lib \<Rightarrow> lineage_home \<Rightarrow> (string \<times> string) list" where
  "doctor_superseded ll h = fst (valid_supersession_map ll (doctor_supersessions ll h)
     (doctor_rows ll h) (doctor_read_blockers ll h))"

lemma doctor_lineages:
  "set (lr_lineages (run_goal_lineage_doctor ll lane vs h)) =
     {l \<in> apply_supersession (doctor_superseded ll h) ` set (doctor_rows ll h).
        selected_by_option lane gl_lane_digest l \<and> selected_by_option vs gl_virtual_session_id l}"
proof -
  have "lr_lineages (run_goal_lineage_doctor ll lane vs h) =
      sort_key (\<lambda>l. (gl_campaign_family_id l, gl_observed_at_ms l, gl_lineage_id l))
        (filter (selected_by_option vs gl_virtual_session_id)
          (filter (selected_by_option lane gl_lane_digest)
            (map (apply_supersession (doctor_superseded ll h)) (doctor_rows ll h))))"
    unfolding run_goal_lineage_doctor_def doctor_rows_def doctor_superseded_def
      doctor_read_blockers_def Let_def split_beta by simp
  then show ?thesis by auto
qed

lemma doctor_row_projection:
  assumes "l \<in> set (lr_lineages (run_goal_lineage_doctor ll lane vs h))"
  obtains p where "map_of (latest_projections (doctor_projections ll h)) (projection_key p) = Some p"
    and "p \<in> set (doctor_projections ll h)"
    and "l = apply_supersession (doctor_superseded ll h)
      (projection_lineage ll (latest_authorities (doctor_authorities ll h)) p)"
proof -
  from assms obtain p where p: "p \<in> set (btree_values (latest_projections (doctor_projections ll h)))"
    and l: "l = apply_supersession (doctor_superseded ll h)
      (projection_lineage ll (latest_authorities (doctor_authorities ll h)) p)"
    by (auto simp: doctor_lineages doctor_rows_def)
  from p obtain k where "map_of (latest_projections (doctor_projections ll h)) k = Some p"
    by (auto simp: set_latest_projections ran_def)
  with latest_projections_inv [of "doctor_projections ll h"] l that show ?thesis
    unfolding projections_inv_def by blast
qed

section \<open>Supersession\<close>

definition supersession_inv :: "GoalLineageV1 list \<Rightarrow> string set \<Rightarrow> supersession_state \<Rightarrow> bool" where
  "supersession_inv ls S st \<longleftrightarrow> btree_ok (sm_map st)
     \<and> (\<forall>k w. map_of (sm_map st) k = Some w \<longrightarrow> k \<in> S \<and> w \<notin> S
          \<and> (\<exists>x \<in> set ls. \<exists>y \<in> set ls. gl_lineage_id x = w \<and> gl_runnable x \<and> gl_lineage_id y = k
               \<and> gl_campaign_family_id x = gl_campaign_family_id y))"

lemma supersession_step_inv:
  assumes inv: "supersession_inv ls S st" and r: "gs_superseded_lineage_id r \<in> S"
  shows "supersession_inv ls S (supersession_step ll S ls r st)"
proof -
  have "supersession_inv ls S (st\<lparr>sm_map := btree_insert (gs_superseded_lineage_id r)
      (gs_winner_lineage_id r) (sm_map st)\<rparr>)"
    if w: "find (\<lambda>l. gl_lineage_id l = gs_winner_lineage_id r) ls = Some w"
      and s: "find (\<lambda>l. gl_lineage_id l = gs_superseded_lineage_id r) ls = Some s"
      and v: "supersession_valid ll S r w s" for w s
    using inv r find_SomeD [OF w] find_SomeD [OF s] v
    unfolding supersession_inv_def supersession_valid_def by auto
  moreover have "supersession_inv ls S (st\<lparr>sm_ids := i\<rparr>)" "supersession_inv ls S (st\<lparr>sm_ids := i, sm_blockers := b\<rparr>)" for i b
    using inv by (simp_all add: supersession_inv_def)
  ultimately show ?thesis
    using inv by (auto simp: supersession_step_def Let_def supersession_inv_def split: option.splits)
qed

lemma doctor_superseded_inv:
  assumes "map_of (doctor_superseded ll h) k = Some w"
  shows "map_of (doctor_superseded ll h) w = None
    \<and> (\<exists>x \<in> set (doctor_rows ll h). \<exists>y \<in> set (doctor_rows ll h). gl_lineage_id x = w \<and> gl_runnable x
         \<and> gl_lineage_id y = k \<and> gl_campaign_family_id x = gl_campaign_family_id y)"
proof -
  let ?S = "set (map gs_superseded_lineage_id (doctor_supersessions ll h))"
  have "supersession_inv (doctor_rows ll h) ?S (fold (supersession_step ll ?S (doctor_rows ll h)) rs st)"
    if "supersession_inv (doctor_rows ll h) ?S st" "set rs \<subseteq> set (doctor_supersessions ll h)" for rs st
    using that
  proof (induction rs arbitrary: st)
    case (Cons r rs)
    then show ?case using supersession_step_inv by auto
  qed simp
  moreover have "supersession_inv (doctor_rows ll h) ?S
      \<lparr>sm_map = [], sm_ids = [], sm_blockers = doctor_read_blockers ll h\<rparr>"
    by (simp add: supersession_inv_def)
  ultimately have inv: "supersession_inv (doctor_rows ll h) ?S
      (fold (supersession_step ll ?S (doctor_rows ll h)) (doctor_supersessions ll h)
        \<lparr>sm_map = [], sm_ids = [], sm_blockers = doctor_read_blockers ll h\<rparr>)" by blast
  show ?thesis
    using assms inv unfolding doctor_superseded_def valid_supersession_map_def Let_def fst_conv
      supersession_inv_def by (metis not_Some_eq)
qed

section \<open>Grouping by campaign\<close>

abbreviation family_rows :: "string \<Rightarrow> GoalLineageV1 list \<Rightarrow> GoalLineageV1 list" where
  "family_rows f \<equiv> filter (\<lambda>l. gl_campaign_family_id l = f)"

lemma btree_ok_group: "btree_ok m \<Longrightarrow> btree_ok (group_lineage l m)"
  by (simp add: group_lineage_def)

lemma map_of_group:
  "btree_ok m \<Longrightarrow> map_of (group_lineage l m) f =
     (if gl_campaign_family_id l = f
      then Some ((case map_of m f of None \<Rightarrow> [] | Some ls \<Rightarrow> ls) @ [l]) else map_of m f)"
  by (simp add: group_lineage_def)

lemma grouped_inv:
  "btree_ok (fold group_lineage ls [])
   \<and> (\<forall>f. map_of (fold group_lineage ls []) f =
        (if family_rows f ls = [] then None else Some (family_rows f ls)))"
proof (induction ls rule: rev_induct)
  case (snoc l ls)
  then show ?case by (auto simp: btree_ok_group map_of_group)
qed simp

lemma grouped_mem:
  assumes "l \<in> set ls"
  shows "family_rows (gl_campaign_family_id l) ls \<in> set (map snd (fold group_lineage ls []))"
proof -
  let ?f = "gl_campaign_family_id l"
  have "family_rows ?f ls \<noteq> []" using assms by (auto simp: filter_empty_conv)
  with grouped_inv [of ls] have "map_of (fold group_lineage ls []) ?f = Some (family_rows ?f ls)" by simp
  then show ?thesis by (force dest: map_of_SomeD)
qed

lemma doctor_ready_groups:
  assumes "lr_status (run_goal_lineage_doctor ll lane vs h) = DoctorReady"
    and "l \<in> set (lr_lineages (run_goal_lineage_doctor ll lane vs h))"
    and "rows = family_rows (gl_campaign_family_id l) (lr_lineages (run_goal_lineage_doctor ll lane vs h))"
  shows "\<not> campaign_identity_blocked rows \<and> \<not> campaign_needs_reconciliation rows"
proof -
  let ?ls = "lr_lineages (run_goal_lineage_doctor ll lane vs h)"
  have "\<not> list_ex campaign_identity_blocked (map snd (fold group_lineage ?ls []))
      \<and> \<not> list_ex campaign_needs_reconciliation (map snd (fold group_lineage ?ls []))"
    using assms(1) unfolding run_goal_lineage_doctor_def Let_def split_beta by (auto split: if_splits)
  with grouped_mem [OF assms(2)] assms(3) show ?thesis by (auto simp: list_ex_iff)
qed

lemma doctor_runnable_open:
  assumes "l \<in> set (lr_lineages (run_goal_lineage_doctor ll lane vs h))" and "gl_runnable l"
  shows "is_active_status (gl_goal_status l) \<and> gl_disposition l \<noteq> Superseded"
proof -
  from assms(1) obtain p where l: "l = apply_supersession (doctor_superseded ll h)
      (projection_lineage ll (latest_authorities (doctor_authorities ll h)) p)"
    by (rule doctor_row_projection)
  with assms(2) have "gl_runnable (projection_lineage ll (latest_authorities (doctor_authorities ll h)) p)"
    and "map_of (doctor_superseded ll h)
      (gl_lineage_id (projection_lineage ll (latest_authorities (doctor_authorities ll h)) p)) = None"
    by auto
  with l show ?thesis
    by (auto simp: projection_lineage_runnable(1,3) apply_supersession_def simp del: projection_lineage_sel(9,10))
qed

lemma single_filter:
  assumes "length (filter P xs) \<le> 1" and "x \<in> set xs" "P x" and "y \<in> set xs" "P y"
  shows "y = x"
proof -
  have "x \<in> set (filter P xs)" "y \<in> set (filter P xs)" using assms by auto
  with assms(1) show ?thesis by (cases "filter P xs" rule: remdups_adj.cases) auto
qed

section \<open>Properties\<close>

text \<open>
  C6. A closed goal is never resurrected: once the projection ledger holds an authoritative
  terminal closure of a goal on a backend thread and generation, then whatever else was observed
  about that goal, before or after and with whatever timestamps, no lineage the doctor reports for
  it is active or runnable.
\<close>

theorem closed_goal_not_resurrected:
  assumes "q \<in> set (doctor_projections ll h)" and "is_authoritative_terminal_closure q"
    and "l \<in> set (lr_lineages (run_goal_lineage_doctor ll lane vs h))"
    and "gl_source_thread_id l = pj_source_thread_id q"
    and "gl_backend_context_generation l = pj_backend_context_generation q"
    and "gl_goal_reference l = projection_goal_identity q"
  shows "\<not> gl_runnable l \<and> \<not> is_active_status (gl_goal_status l)"
proof -
  from assms(3) obtain p where
    p: "map_of (latest_projections (doctor_projections ll h)) (projection_key p) = Some p"
    and l: "l = apply_supersession (doctor_superseded ll h)
      (projection_lineage ll (latest_authorities (doctor_authorities ll h)) p)"
    by (rule doctor_row_projection)
  from assms(4-6) l have "projection_key p = projection_key q" by (simp add: projection_key_def)
  with p latest_projections_inv [of "doctor_projections ll h"] assms(1,2)
  have "is_authoritative_terminal_closure p" unfolding projections_inv_def by fastforce
  then have "\<not> is_active_status (gl_goal_status l)"
    using l by (simp add: is_authoritative_terminal_closure_def)
  with doctor_runnable_open [OF assms(3)] show ?thesis by blast
qed

text \<open>
  A runnable lineage has exact authority: behind it stands a complete projection of an active
  goal and the latest authority receipt of its queue item and session, with status
  \<open>authoritative-v2\<close>, for the same lane and the same backend generation.
\<close>

theorem runnable_lineage_exact:
  assumes "l \<in> set (lr_lineages (run_goal_lineage_doctor ll lane vs h))" and "gl_runnable l"
  shows "\<exists>p \<in> set (doctor_projections ll h). \<exists>a \<in> set (doctor_authorities ll h).
      pj_projection_complete p \<and> \<not> is_blank (pj_objective p) \<and> is_active_status (pj_status p)
      \<and> gl_source_session_key l = pj_session_key p \<and> gl_queue_id l = pj_queue_id p
      \<and> authority_key (au_queue_id a) (au_working_session_key a)
          = authority_key (pj_queue_id p) (pj_session_key p)
      \<and> au_status a = ''authoritative-v2'' \<and> gl_lane_digest l = Some (au_lane_digest a)
      \<and> pj_lane_digest p = Some (au_lane_digest a)
      \<and> gl_backend_context_generation l = au_backend_context_generation a
      \<and> gl_virtual_session_id l = Some (au_virtual_session_id a)"
proof -
  let ?as = "latest_authorities (doctor_authorities ll h)"
  from assms(1) obtain p where p: "p \<in> set (doctor_projections ll h)"
    and l: "l = apply_supersession (doctor_superseded ll h) (projection_lineage ll ?as p)"
    by (rule doctor_row_projection)
  from assms(2) l have "gl_runnable (projection_lineage ll ?as p)" by simp
  then have ex: "exact_identity p (projection_authority p ?as)" "is_active_status (pj_status p)"
    by (simp_all only: projection_lineage_runnable)
  then obtain a where a: "projection_authority p ?as = Some a"
    by (auto simp: exact_identity_def split: option.splits)
  with latest_authorities_inv [of "doctor_authorities ll h"]
  have key: "a \<in> set (doctor_authorities ll h)"
    "authority_key (au_queue_id a) (au_working_session_key a) = authority_key (pj_queue_id p) (pj_session_key p)"
    by (auto simp: projection_authority_def)
  have exact: "pj_projection_complete p" "\<not> is_blank (pj_objective p)" "au_status a = ''authoritative-v2''"
    "pj_lane_digest p = Some (au_lane_digest a)"
    "pj_backend_context_generation p = au_backend_context_generation a"
    using ex(1) unfolding a exact_identity_def option.case by blast+
  have "gl_source_session_key l = pj_session_key p" "gl_queue_id l = pj_queue_id p"
    "gl_lane_digest l = Some (au_lane_digest a)"
    "gl_backend_context_generation l = au_backend_context_generation a"
    "gl_virtual_session_id l = Some (au_virtual_session_id a)"
    using l a exact(5) by simp_all
  note row = this
  show ?thesis
    by (rule bexI [OF _ p], rule bexI [OF _ key(1)]) (intro conjI exact ex(2) row key(2))
qed

text \<open>
  C7. A ready report leaves no doubt: if the doctor reports ready and a campaign has an active
  lineage, then exactly one of its lineages is runnable, and every other active lineage of the
  campaign has been superseded.
\<close>

theorem doctor_ready_unique:
  assumes rep: "rep = run_goal_lineage_doctor ll lane vs h" and ready: "lr_status rep = DoctorReady"
    and l: "l \<in> set (lr_lineages rep)" and active: "is_active_status (gl_goal_status l)"
  shows "\<exists>w \<in> set (lr_lineages rep). gl_campaign_family_id w = gl_campaign_family_id l \<and> gl_runnable w
    \<and> (\<forall>l' \<in> set (lr_lineages rep). gl_campaign_family_id l' = gl_campaign_family_id l \<longrightarrow>
         (gl_runnable l' \<longrightarrow> l' = w)
         \<and> (is_active_status (gl_goal_status l') \<longrightarrow> l' = w \<or> gl_disposition l' = Superseded))"
proof -
  define rows where "rows = family_rows (gl_campaign_family_id l) (lr_lineages rep)"
  have ok: "\<not> campaign_identity_blocked rows" "\<not> campaign_needs_reconciliation rows"
    using doctor_ready_groups [OF ready [unfolded rep] l [unfolded rep]] rows_def rep by auto
  have "0 < active_count rows"
    using l active by (auto simp: rows_def active_count_def filter_empty_conv)
  then have "runnable_count rows \<noteq> 0" using ok(1) by (simp add: campaign_identity_blocked_def)
  then obtain w where w: "w \<in> set rows" "gl_runnable w"
    by (auto simp: runnable_count_def filter_empty_conv)
  have open_w: "is_active_status (gl_goal_status w)" "gl_disposition w \<noteq> Superseded"
    using doctor_runnable_open [of w ll lane vs h] w rep by (auto simp: rows_def)
  have one: "l' = w" if "l' \<in> set rows" "gl_runnable l'" for l'
    using single_filter [of gl_runnable rows w l'] ok(2) w that
    by (simp add: campaign_needs_reconciliation_def runnable_count_def)
  have open_one: "l' = w" if "l' \<in> set rows" "is_active_status (gl_goal_status l')"
    "gl_disposition l' \<noteq> Superseded" for l'
    using single_filter [of "\<lambda>l. is_active_status (gl_goal_status l) \<and> gl_disposition l \<noteq> Superseded" rows w l']
      ok(2) w(1) open_w that by (simp add: campaign_needs_reconciliation_def unresolved_count_def)
  have rows: "x \<in> set rows \<longleftrightarrow> x \<in> set (lr_lineages rep) \<and> gl_campaign_family_id x = gl_campaign_family_id l" for x
    by (simp add: rows_def)
  show ?thesis
    by (rule bexI [of _ w]) (use w one open_one in \<open>unfold rows, blast+\<close>)
qed

text \<open>
  Supersession never strands a campaign: for every lineage that the doctor reports as
  superseded (over all lanes), the winner named in the report is itself reported and is runnable.
\<close>

theorem superseded_has_running_winner:
  assumes "l \<in> set (lr_lineages (run_goal_lineage_doctor ll None None h))"
    and "gl_superseded_by_lineage_id l = Some w"
  shows "\<exists>x \<in> set (lr_lineages (run_goal_lineage_doctor ll None None h)). gl_lineage_id x = w
    \<and> gl_runnable x"
proof -
  let ?m = "doctor_superseded ll h"
  from assms(1) obtain y where y: "y \<in> set (doctor_rows ll h)" "l = apply_supersession ?m y"
    by (auto simp: doctor_lineages)
  then have "gl_superseded_by_lineage_id y = None"
    by (auto simp: doctor_rows_def projection_lineage_def Let_def split_beta)
  with y(2) assms(2) have "map_of ?m (gl_lineage_id y) = Some w"
    by (simp add: apply_supersession_def split: option.splits)
  from doctor_superseded_inv [OF this] obtain x where x: "x \<in> set (doctor_rows ll h)"
    "gl_lineage_id x = w" "gl_runnable x" "map_of ?m w = None" by blast
  then have "apply_supersession ?m x \<in> set (lr_lineages (run_goal_lineage_doctor ll None None h))"
    by (auto simp: doctor_lineages selected_by_option_def)
  then show ?thesis using x by (intro bexI [of _ "apply_supersession ?m x"]) simp_all
qed

section \<open>Witnesses\<close>

text \<open>
  A concrete library: a one-letter line stands for a receipt, a rendering of values that joins their
  strings, a digest that keeps the last two characters.
\<close>

fun demo_render :: "Value \<Rightarrow> string" where
  "demo_render (JsonString s) = s"
| "demo_render (JsonObject kvs) = concat (map (\<lambda>kv. case snd kv of JsonString s \<Rightarrow> s | _ \<Rightarrow> []) kvs)"
| "demo_render _ = []"

definition demo_projection :: "string \<Rightarrow> string \<Rightarrow> GoalProjectionObservationPhaseV1
    \<Rightarrow> GoalProjectionTurnRelationV1 \<Rightarrow> int \<Rightarrow> GoalProjectionReceipt" where
  "demo_projection goal status phase relation at =
     \<lparr>pj_schema = GOAL_PROJECTION_SCHEMA, pj_queue_id = Some ''q'', pj_session_key = ''s'',
      pj_source_thread_id = ''t'', pj_source_turn_id = None, pj_goal_reference = goal,
      pj_backend_goal_ref = None, pj_lane_digest = Some ''l'',
      pj_backend_context_generation = Some ''g'', pj_objective = ''o'', pj_status = status,
      pj_observation_phase = phase, pj_turn_relation = relation,
      pj_source_final_eligible = (phase = OwnedTurn), pj_goal_checksum = ''c'', pj_projection_checksum = ''p'',
      pj_projection_complete = True, pj_observation_order = 0, pj_observed_at_ms = at\<rparr>"

definition demo_authority_receipt :: VirtualSessionAuthorityReceipt where
  "demo_authority_receipt =
     \<lparr>au_schema = VIRTUAL_SESSION_AUTHORITY_SCHEMA, au_queue_id = Some ''q'',
      au_virtual_session_id = ''v'', au_working_session_key = ''s'', au_lane_digest = ''l'',
      au_backend_context_generation = Some ''g'', au_status = ''authoritative-v2'', au_updated_at_ms = 1\<rparr>"

definition demo_active :: "string \<Rightarrow> GoalProjectionReceipt" where
  "demo_active goal = demo_projection goal ''active'' OwnedTurn CurrentOwnedTurn 2"

definition demo_closed_goal :: GoalProjectionReceipt where
  "demo_closed_goal = demo_projection ''a'' ''canceled'' GovernedClosure AuthoritativeGoalClosure 1"

definition demo_row :: "lineage_lib \<Rightarrow> string \<Rightarrow> GoalLineageV1" where
  "demo_row ll goal = projection_lineage ll (latest_authorities [demo_authority_receipt]) (demo_active goal)"

definition demo_supersession :: "lineage_lib \<Rightarrow> GoalLineageSupersessionV1" where
  "demo_supersession ll =
     \<lparr>gs_sup_schema = GOAL_LINEAGE_SUPERSESSION_SCHEMA,
      gs_supersession_id = supersession_identity ll (gl_campaign_family_id (demo_row ll ''a''))
        (gl_lineage_id (demo_row ll ''a'')) (gl_lineage_id (demo_row ll ''b'')),
      gs_campaign_family_id = gl_campaign_family_id (demo_row ll ''a''),
      gs_winner_lineage_id = gl_lineage_id (demo_row ll ''a''),
      gs_superseded_lineage_id = gl_lineage_id (demo_row ll ''b''), gs_lane_digest = ''l'',
      gs_virtual_session_id = ''v'', gs_reason = ''r'', gs_recorded_at_ms = 3\<rparr>"

definition demo_ll0 :: lineage_lib where
  "demo_ll0 = \<lparr>ll_sha256 = (\<lambda>s. drop (length s - 2) s), ll_json = demo_render,
     ll_projection_dec = (\<lambda>l. if l = ''A'' then Some (demo_active ''a'')
       else if l = ''B'' then Some (demo_active ''b'')
       else if l = ''C'' then Some demo_closed_goal else None),
     ll_authority_dec = (\<lambda>l. if l = ''A'' then Some demo_authority_receipt else None),
     ll_supersession_dec = (\<lambda>l. None), ll_supersession_enc = gs_supersession_id\<rparr>"

definition demo_ll :: lineage_lib where
  "demo_ll = demo_ll0\<lparr>ll_supersession_dec := (\<lambda>l. if l = ''S'' then Some (demo_supersession demo_ll0) else None)\<rparr>"

definition demo_home :: "string \<Rightarrow> string \<Rightarrow> lineage_home" where
  "demo_home projections supersessions = \<lparr>lh_projections = projections, lh_authorities = ''A'',
     lh_supersessions = supersessions\<rparr>"

lemma demo_row_ll: "demo_row demo_ll = demo_row demo_ll0"
  by (simp add: demo_row_def projection_lineage_def lineage_checksum_def demo_ll_def fun_eq_iff Let_def)

lemma demo_strings [simp]:
  "\<not> is_blank ''A''" "\<not> is_blank ''B''" "\<not> is_blank ''C''" "\<not> is_blank ''S''" "\<not> is_blank ''o''"
  "\<not> is_blank ''a''" "\<not> is_blank ''b''"
  by (rule not_blank_graphic_ends; simp add: ascii_graphic_def)+

lemma demo_status [simp]: "is_active_status ''active''" "\<not> is_active_status ''canceled''"
proof -
  have "trim ''active'' = ''active''" "trim ''canceled'' = ''canceled''"
    by (rule trim_graphic_ends; simp add: ascii_graphic_def)+
  then show "is_active_status ''active''" "\<not> is_active_status ''canceled''"
    by (simp_all add: is_active_status_def to_ascii_lowercase_def ascii_lower_def)
qed

lemma demo_lines [simp]: "text_lines ''A'' = [''A'']" "text_lines ''S'' = [''S'']"
  "text_lines [CHR ''A'', nl, CHR ''B''] = [''A'', ''B'']" "text_lines [CHR ''A'', nl, CHR ''C''] = [''A'', ''C'']"
  "text_lines [] = []"
  by (code_simp)+

lemma demo_schemas [simp]: "pj_schema (demo_active g) = GOAL_PROJECTION_SCHEMA"
  "pj_schema demo_closed_goal = GOAL_PROJECTION_SCHEMA"
  "au_schema demo_authority_receipt = VIRTUAL_SESSION_AUTHORITY_SCHEMA"
  "gs_sup_schema (demo_supersession ll) = GOAL_LINEAGE_SUPERSESSION_SCHEMA"
  by (simp_all add: demo_active_def demo_closed_goal_def demo_projection_def demo_authority_receipt_def
      demo_supersession_def)

lemma demo_read [simp]:
  "read_schema_jsonl (ll_projection_dec demo_ll) pj_schema GOAL_PROJECTION_SCHEMA lbl ''A'' = ([demo_active ''a''], [])"
  "read_schema_jsonl (ll_projection_dec demo_ll) pj_schema GOAL_PROJECTION_SCHEMA lbl [CHR ''A'', nl, CHR ''B'']
     = ([demo_active ''a'', demo_active ''b''], [])"
  "read_schema_jsonl (ll_projection_dec demo_ll) pj_schema GOAL_PROJECTION_SCHEMA lbl [CHR ''A'', nl, CHR ''C'']
     = ([demo_active ''a'', demo_closed_goal], [])"
  "read_schema_jsonl (ll_authority_dec demo_ll) au_schema VIRTUAL_SESSION_AUTHORITY_SCHEMA lbl ''A''
     = ([demo_authority_receipt], [])"
  "read_schema_jsonl (ll_supersession_dec demo_ll) gs_sup_schema GOAL_LINEAGE_SUPERSESSION_SCHEMA lbl []
     = ([], [])"
  "read_schema_jsonl (ll_supersession_dec demo_ll) gs_sup_schema GOAL_LINEAGE_SUPERSESSION_SCHEMA lbl ''S''
     = ([demo_supersession demo_ll0], [])"
  by (simp_all add: read_schema_jsonl_def demo_ll_def demo_ll0_def)

lemma demo_keys: "projection_key (demo_active g) = [CHR ''t'', CHR 0x1F, CHR ''g'', CHR 0x1F] @
    (if is_blank g then ''c'' else g)"
  "projection_key demo_closed_goal = [CHR ''t'', CHR 0x1F, CHR ''g'', CHR 0x1F, CHR ''a'']"
  by (simp_all add: projection_key_def projection_goal_identity_def demo_active_def demo_closed_goal_def
      demo_projection_def)

lemma demo_latest:
  "btree_values (latest_projections [demo_active ''a'']) = [demo_active ''a'']"
  "btree_values (latest_projections [demo_active ''a'', demo_active ''b'']) = [demo_active ''a'', demo_active ''b'']"
  "btree_values (latest_projections [demo_active ''a'', demo_closed_goal]) = [demo_closed_goal]"
proof -
  show "btree_values (latest_projections [demo_active ''a'']) = [demo_active ''a'']"
    "btree_values (latest_projections [demo_active ''a'', demo_active ''b'']) = [demo_active ''a'', demo_active ''b'']"
    by (simp_all add: latest_projections_def projection_insert_def demo_keys btree_values_def)
  have "projection_replaces demo_closed_goal (demo_active ''a'')"
    by (simp add: projection_replaces_def is_authoritative_terminal_closure_def demo_active_def
        demo_closed_goal_def demo_projection_def)
  then show "btree_values (latest_projections [demo_active ''a'', demo_closed_goal]) = [demo_closed_goal]"
    by (simp add: latest_projections_def projection_insert_def demo_keys btree_values_def)
qed

lemma demo_rows:
  "doctor_rows demo_ll (demo_home ''A'' s) = [demo_row demo_ll0 ''a'']"
  "doctor_rows demo_ll (demo_home [CHR ''A'', nl, CHR ''B''] s) = [demo_row demo_ll0 ''a'', demo_row demo_ll0 ''b'']"
  "doctor_rows demo_ll (demo_home [CHR ''A'', nl, CHR ''C''] s)
     = [projection_lineage demo_ll (latest_authorities [demo_authority_receipt]) demo_closed_goal]"
  by (simp_all add: doctor_rows_def demo_home_def demo_latest demo_row_def flip: demo_row_ll)

lemma demo_superseded_none: "doctor_superseded demo_ll (demo_home t []) = []"
  by (simp add: doctor_superseded_def demo_home_def valid_supersession_map_def)

lemma demo_row_runnable: "gl_runnable (demo_row ll goal)"
  by (simp add: demo_row_def projection_lineage_runnable(1) exact_identity_def projection_authority_def
      latest_authorities_def authority_insert_def authority_key_def demo_authority_receipt_def
      demo_active_def demo_projection_def del: projection_lineage_sel(9))

lemma demo_lineages:
  "set (lr_lineages (run_goal_lineage_doctor demo_ll None None (demo_home t s))) =
     apply_supersession (doctor_superseded demo_ll (demo_home t s)) ` set (doctor_rows demo_ll (demo_home t s))"
  by (auto simp: doctor_lineages selected_by_option_def)

theorem closed_goal_not_resurrected_witness:
  "let h = demo_home [CHR ''A'', nl, CHR ''C''] [];
       l = projection_lineage demo_ll (latest_authorities [demo_authority_receipt]) demo_closed_goal
   in \<not> gl_runnable l \<and> \<not> is_active_status (gl_goal_status l)
      \<and> l \<in> set (lr_lineages (run_goal_lineage_doctor demo_ll None None h))"
proof -
  let ?h = "demo_home [CHR ''A'', nl, CHR ''C''] []"
  let ?l = "projection_lineage demo_ll (latest_authorities [demo_authority_receipt]) demo_closed_goal"
  have q: "demo_closed_goal \<in> set (doctor_projections demo_ll ?h)" by (simp add: demo_home_def)
  have c: "is_authoritative_terminal_closure demo_closed_goal"
    by (simp add: is_authoritative_terminal_closure_def demo_closed_goal_def demo_projection_def)
  have l: "?l \<in> set (lr_lineages (run_goal_lineage_doctor demo_ll None None ?h))"
    by (simp add: demo_lineages demo_rows demo_superseded_none apply_supersession_def)
  show ?thesis using closed_goal_not_resurrected [OF q c l] l by (simp add: Let_def)
qed

lemma demo_row_member:
  "demo_row demo_ll0 ''a'' \<in> set (lr_lineages (run_goal_lineage_doctor demo_ll None None (demo_home ''A'' [])))"
  by (simp add: demo_lineages demo_rows demo_superseded_none apply_supersession_def)

theorem runnable_lineage_exact_witness:
  "\<exists>p \<in> set (doctor_projections demo_ll (demo_home ''A'' [])).
     \<exists>a \<in> set (doctor_authorities demo_ll (demo_home ''A'' [])).
       au_status a = ''authoritative-v2'' \<and> pj_lane_digest p = Some (au_lane_digest a)"
  using runnable_lineage_exact [OF demo_row_member demo_row_runnable] by blast

lemma demo_ready:
  "lr_status (run_goal_lineage_doctor demo_ll None None (demo_home ''A'' [])) = DoctorReady"
proof -
  let ?r = "demo_row demo_ll0 ''a''"
  have row: "map (projection_lineage demo_ll (latest_authorities [demo_authority_receipt]))
      (btree_values (latest_projections [demo_active ''a''])) = [?r]"
    by (simp add: demo_latest demo_row_def flip: demo_row_ll)
  have sel: "gl_runnable ?r" "gl_disposition ?r = Runnable" "is_active_status (gl_goal_status ?r)"
    using demo_row_runnable [of demo_ll0 "''a''"] unfolding demo_row_def
    by (simp_all only: projection_lineage_runnable) (simp add: demo_active_def demo_projection_def)
  then have "\<not> campaign_identity_blocked [?r]" "\<not> campaign_needs_reconciliation [?r]"
    by (simp_all add: campaign_identity_blocked_def campaign_needs_reconciliation_def unresolved_count_def
        runnable_count_def)
  then show ?thesis
    unfolding run_goal_lineage_doctor_def demo_home_def lineage_home.simps demo_read prod.case row Let_def
    by (simp add: valid_supersession_map_def apply_supersession_def selected_by_option_def group_lineage_def)
qed

theorem doctor_ready_unique_witness:
  "\<exists>w \<in> set (lr_lineages (run_goal_lineage_doctor demo_ll None None (demo_home ''A'' []))). gl_runnable w"
proof -
  have "is_active_status (gl_goal_status (demo_row demo_ll0 ''a''))"
    by (simp add: demo_row_def demo_active_def demo_projection_def)
  from doctor_ready_unique [OF refl demo_ready demo_row_member this] show ?thesis by blast
qed

lemma demo_ids: "gl_lineage_id (demo_row demo_ll0 ''a'') \<noteq> gl_lineage_id (demo_row demo_ll0 ''b'')"
  "gl_campaign_family_id (demo_row demo_ll0 ''a'') = gl_campaign_family_id (demo_row demo_ll0 ''b'')"
  by (simp_all add: demo_row_def projection_lineage_def Let_def split_beta lineage_checksum_def sha256_json_def
      demo_ll0_def demo_active_def demo_projection_def projection_goal_identity_def hex_encode_def
      projection_authority_def latest_authorities_def authority_insert_def authority_key_def
      demo_authority_receipt_def opt_json_def hex_digit_def)

lemma demo_superseded:
  "doctor_superseded demo_ll (demo_home [CHR ''A'', nl, CHR ''B''] ''S'')
     = [(gl_lineage_id (demo_row demo_ll0 ''b''), gl_lineage_id (demo_row demo_ll0 ''a''))]"
proof -
  let ?a = "demo_row demo_ll0 ''a''" and ?b = "demo_row demo_ll0 ''b''" and ?s = "demo_supersession demo_ll0"
  have ids: "gs_winner_lineage_id ?s = gl_lineage_id ?a" "gs_superseded_lineage_id ?s = gl_lineage_id ?b"
    by (simp_all add: demo_supersession_def)
  have "supersession_identity demo_ll = supersession_identity demo_ll0"
    by (simp add: fun_eq_iff supersession_identity_def lineage_checksum_def demo_ll_def)
  moreover have "gl_lane_digest ?a = Some ''l''" "gl_virtual_session_id ?a = Some ''v''"
    by (simp_all add: demo_row_def projection_authority_def latest_authorities_def authority_insert_def
        authority_key_def demo_authority_receipt_def demo_active_def demo_projection_def)
  ultimately have "supersession_valid demo_ll {gl_lineage_id ?b} ?s ?a ?b"
    using demo_ids demo_row_runnable [of demo_ll0 "''a''"]
    by (simp add: supersession_valid_def demo_supersession_def)
  moreover have "doctor_supersessions demo_ll (demo_home t ''S'') = [?s]" for t
    by (simp add: demo_home_def)
  ultimately show ?thesis
    using demo_ids(1)
    by (simp add: doctor_superseded_def demo_rows valid_supersession_map_def supersession_step_def ids)
qed

theorem superseded_has_running_winner_witness:
  "\<exists>x \<in> set (lr_lineages (run_goal_lineage_doctor demo_ll None None
       (demo_home [CHR ''A'', nl, CHR ''B''] ''S''))).
     gl_lineage_id x = gl_lineage_id (demo_row demo_ll0 ''a'') \<and> gl_runnable x"
proof -
  let ?h = "demo_home [CHR ''A'', nl, CHR ''B''] ''S''" and ?b = "demo_row demo_ll0 ''b''"
  let ?l = "apply_supersession (doctor_superseded demo_ll ?h) ?b"
  have l: "?l \<in> set (lr_lineages (run_goal_lineage_doctor demo_ll None None ?h))"
    by (simp add: demo_lineages demo_rows)
  have "gl_superseded_by_lineage_id ?l = Some (gl_lineage_id (demo_row demo_ll0 ''a''))"
    by (simp add: apply_supersession_def demo_superseded)
  with l show ?thesis by (rule superseded_has_running_winner)
qed

end
