(* ===== verification/Goal_Campaign_Props.thy ===== *)
theory Goal_Campaign_Props
  imports Goal_Campaign Goal_Lineage_Props
begin

text \<open>
  Properties that span the lineage selection, the campaign budget and the transition table. The
  invariant \<open>home_inv\<close> of the two ledgers ties every scheduled continuation of an active campaign
  to an unexhausted budget receipt; the receipts of a campaign are numbered consecutively, so
  there are fewer of those than the policy allows slices. With the reports of the lineage doctor,
  every scheduled continuation of a campaign is such a one.
\<close>

section \<open>Receipts are numbered consecutively\<close>

definition ranks_ok :: "GoalCampaignBudgetReceiptV1 list \<Rightarrow> bool" where
  "ranks_ok rs \<longleftrightarrow> (\<forall>f k. k < length (filter (of_family f) rs) \<longrightarrow>
     unat (br_slices_observed (filter (of_family f) rs ! k)) = min (Suc k) (2 ^ 64 - 1))"

lemma ranks_okD:
  "ranks_ok rs \<Longrightarrow> k < length (filter (of_family f) rs) \<Longrightarrow>
   unat (br_slices_observed (filter (of_family f) rs ! k)) = min (Suc k) (2 ^ 64 - 1)"
  by (simp add: ranks_ok_def)

lemma find_rev_last: "find P (rev xs) = (if filter P xs = [] then None else Some (last (filter P xs)))"
  by (induction xs rule: rev_induct) auto

lemma budget_receipt_slices:
  "br_slices_observed (budget_receipt sha256 p i prev) = sat_add (case_option 0 br_slices_observed prev) 1"
  "br_max_slices (budget_receipt sha256 p i prev) = gp_max_slices p"
  by (simp_all add: budget_receipt_def Let_def)

lemma ranks_ok_snoc:
  assumes "ranks_ok rs"
  shows "ranks_ok (rs @ [budget_receipt sha256 p i
           (find (of_family (bi_campaign_family_id i)) (rev rs))])"
    (is "ranks_ok (rs @ [?r])")
  unfolding ranks_ok_def
proof (intro allI impI)
  fix f k
  let ?fr = "filter (of_family f) rs"
  assume k: "k < length (filter (of_family f) (rs @ [?r]))"
  show "unat (br_slices_observed (filter (of_family f) (rs @ [?r]) ! k)) = min (Suc k) (2 ^ 64 - 1)"
  proof (cases "k < length ?fr")
    case True
    with ranks_okD [OF assms True] show ?thesis by (simp add: nth_append)
  next
    case False
    with k have f: "f = bi_campaign_family_id i" and k: "k = length ?fr"
      by (auto split: if_splits)
    have "unat (case_option 0 br_slices_observed (find (of_family f) (rev rs))) = min k (2 ^ 64 - 1)"
    proof (cases "?fr = []")
      case True
      then show ?thesis using k by (simp add: find_rev_last)
    next
      case False
      then have "unat (br_slices_observed (?fr ! (length ?fr - 1))) = min (Suc (length ?fr - 1)) (2 ^ 64 - 1)"
        by (intro ranks_okD [OF assms]) simp
      moreover have "Suc (length ?fr - 1) = k" using False k by simp
      ultimately show ?thesis using False by (simp add: find_rev_last last_conv_nth)
    qed
    moreover have "filter (of_family f) (rs @ [?r]) ! k = ?r" using f k by (simp add: nth_append)
    ultimately show ?thesis using f by (simp add: budget_receipt_slices unat_sat_add)
  qed
qed

lemma ranks_ok_few:
  assumes "ranks_ok rs"
  shows "card {b \<in> set rs. of_family f b \<and> br_slices_observed b < n} \<le> unat n - 1"
proof -
  let ?fr = "filter (of_family f) rs"
  have "{b \<in> set rs. of_family f b \<and> br_slices_observed b < n} \<subseteq> (!) ?fr ` {..<unat n - 1}"
  proof
    fix b
    assume "b \<in> {b \<in> set rs. of_family f b \<and> br_slices_observed b < n}"
    then have b: "b \<in> set ?fr" "unat (br_slices_observed b) < unat n"
      by (auto simp: word_less_nat_alt)
    from b(1) obtain k where k: "k < length ?fr" "?fr ! k = b" by (metis in_set_conv_nth)
    with ranks_okD [OF assms k(1)] b(2) have "min (Suc k) (2 ^ 64 - 1) < unat n" by simp
    then have "k < unat n - 1" using unat_u64_less [of n] by auto
    with k show "b \<in> (!) ?fr ` {..<unat n - 1}" by auto
  qed
  then have "card {b \<in> set rs. of_family f b \<and> br_slices_observed b < n} \<le> card ((!) ?fr ` {..<unat n - 1})"
    by (intro card_mono) auto
  also have "\<dots> \<le> unat n - 1" using card_image_le [of "{..<unat n - 1}" "(!) ?fr"] by simp
  finally show ?thesis .
qed

section \<open>Invariant of the ledgers\<close>

definition transition_rows :: "codecs \<Rightarrow> campaign_home \<Rightarrow> GoalTransitionReceiptV1 list" where
  "transition_rows cx h = List.map_filter (cx_transition_dec cx) (text_lines (ch_transitions h))"

abbreviation budget_rows :: "codecs \<Rightarrow> campaign_home \<Rightarrow> GoalCampaignBudgetReceiptV1 list" where
  "budget_rows cx h \<equiv> parsed_rows (cx_budget_dec cx) (ch_budget h)"

text \<open>A recorded decision to run another slice of an active campaign whose identity is complete.\<close>

definition campaign_continuation :: "string \<Rightarrow> GoalTransitionReceiptV1 \<Rightarrow> bool" where
  "campaign_continuation f r \<longleftrightarrow> gr_campaign_family_id r = Some f \<and> gr_lane_digest r \<noteq> None
     \<and> gr_virtual_session_id r \<noteq> None
     \<and> (\<exists>s. gr_goal_status r = Some s \<and> is_goal_status_active s) \<and> gr_schedule_continuation r"

definition charged_to :: "string \<Rightarrow> GoalTransitionReceiptV1 \<Rightarrow> GoalCampaignBudgetReceiptV1 \<Rightarrow> bool" where
  "charged_to f r b \<longleftrightarrow> br_campaign_family_id b = f \<and> br_queue_id b = gr_queue_id r
     \<and> br_source_slice_generation b = gr_source_slice_generation r
     \<and> br_goal_checksum b = gr_goal_checksum r
     \<and> \<not> br_budget_exhausted b \<and> \<not> br_no_progress_exhausted b"

definition codecs_ok :: "codecs \<Rightarrow> bool" where
  "codecs_ok cx \<longleftrightarrow> (\<forall>r. codec_ok (cx_budget_enc cx) (cx_budget_dec cx) r)
     \<and> (\<forall>r. codec_ok (cx_transition_enc cx) (cx_transition_dec cx) r)"

definition budget_rows_ok :: "GoalCampaignPolicyV1 \<Rightarrow> GoalCampaignBudgetReceiptV1 list \<Rightarrow> bool" where
  "budget_rows_ok p rs \<longleftrightarrow> ranks_ok rs
     \<and> (\<forall>b \<in> set rs. receipt_coherent b \<and> br_max_slices b = gp_max_slices p)"

definition home_inv :: "codecs \<Rightarrow> GoalCampaignPolicyV1 \<Rightarrow> campaign_home \<Rightarrow> bool" where
  "home_inv cx p h \<longleftrightarrow>
     load_goal_campaign_policy (cx_value_dec cx) (ch_config h) = Inr p
     \<and> budget_file_ok (cx_budget_enc cx) (cx_budget_dec cx) (ch_budget h)
     \<and> okf_text (ch_transitions h) \<and> budget_rows_ok p (budget_rows cx h)
     \<and> (\<forall>r \<in> set (transition_rows cx h). \<forall>f. campaign_continuation f r \<longrightarrow>
          (\<exists>b \<in> set (budget_rows cx h). charged_to f r b))"

lemma budget_rows_ok_snoc:
  "budget_rows_ok p rs \<Longrightarrow> budget_rows_ok p (rs @ [budget_receipt sha256 p i
     (find (of_family (bi_campaign_family_id i)) (rev rs))])"
  by (auto simp: budget_rows_ok_def ranks_ok_snoc receipt_coherent_budget_receipt budget_receipt_slices)

lemma budget_rows_ok_record:
  assumes "budget_file_ok enc dec t" and "budget_rows_ok p (parsed_rows dec t)"
  shows "budget_rows_ok p (parsed_rows dec (record_slice enc dec sha256 (p, i) t))"
  using record_slice_rows [OF assms(1), of sha256 "(p, i)"] assms(2) budget_rows_ok_snoc [OF assms(2)]
  by auto

text \<open>A successful evaluation leaves its receipt in the ledger, and the ledger only grows.\<close>

lemma evaluate_in_rows:
  assumes "budget_file_ok enc dec t" and "evaluate_goal_campaign_budget enc dec sha256 p i t = (t', Inr b)"
  shows "b \<in> set (parsed_rows dec t') \<and> answers i b \<and> set (parsed_rows dec t) \<subseteq> set (parsed_rows dec t')"
proof -
  have req: "request_ok (p, i)"
    using evaluate_refused [of p i enc dec sha256 t] assms(2) by (metis Inl_Inr_False snd_conv)
  note ev = evaluate_accepted [OF assms(1) req, of sha256]
  show ?thesis
  proof (cases "find (answers i) (rev (parsed_rows dec t))")
    case (Some r)
    with ev assms(2) show ?thesis by (auto dest: find_SomeD)
  next
    case None
    with ev assms show ?thesis
      by (auto simp: Let_def budget_file_ok_def parsed_rows_append [where okr = receipt_ok])
  qed
qed

section \<open>One evaluation\<close>

lemma charge_campaign_inv:
  assumes "home_inv cx p h" and "charge_campaign cx i run now h = (t, res)"
  shows "budget_file_ok (cx_budget_enc cx) (cx_budget_dec cx) t
    \<and> budget_rows_ok p (parsed_rows (cx_budget_dec cx) t)
    \<and> set (budget_rows cx h) \<subseteq> set (parsed_rows (cx_budget_dec cx) t)"
proof -
  have inv: "budget_file_ok (cx_budget_enc cx) (cx_budget_dec cx) (ch_budget h)"
    "budget_rows_ok p (budget_rows cx h)"
    "load_goal_campaign_policy (cx_value_dec cx) (ch_config h) = Inr p"
    using assms(1) by (auto simp: home_inv_def)
  have "t = ch_budget h \<or> (\<exists>j res'. evaluate_goal_campaign_budget (cx_budget_enc cx)
      (cx_budget_dec cx) (cx_sha256 cx) p j (ch_budget h) = (t, res'))"
    using assms(2) inv(3)
    by (auto simp: charge_campaign_def split: if_splits option.splits prod.splits sum.splits)
  then show ?thesis
  proof
    assume "t = ch_budget h"
    with inv show ?thesis by simp
  next
    assume "\<exists>j res'. evaluate_goal_campaign_budget (cx_budget_enc cx)
      (cx_budget_dec cx) (cx_sha256 cx) p j (ch_budget h) = (t, res')"
    then obtain j where t: "record_slice (cx_budget_enc cx) (cx_budget_dec cx) (cx_sha256 cx) (p, j)
      (ch_budget h) = t" by (metis fst_conv snd_conv)
    have "\<exists>rs. parsed_rows (cx_budget_dec cx) t = budget_rows cx h @ rs"
      using record_slice_rows [OF inv(1), of "cx_sha256 cx" "(p, j)"] unfolding t by auto
    then have "set (budget_rows cx h) \<subseteq> set (parsed_rows (cx_budget_dec cx) t)" by auto
    moreover have "budget_file_ok (cx_budget_enc cx) (cx_budget_dec cx) t"
      using campaign_ledger.okf_record [OF inv(1), of "cx_sha256 cx" "(p, j)"] t by simp
    moreover have "budget_rows_ok p (parsed_rows (cx_budget_dec cx) t)"
      using budget_rows_ok_record [OF inv(1,2), of "cx_sha256 cx" j] t by simp
    ultimately show ?thesis by simp
  qed
qed

lemma charge_campaign_active:
  assumes "home_inv cx p h" and "charge_campaign cx i run now h = (t, Inr charged)"
    and "gi_campaign_family_id i = Some f" and "gi_lane_digest i \<noteq> None" and "gi_virtual_session_id i \<noteq> None"
    and "gi_goal_status i = Some s" and "is_goal_status_active s"
  shows "\<exists>b. charged = Some b \<and> b \<in> set (parsed_rows (cx_budget_dec cx) t)
    \<and> br_campaign_family_id b = f \<and> br_queue_id b = rn_queue_id run
    \<and> br_source_slice_generation b = gi_source_slice_generation i
    \<and> br_goal_checksum b = gi_goal_checksum i"
proof -
  obtain lane session where ls: "gi_lane_digest i = Some lane" "gi_virtual_session_id i = Some session"
    using assms(4,5) by blast
  let ?j = "slice_budget_input i run now f lane session"
  have inv: "budget_file_ok (cx_budget_enc cx) (cx_budget_dec cx) (ch_budget h)"
    "load_goal_campaign_policy (cx_value_dec cx) (ch_config h) = Inr p"
    using assms(1) by (auto simp: home_inv_def)
  obtain b where "charged = Some b"
    and ev: "evaluate_goal_campaign_budget (cx_budget_enc cx) (cx_budget_dec cx) (cx_sha256 cx) p ?j
      (ch_budget h) = (t, Inr b)"
    using assms(2,3,6,7) ls inv(2)
    by (auto simp: charge_campaign_def split: prod.splits sum.splits)
  with evaluate_in_rows [OF inv(1) ev] show ?thesis
    by (auto simp: answers_def slice_budget_input_def)
qed

text \<open>The arguments of one call.\<close>

type_synonym settlement = "(io_error + GoalLineageDoctorReport) \<times> run_receipt \<times> RuntimeRunOnceStatus
  \<times> u64 option \<times> RuntimeGoalAuthorityContext \<times> int \<times> int"

definition settle :: "codecs \<Rightarrow> settlement \<Rightarrow> campaign_home \<Rightarrow> campaign_home" where
  "settle cx c h = (case c of (report, run, status, slice_generation, ctx, budget_now, now) \<Rightarrow>
     fst (evaluate_runtime_goal_transition cx report run status slice_generation ctx budget_now now h))"

lemma transition_rows_record:
  assumes "okf_text (ch_transitions h)" and "codecs_ok cx"
  shows "transition_rows cx (h\<lparr>ch_budget := t, ch_transitions :=
      record_goal_transition (cx_transition_enc cx) r (ch_transitions h)\<rparr>) = transition_rows cx h @ [r]
    \<and> okf_text (record_goal_transition (cx_transition_enc cx) r (ch_transitions h))"
proof -
  have "codec_ok (cx_transition_enc cx) (cx_transition_dec cx) r"
    using assms(2) by (simp add: codecs_ok_def)
  with assms(1) show ?thesis
    by (simp add: codec_ok_def transition_rows_def record_goal_transition_def append_jsonl_value_def
        text_lines_append_jsonl_line jsonl_text.okf_append List.map_filter_def)
qed

lemma home_inv_grow:
  assumes "home_inv cx p h" and "charge_campaign cx i run now h = (t, res)"
  shows "home_inv cx p (h\<lparr>ch_budget := t\<rparr>)"
  using assms(1) charge_campaign_inv [OF assms]
  by (auto simp: home_inv_def transition_rows_def) blast

lemma home_inv_settle:
  assumes inv: "home_inv cx p h" and cx: "codecs_ok cx"
  shows "home_inv cx p (settle cx c h)"
proof -
  obtain report run status gen ctx bnow now where c: "c = (report, run, status, gen, ctx, bnow, now)"
    by (cases c)
  define i where "i = slice_input (resolve_goal report run gen ctx) run status gen ctx now"
  obtain t res where ch: "charge_campaign cx i run bnow h = (t, res)" by fastforce
  have grown: "home_inv cx p (h\<lparr>ch_budget := t\<rparr>)" by (rule home_inv_grow [OF inv ch])
  show ?thesis
  proof (cases "find_existing_goal_transition (cx_transition_dec cx) i (ch_transitions h)")
    case (Some r)
    then have "settle cx c h = h"
      by (simp add: settle_def c evaluate_runtime_goal_transition_def Let_def i_def)
    with inv show ?thesis by simp
  next
    case none: None
    show ?thesis
    proof (cases res)
      case (Inl e)
      then have "settle cx c h = h\<lparr>ch_budget := t\<rparr>"
        using none ch by (simp add: settle_def c evaluate_runtime_goal_transition_def Let_def i_def)
      with grown show ?thesis by simp
    next
      case (Inr charged)
      define j where "j = i\<lparr>gi_decision_generation := next_goal_transition_generation
          (cx_value_dec cx) (rn_queue_id run) (ch_transitions h),
        gi_budget_exhausted := case_option False br_budget_exhausted charged,
        gi_no_progress_exhausted := case_option False br_no_progress_exhausted charged\<rparr>"
      define r where "r = evaluate_goal_transition j"
      let ?h = "h\<lparr>ch_budget := t, ch_transitions :=
        record_goal_transition (cx_transition_enc cx) r (ch_transitions h)\<rparr>"
      have st: "settle cx c h = ?h"
        using none ch Inr
        by (simp add: settle_def c evaluate_runtime_goal_transition_def Let_def i_def r_def j_def)
      have okt: "okf_text (ch_transitions h)" using inv by (simp add: home_inv_def)
      note rows = transition_rows_record [OF okt cx, where t = t and r = r]
      have new: "\<exists>b \<in> set (parsed_rows (cx_budget_dec cx) t). charged_to f r b"
        if cont: "campaign_continuation f r" for f
      proof -
        from cont obtain s where s: "gi_campaign_family_id i = Some f" "gi_lane_digest i \<noteq> None"
          "gi_virtual_session_id i \<noteq> None" "gi_goal_status i = Some s" "is_goal_status_active s"
          and sched: "gr_schedule_continuation r"
          by (auto simp: campaign_continuation_def r_def j_def)
        from charge_campaign_active [OF inv _ s] ch Inr obtain b where
          b: "charged = Some b" "b \<in> set (parsed_rows (cx_budget_dec cx) t)"
          "br_campaign_family_id b = f" "br_queue_id b = rn_queue_id run"
          "br_source_slice_generation b = gi_source_slice_generation i"
          "br_goal_checksum b = gi_goal_checksum i" by metis
        have "\<not> gi_budget_exhausted j \<and> \<not> gi_no_progress_exhausted j"
          using sched exhausted_not_scheduled [of j] by (auto simp: r_def)
        moreover have "gi_queue_id i = rn_queue_id run" by (simp add: i_def slice_input_def Let_def)
        ultimately show ?thesis using b by (auto simp: charged_to_def r_def j_def)
      qed
      show ?thesis
        unfolding st using grown rows new by (auto simp: home_inv_def transition_rows_def)
    qed
  qed
qed

lemma home_inv_settles:
  "home_inv cx p h \<Longrightarrow> codecs_ok cx \<Longrightarrow> home_inv cx p (fold (settle cx) cs h)"
  by (induction cs arbitrary: h) (auto simp: home_inv_settle)

lemma home_inv_few:
  assumes "home_inv cx p h"
  shows "card ((\<lambda>r. (gr_queue_id r, gr_source_slice_generation r, gr_goal_checksum r))
      ` {r \<in> set (transition_rows cx h). campaign_continuation f r}) \<le> unat (gp_max_slices p) - 1"
proof -
  let ?B = "{b \<in> set (budget_rows cx h). of_family f b \<and> br_slices_observed b < gp_max_slices p}"
  let ?K = "(\<lambda>r. (gr_queue_id r, gr_source_slice_generation r, gr_goal_checksum r))
      ` {r \<in> set (transition_rows cx h). campaign_continuation f r}"
  have ok: "budget_rows_ok p (budget_rows cx h)" using assms by (simp add: home_inv_def)
  have "?K \<subseteq> (\<lambda>b. (br_queue_id b, br_source_slice_generation b, br_goal_checksum b)) ` ?B"
  proof
    fix x
    assume "x \<in> ?K"
    then obtain r where r: "r \<in> set (transition_rows cx h)" "campaign_continuation f r"
      and x: "x = (gr_queue_id r, gr_source_slice_generation r, gr_goal_checksum r)" by auto
    then obtain b where b: "b \<in> set (budget_rows cx h)" "charged_to f r b"
      using assms by (auto simp: home_inv_def)
    moreover have "br_slices_observed b < gp_max_slices p"
      using ok b by (cases "br_boundary b") (auto simp: budget_rows_ok_def receipt_coherent_def charged_to_def)
    ultimately show "x \<in> (\<lambda>b. (br_queue_id b, br_source_slice_generation b, br_goal_checksum b)) ` ?B"
      using x by (auto simp: charged_to_def image_iff)
  qed
  then have "card ?K \<le> card ((\<lambda>b. (br_queue_id b, br_source_slice_generation b, br_goal_checksum b)) ` ?B)"
    by (intro card_mono) auto
  also have "\<dots> \<le> card ?B" by (intro card_image_le) auto
  also have "\<dots> \<le> unat (gp_max_slices p) - 1"
    using ok by (intro ranks_ok_few) (simp add: budget_rows_ok_def)
  finally show ?thesis .
qed

section \<open>Scheduled slices have a complete identity\<close>

text \<open>
  The budget is charged only when the lane and the virtual session are known. A lineage that the doctor
  accepts has both, so that no campaign slice is scheduled without being charged.
\<close>

lemma doctor_accepted_identity:
  assumes "l \<in> set (lr_lineages (run_goal_lineage_doctor ll lane session lh))"
    and "gl_disposition l = Runnable \<or> gl_disposition l = Inactive"
  shows "gl_lane_digest l \<noteq> None \<and> gl_virtual_session_id l \<noteq> None"
proof -
  let ?as = "latest_authorities (doctor_authorities ll lh)"
  from assms(1) obtain p where l: "l = apply_supersession (doctor_superseded ll lh) (projection_lineage ll ?as p)"
    by (rule doctor_row_projection)
  with assms(2) have "gl_disposition (projection_lineage ll ?as p) \<noteq> MissingAuthority"
    by (auto simp: apply_supersession_def split: option.splits)
  then have "projection_authority p ?as \<noteq> None"
    by (cases "projection_authority p ?as") (auto simp: projection_lineage_def lineage_disposition_def Let_def)
  then show ?thesis using l by auto
qed

definition doctored :: "lineage_lib \<Rightarrow> io_error + GoalLineageDoctorReport \<Rightarrow> bool" where
  "doctored ll report \<longleftrightarrow>
     (\<forall>rep. report = Inr rep \<longrightarrow> (\<exists>lane session lh. rep = run_goal_lineage_doctor ll lane session lh))"

lemma latest_lineage_max:
  assumes "latest_lineage ls = Some l"
  shows "l \<in> set ls \<and> (\<forall>c \<in> set ls. observed_le c l)"
proof -
  let ?f = "\<lambda>l m. case m of None \<Rightarrow> Some l | Some best \<Rightarrow> if observed_le best l then Some l else Some best"
  have le: "observed_le a a" "observed_le a b \<Longrightarrow> observed_le b c \<Longrightarrow> observed_le a c"
    "observed_le a b \<or> observed_le b a" for a b c :: GoalLineageV1
    by (auto simp: observed_le_def)
  have "fold ?f ls m = Some l \<Longrightarrow> (l \<in> set ls \<or> m = Some l) \<and> (\<forall>c \<in> set ls. observed_le c l)
      \<and> (\<forall>b. m = Some b \<longrightarrow> observed_le b l)" for m
  proof (induction ls arbitrary: m)
    case Nil
    then show ?case using le(1) by simp
  next
    case (Cons x ls)
    define m' where "m' = (case m of None \<Rightarrow> Some x | Some best \<Rightarrow> if observed_le best x then Some x else Some best)"
    have ih: "(l \<in> set ls \<or> m' = Some l) \<and> (\<forall>c \<in> set ls. observed_le c l) \<and> (\<forall>b. m' = Some b \<longrightarrow> observed_le b l)"
      using Cons.IH [of m'] Cons.prems by (simp add: m'_def)
    moreover obtain b where b: "m' = Some b" "observed_le x b" "\<forall>a. m = Some a \<longrightarrow> observed_le a b" "b = x \<or> m = Some b"
    proof (cases m)
      case None
      then show thesis using le(1) [of x] by (intro that [of x]) (simp_all add: m'_def)
    next
      case (Some a)
      then show thesis using le(1) [of x] le(1) [of a] le(3) [of a x] that [of x] that [of a]
        by (cases "observed_le a x") (simp_all add: m'_def)
    qed
    ultimately have "observed_le b l" by blast
    with b(2,3) le(2) have "observed_le x l" "\<forall>a. m = Some a \<longrightarrow> observed_le a l" by blast+
    with ih b(1,4) show ?case by auto
  qed
  from this [of None] assms show ?thesis by (simp add: latest_lineage_def)
qed

lemma selected_lineage_in: "selected_lineage run ls = Some l \<Longrightarrow> l \<in> set ls"
  by (auto simp: selected_lineage_def current_lineage_def dest!: latest_lineage_max split: option.splits)

lemma resolve_ready:
  assumes "rs_authority (resolve_goal report run gen ctx) = AuthorityReady"
  obtains rep l where "report = Inr rep" "lr_status rep = DoctorReady"
    "\<not> older_than_authoritative_lineage run (lr_lineages rep)" "selected_lineage run (lr_lineages rep) = Some l"
    "lineage_authority l = AuthorityReady" "rs_selected (resolve_goal report run gen ctx) = Some l"
proof -
  have "case report of Inl _ \<Rightarrow> False | Inr rep \<Rightarrow> report_authority run rep = AuthorityReady"
    and sel: "\<And>rep. report = Inr rep \<Longrightarrow>
      rs_selected (resolve_goal report run gen ctx) = selected_lineage run (lr_lineages rep)"
    using assms unfolding resolve_goal_def Let_def by (auto split: sum.splits if_splits)
  then obtain rep where rep: "report = Inr rep" "report_authority run rep = AuthorityReady"
    by (auto split: sum.splits)
  then obtain l where "\<not> older_than_authoritative_lineage run (lr_lineages rep)"
    "lr_status rep = DoctorReady" "selected_lineage run (lr_lineages rep) = Some l"
    "lineage_authority l = AuthorityReady"
    by (auto simp: report_authority_def split: if_splits GoalLineageDoctorStatus.splits option.splits)
  with rep sel that show ?thesis by auto
qed

lemma lineage_authority_ready:
  "lineage_authority l = AuthorityReady \<Longrightarrow> gl_source_final_eligible l
     \<and> owned_relation (gl_turn_relation l) \<and> gl_disposition l \<in> {Runnable, Inactive}"
  by (auto simp: lineage_authority_def split: GoalLineageDisposition.splits if_splits)

lemma slice_input_sel [simp]:
  "gi_queue_id (slice_input rs run status gen ctx now) = rn_queue_id run"
  "gi_authority (slice_input rs run status gen ctx now) = rs_authority rs"
  "gi_lineage_id (slice_input rs run status gen ctx now) = map_option gl_lineage_id (rs_selected rs)"
  "gi_campaign_family_id (slice_input rs run status gen ctx now) = map_option gl_campaign_family_id (rs_selected rs)"
  "gi_goal_status (slice_input rs run status gen ctx now)
     = or_else (map_option gl_goal_status (rs_selected rs)) (map_option ph_status (rs_hint rs))"
  "gi_goal_checksum (slice_input rs run status gen ctx now)
     = or_else (map_option gl_goal_checksum (rs_selected rs)) (map_option ph_goal_checksum (rs_hint rs))"
  by (simp_all add: slice_input_def Let_def)

lemma scheduled_campaign:
  assumes "doctored ll report" and "i = slice_input (resolve_goal report run gen ctx) run status gen ctx now"
    and "r = evaluate_goal_transition (i\<lparr>gi_decision_generation := g, gi_budget_exhausted := b, gi_no_progress_exhausted := n\<rparr>)"
    and "gr_campaign_family_id r = Some f" and "gr_schedule_continuation r"
  shows "campaign_continuation f r"
proof -
  let ?rs = "resolve_goal report run gen ctx"
  let ?j = "i\<lparr>gi_decision_generation := g, gi_budget_exhausted := b, gi_no_progress_exhausted := n\<rparr>"
  from assms(2-4) obtain l where l: "rs_selected ?rs = Some l" by auto
  then have "gi_relation ?j = transition_relation (gl_turn_relation l)"
    by (simp add: assms(2) slice_input_def Let_def or_else_def)
  then have "gi_relation ?j \<noteq> FreshUnrelatedTurn" by (cases "gl_turn_relation l") simp_all
  then have a: "campaign_authorized ?j" "goal_status_is_active (normalized_goal_status ?j)"
    using scheduled_authorized [of ?j] assms(3,5) by simp_all
  then have "rs_authority ?rs = AuthorityReady" by (simp add: campaign_authorized_def assms(2))
  then obtain rep where rep: "report = Inr rep" "selected_lineage run (lr_lineages rep) = Some l"
    "lineage_authority l = AuthorityReady" using l by (auto elim: resolve_ready)
  from rep(1) assms(1) obtain lane session lh where "rep = run_goal_lineage_doctor ll lane session lh"
    by (auto simp: doctored_def)
  with doctor_accepted_identity selected_lineage_in [OF rep(2)] lineage_authority_ready [OF rep(3)]
  have "gl_lane_digest l \<noteq> None" "gl_virtual_session_id l \<noteq> None" by blast+
  then have "gi_lane_digest i \<noteq> None" "gi_virtual_session_id i \<noteq> None"
    by (auto simp: assms(2) slice_input_def Let_def or_else_def l)
  moreover have "\<exists>s. gi_goal_status i = Some s \<and> is_goal_status_active s"
    using a(2) l by (simp add: assms(2) or_else_def normalized_goal_status_def goal_status_is_active_def normalize_status_def
        is_goal_status_active_def)
  ultimately show ?thesis using assms(3-5) by (auto simp: campaign_continuation_def)
qed

text \<open>So every recorded continuation of a campaign is one of those the budget was charged for.\<close>

lemma settle_rows:
  assumes "codecs_ok cx" and "okf_text (ch_transitions h)" and "doctored ll (fst c)"
  shows "okf_text (ch_transitions (settle cx c h)) \<and> (\<forall>r \<in> set (transition_rows cx (settle cx c h)). r \<in> set (transition_rows cx h)
    \<or> (\<forall>f. gr_campaign_family_id r = Some f \<and> gr_schedule_continuation r \<longrightarrow> campaign_continuation f r))"
proof -
  obtain report run status gen ctx bnow now where c: "c = (report, run, status, gen, ctx, bnow, now)" by (cases c)
  define i where "i = slice_input (resolve_goal report run gen ctx) run status gen ctx now"
  from assms(3) c have d: "doctored ll report" by simp
  have same: "transition_rows cx (h\<lparr>ch_budget := t\<rparr>) = transition_rows cx h" for t by (simp add: transition_rows_def)
  consider t where "settle cx c h = h\<lparr>ch_budget := t\<rparr>"
    | t g b n where "settle cx c h = h\<lparr>ch_budget := t, ch_transitions := record_goal_transition (cx_transition_enc cx)
        (evaluate_goal_transition (i\<lparr>gi_decision_generation := g, gi_budget_exhausted := b, gi_no_progress_exhausted := n\<rparr>))
        (ch_transitions h)\<rparr>"
  proof (cases "find_existing_goal_transition (cx_transition_dec cx) i (ch_transitions h)")
    case (Some r)
    then have "settle cx c h = h\<lparr>ch_budget := ch_budget h\<rparr>"
      by (simp add: settle_def c evaluate_runtime_goal_transition_def Let_def flip: i_def)
    then show thesis by (rule that(1))
  next
    case None
    obtain t res where "charge_campaign cx i run bnow h = (t, res)" by fastforce
    with None show thesis
      by (cases res) (auto intro: that simp: settle_def c evaluate_runtime_goal_transition_def Let_def simp flip: i_def)
  qed
  then show ?thesis
  proof cases
    case 1
    then show ?thesis using assms(2) same by simp
  next
    case 2
    with transition_rows_record [OF assms(2,1)] scheduled_campaign [OF d i_def refl] show ?thesis by auto
  qed
qed

lemma settles_rows:
  assumes "codecs_ok cx" and "\<forall>c \<in> set cs. doctored ll (fst c)" and "okf_text (ch_transitions h)"
    and "\<forall>r \<in> set (transition_rows cx h). gr_campaign_family_id r = Some f \<and> gr_schedule_continuation r \<longrightarrow> campaign_continuation f r"
  shows "\<forall>r \<in> set (transition_rows cx (fold (settle cx) cs h)).
    gr_campaign_family_id r = Some f \<and> gr_schedule_continuation r \<longrightarrow> campaign_continuation f r"
  using assms(2-4)
proof (induction cs arbitrary: h)
  case (Cons c cs)
  then have "doctored ll (fst c)" by simp
  from settle_rows [OF assms(1) Cons.prems(2) this] Cons.prems(1,3) show ?case
    by (simp only: fold_simps) (intro Cons.IH; auto)
qed simp

section \<open>Properties\<close>

text \<open>
  C1. Autonomous campaigns are bounded: whatever runs are settled, in whatever order, under a fixed
  configuration, and with whatever the lineage doctor reports of any ledgers (or no report), the slices
  of a campaign for which a continuation was ever recorded, told apart by queue item, slice generation and
  goal checksum, number fewer than the policy's slice limit. Every receipt of the campaign that
  schedules a continuation counts, whatever else it says.
\<close>

theorem campaign_continuations_bounded:
  assumes "codecs_ok cx" and "load_goal_campaign_policy (cx_value_dec cx) config = Inr p"
    and "\<forall>(report, _) \<in> set cs. \<forall>rep. report = Inr rep \<longrightarrow>
           (\<exists>lane session lh. rep = run_goal_lineage_doctor ll lane session lh)"
    and "h = fold (\<lambda>(report, run, status, gen, ctx, budget_now, now) h.
           fst (evaluate_runtime_goal_transition cx report run status gen ctx budget_now now h)) cs
         \<lparr>ch_config = config, ch_budget = [], ch_transitions = []\<rparr>"
    and "continued = {r \<in> set (List.map_filter (cx_transition_dec cx) (text_lines (ch_transitions h))).
           gr_campaign_family_id r = Some f \<and> gr_schedule_continuation r}"
  shows "card ((\<lambda>r. (gr_queue_id r, gr_source_slice_generation r, gr_goal_checksum r)) ` continued)
    < unat (gp_max_slices p)"
proof -
  let ?h = "\<lparr>ch_config = config, ch_budget = [], ch_transitions = []\<rparr>"
  have "home_inv cx p ?h"
    using assms(1,2)
    by (simp add: home_inv_def budget_file_ok_Nil codecs_ok_def okf_text_def budget_rows_ok_def
        ranks_ok_def transition_rows_def text_lines_def List.map_filter_simps)
  moreover have h: "h = fold (settle cx) cs ?h"
    unfolding assms(4) settle_def by (simp add: fun_eq_iff case_prod_unfold)
  ultimately have inv: "home_inv cx p h" using assms(1) by (simp add: home_inv_settles)
  have "\<forall>r \<in> set (transition_rows cx h). gr_campaign_family_id r = Some f \<and> gr_schedule_continuation r
      \<longrightarrow> campaign_continuation f r"
    unfolding h using assms(3)
    by (intro settles_rows [OF assms(1), where ll = ll])
      (auto simp: doctored_def okf_text_def transition_rows_def text_lines_def List.map_filter_simps)
  then have "continued = {r \<in> set (transition_rows cx h). campaign_continuation f r}"
    by (auto simp: assms(5) campaign_continuation_def transition_rows_def)
  moreover have "0 < unat (gp_max_slices p)"
    using policy_validate_Inr [OF load_policy_valid [OF assms(2)]] by (simp add: unat_gt_0 word_gt_0)
  ultimately show ?thesis using home_inv_few [OF inv, of f] by simp
qed

instance GoalTransitionAuthority :: countable
  by countable_datatype

instance GoalTransitionRelation :: countable
  by countable_datatype

instance GoalTransitionCorrelationSourceV1 :: countable
  by countable_datatype

instance GoalTransitionDecision :: countable
  by countable_datatype

instance GoalTransitionSurface :: countable
  by countable_datatype

definition transition_key :: "GoalTransitionReceiptV1 \<Rightarrow>
    (string list \<times> string option list \<times> nat list \<times> int) \<times> bool list
      \<times> GoalTransitionEventKind \<times> GoalTransitionCorrelationSourceV1 \<times> GoalTransitionAuthority
      \<times> GoalTransitionRelation \<times> GoalTransitionDecision \<times> GoalTransitionSurface" where
  "transition_key r =
     (([gr_schema r, gr_slice_schema r, gr_runtime_status r, gr_runtime_reason r, gr_reason r],
       [gr_queue_id r, gr_goal_status r, gr_lineage_id r, gr_campaign_family_id r, gr_lane_digest r,
        gr_virtual_session_id r, gr_backend_context_generation r, gr_source_thread_id r,
        gr_source_turn_id r, gr_backend_goal_ref r, gr_goal_checksum r],
       map unat [gr_source_slice_generation r, gr_decision_generation r], gr_observed_at_ms r),
      [gr_schedule_continuation r, gr_allow_campaign_final r, gr_terminal r],
      gr_event r, gr_correlation_source r, gr_authority r, gr_relation r, gr_decision r, gr_surface r)"

lemma transition_key_inj: "inj transition_key"
  by (rule injI, rule GoalTransitionReceiptV1.equality) (simp_all add: transition_key_def u64_unat_eq)

definition demo_codecs :: codecs where
  "demo_codecs = \<lparr>cx_budget_enc = receipt_enc, cx_budget_dec = receipt_dec,
     cx_transition_enc = keyed_enc transition_key, cx_transition_dec = keyed_dec transition_key,
     cx_value_dec = (\<lambda>_. None), cx_sha256 = (\<lambda>s. s)\<rparr>"

lemma demo_codecs_ok: "codecs_ok demo_codecs"
  by (simp add: codecs_ok_def demo_codecs_def receipt_codec codec_keyed [OF transition_key_inj])

definition demo_lineage :: "string \<Rightarrow> GoalLineageV1" where
  "demo_lineage status = \<lparr>gl_schema = GOAL_LINEAGE_SCHEMA, gl_lineage_id = ''l'', gl_campaign_family_id = ''fam'',
     gl_queue_id = Some ''q'', gl_source_session_key = ''s'', gl_virtual_session_id = Some ''vs'', gl_lane_digest = Some ''lane'',
     gl_backend_context_generation = None, gl_source_thread_id = ''th'', gl_source_turn_id = None,
     gl_goal_reference = ''g'', gl_backend_goal_ref = Some ''g'', gl_objective_checksum = ''o'',
     gl_goal_checksum = ''sum'', gl_projection_checksum = ''p'', gl_goal_status = status,
     gl_observation_phase = OwnedTurn, gl_turn_relation = CurrentOwnedTurn, gl_source_final_eligible = True,
     gl_observation_order = 1, gl_observed_at_ms = 10,
     gl_authority_observed_at_ms = None, gl_disposition = Runnable, gl_runnable = True,
     gl_superseded_by_lineage_id = None, gl_reason = []\<rparr>"

definition demo_slice_run :: run_receipt where
  "demo_slice_run = \<lparr>rn_queue_id = Some ''q'', rn_status = CodexCompleted, rn_reason = ''done'',
     rn_interruption_reason = None, rn_elapsed_ms = 1000, rn_event_count = 3,
     rn_total_tokens = Some 7, rn_output_tokens = Some 3, rn_context_recovery = False,
     rn_tool_use_timeout = False, rn_context_rollover = False,
     rn_work_authority_class = GoalCampaignWork\<rparr>"

definition demo_ctx :: RuntimeGoalAuthorityContext where
  "demo_ctx = \<lparr>ac_lane_digest = Some ''lane'', ac_virtual_session_id = Some ''vs'',
     ac_projection_hint = None\<rparr>"

abbreviation "demo_report status \<equiv>
  Inr \<lparr>lr_schema = GOAL_LINEAGE_DOCTOR_SCHEMA, lr_status = DoctorReady, lr_read_only = True,
    lr_projections_seen = 2, lr_authority_receipts_seen = 2, lr_supersession_receipts_seen = 0,
    lr_campaigns = [], lr_lineages = [demo_lineage status], lr_blockers = [], lr_warnings = []\<rparr>"

abbreviation "empty_home \<equiv>
  \<lparr>ch_config = Inl (IoError NotFound []), ch_budget = [], ch_transitions = []\<rparr>"

abbreviation "demo_doctor \<equiv> run_goal_lineage_doctor demo_ll None None (demo_home ''A'' [])"

lemma demo_doctor_lineages: "lr_lineages demo_doctor = [demo_row demo_ll0 ''a'']"
  by (simp add: run_goal_lineage_doctor_def demo_home_def demo_latest valid_supersession_map_def apply_supersession_def
      selected_by_option_def demo_row_def Let_def flip: demo_row_ll)

lemma demo_row_identity:
  "gl_lane_digest (demo_row demo_ll0 ''a'') = Some ''l''" "gl_virtual_session_id (demo_row demo_ll0 ''a'') = Some ''v''"
  "gl_queue_id (demo_row demo_ll0 ''a'') = Some ''q''" "gl_goal_status (demo_row demo_ll0 ''a'') = ''active''"
  "gl_turn_relation (demo_row demo_ll0 ''a'') = CurrentOwnedTurn" "gl_source_final_eligible (demo_row demo_ll0 ''a'')"
  "gl_disposition (demo_row demo_ll0 ''a'') = Runnable"
  "\<not> is_blank (gl_campaign_family_id (demo_row demo_ll0 ''a''))"
proof -
  let ?a = "projection_authority (demo_active ''a'') (latest_authorities [demo_authority_receipt])"
  have a: "?a = Some demo_authority_receipt"
    by (simp add: projection_authority_def latest_authorities_def authority_insert_def authority_key_def
        demo_authority_receipt_def demo_active_def demo_projection_def)
  show "gl_lane_digest (demo_row demo_ll0 ''a'') = Some ''l''" "gl_virtual_session_id (demo_row demo_ll0 ''a'') = Some ''v''"
    "gl_queue_id (demo_row demo_ll0 ''a'') = Some ''q''" "gl_goal_status (demo_row demo_ll0 ''a'') = ''active''"
    by (simp_all add: demo_row_def a) (simp_all add: demo_authority_receipt_def demo_active_def demo_projection_def)
  show "gl_turn_relation (demo_row demo_ll0 ''a'') = CurrentOwnedTurn" "gl_source_final_eligible (demo_row demo_ll0 ''a'')"
    by (simp_all add: demo_row_def projection_lineage_def Let_def split_beta demo_active_def demo_projection_def
        projection_source_final_is_eligible_def)
  show "gl_disposition (demo_row demo_ll0 ''a'') = Runnable"
    using demo_row_runnable [of demo_ll0 "''a''"] unfolding demo_row_def projection_lineage_runnable .
  show "\<not> is_blank (gl_campaign_family_id (demo_row demo_ll0 ''a''))"
    by (rule not_blank_graphic_ends)
      (simp_all add: demo_row_def projection_lineage_def Let_def split_beta lineage_checksum_def sha256_json_def
        demo_ll0_def demo_active_def demo_projection_def hex_encode_def
        projection_authority_def latest_authorities_def authority_insert_def authority_key_def
        demo_authority_receipt_def opt_json_def hex_digit_def ascii_graphic_def)
qed

lemma demo_doctor_resolve:
  "resolve_goal (Inr demo_doctor) demo_slice_run (Some 1) demo_ctx = \<lparr>rs_older = False,
     rs_authority = AuthorityReady, rs_selected = Some (demo_row demo_ll0 ''a''), rs_hint = None\<rparr>"
  by (simp add: resolve_goal_def Let_def selected_lineage_def current_lineage_def latest_lineage_def
      older_than_authoritative_lineage_def report_authority_def lineage_authority_def demo_slice_run_def demo_ctx_def
      prepared_durable_goal_def demo_doctor_lineages demo_ready demo_row_identity)

lemma demo_event: "classify_goal_transition_event demo_slice_run = NormalCompletion"
  by (simp add: classify_goal_transition_event_def demo_slice_run_def starts_with_def
      GOAL_CONTINUATION_AUTHORITY_BOUNDARY_MARKER_def)

lemma demo_active_status: "is_goal_status_active ''active''"
proof -
  have "trim ''active'' = ''active''" by (rule trim_graphic_ends) (simp_all add: ascii_graphic_def)
  then show ?thesis by (simp add: is_goal_status_active_def to_ascii_lowercase_def ascii_lower_def)
qed

lemma demo_continued:
  "\<exists>r t. evaluate_runtime_goal_transition demo_codecs (Inr demo_doctor) demo_slice_run RunCompleted (Some 1) demo_ctx 100 101
       empty_home = (empty_home\<lparr>ch_budget := t, ch_transitions := record_goal_transition (cx_transition_enc demo_codecs) r []\<rparr>, Inr r)
     \<and> gr_campaign_family_id r = Some (gl_campaign_family_id (demo_row demo_ll0 ''a'')) \<and> gr_schedule_continuation r"
proof -
  let ?i = "slice_input (resolve_goal (Inr demo_doctor) demo_slice_run (Some 1) demo_ctx) demo_slice_run RunCompleted
    (Some 1) demo_ctx 101"
  let ?f = "gl_campaign_family_id (demo_row demo_ll0 ''a'')"
  let ?b = "slice_budget_input ?i demo_slice_run 100 ?f ''l'' ''v''"
  have i: "gi_goal_status ?i = Some ''active''" "gi_authority ?i = AuthorityReady" "gi_campaign_family_id ?i = Some ?f"
    "gi_relation ?i = CurrentGoalSlice" "gi_event ?i = NormalCompletion" "gi_lane_digest ?i = Some ''l''"
    "gi_virtual_session_id ?i = Some ''v''"
    by (simp_all add: slice_input_def Let_def demo_doctor_resolve or_else_def demo_event demo_row_identity)
  have "input_gap ?b = None"
    using demo_row_identity(8) not_blank_graphic_ends [of "''l''"] not_blank_graphic_ends [of "''v''"]
    by (simp add: input_gap_def slice_budget_input_def ascii_graphic_def)
  moreover have "budget_file_ok receipt_enc receipt_dec []"
    using demo_codecs_ok by (simp add: codecs_ok_def demo_codecs_def budget_file_ok_Nil)
  ultimately have "evaluate_goal_campaign_budget receipt_enc receipt_dec (\<lambda>s. s) default_policy ?b []
      = (append_jsonl_value receipt_enc (budget_receipt (\<lambda>s. s) default_policy ?b None) [],
         Inr (budget_receipt (\<lambda>s. s) default_policy ?b None))"
    by (simp add: evaluate_accepted default_policy_valid Let_def)
  moreover have "br_boundary (budget_receipt (\<lambda>s. s) default_policy ?b None) = WithinBudget"
    using i(5) by (simp add: word_le_nat_alt budget_receipt_def budget_boundary_def Let_def default_policy_def no_progress_count_def
        is_recovery_slice_def sat_sub_i64_def slice_budget_input_def demo_slice_run_def sat_add_def
        DEFAULT_GOAL_WALL_CLOCK_BUDGET_MS_def DEFAULT_GOAL_MAX_SLICES_def DEFAULT_GOAL_MAX_TOTAL_TOKENS_def
        DEFAULT_GOAL_MAX_NO_PROGRESS_SLICES_def DEFAULT_GOAL_MAX_RECOVERY_SLICES_def)
  then have "\<not> br_budget_exhausted (budget_receipt (\<lambda>s. s) default_policy ?b None)"
    "\<not> br_no_progress_exhausted (budget_receipt (\<lambda>s. s) default_policy ?b None)"
    by (simp_all add: budget_receipt_def Let_def)
  ultimately obtain t b where ch: "charge_campaign demo_codecs ?i demo_slice_run 100 empty_home = (t, Inr (Some b))"
    and b: "\<not> br_budget_exhausted b" "\<not> br_no_progress_exhausted b"
    using i demo_active_status by (simp add: charge_campaign_def load_goal_campaign_policy_def demo_codecs_def
        del: slice_input_sel)
  let ?j = "?i\<lparr>gi_decision_generation := next_goal_transition_generation (cx_value_dec demo_codecs)
    (rn_queue_id demo_slice_run) [], gi_budget_exhausted := False, gi_no_progress_exhausted := False\<rparr>"
  have "evaluate_runtime_goal_transition demo_codecs (Inr demo_doctor) demo_slice_run RunCompleted (Some 1) demo_ctx 100 101
      empty_home = (empty_home\<lparr>ch_budget := t, ch_transitions := record_goal_transition (cx_transition_enc demo_codecs)
        (evaluate_goal_transition ?j) []\<rparr>, Inr (evaluate_goal_transition ?j))"
    using ch b by (simp add: evaluate_runtime_goal_transition_def Let_def find_existing_goal_transition_def
        text_lines_def List.map_filter_simps)
  moreover have "fst (snd (snd (transition_outcome ?j)))"
    using i demo_active_status
    by (cases ?j rule: transition_outcome_cases)
      (simp_all add: preempting_event_def campaign_authorized_def normalized_goal_status_def active_goal_outcome_def
        is_goal_status_active_def normalize_status_def goal_status_is_recognized_def goal_status_is_active_def)
  moreover have "gr_campaign_family_id (evaluate_goal_transition ?j) = Some ?f" by (simp add: demo_doctor_resolve)
  ultimately show ?thesis by auto
qed

theorem campaign_continuations_bounded_witness:
  "let f = gl_campaign_family_id (demo_row demo_ll0 ''a'');
       continued = {r \<in> set (List.map_filter (cx_transition_dec demo_codecs) (text_lines (ch_transitions
          (fst (evaluate_runtime_goal_transition demo_codecs (Inr demo_doctor) demo_slice_run
            RunCompleted (Some 1) demo_ctx 100 101 empty_home))))).
          gr_campaign_family_id r = Some f \<and> gr_schedule_continuation r}
   in continued \<noteq> {}
      \<and> card ((\<lambda>r. (gr_queue_id r, gr_source_slice_generation r, gr_goal_checksum r)) ` continued) < 96"
proof -
  let ?h = "fst (evaluate_runtime_goal_transition demo_codecs (Inr demo_doctor) demo_slice_run
    RunCompleted (Some 1) demo_ctx 100 101 empty_home)"
  obtain r t where h: "?h = empty_home\<lparr>ch_budget := t, ch_transitions := record_goal_transition (cx_transition_enc demo_codecs) r []\<rparr>"
    and r: "gr_campaign_family_id r = Some (gl_campaign_family_id (demo_row demo_ll0 ''a''))" "gr_schedule_continuation r"
    using demo_continued by auto
  have "transition_rows demo_codecs ?h = transition_rows demo_codecs empty_home @ [r]"
    unfolding h using transition_rows_record [OF _ demo_codecs_ok, where h = empty_home and t = t and r = r] by (simp add: okf_text_def)
  then have "r \<in> set (List.map_filter (cx_transition_dec demo_codecs) (text_lines (ch_transitions ?h)))"
    by (simp add: transition_rows_def)
  moreover have "load_goal_campaign_policy (cx_value_dec demo_codecs) (Inl (IoError NotFound [])) = Inr default_policy"
    by (simp add: load_goal_campaign_policy_def)
  note campaign_continuations_bounded [OF demo_codecs_ok this, where ll = demo_ll
      and cs = "[(Inr demo_doctor, demo_slice_run, RunCompleted, Some 1, demo_ctx, 100, 101)]"
      and f = "gl_campaign_family_id (demo_row demo_ll0 ''a'')", OF _ refl refl]
  moreover have "unat (gp_max_slices default_policy) = 96"
    by (simp add: default_policy_def DEFAULT_GOAL_MAX_SLICES_def)
  ultimately show ?thesis using r by (auto simp: Let_def)
qed

text \<open>
  C3. A campaign-final message rests on an unbroken chain of authority: whenever settling a run
  records a receipt that allows one, the lineage doctor reported a ready state, and the receipt names the
  lineage, the goal and the campaign of a lineage of that report. That lineage is the latest one of this very queue
  item, no other lineage of its campaign was observed later, it owns the turn (as the current one or as an explicit
  continuation of the campaign), is eligible as the source of the final message and carries a completed goal.
\<close>

theorem campaign_final_authority_chain:
  assumes "evaluate_runtime_goal_transition cx report run status gen ctx budget_now now h = (h', Inr r)"
    and "ch_transitions h' \<noteq> ch_transitions h" and "gr_allow_campaign_final r"
  shows "\<exists>rep. report = Inr rep \<and> lr_status rep = DoctorReady \<and> (\<exists>l \<in> set (lr_lineages rep).
      gr_lineage_id r = Some (gl_lineage_id l) \<and> gr_campaign_family_id r = Some (gl_campaign_family_id l)
    \<and> gr_goal_checksum r = Some (gl_goal_checksum l) \<and> gl_queue_id l = rn_queue_id run
    \<and> (\<forall>c \<in> set (lr_lineages rep). gl_queue_id c = rn_queue_id run
          \<or> gl_campaign_family_id c = gl_campaign_family_id l \<and> gl_lineage_id c \<noteq> gl_lineage_id l \<longrightarrow>
        gl_observed_at_ms c < gl_observed_at_ms l
        \<or> gl_observed_at_ms c = gl_observed_at_ms l \<and> gl_observation_order c \<le> gl_observation_order l)
    \<and> gl_turn_relation l \<in> {CurrentOwnedTurn, ExplicitCampaignContinuation} \<and> gl_source_final_eligible l
    \<and> gl_disposition l \<in> {Runnable, Inactive}
    \<and> goal_status_is_complete (normalize_status (gl_goal_status l)))"
proof -
  let ?rs = "resolve_goal report run gen ctx"
  let ?i = "slice_input ?rs run status gen ctx now"
  obtain g b n where r: "r = evaluate_goal_transition
      (?i\<lparr>gi_decision_generation := g, gi_budget_exhausted := b, gi_no_progress_exhausted := n\<rparr>)" (is "r = evaluate_goal_transition ?j")
    using assms(1,2) by (auto simp: evaluate_runtime_goal_transition_def Let_def split: option.splits prod.splits sum.splits)
  have fin: "campaign_authorized ?j" "goal_status_is_complete (normalized_goal_status ?j)"
    using assms(3) by (auto simp: r campaign_final_outcome)
  then have "rs_authority ?rs = AuthorityReady" by (simp add: campaign_authorized_def)
  then obtain rep l where rep: "report = Inr rep" "lr_status rep = DoctorReady"
    "\<not> older_than_authoritative_lineage run (lr_lineages rep)" "selected_lineage run (lr_lineages rep) = Some l"
    and l: "lineage_authority l = AuthorityReady" "rs_selected ?rs = Some l" by (rule resolve_ready)
  have complete: "goal_status_is_complete (normalize_status (gl_goal_status l))"
    using fin(2) l(2) by (simp add: normalized_goal_status_def or_else_def)
  then have "\<not> is_goal_status_active (gl_goal_status l)"
    by (auto simp: is_goal_status_active_def goal_status_is_complete_def normalize_status_def)
  with rep(4) have cur: "current_lineage run (lr_lineages rep) = Some l"
    by (auto simp: selected_lineage_def dest!: latest_lineage_max split: option.splits)
  then have own: "gl_queue_id l = rn_queue_id run" "l \<in> set (lr_lineages rep)"
    "\<forall>c \<in> set (lr_lineages rep). gl_queue_id c = rn_queue_id run \<longrightarrow> observed_le c l"
    by (auto simp: current_lineage_def dest!: latest_lineage_max)
  moreover have "\<forall>c \<in> set (lr_lineages rep). gl_campaign_family_id c = gl_campaign_family_id l
      \<and> gl_lineage_id c \<noteq> gl_lineage_id l \<longrightarrow> observed_le c l"
    using rep(3) cur by (auto simp: older_than_authoritative_lineage_def list_ex_iff)
  moreover have "gl_turn_relation l \<in> {CurrentOwnedTurn, ExplicitCampaignContinuation}"
    using lineage_authority_ready [OF l(1)] by (cases "gl_turn_relation l") simp_all
  ultimately show ?thesis
    using rep(1,2) complete lineage_authority_ready [OF l(1)] l(2)
    by (intro exI [of _ rep] conjI bexI [of _ l]) (auto simp: r or_else_def observed_le_def)
qed

lemma demo_resolve:
  "resolve_goal (demo_report s) demo_slice_run (Some 1) demo_ctx = \<lparr>rs_older = False,
     rs_authority = AuthorityReady, rs_selected = Some (demo_lineage s), rs_hint = None\<rparr>"
  by (simp add: resolve_goal_def Let_def selected_lineage_def current_lineage_def latest_lineage_def
      older_than_authoritative_lineage_def report_authority_def lineage_authority_def demo_slice_run_def
      demo_lineage_def demo_ctx_def prepared_durable_goal_def)

lemma demo_completed: "normalize_status ''completed'' = ''completed''"
proof -
  have "trim ''completed'' = ''completed''"
    by (rule trim_graphic_ends) (simp_all add: ascii_graphic_def)
  then show ?thesis by (simp add: normalize_status_def to_ascii_lowercase_def ascii_lower_def)
qed

lemma demo_not_active: "\<not> is_goal_status_active ''completed''"
  using demo_completed by (simp add: is_goal_status_active_def normalize_status_def)

theorem campaign_final_authority_chain_witness:
  "\<exists>h' r (l :: GoalLineageV1). evaluate_runtime_goal_transition demo_codecs (demo_report ''completed'') demo_slice_run RunCompleted
       (Some 1) demo_ctx 100 101 empty_home = (h', Inr r)
     \<and> gr_allow_campaign_final r \<and> gr_lineage_id r = Some (gl_lineage_id l)
     \<and> gr_goal_checksum r = Some (gl_goal_checksum l) \<and> gl_queue_id l = Some ''q''
     \<and> gl_turn_relation l \<in> {CurrentOwnedTurn, ExplicitCampaignContinuation} \<and> gl_source_final_eligible l
     \<and> goal_status_is_complete (normalize_status (gl_goal_status l))"
proof -
  let ?i = "slice_input (resolve_goal (demo_report ''completed'') demo_slice_run (Some 1) demo_ctx)
    demo_slice_run RunCompleted (Some 1) demo_ctx 101"
  let ?j = "?i\<lparr>gi_decision_generation := next_goal_transition_generation (cx_value_dec demo_codecs)
    (rn_queue_id demo_slice_run) [], gi_budget_exhausted := False, gi_no_progress_exhausted := False\<rparr>"
  let ?r = "evaluate_goal_transition ?j"
  let ?h = "empty_home\<lparr>ch_transitions := record_goal_transition (cx_transition_enc demo_codecs) ?r []\<rparr>"
  have i: "gi_goal_status ?i = Some ''completed''" "gi_authority ?i = AuthorityReady"
    "gi_relation ?i = CurrentGoalSlice" "gi_event ?i = NormalCompletion"
    by (simp_all add: slice_input_def Let_def demo_resolve or_else_def demo_event)
      (simp_all add: demo_lineage_def)
  have ev: "evaluate_runtime_goal_transition demo_codecs (demo_report ''completed'') demo_slice_run RunCompleted
      (Some 1) demo_ctx 100 101 empty_home = (?h, Inr ?r)"
    using i demo_not_active
    by (simp add: evaluate_runtime_goal_transition_def Let_def find_existing_goal_transition_def
        text_lines_def List.map_filter_simps charge_campaign_def)
  have new: "ch_transitions ?h \<noteq> ch_transitions empty_home"
    by (simp add: record_goal_transition_def append_jsonl_value_def append_jsonl_line_def)
  have fin: "gr_allow_campaign_final ?r"
    using i demo_completed
    by (simp add: campaign_final_outcome campaign_authorized_def preempting_event_def
        normalized_goal_status_def goal_status_is_complete_def)
  from campaign_final_authority_chain [OF ev new this] obtain l :: GoalLineageV1 where
    "gr_lineage_id ?r = Some (gl_lineage_id l)" "gr_goal_checksum ?r = Some (gl_goal_checksum l)"
    "gl_queue_id l = rn_queue_id demo_slice_run" "gl_turn_relation l \<in> {CurrentOwnedTurn, ExplicitCampaignContinuation}"
    "gl_source_final_eligible l" "goal_status_is_complete (normalize_status (gl_goal_status l))"
    by blast
  then show ?thesis
    using ev fin by (intro exI [of _ ?h] exI [of _ ?r] exI [of _ l]) (simp_all add: demo_slice_run_def)
qed

end
