(* ===== verification/Goal_Closure.thy ===== *)
theory Goal_Closure
  imports Keyed_Ledger
begin

text \<open>
  The closure of a goal (\<open>src/crates/agent-harness-core/src/goal_closure.rs\<close>): a protected intent
  is recorded first, then one receipt per phase, in causal order, each under an event key that is
  a checksum of the closure and the phase. The state is the text of the two ledgers. SHA-256 and
  the serialiser of \<open>serde_json\<close> are parameters (\<open>cl_sha256\<close>, \<open>js_enc\<close>); the payloads of the
  checksums are written out as the JSON values the source serialises.
\<close>

section \<open>Data\<close>

datatype GoalClosureTriggerV1 =
    OperatorHistorical | ChannelStop | ChannelNew | RecoveryTrigger | UnknownTrigger

datatype GoalClosureDispositionV1 = ClosureCompleted | ClosureCanceled | UnknownDisposition

datatype GoalClosurePhaseV1 =
    IntentRecorded | BackendResultRecorded | TerminalProjectionRecorded | LineageReconciled
  | PhaseCompleted | UnknownPhase

fun ordinal :: "GoalClosurePhaseV1 \<Rightarrow> nat" where
  "ordinal IntentRecorded = 0"
| "ordinal BackendResultRecorded = 1"
| "ordinal TerminalProjectionRecorded = 2"
| "ordinal LineageReconciled = 3"
| "ordinal PhaseCompleted = 4"
| "ordinal UnknownPhase = 255"

datatype GoalClosureResultV1 =
    ResultPending | ResultSucceeded | ResultNotApplicable | RetryableFailure | ResultRejected
  | UnknownResult

datatype GoalClosureTargetResolutionDispositionV1 =
    TargetNotApplicable | TargetExact | TargetAmbiguous | TargetError

record GoalClosureAuthorityV1 =
  ca_lane_digest :: string
  ca_concrete_session_key :: string
  ca_virtual_session_id :: string
  ca_backend_context_generation :: string
  ca_source_thread_id :: string

record GoalClosureIntentV1 =
  ci_schema :: string
  ci_event_key :: string
  ci_closure_id :: string
  ci_trigger :: GoalClosureTriggerV1
  ci_disposition :: GoalClosureDispositionV1
  ci_authority :: GoalClosureAuthorityV1
  ci_authority_digest :: string
  ci_goal_identity :: string
  ci_goal_generation :: string
  ci_expected_projection_checksum :: "string option"
  ci_caller_effect_identity :: string
  ci_caller_effect_digest :: string
  ci_reason :: string
  ci_intent_checksum :: string

record GoalClosureTargetCandidateV1 =
  cc_authority :: GoalClosureAuthorityV1
  cc_goal_identity :: string
  cc_goal_generation :: string
  cc_projection_checksum :: string
  cc_active :: bool
  cc_original_binding :: bool
  cc_latest_authoritative_projection :: bool
  cc_latest_authoritative_lineage :: bool

record GoalClosureResolvedTargetV1 =
  ct_authority :: GoalClosureAuthorityV1
  ct_goal_identity :: string
  ct_goal_generation :: string
  ct_projection_checksum :: string

record GoalClosureTargetResolutionV1 =
  cs_schema :: string
  cs_closure_id :: string
  cs_disposition :: GoalClosureTargetResolutionDispositionV1
  cs_authority_digest :: string
  cs_candidate_count :: nat
  cs_target :: "GoalClosureResolvedTargetV1 option"
  cs_reason :: string

datatype GoalClosureAppendDispositionV1 = Appended | Replayed

record GoalClosurePhaseInputV1 =
  cp_result :: GoalClosureResultV1
  cp_projection_checksum :: "string option"
  cp_lineage_checksum :: "string option"
  cp_result_evidence_digest :: "string option"
  cp_recorded_at_ms :: int

record GoalClosureReceiptV1 =
  cr_schema :: string
  cr_event_key :: string
  cr_receipt_id :: string
  cr_closure_id :: string
  cr_intent_checksum :: string
  cr_authority_digest :: string
  cr_target_digest :: string
  cr_caller_effect_digest :: string
  cr_trigger :: GoalClosureTriggerV1
  cr_disposition :: GoalClosureDispositionV1
  cr_phase :: GoalClosurePhaseV1
  cr_result :: GoalClosureResultV1
  cr_projection_checksum :: "string option"
  cr_lineage_checksum :: "string option"
  cr_result_evidence_digest :: "string option"
  cr_phase_checksum :: string
  cr_recorded_at_ms :: int

definition GOAL_CLOSURE_INTENT_SCHEMA :: string where
  "GOAL_CLOSURE_INTENT_SCHEMA = ''agent-harness.goal-closure-intent.v1''"

definition GOAL_CLOSURE_RESOLUTION_SCHEMA :: string where
  "GOAL_CLOSURE_RESOLUTION_SCHEMA = ''agent-harness.goal-closure-resolution.v1''"

definition GOAL_CLOSURE_RECEIPT_SCHEMA :: string where
  "GOAL_CLOSURE_RECEIPT_SCHEMA = ''agent-harness.goal-closure-receipt.v1''"

text \<open>The library functions the component calls, and its two ledgers.\<close>

record closure_lib =
  cl_json :: json_codec
  cl_sha256 :: "string \<Rightarrow> string"
  cl_intent :: "GoalClosureIntentV1 row_codec"
  cl_receipt :: "GoalClosureReceiptV1 row_codec"

record closure_home =
  hm_closure_intents :: string
  hm_closure_receipts :: string

section \<open>Checksums\<close>

definition checksum_json :: "closure_lib \<Rightarrow> Value \<Rightarrow> string" where
  "checksum_json cl v = sha256_json (cl_sha256 cl) (js_enc (cl_json cl)) v"

fun trigger_json :: "GoalClosureTriggerV1 \<Rightarrow> Value" where
  "trigger_json OperatorHistorical = JsonString ''operator-historical''"
| "trigger_json ChannelStop = JsonString ''channel-stop''"
| "trigger_json ChannelNew = JsonString ''channel-new''"
| "trigger_json RecoveryTrigger = JsonString ''recovery''"
| "trigger_json UnknownTrigger = JsonString ''unknown''"

fun disposition_json :: "GoalClosureDispositionV1 \<Rightarrow> Value" where
  "disposition_json ClosureCompleted = JsonString ''completed''"
| "disposition_json ClosureCanceled = JsonString ''canceled''"
| "disposition_json UnknownDisposition = JsonString ''unknown''"

fun phase_json :: "GoalClosurePhaseV1 \<Rightarrow> Value" where
  "phase_json IntentRecorded = JsonString ''intent-recorded''"
| "phase_json BackendResultRecorded = JsonString ''backend-result-recorded''"
| "phase_json TerminalProjectionRecorded = JsonString ''terminal-projection-recorded''"
| "phase_json LineageReconciled = JsonString ''lineage-reconciled''"
| "phase_json PhaseCompleted = JsonString ''completed''"
| "phase_json UnknownPhase = JsonString ''unknown''"

fun result_json :: "GoalClosureResultV1 \<Rightarrow> Value" where
  "result_json ResultPending = JsonString ''pending''"
| "result_json ResultSucceeded = JsonString ''succeeded''"
| "result_json ResultNotApplicable = JsonString ''not-applicable''"
| "result_json RetryableFailure = JsonString ''retryable-failure''"
| "result_json ResultRejected = JsonString ''rejected''"
| "result_json UnknownResult = JsonString ''unknown''"

definition authority_json :: "GoalClosureAuthorityV1 \<Rightarrow> Value" where
  "authority_json a = JsonObject
     [(''laneDigest'', JsonString (ca_lane_digest a)),
      (''concreteSessionKey'', JsonString (ca_concrete_session_key a)),
      (''virtualSessionId'', JsonString (ca_virtual_session_id a)),
      (''backendContextGeneration'', JsonString (ca_backend_context_generation a)),
      (''sourceThreadId'', JsonString (ca_source_thread_id a))]"

definition closure_identity_payload :: "GoalClosureAuthorityV1 \<Rightarrow> string \<Rightarrow> string
    \<Rightarrow> GoalClosureDispositionV1 \<Rightarrow> string \<Rightarrow> Value" where
  "closure_identity_payload a goal_identity goal_generation disposition caller = JsonObject
     [(''laneDigest'', JsonString (ca_lane_digest a)),
      (''concreteSessionKey'', JsonString (ca_concrete_session_key a)),
      (''virtualSessionId'', JsonString (ca_virtual_session_id a)),
      (''backendContextGeneration'', JsonString (ca_backend_context_generation a)),
      (''sourceThreadId'', JsonString (ca_source_thread_id a)),
      (''goalIdentity'', JsonString goal_identity),
      (''goalGeneration'', JsonString goal_generation),
      (''disposition'', disposition_json disposition),
      (''callerEffectIdentity'', JsonString caller)]"

definition intent_checksum_payload :: "string \<Rightarrow> GoalClosureTriggerV1 \<Rightarrow> GoalClosureDispositionV1
    \<Rightarrow> GoalClosureAuthorityV1 \<Rightarrow> string \<Rightarrow> string \<Rightarrow> string option \<Rightarrow> string \<Rightarrow> string \<Rightarrow> Value" where
  "intent_checksum_payload closure_id trigger disposition a goal_identity goal_generation
     projection caller reason = JsonObject
     [(''closureId'', JsonString closure_id), (''trigger'', trigger_json trigger),
      (''disposition'', disposition_json disposition), (''authority'', authority_json a),
      (''goalIdentity'', JsonString goal_identity),
      (''goalGeneration'', JsonString goal_generation),
      (''expectedProjectionChecksum'', opt_json projection),
      (''callerEffectIdentity'', JsonString caller), (''reason'', JsonString reason)]"

definition closure_target_payload :: "string \<Rightarrow> string \<Rightarrow> string \<Rightarrow> Value" where
  "closure_target_payload authority_digest goal_identity goal_generation = JsonObject
     [(''authorityDigest'', JsonString authority_digest),
      (''goalIdentity'', JsonString goal_identity),
      (''goalGeneration'', JsonString goal_generation)]"

definition phase_checksum_payload :: "string \<Rightarrow> string \<Rightarrow> GoalClosurePhaseV1 \<Rightarrow> GoalClosureResultV1
    \<Rightarrow> string option \<Rightarrow> string option \<Rightarrow> string option \<Rightarrow> Value" where
  "phase_checksum_payload closure_id intent_checksum phase result projection lineage evidence =
     JsonObject
     [(''closureId'', JsonString closure_id), (''intentChecksum'', JsonString intent_checksum),
      (''phase'', phase_json phase), (''result'', result_json result),
      (''projectionChecksum'', opt_json projection), (''lineageChecksum'', opt_json lineage),
      (''resultEvidenceDigest'', opt_json evidence)]"

section \<open>Intents\<close>

definition validate_nonempty :: "string \<Rightarrow> string \<Rightarrow> io_error + unit" where
  "validate_nonempty label v =
     (if is_blank v then Inl (invalid_input (label @ '' must not be empty'')) else Inr ())"

definition validate_authority :: "GoalClosureAuthorityV1 \<Rightarrow> io_error + unit" where
  "validate_authority a = first_error
     [validate_nonempty ''lane digest'' (ca_lane_digest a),
      validate_nonempty ''concrete session key'' (ca_concrete_session_key a),
      validate_nonempty ''virtual session ID'' (ca_virtual_session_id a),
      validate_nonempty ''backend context generation'' (ca_backend_context_generation a),
      validate_nonempty ''source thread ID'' (ca_source_thread_id a)]"

definition check_intent :: "GoalClosureTriggerV1 \<Rightarrow> GoalClosureDispositionV1
    \<Rightarrow> GoalClosureAuthorityV1 \<Rightarrow> string \<Rightarrow> string \<Rightarrow> string option \<Rightarrow> string \<Rightarrow> string
    \<Rightarrow> io_error + unit" where
  "check_intent trigger disposition a goal_identity goal_generation projection caller reason =
     first_error
     [validate_authority a,
      validate_nonempty ''goal identity'' goal_identity,
      validate_nonempty ''goal generation'' goal_generation,
      validate_nonempty ''caller effect identity'' caller,
      validate_nonempty ''reason'' reason,
      (if case projection of None \<Rightarrow> True | Some v \<Rightarrow> is_blank v
       then Inl (invalid_input ''goal closure intent requires an expected projection checksum'')
       else Inr ()),
      (if trigger = UnknownTrigger
       then Inl (invalid_input ''goal closure trigger must be known'') else Inr ()),
      (if disposition = UnknownDisposition
       then Inl (invalid_input ''goal closure disposition must be known'') else Inr ()),
      (if trigger \<in> {ChannelStop, ChannelNew} \<and> disposition \<noteq> ClosureCanceled
       then Inl (invalid_input ''automatic channel-command closure may only cancel a goal'')
       else Inr ())]"

definition goal_closure_intent_new :: "closure_lib \<Rightarrow> GoalClosureTriggerV1
    \<Rightarrow> GoalClosureDispositionV1 \<Rightarrow> GoalClosureAuthorityV1 \<Rightarrow> string \<Rightarrow> string \<Rightarrow> string option
    \<Rightarrow> string \<Rightarrow> string \<Rightarrow> io_error + GoalClosureIntentV1" where
  "goal_closure_intent_new cl trigger disposition a goal_identity goal_generation projection
     caller reason =
     (case check_intent trigger disposition a goal_identity goal_generation projection caller reason of
        Inl e \<Rightarrow> Inl e
      | Inr _ \<Rightarrow>
          let closure_id = checksum_json cl
                (closure_identity_payload a goal_identity goal_generation disposition caller)
          in Inr \<lparr>ci_schema = GOAL_CLOSURE_INTENT_SCHEMA, ci_event_key = closure_id,
               ci_closure_id = closure_id, ci_trigger = trigger, ci_disposition = disposition,
               ci_authority = a, ci_authority_digest = checksum_json cl (authority_json a),
               ci_goal_identity = goal_identity, ci_goal_generation = goal_generation,
               ci_expected_projection_checksum = projection,
               ci_caller_effect_identity = caller,
               ci_caller_effect_digest = checksum_json cl (JsonString caller),
               ci_reason = reason,
               ci_intent_checksum = checksum_json cl (intent_checksum_payload closure_id trigger
                 disposition a goal_identity goal_generation projection caller reason)\<rparr>)"

definition validate_intent :: "closure_lib \<Rightarrow> GoalClosureIntentV1 \<Rightarrow> io_error + unit" where
  "validate_intent cl i =
     (case goal_closure_intent_new cl (ci_trigger i) (ci_disposition i) (ci_authority i)
        (ci_goal_identity i) (ci_goal_generation i) (ci_expected_projection_checksum i)
        (ci_caller_effect_identity i) (ci_reason i) of
        Inl e \<Rightarrow> Inl e
      | Inr rebuilt \<Rightarrow>
          if ci_schema i \<noteq> GOAL_CLOSURE_INTENT_SCHEMA \<or> ci_event_key i \<noteq> ci_closure_id i
             \<or> ci_closure_id i \<noteq> ci_closure_id rebuilt
             \<or> ci_authority_digest i \<noteq> ci_authority_digest rebuilt
             \<or> ci_caller_effect_digest i \<noteq> ci_caller_effect_digest rebuilt
             \<or> ci_intent_checksum i \<noteq> ci_intent_checksum rebuilt
          then Inl (invalid_data ''goal closure intent identity or checksum validation failed'')
          else Inr ())"

section \<open>Resolution of the target\<close>

definition exact_candidate :: "GoalClosureIntentV1 \<Rightarrow> GoalClosureTargetCandidateV1 \<Rightarrow> bool" where
  "exact_candidate i c \<longleftrightarrow>
     cc_authority c = ci_authority i \<and> cc_goal_identity c = ci_goal_identity i
     \<and> cc_goal_generation c = ci_goal_generation i \<and> cc_original_binding c
     \<and> cc_latest_authoritative_projection c \<and> cc_latest_authoritative_lineage c"

definition resolution_base :: "GoalClosureIntentV1 \<Rightarrow> GoalClosureTargetCandidateV1 list
    \<Rightarrow> GoalClosureTargetResolutionDispositionV1 \<Rightarrow> GoalClosureResolvedTargetV1 option \<Rightarrow> string
    \<Rightarrow> GoalClosureTargetResolutionV1" where
  "resolution_base i candidates disposition target reason =
     \<lparr>cs_schema = GOAL_CLOSURE_RESOLUTION_SCHEMA, cs_closure_id = ci_closure_id i,
      cs_disposition = disposition, cs_authority_digest = ci_authority_digest i,
      cs_candidate_count = length candidates, cs_target = target, cs_reason = reason\<rparr>"

definition resolve_goal_closure_target :: "closure_lib \<Rightarrow> GoalClosureIntentV1
    \<Rightarrow> GoalClosureTargetCandidateV1 list \<Rightarrow> GoalClosureTargetResolutionV1" where
  "resolve_goal_closure_target cl i candidates =
     (case validate_intent cl i of
        Inl _ \<Rightarrow> resolution_base i candidates TargetError None
          ''closure intent failed identity/checksum validation''
      | Inr _ \<Rightarrow>
          let active = filter cc_active candidates;
              exact = filter (exact_candidate i) active
          in if active = [] then resolution_base i candidates TargetNotApplicable None
                 ''no active goal exists for the requested closure''
             else if 1 < length exact then resolution_base i candidates TargetAmbiguous None
                 ''more than one active candidate claims the exact authoritative binding''
             else if exact = [] \<or> length active \<noteq> length exact
             then resolution_base i candidates TargetError None
                 ''active evidence is cross-boundary, incomplete, or not the original authoritative binding''
             else
               let c = hd exact in
               if case ci_expected_projection_checksum i of
                    None \<Rightarrow> False | Some expected \<Rightarrow> expected \<noteq> cc_projection_checksum c
               then resolution_base i candidates TargetError None
                 ''the authoritative projection checksum changed after closure planning''
               else resolution_base i candidates TargetExact
                 (Some \<lparr>ct_authority = cc_authority c, ct_goal_identity = cc_goal_identity c,
                        ct_goal_generation = cc_goal_generation c,
                        ct_projection_checksum = cc_projection_checksum c\<rparr>)
                 ''one exact original authoritative goal binding is eligible for closure'')"

section \<open>Receipts\<close>

definition absent_or_empty :: "string option \<Rightarrow> bool" where
  "absent_or_empty o' \<longleftrightarrow> (case o' of None \<Rightarrow> True | Some v \<Rightarrow> v = [])"

fun result_valid_for_phase :: "GoalClosurePhaseV1 \<Rightarrow> GoalClosureResultV1 \<Rightarrow> bool" where
  "result_valid_for_phase IntentRecorded r \<longleftrightarrow> r = ResultPending"
| "result_valid_for_phase BackendResultRecorded r \<longleftrightarrow>
     r \<in> {ResultSucceeded, ResultNotApplicable, RetryableFailure, ResultRejected}"
| "result_valid_for_phase TerminalProjectionRecorded r \<longleftrightarrow> r = ResultSucceeded"
| "result_valid_for_phase LineageReconciled r \<longleftrightarrow> r = ResultSucceeded"
| "result_valid_for_phase PhaseCompleted r \<longleftrightarrow> r = ResultSucceeded"
| "result_valid_for_phase UnknownPhase r \<longleftrightarrow> False"

definition validate_phase_evidence :: "GoalClosurePhaseV1 \<Rightarrow> GoalClosurePhaseInputV1
    \<Rightarrow> io_error + unit" where
  "validate_phase_evidence phase input =
     (if cp_result input = UnknownResult
      then Inl (invalid_input ''goal closure result must be known'')
      else if \<not> result_valid_for_phase phase (cp_result input)
      then Inl (invalid_input ''goal closure result is not valid for this durable phase'')
      else if phase = TerminalProjectionRecorded \<and> absent_or_empty (cp_projection_checksum input)
      then Inl (invalid_input ''terminal projection phase requires a projection checksum'')
      else if phase \<in> {LineageReconciled, PhaseCompleted}
              \<and> absent_or_empty (cp_lineage_checksum input)
      then Inl (invalid_input ''lineage and completion phases require a lineage checksum'')
      else Inr ())"

definition receipt_identity :: "closure_lib \<Rightarrow> string \<Rightarrow> GoalClosurePhaseV1 \<Rightarrow> string" where
  "receipt_identity cl closure_id phase =
     checksum_json cl (JsonArray [JsonString closure_id, phase_json phase])"

definition receipt_phase_checksum :: "closure_lib \<Rightarrow> GoalClosureReceiptV1 \<Rightarrow> string" where
  "receipt_phase_checksum cl r =
     checksum_json cl (phase_checksum_payload (cr_closure_id r) (cr_intent_checksum r) (cr_phase r)
       (cr_result r) (cr_projection_checksum r) (cr_lineage_checksum r)
       (cr_result_evidence_digest r))"

definition validate_receipt :: "closure_lib \<Rightarrow> GoalClosureReceiptV1 \<Rightarrow> io_error + unit" where
  "validate_receipt cl r =
     (if cr_schema r \<noteq> GOAL_CLOSURE_RECEIPT_SCHEMA \<or> cr_event_key r \<noteq> cr_receipt_id r
      then Inl (invalid_data ''goal closure receipt schema or event key is invalid'')
      else if cr_receipt_id r \<noteq> receipt_identity cl (cr_closure_id r) (cr_phase r)
              \<or> cr_phase_checksum r \<noteq> receipt_phase_checksum cl r
      then Inl (invalid_data ''goal closure receipt identity or checksum validation failed'')
      else validate_phase_evidence (cr_phase r)
        \<lparr>cp_result = cr_result r, cp_projection_checksum = cr_projection_checksum r,
         cp_lineage_checksum = cr_lineage_checksum r,
         cp_result_evidence_digest = cr_result_evidence_digest r,
         cp_recorded_at_ms = cr_recorded_at_ms r\<rparr>)"

definition goal_closure_receipts_for_id :: "closure_lib \<Rightarrow> string \<Rightarrow> closure_home
    \<Rightarrow> io_error + GoalClosureReceiptV1 list" where
  "goal_closure_receipts_for_id cl closure_id h =
     (case read_jsonl (cl_json cl) (cl_receipt cl) (hm_closure_receipts h) of
        Inl e \<Rightarrow> Inl e
      | Inr rows \<Rightarrow>
          let receipts = filter (\<lambda>r. cr_closure_id r = closure_id) rows in
          (case first_error (map (validate_receipt cl) receipts) of
             Inl e \<Rightarrow> Inl e
           | Inr _ \<Rightarrow>
               let sorted = sort_key (\<lambda>r. ordinal (cr_phase r)) receipts in
               if map (\<lambda>r. ordinal (cr_phase r)) sorted \<noteq> [0..<length sorted]
               then Inl (invalid_data ''goal closure receipt phases are duplicated or non-contiguous'')
               else Inr sorted))"

section \<open>Recording\<close>

definition same_goal_generation :: "GoalClosureIntentV1 \<Rightarrow> GoalClosureIntentV1 \<Rightarrow> bool" where
  "same_goal_generation l r \<longleftrightarrow>
     ci_authority l = ci_authority r \<and> ci_goal_identity l = ci_goal_identity r
     \<and> ci_goal_generation l = ci_goal_generation r"

definition completed_receipt :: "GoalClosureReceiptV1 \<Rightarrow> bool" where
  "completed_receipt r \<longleftrightarrow> cr_phase r = PhaseCompleted \<and> cr_result r = ResultSucceeded"

fun terminal_intents :: "closure_lib \<Rightarrow> closure_home \<Rightarrow> GoalClosureIntentV1 list
    \<Rightarrow> io_error + GoalClosureIntentV1 list" where
  "terminal_intents cl h [] = Inr []"
| "terminal_intents cl h (i # is) =
     (case validate_intent cl i of
        Inl e \<Rightarrow> Inl e
      | Inr _ \<Rightarrow>
          (case goal_closure_receipts_for_id cl (ci_closure_id i) h of
             Inl e \<Rightarrow> Inl e
           | Inr receipts \<Rightarrow>
               (case terminal_intents cl h is of
                  Inl e \<Rightarrow> Inl e
                | Inr ts \<Rightarrow>
                    Inr (if receipts \<noteq> [] \<and> completed_receipt (last receipts) then i # ts else ts))))"

definition append_goal_closure_intent :: "closure_lib \<Rightarrow> GoalClosureIntentV1 \<Rightarrow> closure_home
    \<Rightarrow> closure_home \<times> (io_error + GoalClosureAppendDispositionV1 \<times> GoalClosureIntentV1)" where
  "append_goal_closure_intent cl intent h =
     (case append_row_once (cl_json cl) (cl_intent cl) intent (hm_closure_intents h) of
        (t, Inl e) \<Rightarrow> (h\<lparr>hm_closure_intents := t\<rparr>, Inl e)
      | (t, Inr appended) \<Rightarrow>
          (h\<lparr>hm_closure_intents := t\<rparr>,
           case find_one_by_event_key (cl_json cl) (cl_intent cl) (ci_event_key intent) t of
             Inl e \<Rightarrow> Inl e
           | Inr None \<Rightarrow> Inl (invalid_data ''goal closure intent append was not durable'')
           | Inr (Some stored) \<Rightarrow>
               (case validate_intent cl stored of
                  Inl e \<Rightarrow> Inl e
                | Inr _ \<Rightarrow>
                    if ci_intent_checksum stored \<noteq> ci_intent_checksum intent
                    then Inl (invalid_data
                      ''closure ID already exists with a different intent checksum'')
                    else Inr (if appended then Appended else Replayed, stored))))"

definition record_goal_closure_intent :: "closure_lib \<Rightarrow> GoalClosureIntentV1 \<Rightarrow> closure_home
    \<Rightarrow> closure_home \<times> (io_error + GoalClosureAppendDispositionV1 \<times> GoalClosureIntentV1)" where
  "record_goal_closure_intent cl intent h =
     (case validate_intent cl intent of
        Inl e \<Rightarrow> (h, Inl e)
      | Inr _ \<Rightarrow>
     (case read_jsonl (cl_json cl) (cl_intent cl) (hm_closure_intents h) of
        Inl e \<Rightarrow> (h, Inl e)
      | Inr rows \<Rightarrow>
     (case terminal_intents cl h (filter (\<lambda>i. same_goal_generation i intent) rows) of
        Inl e \<Rightarrow> (h, Inl e)
      | Inr [] \<Rightarrow> append_goal_closure_intent cl intent h
      | Inr [stored] \<Rightarrow>
          (h, case validate_intent cl stored of
                Inl e \<Rightarrow> Inl e | Inr _ \<Rightarrow> Inr (Replayed, stored))
      | Inr (_ # _ # _) \<Rightarrow>
          (h, Inl (invalid_data
            ''more than one terminal closure exists for the same goal generation'')))))"

definition check_durable_intent :: "closure_lib \<Rightarrow> GoalClosureIntentV1 \<Rightarrow> closure_home
    \<Rightarrow> io_error + unit" where
  "check_durable_intent cl intent h =
     (case validate_intent cl intent of
        Inl e \<Rightarrow> Inl e
      | Inr _ \<Rightarrow>
     (case find_one_by_event_key (cl_json cl) (cl_intent cl) (ci_event_key intent)
             (hm_closure_intents h) of
        Inl e \<Rightarrow> Inl e
      | Inr None \<Rightarrow> Inl (invalid_input ''goal closure intent must be durable before phase receipts'')
      | Inr (Some stored) \<Rightarrow>
          (case validate_intent cl stored of
             Inl e \<Rightarrow> Inl e
           | Inr _ \<Rightarrow>
               if ci_intent_checksum stored \<noteq> ci_intent_checksum intent
               then Inl (invalid_data
                 ''durable closure intent checksum differs from the requested phase'')
               else Inr ())))"

definition check_phase_order :: "GoalClosureReceiptV1 list \<Rightarrow> GoalClosurePhaseV1
    \<Rightarrow> GoalClosurePhaseInputV1 \<Rightarrow> io_error + unit" where
  "check_phase_order receipts phase input =
     (let latest = (if receipts = [] then None else Some (last receipts));
          expected = (case latest of None \<Rightarrow> 0
            | Some r \<Rightarrow> min 255 (ordinal (cr_phase r) + 1))
      in if expected < ordinal phase
         then Inl (invalid_input ''goal closure phases must be recorded in durable causal order'')
         else if ordinal phase < expected \<and> \<not> list_ex (\<lambda>r. cr_phase r = phase) receipts
         then Inl (invalid_data ''goal closure receipt ledger has a non-contiguous phase history'')
         else if ordinal phase = expected \<and> 1 < ordinal phase
              \<and> (case latest of None \<Rightarrow> False | Some r \<Rightarrow> cr_result r \<noteq> ResultSucceeded)
         then Inl (invalid_input ''goal closure cannot advance past an unsuccessful durable phase'')
         else if ordinal phase = expected \<and> phase = PhaseCompleted
              \<and> (case latest of None \<Rightarrow> None | Some r \<Rightarrow> cr_lineage_checksum r)
                 \<noteq> cp_lineage_checksum input
         then Inl (invalid_input ''completion receipt must retain the reconciled lineage checksum'')
         else Inr ())"

definition phase_receipt :: "closure_lib \<Rightarrow> GoalClosureIntentV1 \<Rightarrow> GoalClosurePhaseV1
    \<Rightarrow> GoalClosurePhaseInputV1 \<Rightarrow> GoalClosureReceiptV1" where
  "phase_receipt cl intent phase input =
     (let receipt_id = receipt_identity cl (ci_closure_id intent) phase in
      \<lparr>cr_schema = GOAL_CLOSURE_RECEIPT_SCHEMA, cr_event_key = receipt_id,
       cr_receipt_id = receipt_id, cr_closure_id = ci_closure_id intent,
       cr_intent_checksum = ci_intent_checksum intent,
       cr_authority_digest = ci_authority_digest intent,
       cr_target_digest = checksum_json cl (closure_target_payload (ci_authority_digest intent)
         (ci_goal_identity intent) (ci_goal_generation intent)),
       cr_caller_effect_digest = ci_caller_effect_digest intent,
       cr_trigger = ci_trigger intent, cr_disposition = ci_disposition intent,
       cr_phase = phase, cr_result = cp_result input,
       cr_projection_checksum = cp_projection_checksum input,
       cr_lineage_checksum = cp_lineage_checksum input,
       cr_result_evidence_digest = cp_result_evidence_digest input,
       cr_phase_checksum = checksum_json cl (phase_checksum_payload (ci_closure_id intent)
         (ci_intent_checksum intent) phase (cp_result input) (cp_projection_checksum input)
         (cp_lineage_checksum input) (cp_result_evidence_digest input)),
       cr_recorded_at_ms = cp_recorded_at_ms input\<rparr>)"

definition check_phase :: "closure_lib \<Rightarrow> GoalClosureIntentV1 \<Rightarrow> GoalClosurePhaseV1
    \<Rightarrow> GoalClosurePhaseInputV1 \<Rightarrow> closure_home \<Rightarrow> io_error + unit" where
  "check_phase cl intent phase input h =
     (case check_durable_intent cl intent h of
        Inl e \<Rightarrow> Inl e
      | Inr _ \<Rightarrow>
     (case goal_closure_receipts_for_id cl (ci_closure_id intent) h of
        Inl e \<Rightarrow> Inl e
      | Inr receipts \<Rightarrow>
     (case check_phase_order receipts phase input of
        Inl e \<Rightarrow> Inl e
      | Inr _ \<Rightarrow> validate_phase_evidence phase input)))"

definition append_goal_closure_receipt :: "closure_lib \<Rightarrow> GoalClosureReceiptV1 \<Rightarrow> closure_home
    \<Rightarrow> closure_home \<times> (io_error + GoalClosureAppendDispositionV1 \<times> GoalClosureReceiptV1)" where
  "append_goal_closure_receipt cl receipt h =
     (case append_row_once (cl_json cl) (cl_receipt cl) receipt (hm_closure_receipts h) of
        (t, Inl e) \<Rightarrow> (h\<lparr>hm_closure_receipts := t\<rparr>, Inl e)
      | (t, Inr appended) \<Rightarrow>
          (h\<lparr>hm_closure_receipts := t\<rparr>,
           case find_one_by_event_key (cl_json cl) (cl_receipt cl) (cr_event_key receipt) t of
             Inl e \<Rightarrow> Inl e
           | Inr None \<Rightarrow> Inl (invalid_data ''goal closure receipt append was not durable'')
           | Inr (Some stored) \<Rightarrow>
               (case validate_receipt cl stored of
                  Inl e \<Rightarrow> Inl e
                | Inr _ \<Rightarrow>
                    if cr_phase_checksum stored \<noteq> cr_phase_checksum receipt
                    then Inl (invalid_data
                      ''closure phase already exists with a different checksum'')
                    else Inr (if appended then Appended else Replayed, stored))))"

definition record_goal_closure_phase :: "closure_lib \<Rightarrow> GoalClosureIntentV1
    \<Rightarrow> GoalClosurePhaseV1 \<Rightarrow> GoalClosurePhaseInputV1 \<Rightarrow> closure_home
    \<Rightarrow> closure_home \<times> (io_error + GoalClosureAppendDispositionV1 \<times> GoalClosureReceiptV1)" where
  "record_goal_closure_phase cl intent phase input h =
     (case check_phase cl intent phase input h of
        Inl e \<Rightarrow> (h, Inl e)
      | Inr _ \<Rightarrow> append_goal_closure_receipt cl (phase_receipt cl intent phase input) h)"

end
