(* ===== verification/Session_Transition.thy ===== *)
theory Session_Transition
  imports Goal_Closure Goal_Lineage
begin

text \<open>
  Channel session transitions (\<open>src/crates/agent-harness-core/src/channel_session_transition.rs\<close>):
  a \<open>stop\<close> or \<open>new\<close> command of a channel freezes its intent in a protected ledger, closes the goal
  of the old session through the closure protocol, and holds new messages until the boundary is
  committed. The home of the harness is the record \<open>channel_home\<close>: the two closure ledgers, the
  three ledgers the lineage doctor reads, and the two ledgers of this component. An operation
  returns the home after its writes together with its result, so that a failure keeps the writes
  made before it.
\<close>

section \<open>Data\<close>

definition CHANNEL_SESSION_TRANSITION_INTENT_SCHEMA :: string where
  "CHANNEL_SESSION_TRANSITION_INTENT_SCHEMA = ''agent-harness.channel-session-transition-intent.v1''"

definition CHANNEL_SESSION_TRANSITION_RECEIPT_SCHEMA :: string where
  "CHANNEL_SESSION_TRANSITION_RECEIPT_SCHEMA = ''agent-harness.channel-session-transition-receipt.v1''"

datatype ChannelSessionTransitionCommandV1 = StopCommand | NewCommand

datatype ChannelGoalBoundaryV1 =
    BoundaryNotApplicable | ClosureProven | ClosurePending | BoundaryAmbiguous

datatype ChannelSessionTransitionPhaseV1 =
    TransitionIntentRecorded | GoalClosurePending | BoundaryReady | RetryPending | BoundaryCommitted

datatype ChannelSessionAdmissionV1 = AdmissionOpen | HoldPendingNew

record PrepareChannelSessionTransitionOptionsV1 =
  po_command :: ChannelSessionTransitionCommandV1
  po_lane_digest :: string
  po_old_session_key :: string
  po_proposed_new_session_key :: "string option"
  po_topic :: "string option"
  po_reason :: "string option"
  po_now_ms :: int

record ChannelSessionTransitionIntentV1 =
  ti_schema :: string
  ti_event_key :: string
  ti_transition_id :: string
  ti_command_effect_identity :: string
  ti_command :: ChannelSessionTransitionCommandV1
  ti_lane_digest :: string
  ti_old_session_key :: string
  ti_frozen_new_session_key :: "string option"
  ti_topic :: "string option"
  ti_reason :: "string option"
  ti_goal_boundary :: ChannelGoalBoundaryV1
  ti_goal_closure_id :: "string option"
  ti_goal_evidence_digest :: string
  ti_requested_at_ms :: int
  ti_intent_checksum :: string

record ChannelSessionTransitionReceiptV1 =
  tr_schema :: string
  tr_event_key :: string
  tr_transition_id :: string
  tr_command_effect_identity :: string
  tr_lane_digest :: string
  tr_old_session_key_digest :: string
  tr_frozen_new_session_key_digest :: "string option"
  tr_phase :: ChannelSessionTransitionPhaseV1
  tr_goal_boundary :: ChannelGoalBoundaryV1
  tr_goal_closure_id :: "string option"
  tr_evidence_digest :: string
  tr_recorded_at_ms :: int

record PreparedChannelSessionTransitionV1 =
  pt_intent :: ChannelSessionTransitionIntentV1
  pt_replayed :: bool
  pt_boundary_ready :: bool

record ChannelSessionTransitionClosureMaterialV1 =
  tm_transition :: ChannelSessionTransitionIntentV1
  tm_goal_closure_intent :: GoalClosureIntentV1
  tm_resolution :: GoalClosureTargetResolutionV1

record GoalBoundaryAssessment =
  ga_goal_boundary :: ChannelGoalBoundaryV1
  ga_goal_closure_id :: "string option"
  ga_goal_evidence_digest :: string

record transition_lib =
  tl_closure :: closure_lib
  tl_lineage :: lineage_lib
  tl_intent :: "ChannelSessionTransitionIntentV1 row_codec"
  tl_receipt :: "ChannelSessionTransitionReceiptV1 row_codec"

record channel_home =
  ch_closure :: closure_home
  ch_lineage :: lineage_home
  ch_intents :: string
  ch_receipts :: string

definition boundary_is_ready :: "ChannelSessionTransitionIntentV1 \<Rightarrow> bool" where
  "boundary_is_ready i \<longleftrightarrow> ti_goal_boundary i \<in> {BoundaryNotApplicable, ClosureProven}"

section \<open>Identities and checksums\<close>

abbreviation transition_checksum :: "transition_lib \<Rightarrow> Value \<Rightarrow> string" where
  "transition_checksum lib \<equiv> checksum_json (tl_closure lib)"

fun command_json :: "ChannelSessionTransitionCommandV1 \<Rightarrow> Value" where
  "command_json StopCommand = JsonString ''stop''"
| "command_json NewCommand = JsonString ''new''"

fun boundary_json :: "ChannelGoalBoundaryV1 \<Rightarrow> Value" where
  "boundary_json BoundaryNotApplicable = JsonString ''not-applicable''"
| "boundary_json ClosureProven = JsonString ''closure-proven''"
| "boundary_json ClosurePending = JsonString ''closure-pending''"
| "boundary_json BoundaryAmbiguous = JsonString ''ambiguous''"

fun transition_phase_json :: "ChannelSessionTransitionPhaseV1 \<Rightarrow> Value" where
  "transition_phase_json TransitionIntentRecorded = JsonString ''intent-recorded''"
| "transition_phase_json GoalClosurePending = JsonString ''goal-closure-pending''"
| "transition_phase_json BoundaryReady = JsonString ''boundary-ready''"
| "transition_phase_json RetryPending = JsonString ''retry-pending''"
| "transition_phase_json BoundaryCommitted = JsonString ''boundary-committed''"

fun doctor_status_json :: "GoalLineageDoctorStatus \<Rightarrow> Value" where
  "doctor_status_json DoctorReady = JsonString ''ready''"
| "doctor_status_json DoctorEmpty = JsonString ''empty''"
| "doctor_status_json DoctorReconciliationRequired = JsonString ''reconciliation-required''"
| "doctor_status_json DoctorBlocked = JsonString ''blocked''"

definition transition_identity :: "transition_lib \<Rightarrow> ChannelSessionTransitionCommandV1 \<Rightarrow> string \<Rightarrow> string
    \<Rightarrow> string" where
  "transition_identity lib command lane_digest old_session_key = transition_checksum lib
     (JsonArray [command_json command, JsonString lane_digest, JsonString old_session_key])"

definition transition_intent_payload :: "ChannelSessionTransitionIntentV1 \<Rightarrow> Value" where
  "transition_intent_payload i = JsonObject
     [(''transitionId'', JsonString (ti_transition_id i)), (''command'', command_json (ti_command i)),
      (''laneDigest'', JsonString (ti_lane_digest i)),
      (''oldSessionKey'', JsonString (ti_old_session_key i)),
      (''frozenNewSessionKey'', opt_json (ti_frozen_new_session_key i)),
      (''topic'', opt_json (ti_topic i)), (''reason'', opt_json (ti_reason i)),
      (''goalBoundary'', boundary_json (ti_goal_boundary i)),
      (''goalClosureId'', opt_json (ti_goal_closure_id i)),
      (''goalEvidenceDigest'', JsonString (ti_goal_evidence_digest i))]"

definition validate_transition_intent :: "transition_lib \<Rightarrow> ChannelSessionTransitionIntentV1
    \<Rightarrow> io_error + unit" where
  "validate_transition_intent lib i =
     (if ti_schema i \<noteq> CHANNEL_SESSION_TRANSITION_INTENT_SCHEMA
         \<or> ti_event_key i \<noteq> ti_transition_id i \<or> ti_command_effect_identity i \<noteq> ti_transition_id i
      then Inl (invalid_data ''session transition intent identity is invalid'')
      else if transition_identity lib (ti_command i) (ti_lane_digest i) (ti_old_session_key i)
                \<noteq> ti_transition_id i
         \<or> transition_checksum lib (transition_intent_payload i) \<noteq> ti_intent_checksum i
      then Inl (invalid_data ''session transition intent checksum is invalid'')
      else Inr ())"

definition validate_options :: "PrepareChannelSessionTransitionOptionsV1 \<Rightarrow> io_error + unit" where
  "validate_options o' = first_error
     [validate_nonempty ''lane digest'' (po_lane_digest o'),
      validate_nonempty ''old session key'' (po_old_session_key o'),
      (case (po_command o', po_proposed_new_session_key o') of
         (NewCommand, Some v) \<Rightarrow> first_error
           [validate_nonempty ''frozen new session key'' v,
            (if v = po_old_session_key o'
             then Inl (invalid_input ''new session transition target must differ from the old session'')
             else Inr ())]
       | (NewCommand, None) \<Rightarrow> Inl (invalid_input ''new session transition requires a frozen target'')
       | (StopCommand, Some _) \<Rightarrow>
           Inl (invalid_input ''stop transition cannot carry a new session target'')
       | (StopCommand, None) \<Rightarrow> Inr ())]"

section \<open>Reading\<close>

definition read_intents :: "transition_lib \<Rightarrow> channel_home
    \<Rightarrow> io_error + ChannelSessionTransitionIntentV1 list" where
  "read_intents lib h = read_jsonl (cl_json (tl_closure lib)) (tl_intent lib) (ch_intents h)"

definition read_receipts :: "transition_lib \<Rightarrow> channel_home
    \<Rightarrow> io_error + ChannelSessionTransitionReceiptV1 list" where
  "read_receipts lib h = read_jsonl (cl_json (tl_closure lib)) (tl_receipt lib) (ch_receipts h)"

definition durable_goal_boundary_is_ready :: "transition_lib \<Rightarrow> channel_home
    \<Rightarrow> ChannelSessionTransitionIntentV1 \<Rightarrow> io_error + bool" where
  "durable_goal_boundary_is_ready lib h i =
     (if boundary_is_ready i then Inr True
      else case ti_goal_closure_id i of
        None \<Rightarrow> Inr False
      | Some closure_id \<Rightarrow>
          (case goal_closure_receipts_for_id (tl_closure lib) closure_id (ch_closure h) of
             Inl e \<Rightarrow> Inl e
           | Inr rs \<Rightarrow> Inr (list_ex completed_receipt rs)))"

definition channel_session_transition_boundary_is_ready :: "transition_lib \<Rightarrow> channel_home
    \<Rightarrow> ChannelSessionTransitionIntentV1 \<Rightarrow> io_error + bool" where
  "channel_session_transition_boundary_is_ready lib h i =
     (case validate_transition_intent lib i of
        Inl e \<Rightarrow> Inl e
      | Inr _ \<Rightarrow> durable_goal_boundary_is_ready lib h i)"

definition boundary_committed :: "ChannelSessionTransitionReceiptV1 list
    \<Rightarrow> ChannelSessionTransitionIntentV1 \<Rightarrow> bool" where
  "boundary_committed rs i \<longleftrightarrow>
     list_ex (\<lambda>r. tr_transition_id r = ti_transition_id i \<and> tr_phase r = BoundaryCommitted) rs"

definition pending_channel_session_transition_intents :: "transition_lib \<Rightarrow> nat \<Rightarrow> channel_home
    \<Rightarrow> io_error + ChannelSessionTransitionIntentV1 list" where
  "pending_channel_session_transition_intents lib max_transitions h =
     (if max_transitions = 0
      then Inl (invalid_input ''session transition reconciliation limit must be positive'')
      else case read_receipts lib h of
        Inl e \<Rightarrow> Inl e
      | Inr receipts \<Rightarrow>
      (case read_intents lib h of
        Inl e \<Rightarrow> Inl e
      | Inr intents \<Rightarrow>
      (case first_error (map (validate_transition_intent lib) intents) of
        Inl e \<Rightarrow> Inl e
      | Inr _ \<Rightarrow> Inr (take max_transitions (filter (\<lambda>i. \<not> boundary_committed receipts i)
          (sort_key (\<lambda>i. (ti_requested_at_ms i, ti_transition_id i)) intents))))))"

definition closure_material_candidate :: "GoalClosureIntentV1 \<Rightarrow> string \<Rightarrow> GoalClosureTargetCandidateV1" where
  "closure_material_candidate i projection =
     \<lparr>cc_authority = ci_authority i, cc_goal_identity = ci_goal_identity i,
      cc_goal_generation = ci_goal_generation i, cc_projection_checksum = projection,
      cc_active = True, cc_original_binding = True, cc_latest_authoritative_projection = True,
      cc_latest_authoritative_lineage = True\<rparr>"

definition channel_session_transition_closure_material :: "transition_lib
    \<Rightarrow> ChannelSessionTransitionIntentV1 \<Rightarrow> channel_home
    \<Rightarrow> io_error + ChannelSessionTransitionClosureMaterialV1 option" where
  "channel_session_transition_closure_material lib transition h =
     (case validate_transition_intent lib transition of
        Inl e \<Rightarrow> Inl e
      | Inr _ \<Rightarrow>
     (case ti_goal_closure_id transition of
        None \<Rightarrow> Inr None
      | Some closure_id \<Rightarrow>
     (case read_jsonl (cl_json (tl_closure lib)) (cl_intent (tl_closure lib))
             (hm_closure_intents (ch_closure h)) of
        Inl e \<Rightarrow> Inl e
      | Inr intents \<Rightarrow>
     (case filter (\<lambda>i. ci_closure_id i = closure_id) intents of
        [intent] \<Rightarrow>
          (case validate_intent (tl_closure lib) intent of
             Inl e \<Rightarrow> Inl e
           | Inr _ \<Rightarrow>
               if ca_lane_digest (ci_authority intent) \<noteq> ti_lane_digest transition
                  \<or> ca_concrete_session_key (ci_authority intent) \<noteq> ti_old_session_key transition
               then Inl (invalid_data
                 ''session transition closure authority does not match the frozen old lane'')
               else (case ci_expected_projection_checksum intent of
                  None \<Rightarrow> Inl (invalid_data ''channel goal closure has no expected projection'')
                | Some projection \<Rightarrow> Inr (Some
                    \<lparr>tm_transition = transition, tm_goal_closure_intent = intent,
                     tm_resolution = resolve_goal_closure_target (tl_closure lib) intent
                       [closure_material_candidate intent projection]\<rparr>)))
      | ms \<Rightarrow> Inl (invalid_data (''session transition closure `'' @ closure_id @ ''` resolved ''
          @ show_nat (length ms) @ '' protected intents''))))))"

fun admission_scan :: "transition_lib \<Rightarrow> string \<Rightarrow> string \<Rightarrow> ChannelSessionTransitionReceiptV1 list
    \<Rightarrow> ChannelSessionTransitionIntentV1 list \<Rightarrow> io_error + ChannelSessionAdmissionV1" where
  "admission_scan lib lane session receipts [] = Inr AdmissionOpen"
| "admission_scan lib lane session receipts (i # is) =
     (if ti_command i \<noteq> NewCommand \<or> ti_lane_digest i \<noteq> lane \<or> ti_old_session_key i \<noteq> session
      then admission_scan lib lane session receipts is
      else case validate_transition_intent lib i of
        Inl e \<Rightarrow> Inl e
      | Inr _ \<Rightarrow> if \<not> boundary_committed receipts i then Inr HoldPendingNew
          else admission_scan lib lane session receipts is)"

definition channel_session_transition_admission :: "transition_lib \<Rightarrow> string \<Rightarrow> string \<Rightarrow> channel_home
    \<Rightarrow> io_error + ChannelSessionAdmissionV1" where
  "channel_session_transition_admission lib lane_digest active_session_key h =
     (case read_receipts lib h of
        Inl e \<Rightarrow> Inl e
      | Inr receipts \<Rightarrow>
     (case read_intents lib h of
        Inl e \<Rightarrow> Inl e
      | Inr intents \<Rightarrow> admission_scan lib lane_digest active_session_key receipts (rev intents)))"

section \<open>Phases\<close>

definition transition_receipt :: "transition_lib \<Rightarrow> ChannelSessionTransitionIntentV1
    \<Rightarrow> ChannelSessionTransitionPhaseV1 \<Rightarrow> ChannelGoalBoundaryV1 \<Rightarrow> string \<Rightarrow> int
    \<Rightarrow> ChannelSessionTransitionReceiptV1" where
  "transition_receipt lib i phase boundary evidence now =
     (let evidence_digest = transition_checksum lib (JsonString evidence)
      in \<lparr>tr_schema = CHANNEL_SESSION_TRANSITION_RECEIPT_SCHEMA,
          tr_event_key = transition_checksum lib (JsonArray [JsonString (ti_transition_id i),
            transition_phase_json phase, JsonString evidence_digest]),
          tr_transition_id = ti_transition_id i,
          tr_command_effect_identity = ti_command_effect_identity i,
          tr_lane_digest = ti_lane_digest i,
          tr_old_session_key_digest = transition_checksum lib (JsonString (ti_old_session_key i)),
          tr_frozen_new_session_key_digest =
            map_option (\<lambda>k. transition_checksum lib (JsonString k)) (ti_frozen_new_session_key i),
          tr_phase = phase, tr_goal_boundary = boundary,
          tr_goal_closure_id = ti_goal_closure_id i, tr_evidence_digest = evidence_digest,
          tr_recorded_at_ms = now\<rparr>)"

definition receipt_boundary :: "transition_lib \<Rightarrow> channel_home \<Rightarrow> ChannelSessionTransitionIntentV1
    \<Rightarrow> ChannelSessionTransitionPhaseV1 \<Rightarrow> io_error + ChannelGoalBoundaryV1" where
  "receipt_boundary lib h i phase =
     (if phase = BoundaryCommitted \<and> ti_goal_boundary i = ClosurePending
      then case durable_goal_boundary_is_ready lib h i of
        Inl e \<Rightarrow> Inl e
      | Inr ready \<Rightarrow> Inr (if ready then ClosureProven else ti_goal_boundary i)
      else Inr (ti_goal_boundary i))"

definition record_channel_session_transition_phase :: "transition_lib
    \<Rightarrow> ChannelSessionTransitionIntentV1 \<Rightarrow> ChannelSessionTransitionPhaseV1 \<Rightarrow> string \<Rightarrow> int
    \<Rightarrow> channel_home \<Rightarrow> channel_home \<times> (io_error + ChannelSessionTransitionReceiptV1)" where
  "record_channel_session_transition_phase lib i phase evidence now h =
     (case validate_transition_intent lib i of
        Inl e \<Rightarrow> (h, Inl e)
      | Inr _ \<Rightarrow>
          if is_blank evidence
          then (h, Inl (invalid_input ''session transition phase evidence must not be empty''))
          else case receipt_boundary lib h i phase of
            Inl e \<Rightarrow> (h, Inl e)
          | Inr boundary \<Rightarrow>
              let receipt = transition_receipt lib i phase boundary evidence now in
              (case append_row_once (cl_json (tl_closure lib)) (tl_receipt lib) receipt (ch_receipts h) of
                 (t, Inl e) \<Rightarrow> (h\<lparr>ch_receipts := t\<rparr>, Inl e)
               | (t, Inr _) \<Rightarrow> (h\<lparr>ch_receipts := t\<rparr>, Inr receipt)))"

section \<open>The goal boundary\<close>

definition command_trigger :: "ChannelSessionTransitionCommandV1 \<Rightarrow> GoalClosureTriggerV1" where
  "command_trigger command = (case command of StopCommand \<Rightarrow> ChannelStop | NewCommand \<Rightarrow> ChannelNew)"

definition quiet_evidence :: "transition_lib \<Rightarrow> string \<Rightarrow> string \<Rightarrow> GoalLineageDoctorReport \<Rightarrow> string" where
  "quiet_evidence lib lane old report = transition_checksum lib (JsonObject
     [(''doctorStatus'', doctor_status_json (lr_status report)), (''laneDigest'', JsonString lane),
      (''lineagesSeen'', JsonU64 (of_nat (length (lr_lineages report)))),
      (''oldSessionKeyDigest'', JsonString (transition_checksum lib (JsonString old))),
      (''projectionsSeen'', JsonU64 (of_nat (lr_projections_seen report)))])"

definition ambiguous_evidence :: "transition_lib \<Rightarrow> string \<Rightarrow> string \<Rightarrow> GoalLineageDoctorReport \<Rightarrow> nat
    \<Rightarrow> string" where
  "ambiguous_evidence lib lane old report candidates = transition_checksum lib (JsonObject
     [(''activeCandidates'', JsonU64 (of_nat candidates)),
      (''blockers'', JsonArray (map JsonString (lr_blockers report))),
      (''doctorStatus'', doctor_status_json (lr_status report)), (''laneDigest'', JsonString lane),
      (''oldSessionKeyDigest'', JsonString (transition_checksum lib (JsonString old))),
      (''warnings'', JsonArray (map JsonString (lr_warnings report)))])"

definition closure_phase_evidence :: "transition_lib \<Rightarrow> string \<Rightarrow> int \<Rightarrow> GoalClosurePhaseInputV1" where
  "closure_phase_evidence lib caller now =
     \<lparr>cp_result = ResultPending, cp_projection_checksum = None, cp_lineage_checksum = None,
      cp_result_evidence_digest = Some (transition_checksum lib (JsonObject
        [(''commandEffectIdentity'', JsonString caller)])), cp_recorded_at_ms = now\<rparr>"

definition boundary_closure_intent :: "transition_lib \<Rightarrow> ChannelSessionTransitionCommandV1 \<Rightarrow> string
    \<Rightarrow> string \<Rightarrow> string \<Rightarrow> GoalLineageV1 \<Rightarrow> io_error + GoalClosureIntentV1" where
  "boundary_closure_intent lib command lane old caller l =
     (case gl_virtual_session_id l of
        None \<Rightarrow> Inl (invalid_data ''active goal has no exact virtual-session authority'')
      | Some session \<Rightarrow>
     (case gl_backend_context_generation l of
        None \<Rightarrow> Inl (invalid_data ''active goal has no backend context generation'')
      | Some generation \<Rightarrow>
          goal_closure_intent_new (tl_closure lib) (command_trigger command) ClosureCanceled
            \<lparr>ca_lane_digest = lane, ca_concrete_session_key = old, ca_virtual_session_id = session,
             ca_backend_context_generation = generation,
             ca_source_thread_id = gl_source_thread_id l\<rparr>
            (gl_goal_reference l) (gl_lineage_id l) (Some (gl_projection_checksum l)) caller
            ''channel session boundary requested goal cancellation''))"

definition close_goal :: "transition_lib \<Rightarrow> GoalClosureIntentV1 \<Rightarrow> string \<Rightarrow> int \<Rightarrow> channel_home
    \<Rightarrow> channel_home \<times> (io_error + GoalBoundaryAssessment)" where
  "close_goal lib intent caller now h =
     (case record_goal_closure_intent (tl_closure lib) intent (ch_closure h) of
        (c, Inl e) \<Rightarrow> (h\<lparr>ch_closure := c\<rparr>, Inl e)
      | (c, Inr (_, recorded)) \<Rightarrow>
     (case record_goal_closure_phase (tl_closure lib) recorded IntentRecorded
             (closure_phase_evidence lib caller now) c of
        (c', Inl e) \<Rightarrow> (h\<lparr>ch_closure := c'\<rparr>, Inl e)
      | (c', Inr _) \<Rightarrow> (h\<lparr>ch_closure := c'\<rparr>,
          case goal_closure_receipts_for_id (tl_closure lib) (ci_closure_id recorded) c' of
            Inl e \<Rightarrow> Inl e
          | Inr rs \<Rightarrow> Inr
              \<lparr>ga_goal_boundary = (if list_ex completed_receipt rs then ClosureProven else ClosurePending),
               ga_goal_closure_id = Some (ci_closure_id recorded),
               ga_goal_evidence_digest = ci_intent_checksum recorded\<rparr>)))"

definition assess_goal_boundary :: "transition_lib \<Rightarrow> ChannelSessionTransitionCommandV1 \<Rightarrow> string
    \<Rightarrow> string \<Rightarrow> string \<Rightarrow> int \<Rightarrow> channel_home \<Rightarrow> channel_home \<times> (io_error + GoalBoundaryAssessment)" where
  "assess_goal_boundary lib command lane old caller now h =
     (let report = run_goal_lineage_doctor (tl_lineage lib) (Some lane) None (ch_lineage h);
          all_active = filter (\<lambda>l. is_active_status (gl_goal_status l)) (lr_lineages report);
          active = filter (\<lambda>l. gl_source_session_key l = old) all_active
      in if lr_status report = DoctorEmpty \<or> (lr_status report = DoctorReady \<and> all_active = [])
         then (h, Inr \<lparr>ga_goal_boundary = BoundaryNotApplicable, ga_goal_closure_id = None,
           ga_goal_evidence_digest = quiet_evidence lib lane old report\<rparr>)
         else if lr_status report \<noteq> DoctorReady \<or> length active \<noteq> 1 \<or> \<not> gl_runnable (hd active)
         then (h, Inr \<lparr>ga_goal_boundary = BoundaryAmbiguous, ga_goal_closure_id = None,
           ga_goal_evidence_digest = ambiguous_evidence lib lane old report (length active)\<rparr>)
         else case boundary_closure_intent lib command lane old caller (hd active) of
           Inl e \<Rightarrow> (h, Inl e)
         | Inr intent \<Rightarrow> close_goal lib intent caller now h)"

section \<open>Preparing a transition\<close>

definition new_transition_intent :: "transition_lib \<Rightarrow> PrepareChannelSessionTransitionOptionsV1
    \<Rightarrow> GoalBoundaryAssessment \<Rightarrow> ChannelSessionTransitionIntentV1" where
  "new_transition_intent lib o' a =
     (let tid = transition_identity lib (po_command o') (po_lane_digest o') (po_old_session_key o');
          intent = \<lparr>ti_schema = CHANNEL_SESSION_TRANSITION_INTENT_SCHEMA, ti_event_key = tid,
            ti_transition_id = tid, ti_command_effect_identity = tid, ti_command = po_command o',
            ti_lane_digest = po_lane_digest o', ti_old_session_key = po_old_session_key o',
            ti_frozen_new_session_key = (case po_command o' of StopCommand \<Rightarrow> None
              | NewCommand \<Rightarrow> po_proposed_new_session_key o'),
            ti_topic = po_topic o', ti_reason = po_reason o',
            ti_goal_boundary = ga_goal_boundary a, ti_goal_closure_id = ga_goal_closure_id a,
            ti_goal_evidence_digest = ga_goal_evidence_digest a,
            ti_requested_at_ms = po_now_ms o', ti_intent_checksum = []\<rparr>
      in intent\<lparr>ti_intent_checksum := transition_checksum lib (transition_intent_payload intent)\<rparr>)"

definition store_transition_intent :: "transition_lib \<Rightarrow> ChannelSessionTransitionIntentV1 \<Rightarrow> channel_home
    \<Rightarrow> channel_home \<times> (io_error + bool \<times> ChannelSessionTransitionIntentV1)" where
  "store_transition_intent lib intent h =
     (case append_row_once (cl_json (tl_closure lib)) (tl_intent lib) intent (ch_intents h) of
        (t, Inl e) \<Rightarrow> (h\<lparr>ch_intents := t\<rparr>, Inl e)
      | (t, Inr appended) \<Rightarrow> (h\<lparr>ch_intents := t\<rparr>,
          case read_intents lib (h\<lparr>ch_intents := t\<rparr>) of
            Inl e \<Rightarrow> Inl e
          | Inr intents \<Rightarrow>
          (case find (\<lambda>i. ti_transition_id i = ti_transition_id intent) intents of
             None \<Rightarrow> Inl (invalid_data ''session transition intent append was not durable'')
           | Some stored \<Rightarrow>
               (case validate_transition_intent lib stored of
                  Inl e \<Rightarrow> Inl e
                | Inr _ \<Rightarrow>
                    if ti_intent_checksum stored \<noteq> ti_intent_checksum intent
                    then Inl (invalid_data
                      ''session transition identity already has different protected intent evidence'')
                    else Inr (appended, stored)))))"

definition record_prepared_phases :: "transition_lib \<Rightarrow> ChannelSessionTransitionIntentV1 \<Rightarrow> bool \<Rightarrow> int
    \<Rightarrow> channel_home \<Rightarrow> channel_home \<times> (io_error + PreparedChannelSessionTransitionV1)" where
  "record_prepared_phases lib stored appended now h =
     (case record_channel_session_transition_phase lib stored TransitionIntentRecorded
             (ti_goal_evidence_digest stored) now h of
        (h', Inl e) \<Rightarrow> (h', Inl e)
      | (h', Inr _) \<Rightarrow>
     (case record_channel_session_transition_phase lib stored
             (if boundary_is_ready stored then BoundaryReady else GoalClosurePending)
             (ti_goal_evidence_digest stored) now h' of
        (h'', Inl e) \<Rightarrow> (h'', Inl e)
      | (h'', Inr _) \<Rightarrow> (h'', Inr \<lparr>pt_intent = stored, pt_replayed = (\<not> appended),
          pt_boundary_ready = boundary_is_ready stored\<rparr>)))"

definition freeze_transition :: "transition_lib \<Rightarrow> PrepareChannelSessionTransitionOptionsV1 \<Rightarrow> channel_home
    \<Rightarrow> channel_home \<times> (io_error + PreparedChannelSessionTransitionV1)" where
  "freeze_transition lib o' h =
     (case assess_goal_boundary lib (po_command o') (po_lane_digest o') (po_old_session_key o')
             (transition_identity lib (po_command o') (po_lane_digest o') (po_old_session_key o'))
             (po_now_ms o') h of
        (h', Inl e) \<Rightarrow> (h', Inl e)
      | (h', Inr assessment) \<Rightarrow>
     (case store_transition_intent lib (new_transition_intent lib o' assessment) h' of
        (h'', Inl e) \<Rightarrow> (h'', Inl e)
      | (h'', Inr (appended, stored)) \<Rightarrow>
          record_prepared_phases lib stored appended (po_now_ms o') h''))"

definition prepare_channel_session_transition :: "transition_lib
    \<Rightarrow> PrepareChannelSessionTransitionOptionsV1 \<Rightarrow> channel_home
    \<Rightarrow> channel_home \<times> (io_error + PreparedChannelSessionTransitionV1)" where
  "prepare_channel_session_transition lib o' h =
     (case validate_options o' of
        Inl e \<Rightarrow> (h, Inl e)
      | Inr _ \<Rightarrow>
     (case read_intents lib h of
        Inl e \<Rightarrow> (h, Inl e)
      | Inr intents \<Rightarrow>
     (case find (\<lambda>i. ti_transition_id i =
             transition_identity lib (po_command o') (po_lane_digest o') (po_old_session_key o')) intents of
        Some intent \<Rightarrow> (h,
          case validate_transition_intent lib intent of
            Inl e \<Rightarrow> Inl e
          | Inr _ \<Rightarrow>
              (case durable_goal_boundary_is_ready lib h intent of
                 Inl e \<Rightarrow> Inl e
               | Inr ready \<Rightarrow> Inr \<lparr>pt_intent = intent, pt_replayed = True, pt_boundary_ready = ready\<rparr>))
      | None \<Rightarrow> freeze_transition lib o' h)))"

end
