(* ===== verification/Goal_Closure_Props.thy ===== *)
theory Goal_Closure_Props
  imports Goal_Closure
begin

text \<open>
  The closure protocol as a state machine: the homes reachable by recording intents and phases, in
  any order and with any arguments, satisfy the invariant \<open>closure_inv\<close>; a completed closure is
  therefore backed by an unbroken chain of receipts.
\<close>

section \<open>What is relied on\<close>

definition closure_lib_ok :: "closure_lib \<Rightarrow> bool" where
  "closure_lib_ok cl \<longleftrightarrow>
     serde_ok (cl_json cl) (cl_intent cl) \<and> sc_event_key (cl_intent cl) = ci_event_key
     \<and> serde_ok (cl_json cl) (cl_receipt cl) \<and> sc_event_key (cl_receipt cl) = cr_event_key"

text \<open>SHA-256 over the serialised value has no collisions.\<close>

definition collision_free :: "closure_lib \<Rightarrow> bool" where
  "collision_free cl \<longleftrightarrow> (\<forall>v w. checksum_json cl v = checksum_json cl w \<longrightarrow> v = w)"

inductive closure_reachable :: "closure_lib \<Rightarrow> closure_home \<Rightarrow> bool" for cl where
  start: "closure_reachable cl \<lparr>hm_closure_intents = [], hm_closure_receipts = []\<rparr>"
| intent: "closure_reachable cl h \<Longrightarrow> closure_reachable cl (fst (record_goal_closure_intent cl i h))"
| phase: "closure_reachable cl h \<Longrightarrow>
    closure_reachable cl (fst (record_goal_closure_phase cl i p input h))"

definition home_of :: "closure_lib \<Rightarrow> GoalClosureIntentV1 list \<Rightarrow> GoalClosureReceiptV1 list
    \<Rightarrow> closure_home" where
  "home_of cl is rs = \<lparr>hm_closure_intents = ledger_text (cl_json cl) (cl_intent cl) is,
     hm_closure_receipts = ledger_text (cl_json cl) (cl_receipt cl) rs\<rparr>"

lemma home_of_sel [simp]:
  "hm_closure_intents (home_of cl is rs) = ledger_text (cl_json cl) (cl_intent cl) is"
  "hm_closure_receipts (home_of cl is rs) = ledger_text (cl_json cl) (cl_receipt cl) rs"
  by (simp_all add: home_of_def)

lemma home_of_upd [simp]:
  "(home_of cl is rs)\<lparr>hm_closure_intents := ledger_text (cl_json cl) (cl_intent cl) is'\<rparr> = home_of cl is' rs"
  "(home_of cl is rs)\<lparr>hm_closure_receipts := ledger_text (cl_json cl) (cl_receipt cl) rs'\<rparr> = home_of cl is rs'"
  by (simp_all add: home_of_def)

section \<open>The invariant\<close>

definition receipt_link :: "GoalClosureReceiptV1 \<Rightarrow> GoalClosureReceiptV1 \<Rightarrow> bool" where
  "receipt_link a b \<longleftrightarrow>
     (1 < ordinal (cr_phase b) \<longrightarrow> cr_result a = ResultSucceeded)
     \<and> (cr_phase b = PhaseCompleted \<longrightarrow> cr_lineage_checksum a = cr_lineage_checksum b)"

definition receipt_chain :: "GoalClosureReceiptV1 list \<Rightarrow> bool" where
  "receipt_chain rs \<longleftrightarrow>
     map (\<lambda>r. ordinal (cr_phase r)) rs = [0..<length rs] \<and> successively receipt_link rs"

abbreviation of_closure :: "string \<Rightarrow> GoalClosureReceiptV1 list \<Rightarrow> GoalClosureReceiptV1 list" where
  "of_closure cid \<equiv> filter (\<lambda>r. cr_closure_id r = cid)"

definition closure_inv :: "closure_lib \<Rightarrow> GoalClosureIntentV1 list \<Rightarrow> GoalClosureReceiptV1 list
    \<Rightarrow> bool" where
  "closure_inv cl is rs \<longleftrightarrow>
     distinct (map ci_event_key is) \<and> (\<forall>i \<in> set is. validate_intent cl i = Inr ())
     \<and> distinct (map cr_event_key rs) \<and> (\<forall>r \<in> set rs. validate_receipt cl r = Inr ())
     \<and> (\<forall>cid. receipt_chain (of_closure cid rs))
     \<and> (\<forall>r \<in> set rs. \<exists>i \<in> set is. ci_closure_id i = cr_closure_id r
          \<and> ci_intent_checksum i = cr_intent_checksum r)"

lemma closure_inv_empty: "closure_inv cl [] []"
  by (simp add: closure_inv_def receipt_chain_def)

lemma validate_intent_key: "validate_intent cl i = Inr () \<Longrightarrow> ci_event_key i = ci_closure_id i"
  by (auto simp: validate_intent_def split: sum.splits if_splits)

lemma validate_receipt_key:
  "validate_receipt cl r = Inr () \<Longrightarrow> cr_event_key r = receipt_identity cl (cr_closure_id r) (cr_phase r)"
  by (auto simp: validate_receipt_def split: if_splits)

text \<open>A chain has at most five receipts, since no sixth phase has ordinal five.\<close>

lemma receipt_chain_length:
  assumes "receipt_chain rs"
  shows "length rs \<le> 5"
proof (rule ccontr)
  assume "\<not> length rs \<le> 5"
  then have "5 < length rs" by simp
  with assms have "ordinal (cr_phase (rs ! 5)) = 5"
    by (metis (no_types, lifting) add_0 length_map nth_map nth_upt receipt_chain_def)
  then show False by (cases "cr_phase (rs ! 5)") auto
qed

lemma receipt_chain_last:
  assumes "receipt_chain rs" and "rs \<noteq> []"
  shows "ordinal (cr_phase (last rs)) + 1 = length rs"
proof -
  have "last (map (\<lambda>r. ordinal (cr_phase r)) rs) = last [0..<length rs]"
    using assms by (simp add: receipt_chain_def)
  with assms(2) show ?thesis by (simp add: last_map)
qed

lemma receipt_chain_snoc:
  "receipt_chain (rs @ [r]) \<longleftrightarrow>
     receipt_chain rs \<and> ordinal (cr_phase r) = length rs \<and> (rs = [] \<or> receipt_link (last rs) r)"
  by (auto simp: receipt_chain_def successively_append_iff)

section \<open>Reading\<close>

lemma receipts_for_id_home:
  assumes "closure_lib_ok cl" and "closure_inv cl is rs"
  shows "goal_closure_receipts_for_id cl cid (home_of cl is rs) = Inr (of_closure cid rs)"
proof -
  let ?rs = "of_closure cid rs"
  have ch: "map (\<lambda>r. ordinal (cr_phase r)) ?rs = [0..<length ?rs]"
    using assms(2) by (simp add: closure_inv_def receipt_chain_def)
  then have "sorted (map (\<lambda>r. ordinal (cr_phase r)) ?rs)" by (metis sorted_upt)
  then have "sort_key (\<lambda>r. ordinal (cr_phase r)) ?rs = ?rs" by (rule sort_key_id_if_sorted)
  moreover have "first_error (map (validate_receipt cl) ?rs) = Inr ()"
    using assms(2) by (auto simp: first_error_Inr closure_inv_def)
  ultimately show ?thesis
    using assms(1) ch
    by (simp add: goal_closure_receipts_for_id_def closure_lib_ok_def read_jsonl_ledger Let_def)
qed

section \<open>Every operation keeps the invariant\<close>

lemma closure_inv_intent:
  assumes "closure_inv cl is rs" and "validate_intent cl i = Inr ()"
    and "ci_event_key i \<notin> ci_event_key ` set is"
  shows "closure_inv cl (is @ [i]) rs"
  using assms unfolding closure_inv_def by (auto; blast)

lemma fst_append_intent:
  "fst (append_goal_closure_intent cl i h) =
     h\<lparr>hm_closure_intents := fst (append_row_once (cl_json cl) (cl_intent cl) i (hm_closure_intents h))\<rparr>"
  by (simp add: append_goal_closure_intent_def split: prod.splits sum.splits)

lemma fst_append_receipt:
  "fst (append_goal_closure_receipt cl r h) =
     h\<lparr>hm_closure_receipts := fst (append_row_once (cl_json cl) (cl_receipt cl) r (hm_closure_receipts h))\<rparr>"
  by (simp add: append_goal_closure_receipt_def split: prod.splits sum.splits)

lemma record_intent_fst:
  "fst (record_goal_closure_intent cl i h) = h
   \<or> validate_intent cl i = Inr ()
     \<and> fst (record_goal_closure_intent cl i h) = fst (append_goal_closure_intent cl i h)"
  by (simp add: record_goal_closure_intent_def split: sum.split list.split)

lemma record_intent_home:
  assumes "closure_lib_ok cl" and inv: "closure_inv cl is rs"
  obtains is' where "fst (record_goal_closure_intent cl i (home_of cl is rs)) = home_of cl is' rs"
    and "closure_inv cl is' rs" and "is' = is \<or> is' = is @ [i]"
proof -
  have ok: "serde_ok (cl_json cl) (cl_intent cl)" "sc_event_key (cl_intent cl) = ci_event_key"
    using assms(1) by (auto simp: closure_lib_ok_def)
  consider "fst (record_goal_closure_intent cl i (home_of cl is rs)) = home_of cl is rs"
    | "validate_intent cl i = Inr ()"
      "fst (record_goal_closure_intent cl i (home_of cl is rs))
        = fst (append_goal_closure_intent cl i (home_of cl is rs))"
    using record_intent_fst by blast
  then show ?thesis
  proof cases
    case 1
    with inv that show ?thesis by blast
  next
    case 2
    from ok(1) show ?thesis
    proof (cases rule: append_row_once_cases [where r = i and rs = "is"])
      case added
      with 2 ok(2) show ?thesis
        by (intro that [of "is @ [i]"] closure_inv_intent [OF inv]) (simp_all add: fst_append_intent)
    qed (use 2 inv that [of "is"] in \<open>simp_all add: fst_append_intent\<close>)
  qed
qed

text \<open>
  A receipt whose key is free and whose checks pass carries the next phase of its closure: an
  earlier phase would find its own key taken.
\<close>

lemma check_phase_order_next:
  assumes "check_phase_order recs phase input = Inr ()" and "receipt_chain recs"
    and "\<forall>r \<in> set recs. cr_phase r \<noteq> phase"
  shows "ordinal phase = length recs
    \<and> (recs \<noteq> [] \<longrightarrow> (1 < ordinal phase \<longrightarrow> cr_result (last recs) = ResultSucceeded)
         \<and> (phase = PhaseCompleted \<longrightarrow> cr_lineage_checksum (last recs) = cp_lineage_checksum input))"
proof -
  let ?n = "if recs = [] then 0 else min 255 (ordinal (cr_phase (last recs)) + 1)"
  have n: "?n = length recs"
    using receipt_chain_last [OF assms(2)] receipt_chain_length [OF assms(2)] by auto
  have "\<not> list_ex (\<lambda>r. cr_phase r = phase) recs" using assms(3) by (simp add: list_ex_iff)
  with assms(1) n show ?thesis
    by (cases "recs = []") (auto simp: check_phase_order_def Let_def split: if_splits)
qed

lemma phase_receipt_sel [simp]:
  "cr_closure_id (phase_receipt cl i p input) = ci_closure_id i"
  "cr_phase (phase_receipt cl i p input) = p"
  "cr_result (phase_receipt cl i p input) = cp_result input"
  "cr_lineage_checksum (phase_receipt cl i p input) = cp_lineage_checksum input"
  "cr_intent_checksum (phase_receipt cl i p input) = ci_intent_checksum i"
  "cr_disposition (phase_receipt cl i p input) = ci_disposition i"
  "cr_event_key (phase_receipt cl i p input) = receipt_identity cl (ci_closure_id i) p"
  by (simp_all add: phase_receipt_def Let_def)

lemma validate_phase_receipt:
  "validate_phase_evidence p input = Inr () \<Longrightarrow> validate_receipt cl (phase_receipt cl i p input) = Inr ()"
  by (auto simp: validate_receipt_def phase_receipt_def receipt_phase_checksum_def Let_def
      validate_phase_evidence_def split: if_splits)

lemma durable_intent_home:
  assumes "closure_lib_ok cl" and "closure_inv cl is rs"
    and "check_durable_intent cl i (home_of cl is rs) = Inr ()"
  shows "\<exists>i' \<in> set is. ci_closure_id i' = ci_closure_id i \<and> ci_intent_checksum i' = ci_intent_checksum i"
proof -
  have "find_one_by_event_key (cl_json cl) (cl_intent cl) (ci_event_key i) (hm_closure_intents (home_of cl is rs))
      = Inr (find (\<lambda>x. ci_event_key x = ci_event_key i) is)"
    using assms(1,2) find_one_ledger [of "cl_json cl" "cl_intent cl" "is"]
    by (simp add: closure_lib_ok_def closure_inv_def)
  with assms(3) obtain i' where
    "find (\<lambda>x. ci_event_key x = ci_event_key i) is = Some i'"
    and v: "validate_intent cl i = Inr ()" "validate_intent cl i' = Inr ()"
    and c: "ci_intent_checksum i' = ci_intent_checksum i"
    by (auto simp: check_durable_intent_def split: sum.splits option.splits if_splits)
  then have "i' \<in> set is" "ci_event_key i' = ci_event_key i" by (auto dest: find_SomeD)
  with v c validate_intent_key show ?thesis by metis
qed

lemma closure_inv_receipt:
  assumes inv: "closure_inv cl is rs" and "validate_receipt cl r = Inr ()"
    and "cr_event_key r \<notin> cr_event_key ` set rs"
    and "receipt_chain (of_closure (cr_closure_id r) rs @ [r])"
    and "\<exists>i \<in> set is. ci_closure_id i = cr_closure_id r \<and> ci_intent_checksum i = cr_intent_checksum r"
  shows "closure_inv cl is (rs @ [r])"
  using assms unfolding closure_inv_def by auto

lemma closure_inv_phase:
  assumes ok: "closure_lib_ok cl" and inv: "closure_inv cl is rs"
    and check: "check_phase cl i p input (home_of cl is rs) = Inr ()"
    and free: "receipt_identity cl (ci_closure_id i) p \<notin> cr_event_key ` set rs"
  shows "closure_inv cl is (rs @ [phase_receipt cl i p input])"
proof -
  let ?recs = "of_closure (ci_closure_id i) rs" and ?r = "phase_receipt cl i p input"
  from check have d: "check_durable_intent cl i (home_of cl is rs) = Inr ()"
    and o: "check_phase_order ?recs p input = Inr ()" and v: "validate_phase_evidence p input = Inr ()"
    by (auto simp: check_phase_def receipts_for_id_home [OF ok inv] split: sum.splits)
  have chain: "receipt_chain ?recs" using inv by (simp add: closure_inv_def)
  have "\<forall>r \<in> set ?recs. cr_phase r \<noteq> p"
  proof (intro ballI notI)
    fix r
    assume r: "r \<in> set ?recs" and "cr_phase r = p"
    with inv validate_receipt_key [of cl r]
    have "cr_event_key r = receipt_identity cl (ci_closure_id i) p" by (auto simp: closure_inv_def)
    with r free show False by (metis (no_types, lifting) filter_is_subset imageI subsetD)
  qed
  from check_phase_order_next [OF o chain this]
  have "receipt_chain (?recs @ [?r])" using chain by (auto simp: receipt_chain_snoc receipt_link_def)
  with inv v free durable_intent_home [OF ok inv d] show ?thesis
    by (intro closure_inv_receipt) (simp_all add: validate_phase_receipt)
qed

lemma record_phase_home:
  assumes "closure_lib_ok cl" and inv: "closure_inv cl is rs"
  obtains rs' where "fst (record_goal_closure_phase cl i p input (home_of cl is rs)) = home_of cl is rs'"
    and "closure_inv cl is rs'" and "rs' = rs \<or> rs' = rs @ [phase_receipt cl i p input]"
proof (cases "check_phase cl i p input (home_of cl is rs)")
  case (Inl e)
  with inv that [of rs] show ?thesis by (simp add: record_goal_closure_phase_def)
next
  case (Inr u)
  let ?r = "phase_receipt cl i p input"
  have ok: "serde_ok (cl_json cl) (cl_receipt cl)" "sc_event_key (cl_receipt cl) = cr_event_key"
    using assms(1) by (auto simp: closure_lib_ok_def)
  have f: "fst (record_goal_closure_phase cl i p input (home_of cl is rs)) =
      fst (append_goal_closure_receipt cl ?r (home_of cl is rs))"
    using Inr by (simp add: record_goal_closure_phase_def)
  from ok(1) show ?thesis
  proof (cases rule: append_row_once_cases [where r = ?r and rs = rs])
    case added
    with f Inr ok(2) show ?thesis
      by (intro that [of "rs @ [?r]"] closure_inv_phase [OF assms]) (simp_all add: fst_append_receipt)
  qed (use f inv that [of rs] in \<open>simp_all add: fst_append_receipt\<close>)
qed

lemma closure_reachable_inv:
  assumes "closure_lib_ok cl" and "closure_reachable cl h"
  shows "\<exists>is rs. h = home_of cl is rs \<and> closure_inv cl is rs"
  using assms(2)
proof (induction rule: closure_reachable.induct)
  case start
  show ?case using closure_inv_empty by (intro exI [of _ "[]"]) (simp add: home_of_def)
next
  case (intent h i)
  then show ?case using record_intent_home [OF assms(1)] by metis
next
  case (phase h i p input)
  then show ?case using record_phase_home [OF assms(1)] by metis
qed

end
