(* ===== verification/Goal_Closure_Claims.thy ===== *)
theory Goal_Closure_Claims
  imports Goal_Closure_Props
begin

text \<open>
  The properties of the closure protocol, and a concrete closure that runs through all five phases
  for their witnesses.
\<close>

section \<open>Progress\<close>

lemma hex_digit_graphic: "d < 16 \<Longrightarrow> ascii_graphic (hex_digit d)"
  using hex_digit_lower [of d] by (auto simp: is_lower_hex_byte_def is_ascii_digit_def ascii_graphic_def)

lemma sha256_json_not_blank: "\<not> is_blank (sha256_json sha enc v)"
proof (rule not_blank_graphic_ends)
  let ?h = "hex_encode (sha (enc v))"
  have h: "list_all ascii_graphic ?h"
    using hex_encode_lower [of "sha (enc v)"]
    by (auto simp: list_all_iff is_lower_hex_byte_def is_ascii_digit_def ascii_graphic_def)
  show "sha256_json sha enc v \<noteq> []" by (simp add: sha256_json_def)
  show "ascii_graphic (hd (sha256_json sha enc v))" by (simp add: sha256_json_def ascii_graphic_def)
  show "ascii_graphic (last (sha256_json sha enc v))"
    using h by (cases "?h = []") (simp_all add: sha256_json_def ascii_graphic_def list_all_iff last_append)
qed

lemma checksum_not_blank: "\<not> is_blank (checksum_json cl v)"
  by (simp add: checksum_json_def sha256_json_not_blank)

lemma record_phase_appends:
  assumes ok: "closure_lib_ok cl" and inv: "closure_inv cl is rs"
    and check: "check_phase cl i p input (home_of cl is rs) = Inr ()"
    and free: "receipt_identity cl (ci_closure_id i) p \<notin> cr_event_key ` set rs"
  shows "record_goal_closure_phase cl i p input (home_of cl is rs) =
    (home_of cl is (rs @ [phase_receipt cl i p input]), Inr (Appended, phase_receipt cl i p input))"
proof -
  let ?r = "phase_receipt cl i p input"
  have s: "serde_ok (cl_json cl) (cl_receipt cl)" "sc_event_key (cl_receipt cl) = cr_event_key"
    using ok by (auto simp: closure_lib_ok_def)
  have inv': "closure_inv cl is (rs @ [?r])" using assms by (rule closure_inv_phase)
  have "\<not> is_blank (cr_event_key ?r)" by (simp add: receipt_identity_def checksum_not_blank)
  then have a: "append_row_once (cl_json cl) (cl_receipt cl) ?r (ledger_text (cl_json cl) (cl_receipt cl) rs)
      = (ledger_text (cl_json cl) (cl_receipt cl) (rs @ [?r]), Inr True)"
    using append_row_once_ledger [OF s(1), of ?r rs] s(2) free by simp
  have "find_one_by_event_key (cl_json cl) (cl_receipt cl) (cr_event_key ?r)
      (ledger_text (cl_json cl) (cl_receipt cl) (rs @ [?r]))
      = Inr (find (\<lambda>r. cr_event_key r = cr_event_key ?r) (rs @ [?r]))"
    using find_one_ledger [OF s(1), of "rs @ [?r]"] inv' s(2) by (simp add: closure_inv_def)
  moreover have "\<forall>x \<in> set rs. cr_event_key x \<noteq> cr_event_key ?r"
    using free by (metis imageI phase_receipt_sel(7))
  then have "find (\<lambda>r. cr_event_key r = cr_event_key ?r) rs = None" by (simp add: find_None_iff)
  moreover have "validate_receipt cl ?r = Inr ()" using inv' by (simp add: closure_inv_def)
  ultimately show ?thesis
    using check a by (simp add: record_goal_closure_phase_def append_goal_closure_receipt_def find_append)
qed

lemma check_phase_next:
  assumes ok: "closure_lib_ok cl" and inv: "closure_inv cl is rs"
    and "check_durable_intent cl i (home_of cl is rs) = Inr ()"
    and recs: "recs = of_closure (ci_closure_id i) rs" and p: "ordinal p = length recs"
    and "1 < ordinal p \<Longrightarrow> cr_result (last recs) = ResultSucceeded"
    and "p = PhaseCompleted \<Longrightarrow> cr_lineage_checksum (last recs) = cp_lineage_checksum input"
    and "validate_phase_evidence p input = Inr ()"
  shows "check_phase cl i p input (home_of cl is rs) = Inr ()"
proof -
  have chain: "receipt_chain recs" using inv recs by (simp add: closure_inv_def)
  have "check_phase_order recs p input = Inr ()"
  proof (cases "recs = []")
    case True
    with p assms(6,7) show ?thesis by (cases p) (auto simp: check_phase_order_def)
  next
    case False
    have "min 255 (ordinal (cr_phase (last recs)) + 1) = length recs"
      using receipt_chain_last [OF chain False] receipt_chain_length [OF chain] by simp
    with False p assms(6,7) show ?thesis by (auto simp: check_phase_order_def Let_def)
  qed
  with assms(3,8) show ?thesis
    by (simp add: check_phase_def receipts_for_id_home [OF ok inv] recs)
qed

section \<open>Walking through the phases\<close>

lemma phase_json_inj: "phase_json p = phase_json q \<longleftrightarrow> p = q"
  by (cases p; cases q) auto

lemma receipt_identity_inj:
  assumes "collision_free cl"
  shows "receipt_identity cl c p = receipt_identity cl d q \<longleftrightarrow> c = d \<and> p = q"
proof
  assume "receipt_identity cl c p = receipt_identity cl d q"
  with assms have "JsonArray [JsonString c, phase_json p] = JsonArray [JsonString d, phase_json q]"
    unfolding collision_free_def receipt_identity_def by blast
  then show "c = d \<and> p = q" by (simp add: phase_json_inj)
qed simp

lemma record_intent_fresh:
  assumes "closure_lib_ok cl" and "validate_intent cl i = Inr ()"
  shows "record_goal_closure_intent cl i (home_of cl [] []) = (home_of cl [i] [], Inr (Appended, i))"
    and "closure_inv cl [i] []" and "check_durable_intent cl i (home_of cl [i] rs) = Inr ()"
proof -
  have s: "serde_ok (cl_json cl) (cl_intent cl)" "sc_event_key (cl_intent cl) = ci_event_key"
    using assms(1) by (auto simp: closure_lib_ok_def)
  have "\<not> is_blank (ci_event_key i)"
    using assms(2) checksum_not_blank
    by (auto simp: validate_intent_def goal_closure_intent_new_def Let_def split: sum.splits if_splits)
  then have "append_row_once (cl_json cl) (cl_intent cl) i []
      = (ledger_text (cl_json cl) (cl_intent cl) [i], Inr True)"
    using append_row_once_ledger [OF s(1), of i "[]"] s(2) by simp
  moreover have "read_jsonl (cl_json cl) (cl_intent cl) [] = Inr []"
    using read_jsonl_ledger [OF s(1), of "[]"] by simp
  ultimately show "record_goal_closure_intent cl i (home_of cl [] []) = (home_of cl [i] [], Inr (Appended, i))"
    using assms(2) find_one_ledger [OF s(1), of "[i]"] s(2)
    by (simp add: record_goal_closure_intent_def append_goal_closure_intent_def home_of_def)
  show "closure_inv cl [i] []" using closure_inv_intent [OF closure_inv_empty assms(2)] by simp
  show "check_durable_intent cl i (home_of cl [i] rs) = Inr ()"
    using assms(2) find_one_ledger [OF s(1), of "[i]" "ci_event_key i"] s(2)
    by (simp add: check_durable_intent_def)
qed

definition walked :: "closure_lib \<Rightarrow> GoalClosureIntentV1 \<Rightarrow> (GoalClosurePhaseV1 \<times> GoalClosurePhaseInputV1) list
    \<Rightarrow> GoalClosureReceiptV1 list" where
  "walked cl i ps = map (\<lambda>(p, x). phase_receipt cl i p x) ps"

lemma walked_simps [simp]:
  "walked cl i [] = []" "walked cl i ((p, x) # ps) = phase_receipt cl i p x # walked cl i ps"
  by (simp_all add: walked_def)

lemma walk_step:
  assumes ok: "closure_lib_ok cl" and cf: "collision_free cl" and valid: "validate_intent cl i = Inr ()"
    and inv: "closure_inv cl [i] (walked cl i ps)"
    and p: "p \<notin> fst ` set ps" "ordinal p = length ps"
    and res: "1 < ordinal p \<Longrightarrow> cp_result (snd (last ps)) = ResultSucceeded"
    and lin: "p = PhaseCompleted \<Longrightarrow> cp_lineage_checksum (snd (last ps)) = cp_lineage_checksum x"
    and ev: "validate_phase_evidence p x = Inr ()"
  shows "closure_inv cl [i] (walked cl i (ps @ [(p, x)]))
    \<and> record_goal_closure_phase cl i p x (home_of cl [i] (walked cl i ps)) =
      (home_of cl [i] (walked cl i (ps @ [(p, x)])), Inr (Appended, phase_receipt cl i p x))"
proof -
  let ?rs = "walked cl i ps"
  have all: "of_closure (ci_closure_id i) ?rs = ?rs" by (auto simp: walked_def filter_id_conv)
  have last: "last ?rs = phase_receipt cl i (fst (last ps)) (snd (last ps))" if "ps \<noteq> []"
    using that by (simp add: walked_def last_map split_beta)
  have check: "check_phase cl i p x (home_of cl [i] ?rs) = Inr ()"
  proof (rule check_phase_next [OF ok inv record_intent_fresh(3) [OF ok valid] all [symmetric]])
    show "ordinal p = length ?rs" using p(2) by (simp add: walked_def)
    show "cr_result (last ?rs) = ResultSucceeded" if "1 < ordinal p"
    proof -
      from that p(2) have "ps \<noteq> []" by auto
      with last res [OF that] show ?thesis by simp
    qed
    show "cr_lineage_checksum (last ?rs) = cp_lineage_checksum x" if "p = PhaseCompleted"
    proof -
      from that p(2) have "ps \<noteq> []" by auto
      with last lin [OF that] show ?thesis by simp
    qed
  qed (rule ev)
  have free: "receipt_identity cl (ci_closure_id i) p \<notin> cr_event_key ` set ?rs"
    using p(1) by (auto simp: walked_def receipt_identity_inj [OF cf] image_iff)
  have "walked cl i (ps @ [(p, x)]) = ?rs @ [phase_receipt cl i p x]" by (simp add: walked_def)
  with closure_inv_phase [OF ok inv check free] record_phase_appends [OF ok inv check free]
  show ?thesis by simp
qed

section \<open>A concrete closure\<close>

instance GoalClosureTriggerV1 :: countable
  by countable_datatype

instance GoalClosureDispositionV1 :: countable
  by countable_datatype

instance GoalClosurePhaseV1 :: countable
  by countable_datatype

instance GoalClosureResultV1 :: countable
  by countable_datatype

definition authority_fields :: "GoalClosureAuthorityV1 \<Rightarrow> string \<times> string \<times> string \<times> string \<times> string" where
  "authority_fields a = (ca_lane_digest a, ca_concrete_session_key a, ca_virtual_session_id a,
     ca_backend_context_generation a, ca_source_thread_id a)"

definition intent_fields where
  "intent_fields i =
     ((ci_schema i, ci_event_key i, ci_closure_id i, ci_trigger i, ci_disposition i,
       authority_fields (ci_authority i)),
      (ci_authority_digest i, ci_goal_identity i, ci_goal_generation i,
       ci_expected_projection_checksum i, ci_caller_effect_identity i, ci_caller_effect_digest i,
       ci_reason i, ci_intent_checksum (i :: GoalClosureIntentV1)))"

definition receipt_fields where
  "receipt_fields r =
     ((cr_schema r, cr_event_key r, cr_receipt_id r, cr_closure_id r, cr_intent_checksum r,
       cr_authority_digest r, cr_target_digest r, cr_caller_effect_digest r),
      (cr_trigger r, cr_disposition r, cr_phase r, cr_result r, cr_projection_checksum r,
       cr_lineage_checksum r, cr_result_evidence_digest r, cr_phase_checksum r,
       cr_recorded_at_ms (r :: GoalClosureReceiptV1)))"

lemma inj_authority_fields: "authority_fields a = authority_fields b \<longleftrightarrow> a = b"
proof
  assume "authority_fields a = authority_fields b"
  then show "a = b" by (intro GoalClosureAuthorityV1.equality) (simp_all add: authority_fields_def)
qed simp

lemma inj_intent_fields: "inj intent_fields"
  by (intro injI GoalClosureIntentV1.equality) (simp_all add: intent_fields_def inj_authority_fields)

lemma inj_receipt_fields: "inj receipt_fields"
  by (intro injI GoalClosureReceiptV1.equality) (simp_all add: receipt_fields_def)

definition demo_cl :: closure_lib where
  "demo_cl = \<lparr>cl_json = number_json, cl_sha256 = (\<lambda>s. s),
     cl_intent = number_row intent_fields ci_event_key,
     cl_receipt = number_row receipt_fields cr_event_key\<rparr>"

lemma demo_cl_ok: "closure_lib_ok demo_cl"
  using serde_number [OF inj_intent_fields, of ci_event_key]
    serde_number [OF inj_receipt_fields, of cr_event_key]
  by (simp add: closure_lib_ok_def demo_cl_def number_row_def)

lemma demo_checksum_inj: "checksum_json demo_cl v = checksum_json demo_cl w \<longleftrightarrow> v = w"
  by (auto simp: checksum_json_def sha256_json_def demo_cl_def number_json_def number_enc_inj dest!: hex_encode_inj)

lemma demo_cl_collision_free: "collision_free demo_cl"
  by (simp add: collision_free_def demo_checksum_inj)

lemma demo_identity_inj:
  "receipt_identity demo_cl c p = receipt_identity demo_cl d q \<longleftrightarrow> c = d \<and> p = q"
  using receipt_identity_inj [OF demo_cl_collision_free] .

definition demo_authority :: GoalClosureAuthorityV1 where
  "demo_authority = \<lparr>ca_lane_digest = ''l'', ca_concrete_session_key = ''s'',
     ca_virtual_session_id = ''v'', ca_backend_context_generation = ''g'', ca_source_thread_id = ''t''\<rparr>"

definition demo_new :: "io_error + GoalClosureIntentV1" where
  "demo_new = goal_closure_intent_new demo_cl ChannelStop ClosureCanceled demo_authority ''goal''
     ''gen'' (Some ''p'') ''caller'' ''reason''"

definition demo_intent :: GoalClosureIntentV1 where
  "demo_intent = projr demo_new"

definition demo_input :: "GoalClosureResultV1 \<Rightarrow> GoalClosurePhaseInputV1" where
  "demo_input res = \<lparr>cp_result = res, cp_projection_checksum = Some ''p'',
     cp_lineage_checksum = Some ''x'', cp_result_evidence_digest = None, cp_recorded_at_ms = 1\<rparr>"

lemma demo_new_ok: "\<exists>i. demo_new = Inr i"
proof -
  have "\<not> is_blank ''l''" "\<not> is_blank ''s''" "\<not> is_blank ''v''" "\<not> is_blank ''g''" "\<not> is_blank ''t''"
    "\<not> is_blank ''goal''" "\<not> is_blank ''gen''" "\<not> is_blank ''p''" "\<not> is_blank ''caller''"
    "\<not> is_blank ''reason''"
    by (rule not_blank_graphic_ends; simp add: ascii_graphic_def)+
  then show ?thesis
    by (simp add: demo_new_def goal_closure_intent_new_def check_intent_def validate_authority_def
        validate_nonempty_def demo_authority_def Let_def)
qed

lemma validate_new:
  "goal_closure_intent_new cl t d a gi gg pr c r = Inr i \<Longrightarrow> validate_intent cl i = Inr ()"
  by (auto simp: validate_intent_def goal_closure_intent_new_def Let_def split: sum.splits)

lemma demo_intent_valid: "validate_intent demo_cl demo_intent = Inr ()"
  using demo_new_ok validate_new unfolding demo_intent_def demo_new_def by fastforce

lemma home_of_empty: "home_of cl [] [] = \<lparr>hm_closure_intents = [], hm_closure_receipts = []\<rparr>"
  by (simp add: home_of_def)

lemmas demo_intent_recorded = record_intent_fresh(1) [OF demo_cl_ok demo_intent_valid]
lemmas demo_durable = record_intent_fresh(3) [OF demo_cl_ok demo_intent_valid]

definition demo_receipts :: "(GoalClosurePhaseV1 \<times> GoalClosureResultV1) list \<Rightarrow> GoalClosureReceiptV1 list" where
  "demo_receipts ps = walked demo_cl demo_intent (map (\<lambda>(p, res). (p, demo_input res)) ps)"

lemma demo_step:
  assumes inv: "closure_inv demo_cl [demo_intent] (demo_receipts ps)"
    and reach: "closure_reachable demo_cl (home_of demo_cl [demo_intent] (demo_receipts ps))"
    and p: "p \<notin> fst ` set ps" "ordinal p = length ps"
    and "1 < ordinal p \<Longrightarrow> snd (last ps) = ResultSucceeded" and "p = PhaseCompleted \<Longrightarrow> ps \<noteq> []"
    and "validate_phase_evidence p (demo_input res) = Inr ()"
  shows "closure_inv demo_cl [demo_intent] (demo_receipts (ps @ [(p, res)]))
    \<and> closure_reachable demo_cl (home_of demo_cl [demo_intent] (demo_receipts (ps @ [(p, res)])))"
proof -
  let ?ps = "map (\<lambda>(p, res). (p, demo_input res)) ps"
  have last: "snd (last ?ps) = demo_input (snd (last ps))" if "ps \<noteq> []"
    using that by (simp add: last_map split_beta)
  have "1 < ordinal p \<Longrightarrow> cp_result (snd (last ?ps)) = ResultSucceeded"
    using last assms(5) p(2) by (cases "ps = []") (auto simp: demo_input_def)
  moreover have "p = PhaseCompleted \<Longrightarrow> cp_lineage_checksum (snd (last ?ps)) = cp_lineage_checksum (demo_input res)"
    using last assms(6) by (simp add: demo_input_def)
  moreover have "p \<notin> fst ` set ?ps" using p(1) by force
  ultimately have "closure_inv demo_cl [demo_intent] (demo_receipts (ps @ [(p, res)]))
      \<and> record_goal_closure_phase demo_cl demo_intent p (demo_input res) (home_of demo_cl [demo_intent] (demo_receipts ps))
        = (home_of demo_cl [demo_intent] (demo_receipts (ps @ [(p, res)])),
           Inr (Appended, phase_receipt demo_cl demo_intent p (demo_input res)))"
    using walk_step [OF demo_cl_ok demo_cl_collision_free demo_intent_valid inv [unfolded demo_receipts_def], of p "demo_input res"]
      p(2) assms(7) by (simp add: demo_receipts_def)
  then show ?thesis using closure_reachable.phase [OF reach, of demo_intent p "demo_input res"] by simp
qed

definition demo_phases :: "(GoalClosurePhaseV1 \<times> GoalClosureResultV1) list" where
  "demo_phases = [(IntentRecorded, ResultPending), (BackendResultRecorded, ResultSucceeded),
     (TerminalProjectionRecorded, ResultSucceeded), (LineageReconciled, ResultSucceeded),
     (PhaseCompleted, ResultSucceeded)]"

definition demo_closed :: closure_home where
  "demo_closed = home_of demo_cl [demo_intent] (demo_receipts demo_phases)"

lemma demo_closed_ok:
  "closure_inv demo_cl [demo_intent] (demo_receipts demo_phases) \<and> closure_reachable demo_cl demo_closed"
proof -
  note ev = validate_phase_evidence_def demo_input_def absent_or_empty_def
  have "closure_inv demo_cl [demo_intent] (demo_receipts [])
      \<and> closure_reachable demo_cl (home_of demo_cl [demo_intent] (demo_receipts []))"
    using closure_inv_intent [OF closure_inv_empty demo_intent_valid]
      closure_reachable.intent [OF closure_reachable.start, of demo_cl demo_intent] demo_intent_recorded
    by (simp add: demo_receipts_def home_of_empty)
  then have "closure_inv demo_cl [demo_intent] (demo_receipts ([] @ [(IntentRecorded, ResultPending)]))
      \<and> closure_reachable demo_cl (home_of demo_cl [demo_intent] (demo_receipts ([] @ [(IntentRecorded, ResultPending)])))"
    by (intro demo_step) (simp_all add: ev)
  from demo_step [OF conjunct1 [OF this] conjunct2 [OF this], of BackendResultRecorded ResultSucceeded]
  have 2: "closure_inv demo_cl [demo_intent] (demo_receipts (take 2 demo_phases))
      \<and> closure_reachable demo_cl (home_of demo_cl [demo_intent] (demo_receipts (take 2 demo_phases)))"
    by (simp add: ev demo_phases_def)
  from demo_step [OF conjunct1 [OF 2] conjunct2 [OF 2], of TerminalProjectionRecorded ResultSucceeded]
  have 3: "closure_inv demo_cl [demo_intent] (demo_receipts (take 3 demo_phases))
      \<and> closure_reachable demo_cl (home_of demo_cl [demo_intent] (demo_receipts (take 3 demo_phases)))"
    by (simp add: ev demo_phases_def)
  from demo_step [OF conjunct1 [OF 3] conjunct2 [OF 3], of LineageReconciled ResultSucceeded]
  have 4: "closure_inv demo_cl [demo_intent] (demo_receipts (take 4 demo_phases))
      \<and> closure_reachable demo_cl (home_of demo_cl [demo_intent] (demo_receipts (take 4 demo_phases)))"
    by (simp add: ev demo_phases_def)
  from demo_step [OF conjunct1 [OF 4] conjunct2 [OF 4], of PhaseCompleted ResultSucceeded]
  show ?thesis by (simp add: ev demo_phases_def demo_closed_def)
qed

section \<open>Properties\<close>

lemma receipt_chain_completed:
  assumes "receipt_chain rs" and "r \<in> set rs" and "cr_phase r = PhaseCompleted"
  obtains a b c d e where "rs = [a, b, c, d, e]"
proof -
  from assms(2) obtain k where k: "k < length rs" "rs ! k = r" by (auto simp: in_set_conv_nth)
  with assms(1) have "ordinal (cr_phase r) = k"
    by (metis (no_types, lifting) add_0 nth_map nth_upt receipt_chain_def)
  with assms(3) k receipt_chain_length [OF assms(1)] have "length rs = 5" by simp
  then show ?thesis using that by (auto simp: length_Suc_conv numeral_eq_Suc)
qed

lemma ordinal_inj: "ordinal p = ordinal q \<longleftrightarrow> p = q"
  by (cases p; cases q) auto

lemma ordinal_eqD:
  "ordinal p = 0 \<Longrightarrow> p = IntentRecorded" "ordinal p = Suc 0 \<Longrightarrow> p = BackendResultRecorded"
  "ordinal p = 2 \<Longrightarrow> p = TerminalProjectionRecorded" "ordinal p = 3 \<Longrightarrow> p = LineageReconciled"
  "ordinal p = 4 \<Longrightarrow> p = PhaseCompleted"
  by (cases p; simp)+

lemma valid_receipt_evidence:
  assumes "validate_receipt cl r = Inr ()"
  shows "result_valid_for_phase (cr_phase r) (cr_result r)"
    and "cr_phase r = TerminalProjectionRecorded \<Longrightarrow> \<exists>v. v \<noteq> [] \<and> cr_projection_checksum r = Some v"
    and "cr_phase r \<in> {LineageReconciled, PhaseCompleted} \<Longrightarrow> \<exists>v. v \<noteq> [] \<and> cr_lineage_checksum r = Some v"
  using assms
  by (auto simp: validate_receipt_def validate_phase_evidence_def absent_or_empty_def
      split: if_splits option.splits)

lemma completed_chain_shape:
  assumes chain: "receipt_chain rs" and valid: "\<And>r. r \<in> set rs \<Longrightarrow> validate_receipt cl r = Inr ()"
    and r: "r \<in> set rs" "completed_receipt r"
  shows "map cr_phase rs = [IntentRecorded, BackendResultRecorded, TerminalProjectionRecorded,
           LineageReconciled, PhaseCompleted]
    \<and> map cr_result rs = [ResultPending, ResultSucceeded, ResultSucceeded, ResultSucceeded, ResultSucceeded]
    \<and> (\<exists>v. v \<noteq> [] \<and> cr_projection_checksum (rs ! 2) = Some v)
    \<and> (\<exists>v. v \<noteq> [] \<and> cr_lineage_checksum (rs ! 3) = Some v \<and> cr_lineage_checksum (rs ! 4) = Some v)"
proof -
  from r(2) have "cr_phase r = PhaseCompleted" by (simp add: completed_receipt_def)
  then obtain a b c d e where abcde: "rs = [a, b, c, d, e]"
    by (rule receipt_chain_completed [OF chain r(1)])
  have phases: "cr_phase a = IntentRecorded" "cr_phase b = BackendResultRecorded"
    "cr_phase c = TerminalProjectionRecorded" "cr_phase d = LineageReconciled" "cr_phase e = PhaseCompleted"
    using chain abcde by (auto simp: receipt_chain_def upt_rec numeral_eq_Suc intro!: ordinal_eqD)
  have link: "receipt_link b c" "receipt_link d e"
    using chain abcde by (auto simp: receipt_chain_def)
  have v: "validate_receipt cl a = Inr ()" "validate_receipt cl b = Inr ()"
    "validate_receipt cl c = Inr ()" "validate_receipt cl d = Inr ()" "validate_receipt cl e = Inr ()"
    using valid abcde by auto
  have "cr_result a = ResultPending" "cr_result b = ResultSucceeded" "cr_result c = ResultSucceeded"
    "cr_result d = ResultSucceeded" "cr_result e = ResultSucceeded"
    using valid_receipt_evidence(1) [OF v(1)] valid_receipt_evidence(1) [OF v(3)]
      valid_receipt_evidence(1) [OF v(4)] valid_receipt_evidence(1) [OF v(5)] link(1) phases
    by (simp_all add: receipt_link_def)
  moreover have "\<exists>x. x \<noteq> [] \<and> cr_lineage_checksum d = Some x \<and> cr_lineage_checksum e = Some x"
    using valid_receipt_evidence(3) [OF v(4)] link(2) phases by (auto simp: receipt_link_def)
  ultimately show ?thesis
    using phases abcde valid_receipt_evidence(2) [OF v(3)] by simp
qed

lemma chain_single_intent:
  assumes inv: "closure_inv cl is rows" and "r \<in> set (of_closure cid rows)"
  shows "\<exists>i \<in> set is. ci_closure_id i = cid
    \<and> (\<forall>r \<in> set (of_closure cid rows). cr_intent_checksum r = ci_intent_checksum i)"
proof -
  have intent: "\<exists>i \<in> set is. ci_closure_id i = cid \<and> ci_intent_checksum i = cr_intent_checksum r"
    if "r \<in> set (of_closure cid rows)" for r using inv that by (auto simp: closure_inv_def)
  have "i = j" if "i \<in> set is" "j \<in> set is" "ci_closure_id i = cid" "ci_closure_id j = cid" for i j
    using inv that validate_intent_key [of cl i] validate_intent_key [of cl j]
    by (metis (no_types, lifting) closure_inv_def distinct_map inj_onD)
  with intent intent [OF assms(2)] show ?thesis by metis
qed

text \<open>
  C4. A closure counts as completed only on an unbroken chain: whenever, in a home reached by
  recording any intents and phases in any order, the receipts of a closure include a successful
  completion, they are exactly the five phases in causal order, each after the first successful,
  with a terminal projection, with one lineage checksum that completion retains, and with the
  checksum of one intent that is durable in the intent ledger.
\<close>

theorem closure_completed_chain:
  assumes ok: "closure_lib_ok cl" and reach: "closure_reachable cl h"
    and read: "goal_closure_receipts_for_id cl cid h = Inr rs"
    and r: "r \<in> set rs" "completed_receipt r"
  shows "map cr_phase rs = [IntentRecorded, BackendResultRecorded, TerminalProjectionRecorded,
           LineageReconciled, PhaseCompleted]
    \<and> map cr_result rs = [ResultPending, ResultSucceeded, ResultSucceeded, ResultSucceeded, ResultSucceeded]
    \<and> (\<exists>v. v \<noteq> [] \<and> cr_projection_checksum (rs ! 2) = Some v)
    \<and> (\<exists>v. v \<noteq> [] \<and> cr_lineage_checksum (rs ! 3) = Some v \<and> cr_lineage_checksum (rs ! 4) = Some v)
    \<and> (\<exists>intents i. read_jsonl (cl_json cl) (cl_intent cl) (hm_closure_intents h) = Inr intents
         \<and> i \<in> set intents \<and> ci_closure_id i = cid \<and> (\<forall>r \<in> set rs. cr_intent_checksum r = ci_intent_checksum i))"
proof -
  from closure_reachable_inv [OF ok reach] obtain intents rows where
    h: "h = home_of cl intents rows" and inv: "closure_inv cl intents rows" by blast
  with read have rs: "rs = of_closure cid rows" by (simp add: receipts_for_id_home [OF ok])
  have chain: "receipt_chain rs" using inv rs by (simp add: closure_inv_def)
  have valid: "\<And>r. r \<in> set rs \<Longrightarrow> validate_receipt cl r = Inr ()"
    using inv rs by (auto simp: closure_inv_def)
  have "read_jsonl (cl_json cl) (cl_intent cl) (hm_closure_intents h) = Inr intents"
    using ok by (simp add: h closure_lib_ok_def read_jsonl_ledger)
  moreover obtain i where "i \<in> set intents" "ci_closure_id i = cid"
    "\<forall>r \<in> set rs. cr_intent_checksum r = ci_intent_checksum i"
    using chain_single_intent [OF inv, of r cid] r(1) rs by blast
  ultimately show ?thesis using completed_chain_shape [OF chain valid r] by blast
qed

lemma demo_closed_receipts:
  "goal_closure_receipts_for_id demo_cl (ci_closure_id demo_intent) demo_closed
     = Inr (demo_receipts demo_phases)"
  using receipts_for_id_home [OF demo_cl_ok conjunct1 [OF demo_closed_ok]]
  by (simp add: demo_closed_def) (simp add: demo_receipts_def demo_phases_def)

theorem closure_completed_chain_witness:
  "\<exists>rs r. goal_closure_receipts_for_id demo_cl (ci_closure_id demo_intent) demo_closed = Inr rs
     \<and> r \<in> set rs \<and> completed_receipt r
     \<and> map cr_result rs = [ResultPending, ResultSucceeded, ResultSucceeded, ResultSucceeded, ResultSucceeded]"
proof -
  let ?rs = "demo_receipts demo_phases" and ?r = "phase_receipt demo_cl demo_intent PhaseCompleted (demo_input ResultSucceeded)"
  have r: "?r \<in> set ?rs" by (simp add: demo_receipts_def demo_phases_def)
  have c: "completed_receipt ?r" by (simp add: completed_receipt_def demo_input_def)
  from closure_completed_chain [OF demo_cl_ok conjunct2 [OF demo_closed_ok] demo_closed_receipts r c]
  show ?thesis using demo_closed_receipts r c
    by (intro exI [of _ ?rs] exI [of _ ?r]) simp
qed

text \<open>
  C27. A closure can always go on: in every home reached by recording intents and phases, the
  receipts of each closure can be read back (at most five, phases contiguous from the first), and
  for a durable intent the next phase, with evidence valid for it, after a successful one, is
  appended at the end of them, unless two different receipts collide in SHA-256.
\<close>

theorem closure_phase_advances:
  assumes ok: "closure_lib_ok cl" and reach: "closure_reachable cl h"
  shows "\<exists>recs. goal_closure_receipts_for_id cl (ci_closure_id i) h = Inr recs \<and> length recs \<le> 5
    \<and> map (\<lambda>r. ordinal (cr_phase r)) recs = [0..<length recs]
    \<and> (check_durable_intent cl i h = Inr () \<and> ordinal p = length recs
        \<and> validate_phase_evidence p input = Inr ()
        \<and> (1 < ordinal p \<longrightarrow> cr_result (last recs) = ResultSucceeded)
        \<and> (p = PhaseCompleted \<longrightarrow> cr_lineage_checksum (last recs) = cp_lineage_checksum input)
        \<and> (\<forall>c q. receipt_identity cl c q = receipt_identity cl (ci_closure_id i) p \<longrightarrow>
             c = ci_closure_id i \<and> q = p)
       \<longrightarrow> (\<exists>h' r. record_goal_closure_phase cl i p input h = (h', Inr (Appended, r))
             \<and> goal_closure_receipts_for_id cl (ci_closure_id i) h' = Inr (recs @ [r])
             \<and> cr_phase r = p \<and> cr_result r = cp_result input))"
proof -
  from closure_reachable_inv [OF ok reach] obtain intents rows where
    h: "h = home_of cl intents rows" and inv: "closure_inv cl intents rows" by blast
  let ?recs = "of_closure (ci_closure_id i) rows" and ?r = "phase_receipt cl i p input"
  have chain: "receipt_chain ?recs" using inv by (simp add: closure_inv_def)
  have "record_goal_closure_phase cl i p input h = (home_of cl intents (rows @ [?r]), Inr (Appended, ?r))
      \<and> goal_closure_receipts_for_id cl (ci_closure_id i) (home_of cl intents (rows @ [?r])) = Inr (?recs @ [?r])"
    if d: "check_durable_intent cl i h = Inr ()" and p: "ordinal p = length ?recs"
      and e: "validate_phase_evidence p input = Inr ()"
      and l: "1 < ordinal p \<longrightarrow> cr_result (last ?recs) = ResultSucceeded"
        "p = PhaseCompleted \<longrightarrow> cr_lineage_checksum (last ?recs) = cp_lineage_checksum input"
      and c: "\<forall>c q. receipt_identity cl c q = receipt_identity cl (ci_closure_id i) p \<longrightarrow>
             c = ci_closure_id i \<and> q = p"
  proof -
    have check: "check_phase cl i p input (home_of cl intents rows) = Inr ()"
      using check_phase_next [OF ok inv d [unfolded h] refl p _ _ e] l by blast
    have "receipt_identity cl (ci_closure_id i) p \<notin> cr_event_key ` set rows"
    proof
      assume "receipt_identity cl (ci_closure_id i) p \<in> cr_event_key ` set rows"
      then obtain r where r: "r \<in> set rows" "cr_event_key r = receipt_identity cl (ci_closure_id i) p" by auto
      with inv validate_receipt_key [of cl r] c have "r \<in> set ?recs" "cr_phase r = p"
        by (auto simp: closure_inv_def)
      then have "length ?recs \<in> set (map (\<lambda>r. ordinal (cr_phase r)) ?recs)" using p by force
      with chain show False by (simp add: receipt_chain_def)
    qed
    from record_phase_appends [OF ok inv check this] closure_inv_phase [OF ok inv check this]
    show ?thesis by (simp add: h receipts_for_id_home [OF ok])
  qed
  with receipt_chain_length [OF chain] chain show ?thesis
    by (intro exI [of _ ?recs]) (auto simp: h receipts_for_id_home [OF ok inv] receipt_chain_def)
qed

theorem closure_phase_advances_witness:
  "\<exists>h' r. record_goal_closure_phase demo_cl demo_intent IntentRecorded (demo_input ResultPending)
      (home_of demo_cl [demo_intent] []) = (h', Inr (Appended, r)) \<and> cr_phase r = IntentRecorded"
proof -
  have "closure_reachable demo_cl (home_of demo_cl [demo_intent] [])"
    using closure_reachable.intent [OF closure_reachable.start, of demo_cl demo_intent] demo_intent_recorded
    by (simp add: home_of_empty)
  from closure_phase_advances [OF demo_cl_ok this, of demo_intent IntentRecorded "demo_input ResultPending"]
  show ?thesis
    using demo_durable [of "[]"]
      receipts_for_id_home [OF demo_cl_ok closure_inv_intent [OF closure_inv_empty demo_intent_valid]]
    by (auto simp: demo_identity_inj validate_phase_evidence_def demo_input_def)
qed

text \<open>
  A target is resolved exactly when it is beyond doubt: the intent validates, exactly one
  candidate is active, it agrees with the intent on authority, goal and generation, is the
  original binding and the latest authoritative projection and lineage, and carries the projection
  checksum the intent expected. The resolved target then names the goal of the intent.
\<close>

theorem resolve_goal_closure_target_exact:
  "(cs_disposition (resolve_goal_closure_target cl i cs) = TargetExact \<longleftrightarrow>
      validate_intent cl i = Inr ()
      \<and> (\<exists>c. filter cc_active cs = [c] \<and> exact_candidate i c
            \<and> ci_expected_projection_checksum i = Some (cc_projection_checksum c)))
   \<and> cs_target (resolve_goal_closure_target cl i cs) =
       (if cs_disposition (resolve_goal_closure_target cl i cs) = TargetExact
        then Some \<lparr>ct_authority = ci_authority i, ct_goal_identity = ci_goal_identity i,
          ct_goal_generation = ci_goal_generation i,
          ct_projection_checksum = the (ci_expected_projection_checksum i)\<rparr>
        else None)"
proof (cases "validate_intent cl i")
  case (Inl e)
  then show ?thesis by (simp add: resolve_goal_closure_target_def resolution_base_def)
next
  case (Inr u)
  then have some: "\<exists>x. ci_expected_projection_checksum i = Some x"
    by (auto simp: validate_intent_def goal_closure_intent_new_def check_intent_def first_error_Inr
        split: sum.splits if_splits option.splits)
  show ?thesis
  proof (cases "\<exists>c. filter cc_active cs = [c]")
    case True
    then obtain c where "filter cc_active cs = [c]" by blast
    with Inr some show ?thesis
      by (auto simp: resolve_goal_closure_target_def resolution_base_def Let_def exact_candidate_def)
  next
    case False
    then have "length (filter cc_active cs) \<noteq> 1" by (auto simp: length_Suc_conv)
    then have "filter cc_active cs = [] \<or> 1 < length (filter (exact_candidate i) (filter cc_active cs))
        \<or> filter (exact_candidate i) (filter cc_active cs) = []
        \<or> length (filter cc_active cs) \<noteq> length (filter (exact_candidate i) (filter cc_active cs))"
      by (metis One_nat_def Suc_lessI length_greater_0_conv)
    with False Inr show ?thesis
      unfolding resolve_goal_closure_target_def resolution_base_def Let_def by auto
  qed
qed

end
