(* ===== verification/Session_Transition_Props.thy ===== *)
theory Session_Transition_Props
  imports Session_Transition Goal_Closure_Claims
begin

text \<open>
  Session transitions as a state machine over the home of the harness: the homes that any sequence
  of operations reaches, of this component and of the closure protocol, with the observations of
  backend threads changing in any way. Every operation keeps the invariant \<open>channel_inv\<close> and only
  adds rows; the contract of such operations is the locale \<open>ledger_steps\<close>.
\<close>

section \<open>Operations that only add rows\<close>

text \<open>
  A state \<open>rep c w l\<close> holds the rows \<open>w\<close>; a step keeps the invariant of the rows and adds rows, with
  an effect on the keys it touches at most. Then so does every sequence of steps.
\<close>

locale ledger_steps =
  fixes okc :: "'c \<Rightarrow> bool"
    and rep :: "'c \<Rightarrow> 'w \<Rightarrow> 'l \<Rightarrow> 's"
    and inv_rows :: "'c \<Rightarrow> 'w \<Rightarrow> bool"
    and grow :: "'k set \<Rightarrow> 'w \<Rightarrow> 'w \<Rightarrow> bool"
    and step :: "'c \<Rightarrow> 'o \<Rightarrow> 's \<Rightarrow> 's"
    and touches :: "'o \<Rightarrow> 'k set"
  assumes grow_refl: "grow K w w"
    and grow_trans: "grow K w w' \<Longrightarrow> grow K w' w'' \<Longrightarrow> grow K w w''"
    and grow_mono: "grow K w w' \<Longrightarrow> K \<subseteq> K' \<Longrightarrow> grow K' w w'"
    and step: "okc c \<Longrightarrow> inv_rows c w \<Longrightarrow>
      \<exists>w' l'. step c x (rep c w l) = rep c w' l' \<and> inv_rows c w' \<and> grow (touches x) w w'"
begin

lemma run_steps:
  assumes "okc c" and "inv_rows c w"
  shows "\<exists>w' l'. fold (step c) xs (rep c w l) = rep c w' l' \<and> inv_rows c w' \<and> grow (\<Union> (touches ` set xs)) w w'"
  using assms(2)
proof (induction xs arbitrary: w l)
  case Nil
  then show ?case using grow_refl by auto
next
  case (Cons x xs)
  from step [OF assms(1) Cons.prems] obtain w1 l1 where
    w1: "step c x (rep c w l) = rep c w1 l1" "inv_rows c w1" "grow (touches x) w w1" by blast
  from Cons.IH [OF w1(2)] obtain w2 l2 where
    w2: "fold (step c) xs (rep c w1 l1) = rep c w2 l2" "inv_rows c w2" "grow (\<Union> (touches ` set xs)) w1 w2" by blast
  let ?K = "\<Union> (touches ` set (x # xs))"
  have "grow ?K w w1" "grow ?K w1 w2" by (auto intro: grow_mono [OF w1(3)] grow_mono [OF w2(3)])
  then show ?case using w1(1) w2(1,2) grow_trans by (intro exI [of _ w2]) auto
qed

end

section \<open>What is relied on\<close>

definition transition_lib_ok :: "transition_lib \<Rightarrow> bool" where
  "transition_lib_ok lib \<longleftrightarrow> closure_lib_ok (tl_closure lib)
     \<and> serde_ok (cl_json (tl_closure lib)) (tl_intent lib) \<and> sc_event_key (tl_intent lib) = ti_event_key
     \<and> serde_ok (cl_json (tl_closure lib)) (tl_receipt lib) \<and> sc_event_key (tl_receipt lib) = tr_event_key"

section \<open>Operations\<close>

datatype channel_op =
    PrepareOp PrepareChannelSessionTransitionOptionsV1
  | RecordOp ChannelSessionTransitionIntentV1 ChannelSessionTransitionPhaseV1 string int
  | ClosureIntentOp GoalClosureIntentV1
  | ClosurePhaseOp GoalClosureIntentV1 GoalClosurePhaseV1 GoalClosurePhaseInputV1
  | ObserveOp lineage_home

fun run_op :: "transition_lib \<Rightarrow> channel_op \<Rightarrow> channel_home \<Rightarrow> channel_home" where
  "run_op lib (PrepareOp o') h = fst (prepare_channel_session_transition lib o' h)"
| "run_op lib (RecordOp i phase evidence now) h =
     fst (record_channel_session_transition_phase lib i phase evidence now h)"
| "run_op lib (ClosureIntentOp i) h =
     h\<lparr>ch_closure := fst (record_goal_closure_intent (tl_closure lib) i (ch_closure h))\<rparr>"
| "run_op lib (ClosurePhaseOp i p input) h =
     h\<lparr>ch_closure := fst (record_goal_closure_phase (tl_closure lib) i p input (ch_closure h))\<rparr>"
| "run_op lib (ObserveOp l) h = h\<lparr>ch_lineage := l\<rparr>"

definition channel_run :: "transition_lib \<Rightarrow> channel_op list \<Rightarrow> channel_home \<Rightarrow> channel_home" where
  "channel_run lib ops = fold (run_op lib) ops"

definition empty_channel :: "lineage_home \<Rightarrow> channel_home" where
  "empty_channel l = \<lparr>ch_closure = \<lparr>hm_closure_intents = [], hm_closure_receipts = []\<rparr>, ch_lineage = l,
     ch_intents = [], ch_receipts = []\<rparr>"

fun commits :: "channel_op \<Rightarrow> string set" where
  "commits (RecordOp i phase evidence now) = (if phase = BoundaryCommitted then {ti_transition_id i} else {})"
| "commits _ = {}"

section \<open>The invariant\<close>

record channel_rows =
  w_intents :: "GoalClosureIntentV1 list"
  w_receipts :: "GoalClosureReceiptV1 list"
  w_transitions :: "ChannelSessionTransitionIntentV1 list"
  w_marks :: "ChannelSessionTransitionReceiptV1 list"

definition channel_of :: "transition_lib \<Rightarrow> channel_rows \<Rightarrow> lineage_home \<Rightarrow> channel_home" where
  "channel_of lib w l =
     \<lparr>ch_closure = home_of (tl_closure lib) (w_intents w) (w_receipts w), ch_lineage = l,
      ch_intents = ledger_text (cl_json (tl_closure lib)) (tl_intent lib) (w_transitions w),
      ch_receipts = ledger_text (cl_json (tl_closure lib)) (tl_receipt lib) (w_marks w)\<rparr>"

definition authority_of :: "string \<Rightarrow> string \<Rightarrow> GoalClosureIntentV1 \<Rightarrow> bool" where
  "authority_of lane session i \<longleftrightarrow>
     ca_lane_digest (ci_authority i) = lane \<and> ca_concrete_session_key (ci_authority i) = session"

definition boundary_linked :: "transition_lib \<Rightarrow> channel_rows \<Rightarrow> string \<Rightarrow> string \<Rightarrow> ChannelGoalBoundaryV1
    \<Rightarrow> string option \<Rightarrow> bool" where
  "boundary_linked lib w lane session boundary closure_id \<longleftrightarrow>
     (case closure_id of
        None \<Rightarrow> boundary \<in> {BoundaryNotApplicable, BoundaryAmbiguous}
      | Some cid \<Rightarrow> boundary \<in> {ClosureProven, ClosurePending}
          \<and> (\<exists>i \<in> set (w_intents w). ci_closure_id i = cid
               \<and> (collision_free (tl_closure lib) \<longrightarrow> authority_of lane session i))
          \<and> (boundary = ClosureProven \<longrightarrow> (\<exists>r \<in> set (w_receipts w). cr_closure_id r = cid \<and> completed_receipt r)))"

definition mark_key :: "transition_lib \<Rightarrow> string \<Rightarrow> ChannelSessionTransitionPhaseV1 \<Rightarrow> string \<Rightarrow> string" where
  "mark_key lib tid p d = transition_checksum lib (JsonArray
     [JsonString tid, transition_phase_json p, JsonString d])"

definition channel_inv :: "transition_lib \<Rightarrow> channel_rows \<Rightarrow> bool" where
  "channel_inv lib w \<longleftrightarrow> closure_inv (tl_closure lib) (w_intents w) (w_receipts w)
     \<and> distinct (map ti_event_key (w_transitions w)) \<and> distinct (map tr_event_key (w_marks w))
     \<and> (\<forall>u \<in> set (w_marks w). tr_event_key u = mark_key lib (tr_transition_id u) (tr_phase u) (tr_evidence_digest u))
     \<and> (\<forall>t \<in> set (w_transitions w). validate_transition_intent lib t = Inr ()
          \<and> boundary_linked lib w (ti_lane_digest t) (ti_old_session_key t) (ti_goal_boundary t) (ti_goal_closure_id t))"

text \<open>Rows are only added, and a commit is added only for the transitions in \<open>C\<close>.\<close>

definition grows :: "string set \<Rightarrow> channel_rows \<Rightarrow> channel_rows \<Rightarrow> bool" where
  "grows C w w' \<longleftrightarrow> set (w_intents w) \<subseteq> set (w_intents w') \<and> set (w_receipts w) \<subseteq> set (w_receipts w')
     \<and> set (w_transitions w) \<subseteq> set (w_transitions w') \<and> set (w_marks w) \<subseteq> set (w_marks w')
     \<and> (\<forall>u \<in> set (w_marks w') - set (w_marks w). tr_phase u = BoundaryCommitted \<longrightarrow> tr_transition_id u \<in> C)"

lemma grows_refl [simp]: "grows C w w"
  by (simp add: grows_def)

lemma grows_trans: "grows C w w' \<Longrightarrow> grows C w' w'' \<Longrightarrow> grows C w w''"
  unfolding grows_def by (meson DiffI DiffE subset_trans)

lemma grows_mono: "grows C w w' \<Longrightarrow> C \<subseteq> D \<Longrightarrow> grows D w w'"
  by (auto simp: grows_def)

lemma boundary_linked_grows: "boundary_linked lib w l s b c \<Longrightarrow> grows C w w' \<Longrightarrow> boundary_linked lib w' l s b c"
  unfolding boundary_linked_def grows_def by (fastforce split: option.splits)

lemma channel_of_sel [simp]:
  "ch_closure (channel_of lib w l) = home_of (tl_closure lib) (w_intents w) (w_receipts w)"
  "ch_lineage (channel_of lib w l) = l"
  "ch_intents (channel_of lib w l) = ledger_text (cl_json (tl_closure lib)) (tl_intent lib) (w_transitions w)"
  "ch_receipts (channel_of lib w l) = ledger_text (cl_json (tl_closure lib)) (tl_receipt lib) (w_marks w)"
  by (simp_all add: channel_of_def)

lemma channel_of_upd [simp]:
  "(channel_of lib w l)\<lparr>ch_closure := home_of (tl_closure lib) is rs\<rparr>
     = channel_of lib (w\<lparr>w_intents := is, w_receipts := rs\<rparr>) l"
  "(channel_of lib w l)\<lparr>ch_intents := ledger_text (cl_json (tl_closure lib)) (tl_intent lib) ts\<rparr>
     = channel_of lib (w\<lparr>w_transitions := ts\<rparr>) l"
  "(channel_of lib w l)\<lparr>ch_receipts := ledger_text (cl_json (tl_closure lib)) (tl_receipt lib) us\<rparr>
     = channel_of lib (w\<lparr>w_marks := us\<rparr>) l"
  "(channel_of lib w l)\<lparr>ch_lineage := l'\<rparr> = channel_of lib w l'"
  by (simp_all add: channel_of_def)

lemma lib_okD:
  assumes "transition_lib_ok lib"
  shows "closure_lib_ok (tl_closure lib)"
    "serde_ok (cl_json (tl_closure lib)) (tl_intent lib)" "sc_event_key (tl_intent lib) = ti_event_key"
    "serde_ok (cl_json (tl_closure lib)) (tl_receipt lib)" "sc_event_key (tl_receipt lib) = tr_event_key"
  using assms by (auto simp: transition_lib_ok_def)

lemma read_channel:
  assumes "transition_lib_ok lib"
  shows "read_intents lib (channel_of lib w l) = Inr (w_transitions w)"
    "read_receipts lib (channel_of lib w l) = Inr (w_marks w)"
  using lib_okD [OF assms] by (simp_all add: read_intents_def read_receipts_def read_jsonl_ledger)

section \<open>The closure ledgers\<close>

lemma channel_inv_closure:
  assumes "channel_inv lib w" and "closure_inv (tl_closure lib) is rs"
    and "set (w_intents w) \<subseteq> set is" "set (w_receipts w) \<subseteq> set rs"
  shows "channel_inv lib (w\<lparr>w_intents := is, w_receipts := rs\<rparr>) \<and> grows {} w (w\<lparr>w_intents := is, w_receipts := rs\<rparr>)"
proof -
  let ?w = "w\<lparr>w_intents := is, w_receipts := rs\<rparr>"
  have g: "grows {} w ?w" using assms(3,4) by (simp add: grows_def)
  have "boundary_linked lib ?w (ti_lane_digest t) (ti_old_session_key t) (ti_goal_boundary t) (ti_goal_closure_id t)"
    if "t \<in> set (w_transitions w)" for t
    using assms(1) that boundary_linked_grows [OF _ g] by (simp add: channel_inv_def)
  with assms(1,2) g show ?thesis by (simp add: channel_inv_def)
qed

lemma terminal_intents_subset: "terminal_intents cl h xs = Inr ts \<Longrightarrow> set ts \<subseteq> set xs"
  by (induction xs arbitrary: ts) (auto split: sum.splits if_splits)

lemma same_closure_authority:
  assumes "collision_free cl" and "validate_intent cl i = Inr ()" "validate_intent cl j = Inr ()"
    and "ci_closure_id i = ci_closure_id j"
  shows "ci_authority i = ci_authority j"
proof -
  have id: "ci_closure_id i = checksum_json cl (closure_identity_payload (ci_authority i) (ci_goal_identity i)
      (ci_goal_generation i) (ci_disposition i) (ci_caller_effect_identity i))"
    if "validate_intent cl i = Inr ()" for i
    using that by (auto simp: validate_intent_def goal_closure_intent_new_def Let_def split: sum.splits if_splits)
  from assms(1,4) id [OF assms(2)] id [OF assms(3)] show ?thesis
    unfolding collision_free_def
    by (intro GoalClosureAuthorityV1.equality) (fastforce simp: closure_identity_payload_def)+
qed

lemma record_intent_outcome:
  assumes ok: "closure_lib_ok cl" and inv: "closure_inv cl is rs"
    and rec: "record_goal_closure_intent cl i (home_of cl is rs) = (h', Inr (d, stored))"
  obtains is' where "h' = home_of cl is' rs" and "closure_inv cl is' rs" and "set is \<subseteq> set is'"
    and "stored \<in> set is'" and "collision_free cl \<longrightarrow> ci_authority stored = ci_authority i"
proof -
  from record_intent_home [OF ok inv, of i] obtain is' where is': "h' = home_of cl is' rs" "closure_inv cl is' rs"
    "is' = is \<or> is' = is @ [i]" using rec by (metis fst_conv)
  have s: "serde_ok (cl_json cl) (cl_intent cl)" "sc_event_key (cl_intent cl) = ci_event_key"
    using ok by (auto simp: closure_lib_ok_def)
  have valid: "validate_intent cl i = Inr ()"
    using rec by (auto simp: record_goal_closure_intent_def split: sum.splits)
  obtain ts where ts: "terminal_intents cl (home_of cl is rs) (filter (\<lambda>x. same_goal_generation x i) is) = Inr ts"
    using rec s(1) valid by (auto simp: record_goal_closure_intent_def read_jsonl_ledger split: sum.splits)
  note sub = terminal_intents_subset [OF ts]
  have "stored \<in> set is' \<and> (collision_free cl \<longrightarrow> ci_authority stored = ci_authority i)"
  proof (cases ts)
    case Nil
    then have app: "append_goal_closure_intent cl i (home_of cl is rs) = (h', Inr (d, stored))"
      using rec valid ts s(1) by (simp add: record_goal_closure_intent_def read_jsonl_ledger)
    then obtain t where "h' = (home_of cl is rs)\<lparr>hm_closure_intents := t\<rparr>"
      "find_one_by_event_key (cl_json cl) (cl_intent cl) (ci_event_key i) t = Inr (Some stored)"
      by (auto simp: append_goal_closure_intent_def split: prod.splits sum.splits option.splits if_splits)
    with is'(1,2) s have "find (\<lambda>x. ci_event_key x = ci_event_key i) is' = Some stored"
      using find_one_ledger [OF s(1), of is' "ci_event_key i"] by (simp add: home_of_def closure_inv_def)
    then have st: "stored \<in> set is'" "ci_event_key stored = ci_event_key i" by (auto dest: find_SomeD)
    moreover have "validate_intent cl stored = Inr ()" using st(1) is'(2) by (simp add: closure_inv_def)
    ultimately show ?thesis using same_closure_authority valid validate_intent_key by metis
  next
    case (Cons x xs)
    then have "stored = x"
      using rec valid ts s(1) is'(2)
      by (auto simp: record_goal_closure_intent_def read_jsonl_ledger split: list.splits sum.splits)
    with Cons sub is'(3) show ?thesis by (auto simp: same_goal_generation_def)
  qed
  moreover have "set is \<subseteq> set is'" using is'(3) by auto
  ultimately show ?thesis using is'(1,2) that [of is'] by blast
qed

section \<open>Phases\<close>

lemma channel_inv_marks:
  "channel_inv lib w \<Longrightarrow> distinct (map tr_event_key us) \<Longrightarrow>
   (\<And>u. u \<in> set us \<Longrightarrow> tr_event_key u = mark_key lib (tr_transition_id u) (tr_phase u) (tr_evidence_digest u)) \<Longrightarrow>
   channel_inv lib (w\<lparr>w_marks := us\<rparr>)"
  by (auto simp: channel_inv_def boundary_linked_def split: option.splits)

lemma transition_receipt_sel [simp]:
  "tr_transition_id (transition_receipt lib i p b e now) = ti_transition_id i"
  "tr_phase (transition_receipt lib i p b e now) = p"
  "tr_goal_boundary (transition_receipt lib i p b e now) = b"
  "tr_evidence_digest (transition_receipt lib i p b e now) = transition_checksum lib (JsonString e)"
  "tr_event_key (transition_receipt lib i p b e now)
     = mark_key lib (ti_transition_id i) p (transition_checksum lib (JsonString e))"
  by (simp_all add: transition_receipt_def mark_key_def Let_def)

lemma record_transition_phase_channel:
  assumes ok: "transition_lib_ok lib" and inv: "channel_inv lib w"
  obtains w' where "fst (record_channel_session_transition_phase lib i p e now (channel_of lib w l)) = channel_of lib w' l"
    and "channel_inv lib w'" and "grows (if p = BoundaryCommitted then {ti_transition_id i} else {}) w w'"
    and "w_transitions w' = w_transitions w" and "w_intents w' = w_intents w" and "w_receipts w' = w_receipts w"
    and "snd (record_channel_session_transition_phase lib i p e now (channel_of lib w l)) = Inr r \<Longrightarrow>
      \<exists>u \<in> set (w_marks w'). tr_event_key u = tr_event_key r"
proof (cases "\<exists>b. validate_transition_intent lib i = Inr () \<and> \<not> is_blank e
    \<and> receipt_boundary lib (channel_of lib w l) i p = Inr b")
  case False
  then have "record_channel_session_transition_phase lib i p e now (channel_of lib w l) =
      (channel_of lib w l, snd (record_channel_session_transition_phase lib i p e now (channel_of lib w l)))"
    "\<exists>x. snd (record_channel_session_transition_phase lib i p e now (channel_of lib w l)) = Inl x"
    by (auto simp: record_channel_session_transition_phase_def split: sum.splits)
  with inv show ?thesis by (intro that [of w]) auto
next
  case True
  then obtain b where b: "validate_transition_intent lib i = Inr ()" "\<not> is_blank e"
    "receipt_boundary lib (channel_of lib w l) i p = Inr b" by blast
  let ?r = "transition_receipt lib i p b e now"
  note s = lib_okD(4,5) [OF ok]
  have run: "record_channel_session_transition_phase lib i p e now (channel_of lib w l) =
      (case append_row_once (cl_json (tl_closure lib)) (tl_receipt lib) ?r
          (ledger_text (cl_json (tl_closure lib)) (tl_receipt lib) (w_marks w)) of
         (t, Inl x) \<Rightarrow> ((channel_of lib w l)\<lparr>ch_receipts := t\<rparr>, Inl x)
       | (t, Inr _) \<Rightarrow> ((channel_of lib w l)\<lparr>ch_receipts := t\<rparr>, Inr ?r))"
    using b by (simp add: record_channel_session_transition_phase_def Let_def)
  from s(1) show ?thesis
  proof (cases rule: append_row_once_cases [where r = ?r and rs = "w_marks w"])
    case refused
    with run inv show ?thesis by (intro that [of w]) (simp_all add: channel_of_def)
  next
    case (taken r')
    with run inv s(2) show ?thesis by (intro that [of w]) (auto simp: channel_of_def)
  next
    case added
    let ?w = "w\<lparr>w_marks := w_marks w @ [?r]\<rparr>"
    have "channel_inv lib ?w"
      using inv added(2) s(2) by (intro channel_inv_marks) (auto simp: channel_inv_def)
    with run added(1) show ?thesis
      by (intro that [of ?w]) (auto simp: grows_def)
  qed
qed

section \<open>Preparing\<close>

lemma close_goal_channel:
  assumes ok: "transition_lib_ok lib" and inv: "channel_inv lib w" and auth: "authority_of lane session i"
    and run: "close_goal lib i caller now (channel_of lib w l) = (h', res)"
  obtains w' where "h' = channel_of lib w' l" and "channel_inv lib w'" and "grows {} w w'"
    and "w_transitions w' = w_transitions w"
    and "\<And>a. res = Inr a \<Longrightarrow> boundary_linked lib w' lane session (ga_goal_boundary a) (ga_goal_closure_id a)"
proof -
  let ?cl = "tl_closure lib" and ?h = "home_of (tl_closure lib) (w_intents w) (w_receipts w)"
  have cinv: "closure_inv ?cl (w_intents w) (w_receipts w)" using inv by (simp add: channel_inv_def)
  note cok = lib_okD(1) [OF ok]
  obtain c r where rec: "record_goal_closure_intent ?cl i ?h = (c, r)" by fastforce
  show ?thesis
  proof (cases r)
    case (Inl e)
    from record_intent_home [OF cok cinv, of i] obtain is' where
      is': "c = home_of ?cl is' (w_receipts w)" "closure_inv ?cl is' (w_receipts w)" "set (w_intents w) \<subseteq> set is'"
      using rec by (metis fst_conv set_append Un_upper1 order_refl)
    with run rec Inl channel_inv_closure [OF inv is'(2,3)] show ?thesis
      by (intro that [of "w\<lparr>w_intents := is', w_receipts := w_receipts w\<rparr>"]) (auto simp: close_goal_def)
  next
    case (Inr p)
    obtain d stored where p: "p = (d, stored)" by fastforce
    from record_intent_outcome [OF cok cinv, of i c d stored] rec Inr p obtain is' where
      is': "c = home_of ?cl is' (w_receipts w)" "closure_inv ?cl is' (w_receipts w)" "set (w_intents w) \<subseteq> set is'"
      "stored \<in> set is'" "collision_free ?cl \<longrightarrow> ci_authority stored = ci_authority i" by metis
    let ?input = "closure_phase_evidence lib caller now"
    obtain rs' where rs': "fst (record_goal_closure_phase ?cl stored IntentRecorded ?input c) = home_of ?cl is' rs'"
      "closure_inv ?cl is' rs'" "set (w_receipts w) \<subseteq> set rs'"
      using record_phase_home [OF cok is'(2), of stored IntentRecorded ?input] is'(1)
      by (metis set_append Un_upper1 order_refl)
    obtain q where ph: "record_goal_closure_phase ?cl stored IntentRecorded ?input c = (home_of ?cl is' rs', q)"
      using rs'(1) by (metis prod.collapse)
    let ?w = "w\<lparr>w_intents := is', w_receipts := rs'\<rparr>"
    have h': "h' = channel_of lib ?w l" using run rec Inr p ph by (auto simp: close_goal_def split: sum.splits)
    have "boundary_linked lib ?w lane session (ga_goal_boundary a) (ga_goal_closure_id a)" if "res = Inr a" for a
    proof -
      have a: "a = \<lparr>ga_goal_boundary = (if list_ex completed_receipt (of_closure (ci_closure_id stored) rs')
            then ClosureProven else ClosurePending),
          ga_goal_closure_id = Some (ci_closure_id stored), ga_goal_evidence_digest = ci_intent_checksum stored\<rparr>"
        using run rec Inr p ph that receipts_for_id_home [OF cok rs'(2)]
        by (auto simp: close_goal_def split: sum.splits)
      show ?thesis using is'(4,5) auth by (auto simp: a boundary_linked_def authority_of_def list_ex_iff)
    qed
    with h' channel_inv_closure [OF inv rs'(2) is'(3) rs'(3)] show ?thesis by (intro that [of ?w]) auto
  qed
qed

lemma boundary_intent_authority:
  "boundary_closure_intent lib command lane old caller l = Inr i \<Longrightarrow> authority_of lane old i"
  by (auto simp: boundary_closure_intent_def goal_closure_intent_new_def authority_of_def Let_def
      split: option.splits sum.splits)

lemma assess_goal_boundary_channel:
  assumes ok: "transition_lib_ok lib" and inv: "channel_inv lib w"
    and run: "assess_goal_boundary lib command lane old caller now (channel_of lib w l) = (h', res)"
  obtains w' where "h' = channel_of lib w' l" and "channel_inv lib w'" and "grows {} w w'"
    and "w_transitions w' = w_transitions w"
    and "\<And>a. res = Inr a \<Longrightarrow> boundary_linked lib w' lane old (ga_goal_boundary a) (ga_goal_closure_id a)"
proof -
  let ?report = "run_goal_lineage_doctor (tl_lineage lib) (Some lane) None l"
  let ?active = "filter (\<lambda>l. gl_source_session_key l = old)
    (filter (\<lambda>l. is_active_status (gl_goal_status l)) (lr_lineages ?report))"
  consider i where "boundary_closure_intent lib command lane old caller (hd ?active) = Inr i"
      "close_goal lib i caller now (channel_of lib w l) = (h', res)"
    | "h' = channel_of lib w l"
      "\<And>a. res = Inr a \<Longrightarrow> ga_goal_boundary a \<in> {BoundaryNotApplicable, BoundaryAmbiguous} \<and> ga_goal_closure_id a = None"
    using run unfolding assess_goal_boundary_def Let_def channel_of_sel by (auto split: sum.splits if_splits)
  then show ?thesis
  proof cases
    case 1
    from close_goal_channel [OF ok inv boundary_intent_authority [OF 1(1)] 1(2)] that show ?thesis by blast
  next
    case 2
    with inv show ?thesis by (intro that [of w]) (auto simp: boundary_linked_def)
  qed
qed

lemma new_transition_intent_sel [simp]:
  "ti_transition_id (new_transition_intent lib o' a)
     = transition_identity lib (po_command o') (po_lane_digest o') (po_old_session_key o')"
  "ti_event_key (new_transition_intent lib o' a)
     = transition_identity lib (po_command o') (po_lane_digest o') (po_old_session_key o')"
  "ti_command (new_transition_intent lib o' a) = po_command o'"
  "ti_lane_digest (new_transition_intent lib o' a) = po_lane_digest o'"
  "ti_old_session_key (new_transition_intent lib o' a) = po_old_session_key o'"
  "ti_goal_boundary (new_transition_intent lib o' a) = ga_goal_boundary a"
  "ti_goal_closure_id (new_transition_intent lib o' a) = ga_goal_closure_id a"
  "ti_goal_evidence_digest (new_transition_intent lib o' a) = ga_goal_evidence_digest a"
  by (simp_all add: new_transition_intent_def Let_def)

lemma validate_new_transition: "validate_transition_intent lib (new_transition_intent lib o' a) = Inr ()"
  by (simp add: validate_transition_intent_def new_transition_intent_def Let_def transition_intent_payload_def)

lemma channel_inv_transition:
  assumes inv: "channel_inv lib w" and "validate_transition_intent lib t = Inr ()"
    and "boundary_linked lib w (ti_lane_digest t) (ti_old_session_key t) (ti_goal_boundary t) (ti_goal_closure_id t)"
    and "ti_event_key t \<notin> ti_event_key ` set (w_transitions w)"
  shows "channel_inv lib (w\<lparr>w_transitions := w_transitions w @ [t]\<rparr>) \<and> grows {} w (w\<lparr>w_transitions := w_transitions w @ [t]\<rparr>)"
proof -
  let ?w = "w\<lparr>w_transitions := w_transitions w @ [t]\<rparr>"
  have g: "grows {} w ?w" by (auto simp: grows_def)
  then show ?thesis using assms boundary_linked_grows [OF _ g] by (auto simp: channel_inv_def)
qed

lemma store_transition_channel:
  assumes ok: "transition_lib_ok lib" and inv: "channel_inv lib w"
    and t: "validate_transition_intent lib t = Inr ()"
      "boundary_linked lib w (ti_lane_digest t) (ti_old_session_key t) (ti_goal_boundary t) (ti_goal_closure_id t)"
    and run: "store_transition_intent lib t (channel_of lib w l) = (h', res)"
  obtains w' where "h' = channel_of lib w' l" and "channel_inv lib w'" and "grows {} w w'"
    and "\<And>a s. res = Inr (a, s) \<Longrightarrow> s \<in> set (w_transitions w') \<and> ti_transition_id s = ti_transition_id t"
proof -
  note s = lib_okD(2,3) [OF ok]
  have stored: "x \<in> set ts \<and> ti_transition_id x = ti_transition_id t"
    if h: "h' = channel_of lib (w\<lparr>w_transitions := ts\<rparr>) l" and r: "res = Inr (a, x)" for ts a x
  proof -
    obtain y where y: "h' = (channel_of lib w l)\<lparr>ch_intents := y\<rparr>"
      and "(case read_intents lib h' of Inl e \<Rightarrow> None
        | Inr is \<Rightarrow> find (\<lambda>i. ti_transition_id i = ti_transition_id t) is) = Some x"
      using run r
      by (auto simp: store_transition_intent_def split: prod.splits sum.splits option.splits if_splits)
    with h show ?thesis by (auto simp: read_channel [OF ok] dest: find_SomeD)
  qed
  have h': "h' = (channel_of lib w l)\<lparr>ch_intents := fst (append_row_once (cl_json (tl_closure lib)) (tl_intent lib) t
      (ledger_text (cl_json (tl_closure lib)) (tl_intent lib) (w_transitions w)))\<rparr>"
    using run by (auto simp: store_transition_intent_def split: prod.splits sum.splits)
  from s(1) show ?thesis
  proof (cases rule: append_row_once_cases [where r = t and rs = "w_transitions w"])
    case added
    let ?w = "w\<lparr>w_transitions := w_transitions w @ [t]\<rparr>"
    have "channel_inv lib ?w \<and> grows {} w ?w"
      using channel_inv_transition [OF inv t] added(2) s(2) by simp
    moreover have "h' = channel_of lib ?w l" using h' added(1) by simp
    ultimately show ?thesis using stored [of "w_transitions w @ [t]"] by (intro that [of ?w]) simp_all
  qed (use h' inv stored [of "w_transitions w"] in \<open>intro that [of w]; simp add: channel_of_def\<close>)+
qed

lemma record_prepared_phases_channel:
  assumes ok: "transition_lib_ok lib" and inv: "channel_inv lib w"
    and run: "record_prepared_phases lib t appended now (channel_of lib w l) = (h', res)"
  obtains w' where "h' = channel_of lib w' l" and "channel_inv lib w'" and "grows {} w w'"
    and "\<And>p. res = Inr p \<Longrightarrow> pt_intent p = t \<and> pt_boundary_ready p = boundary_is_ready t"
proof -
  let ?e = "ti_goal_evidence_digest t" and ?p = "if boundary_is_ready t then BoundaryReady else GoalClosurePending"
  from record_transition_phase_channel [OF ok inv, of t TransitionIntentRecorded ?e now l] obtain w1 where
    w1: "fst (record_channel_session_transition_phase lib t TransitionIntentRecorded ?e now (channel_of lib w l)) = channel_of lib w1 l"
      "channel_inv lib w1" "grows {} w w1" by auto
  have uncommitted: "(if ?p = BoundaryCommitted then {ti_transition_id t} else {}) = {}" by simp
  from record_transition_phase_channel [OF ok w1(2), of t ?p ?e now l, unfolded uncommitted] obtain w2 where
    w2: "fst (record_channel_session_transition_phase lib t ?p ?e now (channel_of lib w1 l)) = channel_of lib w2 l"
      "channel_inv lib w2" "grows {} w1 w2" by metis
  have "h' = channel_of lib w1 l \<and> (\<exists>e. res = Inl e) \<or> h' = channel_of lib w2 l
      \<and> (\<forall>p. res = Inr p \<longrightarrow> pt_intent p = t \<and> pt_boundary_ready p = boundary_is_ready t)"
    using run w1(1) w2(1)
    by (cases "record_channel_session_transition_phase lib t TransitionIntentRecorded ?e now (channel_of lib w l)";
        cases "record_channel_session_transition_phase lib t ?p ?e now (channel_of lib w1 l)")
      (auto simp: record_prepared_phases_def split: sum.splits)
  then show ?thesis
    using w1 w2 grows_trans [OF w1(3) w2(3)] that [of w1] that [of w2] by auto
qed

lemma prepare_channel:
  assumes ok: "transition_lib_ok lib" and inv: "channel_inv lib w"
    and run: "prepare_channel_session_transition lib o' (channel_of lib w l) = (h', res)"
  obtains w' where "h' = channel_of lib w' l" and "channel_inv lib w'" and "grows {} w w'"
    and "\<And>p. res = Inr p \<Longrightarrow> pt_intent p \<in> set (w_transitions w')
      \<and> ti_transition_id (pt_intent p)
          = transition_identity lib (po_command o') (po_lane_digest o') (po_old_session_key o')
      \<and> (pt_boundary_ready p \<longrightarrow> durable_goal_boundary_is_ready lib h' (pt_intent p) = Inr True)"
proof -
  let ?tid = "transition_identity lib (po_command o') (po_lane_digest o') (po_old_session_key o')"
  let ?find = "find (\<lambda>i. ti_transition_id i = ?tid) (w_transitions w)"
  show ?thesis
  proof (cases "validate_options o' = Inr () \<and> ?find = None")
    case False
    have "pt_intent p \<in> set (w_transitions w) \<and> ti_transition_id (pt_intent p) = ?tid
        \<and> (pt_boundary_ready p \<longrightarrow> durable_goal_boundary_is_ready lib h' (pt_intent p) = Inr True)" if "res = Inr p" for p
      using run that False find_SomeD [of "\<lambda>i. ti_transition_id i = ?tid" "w_transitions w"]
      by (auto simp: prepare_channel_session_transition_def read_channel [OF ok] split: sum.splits option.splits)
    moreover have "h' = channel_of lib w l"
      using run False by (auto simp: prepare_channel_session_transition_def read_channel [OF ok] split: sum.splits option.splits)
    ultimately show ?thesis using inv by (intro that [of w]) auto
  next
    case True
    then have fr: "freeze_transition lib o' (channel_of lib w l) = (h', res)"
      using run by (simp add: prepare_channel_session_transition_def read_channel [OF ok])
    obtain h1 r1 where a: "assess_goal_boundary lib (po_command o') (po_lane_digest o') (po_old_session_key o') ?tid
        (po_now_ms o') (channel_of lib w l) = (h1, r1)" by fastforce
    from assess_goal_boundary_channel [OF ok inv a] obtain w1 where w1: "h1 = channel_of lib w1 l" "channel_inv lib w1"
      "grows {} w w1" and linked: "\<And>a. r1 = Inr a \<Longrightarrow>
        boundary_linked lib w1 (po_lane_digest o') (po_old_session_key o') (ga_goal_boundary a) (ga_goal_closure_id a)"
      by metis
    show ?thesis
    proof (cases r1)
      case (Inl e)
      with fr a w1 show ?thesis by (intro that [of w1]) (auto simp: freeze_transition_def)
    next
      case (Inr as)
      obtain h2 r2 where st: "store_transition_intent lib (new_transition_intent lib o' as) (channel_of lib w1 l) = (h2, r2)"
        by fastforce
      from store_transition_channel [OF ok w1(2) validate_new_transition _ st] linked [OF Inr] obtain w2 where
        w2: "h2 = channel_of lib w2 l" "channel_inv lib w2" "grows {} w1 w2"
        "\<And>a s. r2 = Inr (a, s) \<Longrightarrow> s \<in> set (w_transitions w2) \<and> ti_transition_id s = ?tid"
        by (metis new_transition_intent_sel(1,4,5,6,7))
      show ?thesis
      proof (cases r2)
        case (Inl e)
        with fr a Inr st w1 w2 grows_trans [OF w1(3) w2(3)] show ?thesis
          by (intro that [of w2]) (auto simp: freeze_transition_def)
      next
        case (Inr q)
        obtain appended stored where q: "q = (appended, stored)" by fastforce
        with fr a \<open>r1 = Inr as\<close> w1(1) st Inr w2(1)
        have "record_prepared_phases lib stored appended (po_now_ms o') (channel_of lib w2 l) = (h', res)"
          by (simp add: freeze_transition_def)
        from record_prepared_phases_channel [OF ok w2(2) this] obtain w3 where
          w3: "h' = channel_of lib w3 l" "channel_inv lib w3" "grows {} w2 w3"
          "\<And>p. res = Inr p \<Longrightarrow> pt_intent p = stored \<and> pt_boundary_ready p = boundary_is_ready stored" by metis
        have "stored \<in> set (w_transitions w3)" "ti_transition_id stored = ?tid"
          using w2(4) Inr q w3(3) by (auto simp: grows_def)
        with w3 grows_trans [OF grows_trans [OF w1(3) w2(3)] w3(3)] show ?thesis
          by (intro that [of w3]) (auto simp: durable_goal_boundary_is_ready_def)
      qed
    qed
  qed
qed

section \<open>Every operation\<close>

lemma run_op_channel:
  assumes ok: "transition_lib_ok lib" and inv: "channel_inv lib w"
  shows "\<exists>w' l'. run_op lib x (channel_of lib w l) = channel_of lib w' l' \<and> channel_inv lib w' \<and> grows (commits x) w w'"
proof (cases x)
  case (PrepareOp o')
  obtain h' res where "prepare_channel_session_transition lib o' (channel_of lib w l) = (h', res)" by fastforce
  with prepare_channel [OF ok inv this] obtain w' where
    "run_op lib x (channel_of lib w l) = channel_of lib w' l" "channel_inv lib w'" "grows {} w w'"
    by (metis PrepareOp fst_conv run_op.simps(1))
  with PrepareOp show ?thesis by auto
next
  case (RecordOp i p e now)
  from record_transition_phase_channel [OF ok inv, of i p e now l] obtain w' where
    "run_op lib x (channel_of lib w l) = channel_of lib w' l" "channel_inv lib w'"
    "grows (if p = BoundaryCommitted then {ti_transition_id i} else {}) w w'"
    by (metis RecordOp run_op.simps(2))
  with RecordOp show ?thesis by auto
next
  case (ClosureIntentOp i)
  have "closure_inv (tl_closure lib) (w_intents w) (w_receipts w)" using inv by (simp add: channel_inv_def)
  from record_intent_home [OF lib_okD(1) [OF ok] this, of i] obtain is' where
    "fst (record_goal_closure_intent (tl_closure lib) i (home_of (tl_closure lib) (w_intents w) (w_receipts w)))
      = home_of (tl_closure lib) is' (w_receipts w)"
    "closure_inv (tl_closure lib) is' (w_receipts w)" "set (w_intents w) \<subseteq> set is'"
    by (metis set_append Un_upper1 order_refl)
  with channel_inv_closure [OF inv this(2,3)] ClosureIntentOp show ?thesis
    by (intro exI [of _ "w\<lparr>w_intents := is', w_receipts := w_receipts w\<rparr>"]) auto
next
  case (ClosurePhaseOp i p input)
  have "closure_inv (tl_closure lib) (w_intents w) (w_receipts w)" using inv by (simp add: channel_inv_def)
  from record_phase_home [OF lib_okD(1) [OF ok] this, of i p input] obtain rs' where
    "fst (record_goal_closure_phase (tl_closure lib) i p input (home_of (tl_closure lib) (w_intents w) (w_receipts w)))
      = home_of (tl_closure lib) (w_intents w) rs'"
    "closure_inv (tl_closure lib) (w_intents w) rs'" "set (w_receipts w) \<subseteq> set rs'"
    by (metis set_append Un_upper1 order_refl)
  with channel_inv_closure [OF inv this(2) order_refl this(3)] ClosurePhaseOp show ?thesis
    by (intro exI [of _ "w\<lparr>w_intents := w_intents w, w_receipts := rs'\<rparr>"]) auto
next
  case (ObserveOp l')
  with inv show ?thesis by (intro exI [of _ w] exI [of _ l']) simp
qed

interpretation channel_steps: ledger_steps transition_lib_ok channel_of channel_inv grows run_op commits
  by (unfold_locales, rule grows_refl, erule (1) grows_trans, erule (1) grows_mono, erule (1) run_op_channel)

lemma empty_channel_rows:
  "empty_channel l = channel_of lib \<lparr>w_intents = [], w_receipts = [], w_transitions = [], w_marks = []\<rparr> l"
  by (simp add: empty_channel_def channel_of_def home_of_def)

lemma channel_inv_empty: "channel_inv lib \<lparr>w_intents = [], w_receipts = [], w_transitions = [], w_marks = []\<rparr>"
  by (simp add: channel_inv_def closure_inv_empty)

lemma channel_run_rows:
  assumes "transition_lib_ok lib"
  obtains w l' where "channel_run lib ops (empty_channel l) = channel_of lib w l'" and "channel_inv lib w"
    and "\<And>u. u \<in> set (w_marks w) \<Longrightarrow> tr_phase u = BoundaryCommitted \<Longrightarrow> tr_transition_id u \<in> \<Union> (commits ` set ops)"
  using channel_steps.run_steps [OF assms channel_inv_empty, of ops l]
  by (fastforce simp: channel_run_def empty_channel_rows [of l lib] grows_def)

lemmas channel_later = channel_steps.run_steps [folded channel_run_def]

end
