(* ===== verification/Session_Transition_Claims.thy ===== *)
theory Session_Transition_Claims
  imports Session_Transition_Props Goal_Lineage_Props
begin

text \<open>
  The properties of session transitions: a frozen intent is never replaced, new messages wait until
  the boundary is committed, a boundary is ready only on a proven closure, and the material to go on
  with a pending closure can always be found.
\<close>

section \<open>Reading a reachable home\<close>

lemma transition_unique:
  assumes "channel_inv lib w" and "s \<in> set (w_transitions w)" "t \<in> set (w_transitions w)"
    and "ti_transition_id s = ti_transition_id t"
  shows "s = t"
proof -
  have "ti_event_key x = ti_transition_id x" if "x \<in> set (w_transitions w)" for x
    using assms(1) that by (auto simp: channel_inv_def validate_transition_intent_def split: if_splits)
  with assms(2-4) have "ti_event_key s = ti_event_key t" by simp
  moreover have "inj_on ti_event_key (set (w_transitions w))" using assms(1) by (simp add: channel_inv_def distinct_map)
  ultimately show ?thesis using assms(2,3) by (simp add: inj_on_eq_iff)
qed

lemma find_transition:
  assumes "channel_inv lib w" and "t \<in> set (w_transitions w)"
  shows "find (\<lambda>i. ti_transition_id i = ti_transition_id t) (w_transitions w) = Some t"
proof (cases "find (\<lambda>i. ti_transition_id i = ti_transition_id t) (w_transitions w)")
  case None
  with assms(2) show ?thesis by (auto simp: find_None_iff)
next
  case (Some s)
  with transition_unique [OF assms(1) _ assms(2)] show ?thesis by (auto dest: find_SomeD)
qed

lemma transition_identity_inj:
  assumes "collision_free (tl_closure lib)" and "transition_identity lib c l s = transition_identity lib c' l' s'"
  shows "c = c' \<and> l = l' \<and> s = s'"
proof -
  from assms have "command_json c = command_json c' \<and> l = l' \<and> s = s'"
    by (auto simp: transition_identity_def collision_free_def)
  then show ?thesis by (cases c; cases c') auto
qed

lemma stored_transition:
  assumes "channel_inv lib w" and "t \<in> set (w_transitions w)"
  shows "validate_transition_intent lib t = Inr ()"
    "ti_transition_id t = transition_identity lib (ti_command t) (ti_lane_digest t) (ti_old_session_key t)"
  using assms by (auto simp: channel_inv_def validate_transition_intent_def split: if_splits)

lemma transition_phase_json_inj: "transition_phase_json p = transition_phase_json q \<longleftrightarrow> p = q"
  by (cases p; cases q) auto

lemma mark_key_inj:
  assumes "collision_free (tl_closure lib)" and "mark_key lib t p d = mark_key lib t' p' d'"
  shows "t = t' \<and> p = p'"
proof -
  from assms have "JsonArray [JsonString t, transition_phase_json p, JsonString d]
      = JsonArray [JsonString t', transition_phase_json p', JsonString d']"
    unfolding mark_key_def collision_free_def by blast
  then show ?thesis by (simp add: transition_phase_json_inj)
qed

lemma durable_ready_channel:
  assumes "transition_lib_ok lib" and "channel_inv lib w"
  shows "durable_goal_boundary_is_ready lib (channel_of lib w l) t =
    Inr (boundary_is_ready t \<or> (\<exists>c. ti_goal_closure_id t = Some c
      \<and> (\<exists>r \<in> set (w_receipts w). cr_closure_id r = c \<and> completed_receipt r)))"
  using receipts_for_id_home [OF lib_okD(1) [OF assms(1)], of "w_intents w" "w_receipts w"] assms(2)
  by (auto simp: durable_goal_boundary_is_ready_def channel_inv_def list_ex_iff split: option.splits)

abbreviation holds_back :: "string \<Rightarrow> string \<Rightarrow> ChannelSessionTransitionReceiptV1 list
    \<Rightarrow> ChannelSessionTransitionIntentV1 \<Rightarrow> bool" where
  "holds_back lane session us t \<equiv> ti_command t = NewCommand \<and> ti_lane_digest t = lane
     \<and> ti_old_session_key t = session \<and> \<not> boundary_committed us t"

lemma admission_scan_iff:
  assumes "\<And>t. t \<in> set ts \<Longrightarrow> validate_transition_intent lib t = Inr ()"
  shows "admission_scan lib lane session us ts =
    Inr (if \<exists>t \<in> set ts. holds_back lane session us t then HoldPendingNew else AdmissionOpen)"
  using assms by (induction ts) auto

lemma admission_channel:
  assumes "transition_lib_ok lib" and "channel_inv lib w"
  shows "channel_session_transition_admission lib lane session (channel_of lib w l) =
    Inr (if \<exists>t \<in> set (w_transitions w). holds_back lane session (w_marks w) t then HoldPendingNew else AdmissionOpen)"
  using admission_scan_iff [of "rev (w_transitions w)" lib lane session "w_marks w"] stored_transition(1) [OF assms(2)]
  by (simp add: channel_session_transition_admission_def read_channel [OF assms(1)])

lemma record_phase_result:
  assumes ok: "transition_lib_ok lib" and "validate_transition_intent lib t = Inr ()" "\<not> is_blank e"
    and "receipt_boundary lib (channel_of lib w l) t p = Inr b"
  shows "snd (record_channel_session_transition_phase lib t p e now (channel_of lib w l))
    = Inr (transition_receipt lib t p b e now)"
proof -
  have "\<not> is_blank (tr_event_key (transition_receipt lib t p b e now))"
    by (simp add: mark_key_def checksum_not_blank)
  then show ?thesis
    using assms(2-4) append_row_once_ledger [OF lib_okD(4) [OF ok], of "transition_receipt lib t p b e now" "w_marks w"]
    by (simp add: record_channel_session_transition_phase_def Let_def lib_okD(5) [OF ok])
qed

text \<open>A prepared transition, and what is left of it after any further operations.\<close>

lemma prepared_later:
  assumes ok: "transition_lib_ok lib" and h: "h = channel_run lib ops (empty_channel l)"
    and prep: "prepare_channel_session_transition lib o' h = (h', Inr p)"
  obtains w lw w' l' where "h' = channel_of lib w lw" and "channel_inv lib w"
    and "channel_run lib ops' h' = channel_of lib w' l'" and "channel_inv lib w'"
    and "grows (\<Union> (commits ` set ops')) w w'"
    and "pt_intent p \<in> set (w_transitions w)" and "pt_intent p \<in> set (w_transitions w')"
    and "ti_transition_id (pt_intent p)
      = transition_identity lib (po_command o') (po_lane_digest o') (po_old_session_key o')"
    and "pt_boundary_ready p \<Longrightarrow> durable_goal_boundary_is_ready lib h' (pt_intent p) = Inr True"
    and "\<And>u. u \<in> set (w_marks w') \<Longrightarrow> tr_phase u = BoundaryCommitted \<Longrightarrow>
      tr_transition_id u \<in> \<Union> (commits ` set (ops @ ops'))"
proof -
  from channel_run_rows [OF ok, of ops l] obtain w0 l0 where w0: "h = channel_of lib w0 l0" "channel_inv lib w0"
    and m: "\<And>u. u \<in> set (w_marks w0) \<Longrightarrow> tr_phase u = BoundaryCommitted \<Longrightarrow> tr_transition_id u \<in> \<Union> (commits ` set ops)"
    using h by metis
  from prepare_channel [OF ok w0(2) prep [unfolded w0(1)]] obtain w where w: "h' = channel_of lib w l0" "channel_inv lib w"
    "grows {} w0 w" "pt_intent p \<in> set (w_transitions w)"
    "ti_transition_id (pt_intent p) = transition_identity lib (po_command o') (po_lane_digest o') (po_old_session_key o')"
    "pt_boundary_ready p \<longrightarrow> durable_goal_boundary_is_ready lib h' (pt_intent p) = Inr True" by metis
  from channel_later [OF ok w(2), of ops' l0] obtain w' l' where w': "channel_run lib ops' h' = channel_of lib w' l'"
    "channel_inv lib w'" "grows (\<Union> (commits ` set ops')) w w'" by (metis w(1))
  have "tr_transition_id u \<in> \<Union> (commits ` set (ops @ ops'))"
    if "u \<in> set (w_marks w')" "tr_phase u = BoundaryCommitted" for u
    using that m w(3) w'(3) unfolding grows_def by (cases "u \<in> set (w_marks w)"; cases "u \<in> set (w_marks w0)") auto
  with w w' that show ?thesis unfolding grows_def by blast
qed

lemma closure_intent_unique:
  assumes "closure_inv cl is rs" and "i \<in> set is"
  shows "filter (\<lambda>x. ci_closure_id x = ci_closure_id i) is = [i]"
proof -
  have "ci_closure_id x = ci_event_key x" if "x \<in> set is" for x
    using assms(1) that validate_intent_key [of cl x] by (simp add: closure_inv_def)
  then have eq: "filter (\<lambda>x. ci_closure_id x = ci_closure_id i) is = filter (\<lambda>x. ci_event_key x = ci_event_key i) is"
    using assms(2) by (auto intro: filter_cong)
  have "filter (\<lambda>x. ci_event_key x = ci_event_key i) is = [i]"
    if "distinct (map ci_event_key is)" "i \<in> set is" for "is"
    using that by (induction "is") (auto simp: filter_empty_conv image_iff)
  with assms eq show ?thesis by (simp add: closure_inv_def)
qed

section \<open>Where a frozen intent comes from\<close>

lemma assess_intents: "ch_intents (fst (assess_goal_boundary lib c lane old caller now h)) = ch_intents h"
  by (auto simp: assess_goal_boundary_def close_goal_def Let_def split: sum.splits prod.splits)

lemma record_phase_intents: "ch_intents (fst (record_channel_session_transition_phase lib t p e now h)) = ch_intents h"
  by (auto simp: record_channel_session_transition_phase_def Let_def split: sum.splits prod.splits)

lemma prepared_phases_intents: "ch_intents (fst (record_prepared_phases lib t appended now h)) = ch_intents h"
proof -
  obtain h1 r1 where 1: "record_channel_session_transition_phase lib t TransitionIntentRecorded
      (ti_goal_evidence_digest t) now h = (h1, r1)" by fastforce
  obtain h2 r2 where 2: "record_channel_session_transition_phase lib t
      (if boundary_is_ready t then BoundaryReady else GoalClosurePending) (ti_goal_evidence_digest t) now h1 = (h2, r2)"
    by fastforce
  have "ch_intents h1 = ch_intents h" "ch_intents h2 = ch_intents h1"
    using record_phase_intents 1 2 by (metis fst_conv)+
  with 1 2 show ?thesis by (auto simp: record_prepared_phases_def split: sum.splits)
qed

lemma prepare_intents:
  "ch_intents (fst (prepare_channel_session_transition lib o' h)) = ch_intents h
   \<or> (\<exists>h1 a. assess_goal_boundary lib (po_command o') (po_lane_digest o') (po_old_session_key o')
        (transition_identity lib (po_command o') (po_lane_digest o') (po_old_session_key o')) (po_now_ms o') h = (h1, Inr a)
      \<and> ch_intents (fst (prepare_channel_session_transition lib o' h))
        = fst (append_row_once (cl_json (tl_closure lib)) (tl_intent lib) (new_transition_intent lib o' a) (ch_intents h)))"
proof (cases "prepare_channel_session_transition lib o' h = freeze_transition lib o' h")
  case False
  then show ?thesis
    by (auto simp: prepare_channel_session_transition_def split: sum.splits option.splits)
next
  case True
  obtain h1 r where a: "assess_goal_boundary lib (po_command o') (po_lane_digest o') (po_old_session_key o')
      (transition_identity lib (po_command o') (po_lane_digest o') (po_old_session_key o')) (po_now_ms o') h = (h1, r)"
    by fastforce
  have h1: "ch_intents h1 = ch_intents h" using a assess_intents by (metis fst_conv)
  show ?thesis
  proof (cases r)
    case (Inl e)
    with a h1 True show ?thesis by (simp add: freeze_transition_def)
  next
    case (Inr as)
    let ?t = "new_transition_intent lib o' as"
    obtain h2 q where st: "store_transition_intent lib ?t h1 = (h2, q)" by fastforce
    then have "ch_intents h2 = fst (append_row_once (cl_json (tl_closure lib)) (tl_intent lib) ?t (ch_intents h1))"
      by (auto simp: store_transition_intent_def split: prod.splits sum.splits)
    moreover have "ch_intents (fst (freeze_transition lib o' h)) = ch_intents h2"
      using a Inr st prepared_phases_intents by (auto simp: freeze_transition_def split: sum.splits)
    ultimately show ?thesis using a Inr h1 True by auto
  qed
qed

text \<open>
  Every frozen intent was written by one prepared command, from what the goal boundary was then. The
  home in which the command was prepared has no such intent yet.
\<close>

definition frozen_at :: "transition_lib \<Rightarrow> PrepareChannelSessionTransitionOptionsV1 \<Rightarrow> channel_home
    \<Rightarrow> ChannelSessionTransitionIntentV1 \<Rightarrow> bool" where
  "frozen_at lib o' g t \<longleftrightarrow>
     (\<exists>ts ts'. read_intents lib g = Inr ts \<and> t \<notin> set ts
        \<and> read_intents lib (fst (prepare_channel_session_transition lib o' g)) = Inr ts' \<and> t \<in> set ts')"

lemma frozen_step:
  assumes ok: "transition_lib_ok lib" and ts: "read_intents lib (run_op lib x (channel_of lib w l)) = Inr ts'"
    and t: "t \<in> set ts'" "t \<notin> set (w_transitions w)"
  obtains o' h1 a where "x = PrepareOp o'"
    and "assess_goal_boundary lib (po_command o') (po_lane_digest o') (po_old_session_key o')
        (transition_identity lib (po_command o') (po_lane_digest o') (po_old_session_key o')) (po_now_ms o')
        (channel_of lib w l) = (h1, Inr a)"
    and "t = new_transition_intent lib o' a"
proof (cases x)
  case (PrepareOp o')
  note s = lib_okD(2) [OF ok]
  have unchanged: False if "ch_intents (run_op lib x (channel_of lib w l)) = ch_intents (channel_of lib w l)"
    using ts t that s by (simp add: read_intents_def read_jsonl_ledger)
  then obtain h1 a where a: "assess_goal_boundary lib (po_command o') (po_lane_digest o') (po_old_session_key o')
        (transition_identity lib (po_command o') (po_lane_digest o') (po_old_session_key o')) (po_now_ms o')
        (channel_of lib w l) = (h1, Inr a)"
    and app: "ch_intents (run_op lib x (channel_of lib w l)) = fst (append_row_once (cl_json (tl_closure lib)) (tl_intent lib)
        (new_transition_intent lib o' a) (ch_intents (channel_of lib w l)))"
    using prepare_intents [of lib o' "channel_of lib w l"] PrepareOp by (auto simp del: channel_of_sel)
  from s have "t = new_transition_intent lib o' a"
  proof (cases rule: append_row_once_cases [where r = "new_transition_intent lib o' a" and rs = "w_transitions w"])
    case added
    with app ts t s show ?thesis by (auto simp: read_intents_def read_jsonl_ledger)
  qed (use app unchanged in auto)
  with PrepareOp a that show ?thesis by blast
qed (use ts t lib_okD(2) [OF ok] in \<open>auto simp: read_intents_def read_jsonl_ledger record_phase_intents\<close>)

lemma frozen_origin:
  assumes ok: "transition_lib_ok lib"
  shows "read_intents lib (channel_run lib ops (empty_channel l)) = Inr ts \<Longrightarrow> t \<in> set ts \<Longrightarrow>
    \<exists>ops1 ops2 o' h1 a. ops = ops1 @ PrepareOp o' # ops2 \<and> frozen_at lib o' (channel_run lib ops1 (empty_channel l)) t
      \<and> assess_goal_boundary lib (po_command o') (po_lane_digest o') (po_old_session_key o')
        (transition_identity lib (po_command o') (po_lane_digest o') (po_old_session_key o')) (po_now_ms o')
        (channel_run lib ops1 (empty_channel l)) = (h1, Inr a) \<and> t = new_transition_intent lib o' a"
proof (induction ops arbitrary: ts rule: rev_induct)
  case Nil
  then show ?case
    using read_channel(1) [OF ok] by (simp add: channel_run_def empty_channel_rows [of l lib])
next
  case (snoc x ops)
  let ?h = "channel_run lib ops (empty_channel l)"
  obtain w lw where w: "?h = channel_of lib w lw" using channel_run_rows [OF ok] by metis
  have after: "read_intents lib (run_op lib x ?h) = Inr ts" using snoc.prems by (simp add: channel_run_def)
  have read: "read_intents lib ?h = Inr (w_transitions w)" by (simp add: w read_channel [OF ok])
  show ?case
  proof (cases "t \<in> set (w_transitions w)")
    case True
    from snoc.IH [OF read this] show ?thesis by fastforce
  next
    case False
    from frozen_step [OF ok after [unfolded w] snoc.prems(2) False] obtain o' h1 a where x: "x = PrepareOp o'"
      and a: "assess_goal_boundary lib (po_command o') (po_lane_digest o') (po_old_session_key o')
        (transition_identity lib (po_command o') (po_lane_digest o') (po_old_session_key o')) (po_now_ms o')
        ?h = (h1, Inr a)" "t = new_transition_intent lib o' a" by (metis w)
    have "frozen_at lib o' ?h t"
      using read False after snoc.prems(2) by (auto simp: frozen_at_def x)
    with x a show ?thesis by (intro exI [of _ ops] exI [of _ "[]"]) auto
  qed
qed

text \<open>A boundary without a goal to close: the doctor reports none that is active on the lane.\<close>

lemma doctor_empty_rows: "lr_status (run_goal_lineage_doctor ll lane session h) = DoctorEmpty \<Longrightarrow>
    lr_lineages (run_goal_lineage_doctor ll lane session h) = []"
proof -
  have "ls = []" if "fold group_lineage ls [] = []" for ls
    using that grouped_mem [of "hd ls" ls] by (cases ls) auto
  then show "lr_status (run_goal_lineage_doctor ll lane session h) = DoctorEmpty \<Longrightarrow>
      lr_lineages (run_goal_lineage_doctor ll lane session h) = []"
    by (auto simp: run_goal_lineage_doctor_def Let_def split: prod.splits if_splits)
qed

lemma assess_quiet:
  assumes "assess_goal_boundary lib command lane old caller now h = (h1, Inr a)" and "ga_goal_boundary a = BoundaryNotApplicable"
  shows "lr_status (run_goal_lineage_doctor (tl_lineage lib) (Some lane) None (ch_lineage h)) \<in> {DoctorReady, DoctorEmpty}"
    and "\<forall>g \<in> set (lr_lineages (run_goal_lineage_doctor (tl_lineage lib) (Some lane) None (ch_lineage h))).
      \<not> is_active_status (gl_goal_status g)"
proof -
  let ?r = "run_goal_lineage_doctor (tl_lineage lib) (Some lane) None (ch_lineage h)"
  have "lr_status ?r = DoctorEmpty \<or> lr_status ?r = DoctorReady
      \<and> filter (\<lambda>l. is_active_status (gl_goal_status l)) (lr_lineages ?r) = []"
    using assms
    by (auto simp: assess_goal_boundary_def close_goal_def Let_def split: if_splits sum.splits prod.splits)
  with doctor_empty_rows [of "tl_lineage lib" "Some lane" None "ch_lineage h"]
  show "lr_status ?r \<in> {DoctorReady, DoctorEmpty}" "\<forall>g \<in> set (lr_lineages ?r). \<not> is_active_status (gl_goal_status g)"
    by (auto simp: filter_empty_conv)
qed

section \<open>Properties\<close>

text \<open>
  C10. A frozen transition is never replaced: once a stop or new command was prepared, giving the same command
  again for the same lane and session, with any other valid options (target, topic, reason, time) and after
  whatever else happened, is answered with the same intent, as a replay, without any write; and a boundary
  once reported ready stays ready.
\<close>

theorem transition_intent_frozen:
  assumes ok: "transition_lib_ok lib" and h: "h = channel_run lib ops (empty_channel l)"
    and prep: "prepare_channel_session_transition lib o1 h = (h', Inr p)"
    and later: "h'' = channel_run lib ops' h'" and valid: "validate_options o2 = Inr ()"
    and same: "po_command o2 = po_command o1" "po_lane_digest o2 = po_lane_digest o1"
      "po_old_session_key o2 = po_old_session_key o1"
  shows "\<exists>ready. prepare_channel_session_transition lib o2 h'' =
      (h'', Inr \<lparr>pt_intent = pt_intent p, pt_replayed = True, pt_boundary_ready = ready\<rparr>)
    \<and> (pt_boundary_ready p \<longrightarrow> ready)"
proof -
  from prepared_later [OF ok h prep, of ops'] obtain w lw w' l' where
    w: "h' = channel_of lib w lw" "channel_inv lib w" and w': "h'' = channel_of lib w' l'" "channel_inv lib w'"
    and g: "grows (\<Union> (commits ` set ops')) w w'" and t: "pt_intent p \<in> set (w_transitions w')"
    "ti_transition_id (pt_intent p) = transition_identity lib (po_command o2) (po_lane_digest o2) (po_old_session_key o2)"
    and r: "pt_boundary_ready p \<Longrightarrow> durable_goal_boundary_is_ready lib h' (pt_intent p) = Inr True"
    unfolding later same by metis
  obtain ready where ready: "durable_goal_boundary_is_ready lib h'' (pt_intent p) = Inr ready"
    using durable_ready_channel [OF ok w'(2)] w'(1) by simp
  have "pt_boundary_ready p \<longrightarrow> ready"
    using r ready g unfolding w(1) w'(1) durable_ready_channel [OF ok w(2)] durable_ready_channel [OF ok w'(2)]
    by (fastforce simp: grows_def)
  moreover have "prepare_channel_session_transition lib o2 h'' =
      (h'', Inr \<lparr>pt_intent = pt_intent p, pt_replayed = True, pt_boundary_ready = ready\<rparr>)"
    using valid find_transition [OF w'(2) t(1)] stored_transition(1) [OF w'(2) t(1)] ready
    by (simp add: prepare_channel_session_transition_def w'(1) read_channel [OF ok] flip: t(2))
  ultimately show ?thesis by blast
qed

text \<open>
  C8. New messages wait for the boundary: from the moment a new-session command was prepared, and as
  long as no operation commits that transition, the old session of the lane admits no message,
  whatever else happens; and recording the commit opens it. (SHA-256 without collisions.)
\<close>

theorem new_session_gate:
  assumes ok: "transition_lib_ok lib" and cf: "collision_free (tl_closure lib)"
    and h: "h = channel_run lib ops (empty_channel l)"
    and prep: "prepare_channel_session_transition lib o' h = (h', Inr p)" and new: "po_command o' = NewCommand"
    and uncommitted: "ti_transition_id (pt_intent p) \<notin> \<Union> (commits ` set (ops @ ops'))"
    and evidence: "\<not> is_blank e"
  shows "channel_session_transition_admission lib (po_lane_digest o') (po_old_session_key o')
        (channel_run lib ops' h') = Inr HoldPendingNew
    \<and> channel_session_transition_admission lib (po_lane_digest o') (po_old_session_key o')
        (run_op lib (RecordOp (pt_intent p) BoundaryCommitted e now) (channel_run lib ops' h')) = Inr AdmissionOpen"
proof -
  let ?t = "pt_intent p"
  from prepared_later [OF ok h prep, of ops'] obtain w' l' where
    w': "channel_run lib ops' h' = channel_of lib w' l'" "channel_inv lib w'" and t: "?t \<in> set (w_transitions w')"
    "ti_transition_id ?t = transition_identity lib (po_command o') (po_lane_digest o') (po_old_session_key o')"
    and m: "\<And>u. u \<in> set (w_marks w') \<Longrightarrow> tr_phase u = BoundaryCommitted \<Longrightarrow>
      tr_transition_id u \<in> \<Union> (commits ` set (ops @ ops'))" by metis
  have fields: "ti_command ?t = NewCommand" "ti_lane_digest ?t = po_lane_digest o'" "ti_old_session_key ?t = po_old_session_key o'"
    using transition_identity_inj [OF cf] stored_transition(2) [OF w'(2) t(1)] t(2) new by metis+
  have "\<not> boundary_committed (w_marks w') ?t"
    using m uncommitted unfolding boundary_committed_def list_ex_iff by metis
  then have hold: "holds_back (po_lane_digest o') (po_old_session_key o') (w_marks w') ?t" using fields by simp
  obtain b where b: "receipt_boundary lib (channel_of lib w' l') ?t BoundaryCommitted = Inr b"
    using durable_ready_channel [OF ok w'(2), of l' ?t] by (cases "ti_goal_boundary ?t = ClosurePending") (simp_all add: receipt_boundary_def)
  let ?r = "transition_receipt lib ?t BoundaryCommitted b e now"
  obtain w2 where w2: "run_op lib (RecordOp ?t BoundaryCommitted e now) (channel_of lib w' l') = channel_of lib w2 l'"
    "channel_inv lib w2" "w_transitions w2 = w_transitions w'"
    and u: "snd (record_channel_session_transition_phase lib ?t BoundaryCommitted e now (channel_of lib w' l')) = Inr ?r
      \<Longrightarrow> \<exists>u \<in> set (w_marks w2). tr_event_key u = tr_event_key ?r"
    using record_transition_phase_channel [OF ok w'(2), of ?t BoundaryCommitted e now l' ?r] by (metis run_op.simps(2))
  have "snd (record_channel_session_transition_phase lib ?t BoundaryCommitted e now (channel_of lib w' l')) = Inr ?r"
    by (rule record_phase_result [OF ok stored_transition(1) [OF w'(2) t(1)] evidence b])
  then obtain u where "u \<in> set (w_marks w2)" "tr_event_key u = tr_event_key ?r" using u by blast
  then have "boundary_committed (w_marks w2) ?t"
    using w2(2) mark_key_inj [OF cf] by (fastforce simp: channel_inv_def boundary_committed_def list_ex_iff)
  then have "\<not> holds_back (po_lane_digest o') (po_old_session_key o') (w_marks w2) t" if "t \<in> set (w_transitions w2)" for t
    using that transition_unique [OF w2(2), of t ?t] t(1) w2(3) fields stored_transition(2) [OF w2(2)] by metis
  then have none: "\<not> (\<exists>t \<in> set (w_transitions w2). holds_back (po_lane_digest o') (po_old_session_key o') (w_marks w2) t)"
    by blast
  have "\<exists>t \<in> set (w_transitions w'). holds_back (po_lane_digest o') (po_old_session_key o') (w_marks w') t"
    using hold t(1) by blast
  then show ?thesis
    unfolding w'(1) w2(1) admission_channel [OF ok w'(2)] admission_channel [OF ok w2(2)] using none by simp
qed

text \<open>
  C9. A boundary is reported ready only when the goal is really closed. Either the intent was frozen by a
  prepared command (this one or an earlier one, for the same command, lane and session), and in the home as it was
  then the lineage doctor, run for the lane, reports a ready or empty state in which no lineage has an active
  goal; or the closure named by the frozen intent went through all five phases, and its protected intent is for the
  lane and the session of the command. (SHA-256 without collisions.)
\<close>

theorem ready_boundary_closed:
  assumes ok: "transition_lib_ok lib" and cf: "collision_free (tl_closure lib)"
    and h: "h = channel_run lib ops (empty_channel l)"
    and prep: "prepare_channel_session_transition lib o' h = (h', Inr p)" and ready: "pt_boundary_ready p"
  shows "ti_goal_boundary (pt_intent p) = BoundaryNotApplicable \<and> ti_goal_closure_id (pt_intent p) = None
      \<and> (\<exists>ops1 ops2 o1 g report. ops @ [PrepareOp o'] = ops1 @ PrepareOp o1 # ops2
        \<and> g = channel_run lib ops1 (empty_channel l) \<and> frozen_at lib o1 g (pt_intent p)
        \<and> po_command o1 = po_command o' \<and> po_lane_digest o1 = po_lane_digest o'
        \<and> po_old_session_key o1 = po_old_session_key o'
        \<and> report = run_goal_lineage_doctor (tl_lineage lib) (Some (po_lane_digest o')) None (ch_lineage g)
        \<and> lr_status report \<in> {DoctorReady, DoctorEmpty}
        \<and> (\<forall>x \<in> set (lr_lineages report). \<not> is_active_status (gl_goal_status x)))
    \<or> (\<exists>cid rs intents i. ti_goal_closure_id (pt_intent p) = Some cid
        \<and> goal_closure_receipts_for_id (tl_closure lib) cid (ch_closure h') = Inr rs
        \<and> map cr_phase rs = [IntentRecorded, BackendResultRecorded, TerminalProjectionRecorded,
             LineageReconciled, PhaseCompleted]
        \<and> map cr_result rs = [ResultPending, ResultSucceeded, ResultSucceeded, ResultSucceeded, ResultSucceeded]
        \<and> read_jsonl (cl_json (tl_closure lib)) (cl_intent (tl_closure lib)) (hm_closure_intents (ch_closure h')) = Inr intents
        \<and> i \<in> set intents \<and> ci_closure_id i = cid
        \<and> ca_lane_digest (ci_authority i) = po_lane_digest o'
        \<and> ca_concrete_session_key (ci_authority i) = po_old_session_key o')"
proof -
  let ?t = "pt_intent p" and ?cl = "tl_closure lib"
  from prepared_later [OF ok h prep, of "[]"] obtain w lw where w: "h' = channel_of lib w lw" "channel_inv lib w"
    and t: "?t \<in> set (w_transitions w)"
    "ti_transition_id ?t = transition_identity lib (po_command o') (po_lane_digest o') (po_old_session_key o')"
    and "pt_boundary_ready p \<Longrightarrow> durable_goal_boundary_is_ready lib h' ?t = Inr True" by metis
  then have d: "boundary_is_ready ?t \<or> (\<exists>c. ti_goal_closure_id ?t = Some c
      \<and> (\<exists>r \<in> set (w_receipts w). cr_closure_id r = c \<and> completed_receipt r))"
    using ready durable_ready_channel [OF ok w(2)] by simp
  have fields: "ti_lane_digest ?t = po_lane_digest o'" "ti_old_session_key ?t = po_old_session_key o'"
    using transition_identity_inj [OF cf] stored_transition(2) [OF w(2) t(1)] t(2) by metis+
  have linked: "boundary_linked lib w (po_lane_digest o') (po_old_session_key o') (ti_goal_boundary ?t) (ti_goal_closure_id ?t)"
    using w(2) t(1) fields by (auto simp: channel_inv_def)
  show ?thesis
  proof (cases "ti_goal_closure_id ?t")
    case None
    with linked d have quiet: "ti_goal_boundary ?t = BoundaryNotApplicable"
      by (auto simp: boundary_linked_def boundary_is_ready_def)
    have "channel_run lib (ops @ [PrepareOp o']) (empty_channel l) = h'" using prep h by (simp add: channel_run_def)
    then have "read_intents lib (channel_run lib (ops @ [PrepareOp o']) (empty_channel l)) = Inr (w_transitions w)"
      using w(1) read_channel(1) [OF ok] by simp
    from frozen_origin [OF ok this t(1)] obtain ops1 ops2 o1 h1 a where o1: "ops @ [PrepareOp o'] = ops1 @ PrepareOp o1 # ops2"
      "frozen_at lib o1 (channel_run lib ops1 (empty_channel l)) ?t"
      and a: "assess_goal_boundary lib (po_command o1) (po_lane_digest o1) (po_old_session_key o1)
        (transition_identity lib (po_command o1) (po_lane_digest o1) (po_old_session_key o1)) (po_now_ms o1)
        (channel_run lib ops1 (empty_channel l)) = (h1, Inr a)" "?t = new_transition_intent lib o1 a" by metis
    have same: "po_command o1 = po_command o'" "po_lane_digest o1 = po_lane_digest o'"
        "po_old_session_key o1 = po_old_session_key o'"
      using transition_identity_inj [OF cf, of "po_command o1"] t(2) unfolding a(2) new_transition_intent_sel by blast+
    have "ga_goal_boundary a = BoundaryNotApplicable" using quiet a(2) by simp
    note doctor = assess_quiet [OF a(1) this, unfolded same]
    show ?thesis
      by (intro disjI1 conjI exI [of _ ops1] exI [of _ ops2] exI [of _ o1] exI) (rule quiet None o1 refl same doctor)+
  next
    case (Some cid)
    have inv: "closure_inv ?cl (w_intents w) (w_receipts w)" using w(2) by (simp add: channel_inv_def)
    let ?rs = "of_closure cid (w_receipts w)"
    from linked d Some obtain r where r: "r \<in> set ?rs" "completed_receipt r"
      by (auto simp: boundary_linked_def boundary_is_ready_def)
    from linked Some cf obtain i where i: "i \<in> set (w_intents w)" "ci_closure_id i = cid"
      "authority_of (po_lane_digest o') (po_old_session_key o') i" by (auto simp: boundary_linked_def)
    have "receipt_chain ?rs" and "\<And>r. r \<in> set ?rs \<Longrightarrow> validate_receipt ?cl r = Inr ()"
      using inv by (auto simp: closure_inv_def)
    note shape = completed_chain_shape [OF this r]
    show ?thesis
      using shape i Some receipts_for_id_home [OF lib_okD(1) [OF ok] inv, of cid] lib_okD(1) [OF ok]
      by (intro disjI2 exI [of _ cid] exI [of _ ?rs] exI [of _ "w_intents w"] exI [of _ i])
        (simp add: w(1) closure_lib_ok_def read_jsonl_ledger authority_of_def)
  qed
qed

text \<open>
  The list of pending transitions is exact: in every reachable home it can be read, and with a
  positive limit it is the beginning of the list, in order of request, without repetition, of
  exactly those frozen transitions that no receipt commits.
\<close>

theorem pending_transitions_exact:
  assumes ok: "transition_lib_ok lib" and h: "h = channel_run lib ops (empty_channel l)" and n: "0 < n"
  shows "\<exists>ts us ps. read_intents lib h = Inr ts \<and> read_receipts lib h = Inr us
    \<and> pending_channel_session_transition_intents lib n h = Inr (take n ps)
    \<and> sorted (map (\<lambda>t. (ti_requested_at_ms t, ti_transition_id t)) ps) \<and> distinct ps
    \<and> set ps = {t \<in> set ts. \<not> (\<exists>u \<in> set us. tr_transition_id u = ti_transition_id t \<and> tr_phase u = BoundaryCommitted)}"
proof -
  from channel_run_rows [OF ok, of ops l] obtain w l' where w: "h = channel_of lib w l'" "channel_inv lib w"
    using h by metis
  let ?ps = "filter (\<lambda>t. \<not> boundary_committed (w_marks w) t)
    (sort_key (\<lambda>t. (ti_requested_at_ms t, ti_transition_id t)) (w_transitions w))"
  have "first_error (map (validate_transition_intent lib) (w_transitions w)) = Inr ()"
    using stored_transition(1) [OF w(2)] by (auto simp: first_error_Inr)
  then have "pending_channel_session_transition_intents lib n h = Inr (take n ?ps)"
    using n by (simp add: pending_channel_session_transition_intents_def w(1) read_channel [OF ok])
  moreover have "distinct ?ps" using w(2) by (auto simp: channel_inv_def distinct_map)
  moreover have "sorted (map (\<lambda>t. (ti_requested_at_ms t, ti_transition_id t)) ?ps)"
    by (simp add: sorted_filter)
  ultimately show ?thesis
    by (intro exI [of _ "w_transitions w"] exI [of _ "w_marks w"] exI [of _ ?ps])
      (auto simp: w(1) read_channel [OF ok] boundary_committed_def list_ex_iff)
qed

text \<open>
  The material to go on with a closure can always be found: for every frozen transition that
  names a goal closure, in every reachable home, its protected closure intent is found, belongs to
  the lane and session of the transition, and resolves to the exact target. (SHA-256 without
  collisions.)
\<close>

theorem closure_material_exact:
  assumes ok: "transition_lib_ok lib" and cf: "collision_free (tl_closure lib)"
    and h: "h = channel_run lib ops (empty_channel l)"
    and read: "read_intents lib h = Inr ts" and t: "t \<in> set ts" and cid: "ti_goal_closure_id t = Some cid"
  shows "\<exists>m target. channel_session_transition_closure_material lib t h = Inr (Some m)
    \<and> ci_closure_id (tm_goal_closure_intent m) = cid \<and> cs_disposition (tm_resolution m) = TargetExact
    \<and> cs_target (tm_resolution m) = Some target
    \<and> ca_lane_digest (ct_authority target) = ti_lane_digest t
    \<and> ca_concrete_session_key (ct_authority target) = ti_old_session_key t"
proof -
  let ?cl = "tl_closure lib"
  from channel_run_rows [OF ok, of ops l] obtain w l' where w: "h = channel_of lib w l'" "channel_inv lib w"
    using h by metis
  have t: "t \<in> set (w_transitions w)" using t read by (simp add: w(1) read_channel [OF ok])
  have inv: "closure_inv ?cl (w_intents w) (w_receipts w)" using w(2) by (simp add: channel_inv_def)
  from w(2) t cid cf obtain i where i: "i \<in> set (w_intents w)" "ci_closure_id i = cid"
    "authority_of (ti_lane_digest t) (ti_old_session_key t) i"
    by (fastforce simp: channel_inv_def boundary_linked_def)
  have valid: "validate_intent ?cl i = Inr ()" using inv i(1) by (simp add: closure_inv_def)
  have one: "filter (\<lambda>x. ci_closure_id x = cid) (w_intents w) = [i]" using closure_intent_unique [OF inv i(1)] i(2) by simp
  obtain v where v: "ci_expected_projection_checksum i = Some v"
    using valid by (auto simp: validate_intent_def goal_closure_intent_new_def check_intent_def first_error_Inr
        split: sum.splits option.splits)
  show ?thesis
    using lib_okD(1) [OF ok] stored_transition(1) [OF w(2) t] cid one valid v i(3)
    by (simp add: channel_session_transition_closure_material_def w(1) closure_lib_ok_def read_jsonl_ledger
        authority_of_def resolve_goal_closure_target_def resolution_base_def exact_candidate_def
        closure_material_candidate_def i(2) Let_def)
qed

section \<open>Preparing succeeds\<close>

lemma record_phase_succeeds:
  assumes ok: "transition_lib_ok lib" and inv: "channel_inv lib w" and "validate_transition_intent lib t = Inr ()"
    and "\<not> is_blank e"
  obtains w' r where "record_channel_session_transition_phase lib t p e now (channel_of lib w l) = (channel_of lib w' l, Inr r)"
    and "channel_inv lib w'" "w_transitions w' = w_transitions w" "w_intents w' = w_intents w" "w_receipts w' = w_receipts w"
proof -
  obtain b where "receipt_boundary lib (channel_of lib w l) t p = Inr b"
    using durable_ready_channel [OF ok inv, of l t]
    by (cases "p = BoundaryCommitted \<and> ti_goal_boundary t = ClosurePending") (auto simp: receipt_boundary_def)
  note r = record_phase_result [OF ok assms(3,4) this, of now]
  from record_transition_phase_channel [OF ok inv, of t p e now l] obtain w' where
    "fst (record_channel_session_transition_phase lib t p e now (channel_of lib w l)) = channel_of lib w' l"
    "channel_inv lib w'" "w_transitions w' = w_transitions w" "w_intents w' = w_intents w" "w_receipts w' = w_receipts w"
    by metis
  with r that show ?thesis by (metis prod.collapse)
qed

lemma freeze_succeeds:
  assumes ok: "transition_lib_ok lib" and inv: "channel_inv lib w"
    and free: "\<forall>t \<in> set (w_transitions w).
      ti_transition_id t \<noteq> transition_identity lib (po_command o') (po_lane_digest o') (po_old_session_key o')"
    and linked: "boundary_linked lib w (po_lane_digest o') (po_old_session_key o') (ga_goal_boundary a) (ga_goal_closure_id a)"
    and ev: "\<not> is_blank (ga_goal_evidence_digest a)"
    and assess: "assess_goal_boundary lib (po_command o') (po_lane_digest o') (po_old_session_key o')
      (transition_identity lib (po_command o') (po_lane_digest o') (po_old_session_key o')) (po_now_ms o') h
      = (channel_of lib w l, Inr a)"
  obtains w' p where "freeze_transition lib o' h = (channel_of lib w' l, Inr p)" and "channel_inv lib w'"
    and "pt_intent p = new_transition_intent lib o' a"
    and "pt_boundary_ready p = boundary_is_ready (new_transition_intent lib o' a)"
    and "w_transitions w' = w_transitions w @ [new_transition_intent lib o' a]"
    and "w_intents w' = w_intents w" and "w_receipts w' = w_receipts w"
proof -
  let ?t = "new_transition_intent lib o' a" and ?w = "w\<lparr>w_transitions := w_transitions w @ [new_transition_intent lib o' a]\<rparr>"
  note s = lib_okD(2,3) [OF ok]
  have key: "ti_event_key t = ti_transition_id t" if "t \<in> set (w_transitions w)" for t
    using stored_transition(1) [OF inv that] by (auto simp: validate_transition_intent_def split: if_splits)
  have "\<not> is_blank (ti_event_key ?t)" by (simp add: transition_identity_def checksum_not_blank)
  then have app: "append_row_once (cl_json (tl_closure lib)) (tl_intent lib) ?t
      (ledger_text (cl_json (tl_closure lib)) (tl_intent lib) (w_transitions w))
      = (ledger_text (cl_json (tl_closure lib)) (tl_intent lib) (w_transitions w @ [?t]), Inr True)"
    using append_row_once_ledger [OF s(1), of ?t "w_transitions w"] s(2) free key by force
  have "find (\<lambda>i. ti_transition_id i = ti_transition_id ?t) (w_transitions w) = None"
    using free by (simp add: find_None_iff)
  then have store: "store_transition_intent lib ?t (channel_of lib w l) = (channel_of lib ?w l, Inr (True, ?t))"
    by (simp add: store_transition_intent_def app read_channel [OF ok] find_append validate_new_transition)
  have ev': "\<not> is_blank (ti_goal_evidence_digest ?t)" using ev by simp
  have inv': "channel_inv lib ?w"
    using channel_inv_transition [OF inv validate_new_transition, of o' a] linked free key by force
  obtain w1 r1 where w1: "record_channel_session_transition_phase lib ?t TransitionIntentRecorded
      (ti_goal_evidence_digest ?t) (po_now_ms o') (channel_of lib ?w l) = (channel_of lib w1 l, Inr r1)"
    "channel_inv lib w1" "w_transitions w1 = w_transitions ?w" "w_intents w1 = w_intents ?w" "w_receipts w1 = w_receipts ?w"
    by (rule record_phase_succeeds [OF ok inv' validate_new_transition ev'])
  obtain w2 r2 where w2: "record_channel_session_transition_phase lib ?t
      (if boundary_is_ready ?t then BoundaryReady else GoalClosurePending)
      (ti_goal_evidence_digest ?t) (po_now_ms o') (channel_of lib w1 l) = (channel_of lib w2 l, Inr r2)"
    "channel_inv lib w2" "w_transitions w2 = w_transitions w1" "w_intents w2 = w_intents w1" "w_receipts w2 = w_receipts w1"
    by (rule record_phase_succeeds [OF ok w1(2) validate_new_transition ev'])
  have "freeze_transition lib o' h = (channel_of lib w2 l,
      Inr \<lparr>pt_intent = ?t, pt_replayed = False, pt_boundary_ready = boundary_is_ready ?t\<rparr>)"
    using assess store w1(1) w2(1) by (simp add: freeze_transition_def record_prepared_phases_def)
  with w1 w2 that show ?thesis by simp
qed

section \<open>Witnesses\<close>

instance ChannelSessionTransitionCommandV1 :: countable
  by countable_datatype

instance ChannelGoalBoundaryV1 :: countable
  by countable_datatype

instance ChannelSessionTransitionPhaseV1 :: countable
  by countable_datatype

definition transition_fields where
  "transition_fields t =
     ((ti_schema t, ti_event_key t, ti_transition_id t, ti_command_effect_identity t, ti_command t,
       ti_lane_digest t, ti_old_session_key t, ti_frozen_new_session_key t),
      (ti_topic t, ti_reason t, ti_goal_boundary t, ti_goal_closure_id t, ti_goal_evidence_digest t,
       ti_requested_at_ms t, ti_intent_checksum (t :: ChannelSessionTransitionIntentV1)))"

definition mark_fields where
  "mark_fields u =
     ((tr_schema u, tr_event_key u, tr_transition_id u, tr_command_effect_identity u, tr_lane_digest u,
       tr_old_session_key_digest u),
      (tr_frozen_new_session_key_digest u, tr_phase u, tr_goal_boundary u, tr_goal_closure_id u,
       tr_evidence_digest u, tr_recorded_at_ms (u :: ChannelSessionTransitionReceiptV1)))"

lemma inj_transition_fields: "inj transition_fields"
  by (intro injI ChannelSessionTransitionIntentV1.equality) (simp_all add: transition_fields_def)

lemma inj_mark_fields: "inj mark_fields"
  by (intro injI ChannelSessionTransitionReceiptV1.equality) (simp_all add: mark_fields_def)

definition demo_lib :: transition_lib where
  "demo_lib = \<lparr>tl_closure = demo_cl, tl_lineage = demo_ll,
     tl_intent = number_row transition_fields ti_event_key, tl_receipt = number_row mark_fields tr_event_key\<rparr>"

lemma demo_lib_sel [simp]: "tl_closure demo_lib = demo_cl" "tl_lineage demo_lib = demo_ll"
  by (simp_all add: demo_lib_def)

lemma demo_lib_ok: "transition_lib_ok demo_lib"
  using demo_cl_ok serde_number [OF inj_transition_fields, of ti_event_key] serde_number [OF inj_mark_fields, of tr_event_key]
  by (simp add: transition_lib_ok_def demo_lib_def demo_cl_def number_row_def)

text \<open>The old session has one active goal; the command asks for a new session.\<close>

definition demo_options :: "string \<Rightarrow> PrepareChannelSessionTransitionOptionsV1" where
  "demo_options target = \<lparr>po_command = NewCommand, po_lane_digest = ''l'', po_old_session_key = ''s'',
     po_proposed_new_session_key = Some target, po_topic = None, po_reason = None, po_now_ms = 5\<rparr>"

lemma demo_options_lane: "po_lane_digest (demo_options target) = ''l''"
  by (simp add: demo_options_def)

abbreviation demo_tid :: string where
  "demo_tid \<equiv> transition_identity demo_lib NewCommand ''l'' ''s''"

lemma demo_options_valid: "target \<in> {''m'', ''n''} \<Longrightarrow> validate_options (demo_options target) = Inr ()"
proof -
  have "\<not> is_blank ''l''" "\<not> is_blank ''s''" "\<not> is_blank ''m''" "\<not> is_blank ''n''"
    by (rule not_blank_graphic_ends; simp add: ascii_graphic_def)+
  then show "target \<in> {''m'', ''n''} \<Longrightarrow> validate_options (demo_options target) = Inr ()"
    by (auto simp: validate_options_def demo_options_def validate_nonempty_def)
qed

lemma demo_row_sel:
  "gl_virtual_session_id (demo_row ll ''a'') = Some ''v''" "gl_lane_digest (demo_row ll ''a'') = Some ''l''"
  "gl_backend_context_generation (demo_row ll ''a'') = Some ''g''" "gl_source_thread_id (demo_row ll ''a'') = ''t''"
  "gl_goal_reference (demo_row ll ''a'') = ''a''" "gl_projection_checksum (demo_row ll ''a'') = ''p''"
  "gl_source_session_key (demo_row ll ''a'') = ''s''" "is_active_status (gl_goal_status (demo_row ll ''a''))"
  "\<not> is_blank (gl_lineage_id (demo_row ll ''a''))"
  by (simp_all add: demo_row_def projection_authority_def latest_authorities_def authority_insert_def
      authority_key_def demo_authority_receipt_def demo_active_def demo_projection_def projection_goal_identity_def)
    (simp_all add: projection_lineage_def Let_def split_beta lineage_checksum_def sha256_json_not_blank)

lemma demo_lane_report:
  "lr_status (run_goal_lineage_doctor demo_ll (Some ''l'') None (demo_home ''A'' [])) = DoctorReady"
  "lr_lineages (run_goal_lineage_doctor demo_ll (Some ''l'') None (demo_home ''A'' [])) = [demo_row demo_ll0 ''a'']"
proof -
  let ?r = "demo_row demo_ll0 ''a''"
  have row: "map (projection_lineage demo_ll (latest_authorities [demo_authority_receipt]))
      (btree_values (latest_projections [demo_active ''a''])) = [?r]"
    by (simp add: demo_latest demo_row_def flip: demo_row_ll)
  have "gl_runnable ?r" "gl_disposition ?r = Runnable" "is_active_status (gl_goal_status ?r)"
    using demo_row_runnable [of demo_ll0 "''a''"] unfolding demo_row_def
    by (simp_all only: projection_lineage_runnable) (simp add: demo_active_def demo_projection_def)
  then have "\<not> campaign_identity_blocked [?r]" "\<not> campaign_needs_reconciliation [?r]"
    by (simp_all add: campaign_identity_blocked_def campaign_needs_reconciliation_def unresolved_count_def
        runnable_count_def)
  then show "lr_status (run_goal_lineage_doctor demo_ll (Some ''l'') None (demo_home ''A'' [])) = DoctorReady"
    "lr_lineages (run_goal_lineage_doctor demo_ll (Some ''l'') None (demo_home ''A'' [])) = [?r]"
    unfolding run_goal_lineage_doctor_def demo_home_def lineage_home.simps demo_read prod.case row Let_def
    by (simp_all add: valid_supersession_map_def apply_supersession_def selected_by_option_def group_lineage_def
        demo_row_sel(2))
qed

lemma demo_boundary_intent:
  obtains i where "boundary_closure_intent demo_lib NewCommand ''l'' ''s'' demo_tid (demo_row demo_ll0 ''a'') = Inr i"
    and "validate_intent demo_cl i = Inr ()" and "authority_of ''l'' ''s'' i"
proof -
  let ?i = "boundary_closure_intent demo_lib NewCommand ''l'' ''s'' demo_tid (demo_row demo_ll0 ''a'')"
  have "\<not> is_blank ''l''" "\<not> is_blank ''s''" "\<not> is_blank ''v''" "\<not> is_blank ''g''" "\<not> is_blank ''t''"
    "\<not> is_blank ''p''" "\<not> is_blank ''channel session boundary requested goal cancellation''"
    by (rule not_blank_graphic_ends; simp add: ascii_graphic_def)+
  moreover have "\<not> is_blank demo_tid" by (simp add: transition_identity_def checksum_not_blank)
  ultimately have "\<exists>i. ?i = Inr i"
    by (simp add: boundary_closure_intent_def demo_row_sel goal_closure_intent_new_def check_intent_def
        validate_authority_def validate_nonempty_def command_trigger_def Let_def)
  then obtain i where i: "?i = Inr i" by blast
  then have "validate_intent demo_cl i = Inr ()"
    by (auto simp: boundary_closure_intent_def demo_row_sel intro: validate_new)
  with i boundary_intent_authority [OF i] that show ?thesis by blast
qed

abbreviation demo_observed :: lineage_home where
  "demo_observed \<equiv> demo_home ''A'' []"

abbreviation demo_evidence :: GoalClosurePhaseInputV1 where
  "demo_evidence \<equiv> closure_phase_evidence demo_lib demo_tid 5"

lemma demo_assess:
  assumes i: "boundary_closure_intent demo_lib NewCommand ''l'' ''s'' demo_tid (demo_row demo_ll0 ''a'') = Inr i"
    and valid: "validate_intent demo_cl i = Inr ()"
  shows "assess_goal_boundary demo_lib NewCommand ''l'' ''s'' demo_tid 5 (empty_channel demo_observed) =
      (channel_of demo_lib \<lparr>w_intents = [i], w_receipts = walked demo_cl i [(IntentRecorded, demo_evidence)],
         w_transitions = [], w_marks = []\<rparr> demo_observed,
       Inr \<lparr>ga_goal_boundary = ClosurePending, ga_goal_closure_id = Some (ci_closure_id i),
         ga_goal_evidence_digest = ci_intent_checksum i\<rparr>)"
    and "closure_inv demo_cl [i] (walked demo_cl i [(IntentRecorded, demo_evidence)])"
proof -
  note fresh = record_intent_fresh [OF demo_cl_ok valid]
  have "validate_phase_evidence IntentRecorded demo_evidence = Inr ()"
    by (simp add: validate_phase_evidence_def closure_phase_evidence_def)
  with walk_step [OF demo_cl_ok demo_cl_collision_free valid, of "[]" IntentRecorded demo_evidence] fresh(2)
  have step: "closure_inv demo_cl [i] (walked demo_cl i [(IntentRecorded, demo_evidence)])"
    "record_goal_closure_phase demo_cl i IntentRecorded demo_evidence (home_of demo_cl [i] [])
      = (home_of demo_cl [i] (walked demo_cl i [(IntentRecorded, demo_evidence)]),
         Inr (Appended, phase_receipt demo_cl i IntentRecorded demo_evidence))" by simp_all
  have "goal_closure_receipts_for_id demo_cl (ci_closure_id i)
      (home_of demo_cl [i] (walked demo_cl i [(IntentRecorded, demo_evidence)]))
      = Inr [phase_receipt demo_cl i IntentRecorded demo_evidence]"
    using receipts_for_id_home [OF demo_cl_ok step(1), of "ci_closure_id i"] by simp
  then have close: "close_goal demo_lib i demo_tid 5 (empty_channel demo_observed) =
      (channel_of demo_lib \<lparr>w_intents = [i], w_receipts = walked demo_cl i [(IntentRecorded, demo_evidence)],
         w_transitions = [], w_marks = []\<rparr> demo_observed,
       Inr \<lparr>ga_goal_boundary = ClosurePending, ga_goal_closure_id = Some (ci_closure_id i),
         ga_goal_evidence_digest = ci_intent_checksum i\<rparr>)"
    using fresh(1) step(2)
    by (simp add: close_goal_def empty_channel_rows [of _ demo_lib] completed_receipt_def)
  have run: "gl_runnable (demo_row demo_ll0 ''a'')" by (rule demo_row_runnable)
  show "assess_goal_boundary demo_lib NewCommand ''l'' ''s'' demo_tid 5 (empty_channel demo_observed) =
      (channel_of demo_lib \<lparr>w_intents = [i], w_receipts = walked demo_cl i [(IntentRecorded, demo_evidence)],
         w_transitions = [], w_marks = []\<rparr> demo_observed,
       Inr \<lparr>ga_goal_boundary = ClosurePending, ga_goal_closure_id = Some (ci_closure_id i),
         ga_goal_evidence_digest = ci_intent_checksum i\<rparr>)"
    unfolding assess_goal_boundary_def Let_def
    by (simp add: empty_channel_def demo_lane_report demo_row_sel run i close [unfolded empty_channel_def] del: walked_simps)
  show "closure_inv demo_cl [i] (walked demo_cl i [(IntentRecorded, demo_evidence)])" by (rule step(1))
qed

lemma demo_prepared:
  obtains i w p where "validate_intent demo_cl i = Inr ()"
    and "prepare_channel_session_transition demo_lib (demo_options ''n'') (empty_channel demo_observed)
      = (channel_of demo_lib w demo_observed, Inr p)"
    and "channel_inv demo_lib w" and "w_intents w = [i]"
    and "w_receipts w = walked demo_cl i [(IntentRecorded, demo_evidence)]" and "w_transitions w = [pt_intent p]"
    and "ti_transition_id (pt_intent p) = demo_tid" and "ti_goal_closure_id (pt_intent p) = Some (ci_closure_id i)"
    and "ti_goal_boundary (pt_intent p) = ClosurePending"
proof -
  obtain i where i: "boundary_closure_intent demo_lib NewCommand ''l'' ''s'' demo_tid (demo_row demo_ll0 ''a'') = Inr i"
    "validate_intent demo_cl i = Inr ()" "authority_of ''l'' ''s'' i" by (rule demo_boundary_intent)
  let ?rs = "walked demo_cl i [(IntentRecorded, demo_evidence)]"
  let ?w = "\<lparr>w_intents = [i], w_receipts = ?rs, w_transitions = [], w_marks = []\<rparr>"
  let ?a = "\<lparr>ga_goal_boundary = ClosurePending, ga_goal_closure_id = Some (ci_closure_id i),
         ga_goal_evidence_digest = ci_intent_checksum i\<rparr>"
  note a = demo_assess [OF i(1,2)]
  have inv: "channel_inv demo_lib ?w" using a(2) by (simp add: channel_inv_def)
  have linked: "boundary_linked demo_lib ?w ''l'' ''s'' ClosurePending (Some (ci_closure_id i))"
    using i(3) by (simp add: boundary_linked_def)
  have ev: "\<not> is_blank (ci_intent_checksum i)"
    using i(2) checksum_not_blank
    by (auto simp: validate_intent_def goal_closure_intent_new_def Let_def split: sum.splits if_splits)
  obtain w p where w: "freeze_transition demo_lib (demo_options ''n'') (empty_channel demo_observed)
      = (channel_of demo_lib w demo_observed, Inr p)" "channel_inv demo_lib w"
    "pt_intent p = new_transition_intent demo_lib (demo_options ''n'') ?a"
    "w_transitions w = [new_transition_intent demo_lib (demo_options ''n'') ?a]" "w_intents w = [i]" "w_receipts w = ?rs"
    by (rule freeze_succeeds [OF demo_lib_ok inv, of "demo_options ''n''" ?a "empty_channel demo_observed" demo_observed])
      (use linked ev a(1) in \<open>auto simp: demo_options_def\<close>)
  have "prepare_channel_session_transition demo_lib (demo_options ''n'') (empty_channel demo_observed)
      = freeze_transition demo_lib (demo_options ''n'') (empty_channel demo_observed)"
    by (simp add: prepare_channel_session_transition_def demo_options_valid empty_channel_rows [of _ demo_lib]
        read_channel [OF demo_lib_ok])
  with w i that show ?thesis by (simp add: demo_options_def)
qed

text \<open>On a lane without observations the boundary is ready at once.\<close>

abbreviation quiet_lane :: lineage_home where
  "quiet_lane \<equiv> \<lparr>lh_projections = [], lh_authorities = [], lh_supersessions = []\<rparr>"

lemma demo_quiet:
  obtains h' p where "prepare_channel_session_transition demo_lib (demo_options ''n'') (empty_channel quiet_lane) = (h', Inr p)"
    and "pt_boundary_ready p" and "ti_goal_closure_id (pt_intent p) = None"
proof -
  let ?w = "\<lparr>w_intents = [], w_receipts = [], w_transitions = [], w_marks = []\<rparr>"
  let ?report = "run_goal_lineage_doctor demo_ll (Some ''l'') None quiet_lane"
  let ?a = "\<lparr>ga_goal_boundary = BoundaryNotApplicable, ga_goal_closure_id = None,
    ga_goal_evidence_digest = quiet_evidence demo_lib ''l'' ''s'' ?report\<rparr>"
  have "lr_status ?report = DoctorEmpty"
    by (simp add: run_goal_lineage_doctor_def read_schema_jsonl_def text_lines_def latest_projections_def
        btree_values_def valid_supersession_map_def)
  then have assess: "assess_goal_boundary demo_lib NewCommand ''l'' ''s'' demo_tid 5 (empty_channel quiet_lane)
      = (channel_of demo_lib ?w quiet_lane, Inr ?a)"
    by (simp add: assess_goal_boundary_def empty_channel_rows [of quiet_lane demo_lib])
  have ev: "\<not> is_blank (quiet_evidence demo_lib ''l'' ''s'' ?report)" by (simp add: quiet_evidence_def checksum_not_blank)
  obtain w p where w: "freeze_transition demo_lib (demo_options ''n'') (empty_channel quiet_lane)
      = (channel_of demo_lib w quiet_lane, Inr p)" "pt_intent p = new_transition_intent demo_lib (demo_options ''n'') ?a"
    "pt_boundary_ready p = boundary_is_ready (new_transition_intent demo_lib (demo_options ''n'') ?a)"
    by (rule freeze_succeeds [OF demo_lib_ok channel_inv_empty, of "demo_options ''n''" ?a "empty_channel quiet_lane" quiet_lane])
      (use assess ev in \<open>auto simp: demo_options_def boundary_linked_def\<close>)
  have "prepare_channel_session_transition demo_lib (demo_options ''n'') (empty_channel quiet_lane)
      = freeze_transition demo_lib (demo_options ''n'') (empty_channel quiet_lane)"
    by (simp add: prepare_channel_session_transition_def demo_options_valid empty_channel_rows [of _ demo_lib]
        read_channel [OF demo_lib_ok])
  with w that show ?thesis by (simp add: boundary_is_ready_def)
qed

theorem transition_intent_frozen_witness:
  "\<exists>h' p ready. prepare_channel_session_transition demo_lib (demo_options ''n'') (empty_channel demo_observed) = (h', Inr p)
     \<and> prepare_channel_session_transition demo_lib (demo_options ''m'') h' =
         (h', Inr \<lparr>pt_intent = pt_intent p, pt_replayed = True, pt_boundary_ready = ready\<rparr>)"
proof -
  obtain w p where prep: "prepare_channel_session_transition demo_lib (demo_options ''n'') (empty_channel demo_observed)
      = (channel_of demo_lib w demo_observed, Inr p)" using demo_prepared by metis
  have run: "channel_run demo_lib [] h = h" for h by (simp add: channel_run_def)
  from transition_intent_frozen [OF demo_lib_ok run [symmetric] prep run [symmetric] demo_options_valid, of "''m''"] prep
  show ?thesis by (auto simp: demo_options_def)
qed

theorem new_session_gate_witness:
  "\<exists>h' p. prepare_channel_session_transition demo_lib (demo_options ''n'') (empty_channel demo_observed) = (h', Inr p)
     \<and> channel_session_transition_admission demo_lib ''l'' ''s'' h' = Inr HoldPendingNew
     \<and> channel_session_transition_admission demo_lib ''l'' ''s''
         (run_op demo_lib (RecordOp (pt_intent p) BoundaryCommitted ''o'' 6) h') = Inr AdmissionOpen"
proof -
  obtain w p where prep: "prepare_channel_session_transition demo_lib (demo_options ''n'') (empty_channel demo_observed)
      = (channel_of demo_lib w demo_observed, Inr p)" using demo_prepared by metis
  have run: "channel_run demo_lib [] h = h" for h by (simp add: channel_run_def)
  have cf: "collision_free (tl_closure demo_lib)" by (simp add: demo_cl_collision_free)
  from new_session_gate [OF demo_lib_ok cf run [symmetric] prep, of "[]" "''o''" 6] prep
  show ?thesis by (simp add: demo_options_def run)
qed

text \<open>The four phases that remain, and the home after them.\<close>

definition demo_rest :: "(GoalClosurePhaseV1 \<times> GoalClosurePhaseInputV1) list" where
  "demo_rest = map (\<lambda>p. (p, demo_input ResultSucceeded))
     [BackendResultRecorded, TerminalProjectionRecorded, LineageReconciled, PhaseCompleted]"

lemma demo_phase_step:
  assumes valid: "validate_intent demo_cl i = Inr ()" and inv: "closure_inv demo_cl [i] (walked demo_cl i ps)"
    and w: "w_intents w = [i]" "w_receipts w = walked demo_cl i ps"
    and p: "p \<notin> fst ` set ps" "ordinal p = length ps" "p \<notin> {IntentRecorded, UnknownPhase}"
    and last: "1 < ordinal p \<Longrightarrow> snd (last ps) = demo_input ResultSucceeded"
  shows "closure_inv demo_cl [i] (walked demo_cl i (ps @ [(p, demo_input ResultSucceeded)]))
    \<and> run_op demo_lib (ClosurePhaseOp i p (demo_input ResultSucceeded)) (channel_of demo_lib w l)
        = channel_of demo_lib (w\<lparr>w_receipts := walked demo_cl i (ps @ [(p, demo_input ResultSucceeded)])\<rparr>) l"
proof -
  have "validate_phase_evidence p (demo_input ResultSucceeded) = Inr ()"
    using p(3) by (cases p) (auto simp: validate_phase_evidence_def demo_input_def absent_or_empty_def)
  with walk_step [OF demo_cl_ok demo_cl_collision_free valid inv p(1,2), of "demo_input ResultSucceeded"] last
  have step: "closure_inv demo_cl [i] (walked demo_cl i (ps @ [(p, demo_input ResultSucceeded)]))"
    "fst (record_goal_closure_phase demo_cl i p (demo_input ResultSucceeded) (home_of demo_cl [i] (walked demo_cl i ps)))
      = home_of demo_cl [i] (walked demo_cl i (ps @ [(p, demo_input ResultSucceeded)]))"
    by (simp_all add: demo_input_def)
  then show ?thesis using w by (simp add: channel_of_def)
qed

lemma demo_all_phases:
  assumes valid: "validate_intent demo_cl i = Inr ()"
    and inv: "closure_inv demo_cl [i] (walked demo_cl i [(IntentRecorded, demo_evidence)])"
    and w: "w_intents w = [i]" "w_receipts w = walked demo_cl i [(IntentRecorded, demo_evidence)]"
  shows "closure_inv demo_cl [i] (walked demo_cl i ((IntentRecorded, demo_evidence) # demo_rest))
    \<and> channel_run demo_lib (map (\<lambda>(p, x). ClosurePhaseOp i p x) demo_rest) (channel_of demo_lib w l)
    = channel_of demo_lib (w\<lparr>w_receipts := walked demo_cl i ((IntentRecorded, demo_evidence) # demo_rest)\<rparr>) l"
proof -
  let ?s = "demo_input ResultSucceeded" and ?p0 = "(IntentRecorded, demo_evidence)"
  let ?w1 = "w\<lparr>w_receipts := walked demo_cl i [?p0, (BackendResultRecorded, ?s)]\<rparr>"
  let ?w2 = "w\<lparr>w_receipts := walked demo_cl i [?p0, (BackendResultRecorded, ?s), (TerminalProjectionRecorded, ?s)]\<rparr>"
  let ?w3 = "w\<lparr>w_receipts := walked demo_cl i [?p0, (BackendResultRecorded, ?s), (TerminalProjectionRecorded, ?s),
    (LineageReconciled, ?s)]\<rparr>"
  note st = demo_phase_step [OF valid]
  have 1: "closure_inv demo_cl [i] (walked demo_cl i [?p0, (BackendResultRecorded, ?s)])
      \<and> run_op demo_lib (ClosurePhaseOp i BackendResultRecorded ?s) (channel_of demo_lib w l) = channel_of demo_lib ?w1 l"
    using st [OF inv w, where p = BackendResultRecorded and l = l] by (simp del: run_op.simps walked_simps)
  have 2: "closure_inv demo_cl [i] (walked demo_cl i [?p0, (BackendResultRecorded, ?s), (TerminalProjectionRecorded, ?s)])
      \<and> run_op demo_lib (ClosurePhaseOp i TerminalProjectionRecorded ?s) (channel_of demo_lib ?w1 l) = channel_of demo_lib ?w2 l"
    using st [OF conjunct1 [OF 1], where w = ?w1 and p = TerminalProjectionRecorded and l = l] w(1) by (simp del: run_op.simps walked_simps)
  have 3: "closure_inv demo_cl [i] (walked demo_cl i [?p0, (BackendResultRecorded, ?s), (TerminalProjectionRecorded, ?s),
        (LineageReconciled, ?s)])
      \<and> run_op demo_lib (ClosurePhaseOp i LineageReconciled ?s) (channel_of demo_lib ?w2 l) = channel_of demo_lib ?w3 l"
    using st [OF conjunct1 [OF 2], where w = ?w2 and p = LineageReconciled and l = l] w(1) by (simp del: run_op.simps walked_simps)
  have "closure_inv demo_cl [i] (walked demo_cl i (?p0 # demo_rest))
      \<and> run_op demo_lib (ClosurePhaseOp i PhaseCompleted ?s) (channel_of demo_lib ?w3 l)
      = channel_of demo_lib (w\<lparr>w_receipts := walked demo_cl i (?p0 # demo_rest)\<rparr>) l"
    using st [OF conjunct1 [OF 3], where w = ?w3 and p = PhaseCompleted and l = l] w(1) by (simp add: demo_rest_def del: run_op.simps walked_simps)
  with 1 2 3 show ?thesis by (simp add: channel_run_def demo_rest_def del: run_op.simps walked_simps)
qed

theorem ready_boundary_closed_witness:
  "(\<exists>ops h' p cid rs. prepare_channel_session_transition demo_lib (demo_options ''m'')
       (channel_run demo_lib ops (empty_channel demo_observed)) = (h', Inr p)
     \<and> pt_boundary_ready p \<and> ti_goal_closure_id (pt_intent p) = Some cid
     \<and> goal_closure_receipts_for_id demo_cl cid (ch_closure h') = Inr rs \<and> length rs = 5)
   \<and> (\<exists>h' p g. prepare_channel_session_transition demo_lib (demo_options ''n'') (empty_channel quiet_lane) = (h', Inr p)
     \<and> pt_boundary_ready p \<and> frozen_at demo_lib (demo_options ''n'') g (pt_intent p)
     \<and> list_all (\<lambda>x. \<not> is_active_status (gl_goal_status x))
         (lr_lineages (run_goal_lineage_doctor demo_ll (Some ''l'') None (ch_lineage g))))"
    (is "?closed \<and> ?quiet")
proof -
  obtain i w p where i: "validate_intent demo_cl i = Inr ()"
    and prep: "prepare_channel_session_transition demo_lib (demo_options ''n'') (empty_channel demo_observed)
      = (channel_of demo_lib w demo_observed, Inr p)" and inv: "channel_inv demo_lib w"
    and w: "w_intents w = [i]" "w_receipts w = walked demo_cl i [(IntentRecorded, demo_evidence)]" "w_transitions w = [pt_intent p]"
    and t: "ti_transition_id (pt_intent p) = demo_tid" "ti_goal_closure_id (pt_intent p) = Some (ci_closure_id i)"
      "ti_goal_boundary (pt_intent p) = ClosurePending"
    by (rule demo_prepared)
  let ?ops = "PrepareOp (demo_options ''n'') # map (\<lambda>(p, x). ClosurePhaseOp i p x) demo_rest"
  let ?w = "w\<lparr>w_receipts := walked demo_cl i ((IntentRecorded, demo_evidence) # demo_rest)\<rparr>"
  have cinv: "closure_inv demo_cl [i] (walked demo_cl i [(IntentRecorded, demo_evidence)])"
    using inv w by (simp add: channel_inv_def)
  have "channel_run demo_lib ?ops (empty_channel demo_observed)
      = channel_run demo_lib (map (\<lambda>(p, x). ClosurePhaseOp i p x) demo_rest) (channel_of demo_lib w demo_observed)"
    by (simp add: channel_run_def prep)
  then have run: "channel_run demo_lib ?ops (empty_channel demo_observed) = channel_of demo_lib ?w demo_observed"
    using demo_all_phases [OF i cinv w(1,2), of demo_observed] by simp
  have "channel_inv demo_lib (w\<lparr>w_intents := [i], w_receipts := walked demo_cl i ((IntentRecorded, demo_evidence) # demo_rest)\<rparr>)"
    by (rule conjunct1 [OF channel_inv_closure [OF inv]]) (use demo_all_phases [OF i cinv w(1,2)] w in auto)
  moreover have "w\<lparr>w_intents := [i]\<rparr> = w" using w(1) by simp
  ultimately have inv': "channel_inv demo_lib ?w" by simp
  have "durable_goal_boundary_is_ready demo_lib (channel_of demo_lib ?w demo_observed) (pt_intent p) = Inr True"
    using durable_ready_channel [OF demo_lib_ok inv'] t(2)
    by (auto simp: demo_rest_def completed_receipt_def demo_input_def)
  then have prep2: "prepare_channel_session_transition demo_lib (demo_options ''m'')
      (channel_run demo_lib ?ops (empty_channel demo_observed)) = (channel_of demo_lib ?w demo_observed,
        Inr \<lparr>pt_intent = pt_intent p, pt_replayed = True, pt_boundary_ready = True\<rparr>)"
    using stored_transition(1) [OF inv, of "pt_intent p"] w(3) t(1)
    by (simp add: run prepare_channel_session_transition_def demo_options_valid read_channel [OF demo_lib_ok])
      (simp add: demo_options_def)
  have cf: "collision_free (tl_closure demo_lib)" by (simp add: demo_cl_collision_free)
  from ready_boundary_closed [OF demo_lib_ok cf refl prep2] t(2,3)
  obtain rs where "goal_closure_receipts_for_id demo_cl (ci_closure_id i) (ch_closure (channel_of demo_lib ?w demo_observed)) = Inr rs"
    and "map cr_phase rs = [IntentRecorded, BackendResultRecorded, TerminalProjectionRecorded, LineageReconciled, PhaseCompleted]"
    by auto
  moreover from this(2) have "length rs = 5" using length_map [of cr_phase rs] by simp
  ultimately have closed: ?closed
    using prep2 t(2) by (intro exI [of _ ?ops] exI [of _ "channel_of demo_lib ?w demo_observed"]
      exI [of _ "\<lparr>pt_intent = pt_intent p, pt_replayed = True, pt_boundary_ready = True\<rparr>"] exI [of _ "ci_closure_id i"]
      exI [of _ rs]) simp
  obtain h' p where quiet: "prepare_channel_session_transition demo_lib (demo_options ''n'') (empty_channel quiet_lane) = (h', Inr p)"
    "pt_boundary_ready p" "ti_goal_closure_id (pt_intent p) = None" by (rule demo_quiet)
  have run: "empty_channel quiet_lane = channel_run demo_lib [] (empty_channel quiet_lane)" by (simp add: channel_run_def)
  from ready_boundary_closed [OF demo_lib_ok cf run quiet(1,2)] quiet(3)
  obtain g where "frozen_at demo_lib (demo_options ''n'') g (pt_intent p)"
    "\<forall>x \<in> set (lr_lineages (run_goal_lineage_doctor demo_ll (Some ''l'') None (ch_lineage g))). \<not> is_active_status (gl_goal_status x)"
    by (auto simp: Cons_eq_append_conv demo_options_lane)
  with quiet(1,2) have ?quiet by (auto simp: list_all_iff)
  with closed show ?thesis by (rule conjI)
qed

theorem pending_transitions_exact_witness:
  "\<exists>ps. pending_channel_session_transition_intents demo_lib 3
     (channel_run demo_lib [PrepareOp (demo_options ''n'')] (empty_channel demo_observed)) = Inr (take 3 ps) \<and> distinct ps"
  using pending_transitions_exact [OF demo_lib_ok refl, of 3 "[PrepareOp (demo_options ''n'')]" demo_observed] by auto

theorem closure_material_exact_witness:
  "\<exists>ts t m. read_intents demo_lib (channel_run demo_lib [PrepareOp (demo_options ''n'')] (empty_channel demo_observed)) = Inr ts
     \<and> t \<in> set ts \<and> channel_session_transition_closure_material demo_lib t
          (channel_run demo_lib [PrepareOp (demo_options ''n'')] (empty_channel demo_observed)) = Inr (Some m)
     \<and> cs_disposition (tm_resolution m) = TargetExact"
proof -
  obtain i w p where "validate_intent demo_cl i = Inr ()"
    and prep: "prepare_channel_session_transition demo_lib (demo_options ''n'') (empty_channel demo_observed)
      = (channel_of demo_lib w demo_observed, Inr p)"
    and "channel_inv demo_lib w" "w_intents w = [i]" "w_receipts w = walked demo_cl i [(IntentRecorded, demo_evidence)]"
    and w: "w_transitions w = [pt_intent p]" and "ti_transition_id (pt_intent p) = demo_tid"
    and t: "ti_goal_closure_id (pt_intent p) = Some (ci_closure_id i)" and "ti_goal_boundary (pt_intent p) = ClosurePending"
    by (rule demo_prepared)
  let ?h = "channel_run demo_lib [PrepareOp (demo_options ''n'')] (empty_channel demo_observed)"
  have read: "read_intents demo_lib ?h = Inr [pt_intent p]"
    by (simp add: channel_run_def prep read_channel [OF demo_lib_ok] w)
  have cf: "collision_free (tl_closure demo_lib)" by (simp add: demo_cl_collision_free)
  from closure_material_exact [OF demo_lib_ok cf refl read _ t] read show ?thesis by auto
qed

end
