(* ===== verification/Channel_Session_Key.thy ===== *)
theory Channel_Session_Key
  imports Lane
begin

text \<open>
  Canonical channel session keys (\<open>src/crates/agent-harness-core/src/channel_session_key.rs\<close>): a
  key is a root, the account binding of its exact lane and, from the second backend session on,
  a continuation number. The parser accepts the canonical form, repairs one legacy form and
  rejects keys bound to another account. \<open>sha256\<close> is the digest of the library \<open>ring\<close>.
\<close>

section \<open>Data\<close>

datatype SessionKeyNormalization =
    AlreadyCanonical | AccountBindingInserted | LegacyDuplicateAccountCollapsed

datatype SessionKeyError =
    EmptyRoot | InvalidContinuation | MissingExpectedAccount | MismatchedAccount
  | AmbiguousDuplicateAccount

fun session_key_error_display :: "SessionKeyError \<Rightarrow> string" where
  "session_key_error_display EmptyRoot = ''channel session key has an empty root''"
| "session_key_error_display InvalidContinuation =
     ''channel session key has an invalid continuation suffix''"
| "session_key_error_display MissingExpectedAccount =
     ''channel session key is missing its exact-lane account binding''"
| "session_key_error_display MismatchedAccount =
     ''channel session key contains a different exact-lane account binding''"
| "session_key_error_display AmbiguousDuplicateAccount =
     ''channel session key contains ambiguous duplicate account bindings''"

record CanonicalChannelSessionKey =
  sk_root :: string
  sk_account_binding :: string
  sk_continuation_index :: u64
  sk_normalization :: SessionKeyNormalization

section \<open>Account bindings\<close>

text \<open>
  One character of the result for each character of the argument: bytes that continue a
  character of more than one byte are part of that character.
\<close>

definition key_part_byte :: "char \<Rightarrow> string" where
  "key_part_byte c =
     (if is_ascii_alphanumeric c \<or> c \<in> set ''-_.'' then [ascii_lower c]
      else if 128 \<le> (of_char c :: nat) \<and> (of_char c :: nat) < 192 then [] else ''_'')"

definition normalize_key_part :: "string \<Rightarrow> string" where
  "normalize_key_part v =
     (let normalized = concat (map key_part_byte v) in
      if normalized = [] then ''unknown'' else normalized)"

definition session_lane_args ::
    "string \<Rightarrow> string \<Rightarrow> string \<Rightarrow> string \<Rightarrow> string \<Rightarrow> FullLaneAxisV1 \<Rightarrow> string" where
  "session_lane_args platform account_id channel_id user_id agent_id axis =
     (case axis of
        Platform \<Rightarrow> platform | AccountId \<Rightarrow> account_id | ChannelId \<Rightarrow> channel_id
      | UserId \<Rightarrow> user_id | AgentId \<Rightarrow> agent_id | RuntimeClass \<Rightarrow> ''interactive''
      | RootVirtualSession \<Rightarrow> ''channel-session'' | ConcreteSession \<Rightarrow> ''channel-session'')"

definition expected_account_binding ::
    "(string \<Rightarrow> string) \<Rightarrow> string \<Rightarrow> string \<Rightarrow> string \<Rightarrow> string \<Rightarrow> string \<Rightarrow> string" where
  "expected_account_binding sha256 platform account_id channel_id user_id agent_id =
     (let fallback = ''acct-'' @ normalize_key_part account_id in
      case lane_new (session_lane_args platform account_id channel_id user_id agent_id) of
        Inl _ \<Rightarrow> fallback
      | Inr lane \<Rightarrow>
          (case identity_hash sha256 lane of
             Inr h \<Rightarrow> ''acct-'' @ h
           | Inl _ \<Rightarrow> fallback))"

definition contains_account_binding :: "string \<Rightarrow> bool" where
  "contains_account_binding v \<longleftrightarrow>
     list_ex (\<lambda>part. starts_with part ''acct-'') (split_on (CHR '':'') v)"

section \<open>Parsing\<close>

definition validate_raw :: "string \<Rightarrow> SessionKeyError + string" where
  "validate_raw v = (if v = [] \<or> trim v \<noteq> v \<or> has_control v then Inl EmptyRoot else Inr v)"

definition validate_root :: "string \<Rightarrow> SessionKeyError + unit" where
  "validate_root root = (if root = [] then Inl EmptyRoot else Inr ())"

definition parse_terminal_continuation :: "string \<Rightarrow> SessionKeyError + string \<times> u64" where
  "parse_terminal_continuation v =
     (case rsplit_once v '':cont-'' of
        None \<Rightarrow> Inr (v, 0)
      | Some (root, suffix) \<Rightarrow>
          if root = [] \<or> suffix = [] \<or> \<not> list_all is_ascii_digit suffix
          then Inl InvalidContinuation
          else (case parse_u64 suffix of
            None \<Rightarrow> Inl InvalidContinuation
          | Some n \<Rightarrow> if n = 0 then Inl InvalidContinuation else Inr (root, n)))"

definition parse_structural :: "string \<Rightarrow> SessionKeyError + string \<times> u64" where
  "parse_structural raw =
     (case validate_raw raw of Inl e \<Rightarrow> Inl e | Inr raw \<Rightarrow> parse_terminal_continuation raw)"

text \<open>
  The first branch of \<open>parse_bound\<close>: a legacy key that repeats its binding after the
  continuation. \<open>None\<close> means that the key does not have that form.
\<close>

definition parse_duplicate ::
    "string \<Rightarrow> string \<Rightarrow> (SessionKeyError + CanonicalChannelSessionKey) option" where
  "parse_duplicate raw expected =
     (let expected_segment = '':'' @ expected in
      case strip_suffix raw expected_segment of
        None \<Rightarrow> None
      | Some without_duplicate \<Rightarrow>
          (case parse_terminal_continuation without_duplicate of
             Inl _ \<Rightarrow> None
           | Inr (bound_root, n) \<Rightarrow>
               if n > 0 \<and> ends_with bound_root expected_segment
               then Some (case strip_suffix bound_root expected_segment of
                 None \<Rightarrow> Inl AmbiguousDuplicateAccount
               | Some root \<Rightarrow>
                   (case validate_root root of
                      Inl e \<Rightarrow> Inl e
                    | Inr _ \<Rightarrow>
                        if contains_account_binding root then Inl AmbiguousDuplicateAccount
                        else Inr \<lparr>sk_root = root, sk_account_binding = expected,
                               sk_continuation_index = n,
                               sk_normalization = LegacyDuplicateAccountCollapsed\<rparr>))
               else None))"

definition parse_plain :: "string \<Rightarrow> string \<Rightarrow> SessionKeyError + CanonicalChannelSessionKey" where
  "parse_plain raw expected =
     (let expected_segment = '':'' @ expected in
      case parse_terminal_continuation raw of
        Inl e \<Rightarrow> Inl e
      | Inr (bound_root, n) \<Rightarrow>
          (case strip_suffix bound_root expected_segment of
             None \<Rightarrow> if contains_account_binding bound_root then Inl MismatchedAccount
                     else Inl MissingExpectedAccount
           | Some root \<Rightarrow>
               (case validate_root root of
                  Inl e \<Rightarrow> Inl e
                | Inr _ \<Rightarrow>
                    if contains_account_binding root then Inl AmbiguousDuplicateAccount
                    else Inr \<lparr>sk_root = root, sk_account_binding = expected,
                           sk_continuation_index = n, sk_normalization = AlreadyCanonical\<rparr>)))"

definition parse_bound :: "string \<Rightarrow> string \<Rightarrow> SessionKeyError + CanonicalChannelSessionKey" where
  "parse_bound raw_session_key expected =
     (case validate_raw raw_session_key of
        Inl e \<Rightarrow> Inl e
      | Inr raw \<Rightarrow>
          (case parse_duplicate raw expected of
             Some result \<Rightarrow> result
           | None \<Rightarrow>
               (case rsplit_once raw '':acct-'' of
                  Some (prefix, tail_account) \<Rightarrow>
                    if contains prefix '':cont-'' \<and> ''acct-'' @ tail_account \<noteq> expected
                    then Inl MismatchedAccount else parse_plain raw expected
                | None \<Rightarrow> parse_plain raw expected)))"

definition parse_for_lane ::
    "(string \<Rightarrow> string) \<Rightarrow> string \<Rightarrow> string \<Rightarrow> string \<Rightarrow> string \<Rightarrow> string \<Rightarrow> string
      \<Rightarrow> SessionKeyError + CanonicalChannelSessionKey" where
  "parse_for_lane sha256 raw platform account_id channel_id user_id agent_id =
     parse_bound raw (expected_account_binding sha256 platform account_id channel_id user_id agent_id)"

definition bind_to :: "string \<Rightarrow> string \<Rightarrow> SessionKeyError + CanonicalChannelSessionKey" where
  "bind_to raw expected =
     (case parse_bound raw expected of
        Inr parsed \<Rightarrow> Inr parsed
      | Inl MissingExpectedAccount \<Rightarrow>
          (case parse_structural raw of
             Inl e \<Rightarrow> Inl e
           | Inr (root, n) \<Rightarrow>
               if contains_account_binding root then Inl MismatchedAccount
               else Inr \<lparr>sk_root = root, sk_account_binding = expected,
                      sk_continuation_index = n, sk_normalization = AccountBindingInserted\<rparr>)
      | Inl e \<Rightarrow> Inl e)"

definition bind_for_lane ::
    "(string \<Rightarrow> string) \<Rightarrow> string \<Rightarrow> string \<Rightarrow> string \<Rightarrow> string \<Rightarrow> string \<Rightarrow> string
      \<Rightarrow> SessionKeyError + CanonicalChannelSessionKey" where
  "bind_for_lane sha256 raw platform account_id channel_id user_id agent_id =
     bind_to raw (expected_account_binding sha256 platform account_id channel_id user_id agent_id)"

definition canonical_string :: "CanonicalChannelSessionKey \<Rightarrow> string" where
  "canonical_string k =
     (let bound_root = sk_root k @ '':'' @ sk_account_binding k in
      if sk_continuation_index k = 0 then bound_root
      else bound_root @ '':cont-'' @ show_u64 (sk_continuation_index k))"

definition continuation ::
    "CanonicalChannelSessionKey \<Rightarrow> u64 \<Rightarrow> SessionKeyError + CanonicalChannelSessionKey" where
  "continuation k n =
     (if n = 0 then Inl InvalidContinuation
      else Inr \<lparr>sk_root = sk_root k, sk_account_binding = sk_account_binding k,
             sk_continuation_index = n, sk_normalization = AlreadyCanonical\<rparr>)"

definition structural_root_and_continuation :: "string \<Rightarrow> SessionKeyError + string \<times> u64" where
  "structural_root_and_continuation raw_session_key =
     (case validate_raw raw_session_key of
        Inl e \<Rightarrow> Inl e
      | Inr raw \<Rightarrow>
          (case rsplit_once raw '':acct-'' of
             None \<Rightarrow> parse_terminal_continuation raw
           | Some (without_tail, tail_account) \<Rightarrow>
               let tail_segment = '':acct-'' @ tail_account in
               (case parse_terminal_continuation without_tail of
                  Inl _ \<Rightarrow> parse_terminal_continuation raw
                | Inr (prefix, n) \<Rightarrow>
                    if n > 0 \<and> ends_with prefix tail_segment
                    then (case strip_suffix prefix tail_segment of
                      None \<Rightarrow> Inl AmbiguousDuplicateAccount
                    | Some root \<Rightarrow>
                        if root = [] \<or> contains_account_binding root
                        then Inl AmbiguousDuplicateAccount
                        else Inr (root @ tail_segment, n))
                    else parse_terminal_continuation raw)))"

section \<open>Well-formed bindings and roots\<close>

definition binding_ok :: "string \<Rightarrow> bool" where
  "binding_ok e \<longleftrightarrow> (\<exists>x. e = ''acct-'' @ x \<and> CHR '':'' \<notin> set x \<and> list_all ascii_graphic x)"

definition root_ok :: "string \<Rightarrow> bool" where
  "root_ok root \<longleftrightarrow> root \<noteq> [] \<and> ws_prefix_len root = 0 \<and> \<not> has_control root
     \<and> \<not> contains_account_binding root"

lemma lower_hex_graphic: "is_lower_hex_byte c \<Longrightarrow> ascii_graphic c \<and> c \<noteq> CHR '':''"
  by (auto simp: is_lower_hex_byte_def is_ascii_digit_def ascii_graphic_def)

lemma key_part_graphic: "c \<in> set (key_part_byte b) \<Longrightarrow> ascii_graphic c \<and> c \<noteq> CHR '':''"
  by (auto simp: key_part_byte_def is_ascii_alphanumeric_def is_ascii_digit_def ascii_graphic_def
      ascii_lower_def split: if_splits dest!: arg_cong [where f = "of_char :: char \<Rightarrow> nat"])

lemma key_part_ok:
  "CHR '':'' \<notin> set (normalize_key_part v) \<and> list_all ascii_graphic (normalize_key_part v)"
  using key_part_graphic
  by (auto simp: normalize_key_part_def Let_def list_all_iff ascii_graphic_def)

lemma binding_ok_expected:
  "binding_ok (expected_account_binding sha256 platform account_id channel_id user_id agent_id)"
proof -
  have hex: "CHR '':'' \<notin> set (hex_encode bs) \<and> list_all ascii_graphic (hex_encode bs)" for bs
    using hex_encode_lower [of bs] lower_hex_graphic by (auto simp: list_all_iff)
  have "\<exists>bs. h = hex_encode bs" if "identity_hash sha256 lane = Inr h" for lane h
    using that by (auto simp: identity_hash_def split: sum.splits)
  then show ?thesis
    using hex key_part_ok
    by (fastforce simp: binding_ok_def expected_account_binding_def Let_def split: sum.splits)
qed

lemma has_control_prefix: "has_control a \<Longrightarrow> has_control (a @ b)"
proof (induction a)
  case (Cons c a)
  then show ?case by (cases a) auto
qed simp

lemma has_control_append_colon:
  "has_control (a @ CHR '':'' # b) \<longleftrightarrow> has_control a \<or> has_control b"
proof (induction a)
  case (Cons c a)
  then show ?case by (cases a) simp_all
qed simp

lemma white_space_no_colon: "w \<in> set white_space_encodings \<Longrightarrow> CHR '':'' \<notin> set w"
proof -
  assume "w \<in> set white_space_encodings"
  then have "\<forall>c \<in> set w. \<not> ascii_graphic c"
    by (auto simp: white_space_encodings_def byte_def ascii_graphic_def)
  then show ?thesis by (auto simp: ascii_graphic_def)
qed

lemma ws_prefix_len_colon:
  assumes "ws_prefix_len root = 0"
  shows "ws_prefix_len (root @ CHR '':'' # b) = 0"
  unfolding ws_prefix_len_0_iff
proof
  fix w
  assume w: "w \<in> set white_space_encodings"
  show "\<not> starts_with (root @ CHR '':'' # b) w"
  proof
    assume "starts_with (root @ CHR '':'' # b) w"
    then obtain r where r: "root @ CHR '':'' # b = w @ r" by (auto simp: starts_with_iff)
    then have "starts_with root w \<or> CHR '':'' \<in> set w"
      by (auto simp: append_eq_append_conv2 starts_with_iff Cons_eq_append_conv)
    with w assms white_space_no_colon show False by (auto simp: ws_prefix_len_0_iff)
  qed
qed

lemma validate_raw_bound:
  assumes "root_ok root" and "list_all ascii_graphic s" and "s \<noteq> []"
  shows "validate_raw (root @ CHR '':'' # s) = Inr (root @ CHR '':'' # s)"
proof -
  have "ws_suffix_len (root @ CHR '':'' # s) = 0"
    unfolding ws_suffix_len_0_iff
  proof
    fix w
    assume w: "w \<in> set white_space_encodings"
    have "ascii_graphic (last (root @ CHR '':'' # s))" using assms(2,3) by (simp add: list_all_iff)
    with w white_space_last_not_graphic white_space_encodings_nonempty
    show "\<not> ends_with (root @ CHR '':'' # s) w" by (metis ends_with_iff last_appendR)
  qed
  moreover have "ws_prefix_len (root @ CHR '':'' # s) = 0"
    using assms(1) by (simp add: root_ok_def ws_prefix_len_colon)
  ultimately have "trim (root @ CHR '':'' # s) = root @ CHR '':'' # s" by (simp add: trim_eq_self_iff)
  moreover have "\<not> has_control (root @ CHR '':'' # s)"
    using assms by (simp add: has_control_append_colon graphic_no_control root_ok_def)
  ultimately show ?thesis by (simp add: validate_raw_def)
qed

lemma parse_terminal_prefix:
  "parse_terminal_continuation v = Inr (root, n) \<Longrightarrow>
     (\<exists>rest. v = root @ rest) \<and> (v \<noteq> [] \<longrightarrow> root \<noteq> [])"
  by (auto simp: parse_terminal_continuation_def dest!: rsplit_once_Some [rotated]
      split: option.splits if_splits)

lemma prefix_root_ok:
  assumes "validate_raw raw = Inr raw'" and "raw' = root @ rest" and "root \<noteq> []"
    and "\<not> contains_account_binding root"
  shows "root_ok root"
proof -
  have raw: "raw' = raw" "ws_prefix_len raw = 0" "\<not> has_control raw"
    using assms(1) by (auto simp: validate_raw_def trim_eq_self_iff split: if_splits)
  then have "ws_prefix_len (take (length root) raw) = 0" by (simp add: ws_prefix_len_take_0)
  with raw assms has_control_prefix show ?thesis by (auto simp: root_ok_def)
qed

lemma parse_duplicate_root:
  "parse_duplicate raw e = Some (Inr k) \<Longrightarrow> sk_account_binding k = e \<and> sk_root k \<noteq> []
     \<and> \<not> contains_account_binding (sk_root k) \<and> (\<exists>rest. raw = sk_root k @ rest)"
  by (auto simp: parse_duplicate_def Let_def validate_root_def strip_suffix_Some_iff
      dest!: parse_terminal_prefix split: option.splits sum.splits if_splits)

lemma parse_plain_root:
  "parse_plain raw e = Inr k \<Longrightarrow> sk_account_binding k = e \<and> sk_root k \<noteq> []
     \<and> \<not> contains_account_binding (sk_root k) \<and> (\<exists>rest. raw = sk_root k @ rest)"
  by (auto simp: parse_plain_def Let_def validate_root_def strip_suffix_Some_iff
      dest!: parse_terminal_prefix split: option.splits sum.splits if_splits)

lemma parse_bound_root:
  assumes "parse_bound raw e = Inr k"
  shows "sk_account_binding k = e \<and> root_ok (sk_root k)"
proof -
  obtain raw' where raw': "validate_raw raw = Inr raw'"
    and "parse_duplicate raw' e = Some (Inr k) \<or> parse_plain raw' e = Inr k"
    using assms by (auto simp: parse_bound_def split: sum.splits option.splits prod.splits if_splits)
  then show ?thesis
    using parse_duplicate_root [of raw' e k] parse_plain_root [of raw' e k] prefix_root_ok [OF raw']
    by auto
qed

lemma bind_to_root:
  assumes "bind_to raw e = Inr k"
  shows "sk_account_binding k = e \<and> root_ok (sk_root k)"
proof (cases "parse_bound raw e")
  case (Inr k')
  with assms show ?thesis by (simp add: bind_to_def parse_bound_root)
next
  case (Inl err)
  with assms obtain n where "err = MissingExpectedAccount" and n: "parse_structural raw = Inr (sk_root k, n)"
    and k: "\<not> contains_account_binding (sk_root k)" "sk_account_binding k = e"
    by (auto simp: bind_to_def split: SessionKeyError.splits sum.splits if_splits)
  then obtain raw' where raw': "validate_raw raw = Inr raw'"
    and p: "parse_terminal_continuation raw' = Inr (sk_root k, n)"
    by (auto simp: parse_structural_def split: sum.splits)
  have "raw' \<noteq> []" using raw' by (auto simp: validate_raw_def split: if_splits)
  with parse_terminal_prefix [OF p] k prefix_root_ok [OF raw'] show ?thesis by auto
qed

section \<open>Parsing canonical strings\<close>

lemma last_segment:
  assumes "a @ c # b = a' @ c # b'" and "c \<notin> set b" and "c \<notin> set b'"
  shows "b = b'"
proof -
  have "rev b @ c # rev a = rev b' @ c # rev a'"
    using arg_cong [OF assms(1), of rev] by simp
  then have "takeWhile (\<lambda>y. y \<noteq> c) (rev b @ c # rev a) = takeWhile (\<lambda>y. y \<noteq> c) (rev b' @ c # rev a')"
    by simp
  moreover have "takeWhile (\<lambda>y. y \<noteq> c) (rev u @ c # v) = rev u" if "c \<notin> set u" for u v
    using that by (subst takeWhile_append2) auto
  ultimately show ?thesis using assms(2,3) by simp
qed

lemma split_on_append:
  "split_on c (a @ c # b) = split_on c a @ split_on c b"
proof (induction a)
  case (Cons x a)
  have "split_on c a \<noteq> []" by (cases a) (auto split: list.splits)
  with Cons show ?case by (auto split: list.splits)
qed simp

lemma split_on_single: "c \<notin> set a \<Longrightarrow> split_on c a = [a]"
  by (induction a) auto

lemma bound_has_binding: "binding_ok e \<Longrightarrow> contains_account_binding (root @ CHR '':'' # e)"
  by (auto simp: binding_ok_def contains_account_binding_def split_on_append split_on_single
      starts_with_def)

text \<open>What follows the root in the canonical string of a key.\<close>

definition key_tail :: "string \<Rightarrow> u64 \<Rightarrow> string" where
  "key_tail e n = (if n = 0 then e else e @ '':cont-'' @ show_u64 n)"

lemma canonical_string_tail:
  "canonical_string k = sk_root k @ CHR '':'' # key_tail (sk_account_binding k) (sk_continuation_index k)"
  by (simp add: canonical_string_def key_tail_def Let_def)

lemma show_u64_no_colon: "CHR '':'' \<notin> set (show_u64 n)"
  using show_u64_digits [of n] by (auto simp: list_all_iff is_ascii_digit_def)

lemma key_tail_graphic: "binding_ok e \<Longrightarrow> list_all ascii_graphic (key_tail e n) \<and> key_tail e n \<noteq> []"
  using show_u64_digits [of n]
  by (auto simp: binding_ok_def key_tail_def list_all_iff ascii_graphic_def is_ascii_digit_def)

lemma rsplit_acct_canonical:
  assumes "e = ''acct-'' @ x" and "CHR '':'' \<notin> set x"
  shows "rsplit_once (root @ CHR '':'' # key_tail e n) '':acct-'' = Some (root, drop 5 (key_tail e n))"
proof -
  let ?b = "drop 5 (key_tail e n)"
  have t: "key_tail e n = ''acct-'' @ ?b" by (simp add: key_tail_def assms(1))
  have "\<not> contains (''acct-'' @ ?b) '':acct-''"
  proof (cases "n = 0")
    case True
    with assms show ?thesis by (intro contains_no_head) (simp add: key_tail_def)
  next
    case False
    then have b: "''acct-'' @ ?b = e @ '':cont-'' @ show_u64 n" using t by (simp add: key_tail_def)
    have "\<not> contains ('':cont-'' @ show_u64 n) '':acct-''"
      using contains_no_head [of "CHR '':''" "''cont-'' @ show_u64 n" "''acct-''"]
        show_u64_no_colon [of n] by (simp add: starts_with_def)
    then show ?thesis
      unfolding b using assms contains_skip [of "CHR '':''" e "'':cont-'' @ show_u64 n" "''acct-''"]
      by simp
  qed
  from rsplit_once_last [OF this, of root] t show ?thesis by simp
qed

lemma parse_terminal_canonical:
  assumes "root \<noteq> []" and "\<not> contains root '':cont-''" and "e = ''acct-'' @ x" and "CHR '':'' \<notin> set x"
  shows "parse_terminal_continuation (root @ CHR '':'' # key_tail e n) = Inr (root @ CHR '':'' # e, n)"
proof (cases "n = 0")
  case True
  have "\<not> contains (CHR '':'' # e) '':cont-''"
    using contains_no_head [of "CHR '':''" e "''cont-''"] assms(3,4) by (simp add: starts_with_def)
  then have "\<not> contains (root @ CHR '':'' # e) '':cont-''"
    using assms(2) contains_append_sep [of "CHR '':''" "''cont-''" root e] by simp
  with True show ?thesis
    by (simp add: parse_terminal_continuation_def key_tail_def rsplit_once_None [THEN iffD2])
next
  case False
  have "\<not> contains (''cont-'' @ show_u64 n) '':cont-''"
    using show_u64_no_colon [of n] by (intro contains_no_head) auto
  from rsplit_once_last [OF this, of "root @ CHR '':'' # e"]
  have "rsplit_once (root @ CHR '':'' # key_tail e n) '':cont-'' = Some (root @ CHR '':'' # e, show_u64 n)"
    using False by (simp add: key_tail_def)
  with False assms(1) show_u64_digits [of n] show ?thesis
    by (simp add: parse_terminal_continuation_def)
qed

text \<open>
  The parser on a canonical string, expecting any well-formed binding: it returns the key when
  the binding is the expected one and reports a mismatch otherwise.
\<close>

lemma parse_bound_canonical:
  assumes "root_ok root" and "\<not> contains root '':cont-''" and e: "binding_ok e" and e': "binding_ok e'"
  shows "parse_bound (root @ CHR '':'' # key_tail e n) e' =
    (if e = e' then Inr \<lparr>sk_root = root, sk_account_binding = e, sk_continuation_index = n,
                          sk_normalization = AlreadyCanonical\<rparr>
     else Inl MismatchedAccount)"
proof -
  let ?raw = "root @ CHR '':'' # key_tail e n"
  from e obtain x where x: "e = ''acct-'' @ x" "CHR '':'' \<notin> set x" by (auto simp: binding_ok_def)
  from e' obtain x' where x': "e' = ''acct-'' @ x'" "CHR '':'' \<notin> set x'" by (auto simp: binding_ok_def)
  have root: "root \<noteq> []" "\<not> contains_account_binding root" using assms(1) by (auto simp: root_ok_def)
  have raw: "validate_raw ?raw = Inr ?raw"
    using key_tail_graphic [OF e, of n] assms(1) by (simp add: validate_raw_bound)
  have strip: "strip_suffix (root @ CHR '':'' # e) (CHR '':'' # e') = (if e = e' then Some root else None)"
  proof (cases "e = e'")
    case False
    have "\<not> ends_with (root @ CHR '':'' # e) (CHR '':'' # e')"
      using last_segment [of root "CHR '':''" e _ e'] x x' False by (auto simp: ends_with_iff)
    with False show ?thesis by (simp add: strip_suffix_None_iff)
  qed simp
  have dup: "parse_duplicate ?raw e' = None"
  proof (cases "strip_suffix ?raw (CHR '':'' # e')")
    case (Some r)
    then have eq: "?raw = r @ CHR '':'' # e'" by (simp add: strip_suffix_Some_iff)
    have n0: "n = 0"
    proof (rule ccontr)
      assume "n \<noteq> 0"
      then have "?raw = (root @ CHR '':'' # e) @ CHR '':'' # ''cont-'' @ show_u64 n"
        by (simp add: key_tail_def)
      from last_segment [of "root @ CHR '':'' # e" "CHR '':''" "''cont-'' @ show_u64 n" r e'] eq this
      show False using x' show_u64_no_colon [of n] by simp
    qed
    then have "r = root" using eq last_segment [of root "CHR '':''" e r e'] x x' by (simp add: key_tail_def)
    then have "parse_terminal_continuation r = Inr (root, 0)"
      using assms(2) by (simp add: parse_terminal_continuation_def rsplit_once_None [THEN iffD2])
    with Some show ?thesis by (simp add: parse_duplicate_def)
  qed (simp add: parse_duplicate_def)
  have "parse_plain ?raw e' = (if e = e' then Inr \<lparr>sk_root = root, sk_account_binding = e,
      sk_continuation_index = n, sk_normalization = AlreadyCanonical\<rparr> else Inl MismatchedAccount)"
    using parse_terminal_canonical [OF root(1) assms(2) x, of n] strip root bound_has_binding [OF e, of root]
    by (simp add: parse_plain_def validate_root_def)
  with raw dup rsplit_acct_canonical [OF x, of root n] assms(2) show ?thesis
    by (simp add: parse_bound_def)
qed

section \<open>Concrete keys\<close>

lemma strip_binding_None:
  assumes "binding_ok e" and "CHR '':'' \<notin> set b" and "\<not> starts_with b ''acct-''"
  shows "strip_suffix (a @ CHR '':'' # b) (CHR '':'' # e) = None"
    and "strip_suffix b (CHR '':'' # e) = None"
proof -
  have e: "starts_with e ''acct-''" "CHR '':'' \<notin> set e"
    using assms(1) by (auto simp: binding_ok_def starts_with_def)
  show "strip_suffix (a @ CHR '':'' # b) (CHR '':'' # e) = None"
    using last_segment [of a "CHR '':''" b _ e] assms(2,3) e
    by (auto simp: strip_suffix_None_iff ends_with_iff)
  show "strip_suffix b (CHR '':'' # e) = None"
    using assms(2) by (auto simp: strip_suffix_None_iff ends_with_iff)
qed

lemma validate_raw_graphic: "list_all ascii_graphic s \<Longrightarrow> s \<noteq> [] \<Longrightarrow> validate_raw s = Inr s"
  using trim_graphic_ends [of s] by (auto simp: validate_raw_def graphic_no_control list_all_iff)

lemma bind_plain:
  assumes "binding_ok e" and "list_all ascii_graphic root" and "root \<noteq> []"
    and "CHR '':'' \<notin> set root" and "\<not> starts_with root ''acct-''"
  shows "bind_to root e = Inr \<lparr>sk_root = root, sk_account_binding = e, sk_continuation_index = 0,
    sk_normalization = AccountBindingInserted\<rparr>"
proof -
  have raw: "validate_raw root = Inr root" using assms by (simp add: validate_raw_graphic)
  have cont: "parse_terminal_continuation root = Inr (root, 0)"
    using assms(4) by (simp add: parse_terminal_continuation_def rsplit_once_None [THEN iffD2]
        contains_no_head)
  have acct: "rsplit_once root '':acct-'' = None"
    using assms(4) by (simp add: rsplit_once_None contains_no_head)
  have none: "\<not> contains_account_binding root"
    using assms(4,5) by (simp add: contains_account_binding_def split_on_single)
  show ?thesis
    using raw cont acct none strip_binding_None(2) [OF assms(1,4,5)]
    by (simp add: bind_to_def parse_bound_def parse_duplicate_def parse_plain_def parse_structural_def)
qed

abbreviation "demo_bind \<equiv> \<lambda>raw. bind_for_lane (\<lambda>s. s) raw ''telegram'' ''a'' ''c'' ''u'' ''main''"

abbreviation "demo_binding \<equiv> expected_account_binding (\<lambda>s. s) ''telegram'' ''a'' ''c'' ''u'' ''main''"

definition demo_key :: CanonicalChannelSessionKey where
  "demo_key = \<lparr>sk_root = ''root'', sk_account_binding = demo_binding, sk_continuation_index = 0,
     sk_normalization = AccountBindingInserted\<rparr>"

lemma demo_bind_root: "demo_bind ''root'' = Inr demo_key"
  unfolding bind_for_lane_def demo_key_def
  by (rule bind_plain [OF binding_ok_expected]) (simp_all add: ascii_graphic_def starts_with_def)

section \<open>Properties\<close>

text \<open>
  C39. Canonical keys are stable: binding a session key to a lane and binding the resulting
  canonical string again returns the same root, binding and continuation, now recognised as
  canonical; the same holds for every further continuation of the key. This needs that the root
  does not itself contain a continuation marker.
\<close>

theorem session_key_roundtrip:
  assumes "bind_for_lane sha256 raw platform account_id channel_id user_id agent_id = Inr k"
    and "\<not> contains (sk_root k) '':cont-''"
  shows "bind_for_lane sha256 (canonical_string k) platform account_id channel_id user_id agent_id
      = Inr (k\<lparr>sk_normalization := AlreadyCanonical\<rparr>)
    \<and> (\<forall>n k'. continuation k n = Inr k' \<longrightarrow>
        bind_for_lane sha256 (canonical_string k') platform account_id channel_id user_id agent_id
          = Inr k')"
proof -
  let ?e = "expected_account_binding sha256 platform account_id channel_id user_id agent_id"
  have k: "sk_account_binding k = ?e" "root_ok (sk_root k)"
    using bind_to_root [of raw ?e k] assms(1) by (auto simp: bind_for_lane_def)
  have b: "bind_for_lane sha256 (canonical_string (k\<lparr>sk_continuation_index := n\<rparr>)) platform account_id
      channel_id user_id agent_id
      = Inr (k\<lparr>sk_continuation_index := n, sk_normalization := AlreadyCanonical\<rparr>)" for n
    using parse_bound_canonical [OF k(2) assms(2), of ?e ?e n] binding_ok_expected k(1)
    by (simp add: bind_for_lane_def bind_to_def canonical_string_tail)
  have "canonical_string k' = canonical_string (k\<lparr>sk_continuation_index := n\<rparr>)
      \<and> k' = k\<lparr>sk_continuation_index := n, sk_normalization := AlreadyCanonical\<rparr>"
    if "continuation k n = Inr k'" for n k'
    using that by (auto simp: continuation_def canonical_string_tail split: if_splits)
  with b b [of "sk_continuation_index k"] show ?thesis by auto
qed

theorem session_key_roundtrip_witness:
  "demo_bind (canonical_string demo_key) = Inr (demo_key\<lparr>sk_normalization := AlreadyCanonical\<rparr>)"
  using session_key_roundtrip [OF demo_bind_root] by (simp add: demo_key_def starts_with_def)

text \<open>
  C35. A key never crosses lanes: the canonical string of a key bound to one lane, whose root does not
  contain the marker ":cont-" of continuations, is rejected as mismatched, not silently rebound, by every lane with
  a different account binding.
\<close>

theorem session_key_lane_isolation:
  assumes "bind_for_lane sha256 raw platform account_id channel_id user_id agent_id = Inr k"
    and "\<not> contains (sk_root k) '':cont-''"
    and "expected_account_binding sha256 platform' account_id' channel_id' user_id' agent_id'
      \<noteq> expected_account_binding sha256 platform account_id channel_id user_id agent_id"
  shows "bind_for_lane sha256 (canonical_string k) platform' account_id' channel_id' user_id' agent_id'
    = Inl MismatchedAccount"
proof -
  let ?e = "expected_account_binding sha256 platform account_id channel_id user_id agent_id"
  have k: "sk_account_binding k = ?e" "root_ok (sk_root k)"
    using bind_to_root [of raw ?e k] assms(1) by (auto simp: bind_for_lane_def)
  show ?thesis
    using parse_bound_canonical [OF k(2) assms(2), of ?e "expected_account_binding sha256 platform'
        account_id' channel_id' user_id' agent_id'" "sk_continuation_index k"] k(1) assms(3)
      binding_ok_expected
    by (simp add: bind_for_lane_def bind_to_def canonical_string_tail)
qed

lemma blank_agent_binding:
  "expected_account_binding sha256 platform account_id channel_id user_id []
     = ''acct-'' @ normalize_key_part account_id"
proof -
  have "normalize_known AgentId [] = Inl (EmptyAxis ''agentId'')"
    by (simp add: normalize_known_def validate_common_def)
  then have "\<exists>e. lane_new (session_lane_args platform account_id channel_id user_id []) = Inl e"
    by (auto simp: lane_new_def lane_of_axes_def session_lane_args_def split: sum.splits)
  then show ?thesis by (auto simp: expected_account_binding_def)
qed

lemma binding_a_b:
  "expected_account_binding (\<lambda>s. s) ''telegram'' ''a'' ''c'' ''u'' [] = ''acct-a''"
  "expected_account_binding (\<lambda>s. s) ''telegram'' ''b'' ''c'' ''u'' [] = ''acct-b''"
  by (simp_all add: blank_agent_binding normalize_key_part_def key_part_byte_def
      is_ascii_alphanumeric_def ascii_lower_def)

theorem session_key_lane_isolation_witness:
  "bind_for_lane (\<lambda>s. s) ''root:acct-a'' ''telegram'' ''b'' ''c'' ''u'' [] = Inl MismatchedAccount"
proof -
  let ?k = "\<lparr>sk_root = ''root'', sk_account_binding = ''acct-a'', sk_continuation_index = 0,
    sk_normalization = AccountBindingInserted\<rparr>"
  have ok: "binding_ok ''acct-a''" by (simp add: binding_ok_def ascii_graphic_def)
  have k: "bind_for_lane (\<lambda>s. s) ''root'' ''telegram'' ''a'' ''c'' ''u'' [] = Inr ?k"
    unfolding bind_for_lane_def binding_a_b
    by (rule bind_plain [OF ok]) (simp_all add: ascii_graphic_def starts_with_def)
  show ?thesis
    using session_key_lane_isolation [OF k, of "''telegram''" "''b''" "''c''" "''u''" "[]"] binding_a_b
    by (simp add: canonical_string_def starts_with_def)
qed

lemma nested_bind:
  assumes e: "binding_ok e"
  shows "bind_to ''a:cont-1:cont-2'' e = Inr \<lparr>sk_root = ''a:cont-1'', sk_account_binding = e,
    sk_continuation_index = 2, sk_normalization = AccountBindingInserted\<rparr>"
proof -
  have raw: "validate_raw ''a:cont-1:cont-2'' = Inr ''a:cont-1:cont-2''"
    by (rule validate_raw_graphic) (simp_all add: ascii_graphic_def)
  have rs: "rsplit_once ''a:cont-1:cont-2'' '':acct-'' = None"
    "rsplit_once ''a:cont-1:cont-2'' '':cont-'' = Some (''a:cont-1'', ''2'')"
    by (simp_all add: starts_with_def)
  have two: "parse_u64 ''2'' = Some 2"
    by (simp add: parse_u64_def is_ascii_digit_def decimal_value_def digit_value_def)
  have pt: "parse_terminal_continuation ''a:cont-1:cont-2'' = Inr (''a:cont-1'', 2)"
    by (simp add: parse_terminal_continuation_def rs two is_ascii_digit_def del: rsplit_once.simps)
  have strip: "strip_suffix ''a:cont-1:cont-2'' (CHR '':'' # e) = None"
    "strip_suffix ''a:cont-1'' (CHR '':'' # e) = None"
    using strip_binding_None(1) [OF e, of "''cont-2''" "''a:cont-1''"]
      strip_binding_None(1) [OF e, of "''cont-1''" "''a''"] by (simp_all add: starts_with_def)
  have none: "\<not> contains_account_binding ''a:cont-1''"
    by (simp add: contains_account_binding_def starts_with_def)
  have "parse_duplicate ''a:cont-1:cont-2'' e = None"
    by (simp add: parse_duplicate_def strip)
  then have "parse_bound ''a:cont-1:cont-2'' e = Inl MissingExpectedAccount"
    using raw rs(1) pt strip(2) none
    by (simp add: parse_bound_def parse_plain_def del: rsplit_once.simps)
  then show ?thesis
    using raw pt none by (simp add: bind_to_def parse_structural_def)
qed

lemma nested_rebind:
  assumes e: "binding_ok e" and root: "root_ok root" "contains root '':cont-''" and n: "n \<noteq> 0"
  shows "parse_bound (root @ CHR '':'' # key_tail e n) e = Inl MismatchedAccount"
proof -
  from e obtain x where x: "e = ''acct-'' @ x" "CHR '':'' \<notin> set x" by (auto simp: binding_ok_def)
  have "strip_suffix ((root @ CHR '':'' # e) @ CHR '':'' # ''cont-'' @ show_u64 n) (CHR '':'' # e) = None"
    using show_u64_no_colon [of n] by (intro strip_binding_None(1) [OF e]) (auto simp: starts_with_def)
  then have dup: "parse_duplicate (root @ CHR '':'' # key_tail e n) e = None"
    using n by (simp add: parse_duplicate_def key_tail_def)
  have valid: "validate_raw (root @ CHR '':'' # key_tail e n) = Inr (root @ CHR '':'' # key_tail e n)"
    using validate_raw_bound [OF root(1)] key_tail_graphic [OF e, of n] by simp
  have "''acct-'' @ drop 5 (key_tail e n) \<noteq> e" using n by (simp add: key_tail_def x)
  with valid dup root(2) rsplit_acct_canonical [OF x, of root n] show ?thesis
    by (simp add: parse_bound_def)
qed

text \<open>
  A root that contains a continuation marker breaks the round trip: binding
  \<open>a:cont-1:cont-2\<close> succeeds for every lane, but the canonical string it produces is rejected as
  mismatched by the very same lane.
\<close>

theorem nested_continuation_not_stable:
  "\<exists>k. bind_for_lane sha256 ''a:cont-1:cont-2'' platform account_id channel_id user_id agent_id = Inr k
    \<and> bind_for_lane sha256 (canonical_string k) platform account_id channel_id user_id agent_id
        = Inl MismatchedAccount"
proof -
  define e where "e = expected_account_binding sha256 platform account_id channel_id user_id agent_id"
  have e: "binding_ok e" unfolding e_def by (rule binding_ok_expected)
  have "root_ok ''a:cont-1''" using bind_to_root [OF nested_bind [OF e]] by simp
  moreover have "contains ''a:cont-1'' '':cont-''" by (simp add: starts_with_def)
  ultimately have "parse_bound (''a:cont-1'' @ CHR '':'' # key_tail e 2) e = Inl MismatchedAccount"
    using e by (intro nested_rebind) simp_all
  with nested_bind [OF e] show ?thesis
    unfolding bind_for_lane_def e_def [symmetric]
    by (auto simp: bind_to_def canonical_string_tail)
qed

end
