(* ===== verification/Task_Transition.thy ===== *)
theory Task_Transition
  imports Operation_Plan_Contracts Channel_Session_Key Keyed_Ledger
begin

text \<open>
  Task transitions (\<open>src/crates/agent-harness-core/src/task_transition.rs\<close>): what happens to a task
  whose turn was drained at its deadline. The assistant leaves a typed marker in its text; a
  continuation is scheduled only when a plan or a task family, read back from disk, still authorises
  exactly this lane, session and version, and no breaker is tripped. The snapshot of that authority is
  validated again before the continuation is admitted.

  The files are the record \<open>task_home\<close>: the plan directories and the family files, by file stem. The
  record \<open>task_lib\<close> holds what the code takes from libraries: the digest of \<open>ring\<close> and the renderings and
  parsers that \<open>serde\<close> derives; a parser that fails gives the text of its error.
\<close>

section \<open>Data\<close>

definition TASK_CONTINUATION_CHECKPOINT_SCHEMA :: string where
  "TASK_CONTINUATION_CHECKPOINT_SCHEMA = ''agent-harness.task-continuation-checkpoint.v1''"

definition TASK_TRANSITION_SCHEMA :: string where
  "TASK_TRANSITION_SCHEMA = ''agent-harness.task-transition.v1''"

definition TASK_FAMILY_SCHEMA :: string where
  "TASK_FAMILY_SCHEMA = ''agent-harness.task-family.v1''"

definition DRAIN_DISPOSITION_SCHEMA :: string where
  "DRAIN_DISPOSITION_SCHEMA = ''agent-harness.drain-disposition.v1''"

definition TASK_CONTINUATION_MARKER_OPEN :: string where
  "TASK_CONTINUATION_MARKER_OPEN = ''<agent-harness-continuation-checkpoint>''"

definition TASK_CONTINUATION_MARKER_CLOSE :: string where
  "TASK_CONTINUATION_MARKER_CLOSE = ''</agent-harness-continuation-checkpoint>''"

definition DRAIN_DISPOSITION_MARKER_OPEN :: string where
  "DRAIN_DISPOSITION_MARKER_OPEN = ''<agent-harness-drain-disposition>''"

definition DRAIN_DISPOSITION_MARKER_CLOSE :: string where
  "DRAIN_DISPOSITION_MARKER_CLOSE = ''</agent-harness-drain-disposition>''"

definition MAX_CHECKPOINT_BYTES :: nat where
  "MAX_CHECKPOINT_BYTES = 2 * 1024"

definition MAX_MARKER_BYTES :: nat where
  "MAX_MARKER_BYTES = 4 * 1024"

definition DEFAULT_MAX_TASK_CONTINUATION_DEPTH :: u64 where
  "DEFAULT_MAX_TASK_CONTINUATION_DEPTH = 32"

datatype ContinuationAuthorityKindV1 = GoalAuthority | OperationPlanAuthority | ExplicitCheckpointAuthority

record TaskContinuationCheckpointV1 =
  kp_schema :: string
  kp_authority_kind :: ContinuationAuthorityKindV1
  kp_authority_id :: string
  kp_authority_version :: u64
  kp_active_item_id :: "string option"
  kp_active_item_version :: "u64 option"
  kp_checkpoint :: string
  kp_checkpoint_digest :: string

record ContinuationAuthoritySnapshotV1 =
  sn_kind :: ContinuationAuthorityKindV1
  sn_authority_id :: string
  sn_authority_version :: u64
  sn_authority_checksum :: string
  sn_exact_lane_digest :: string
  sn_virtual_session_id :: string
  sn_active_item_id :: "string option"
  sn_active_item_version :: "u64 option"
  sn_checkpoint_digest :: string

record TaskFamilyV1 =
  fa_schema :: string
  fa_family_id :: string
  fa_authority_version :: u64
  fa_root_queue_id :: string
  fa_exact_lane_digest :: string
  fa_virtual_session_id :: string
  fa_root_working_session_key :: string
  fa_agent_id :: string
  fa_runtime_class :: string
  fa_prompt_digest :: string
  fa_policy_digest :: string
  fa_status :: string
  fa_created_at_ms :: int
  fa_updated_at_ms :: int
  fa_observation_order :: u64

datatype DrainDispositionV1 =
    DrainLogicalComplete
  | DrainContinuationRequired ContinuationAuthoritySnapshotV1
  | DrainNeedsUser
  | DrainNeedsAuthority
  | DrainBlocked
  | DrainIndeterminate

datatype DrainDispositionKindV1 =
  KindLogicalComplete | KindContinuationRequired | KindNeedsUser | KindNeedsAuthority | KindBlocked

record DrainDispositionMarkerV1 =
  dm_schema :: string
  dm_disposition :: DrainDispositionKindV1
  dm_observed_deadline_generation :: "32 word"
  dm_authority_kind :: "ContinuationAuthorityKindV1 option"
  dm_authority_id :: "string option"
  dm_authority_version :: "u64 option"
  dm_task_family_id :: "string option"
  dm_task_family_version :: "u64 option"
  dm_active_item_id :: "string option"
  dm_active_item_version :: "u64 option"
  dm_checkpoint :: "string option"
  dm_checkpoint_digest :: "string option"
  dm_reason_code :: "string option"
  dm_question :: "string option"
  dm_recovery_hint :: "string option"
  dm_completion_evidence_digests :: "string list"

datatype DrainDispositionCaptureV1 =
  CaptureMissing | CaptureValid DrainDispositionMarkerV1 | CaptureInvalid string

record TaskContinuationBreakers =
  bk_operator_stop :: bool
  bk_newer_steer :: bool
  bk_budget_exhausted :: bool
  bk_no_progress_exhausted :: bool
  bk_continuation_depth :: u64
  bk_max_continuation_depth :: u64

record OperationPlanAuthorityOptions =
  po_checkpoint :: TaskContinuationCheckpointV1
  po_exact_lane_digest :: string
  po_virtual_session_id :: string
  po_working_session_key :: string
  po_agent_id :: string
  po_breakers :: TaskContinuationBreakers

record ExplicitCheckpointAuthorityOptions =
  xo_checkpoint :: TaskContinuationCheckpointV1
  xo_expected_family_id :: string
  xo_expected_root_queue_id :: string
  xo_exact_lane_digest :: string
  xo_virtual_session_id :: string
  xo_working_session_key :: string
  xo_agent_id :: string
  xo_breakers :: TaskContinuationBreakers

record TaskDrainEvaluationV1 =
  te_schema :: string
  te_disposition :: DrainDispositionV1
  te_schedule_continuation :: bool
  te_allow_logical_final :: bool
  te_reason :: string

record task_lib =
  kl_sha256 :: "string \<Rightarrow> string"
  kl_family_to_vec :: "TaskFamilyV1 \<Rightarrow> string"
  kl_family_to_writer_pretty :: "TaskFamilyV1 \<Rightarrow> string"
  kl_family_from_slice :: "string \<Rightarrow> string + TaskFamilyV1"
  kl_plan_item_to_vec :: "OperationPlan \<times> OperationPlanItem \<Rightarrow> string"
  kl_checkpoint_from_str :: "string \<Rightarrow> string + TaskContinuationCheckpointV1"
  kl_marker_from_str :: "string \<Rightarrow> string + DrainDispositionMarkerV1"

record task_home =
  kh_plans :: plan_home
  kh_families :: "(string \<times> string) list"

fun io_error_text :: "io_error \<Rightarrow> string" where
  "io_error_text (IoError k m) = m"

section \<open>Validation\<close>

definition is_lower_hex :: "string \<Rightarrow> bool" where
  "is_lower_hex v \<longleftrightarrow> list_all is_lower_hex_byte v"

definition task_sha256_hex :: "task_lib \<Rightarrow> string \<Rightarrow> string" where
  "task_sha256_hex lib bytes = hex_encode (kl_sha256 lib bytes)"

definition depth_exhausted :: "TaskContinuationBreakers \<Rightarrow> bool" where
  "depth_exhausted b =
     (let max = (if bk_max_continuation_depth b = 0 then DEFAULT_MAX_TASK_CONTINUATION_DEPTH
                 else bk_max_continuation_depth b)
      in max \<le> bk_continuation_depth b)"

definition root_working_session_key :: "string \<Rightarrow> string" where
  "root_working_session_key session_key =
     (case structural_root_and_continuation session_key of Inr (root, _) \<Rightarrow> root | Inl _ \<Rightarrow> session_key)"

definition validate_checkpoint :: "task_lib \<Rightarrow> TaskContinuationCheckpointV1 \<Rightarrow> io_error + unit" where
  "validate_checkpoint lib c =
     (if kp_schema c \<noteq> TASK_CONTINUATION_CHECKPOINT_SCHEMA
      then Inl (invalid_data ''unsupported task continuation checkpoint schema'')
      else if is_blank (kp_authority_id c)
      then Inl (invalid_data ''checkpoint authority id is empty'')
      else if kp_checkpoint c = [] \<or> MAX_CHECKPOINT_BYTES < length (kp_checkpoint c)
      then Inl (invalid_data ''checkpoint body is empty or exceeds its bound'')
      else if length (kp_checkpoint_digest c) \<noteq> 64 \<or> \<not> is_lower_hex (kp_checkpoint_digest c)
      then Inl (invalid_data ''checkpoint digest is non-canonical'')
      else if task_sha256_hex lib (kp_checkpoint c) \<noteq> kp_checkpoint_digest c
      then Inl (invalid_data ''checkpoint digest does not match its bounded body'')
      else Inr ())"

definition required :: "string \<Rightarrow> 'a option \<Rightarrow> io_error + 'a" where
  "required message v = (case v of None \<Rightarrow> Inl (invalid_data message) | Some x \<Rightarrow> Inr x)"

definition drain_marker_checkpoint :: "task_lib \<Rightarrow> DrainDispositionMarkerV1
    \<Rightarrow> io_error + TaskContinuationCheckpointV1" where
  "drain_marker_checkpoint lib m =
     (if dm_disposition m \<noteq> KindContinuationRequired
      then Inl (invalid_data ''drain disposition is not continuation-required'')
      else case required ''continuation disposition has no authority kind'' (dm_authority_kind m) of
        Inl e \<Rightarrow> Inl e
      | Inr kind \<Rightarrow>
     (case required ''continuation disposition has no authority id'' (dm_authority_id m) of
        Inl e \<Rightarrow> Inl e
      | Inr authority_id \<Rightarrow>
     (case required ''continuation disposition has no authority version'' (dm_authority_version m) of
        Inl e \<Rightarrow> Inl e
      | Inr version \<Rightarrow>
     (case required ''continuation disposition has no checkpoint'' (dm_checkpoint m) of
        Inl e \<Rightarrow> Inl e
      | Inr body \<Rightarrow>
     (case required ''continuation disposition has no checkpoint digest'' (dm_checkpoint_digest m) of
        Inl e \<Rightarrow> Inl e
      | Inr digest \<Rightarrow>
          let checkpoint = \<lparr>kp_schema = TASK_CONTINUATION_CHECKPOINT_SCHEMA, kp_authority_kind = kind,
            kp_authority_id = authority_id, kp_authority_version = version,
            kp_active_item_id = dm_active_item_id m, kp_active_item_version = dm_active_item_version m,
            kp_checkpoint = body, kp_checkpoint_digest = digest\<rparr>
          in (case validate_checkpoint lib checkpoint of Inl e \<Rightarrow> Inl e | Inr _ \<Rightarrow> Inr checkpoint))))))"

definition bounded_text_invalid :: "string \<Rightarrow> bool" where
  "bounded_text_invalid v \<longleftrightarrow> v = [] \<or> 512 < length v \<or> has_control v"

definition validate_drain_disposition_marker :: "task_lib \<Rightarrow> DrainDispositionMarkerV1 \<Rightarrow> io_error + unit" where
  "validate_drain_disposition_marker lib m =
     (if dm_schema m \<noteq> DRAIN_DISPOSITION_SCHEMA
      then Inl (invalid_data ''unsupported-drain-disposition-schema'')
      else if list_ex (\<lambda>v. case v of None \<Rightarrow> False | Some x \<Rightarrow> bounded_text_invalid x)
                [dm_reason_code m, dm_question m, dm_recovery_hint m]
      then Inl (invalid_data ''disposition-bounded-text-invalid'')
      else if 16 < length (dm_completion_evidence_digests m)
         \<or> list_ex (\<lambda>d. length d \<noteq> 64 \<or> \<not> is_lower_hex d) (dm_completion_evidence_digests m)
      then Inl (invalid_data ''completion-evidence-digest-invalid'')
      else case dm_disposition m of
        KindContinuationRequired \<Rightarrow>
          (case drain_marker_checkpoint lib m of
             Inl e \<Rightarrow> Inl e
           | Inr c \<Rightarrow>
               if kp_authority_kind c = ExplicitCheckpointAuthority
                  \<and> (dm_task_family_id m \<noteq> Some (kp_authority_id c)
                      \<or> dm_task_family_version m \<noteq> Some (kp_authority_version c))
               then Inl (invalid_data ''explicit-checkpoint-task-family-mismatch'') else Inr ())
      | KindLogicalComplete \<Rightarrow>
          if dm_authority_kind m \<noteq> None \<or> dm_authority_id m \<noteq> None \<or> dm_authority_version m \<noteq> None
             \<or> dm_checkpoint m \<noteq> None \<or> dm_checkpoint_digest m \<noteq> None
          then Inl (invalid_data ''logical-complete-cannot-claim-continuation-authority'') else Inr ()
      | KindNeedsUser \<Rightarrow>
          if dm_question m = None \<or> dm_reason_code m = None
          then Inl (invalid_data ''needs-user-requires-question-and-reason'') else Inr ()
      | _ \<Rightarrow>
          if dm_reason_code m = None
          then Inl (invalid_data ''parked-disposition-requires-reason'') else Inr ())"

section \<open>Markers in the text of the assistant\<close>

definition extract_task_continuation_checkpoint :: "task_lib \<Rightarrow> string
    \<Rightarrow> io_error + string \<times> TaskContinuationCheckpointV1 option" where
  "extract_task_continuation_checkpoint lib assistant_text =
     (case str_find assistant_text TASK_CONTINUATION_MARKER_OPEN of
        None \<Rightarrow> Inr (assistant_text, None)
      | Some open_at \<Rightarrow>
          let json_start = open_at + length TASK_CONTINUATION_MARKER_OPEN;
              rest = drop json_start assistant_text
          in if contains rest TASK_CONTINUATION_MARKER_OPEN
             then Inl (invalid_data ''multiple task continuation checkpoint markers'')
             else case str_find rest TASK_CONTINUATION_MARKER_CLOSE of
                None \<Rightarrow> Inl (invalid_data ''task continuation checkpoint marker is not closed'')
              | Some close_relative \<Rightarrow>
                  let json_end = json_start + close_relative;
                      trailing = drop (json_end + length TASK_CONTINUATION_MARKER_CLOSE) assistant_text
                  in if MAX_MARKER_BYTES < json_end - json_start
                     then Inl (invalid_data ''task continuation checkpoint marker exceeds its bound'')
                     else if contains trailing TASK_CONTINUATION_MARKER_CLOSE
                     then Inl (invalid_data ''multiple task continuation checkpoint close markers'')
                     else case kl_checkpoint_from_str lib (trim (take close_relative rest)) of
                        Inl e \<Rightarrow> Inl (invalid_data (''invalid task continuation checkpoint JSON: '' @ e))
                      | Inr checkpoint \<Rightarrow>
                     (case validate_checkpoint lib checkpoint of
                        Inl e \<Rightarrow> Inl e
                      | Inr _ \<Rightarrow>
                          let visible = trim (take open_at assistant_text @ trailing)
                          in if visible = []
                             then Inl (invalid_data
                               ''task continuation checkpoint cannot replace the entire assistant handoff'')
                             else Inr (visible, Some checkpoint)))"

definition drain_visible :: "string \<Rightarrow> string" where
  "drain_visible assistant_text =
     (let without = (\<lambda>from close. trim (take from assistant_text
            @ drop (close + length DRAIN_DISPOSITION_MARKER_CLOSE) assistant_text))
      in case (str_find assistant_text DRAIN_DISPOSITION_MARKER_OPEN,
               str_rfind assistant_text DRAIN_DISPOSITION_MARKER_CLOSE) of
           (Some open_at, Some close_at) \<Rightarrow>
             if open_at \<le> close_at then without open_at close_at else trim (take open_at assistant_text)
         | (Some open_at, None) \<Rightarrow> trim (take open_at assistant_text)
         | (None, Some close_at) \<Rightarrow> without close_at close_at
         | (None, None) \<Rightarrow> assistant_text)"

definition extract_drain_disposition_marker :: "task_lib \<Rightarrow> string \<Rightarrow> string \<times> DrainDispositionCaptureV1" where
  "extract_drain_disposition_marker lib assistant_text =
     (let open_count = match_count assistant_text DRAIN_DISPOSITION_MARKER_OPEN;
          close_count = match_count assistant_text DRAIN_DISPOSITION_MARKER_CLOSE
      in if open_count = 0 \<and> close_count = 0 then (assistant_text, CaptureMissing)
         else (drain_visible assistant_text,
           if open_count \<noteq> 1 \<or> close_count \<noteq> 1
           then CaptureInvalid ''multiple-or-unbalanced-disposition-markers''
           else case str_find assistant_text DRAIN_DISPOSITION_MARKER_OPEN of
              None \<Rightarrow> CaptureInvalid ''disposition-marker-close-without-open''
            | Some open_at \<Rightarrow>
                let json_start = open_at + length DRAIN_DISPOSITION_MARKER_OPEN;
                    rest = drop json_start assistant_text
                in case str_find rest DRAIN_DISPOSITION_MARKER_CLOSE of
                   None \<Rightarrow> CaptureInvalid ''disposition-marker-not-closed''
                 | Some relative \<Rightarrow>
                     if MAX_MARKER_BYTES < relative
                     then CaptureInvalid ''disposition-marker-oversized''
                     else case kl_marker_from_str lib (trim (take relative rest)) of
                        Inl _ \<Rightarrow> CaptureInvalid ''disposition-marker-invalid-json''
                      | Inr marker \<Rightarrow>
                     (case validate_drain_disposition_marker lib marker of
                        Inr _ \<Rightarrow> CaptureValid marker
                      | Inl e \<Rightarrow> CaptureInvalid (io_error_text e))))"

section \<open>Task families\<close>

definition task_family_checksum :: "task_lib \<Rightarrow> TaskFamilyV1 \<Rightarrow> string" where
  "task_family_checksum lib f = task_sha256_hex lib (kl_family_to_vec lib f)"

definition task_family_identity :: "TaskFamilyV1
    \<Rightarrow> string \<times> u64 \<times> string \<times> string \<times> string \<times> string \<times> string \<times> string \<times> string \<times> string \<times> string" where
  "task_family_identity f = (fa_schema f, fa_authority_version f, fa_root_queue_id f,
     fa_exact_lane_digest f, fa_virtual_session_id f, fa_root_working_session_key f, fa_agent_id f,
     fa_runtime_class f, fa_prompt_digest f, fa_policy_digest f, fa_status f)"

definition read_family_file :: "task_lib \<Rightarrow> task_home \<Rightarrow> string \<Rightarrow> io_error + TaskFamilyV1" where
  "read_family_file lib h family_id =
     (case map_of (kh_families h) family_id of
        None \<Rightarrow> Inl (IoError NotFound ''No such file or directory (os error 2)'')
      | Some bytes \<Rightarrow>
     (case kl_family_from_slice lib bytes of
        Inl e \<Rightarrow> Inl (IoError OtherIo e)
      | Inr f \<Rightarrow> Inr f))"

definition read_task_family :: "task_lib \<Rightarrow> task_home \<Rightarrow> string \<Rightarrow> io_error + TaskFamilyV1" where
  "read_task_family lib h family_id =
     (if length family_id \<noteq> 64 \<or> \<not> is_lower_hex family_id
      then Inl (invalid_data ''task family id is non-canonical'')
      else case read_family_file lib h family_id of
        Inl e \<Rightarrow> Inl e
      | Inr f \<Rightarrow>
          if fa_schema f \<noteq> TASK_FAMILY_SCHEMA \<or> fa_family_id f \<noteq> family_id
             \<or> fa_runtime_class f \<noteq> ''interactive'' \<or> fa_status f \<noteq> ''runnable''
          then Inl (invalid_data ''task family file has mismatched identity/schema'')
          else Inr f)"

record task_family_args =
  ta_root_queue_id :: string
  ta_exact_lane_digest :: string
  ta_virtual_session_id :: string
  ta_working_session_key :: string
  ta_agent_id :: string
  ta_prompt_digest :: string

definition task_policy_digest :: "task_lib \<Rightarrow> string" where
  "task_policy_digest lib = task_sha256_hex lib (''task-family-policy-v1'' @ byte 0 # ''max-depth=''
     @ show_u64 DEFAULT_MAX_TASK_CONTINUATION_DEPTH)"

definition task_family_material :: "task_family_args \<Rightarrow> string" where
  "task_family_material a = ''task-family-v1'' @ byte 0 # ta_exact_lane_digest a @ byte 0 #
     ta_virtual_session_id a @ byte 0 # ta_root_queue_id a @ byte 0 # ta_prompt_digest a"

definition validate_family_args :: "task_family_args \<Rightarrow> io_error + unit" where
  "validate_family_args a = first_error (map (\<lambda>(name, v).
       if is_blank v \<or> has_control v
       then Inl (invalid_data (''task family '' @ name @ '' is unavailable'')) else Inr ())
     [(''root queue id'', ta_root_queue_id a), (''exact lane digest'', ta_exact_lane_digest a),
      (''virtual session id'', ta_virtual_session_id a), (''working session key'', ta_working_session_key a),
      (''agent id'', ta_agent_id a), (''prompt digest'', ta_prompt_digest a)]
     @ [if length (ta_exact_lane_digest a) \<noteq> 64 \<or> \<not> is_lower_hex (ta_exact_lane_digest a)
        then Inl (invalid_data ''task family exact lane digest is non-canonical'') else Inr ()])"

definition task_family_candidate :: "task_lib \<Rightarrow> int \<Rightarrow> task_family_args \<Rightarrow> TaskFamilyV1" where
  "task_family_candidate lib now_ms a =
     \<lparr>fa_schema = TASK_FAMILY_SCHEMA, fa_family_id = task_sha256_hex lib (task_family_material a),
      fa_authority_version = 1, fa_root_queue_id = ta_root_queue_id a,
      fa_exact_lane_digest = ta_exact_lane_digest a, fa_virtual_session_id = ta_virtual_session_id a,
      fa_root_working_session_key = root_working_session_key (ta_working_session_key a),
      fa_agent_id = ta_agent_id a, fa_runtime_class = ''interactive'',
      fa_prompt_digest = ta_prompt_digest a, fa_policy_digest = task_policy_digest lib,
      fa_status = ''runnable'', fa_created_at_ms = now_ms, fa_updated_at_ms = now_ms,
      fa_observation_order = 1\<rparr>"

text \<open>\<open>clock\<close> is the reading of \<open>current_log_time_ms\<close>.\<close>

definition ensure_task_family :: "task_lib \<Rightarrow> io_error + int \<Rightarrow> task_family_args \<Rightarrow> task_home
    \<Rightarrow> task_home \<times> (io_error + TaskFamilyV1)" where
  "ensure_task_family lib clock a h =
     (case validate_family_args a of
        Inl e \<Rightarrow> (h, Inl e)
      | Inr _ \<Rightarrow>
     (case clock of
        Inl e \<Rightarrow> (h, Inl e)
      | Inr now_ms \<Rightarrow>
          let candidate = task_family_candidate lib now_ms a; file = fa_family_id candidate
          in if map_of (kh_families h) file \<noteq> None
             then (case read_family_file lib h file of
                  Inl e \<Rightarrow> (h, Inl e)
                | Inr existing \<Rightarrow>
                    (h, if task_family_identity existing \<noteq> task_family_identity candidate
                        then Inl (invalid_data ''existing task family authority does not match exact identity'')
                        else Inr existing))
             else (h\<lparr>kh_families := map_insert file (kl_family_to_writer_pretty lib candidate @ [nl])
                      (kh_families h)\<rparr>, Inr candidate)))"

text \<open>The loop over the directory, in the order \<open>ho\<close> in which it is listed.\<close>

fun find_family_among :: "task_lib \<Rightarrow> task_home \<Rightarrow> string \<Rightarrow> TaskFamilyV1 option \<Rightarrow> string list
    \<Rightarrow> io_error + TaskFamilyV1 option" where
  "find_family_among lib h root_queue_id found [] = Inr found"
| "find_family_among lib h root_queue_id found (k # ks) =
     (case read_family_file lib h k of
        Inl e \<Rightarrow> Inl e
      | Inr f \<Rightarrow>
          if fa_schema f \<noteq> TASK_FAMILY_SCHEMA \<or> fa_root_queue_id f \<noteq> root_queue_id
          then find_family_among lib h root_queue_id found ks
          else if found \<noteq> None
          then Inl (invalid_data ''multiple task families claim the same root queue authority'')
          else find_family_among lib h root_queue_id (Some f) ks)"

definition find_task_family_for_root_queue :: "task_lib \<Rightarrow> (string list \<Rightarrow> string list) \<Rightarrow> task_home
    \<Rightarrow> string \<Rightarrow> io_error + TaskFamilyV1 option" where
  "find_task_family_for_root_queue lib ho h root_queue_id =
     (if is_blank root_queue_id then Inr None
      else find_family_among lib h root_queue_id None (ho (map_keys (kh_families h))))"

section \<open>Authority of a continuation\<close>

definition check_breakers :: "TaskContinuationBreakers \<Rightarrow> io_error + unit" where
  "check_breakers b = first_error
     [if bk_operator_stop b then Inl (invalid_data ''operator stop fences task continuation'') else Inr (),
      if bk_newer_steer b then Inl (invalid_data ''newer steer fences the drained task slice'') else Inr (),
      if bk_budget_exhausted b then Inl (invalid_data ''task continuation budget is exhausted'') else Inr (),
      if bk_no_progress_exhausted b
      then Inl (invalid_data ''task continuation no-progress breaker is exhausted'') else Inr (),
      if depth_exhausted b then Inl (invalid_data ''task continuation depth breaker is exhausted'') else Inr ()]"

definition breaker_tripped :: "TaskContinuationBreakers \<Rightarrow> bool" where
  "breaker_tripped b \<longleftrightarrow> bk_operator_stop b \<or> bk_newer_steer b \<or> bk_budget_exhausted b
     \<or> bk_no_progress_exhausted b \<or> depth_exhausted b"

definition authority_checksum :: "task_lib \<Rightarrow> OperationPlan \<Rightarrow> OperationPlanItem \<Rightarrow> string" where
  "authority_checksum lib plan item = task_sha256_hex lib (kl_plan_item_to_vec lib (plan, item))"

definition validate_active_item :: "OperationPlanItem \<Rightarrow> TaskContinuationCheckpointV1 \<Rightarrow> io_error + unit" where
  "validate_active_item item c =
     (if it_status item \<noteq> Running \<and> it_status item \<noteq> Review
      then Inl (invalid_data ''OperationPlan item is not running or in review'')
      else if kp_active_item_version c \<noteq> Some (it_version item)
      then Inl (invalid_data ''OperationPlan item version changed after the checkpoint'')
      else Inr ())"

definition find_plan_item :: "string \<Rightarrow> OperationPlanItem list \<Rightarrow> OperationPlanItem option" where
  "find_plan_item item_id items = find (\<lambda>i. it_item_id i = item_id) items"

definition show_plan :: "task_home \<Rightarrow> string \<Rightarrow> io_error + OperationPlanShowReport" where
  "show_plan h plan_id = show_operation_plan plan_id (kh_plans h (safe_name plan_id))"

definition plan_owner_error :: "OperationPlanAuthorityOptions \<Rightarrow> OperationPlan \<Rightarrow> io_error + unit" where
  "plan_owner_error o' plan = first_error
     [if pl_status plan \<noteq> PlanOpen then Inl (invalid_data ''OperationPlan is not open'') else Inr (),
      if pl_agent_id plan \<noteq> po_agent_id o'
      then Inl (invalid_data ''OperationPlan agent does not own the current exact lane'') else Inr (),
      if pl_lane_digest plan \<noteq> Some (po_exact_lane_digest o')
      then Inl (invalid_data ''OperationPlan lane digest does not match the current slice'') else Inr (),
      if root_working_session_key (pl_session_key plan) \<noteq> root_working_session_key (po_working_session_key o')
      then Inl (invalid_data ''OperationPlan session root does not match the current task'') else Inr (),
      if pl_version plan \<noteq> kp_authority_version (po_checkpoint o')
      then Inl (invalid_data ''OperationPlan version changed after the checkpoint'') else Inr ()]"

definition resolve_operation_plan_authority :: "task_lib \<Rightarrow> task_home \<Rightarrow> OperationPlanAuthorityOptions
    \<Rightarrow> io_error + ContinuationAuthoritySnapshotV1" where
  "resolve_operation_plan_authority lib h o' =
     (let c = po_checkpoint o' in
      case first_error
        [validate_checkpoint lib c,
         if kp_authority_kind c \<noteq> OperationPlanAuthority
         then Inl (invalid_data ''checkpoint authority is not an OperationPlan'') else Inr (),
         if length (po_exact_lane_digest o') \<noteq> 64 \<or> \<not> is_lower_hex (po_exact_lane_digest o')
         then Inl (invalid_data ''exact lane digest is unavailable or non-canonical'') else Inr (),
         if is_blank (po_virtual_session_id o')
         then Inl (invalid_data ''stable virtual session authority is unavailable'') else Inr (),
         check_breakers (po_breakers o')] of
        Inl e \<Rightarrow> Inl e
      | Inr _ \<Rightarrow>
     (case show_plan h (kp_authority_id c) of
        Inl e \<Rightarrow> Inl e
      | Inr report \<Rightarrow>
          let plan = sr_plan report in
     (case plan_owner_error o' plan of
        Inl e \<Rightarrow> Inl e
      | Inr _ \<Rightarrow>
     (case required ''OperationPlan checkpoint has no active item'' (kp_active_item_id c) of
        Inl e \<Rightarrow> Inl e
      | Inr item_id \<Rightarrow>
     (case required ''checkpoint active item is missing'' (find_plan_item item_id (sr_items report)) of
        Inl e \<Rightarrow> Inl e
      | Inr item \<Rightarrow>
     (case validate_active_item item c of
        Inl e \<Rightarrow> Inl e
      | Inr _ \<Rightarrow> Inr
          \<lparr>sn_kind = OperationPlanAuthority, sn_authority_id = pl_plan_id plan,
           sn_authority_version = pl_version plan, sn_authority_checksum = authority_checksum lib plan item,
           sn_exact_lane_digest = po_exact_lane_digest o', sn_virtual_session_id = po_virtual_session_id o',
           sn_active_item_id = Some (it_item_id item), sn_active_item_version = Some (it_version item),
           sn_checkpoint_digest = kp_checkpoint_digest c\<rparr>))))))"

definition resolve_explicit_checkpoint_authority :: "task_lib \<Rightarrow> task_home
    \<Rightarrow> ExplicitCheckpointAuthorityOptions \<Rightarrow> io_error + ContinuationAuthoritySnapshotV1" where
  "resolve_explicit_checkpoint_authority lib h o' =
     (let c = xo_checkpoint o' in
      case first_error
        [validate_checkpoint lib c,
         if kp_authority_kind c \<noteq> ExplicitCheckpointAuthority
         then Inl (invalid_data ''checkpoint authority is not ExplicitCheckpoint'') else Inr (),
         if kp_authority_id c \<noteq> xo_expected_family_id o'
         then Inl (invalid_data ''checkpoint did not name the harness-owned task family'') else Inr (),
         check_breakers (xo_breakers o')] of
        Inl e \<Rightarrow> Inl e
      | Inr _ \<Rightarrow>
     (case read_task_family lib h (xo_expected_family_id o') of
        Inl e \<Rightarrow> Inl e
      | Inr f \<Rightarrow>
          if fa_authority_version f \<noteq> kp_authority_version c
             \<or> fa_root_queue_id f \<noteq> xo_expected_root_queue_id o'
             \<or> fa_agent_id f \<noteq> xo_agent_id o' \<or> fa_exact_lane_digest f \<noteq> xo_exact_lane_digest o'
             \<or> fa_virtual_session_id f \<noteq> xo_virtual_session_id o'
             \<or> fa_root_working_session_key f \<noteq> root_working_session_key (xo_working_session_key o')
             \<or> fa_runtime_class f \<noteq> ''interactive'' \<or> fa_status f \<noteq> ''runnable''
          then Inl (invalid_data ''task family does not own the current exact lane/slice'')
          else if kp_active_item_id c \<noteq> None \<or> kp_active_item_version c \<noteq> None
          then Inl (invalid_data ''ExplicitCheckpoint authority cannot claim an OperationPlan item'')
          else Inr
            \<lparr>sn_kind = ExplicitCheckpointAuthority, sn_authority_id = fa_family_id f,
             sn_authority_version = fa_authority_version f,
             sn_authority_checksum = task_family_checksum lib f,
             sn_exact_lane_digest = fa_exact_lane_digest f, sn_virtual_session_id = fa_virtual_session_id f,
             sn_active_item_id = None, sn_active_item_version = None,
             sn_checkpoint_digest = kp_checkpoint_digest c\<rparr>))"

definition drain_evaluation :: "string \<Rightarrow> TaskContinuationBreakers
    \<Rightarrow> io_error + ContinuationAuthoritySnapshotV1 \<Rightarrow> TaskDrainEvaluationV1" where
  "drain_evaluation granted b r =
     (case r of
        Inr snapshot \<Rightarrow>
          \<lparr>te_schema = TASK_TRANSITION_SCHEMA, te_disposition = DrainContinuationRequired snapshot,
           te_schedule_continuation = True, te_allow_logical_final = False, te_reason = granted\<rparr>
      | Inl e \<Rightarrow>
          \<lparr>te_schema = TASK_TRANSITION_SCHEMA,
           te_disposition = (if breaker_tripped b then DrainBlocked else DrainNeedsAuthority),
           te_schedule_continuation = False, te_allow_logical_final = False, te_reason = io_error_text e\<rparr>)"

definition evaluate_operation_plan_drain :: "task_lib \<Rightarrow> task_home \<Rightarrow> OperationPlanAuthorityOptions
    \<Rightarrow> TaskDrainEvaluationV1" where
  "evaluate_operation_plan_drain lib h o' = drain_evaluation
     ''deadline drain has current exact-lane OperationPlan authority and a typed checkpoint''
     (po_breakers o') (resolve_operation_plan_authority lib h o')"

definition evaluate_explicit_checkpoint_drain :: "task_lib \<Rightarrow> task_home \<Rightarrow> ExplicitCheckpointAuthorityOptions
    \<Rightarrow> TaskDrainEvaluationV1" where
  "evaluate_explicit_checkpoint_drain lib h o' = drain_evaluation
     ''deadline drain has exact harness-owned task-family authority and a typed checkpoint''
     (xo_breakers o') (resolve_explicit_checkpoint_authority lib h o')"

definition logical_complete_drain :: TaskDrainEvaluationV1 where
  "logical_complete_drain = \<lparr>te_schema = TASK_TRANSITION_SCHEMA, te_disposition = DrainLogicalComplete,
     te_schedule_continuation = False, te_allow_logical_final = True,
     te_reason = ''ordinary drain completion has no typed continuation authority''\<rparr>"

section \<open>Validation before a continuation is admitted\<close>

definition revalidate_operation_plan_snapshot :: "task_lib \<Rightarrow> task_home \<Rightarrow> ContinuationAuthoritySnapshotV1
    \<Rightarrow> string \<Rightarrow> string \<Rightarrow> io_error + unit" where
  "revalidate_operation_plan_snapshot lib h sn working_session_key agent_id =
     (if sn_kind sn \<noteq> OperationPlanAuthority
      then Inl (invalid_data ''task snapshot is not OperationPlan authority'')
      else case show_plan h (sn_authority_id sn) of
        Inl e \<Rightarrow> Inl e
      | Inr report \<Rightarrow>
          let plan = sr_plan report in
          if pl_status plan \<noteq> PlanOpen \<or> pl_version plan \<noteq> sn_authority_version sn
             \<or> pl_agent_id plan \<noteq> agent_id \<or> pl_lane_digest plan \<noteq> Some (sn_exact_lane_digest sn)
             \<or> root_working_session_key (pl_session_key plan) \<noteq> root_working_session_key working_session_key
          then Inl (invalid_data ''OperationPlan authority changed before child admission'')
          else case required ''task snapshot has no active item'' (sn_active_item_id sn) of
             Inl e \<Rightarrow> Inl e
           | Inr item_id \<Rightarrow>
          (case required ''task snapshot item is missing'' (find_plan_item item_id (sr_items report)) of
             Inl e \<Rightarrow> Inl e
           | Inr item \<Rightarrow>
               if (it_status item \<noteq> Running \<and> it_status item \<noteq> Review)
                  \<or> sn_active_item_version sn \<noteq> Some (it_version item)
                  \<or> sn_authority_checksum sn \<noteq> authority_checksum lib plan item
               then Inl (invalid_data ''OperationPlan item/checksum changed before child admission'')
               else Inr ()))"

definition revalidate_explicit_checkpoint_snapshot :: "task_lib \<Rightarrow> task_home \<Rightarrow> ContinuationAuthoritySnapshotV1
    \<Rightarrow> string \<Rightarrow> string \<Rightarrow> io_error + unit" where
  "revalidate_explicit_checkpoint_snapshot lib h sn working_session_key agent_id =
     (if sn_kind sn \<noteq> ExplicitCheckpointAuthority
      then Inl (invalid_data ''task snapshot is not ExplicitCheckpoint authority'')
      else case read_task_family lib h (sn_authority_id sn) of
        Inl e \<Rightarrow> Inl e
      | Inr f \<Rightarrow>
          if fa_authority_version f \<noteq> sn_authority_version sn \<or> fa_agent_id f \<noteq> agent_id
             \<or> fa_exact_lane_digest f \<noteq> sn_exact_lane_digest sn
             \<or> fa_virtual_session_id f \<noteq> sn_virtual_session_id sn
             \<or> fa_root_working_session_key f \<noteq> root_working_session_key working_session_key
             \<or> fa_runtime_class f \<noteq> ''interactive'' \<or> fa_status f \<noteq> ''runnable''
             \<or> task_family_checksum lib f \<noteq> sn_authority_checksum sn
          then Inl (invalid_data ''ExplicitCheckpoint task-family authority changed before child admission'')
          else Inr ())"

definition revalidate_continuation_snapshot :: "task_lib \<Rightarrow> task_home \<Rightarrow> ContinuationAuthoritySnapshotV1
    \<Rightarrow> string \<Rightarrow> string \<Rightarrow> io_error + unit" where
  "revalidate_continuation_snapshot lib h sn working_session_key agent_id =
     (case sn_kind sn of
        OperationPlanAuthority \<Rightarrow> revalidate_operation_plan_snapshot lib h sn working_session_key agent_id
      | ExplicitCheckpointAuthority \<Rightarrow>
          revalidate_explicit_checkpoint_snapshot lib h sn working_session_key agent_id
      | GoalAuthority \<Rightarrow> Inl (invalid_data ''task snapshot cannot use Goal authority''))"

end
