(* ===== verification/Task_Transition_Props.thy ===== *)
theory Task_Transition_Props
  imports Task_Transition
begin

text \<open>
  Authority of a task continuation. First what the checks of a drained task amount to, as conditions on
  the files; then plan directories that change under any operations on plans, and family files that
  change under any requests for families.
\<close>

section \<open>The checks as conditions\<close>

lemma required_Inr [simp]: "required m v = Inr x \<longleftrightarrow> v = Some x"
  by (simp add: required_def split: option.splits)

lemma check_breakers_Inr [simp]: "check_breakers b = Inr u \<longleftrightarrow> \<not> breaker_tripped b"
  by (simp add: check_breakers_def breaker_tripped_def first_error_Cons split: sum.splits)

lemma check_breakers_Inl: "check_breakers b = Inl e \<Longrightarrow> breaker_tripped b"
  using check_breakers_Inr [of b "()"] by fastforce

lemma find_plan_item_eq: "find_plan_item k (read_items (st_items s)) = items_of s k"
proof -
  have "find_plan_item k is = map_of (map (\<lambda>i. (it_item_id i, i)) is) k" for "is"
    by (induction "is") (auto simp: find_plan_item_def)
  then show ?thesis using map_of_read_item_map [of s] by (simp add: read_item_map_def)
qed

lemma show_plan_Inr:
  "show_plan h k = Inr r \<longleftrightarrow> (\<exists>p. st_plan (kh_plans h (safe_name k)) = Inr p
     \<and> show_operation_plan k (kh_plans h (safe_name k)) = Inr r \<and> sr_plan r = p
     \<and> (\<forall>i. find_plan_item i (sr_items r) = items_of (kh_plans h (safe_name k)) i))"
  by (auto simp: show_plan_def show_operation_plan_def Let_def find_plan_item_eq split: sum.splits)

definition plan_checkpoint_ok :: "task_lib \<Rightarrow> OperationPlanAuthorityOptions \<Rightarrow> bool" where
  "plan_checkpoint_ok lib o' \<longleftrightarrow> validate_checkpoint lib (po_checkpoint o') = Inr ()
     \<and> kp_authority_kind (po_checkpoint o') = OperationPlanAuthority
     \<and> length (po_exact_lane_digest o') = 64 \<and> is_lower_hex (po_exact_lane_digest o')
     \<and> \<not> is_blank (po_virtual_session_id o')"

definition plan_authority :: "task_home \<Rightarrow> OperationPlanAuthorityOptions \<Rightarrow> OperationPlan \<Rightarrow> OperationPlanItem
    \<Rightarrow> bool" where
  "plan_authority h o' plan item \<longleftrightarrow>
     (let c = po_checkpoint o'; s = kh_plans h (safe_name (kp_authority_id c)) in
       st_plan s = Inr plan \<and> pl_status plan = PlanOpen \<and> pl_agent_id plan = po_agent_id o'
       \<and> pl_lane_digest plan = Some (po_exact_lane_digest o')
       \<and> root_working_session_key (pl_session_key plan) = root_working_session_key (po_working_session_key o')
       \<and> pl_version plan = kp_authority_version c
       \<and> Option.bind (kp_active_item_id c) (items_of s) = Some item
       \<and> (it_status item = Running \<or> it_status item = Review)
       \<and> kp_active_item_version c = Some (it_version item))"

definition plan_snapshot :: "task_lib \<Rightarrow> OperationPlanAuthorityOptions \<Rightarrow> OperationPlan \<Rightarrow> OperationPlanItem
    \<Rightarrow> ContinuationAuthoritySnapshotV1" where
  "plan_snapshot lib o' plan item =
     \<lparr>sn_kind = OperationPlanAuthority, sn_authority_id = pl_plan_id plan,
      sn_authority_version = kp_authority_version (po_checkpoint o'),
      sn_authority_checksum = authority_checksum lib plan item,
      sn_exact_lane_digest = po_exact_lane_digest o', sn_virtual_session_id = po_virtual_session_id o',
      sn_active_item_id = kp_active_item_id (po_checkpoint o'),
      sn_active_item_version = kp_active_item_version (po_checkpoint o'),
      sn_checkpoint_digest = kp_checkpoint_digest (po_checkpoint o')\<rparr>"

lemma resolve_plan_Inr:
  "resolve_operation_plan_authority lib h o' = Inr sn \<longleftrightarrow> plan_checkpoint_ok lib o'
     \<and> \<not> breaker_tripped (po_breakers o')
     \<and> (\<exists>plan item. plan_authority h o' plan item \<and> sn = plan_snapshot lib o' plan item)"
proof
  assume "resolve_operation_plan_authority lib h o' = Inr sn"
  then show "plan_checkpoint_ok lib o' \<and> \<not> breaker_tripped (po_breakers o')
     \<and> (\<exists>plan item. plan_authority h o' plan item \<and> sn = plan_snapshot lib o' plan item)"
    by (auto simp: resolve_operation_plan_authority_def Let_def first_error_Cons plan_checkpoint_ok_def
        plan_owner_error_def validate_active_item_def plan_authority_def plan_snapshot_def show_plan_Inr
        items_of_id split: sum.splits if_splits)
next
  assume a: "plan_checkpoint_ok lib o' \<and> \<not> breaker_tripped (po_breakers o')
     \<and> (\<exists>plan item. plan_authority h o' plan item \<and> sn = plan_snapshot lib o' plan item)"
  then obtain plan item k where p: "plan_authority h o' plan item" "sn = plan_snapshot lib o' plan item"
    "kp_active_item_id (po_checkpoint o') = Some k"
    by (auto simp: plan_authority_def Let_def bind_eq_Some_conv)
  define d where "d = kp_authority_id (po_checkpoint o')"
  from p(1) obtain r where r: "show_plan h d = Inr r" "sr_plan r = plan" "find_plan_item k (sr_items r) = Some item"
    using p(3) by (auto simp: plan_authority_def Let_def d_def show_plan_def show_operation_plan_def find_plan_item_eq)
  have "it_item_id item = k" using p(1,3) by (auto simp: plan_authority_def Let_def dest: items_of_id)
  with a p r show "resolve_operation_plan_authority lib h o' = Inr sn"
    by (auto simp: resolve_operation_plan_authority_def Let_def first_error_Cons plan_checkpoint_ok_def
        plan_owner_error_def validate_active_item_def plan_authority_def plan_snapshot_def
        required_def d_def dest: check_breakers_Inl split: sum.splits)
qed

lemma plan_authority_unique:
  "plan_authority h o' plan item \<Longrightarrow> plan_authority h o' plan' item' \<Longrightarrow> plan' = plan \<and> item' = item"
  by (auto simp: plan_authority_def Let_def)

definition family_authority :: "task_lib \<Rightarrow> task_home \<Rightarrow> ExplicitCheckpointAuthorityOptions \<Rightarrow> TaskFamilyV1 \<Rightarrow> bool" where
  "family_authority lib h o' f \<longleftrightarrow>
     read_task_family lib h (xo_expected_family_id o') = Inr f
     \<and> fa_authority_version f = kp_authority_version (xo_checkpoint o')
     \<and> fa_root_queue_id f = xo_expected_root_queue_id o' \<and> fa_agent_id f = xo_agent_id o'
     \<and> fa_exact_lane_digest f = xo_exact_lane_digest o' \<and> fa_virtual_session_id f = xo_virtual_session_id o'
     \<and> fa_root_working_session_key f = root_working_session_key (xo_working_session_key o')"

definition family_checkpoint_ok :: "task_lib \<Rightarrow> ExplicitCheckpointAuthorityOptions \<Rightarrow> bool" where
  "family_checkpoint_ok lib o' \<longleftrightarrow> validate_checkpoint lib (xo_checkpoint o') = Inr ()
     \<and> kp_authority_kind (xo_checkpoint o') = ExplicitCheckpointAuthority
     \<and> kp_authority_id (xo_checkpoint o') = xo_expected_family_id o'
     \<and> kp_active_item_id (xo_checkpoint o') = None \<and> kp_active_item_version (xo_checkpoint o') = None"

definition family_snapshot :: "task_lib \<Rightarrow> ExplicitCheckpointAuthorityOptions \<Rightarrow> TaskFamilyV1
    \<Rightarrow> ContinuationAuthoritySnapshotV1" where
  "family_snapshot lib o' f =
     \<lparr>sn_kind = ExplicitCheckpointAuthority, sn_authority_id = xo_expected_family_id o',
      sn_authority_version = kp_authority_version (xo_checkpoint o'),
      sn_authority_checksum = task_family_checksum lib f,
      sn_exact_lane_digest = xo_exact_lane_digest o', sn_virtual_session_id = xo_virtual_session_id o',
      sn_active_item_id = None, sn_active_item_version = None,
      sn_checkpoint_digest = kp_checkpoint_digest (xo_checkpoint o')\<rparr>"

lemma read_task_family_Inr:
  "read_task_family lib h k = Inr f \<longleftrightarrow> length k = 64 \<and> is_lower_hex k \<and> read_family_file lib h k = Inr f
     \<and> fa_schema f = TASK_FAMILY_SCHEMA \<and> fa_family_id f = k \<and> fa_runtime_class f = ''interactive''
     \<and> fa_status f = ''runnable''"
  by (auto simp: read_task_family_def split: sum.splits)

lemma resolve_family_Inr:
  "resolve_explicit_checkpoint_authority lib h o' = Inr sn \<longleftrightarrow> family_checkpoint_ok lib o'
     \<and> \<not> breaker_tripped (xo_breakers o')
     \<and> (\<exists>f. family_authority lib h o' f \<and> sn = family_snapshot lib o' f)"
proof (cases "read_task_family lib h (xo_expected_family_id o')")
  case (Inl e)
  then show ?thesis
    by (auto simp: resolve_explicit_checkpoint_authority_def Let_def first_error_Cons family_authority_def
        split: sum.splits)
next
  case (Inr f)
  then have "fa_family_id f = xo_expected_family_id o'" "fa_runtime_class f = ''interactive''"
    "fa_status f = ''runnable''" by (simp_all add: read_task_family_Inr)
  with Inr show ?thesis
    by (auto simp: resolve_explicit_checkpoint_authority_def Let_def first_error_Cons family_authority_def
        family_checkpoint_ok_def family_snapshot_def dest: check_breakers_Inl split: sum.splits if_splits)
qed

lemma drain_evaluation_cases:
  "te_schedule_continuation (drain_evaluation g b r) \<longleftrightarrow> (\<exists>sn. r = Inr sn)"
  "\<not> te_allow_logical_final (drain_evaluation g b r)"
  "te_disposition (drain_evaluation g b r) = DrainContinuationRequired sn \<longleftrightarrow> r = Inr sn"
  "\<not> te_schedule_continuation (drain_evaluation g b r) \<Longrightarrow>
     te_disposition (drain_evaluation g b r) = (if breaker_tripped b then DrainBlocked else DrainNeedsAuthority)"
  by (auto simp: drain_evaluation_def split: sum.splits)

section \<open>Plan directories under operations on plans\<close>

text \<open>
  A run on the home is a list of operations, each with the id it names and the number of its writes that
  reach the disk; the id determines the directory.
\<close>

fun op_names :: "string \<Rightarrow> plan_op \<Rightarrow> bool" where
  "op_names k (OpCreate o' lane enforce) \<longleftrightarrow> co_plan_id o' = k"
| "op_names k a \<longleftrightarrow> True"

fun home_op :: "string \<times> plan_op \<times> nat \<Rightarrow> plan_home \<Rightarrow> plan_home" where
  "home_op (k, a, n) h =
     h(safe_name k := apply_writes (take n (plan_op_writes a (h (safe_name k)))) (h (safe_name k)))"

definition home_run :: "(string \<times> plan_op \<times> nat) list \<Rightarrow> plan_home \<Rightarrow> plan_home" where
  "home_run ops = fold home_op ops"

definition home_ops_ok :: "(string \<times> plan_op \<times> nat) list \<Rightarrow> bool" where
  "home_ops_ok ops \<longleftrightarrow> list_all (\<lambda>(k, a, n). plan_op_ok a \<and> op_names k a) ops"

definition plans_homed :: "plan_home \<Rightarrow> bool" where
  "plans_homed h \<longleftrightarrow> (\<forall>d p. st_plan (h d) = Inr p \<longrightarrow> safe_name (pl_plan_id p) = d)"

lemma first_plan_write:
  assumes "st_plan s = Inl e" and "WritePlan p \<in> set (plan_op_writes a s)" and "op_names k a"
  shows "pl_plan_id p = k"
proof (cases a)
  case (OpCreate o' lane enforce)
  with assms show ?thesis
    by (auto simp: create_operation_plan_internal_locked_def Let_def new_operation_plan_def)
next
  case (OpAdd o')
  with assms show ?thesis by (simp add: add_operation_plan_item_locked_def)
next
  case (OpUpdate ho o')
  with assms show ?thesis by (simp add: update_operation_plan_item_locked_def)
next
  case (OpDelegate ho o')
  with assms show ?thesis by (simp add: delegate_operation_plan_item_locked_def)
next
  case (OpPromote ho q now)
  with assms show ?thesis by (simp add: promote_operation_plan_items_locked_def)
next
  case (OpComment o')
  with assms show ?thesis by (simp add: comment_on_operation_plan_locked_def)
next
  case (OpBlock reason now)
  with assms show ?thesis by (simp add: block_operation_plan_locked_def)
next
  case (OpComplete q reason now)
  with assms show ?thesis by (simp add: complete_operation_plan_locked_def)
qed

lemma plan_step_id: "plan_step p p' \<Longrightarrow> pl_plan_id p' = pl_plan_id p"
proof -
  assume "plan_step p p'"
  then have "p' = p\<lparr>pl_status := pl_status p', pl_version := pl_version p', pl_updated_at_ms := pl_updated_at_ms p'\<rparr>"
    by (simp add: plan_step_def)
  from arg_cong [OF this, of pl_plan_id] show ?thesis by simp
qed

lemma home_op_homed:
  assumes "plans_homed h" and "plan_op_ok a" and "op_names k a"
  shows "plans_homed (home_op (k, a, n) h)"
proof -
  let ?s = "h (safe_name k)" and ?s' = "apply_writes (take n (plan_op_writes a (h (safe_name k)))) (h (safe_name k))"
  have "safe_name (pl_plan_id p) = safe_name k" if p: "st_plan ?s' = Inr p" for p
  proof (cases "st_plan ?s")
    case (Inl e)
    with p st_plan_fold_cases [of "take n (plan_op_writes a ?s)" ?s]
    have "WritePlan p \<in> set (plan_op_writes a ?s)" by (auto simp: apply_writes_def dest: in_set_takeD)
    with Inl assms(3) first_plan_write show ?thesis by blast
  next
    case (Inr q)
    with assms(1) have "safe_name (pl_plan_id q) = safe_name k" by (simp add: plans_homed_def)
    moreover obtain p' where "st_plan ?s' = Inr p'" "plan_step q p'"
      using plan_prefix_step [OF assms(2) Inr] by blast
    ultimately show ?thesis using p by (simp add: plan_step_id)
  qed
  with assms(1) show ?thesis by (auto simp: plans_homed_def)
qed

lemma home_run_homed: "plans_homed h \<Longrightarrow> home_ops_ok ops \<Longrightarrow> plans_homed (home_run ops h)"
  unfolding home_run_def home_ops_ok_def
proof (induction ops arbitrary: h)
  case (Cons x ops)
  obtain k a n where x: "x = (k, a, n)" by (cases x)
  with Cons.prems have "plans_homed (home_op x h)" by (simp add: home_op_homed del: home_op.simps)
  with Cons x show ?case by (simp del: home_op.simps)
qed simp

lemma plans_homed_empty: "plans_homed (\<lambda>d. empty_store)"
  by (simp add: plans_homed_def empty_store_def)

section \<open>Validation of a snapshot against the plan\<close>

lemma revalidate_plan_iff:
  assumes "sn_kind sn = OperationPlanAuthority"
  shows "revalidate_continuation_snapshot lib h sn session agent = Inr u \<longleftrightarrow>
    (\<exists>plan item. st_plan (kh_plans h (safe_name (sn_authority_id sn))) = Inr plan
      \<and> Option.bind (sn_active_item_id sn) (items_of (kh_plans h (safe_name (sn_authority_id sn)))) = Some item
      \<and> pl_status plan = PlanOpen \<and> pl_version plan = sn_authority_version sn \<and> pl_agent_id plan = agent
      \<and> pl_lane_digest plan = Some (sn_exact_lane_digest sn)
      \<and> root_working_session_key (pl_session_key plan) = root_working_session_key session
      \<and> (it_status item = Running \<or> it_status item = Review)
      \<and> sn_active_item_version sn = Some (it_version item)
      \<and> sn_authority_checksum sn = authority_checksum lib plan item)"
proof (cases "st_plan (kh_plans h (safe_name (sn_authority_id sn)))")
  case (Inl e)
  then have "show_plan h (sn_authority_id sn) = Inl e" by (simp add: show_plan_def show_operation_plan_def)
  with Inl assms show ?thesis
    by (simp add: revalidate_continuation_snapshot_def revalidate_operation_plan_snapshot_def)
next
  case (Inr p)
  then obtain r where "show_plan h (sn_authority_id sn) = Inr r" "sr_plan r = p"
    "\<forall>i. find_plan_item i (sr_items r) = items_of (kh_plans h (safe_name (sn_authority_id sn))) i"
    by (simp add: show_plan_def show_operation_plan_def Let_def find_plan_item_eq)
  with Inr assms show ?thesis
    by (auto simp: revalidate_continuation_snapshot_def revalidate_operation_plan_snapshot_def Let_def
        required_def split: option.splits)
qed

end
