(* ===== verification/Task_Family_Props.thy ===== *)
theory Task_Family_Props
  imports Task_Transition_Props Replay_Ledger
begin

text \<open>
  Family files. A family is written once and never replaced, so that what was read of it stays true; the
  contract of such files is the locale \<open>create_once\<close>.
\<close>

section \<open>Files that are created once\<close>

locale create_once =
  fixes look :: "'s \<Rightarrow> 'k \<Rightarrow> 'v option"
    and ensure :: "'a \<Rightarrow> 's \<Rightarrow> 's"
    and made :: "'k \<Rightarrow> 'v \<Rightarrow> bool"
  assumes kept: "look s k = Some v \<Longrightarrow> look (ensure a s) k = Some v"
    and fresh: "look s k = None \<Longrightarrow> look (ensure a s) k = Some v \<Longrightarrow> made k v"
begin

lemma run_kept: "look s k = Some v \<Longrightarrow> look (fold ensure as s) k = Some v"
  by (induction "as" arbitrary: s) (simp_all add: kept)

lemma run_made:
  assumes "look (fold ensure as s) k = Some v" and "\<And>w. look s k = Some w \<Longrightarrow> made k w"
  shows "made k v"
  using assms
proof (induction "as" arbitrary: s)
  case (Cons a "as")
  have "made k w" if "look (ensure a s) k = Some w" for w
    using that kept fresh Cons.prems(2) by (cases "look s k") (fastforce simp: kept)+
  with Cons show ?case by simp
qed simp

end

section \<open>The library\<close>

text \<open>What is written parses back, and a digest of SHA-256 has 32 bytes.\<close>

definition task_lib_ok :: "task_lib \<Rightarrow> bool" where
  "task_lib_ok lib \<longleftrightarrow> (\<forall>f. kl_family_from_slice lib (kl_family_to_writer_pretty lib f @ [nl]) = Inr f)
     \<and> (\<forall>b. length (kl_sha256 lib b) = 32)"

lemma task_sha256_hex_canonical: "task_lib_ok lib \<Longrightarrow> length (task_sha256_hex lib b) = 64 \<and> is_lower_hex (task_sha256_hex lib b)"
  by (simp add: task_lib_ok_def task_sha256_hex_def length_hex_encode is_lower_hex_def hex_encode_lower)

section \<open>Requests for families\<close>

definition family_file :: "task_home \<Rightarrow> string \<Rightarrow> string option" where
  "family_file h k = map_of (kh_families h) k"

definition request_family :: "task_lib \<Rightarrow> (io_error + int) \<times> task_family_args \<Rightarrow> task_home \<Rightarrow> task_home" where
  "request_family lib = (\<lambda>(clock, a) h. fst (ensure_task_family lib clock a h))"

definition family_made :: "task_lib \<Rightarrow> string \<Rightarrow> string \<Rightarrow> bool" where
  "family_made lib k b \<longleftrightarrow> (\<exists>now a. validate_family_args a = Inr ()
     \<and> k = fa_family_id (task_family_candidate lib now a)
     \<and> b = kl_family_to_writer_pretty lib (task_family_candidate lib now a) @ [nl])"

lemma ensure_cases:
  obtains (failed) e where "ensure_task_family lib clock a h = (h, Inl e)"
  | (existing) now f where "clock = Inr now" "validate_family_args a = Inr ()"
      "read_family_file lib h (fa_family_id (task_family_candidate lib now a)) = Inr f"
      "task_family_identity f = task_family_identity (task_family_candidate lib now a)"
      "ensure_task_family lib clock a h = (h, Inr f)"
  | (created) now where "clock = Inr now" "validate_family_args a = Inr ()"
      "family_file h (fa_family_id (task_family_candidate lib now a)) = None"
      "ensure_task_family lib clock a h = (h\<lparr>kh_families := map_insert (fa_family_id (task_family_candidate lib now a))
         (kl_family_to_writer_pretty lib (task_family_candidate lib now a) @ [nl]) (kh_families h)\<rparr>,
         Inr (task_family_candidate lib now a))"
proof (cases "validate_family_args a")
  case (Inl e)
  then show ?thesis by (intro failed) (simp add: ensure_task_family_def)
next
  case (Inr u)
  then have v: "validate_family_args a = Inr ()" by simp
  show ?thesis
  proof (cases clock)
    case (Inl e)
    with v show ?thesis by (intro failed) (simp add: ensure_task_family_def)
  next
    case now: (Inr now)
    let ?c = "task_family_candidate lib now a"
    show ?thesis
    proof (cases "map_of (kh_families h) (fa_family_id ?c)")
      case None
      with v now show ?thesis by (intro created [OF now v]) (simp_all add: family_file_def ensure_task_family_def Let_def)
    next
      case (Some b)
      show ?thesis
      proof (cases "read_family_file lib h (fa_family_id ?c)")
        case (Inl e)
        with Some v now show ?thesis by (intro failed) (simp add: ensure_task_family_def Let_def)
      next
        case (Inr f)
        with Some v now show ?thesis
          by (cases "task_family_identity f = task_family_identity ?c")
            (auto intro: failed existing simp: ensure_task_family_def Let_def)
      qed
    qed
  qed
qed

interpretation families: create_once family_file "request_family lib" "family_made lib" for lib
proof
  fix s k v and a :: "(io_error + int) \<times> task_family_args"
  assume v: "family_file s k = Some v"
  obtain clock b where a: "a = (clock, b)" by (cases a)
  from v show "family_file (request_family lib a s) k = Some v"
    by (cases rule: ensure_cases [of lib clock b s]) (auto simp: a request_family_def family_file_def)
next
  fix s k v and a :: "(io_error + int) \<times> task_family_args"
  assume v: "family_file s k = None" "family_file (request_family lib a s) k = Some v"
  obtain clock b where a: "a = (clock, b)" by (cases a)
  from v show "family_made lib k v"
    by (cases rule: ensure_cases [of lib clock b s])
      (auto simp: a request_family_def family_file_def family_made_def split: if_splits)
qed

lemma read_family_file_eq:
  "read_family_file lib h k = (case family_file h k of
     None \<Rightarrow> Inl (IoError NotFound ''No such file or directory (os error 2)'')
   | Some b \<Rightarrow> (case kl_family_from_slice lib b of Inl e \<Rightarrow> Inl (IoError OtherIo e) | Inr f \<Rightarrow> Inr f))"
  by (simp add: read_family_file_def family_file_def)

lemma read_family_kept:
  "read_family_file lib h k = Inr f \<Longrightarrow> read_family_file lib (fold (request_family lib) rs h) k = Inr f"
  by (auto simp: read_family_file_eq families.run_kept split: option.splits sum.splits)

lemma read_task_family_kept:
  "read_task_family lib h k = Inr f \<Longrightarrow> read_task_family lib (fold (request_family lib) rs h) k = Inr f"
  by (simp add: read_task_family_Inr read_family_kept)

lemma request_family_plans [simp]: "kh_plans (request_family lib r h) = kh_plans h"
proof -
  obtain clock a where r: "r = (clock, a)" by (cases r)
  show ?thesis by (cases rule: ensure_cases [of lib clock a h]) (auto simp: r request_family_def)
qed

lemma candidate_sel [simp]:
  "fa_family_id (task_family_candidate lib now a) = task_sha256_hex lib (task_family_material a)"
  "fa_schema (task_family_candidate lib now a) = TASK_FAMILY_SCHEMA"
  "fa_runtime_class (task_family_candidate lib now a) = ''interactive''"
  "fa_status (task_family_candidate lib now a) = ''runnable''"
  "fa_root_queue_id (task_family_candidate lib now a) = ta_root_queue_id a"
  by (simp_all add: task_family_candidate_def)

lemma candidate_identity:
  "task_family_identity (task_family_candidate lib now a) = task_family_identity (task_family_candidate lib 0 a)"
  by (simp add: task_family_identity_def task_family_candidate_def)

definition no_families :: "plan_home \<Rightarrow> task_home" where
  "no_families p = \<lparr>kh_plans = p, kh_families = []\<rparr>"

lemma requested_file:
  assumes "task_lib_ok lib" and "h = fold (request_family lib) rs (no_families p)" and "family_file h k = Some b"
  obtains now a where "validate_family_args a = Inr ()" "k = fa_family_id (task_family_candidate lib now a)"
    "read_family_file lib h k = Inr (task_family_candidate lib now a)"
proof -
  have "family_made lib k b"
    using families.run_made assms(2,3) by (fastforce simp: no_families_def family_file_def)
  then show ?thesis
    using assms(1,3) by (auto simp: family_made_def read_family_file_eq task_lib_ok_def intro: that)
qed

text \<open>After any requests, the family a request gives is on disk under its id.\<close>

lemma ensured_family:
  assumes ok: "task_lib_ok lib" and h: "h = fold (request_family lib) rs (no_families p)"
    and res: "ensure_task_family lib clock a h = (h', Inr f)"
  shows "read_task_family lib h' (fa_family_id f) = Inr f"
    and "fa_family_id f = task_sha256_hex lib (task_family_material a)"
    and "task_family_identity f = task_family_identity (task_family_candidate lib 0 a)"
    and "validate_family_args a = Inr ()"
proof -
  have "read_task_family lib h' (fa_family_id f) = Inr f \<and> fa_family_id f = task_sha256_hex lib (task_family_material a)
    \<and> task_family_identity f = task_family_identity (task_family_candidate lib 0 a) \<and> validate_family_args a = Inr ()"
  proof (cases rule: ensure_cases [of lib clock a h])
    case (failed e)
    with res show ?thesis by simp
  next
    case (existing now g)
    with res have eq: "g = f" "h' = h" by simp_all
    with existing(3) obtain b where "family_file h (task_sha256_hex lib (task_family_material a)) = Some b"
      by (auto simp: read_family_file_eq split: option.splits)
    then obtain now' a' where
      "task_sha256_hex lib (task_family_material a) = fa_family_id (task_family_candidate lib now' a')"
      "read_family_file lib h (task_sha256_hex lib (task_family_material a)) = Inr (task_family_candidate lib now' a')"
      by (rule requested_file [OF ok h])
    with existing eq task_sha256_hex_canonical [OF ok] candidate_identity [of lib now a] show ?thesis
      by (simp add: read_task_family_Inr)
  next
    case (created now)
    with res ok task_sha256_hex_canonical [OF ok] candidate_identity [of lib now a] show ?thesis
      by (auto simp: read_task_family_Inr read_family_file_eq family_file_def task_lib_ok_def)
  qed
  then show "read_task_family lib h' (fa_family_id f) = Inr f"
    "fa_family_id f = task_sha256_hex lib (task_family_material a)"
    "task_family_identity f = task_family_identity (task_family_candidate lib 0 a)"
    "validate_family_args a = Inr ()" by blast+
qed

lemma families_distinct: "distinct (map_keys (kh_families (fold (request_family lib) rs (no_families p))))"
proof -
  have step: "distinct (map_keys (kh_families (request_family lib r h)))" if "distinct (map_keys (kh_families h))" for r h
  proof -
    obtain clock a where r: "r = (clock, a)" by (cases r)
    from that show ?thesis
      by (cases rule: ensure_cases [of lib clock a h]) (auto simp: r request_family_def distinct_map_insert)
  qed
  have "distinct (map_keys (kh_families h)) \<Longrightarrow> distinct (map_keys (kh_families (fold (request_family lib) rs h)))" for h
    by (induction rs arbitrary: h) (simp_all add: step)
  then show ?thesis by (simp add: no_families_def map_keys_def)
qed

section \<open>The family of a root queue\<close>

definition claims_queue :: "task_lib \<Rightarrow> task_home \<Rightarrow> string \<Rightarrow> string \<Rightarrow> bool" where
  "claims_queue lib h q k \<longleftrightarrow> (\<exists>f. read_family_file lib h k = Inr f \<and> fa_schema f = TASK_FAMILY_SCHEMA \<and> fa_root_queue_id f = q)"

lemma find_family_among_iff:
  assumes "\<forall>k \<in> set ks. \<exists>f. read_family_file lib h k = Inr f"
  shows "find_family_among lib h q found ks =
    (case map (\<lambda>k. case read_family_file lib h k of Inr f \<Rightarrow> f) (filter (claims_queue lib h q) ks) of
       [] \<Rightarrow> Inr found
     | [f] \<Rightarrow> if found = None then Inr (Some f)
         else Inl (invalid_data ''multiple task families claim the same root queue authority'')
     | _ \<Rightarrow> Inl (invalid_data ''multiple task families claim the same root queue authority''))"
  using assms
proof (induction ks arbitrary: found)
  case (Cons k ks)
  then obtain f where f: "read_family_file lib h k = Inr f" by auto
  with Cons show ?case by (auto simp: claims_queue_def split: list.splits)
qed simp

end
