(* ===== verification/Task_Transition_Claims.thy ===== *)
theory Task_Transition_Claims
  imports Task_Family_Props
begin

text \<open>
  Properties of task transitions: when a drained task goes on under a plan, that the authority it was given
  is still the same when the continuation is admitted, that a family is created once, and that a marker
  in the text of the assistant is read back.
\<close>

section \<open>A concrete library and plan\<close>

definition family_key :: "TaskFamilyV1 \<Rightarrow> string list \<times> nat list \<times> int list" where
  "family_key f = ([fa_schema f, fa_family_id f, fa_root_queue_id f, fa_exact_lane_digest f, fa_virtual_session_id f,
     fa_root_working_session_key f, fa_agent_id f, fa_runtime_class f, fa_prompt_digest f, fa_policy_digest f,
     fa_status f], map unat [fa_authority_version f, fa_observation_order f], [fa_created_at_ms f, fa_updated_at_ms f])"

lemma family_key_inj: "family_key f = family_key g \<Longrightarrow> f = g"
  by (rule TaskFamilyV1.equality) (simp_all add: family_key_def u64_unat_eq)

definition demo_task_digest :: string where
  "demo_task_digest = hex_encode (replicate 32 (CHR ''a''))"

definition demo_task_marker :: DrainDispositionMarkerV1 where
  "demo_task_marker = \<lparr>dm_schema = DRAIN_DISPOSITION_SCHEMA, dm_disposition = KindNeedsAuthority,
     dm_observed_deadline_generation = 1, dm_authority_kind = None, dm_authority_id = None,
     dm_authority_version = None, dm_task_family_id = None, dm_task_family_version = None,
     dm_active_item_id = None, dm_active_item_version = None, dm_checkpoint = None,
     dm_checkpoint_digest = None, dm_reason_code = Some ''r'', dm_question = None, dm_recovery_hint = None,
     dm_completion_evidence_digests = []\<rparr>"

definition demo_kl :: task_lib where
  "demo_kl = \<lparr>kl_sha256 = (\<lambda>b. replicate 32 (CHR ''a'')), kl_family_to_vec = keyed_enc family_key,
     kl_family_to_writer_pretty = keyed_enc family_key,
     kl_family_from_slice = (\<lambda>b. case keyed_dec family_key (butlast b) of None \<Rightarrow> Inl [] | Some f \<Rightarrow> Inr f),
     kl_plan_item_to_vec = (\<lambda>_. []), kl_checkpoint_from_str = (\<lambda>_. Inl []),
     kl_marker_from_str = (\<lambda>s. if s = ''{}'' then Inr demo_task_marker else Inl [])\<rparr>"

lemma demo_kl_ok: "task_lib_ok demo_kl"
proof -
  have "keyed_dec family_key (keyed_enc family_key f) = Some f" for f
    using codec_keyed [of family_key f] family_key_inj by (auto simp: codec_ok_def inj_def)
  then show ?thesis by (simp add: task_lib_ok_def demo_kl_def)
qed

lemma demo_pretty [simp]: "kl_family_to_writer_pretty demo_kl = keyed_enc family_key"
  by (simp add: demo_kl_def)

lemma demo_sha [simp]: "task_sha256_hex demo_kl b = demo_task_digest"
  by (simp add: task_sha256_hex_def demo_kl_def demo_task_digest_def)

lemma demo_task_digest_hex [simp]: "length demo_task_digest = 64" "is_lower_hex demo_task_digest"
  using task_sha256_hex_canonical [OF demo_kl_ok, of "[]"] by simp_all

definition demo_task_ops :: "(string \<times> plan_op \<times> nat) list" where
  "demo_task_ops = map (\<lambda>a. (''p'', a, 4)) [OpCreate demo_create (Some demo_task_digest) True,
     OpAdd (demo_add ''a'' []), OpUpdate rev (demo_update ''a'' 1 (Some Ready) None),
     OpUpdate rev (demo_update ''a'' 2 (Some Running) None)]"

definition demo_task_plan :: OperationPlan where
  "demo_task_plan = touch_plan 3 (touch_plan 3 (touch_plan 2 (new_operation_plan demo_create (Some demo_task_digest))))"

definition demo_moved :: "OperationPlanItemStatus \<Rightarrow> u64 \<Rightarrow> OperationPlanItem \<Rightarrow> OperationPlanItem" where
  "demo_moved st v i = update_fields (demo_update ''a'' v (Some st) None) (i\<lparr>it_status := st\<rparr>)"

definition demo_task_item :: OperationPlanItem where
  "demo_task_item = demo_moved Running 2 (demo_moved Ready 1 (demo_item ''a'' []))"

lemma update_accepted:
  assumes "st_plan s = Inr p" and "items_of s ''a'' = Some i" and "it_version i = v"
    and "can_transition_to (it_status i) st"
  shows "st_plan (apply_writes (take 4 (plan_op_writes (OpUpdate rev (demo_update ''a'' v (Some st) None)) s)) s)
      = Inr (touch_plan 3 p)"
    and "items_of (apply_writes (take 4 (plan_op_writes (OpUpdate rev (demo_update ''a'' v (Some st) None)) s)) s)
      = (items_of s)(''a'' \<mapsto> demo_moved st v i)"
proof -
  have "it_item_id i = ''a''" using assms(2) by (rule items_of_id)
  moreover have "update_operation_plan_item_locked rev (demo_update ''a'' v (Some st) None) s \<noteq> ([], Inl e)" for e
    using assms by (simp add: update_operation_plan_item_locked_def map_of_read_item_map Let_def updated_item_def
        demo_update_def check_expected_version_def update_status_def update_dependencies_def)
  ultimately show "st_plan (apply_writes (take 4 (plan_op_writes (OpUpdate rev (demo_update ''a'' v (Some st) None)) s)) s)
      = Inr (touch_plan 3 p)"
    "items_of (apply_writes (take 4 (plan_op_writes (OpUpdate rev (demo_update ''a'' v (Some st) None)) s)) s)
      = (items_of s)(''a'' \<mapsto> demo_moved st v i)"
    using assms
    by (cases rule: update_writes_cases [of rev "demo_update ''a'' v (Some st) None" s];
        auto simp: apply_writes_def demo_moved_def updated_item_def update_status_def update_dependencies_def
          check_expected_version_def demo_update_def)+
qed

lemma demo_task_run:
  "st_plan (home_run demo_task_ops (\<lambda>d. empty_store) ''p'') = Inr demo_task_plan
   \<and> items_of (home_run demo_task_ops (\<lambda>d. empty_store) ''p'') ''a'' = Some demo_task_item"
proof -
  let ?p = "new_operation_plan demo_create (Some demo_task_digest)"
  define s1 where "s1 = apply_writes (take 4 (plan_op_writes (OpCreate demo_create (Some demo_task_digest) True) empty_store)) empty_store"
  define s2 where "s2 = apply_writes (take 4 (plan_op_writes (OpAdd (demo_add ''a'' [])) s1)) s1"
  define s3 where "s3 = apply_writes (take 4 (plan_op_writes (OpUpdate rev (demo_update ''a'' 1 (Some Ready) None)) s2)) s2"
  define s4 where "s4 = apply_writes (take 4 (plan_op_writes (OpUpdate rev (demo_update ''a'' 2 (Some Running) None)) s3)) s3"
  have s1: "st_plan s1 = Inr ?p" "items_of s1 = Map.empty"
    by (simp_all add: s1_def create_operation_plan_internal_locked_def Let_def apply_writes_def
        empty_store_def plan_event_def apply_write.simps items_of_def [abs_def] item_rows_def List.map_filter_def)
  have "card (open_ids (items_of s1)) < 2" by (simp add: s1)
  then have s2: "st_plan s2 = Inr (touch_plan 2 ?p)" "items_of s2 = [''a'' \<mapsto> demo_item ''a'' []]"
    using add_accepted [of s1 ?p "demo_add ''a'' []"] s1
    by (auto simp: s2_def apply_writes_def demo_add_def demo_item_def new_plan_item_def new_operation_plan_def
        demo_create_def)
  have i: "it_version (demo_item ''a'' []) = 1" "it_status (demo_item ''a'' []) = Todo"
    by (simp_all add: demo_item_def new_plan_item_def)
  have j: "it_version (demo_moved Ready 1 (demo_item ''a'' [])) = 2" "it_status (demo_moved Ready 1 (demo_item ''a'' [])) = Ready"
    by (simp_all add: demo_moved_def i sat_add_def)
  have s3: "st_plan s3 = Inr (touch_plan 3 (touch_plan 2 ?p))" "items_of s3 ''a'' = Some (demo_moved Ready 1 (demo_item ''a'' []))"
    using update_accepted [of s2, OF s2(1), of _ 1 Ready] s2 i by (simp_all add: s3_def)
  have "st_plan s4 = Inr demo_task_plan" "items_of s4 ''a'' = Some demo_task_item"
    using update_accepted [of s3, OF s3, of 2 Running] j by (simp_all add: s4_def demo_task_plan_def demo_task_item_def)
  moreover have "home_run demo_task_ops (\<lambda>d. empty_store) ''p'' = s4"
    by (simp add: home_run_def demo_task_ops_def s1_def s2_def s3_def s4_def safe_name_def safe_byte_def
        is_ascii_alphanumeric_def del: plan_op_writes.simps)
  ultimately show ?thesis by simp
qed

definition demo_task_checkpoint :: "ContinuationAuthorityKindV1 \<Rightarrow> TaskContinuationCheckpointV1" where
  "demo_task_checkpoint kind = \<lparr>kp_schema = TASK_CONTINUATION_CHECKPOINT_SCHEMA, kp_authority_kind = kind,
     kp_authority_id = (if kind = OperationPlanAuthority then ''p'' else demo_task_digest),
     kp_authority_version = (if kind = OperationPlanAuthority then 4 else 1),
     kp_active_item_id = (if kind = OperationPlanAuthority then Some ''a'' else None),
     kp_active_item_version = (if kind = OperationPlanAuthority then Some 3 else None),
     kp_checkpoint = ''done so far'', kp_checkpoint_digest = demo_task_digest\<rparr>"

definition demo_breakers :: TaskContinuationBreakers where
  "demo_breakers = \<lparr>bk_operator_stop = False, bk_newer_steer = False, bk_budget_exhausted = False,
     bk_no_progress_exhausted = False, bk_continuation_depth = 0, bk_max_continuation_depth = 0\<rparr>"

definition demo_plan_options :: OperationPlanAuthorityOptions where
  "demo_plan_options = \<lparr>po_checkpoint = demo_task_checkpoint OperationPlanAuthority,
     po_exact_lane_digest = demo_task_digest, po_virtual_session_id = ''v'', po_working_session_key = ''s'',
     po_agent_id = ''a'', po_breakers = demo_breakers\<rparr>"

definition demo_task_home :: task_home where
  "demo_task_home = no_families (home_run demo_task_ops (\<lambda>d. empty_store))"

lemma demo_digest_not_blank: "\<not> is_blank demo_task_digest"
proof -
  have "list_all ascii_graphic demo_task_digest"
    using demo_task_digest_hex(2) by (auto simp: is_lower_hex_def list_all_iff is_lower_hex_byte_def ascii_graphic_def is_ascii_digit_def)
  moreover have "demo_task_digest \<noteq> []" using demo_task_digest_hex(1) by (metis list.size(3) zero_neq_numeral)
  ultimately show ?thesis by (intro not_blank_graphic_ends) (auto simp: list_all_iff)
qed

lemma demo_checkpoint_valid: "validate_checkpoint demo_kl (demo_task_checkpoint kind) = Inr ()"
  using demo_digest_not_blank not_blank_graphic_ends [of "''p''"]
  by (simp add: validate_checkpoint_def demo_task_checkpoint_def MAX_CHECKPOINT_BYTES_def ascii_graphic_def)

lemma demo_breakers_closed: "\<not> breaker_tripped demo_breakers"
  by (simp add: breaker_tripped_def demo_breakers_def depth_exhausted_def Let_def DEFAULT_MAX_TASK_CONTINUATION_DEPTH_def)

lemma demo_plan_authority: "plan_authority demo_task_home demo_plan_options demo_task_plan demo_task_item"
proof -
  have "pl_version demo_task_plan = 4" "pl_status demo_task_plan = PlanOpen" "pl_agent_id demo_task_plan = ''a''"
    "pl_lane_digest demo_task_plan = Some demo_task_digest" "pl_session_key demo_task_plan = ''s''"
    by (simp_all add: demo_task_plan_def touch_plan_def new_operation_plan_def demo_create_def sat_add_def)
  moreover have "it_version demo_task_item = 3" "it_status demo_task_item = Running"
    by (simp_all add: demo_task_item_def demo_moved_def demo_item_def new_plan_item_def sat_add_def)
  moreover have "safe_name ''p'' = ''p''" by (simp add: safe_name_def safe_byte_def is_ascii_alphanumeric_def)
  ultimately show ?thesis using demo_task_run
    by (simp add: plan_authority_def Let_def demo_plan_options_def demo_task_checkpoint_def demo_task_home_def no_families_def)
qed

lemma demo_plan_drain:
  "te_disposition (evaluate_operation_plan_drain demo_kl demo_task_home demo_plan_options)
     = DrainContinuationRequired (plan_snapshot demo_kl demo_plan_options demo_task_plan demo_task_item)"
proof -
  have "plan_checkpoint_ok demo_kl demo_plan_options"
    using demo_checkpoint_valid [of OperationPlanAuthority] not_blank_graphic_ends [of "''v''"]
    by (simp add: plan_checkpoint_ok_def demo_plan_options_def ascii_graphic_def)
      (simp add: demo_task_checkpoint_def)
  then show ?thesis
    using demo_plan_authority demo_breakers_closed
    by (auto simp: evaluate_operation_plan_drain_def drain_evaluation_cases resolve_plan_Inr demo_plan_options_def)
qed

section \<open>Properties\<close>

text \<open>
  C15. The disposition of a task drained under a plan: it goes on exactly when the checkpoint is well
  formed, no breaker is tripped, and the plan on disk is open, at the version of the checkpoint, owned by the
  same agent, lane and session root, with its item running or in review at the version of the
  checkpoint; the snapshot it is given is that of this plan and item. It is blocked exactly when a breaker is
  tripped, needs authority in all other cases, and is never reported as final.
\<close>
theorem plan_drain_exact:
  "(\<forall>sn. te_disposition (evaluate_operation_plan_drain lib h o') = DrainContinuationRequired sn \<longleftrightarrow>
       plan_checkpoint_ok lib o' \<and> \<not> breaker_tripped (po_breakers o')
       \<and> (\<exists>plan item. plan_authority h o' plan item \<and> sn = plan_snapshot lib o' plan item))
   \<and> (te_schedule_continuation (evaluate_operation_plan_drain lib h o') \<longleftrightarrow>
       (\<exists>sn. te_disposition (evaluate_operation_plan_drain lib h o') = DrainContinuationRequired sn))
   \<and> (te_disposition (evaluate_operation_plan_drain lib h o') = DrainBlocked \<longleftrightarrow> breaker_tripped (po_breakers o'))
   \<and> (te_disposition (evaluate_operation_plan_drain lib h o') = DrainNeedsAuthority \<longleftrightarrow>
       \<not> breaker_tripped (po_breakers o')
       \<and> \<not> (plan_checkpoint_ok lib o' \<and> (\<exists>plan item. plan_authority h o' plan item)))
   \<and> \<not> te_allow_logical_final (evaluate_operation_plan_drain lib h o')"
proof (cases "resolve_operation_plan_authority lib h o'")
  case (Inl e)
  then have "\<not> (plan_checkpoint_ok lib o' \<and> \<not> breaker_tripped (po_breakers o') \<and> (\<exists>plan item. plan_authority h o' plan item))"
    using resolve_plan_Inr [of lib h o'] by (metis sum.distinct(1))
  with Inl show ?thesis by (auto simp: evaluate_operation_plan_drain_def drain_evaluation_def)
next
  case (Inr sn)
  with resolve_plan_Inr [of lib h o' sn] show ?thesis
    by (auto simp: evaluate_operation_plan_drain_def drain_evaluation_def dest: plan_authority_unique)
qed

text \<open>
  C14. A continuation is admitted only on the authority it was given. Plans change under any operations on
  any of them, each possibly cut off by a crash. When a drained task is given a snapshot, then at any
  later state of the files, whatever wrote them, the snapshot is accepted if the plan and its item are as
  they were, and it is refused if either has changed, unless the changed pair has the same checksum.
\<close>
theorem plan_continuation_current:
  assumes "home_ops_ok ops" and "kh_plans h = home_run ops (\<lambda>d. empty_store)"
    and "te_disposition (evaluate_operation_plan_drain lib h o') = DrainContinuationRequired sn"
    and "s' = kh_plans h' (safe_name (kp_authority_id (po_checkpoint o')))"
  shows "\<exists>plan item k. plan_authority h o' plan item \<and> kp_active_item_id (po_checkpoint o') = Some k
    \<and> (st_plan s' = Inr plan \<and> items_of s' k = Some item
        \<longrightarrow> revalidate_continuation_snapshot lib h' sn (po_working_session_key o') (po_agent_id o') = Inr ())
    \<and> (revalidate_continuation_snapshot lib h' sn (po_working_session_key o') (po_agent_id o') = Inr ()
        \<longrightarrow> (st_plan s' = Inr plan \<and> items_of s' k = Some item)
          \<or> (\<exists>plan' item'. (plan', item') \<noteq> (plan, item) \<and> st_plan s' = Inr plan' \<and> items_of s' k = Some item'
               \<and> authority_checksum lib plan' item' = authority_checksum lib plan item))"
proof -
  from assms(3) obtain plan item where a: "plan_authority h o' plan item" "sn = plan_snapshot lib o' plan item"
    by (auto simp: evaluate_operation_plan_drain_def drain_evaluation_cases resolve_plan_Inr)
  then obtain k where k: "kp_active_item_id (po_checkpoint o') = Some k"
    by (auto simp: plan_authority_def Let_def bind_eq_Some_conv)
  have "plans_homed (kh_plans h)" using home_run_homed [OF plans_homed_empty assms(1)] assms(2) by simp
  with a(1) have d: "safe_name (sn_authority_id sn) = safe_name (kp_authority_id (po_checkpoint o'))"
    by (auto simp: plans_homed_def plan_authority_def Let_def a(2) plan_snapshot_def)
  have kind: "sn_kind sn = OperationPlanAuthority" by (simp add: a(2) plan_snapshot_def)
  have sel: "sn_authority_version sn = kp_authority_version (po_checkpoint o')"
    "sn_active_item_id sn = Some k" "sn_authority_checksum sn = authority_checksum lib plan item"
    "sn_active_item_version sn = kp_active_item_version (po_checkpoint o')"
    "sn_exact_lane_digest sn = po_exact_lane_digest o'" by (simp_all add: a(2) k plan_snapshot_def)
  let ?ok = "revalidate_continuation_snapshot lib h' sn (po_working_session_key o') (po_agent_id o') = Inr ()"
  have same: "?ok" if "st_plan s' = Inr plan \<and> items_of s' k = Some item"
    using that a(1) k unfolding revalidate_plan_iff [OF kind] d sel assms(4) [symmetric]
    by (simp add: plan_authority_def Let_def)
  have "(st_plan s' = Inr plan \<and> items_of s' k = Some item)
      \<or> (\<exists>plan' item'. (plan', item') \<noteq> (plan, item) \<and> st_plan s' = Inr plan' \<and> items_of s' k = Some item'
            \<and> authority_checksum lib plan' item' = authority_checksum lib plan item)" if "?ok"
  proof -
    from that obtain plan' item' where new: "st_plan s' = Inr plan'" "items_of s' k = Some item'"
      "authority_checksum lib plan' item' = authority_checksum lib plan item"
      unfolding revalidate_plan_iff [OF kind] d sel assms(4) [symmetric] by auto
    then show ?thesis by (cases "(plan', item') = (plan, item)") blast+
  qed
  with same a(1) k show ?thesis by blast
qed

theorem plan_continuation_current_witness:
  "revalidate_continuation_snapshot demo_kl demo_task_home
     (plan_snapshot demo_kl demo_plan_options demo_task_plan demo_task_item) ''s'' ''a'' = Inr ()"
proof -
  have ok: "home_ops_ok demo_task_ops"
    by (simp add: home_ops_ok_def demo_task_ops_def hash_order_rev demo_create_def)
  have home: "kh_plans demo_task_home = home_run demo_task_ops (\<lambda>d. empty_store)"
    by (simp add: demo_task_home_def no_families_def)
  from plan_continuation_current [OF ok home demo_plan_drain refl, of demo_task_home]
  obtain plan item k where *: "plan_authority demo_task_home demo_plan_options plan item"
    "kp_active_item_id (po_checkpoint demo_plan_options) = Some k"
    "st_plan (kh_plans demo_task_home (safe_name (kp_authority_id (po_checkpoint demo_plan_options)))) = Inr plan
      \<and> items_of (kh_plans demo_task_home (safe_name (kp_authority_id (po_checkpoint demo_plan_options)))) k = Some item
      \<longrightarrow> revalidate_continuation_snapshot demo_kl demo_task_home
           (plan_snapshot demo_kl demo_plan_options demo_task_plan demo_task_item)
           (po_working_session_key demo_plan_options) (po_agent_id demo_plan_options) = Inr ()" by blast
  then show ?thesis by (auto simp: plan_authority_def Let_def demo_plan_options_def)
qed

text \<open>
  C16. A task family is created once. After any requests for families, with whatever clocks, a request that
  succeeds gives the family of exactly what it asks for, and that family is on disk under its id from
  then on: any later requests leave it there, and the same request gives it back unchanged.
\<close>
theorem task_family_created_once:
  assumes "task_lib_ok lib" and "h = fold (request_family lib) before (no_families p)"
    and "ensure_task_family lib clock a h = (h', Inr f)"
    and "later = fold (request_family lib) rs h'"
  shows "task_family_identity f = task_family_identity (task_family_candidate lib 0 a)
    \<and> read_task_family lib later (fa_family_id f) = Inr f
    \<and> ensure_task_family lib (Inr now) a later = (later, Inr f)"
proof -
  note f = ensured_family [OF assms(1-3)]
  from f(1) have r: "read_task_family lib later (fa_family_id f) = Inr f" by (simp add: assms(4) read_task_family_kept)
  then have on_disk: "read_family_file lib later (task_sha256_hex lib (task_family_material a)) = Inr f"
    using f(2) by (simp add: read_task_family_Inr)
  then have "map_of (kh_families later) (task_sha256_hex lib (task_family_material a)) \<noteq> None"
    by (auto simp: read_family_file_def split: option.splits)
  with on_disk f(3,4) candidate_identity [of lib now a] have "ensure_task_family lib (Inr now) a later = (later, Inr f)"
    by (simp add: ensure_task_family_def Let_def)
  with f(3) r show ?thesis by blast
qed

definition demo_family_args :: task_family_args where
  "demo_family_args = \<lparr>ta_root_queue_id = ''q'', ta_exact_lane_digest = demo_task_digest,
     ta_virtual_session_id = ''v'', ta_working_session_key = ''s'', ta_agent_id = ''a'', ta_prompt_digest = ''d''\<rparr>"

definition demo_family :: TaskFamilyV1 where
  "demo_family = task_family_candidate demo_kl 7 demo_family_args"

definition demo_family_home :: task_home where
  "demo_family_home = demo_task_home\<lparr>kh_families := [(demo_task_digest, keyed_enc family_key demo_family @ [nl])]\<rparr>"

lemma demo_digest_no_control: "\<not> has_control demo_task_digest"
  using demo_task_digest_hex(2)
  by (intro graphic_no_control) (auto simp: is_lower_hex_def list_all_iff is_lower_hex_byte_def ascii_graphic_def is_ascii_digit_def)

lemma demo_family_requested: "ensure_task_family demo_kl (Inr 7) demo_family_args demo_task_home = (demo_family_home, Inr demo_family)"
proof -
  have "\<not> is_blank [c]" "\<not> has_control [c]" if "ascii_graphic c" for c
    using that not_blank_graphic_ends [of "[c]"] graphic_no_control [of "[c]"] by simp_all
  then have "validate_family_args demo_family_args = Inr ()"
    using demo_digest_not_blank demo_digest_no_control
    by (simp add: validate_family_args_def demo_family_args_def ascii_graphic_def)
  then show ?thesis
    by (simp add: ensure_task_family_def Let_def demo_family_def demo_family_home_def demo_task_home_def
        no_families_def map_insert_def map_remove_def)
qed

theorem task_family_created_once_witness:
  "ensure_task_family demo_kl (Inr 9) demo_family_args (request_family demo_kl (Inr 8, demo_family_args) demo_family_home)
     = (request_family demo_kl (Inr 8, demo_family_args) demo_family_home, Inr demo_family)"
  using task_family_created_once [OF demo_kl_ok, of demo_task_home "[]" "kh_plans demo_task_home" "Inr 7" demo_family_args
      demo_family_home demo_family _ "[(Inr 8, demo_family_args)]" 9] demo_family_requested
  by (simp add: demo_task_home_def no_families_def)

text \<open>
  The identity of a task family is exact: two well-formed requests that give the same family id ask for
  the same lane, virtual session, root queue and prompt, or their materials are two byte strings with the same
  digest. The fields are separated by a zero byte, which no accepted field contains.
\<close>
theorem task_family_identity_exact:
  assumes "validate_family_args a = Inr ()" and "validate_family_args b = Inr ()"
    and "fa_family_id (task_family_candidate lib s a) = fa_family_id (task_family_candidate lib t b)"
  shows "(ta_exact_lane_digest a = ta_exact_lane_digest b \<and> ta_virtual_session_id a = ta_virtual_session_id b
      \<and> ta_root_queue_id a = ta_root_queue_id b \<and> ta_prompt_digest a = ta_prompt_digest b)
    \<or> (task_family_material a \<noteq> task_family_material b
        \<and> kl_sha256 lib (task_family_material a) = kl_sha256 lib (task_family_material b))"
proof (cases "task_family_material a = task_family_material b")
  case True
  have no_zero: "\<not> has_control v \<Longrightarrow> byte 0 \<notin> set v" for v
    by (induction v) (auto simp: byte_def)
  have "byte 0 \<notin> set (ta_exact_lane_digest c)" "byte 0 \<notin> set (ta_virtual_session_id c)"
    "byte 0 \<notin> set (ta_root_queue_id c)" if "validate_family_args c = Inr ()" for c
    using that by (auto simp: validate_family_args_def first_error_Inr split: if_splits intro!: no_zero)
  with assms(1,2) have "byte 0 \<notin> set (ta_exact_lane_digest a)" "byte 0 \<notin> set (ta_virtual_session_id a)"
    "byte 0 \<notin> set (ta_root_queue_id a)" "byte 0 \<notin> set (ta_exact_lane_digest b)"
    "byte 0 \<notin> set (ta_virtual_session_id b)" "byte 0 \<notin> set (ta_root_queue_id b)" by blast+
  with True show ?thesis by (simp add: task_family_material_def separated_eq)
next
  case False
  with assms(3) show ?thesis by (auto simp: task_sha256_hex_def dest: hex_encode_inj)
qed

theorem task_family_identity_exact_witness:
  "validate_family_args demo_family_args = Inr ()
   \<and> fa_family_id (task_family_candidate demo_kl 7 demo_family_args) = fa_family_id (task_family_candidate demo_kl 8 demo_family_args)
   \<and> ta_root_queue_id demo_family_args = ''q''"
proof -
  have v: "validate_family_args demo_family_args = Inr ()"
    by (rule ensured_family(4) [OF demo_kl_ok, of demo_task_home "[]"])
      (use demo_family_requested in \<open>simp_all add: demo_task_home_def no_families_def\<close>)
  from task_family_identity_exact [OF v v, of demo_kl 7 8] v show ?thesis by (simp add: demo_family_args_def)
qed

text \<open>
  C18. A task that goes on under its own family is admitted: when a drained task is given a snapshot of its
  task family, the family on disk names exactly the lane, session root, root queue, agent and version of the
  task and no breaker is tripped; and after any further requests for families, whatever happens to the plans, the
  snapshot is still accepted for the same session and agent.
\<close>
theorem checkpoint_continuation_admitted:
  assumes "te_disposition (evaluate_explicit_checkpoint_drain lib h o') = DrainContinuationRequired sn"
    and "kh_families h' = kh_families (fold (request_family lib) rs h)"
  shows "\<not> breaker_tripped (xo_breakers o') \<and> (\<exists>f. family_authority lib h o' f)
    \<and> revalidate_continuation_snapshot lib h' sn (xo_working_session_key o') (xo_agent_id o') = Inr ()"
proof -
  from assms(1) obtain f where f: "\<not> breaker_tripped (xo_breakers o')" "family_authority lib h o' f"
    "sn = family_snapshot lib o' f"
    by (auto simp: evaluate_explicit_checkpoint_drain_def drain_evaluation_cases resolve_family_Inr)
  have "read_task_family lib h' k = read_task_family lib (fold (request_family lib) rs h) k" for k
    by (simp add: read_task_family_def read_family_file_def assms(2))
  with f(2) have r: "read_task_family lib h' (xo_expected_family_id o') = Inr f"
    by (simp add: family_authority_def read_task_family_kept)
  moreover have "fa_runtime_class f = ''interactive''" "fa_status f = ''runnable''"
    using r by (simp_all add: read_task_family_Inr)
  ultimately have "revalidate_continuation_snapshot lib h' sn (xo_working_session_key o') (xo_agent_id o') = Inr ()"
    using f(2) by (simp add: revalidate_continuation_snapshot_def revalidate_explicit_checkpoint_snapshot_def
        f(3) family_snapshot_def family_authority_def)
  with f show ?thesis by blast
qed

definition demo_family_options :: ExplicitCheckpointAuthorityOptions where
  "demo_family_options = \<lparr>xo_checkpoint = demo_task_checkpoint ExplicitCheckpointAuthority,
     xo_expected_family_id = demo_task_digest, xo_expected_root_queue_id = ''q'', xo_exact_lane_digest = demo_task_digest,
     xo_virtual_session_id = ''v'', xo_working_session_key = ''s'', xo_agent_id = ''a'', xo_breakers = demo_breakers\<rparr>"

lemma demo_family_drain:
  "te_disposition (evaluate_explicit_checkpoint_drain demo_kl demo_family_home demo_family_options)
     = DrainContinuationRequired (family_snapshot demo_kl demo_family_options demo_family)"
proof -
  have "fa_family_id demo_family = demo_task_digest" by (simp add: demo_family_def)
  moreover have "read_task_family demo_kl demo_family_home (fa_family_id demo_family) = Inr demo_family"
    by (rule ensured_family(1) [OF demo_kl_ok, of demo_task_home "[]"])
      (use demo_family_requested in \<open>simp_all add: demo_task_home_def no_families_def\<close>)
  ultimately have "family_authority demo_kl demo_family_home demo_family_options demo_family"
    by (simp add: family_authority_def demo_family_options_def demo_task_checkpoint_def)
      (simp add: demo_family_def task_family_candidate_def demo_family_args_def)
  moreover have "family_checkpoint_ok demo_kl demo_family_options"
    using demo_checkpoint_valid [of ExplicitCheckpointAuthority]
    by (simp add: family_checkpoint_ok_def demo_family_options_def) (simp add: demo_task_checkpoint_def)
  ultimately show ?thesis
    using demo_breakers_closed
    by (auto simp: evaluate_explicit_checkpoint_drain_def drain_evaluation_cases resolve_family_Inr demo_family_options_def)
qed

theorem checkpoint_continuation_admitted_witness:
  "revalidate_continuation_snapshot demo_kl (request_family demo_kl (Inr 8, demo_family_args) demo_family_home)
     (family_snapshot demo_kl demo_family_options demo_family) ''s'' ''a'' = Inr ()"
  using checkpoint_continuation_admitted [OF demo_family_drain,
      of "request_family demo_kl (Inr 8, demo_family_args) demo_family_home" "[(Inr 8, demo_family_args)]"]
  by (simp add: demo_family_options_def)

text \<open>
  The family of a root queue. After any requests for families, in whatever order the directory lists
  them: the search gives nothing when no family has this root queue, the family when exactly one has it, and
  an error when two have it.
\<close>
theorem root_queue_family_exact:
  assumes "task_lib_ok lib" and "hash_order ho" and "h = fold (request_family lib) rs (no_families p)"
    and "\<not> is_blank q" and "owners = {k. claims_queue lib h q k}"
  shows "case find_task_family_for_root_queue lib ho h q of
      Inr None \<Rightarrow> owners = {}
    | Inr (Some f) \<Rightarrow> owners = {fa_family_id f} \<and> read_task_family lib h (fa_family_id f) = Inr f
    | Inl e \<Rightarrow> (\<exists>k l. k \<in> owners \<and> l \<in> owners \<and> k \<noteq> l)"
proof -
  let ?ks = "ho (map_keys (kh_families h))"
  have keys: "distinct (map_keys (kh_families h))" using assms(3) by (simp add: families_distinct)
  then have d: "distinct ?ks" and set: "set ?ks = dom (family_file h)"
    using assms(2) by (simp_all add: hash_order_def set_map_keys family_file_def [abs_def])
  have parsed: "\<exists>f. read_task_family lib h k = Inr f" if "k \<in> dom (family_file h)" for k
  proof -
    from that obtain b where "family_file h k = Some b" by blast
    then obtain now a where "k = fa_family_id (task_family_candidate lib now a)"
      "read_family_file lib h k = Inr (task_family_candidate lib now a)"
      by (rule requested_file [OF assms(1,3)])
    then show ?thesis using task_sha256_hex_canonical [OF assms(1)] by (auto simp: read_task_family_Inr)
  qed
  have own: "owners = set (filter (claims_queue lib h q) ?ks)"
    by (auto simp: assms(5) set claims_queue_def read_family_file_eq split: option.splits)
  have d': "distinct (filter (claims_queue lib h q) ?ks)" using d by simp
  have "find_task_family_for_root_queue lib ho h q = find_family_among lib h q None ?ks"
    by (simp add: find_task_family_for_root_queue_def assms(4))
  moreover have "\<forall>k \<in> set ?ks. \<exists>f. read_family_file lib h k = Inr f"
    using parsed set by (fastforce simp: read_task_family_Inr)
  ultimately have found: "find_task_family_for_root_queue lib ho h q =
    (case map (\<lambda>k. case read_family_file lib h k of Inr f \<Rightarrow> f) (filter (claims_queue lib h q) ?ks) of
       [] \<Rightarrow> Inr None | [f] \<Rightarrow> Inr (Some f)
     | _ \<Rightarrow> Inl (invalid_data ''multiple task families claim the same root queue authority''))"
    by (simp add: find_family_among_iff split: list.splits)
  consider "filter (claims_queue lib h q) ?ks = []" | k where "filter (claims_queue lib h q) ?ks = [k]"
    | k l ks where "filter (claims_queue lib h q) ?ks = k # l # ks"
    by (cases "filter (claims_queue lib h q) ?ks"; cases "tl (filter (claims_queue lib h q) ?ks)") auto
  then show ?thesis
  proof cases
    case 1
    with found own show ?thesis by simp
  next
    case 2
    then have "k \<in> set (filter (claims_queue lib h q) ?ks)" by simp
    then have "k \<in> dom (family_file h)" using set by simp
    from parsed [OF this] obtain f where "read_task_family lib h k = Inr f" by blast
    with 2 found own show ?thesis by (simp add: read_task_family_Inr)
  next
    case 3
    with d' own have "k \<in> owners" "l \<in> owners" "k \<noteq> l" by auto
    with 3 found show ?thesis by auto
  qed
qed

theorem root_queue_family_exact_witness:
  "case find_task_family_for_root_queue demo_kl rev demo_family_home ''q'' of
      Inr None \<Rightarrow> {k. claims_queue demo_kl demo_family_home ''q'' k} = {}
    | Inr (Some f) \<Rightarrow> {k. claims_queue demo_kl demo_family_home ''q'' k} = {fa_family_id f}
        \<and> read_task_family demo_kl demo_family_home (fa_family_id f) = Inr f
    | Inl e \<Rightarrow> (\<exists>k l. k \<in> {k. claims_queue demo_kl demo_family_home ''q'' k}
        \<and> l \<in> {k. claims_queue demo_kl demo_family_home ''q'' k} \<and> k \<noteq> l)"
proof -
  have "demo_family_home = fold (request_family demo_kl) [(Inr 7, demo_family_args)] (no_families (kh_plans demo_task_home))"
    using demo_family_requested by (simp add: request_family_def demo_task_home_def no_families_def)
  from root_queue_family_exact [OF demo_kl_ok hash_order_rev this _ refl, of "''q''"] not_blank_graphic_ends [of "''q''"]
  show ?thesis by (simp add: ascii_graphic_def)
qed

section \<open>Families as an abstract registry\<close>

text \<open>The contract of the family files: a map from ids to families in which a request enters a new family or finds one.\<close>

definition register_family :: "task_lib \<Rightarrow> (io_error + int) \<times> task_family_args \<Rightarrow> (string \<rightharpoonup> TaskFamilyV1)
    \<Rightarrow> (string \<rightharpoonup> TaskFamilyV1) \<times> TaskFamilyV1 option" where
  "register_family lib = (\<lambda>(clock, a) m.
     case (validate_family_args a, clock) of
       (Inr _, Inr now) \<Rightarrow>
         let f = task_family_candidate lib now a in
         (case m (fa_family_id f) of
            None \<Rightarrow> (m(fa_family_id f \<mapsto> f), Some f)
          | Some g \<Rightarrow> (m, if task_family_identity g = task_family_identity f then Some g else None))
     | _ \<Rightarrow> (m, None))"

definition family_registry :: "task_lib \<Rightarrow> task_home \<Rightarrow> string \<rightharpoonup> TaskFamilyV1" where
  "family_registry lib h k = (case read_family_file lib h k of Inr f \<Rightarrow> Some f | Inl _ \<Rightarrow> None)"

definition granted_family :: "io_error + TaskFamilyV1 \<Rightarrow> TaskFamilyV1 option" where
  "granted_family r = (case r of Inr f \<Rightarrow> Some f | Inl _ \<Rightarrow> None)"

lemma registry_step:
  assumes ok: "task_lib_ok lib" and files: "\<And>k. family_file h k \<noteq> None \<Longrightarrow> \<exists>f. read_family_file lib h k = Inr f"
  shows "(family_registry lib (fst (ensure_task_family lib clock a h)), granted_family (snd (ensure_task_family lib clock a h)))
    = register_family lib (clock, a) (family_registry lib h)"
proof (cases "\<exists>now. validate_family_args a = Inr () \<and> clock = Inr now")
  case False
  then show ?thesis
    by (auto simp: ensure_task_family_def register_family_def granted_family_def split: sum.splits)
next
  case True
  then obtain now where v: "validate_family_args a = Inr ()" "clock = Inr now" by blast
  let ?c = "task_family_candidate lib now a"
  show ?thesis
  proof (cases "family_file h (fa_family_id ?c)")
    case None
    then have none: "family_registry lib h (fa_family_id ?c) = None" by (simp add: family_registry_def read_family_file_eq)
    have "read_family_file lib (h\<lparr>kh_families := map_insert (fa_family_id ?c) (kl_family_to_writer_pretty lib ?c @ [nl]) (kh_families h)\<rparr>) k
        = (if k = fa_family_id ?c then Inr ?c else read_family_file lib h k)" for k
      using ok by (simp add: read_family_file_eq family_file_def task_lib_ok_def)
    then have "family_registry lib (h\<lparr>kh_families := map_insert (fa_family_id ?c) (kl_family_to_writer_pretty lib ?c @ [nl]) (kh_families h)\<rparr>)
        = (family_registry lib h)(fa_family_id ?c \<mapsto> ?c)" by (simp add: family_registry_def fun_eq_iff)
    with None none v show ?thesis
      by (simp add: ensure_task_family_def register_family_def granted_family_def Let_def family_file_def)
  next
    case (Some b)
    with files obtain f where f: "read_family_file lib h (fa_family_id ?c) = Inr f" by blast
    then have "family_registry lib h (fa_family_id ?c) = Some f" by (simp add: family_registry_def)
    with Some f v show ?thesis
      by (simp add: ensure_task_family_def register_family_def granted_family_def Let_def family_file_def)
  qed
qed

text \<open>
  C17. The family files implement the registry: after any requests, the files stand for the registry that the same
  requests give on a map, and the next request changes the map and answers as the registry does, errors
  included.
\<close>
theorem family_files_refine_registry:
  assumes "task_lib_ok lib" and "h = fold (request_family lib) rs (no_families p)"
    and "m = fold (\<lambda>r m. fst (register_family lib r m)) rs Map.empty"
  shows "family_registry lib h = m
    \<and> (family_registry lib (fst (ensure_task_family lib clock a h)), granted_family (snd (ensure_task_family lib clock a h)))
        = register_family lib (clock, a) m"
proof -
  have files: "\<exists>f. read_family_file lib h k = Inr f" if "h = fold (request_family lib) rs (no_families p)" "family_file h k \<noteq> None"
    for rs h k
    using that requested_file [OF assms(1) that(1)] by blast
  have "family_registry lib (fold (request_family lib) rs (no_families p)) = fold (\<lambda>r m. fst (register_family lib r m)) rs Map.empty"
  proof (induction rs rule: rev_induct)
    case Nil
    show ?case by (simp add: family_registry_def read_family_file_def no_families_def fun_eq_iff)
  next
    case (snoc r rs)
    obtain c b where r: "r = (c, b)" by (cases r)
    have "family_registry lib (request_family lib (c, b) (fold (request_family lib) rs (no_families p)))
        = fst (register_family lib (c, b) (family_registry lib (fold (request_family lib) rs (no_families p))))"
      using arg_cong [OF registry_step [OF assms(1) files [OF refl], of rs c b], of fst] by (simp add: request_family_def)
    with snoc show ?case by (simp add: r)
  qed
  with registry_step [OF assms(1) files [OF assms(2)]] assms(2,3) show ?thesis by simp
qed

theorem family_files_refine_registry_witness:
  "family_registry demo_kl demo_family_home demo_task_digest = Some demo_family"
proof -
  have "family_registry demo_kl demo_task_home = Map.empty
      \<and> (family_registry demo_kl demo_family_home, Some demo_family) = register_family demo_kl (Inr 7, demo_family_args) Map.empty"
    using family_files_refine_registry [OF demo_kl_ok, of demo_task_home "[]" "kh_plans demo_task_home" Map.empty "Inr 7" demo_family_args]
      demo_family_requested by (simp add: demo_task_home_def no_families_def granted_family_def)
  moreover have "validate_family_args demo_family_args = Inr ()"
    by (rule ensured_family(4) [OF demo_kl_ok, of demo_task_home "[]"])
      (use demo_family_requested in \<open>simp_all add: demo_task_home_def no_families_def\<close>)
  ultimately show ?thesis by (simp add: register_family_def Let_def)
qed

end
