(* ===== verification/Task_Marker_Claims.thy ===== *)
theory Task_Marker_Claims
  imports Task_Transition_Claims
begin

text \<open>
  Markers in the text of the assistant: what is between the two tags is read back, and the text around
  them is what the user sees.
\<close>

section \<open>The tags\<close>

definition tag_open :: string where
  "tag_open = ''agent-harness-drain-disposition>''"

definition tag_close :: string where
  "tag_close = ''/agent-harness-drain-disposition>''"

lemma tags:
  "DRAIN_DISPOSITION_MARKER_OPEN = CHR ''<'' # tag_open" "CHR ''<'' \<notin> set tag_open"
  "DRAIN_DISPOSITION_MARKER_CLOSE = CHR ''<'' # tag_close" "CHR ''<'' \<notin> set tag_close"
  by (simp_all add: DRAIN_DISPOSITION_MARKER_OPEN_def DRAIN_DISPOSITION_MARKER_CLOSE_def tag_open_def tag_close_def)

lemma tags_differ:
  "\<not> starts_with (CHR ''<'' # tag_open @ x) (CHR ''<'' # tag_close)"
  "\<not> starts_with (CHR ''<'' # tag_close @ x) (CHR ''<'' # tag_open)"
  by (simp_all add: starts_with_def tag_open_def tag_close_def)

text \<open>A tag occurs in a text only where one of its parts has it.\<close>

lemma contains_tag:
  "contains (a @ CHR ''<'' # tag_open @ x) (CHR ''<'' # tag_close)
     \<longleftrightarrow> contains a (CHR ''<'' # tag_close) \<or> contains x (CHR ''<'' # tag_close)"
  "contains (a @ CHR ''<'' # tag_close @ x) (CHR ''<'' # tag_open)
     \<longleftrightarrow> contains a (CHR ''<'' # tag_open) \<or> contains x (CHR ''<'' # tag_open)"
  using tags(2,4) by (simp_all add: contains_append_sep tags_differ contains_skip)

definition untagged :: "string \<Rightarrow> bool" where
  "untagged v \<longleftrightarrow> \<not> contains v DRAIN_DISPOSITION_MARKER_OPEN \<and> \<not> contains v DRAIN_DISPOSITION_MARKER_CLOSE"

lemma tagged_text:
  assumes "untagged a" and "untagged json" and "untagged b"
    and t: "t = a @ DRAIN_DISPOSITION_MARKER_OPEN @ json @ DRAIN_DISPOSITION_MARKER_CLOSE @ b"
  shows "match_count t DRAIN_DISPOSITION_MARKER_OPEN = 1" "match_count t DRAIN_DISPOSITION_MARKER_CLOSE = 1"
    "str_find t DRAIN_DISPOSITION_MARKER_OPEN = Some (length a)"
    "str_rfind t DRAIN_DISPOSITION_MARKER_CLOSE = Some (length (a @ DRAIN_DISPOSITION_MARKER_OPEN @ json))"
    "str_find (json @ DRAIN_DISPOSITION_MARKER_CLOSE @ b) DRAIN_DISPOSITION_MARKER_CLOSE = Some (length json)"
proof -
  let ?o = "CHR ''<'' # tag_open" and ?c = "CHR ''<'' # tag_close"
  note u = assms(1-3) [unfolded untagged_def tags(1,3)]
  have "\<not> contains (json @ ?c @ b) ?o" using u contains_tag(2) [of json b] by simp
  with u show "match_count t DRAIN_DISPOSITION_MARKER_OPEN = 1"
    using match_count_sep [OF tags(2), of a "json @ ?c @ b"] by (simp add: t tags(1,3))
  have ajs: "\<not> contains (a @ ?o @ json) ?c" using u contains_tag(1) [of a json] by simp
  with u show "match_count t DRAIN_DISPOSITION_MARKER_CLOSE = 1"
    using match_count_sep [OF tags(4), of "a @ ?o @ json" b] by (simp add: t tags(1,3))
  show "str_find t DRAIN_DISPOSITION_MARKER_OPEN = Some (length a)"
    using str_find_sep [OF tags(2), of a "json @ ?c @ b"] u by (simp add: t tags(1,3))
  show "str_rfind t DRAIN_DISPOSITION_MARKER_CLOSE = Some (length (a @ DRAIN_DISPOSITION_MARKER_OPEN @ json))"
    using str_rfind_sep [OF tags(4), of b "a @ ?o @ json"] u by (simp add: t tags(1,3))
  show "str_find (json @ DRAIN_DISPOSITION_MARKER_CLOSE @ b) DRAIN_DISPOSITION_MARKER_CLOSE = Some (length json)"
    using str_find_sep [OF tags(4), of json b] u by (simp add: tags(1,3))
qed

lemma extract_tagged:
  assumes "untagged a" and "untagged json" and "untagged b" and "length json \<le> 4096"
    and "kl_marker_from_str lib (trim json) = Inr m"
  shows "extract_drain_disposition_marker lib
      (a @ DRAIN_DISPOSITION_MARKER_OPEN @ json @ DRAIN_DISPOSITION_MARKER_CLOSE @ b)
    = (trim (a @ b), case validate_drain_disposition_marker lib m of
        Inr u \<Rightarrow> CaptureValid m | Inl e \<Rightarrow> CaptureInvalid (io_error_text e))"
proof -
  define t where "t = a @ DRAIN_DISPOSITION_MARKER_OPEN @ json @ DRAIN_DISPOSITION_MARKER_CLOSE @ b"
  note tt = tagged_text [OF assms(1-3) t_def]
  have rest: "drop (length a + length DRAIN_DISPOSITION_MARKER_OPEN) t = json @ DRAIN_DISPOSITION_MARKER_CLOSE @ b"
    by (simp add: t_def)
  have "drain_visible t = trim (a @ b)"
    unfolding drain_visible_def tt(3,4) by (simp add: Let_def t_def)
  then show ?thesis
    using assms(4,5) unfolding extract_drain_disposition_marker_def Let_def t_def [symmetric] tt(1,2,3) option.case rest tt(5)
    by (simp add: MAX_MARKER_BYTES_def split: sum.splits)
qed

lemma untagged_plain: "CHR ''<'' \<notin> set v \<Longrightarrow> untagged v"
  by (simp add: untagged_def tags(1,3) contains_no_head)

lemma demo_marker_parsed:
  "kl_marker_from_str demo_kl (trim ''{}'') = Inr demo_task_marker"
  "validate_drain_disposition_marker demo_kl demo_task_marker = Inr ()"
proof -
  have "trim ''{}'' = ''{}''" by (rule trim_graphic_ends) (simp_all add: ascii_graphic_def)
  then show "kl_marker_from_str demo_kl (trim ''{}'') = Inr demo_task_marker" by (simp add: demo_kl_def)
  show "validate_drain_disposition_marker demo_kl demo_task_marker = Inr ()"
    by (simp add: validate_drain_disposition_marker_def demo_task_marker_def bounded_text_invalid_def)
qed

section \<open>Properties\<close>

text \<open>
  C20. A drain marker is read back: a text that carries one tagged marker, of at most 4096 bytes and with no other
  tag around or inside it, gives the text without the tags and the marker, trimmed; the marker is the one
  the JSON between the tags stands for when it passes validation, and otherwise the reason why it does not.
\<close>
theorem drain_marker_read_back:
  assumes "untagged a" and "untagged json" and "untagged b" and "length json \<le> 4096"
    and "kl_marker_from_str lib (trim json) = Inr m"
  shows "extract_drain_disposition_marker lib
      (a @ DRAIN_DISPOSITION_MARKER_OPEN @ json @ DRAIN_DISPOSITION_MARKER_CLOSE @ b)
    = (trim (a @ b), case validate_drain_disposition_marker lib m of
        Inr u \<Rightarrow> CaptureValid m | Inl e \<Rightarrow> CaptureInvalid (io_error_text e))"
  using assms by (rule extract_tagged)

theorem drain_marker_read_back_witness:
  "extract_drain_disposition_marker demo_kl
      (''ok '' @ DRAIN_DISPOSITION_MARKER_OPEN @ ''{}'' @ DRAIN_DISPOSITION_MARKER_CLOSE @ ''.'')
    = (trim (''ok '' @ ''.''), CaptureValid demo_task_marker)"
  using drain_marker_read_back [OF untagged_plain untagged_plain untagged_plain, of "''ok ''" "''{}''" "''.''" demo_kl
      demo_task_marker] demo_marker_parsed by simp

text \<open>
  What a valid marker may claim: a marker that asks for a continuation yields a checkpoint whose digest is
  that of its body, at most 2048 bytes long, and one that names a task family names the same one twice; a marker that
  reports completion claims no authority; all others give a reason.
\<close>
theorem valid_marker_claims:
  assumes "snd (extract_drain_disposition_marker lib t) = CaptureValid m"
  shows "case dm_disposition m of
      KindContinuationRequired \<Rightarrow> (\<exists>c. drain_marker_checkpoint lib m = Inr c
        \<and> task_sha256_hex lib (kp_checkpoint c) = kp_checkpoint_digest c
        \<and> 0 < length (kp_checkpoint c) \<and> length (kp_checkpoint c) \<le> 2048
        \<and> (kp_authority_kind c = ExplicitCheckpointAuthority \<longrightarrow> dm_task_family_id m = Some (kp_authority_id c)
            \<and> dm_task_family_version m = Some (kp_authority_version c)))
    | KindLogicalComplete \<Rightarrow> dm_authority_kind m = None \<and> dm_authority_id m = None \<and> dm_checkpoint m = None
    | _ \<Rightarrow> dm_reason_code m \<noteq> None"
proof -
  have "validate_drain_disposition_marker lib m = Inr ()"
    using assms by (auto simp: extract_drain_disposition_marker_def Let_def split: if_splits option.splits sum.splits)
  moreover have "validate_checkpoint lib c = Inr ()" if "drain_marker_checkpoint lib m = Inr c" for c
    using that by (auto simp: drain_marker_checkpoint_def Let_def split: if_splits sum.splits)
  ultimately show ?thesis
    by (auto simp: validate_drain_disposition_marker_def validate_checkpoint_def MAX_CHECKPOINT_BYTES_def
        split: if_splits sum.splits DrainDispositionKindV1.splits)
qed

theorem valid_marker_claims_witness:
  "dm_reason_code demo_task_marker \<noteq> None"
proof -
  have "snd (extract_drain_disposition_marker demo_kl
      (''ok '' @ DRAIN_DISPOSITION_MARKER_OPEN @ ''{}'' @ DRAIN_DISPOSITION_MARKER_CLOSE @ ''.'')) = CaptureValid demo_task_marker"
    using extract_tagged [OF untagged_plain untagged_plain untagged_plain, of "''ok ''" "''{}''" "''.''" demo_kl demo_task_marker]
      demo_marker_parsed by simp
  from valid_marker_claims [OF this] show ?thesis by (simp add: demo_task_marker_def)
qed

end
