(* ===== verification/Task_Budget.thy ===== *)
theory Task_Budget
  imports Replay_Ledger "HOL-Library.Multiset"
begin

text \<open>
  Budgets of tasks (\<open>src/crates/agent-harness-core/src/task_budget.rs\<close>): one ledger per task
  family, one row per slice generation, and a status computed from all rows. The ledger of a
  family is the text of its file; \<open>enc\<close> and \<open>dec\<close> stand for \<open>serde_json\<close>. A file that does
  not exist is the empty text.
\<close>

section \<open>Data\<close>

definition TASK_BUDGET_LEDGER_SCHEMA :: string where
  "TASK_BUDGET_LEDGER_SCHEMA = ''agent-harness.task-budget-ledger.v1''"

definition DEFAULT_TASK_WALL_CLOCK_BUDGET_MS :: u64 where
  "DEFAULT_TASK_WALL_CLOCK_BUDGET_MS = 8 * 60 * 60 * 1000"

definition DEFAULT_MAX_TASK_SLICES :: u64 where
  "DEFAULT_MAX_TASK_SLICES = 16"

definition DEFAULT_MAX_TASK_TOKENS :: u64 where
  "DEFAULT_MAX_TASK_TOKENS = 2000000"

definition DEFAULT_MAX_NO_PROGRESS_SLICES :: u64 where
  "DEFAULT_MAX_NO_PROGRESS_SLICES = 2"

definition DEFAULT_MAX_RECOVERY_SLICES :: u64 where
  "DEFAULT_MAX_RECOVERY_SLICES = 4"

definition DEFAULT_MAX_DISPOSITION_RECOVERY :: u64 where
  "DEFAULT_MAX_DISPOSITION_RECOVERY = 1"

record TaskBudgetSliceV1 =
  ts_schema :: string
  ts_family_id :: string
  ts_slice_generation :: u64
  ts_wall_time_ms :: u64
  ts_total_tokens :: u64
  ts_progress_digest :: string
  ts_recovery_slice :: bool
  ts_disposition_recovery :: bool
  ts_observed_at_ms :: int

record TaskBudgetStatusV1 =
  tb_family_id :: string
  tb_slices :: u64
  tb_cumulative_wall_time_ms :: u64
  tb_cumulative_tokens :: u64
  tb_consecutive_no_progress_slices :: u64
  tb_recovery_slices :: u64
  tb_disposition_recoveries :: u64
  tb_disposition_recovery_exhausted :: bool
  tb_exhausted :: bool
  tb_reason_code :: string

section \<open>Operations\<close>

definition lower_hex :: "string \<Rightarrow> bool" where
  "lower_hex v \<longleftrightarrow> list_all is_lower_hex_byte v"

definition validate_slice :: "TaskBudgetSliceV1 \<Rightarrow> io_error + unit" where
  "validate_slice s =
     (if ts_schema s \<noteq> TASK_BUDGET_LEDGER_SCHEMA \<or> length (ts_family_id s) \<noteq> 64
         \<or> length (ts_progress_digest s) \<noteq> 64 \<or> \<not> lower_hex (ts_family_id s)
         \<or> \<not> lower_hex (ts_progress_digest s)
      then Inl (IoError InvalidData ''task budget slice has invalid schema or digest identity'')
      else Inr ())"

definition same_slice_accounting :: "TaskBudgetSliceV1 \<Rightarrow> TaskBudgetSliceV1 \<Rightarrow> bool" where
  "same_slice_accounting l r \<longleftrightarrow>
     ts_schema l = ts_schema r \<and> ts_family_id l = ts_family_id r
     \<and> ts_slice_generation l = ts_slice_generation r \<and> ts_wall_time_ms l = ts_wall_time_ms r
     \<and> ts_total_tokens l = ts_total_tokens r \<and> ts_progress_digest l = ts_progress_digest r
     \<and> ts_recovery_slice l = ts_recovery_slice r
     \<and> ts_disposition_recovery l = ts_disposition_recovery r"

text \<open>The loop of \<open>read_slices\<close> over the lines that are not blank.\<close>

fun read_slice_lines ::
    "(string \<Rightarrow> TaskBudgetSliceV1 option) \<Rightarrow> (u64 \<times> TaskBudgetSliceV1) list \<Rightarrow> string list
      \<Rightarrow> io_error + (u64 \<times> TaskBudgetSliceV1) list" where
  "read_slice_lines dec slices [] = Inr slices"
| "read_slice_lines dec slices (l # ls) =
     (case dec l of
        None \<Rightarrow> Inl (IoError OtherIo ''invalid JSON'')
      | Some s \<Rightarrow>
          (case validate_slice s of
             Inl e \<Rightarrow> Inl e
           | Inr _ \<Rightarrow>
               (case map_of slices (ts_slice_generation s) of
                  Some existing \<Rightarrow>
                    if same_slice_accounting existing s
                    then read_slice_lines dec (btree_insert (ts_slice_generation s) s slices) ls
                    else Inl (IoError InvalidData
                      ''task budget ledger contains conflicting slice generations'')
                | None \<Rightarrow>
                    read_slice_lines dec (btree_insert (ts_slice_generation s) s slices) ls)))"

definition read_slices :: "(string \<Rightarrow> TaskBudgetSliceV1 option) \<Rightarrow> string
    \<Rightarrow> io_error + (u64 \<times> TaskBudgetSliceV1) list" where
  "read_slices dec t = read_slice_lines dec [] (jsonl_lines t)"

fun no_progress_run :: "string option \<Rightarrow> u64 \<Rightarrow> TaskBudgetSliceV1 list \<Rightarrow> u64" where
  "no_progress_run previous n [] = n"
| "no_progress_run previous n (s # ss) =
     no_progress_run (Some (ts_progress_digest s))
       (if previous = Some (ts_progress_digest s) then sat_add n 1 else 0) ss"

definition reason_code :: "u64 \<Rightarrow> u64 \<Rightarrow> u64 \<Rightarrow> u64 \<Rightarrow> u64 \<Rightarrow> string" where
  "reason_code wall slices tokens no_progress recovery =
     (if DEFAULT_TASK_WALL_CLOCK_BUDGET_MS \<le> wall then ''wall-clock-budget-exhausted''
      else if DEFAULT_MAX_TASK_SLICES \<le> slices then ''slice-budget-exhausted''
      else if DEFAULT_MAX_TASK_TOKENS \<le> tokens then ''token-budget-exhausted''
      else if DEFAULT_MAX_NO_PROGRESS_SLICES \<le> no_progress then ''no-progress-budget-exhausted''
      else if DEFAULT_MAX_RECOVERY_SLICES \<le> recovery then ''recovery-budget-exhausted''
      else ''within-budget'')"

definition status :: "string \<Rightarrow> TaskBudgetSliceV1 list \<Rightarrow> TaskBudgetStatusV1" where
  "status family_id slices =
     (let ordered = sort_key ts_slice_generation slices;
          wall = sat_sum ts_wall_time_ms ordered 0;
          tokens = sat_sum ts_total_tokens ordered 0;
          recovery = (of_nat (length (filter ts_recovery_slice ordered)) :: u64);
          disposition = (of_nat (length (filter ts_disposition_recovery ordered)) :: u64);
          no_progress = no_progress_run None 0 ordered;
          count = (of_nat (length ordered) :: u64);
          reason = reason_code wall count tokens no_progress recovery
      in \<lparr>tb_family_id = family_id, tb_slices = count, tb_cumulative_wall_time_ms = wall,
          tb_cumulative_tokens = tokens, tb_consecutive_no_progress_slices = no_progress,
          tb_recovery_slices = recovery, tb_disposition_recoveries = disposition,
          tb_disposition_recovery_exhausted = (DEFAULT_MAX_DISPOSITION_RECOVERY \<le> disposition),
          tb_exhausted = (reason \<noteq> ''within-budget''), tb_reason_code = reason\<rparr>)"

text \<open>
  \<open>record_task_budget_slice\<close> on the ledger of the slice's family: the text afterwards and the
  result.
\<close>

definition record_in_ledger ::
    "(TaskBudgetSliceV1 \<Rightarrow> string) \<Rightarrow> (string \<Rightarrow> TaskBudgetSliceV1 option) \<Rightarrow> TaskBudgetSliceV1
      \<Rightarrow> string \<Rightarrow> string \<times> (io_error + TaskBudgetStatusV1)" where
  "record_in_ledger enc dec s t =
     (case validate_slice s of
        Inl e \<Rightarrow> (t, Inl e)
      | Inr _ \<Rightarrow>
          (case read_slices dec t of
             Inl e \<Rightarrow> (t, Inl e)
           | Inr by_generation \<Rightarrow>
               (case map_of by_generation (ts_slice_generation s) of
                  Some existing \<Rightarrow>
                    if \<not> same_slice_accounting existing s
                    then (t, Inl (IoError InvalidData
                      ''task budget slice generation was replayed with different accounting''))
                    else (t, Inr (status (ts_family_id s) (btree_values by_generation)))
                | None \<Rightarrow>
                    (append_jsonl_value enc s t,
                     Inr (status (ts_family_id s) (btree_values
                       (btree_insert (ts_slice_generation s) s by_generation)))))))"

text \<open>The ledger files of a home, by family id.\<close>

type_synonym task_ledgers = "string \<Rightarrow> string"

definition record_task_budget_slice ::
    "(TaskBudgetSliceV1 \<Rightarrow> string) \<Rightarrow> (string \<Rightarrow> TaskBudgetSliceV1 option) \<Rightarrow> TaskBudgetSliceV1
      \<Rightarrow> task_ledgers \<Rightarrow> task_ledgers \<times> (io_error + TaskBudgetStatusV1)" where
  "record_task_budget_slice enc dec s home =
     (case record_in_ledger enc dec s (home (ts_family_id s)) of
        (t, result) \<Rightarrow> (home(ts_family_id s := t), result))"

definition task_budget_status ::
    "(string \<Rightarrow> TaskBudgetSliceV1 option) \<Rightarrow> string \<Rightarrow> task_ledgers
      \<Rightarrow> io_error + TaskBudgetStatusV1" where
  "task_budget_status dec family_id home =
     (case read_slices dec (home family_id) of
        Inl e \<Rightarrow> Inl e
      | Inr slices \<Rightarrow> Inr (status family_id (btree_values slices)))"

section \<open>Reading back\<close>

abbreviation "slice_ok s \<equiv> validate_slice s = Inr ()"

text \<open>No two rows give the same generation different accountings.\<close>

definition consistent :: "TaskBudgetSliceV1 list \<Rightarrow> bool" where
  "consistent ss \<longleftrightarrow> (\<forall>a \<in> set ss. \<forall>b \<in> set ss.
     ts_slice_generation a = ts_slice_generation b \<longrightarrow> same_slice_accounting a b)"

definition by_generation :: "TaskBudgetSliceV1 list \<Rightarrow> (u64 \<times> TaskBudgetSliceV1) list" where
  "by_generation ss = fold (\<lambda>s. btree_insert (ts_slice_generation s) s) ss []"

lemma same_slice_accounting_equiv:
  "same_slice_accounting a a"
  "same_slice_accounting a b \<Longrightarrow> same_slice_accounting b a"
  "same_slice_accounting a b \<Longrightarrow> same_slice_accounting b c \<Longrightarrow> same_slice_accounting a c"
  by (auto simp: same_slice_accounting_def)

lemma by_generation_snoc:
  "by_generation (ss @ [s]) = btree_insert (ts_slice_generation s) s (by_generation ss)"
  by (simp add: by_generation_def)

lemma btree_ok_by_generation [simp]: "btree_ok (by_generation ss)"
  by (induction ss rule: rev_induct) (simp_all add: by_generation_def)

lemma map_of_by_generation:
  "map_of (by_generation ss) g = find (\<lambda>s. ts_slice_generation s = g) (rev ss)"
  by (induction ss rule: rev_induct) (simp_all add: by_generation_snoc by_generation_def [of "[]"])

lemma read_slice_lines_ok:
  assumes "\<forall>l \<in> set ls. \<exists>s. dec l = Some s \<and> slice_ok s"
    and "consistent (pre @ List.map_filter dec ls)"
  shows "read_slice_lines dec (by_generation pre) ls
    = Inr (by_generation (pre @ List.map_filter dec ls))"
  using assms
proof (induction ls arbitrary: pre)
  case (Cons l ls)
  then obtain s where s: "dec l = Some s" "slice_ok s" by auto
  have ins: "read_slice_lines dec (by_generation (pre @ [s])) ls
      = Inr (by_generation (pre @ List.map_filter dec (l # ls)))"
    using Cons.IH [of "pre @ [s]"] Cons.prems s by (simp add: List.map_filter_simps)
  have "same_slice_accounting x s" if "map_of (by_generation pre) (ts_slice_generation s) = Some x" for x
    using that Cons.prems(2) s find_SomeD [of _ "rev pre" x]
    by (auto simp: map_of_by_generation consistent_def List.map_filter_simps)
  with s ins show ?case by (auto simp: by_generation_snoc split: option.splits)
qed (simp add: List.map_filter_simps)

lemma read_slices_readable:
  "readable dec slice_ok t \<Longrightarrow> consistent (parsed_rows dec t) \<Longrightarrow>
   read_slices dec t = Inr (by_generation (parsed_rows dec t))"
  using read_slice_lines_ok [of "jsonl_lines t" dec "[]"]
  by (simp add: readable_def parsed_rows_def read_slices_def by_generation_def)

section \<open>The ledger of a family is replay-safe\<close>

definition slices_file_ok ::
    "(TaskBudgetSliceV1 \<Rightarrow> string) \<Rightarrow> (string \<Rightarrow> TaskBudgetSliceV1 option) \<Rightarrow> string \<Rightarrow> bool" where
  "slices_file_ok enc dec t \<longleftrightarrow> readable dec slice_ok t \<and> consistent (parsed_rows dec t)
     \<and> (\<forall>s. codec_ok enc dec s)"

lemma slices_file_ok_Nil: "\<forall>s. codec_ok enc dec s \<Longrightarrow> slices_file_ok enc dec []"
  by (simp add: slices_file_ok_def consistent_def)

lemma record_in_ledger_ok:
  assumes "slices_file_ok enc dec t" and "slice_ok s"
  shows "record_in_ledger enc dec s t =
    (case find (\<lambda>r. ts_slice_generation r = ts_slice_generation s) (rev (parsed_rows dec t)) of
       Some r \<Rightarrow>
         (t, if same_slice_accounting r s
             then Inr (status (ts_family_id s) (btree_values (by_generation (parsed_rows dec t))))
             else Inl (IoError InvalidData
               ''task budget slice generation was replayed with different accounting''))
     | None \<Rightarrow>
         (append_jsonl_value enc s t,
          Inr (status (ts_family_id s) (btree_values (by_generation (parsed_rows dec t @ [s]))))))"
  using assms
  by (simp add: record_in_ledger_def slices_file_ok_def read_slices_readable map_of_by_generation
      by_generation_snoc split: option.split)

lemma record_in_ledger_refused:
  "\<not> slice_ok s \<Longrightarrow> \<exists>e. record_in_ledger enc dec s t = (t, Inl e)"
  by (auto simp: record_in_ledger_def split: sum.splits)

lemma slices_file_ok_append:
  assumes "slices_file_ok enc dec t" and "slice_ok s"
    and "\<forall>r \<in> set (parsed_rows dec t). ts_slice_generation r \<noteq> ts_slice_generation s"
  shows "slices_file_ok enc dec (append_jsonl_value enc s t)
    \<and> parsed_rows dec (append_jsonl_value enc s t) = parsed_rows dec t @ [s]"
proof -
  have "readable dec slice_ok t" "codec_ok enc dec s" using assms by (auto simp: slices_file_ok_def)
  with assms show ?thesis
    by (force simp: slices_file_ok_def consistent_def readable_append same_slice_accounting_equiv(1)
        parsed_rows_append [where okr = slice_ok])
qed

interpretation task_ledger: replay_ledger "parsed_rows dec" "slices_file_ok enc dec"
  "\<lambda>s t. fst (record_in_ledger enc dec s t)" slice_ok
  "\<lambda>s r. ts_slice_generation r = ts_slice_generation s"
  for enc dec
proof unfold_locales
  fix t and s :: TaskBudgetSliceV1
  assume "\<not> slice_ok s"
  with record_in_ledger_refused [of s enc dec t] show "fst (record_in_ledger enc dec s t) = t" by auto
next
  fix t r and s :: TaskBudgetSliceV1
  assume ok: "slices_file_ok enc dec t"
    and "r \<in> set (parsed_rows dec t)" "ts_slice_generation r = ts_slice_generation s"
  then have "find (\<lambda>r. ts_slice_generation r = ts_slice_generation s) (rev (parsed_rows dec t)) \<noteq> None"
    by (auto simp: find_None_iff)
  then show "fst (record_in_ledger enc dec s t) = t"
    using record_in_ledger_refused [of s enc dec t] record_in_ledger_ok [OF ok, of s]
    by (cases "slice_ok s") auto
next
  fix t and s :: TaskBudgetSliceV1
  assume ok: "slices_file_ok enc dec t" "slice_ok s"
    and no: "\<forall>r \<in> set (parsed_rows dec t). ts_slice_generation r \<noteq> ts_slice_generation s"
  from no have "find (\<lambda>r. ts_slice_generation r = ts_slice_generation s) (rev (parsed_rows dec t)) = None"
    by (auto simp: find_None_iff)
  then have "fst (record_in_ledger enc dec s t) = append_jsonl_value enc s t"
    using record_in_ledger_ok [OF ok] by simp
  with slices_file_ok_append [OF ok no]
  show "slices_file_ok enc dec (fst (record_in_ledger enc dec s t)) \<and>
    (\<exists>r. ts_slice_generation r = ts_slice_generation s
       \<and> parsed_rows dec (fst (record_in_ledger enc dec s t)) = parsed_rows dec t @ [r])"
    by auto
qed

section \<open>Homes\<close>

text \<open>The ledgers of the families do not interfere.\<close>

lemma record_home_family:
  "fst (record_task_budget_slice enc dec s home) f =
     (if ts_family_id s = f then fst (record_in_ledger enc dec s (home f)) else home f)"
  by (auto simp: record_task_budget_slice_def split: prod.splits)

lemma record_home_fold:
  "fold (\<lambda>s home. fst (record_task_budget_slice enc dec s home)) ss home f =
     fold (\<lambda>s t. fst (record_in_ledger enc dec s t)) (filter (\<lambda>s. ts_family_id s = f) ss) (home f)"
  by (induction ss arbitrary: home) (simp_all add: record_home_family)

lemma record_distinct_rows:
  assumes "slices_file_ok enc dec t" and "\<forall>s \<in> set ss. slice_ok s"
    and "distinct (map ts_slice_generation (parsed_rows dec t @ ss))"
  shows "parsed_rows dec (fold (\<lambda>s t. fst (record_in_ledger enc dec s t)) ss t) = parsed_rows dec t @ ss
    \<and> slices_file_ok enc dec (fold (\<lambda>s t. fst (record_in_ledger enc dec s t)) ss t)"
  using assms
proof (induction ss arbitrary: t)
  case (Cons s ss)
  have no: "\<forall>r \<in> set (parsed_rows dec t). ts_slice_generation r \<noteq> ts_slice_generation s"
    using Cons.prems(3) by (auto simp: image_iff)
  then have "find (\<lambda>r. ts_slice_generation r = ts_slice_generation s) (rev (parsed_rows dec t)) = None"
    by (auto simp: find_None_iff)
  then have "fst (record_in_ledger enc dec s t) = append_jsonl_value enc s t"
    using record_in_ledger_ok [OF Cons.prems(1)] Cons.prems(2) by simp
  moreover have "slices_file_ok enc dec (append_jsonl_value enc s t)
      \<and> parsed_rows dec (append_jsonl_value enc s t) = parsed_rows dec t @ [s]"
    using Cons.prems(1,2) no by (simp add: slices_file_ok_append)
  ultimately show ?case using Cons.IH [of "append_jsonl_value enc s t"] Cons.prems by simp
qed simp

lemma by_generation_perm:
  assumes "mset ss = mset ss'" and "distinct (map ts_slice_generation ss)"
  shows "by_generation ss = by_generation ss'"
proof (rule btree_eqI)
  have d': "distinct (map ts_slice_generation ss')"
    using assms by (metis mset_eq_imp_distinct_iff mset_map)
  have find: "find (\<lambda>s. ts_slice_generation s = g) (rev us) = Some s \<longleftrightarrow>
      s \<in> set us \<and> ts_slice_generation s = g"
    if "distinct (map ts_slice_generation us)" for us g s
    using that by (induction us rule: rev_induct) auto
  show "map_of (by_generation ss) = map_of (by_generation ss')"
  proof (rule ext, rule option.expand)
    fix g
    have "set ss = set ss'" using assms(1) by (rule mset_eq_setD)
    then have *: "map_of (by_generation ss) g = Some s \<longleftrightarrow> map_of (by_generation ss') g = Some s" for s
      by (simp add: map_of_by_generation find assms(2) d')
    show "(map_of (by_generation ss) g = None) = (map_of (by_generation ss') g = None)"
      using * by (metis not_None_eq)
    show "the (map_of (by_generation ss) g) = the (map_of (by_generation ss') g)"
      if "map_of (by_generation ss) g \<noteq> None"
      using that * by (metis option.sel not_None_eq)
  qed
qed simp_all

section \<open>Properties\<close>

lemma mset_btree_insert:
  "k \<notin> fst ` set m \<Longrightarrow> mset (btree_insert k v m) = add_mset (k, v) (mset m)"
proof (induction m)
  case (Cons e m)
  then show ?case by (cases e) auto
qed simp

lemma mset_by_generation:
  "distinct (map ts_slice_generation ss) \<Longrightarrow>
   mset (by_generation ss) = image_mset (\<lambda>s. (ts_slice_generation s, s)) (mset ss)"
proof (induction ss rule: rev_induct)
  case (snoc s ss)
  then have "mset (by_generation ss) = image_mset (\<lambda>s. (ts_slice_generation s, s)) (mset ss)" by simp
  moreover from this have "set (by_generation ss) = (\<lambda>s. (ts_slice_generation s, s)) ` set ss"
    by (metis list.set_map mset_eq_setD mset_map)
  with snoc.prems have "ts_slice_generation s \<notin> fst ` set (by_generation ss)" by auto
  ultimately show ?case by (simp add: by_generation_snoc mset_btree_insert)
qed (simp add: by_generation_def)

lemma mset_btree_values_by_generation:
  "distinct (map ts_slice_generation ss) \<Longrightarrow> mset (btree_values (by_generation ss)) = mset ss"
  by (simp add: btree_values_def mset_by_generation multiset.map_comp comp_def)

text \<open>The totals of a status only depend on which slices there are.\<close>

lemma status_totals:
  assumes "mset vs = mset ss" and "length ss < 2 ^ 64"
  shows "unat (tb_slices (status f vs)) = length ss
    \<and> unat (tb_cumulative_tokens (status f vs))
        = min (sum_list (map (\<lambda>s. unat (ts_total_tokens s)) ss)) (2 ^ 64 - 1)
    \<and> unat (tb_cumulative_wall_time_ms (status f vs))
        = min (sum_list (map (\<lambda>s. unat (ts_wall_time_ms s)) ss)) (2 ^ 64 - 1)"
proof -
  let ?o = "sort_key ts_slice_generation vs"
  have m: "mset ?o = mset ss" using assms(1) by simp
  then have "length ?o = length ss" by (metis size_mset)
  moreover have "sum_list (map g ?o) = sum_list (map g ss)" for g :: "TaskBudgetSliceV1 \<Rightarrow> nat"
    using m by (metis mset_map sum_mset_sum_list)
  ultimately show ?thesis
    using assms(2) by (simp add: status_def Let_def unat_sat_sum unat_of_nat)
qed

text \<open>
  C38. The status of a task does not depend on the order in which its slices were reported:
  recording the same slices, one per generation and family, in any two orders leaves every
  family with the same status, and that status holds the exact totals of the family's slices,
  clamped at the largest 64-bit value.
\<close>

theorem task_status_order_independent:
  assumes "\<forall>s. codec_ok enc dec s" and "\<forall>s \<in> set ss. validate_slice s = Inr ()"
    and "distinct (map (\<lambda>s. (ts_family_id s, ts_slice_generation s)) ss)"
    and "mset ss' = mset ss" and "length ss < 2 ^ 64"
    and "home = fold (\<lambda>s home. fst (record_task_budget_slice enc dec s home)) ss (\<lambda>_. [])"
    and "home' = fold (\<lambda>s home. fst (record_task_budget_slice enc dec s home)) ss' (\<lambda>_. [])"
    and "slices = filter (\<lambda>s. ts_family_id s = f) ss"
  shows "\<exists>st. task_budget_status dec f home = Inr st \<and> task_budget_status dec f home' = Inr st
    \<and> unat (tb_slices st) = length slices
    \<and> unat (tb_cumulative_tokens st)
        = min (sum_list (map (\<lambda>s. unat (ts_total_tokens s)) slices)) (2 ^ 64 - 1)
    \<and> unat (tb_cumulative_wall_time_ms st)
        = min (sum_list (map (\<lambda>s. unat (ts_wall_time_ms s)) slices)) (2 ^ 64 - 1)"
proof -
  let ?F = "\<lambda>us. filter (\<lambda>s. ts_family_id s = f) us"
  have read: "read_slices dec (fold (\<lambda>s home. fst (record_task_budget_slice enc dec s home)) us (\<lambda>_. []) f)
      = Inr (by_generation (?F us))"
    if "\<forall>s \<in> set us. slice_ok s" "distinct (map ts_slice_generation (?F us))" for us
  proof -
    let ?t = "fold (\<lambda>s t. fst (record_in_ledger enc dec s t)) (?F us) []"
    have rows: "parsed_rows dec ?t = ?F us" and ok: "slices_file_ok enc dec ?t"
      using record_distinct_rows [OF slices_file_ok_Nil [OF assms(1)], of "?F us"] that by auto
    then have "read_slices dec ?t = Inr (by_generation (parsed_rows dec ?t))"
      by (simp add: read_slices_readable slices_file_ok_def)
    with rows show ?thesis by (simp add: record_home_fold)
  qed
  have d: "distinct (map ts_slice_generation (?F ss))"
    using assms(3) by (induction ss) (auto simp: image_iff)
  have m: "mset (?F ss') = mset (?F ss)" using assms(4) by (metis mset_filter)
  then have d': "distinct (map ts_slice_generation (?F ss'))"
    using d by (metis mset_eq_imp_distinct_iff mset_map)
  have "\<forall>s \<in> set ss'. slice_ok s" using assms(2,4) by (metis mset_eq_setD)
  from read [OF this d'] read [OF assms(2) d] by_generation_perm [OF m d']
  have "task_budget_status dec f home = Inr (status f (btree_values (by_generation slices)))"
    "task_budget_status dec f home' = Inr (status f (btree_values (by_generation slices)))"
    by (simp_all add: task_budget_status_def assms(6-8))
  moreover have "length slices < 2 ^ 64"
    using assms(5) by (simp add: assms(8)) (metis le_less_trans length_filter_le)
  ultimately show ?thesis
    using status_totals [OF mset_btree_values_by_generation [OF d], of f] by (simp add: assms(8))
qed

definition slice_key :: "TaskBudgetSliceV1 \<Rightarrow> string list \<times> nat list \<times> bool list \<times> int" where
  "slice_key s = ([ts_schema s, ts_family_id s, ts_progress_digest s],
     map unat [ts_slice_generation s, ts_wall_time_ms s, ts_total_tokens s],
     [ts_recovery_slice s, ts_disposition_recovery s], ts_observed_at_ms s)"

abbreviation "slice_enc \<equiv> keyed_enc slice_key"

abbreviation "slice_dec \<equiv> keyed_dec slice_key"

lemma slice_codec: "codec_ok slice_enc slice_dec s"
  by (rule codec_keyed, rule injI, rule TaskBudgetSliceV1.equality)
    (simp_all add: slice_key_def u64_unat_eq)

definition task_slice :: "char \<Rightarrow> u64 \<Rightarrow> u64 \<Rightarrow> TaskBudgetSliceV1" where
  "task_slice digest generation tokens = \<lparr>ts_schema = TASK_BUDGET_LEDGER_SCHEMA,
     ts_family_id = replicate 64 (CHR ''a''), ts_slice_generation = generation,
     ts_wall_time_ms = 1000, ts_total_tokens = tokens,
     ts_progress_digest = replicate 64 digest, ts_recovery_slice = False,
     ts_disposition_recovery = False, ts_observed_at_ms = 7\<rparr>"

lemma task_slice_ok: "is_lower_hex_byte digest \<Longrightarrow> slice_ok (task_slice digest g n)"
  by (simp add: validate_slice_def task_slice_def lower_hex_def list_all_length
      is_lower_hex_byte_def is_ascii_digit_def)

abbreviation "task_slices \<equiv> [task_slice (CHR ''b'') 1 10, task_slice (CHR ''c'') 0 5]"

lemma task_slices_ok: "\<forall>s \<in> set task_slices. validate_slice s = Inr ()"
  by (simp add: task_slice_ok is_lower_hex_byte_def is_ascii_digit_def)

theorem task_status_order_independent_witness:
  "\<exists>st. task_budget_status slice_dec (replicate 64 (CHR ''a''))
       (fold (\<lambda>s home. fst (record_task_budget_slice slice_enc slice_dec s home)) task_slices (\<lambda>_. []))
     = Inr st \<and> unat (tb_cumulative_tokens st) = 15"
proof -
  have d: "distinct (map (\<lambda>s. (ts_family_id s, ts_slice_generation s)) task_slices)"
    and fam: "filter (\<lambda>s. ts_family_id s = replicate 64 (CHR ''a'')) task_slices = task_slices"
    and sum: "sum_list (map (\<lambda>s. unat (ts_total_tokens s)) task_slices) = 15"
    by (simp_all add: task_slice_def)
  have m: "mset (rev task_slices) = mset task_slices" and n: "length task_slices < 2 ^ 64"
    by simp_all
  from task_status_order_independent [OF allI [OF slice_codec] task_slices_ok d m n refl refl refl]
  obtain st where "task_budget_status slice_dec (replicate 64 (CHR ''a''))
       (fold (\<lambda>s home. fst (record_task_budget_slice slice_enc slice_dec s home)) task_slices (\<lambda>_. []))
     = Inr st" "unat (tb_cumulative_tokens st) = min (sum_list (map (\<lambda>s. unat (ts_total_tokens s))
       (filter (\<lambda>s. ts_family_id s = replicate 64 (CHR ''a'')) task_slices))) (2 ^ 64 - 1)"
    by blast
  then show ?thesis unfolding fam sum by auto
qed

text \<open>
  Recording is idempotent and conflicts are refused: once a valid slice is in its ledger,
  reporting the same generation again writes nothing; with the same accounting it returns the
  status, with any other accounting it is rejected as invalid data.
\<close>

theorem task_slice_replay:
  assumes "\<forall>s. codec_ok enc dec s"
    and "t = fold (\<lambda>s t. fst (record_in_ledger enc dec s t)) ss []"
    and "r \<in> set (parsed_rows dec t)" and "validate_slice s = Inr ()"
    and "ts_slice_generation s = ts_slice_generation r"
  shows "if same_slice_accounting r s
         then \<exists>st. record_in_ledger enc dec s t = (t, Inr st)
         else \<exists>e. record_in_ledger enc dec s t = (t, Inl e) \<and> io_error_kind e = InvalidData"
proof -
  have ok: "slices_file_ok enc dec t"
    unfolding assms(2) by (rule task_ledger.okf_fold [OF slices_file_ok_Nil [OF assms(1)]])
  obtain q where q: "find (\<lambda>r. ts_slice_generation r = ts_slice_generation s) (rev (parsed_rows dec t)) = Some q"
    using assms(3,5) by (cases "find (\<lambda>r. ts_slice_generation r = ts_slice_generation s)
      (rev (parsed_rows dec t))") (auto simp: find_None_iff)
  then have "same_slice_accounting r q"
    using find_SomeD [OF q] ok assms(3,5) by (auto simp: slices_file_ok_def consistent_def)
  then have "same_slice_accounting q s \<longleftrightarrow> same_slice_accounting r s"
    using same_slice_accounting_equiv by blast
  then show ?thesis using record_in_ledger_ok [OF ok assms(4)] q by auto
qed

theorem task_slice_replay_witness:
  "\<exists>e. record_in_ledger slice_enc slice_dec (task_slice (CHR ''b'') 1 11)
      (fst (record_in_ledger slice_enc slice_dec (task_slice (CHR ''b'') 1 10) []))
    = (fst (record_in_ledger slice_enc slice_dec (task_slice (CHR ''b'') 1 10) []), Inl e)
    \<and> io_error_kind e = InvalidData"
proof -
  let ?s = "task_slice (CHR ''b'') 1 10"
  have "parsed_rows slice_dec (fold (\<lambda>s t. fst (record_in_ledger slice_enc slice_dec s t)) [?s] []) = [?s]"
    using record_distinct_rows [OF slices_file_ok_Nil, of slice_enc slice_dec "[?s]"]
      slice_codec task_slices_ok by auto
  moreover have "validate_slice (task_slice (CHR ''b'') 1 11) = Inr ()"
    by (simp add: task_slice_ok is_lower_hex_byte_def is_ascii_digit_def)
  moreover have "\<not> same_slice_accounting ?s (task_slice (CHR ''b'') 1 11)"
    by (simp add: same_slice_accounting_def task_slice_def)
  moreover have "ts_slice_generation (task_slice (CHR ''b'') 1 11) = ts_slice_generation ?s"
    by (simp add: task_slice_def)
  ultimately show ?thesis
    using task_slice_replay [of slice_enc slice_dec _ "[?s]" ?s "task_slice (CHR ''b'') 1 11"]
      slice_codec by simp
qed

text \<open>
  A task is exhausted exactly when one of its five totals has reached its limit, and the
  reason names the first one reached in the order wall clock, slices, tokens, no progress,
  recoveries.
\<close>

theorem task_exhausted_iff:
  "let st = status f slices in
    (\<not> tb_exhausted st \<longleftrightarrow>
       tb_cumulative_wall_time_ms st < 8 * 60 * 60 * 1000 \<and> tb_slices st < 16
       \<and> tb_cumulative_tokens st < 2000000 \<and> tb_consecutive_no_progress_slices st < 2
       \<and> tb_recovery_slices st < 4)
    \<and> (tb_exhausted st \<longleftrightarrow> tb_reason_code st \<noteq> ''within-budget'')
    \<and> (tb_reason_code st = ''slice-budget-exhausted'' \<longleftrightarrow>
         tb_cumulative_wall_time_ms st < 8 * 60 * 60 * 1000 \<and> 16 \<le> tb_slices st)"
proof -
  have within: "reason_code w n k p r = ''within-budget'' \<longleftrightarrow>
      w < 8 * 60 * 60 * 1000 \<and> n < 16 \<and> k < 2000000 \<and> p < 2 \<and> r < 4"
    and slices: "reason_code w n k p r = ''slice-budget-exhausted'' \<longleftrightarrow>
      w < 8 * 60 * 60 * 1000 \<and> 16 \<le> n" for w n k p r
    by (auto simp: reason_code_def DEFAULT_TASK_WALL_CLOCK_BUDGET_MS_def DEFAULT_MAX_TASK_SLICES_def
        DEFAULT_MAX_TASK_TOKENS_def DEFAULT_MAX_NO_PROGRESS_SLICES_def
        DEFAULT_MAX_RECOVERY_SLICES_def not_le)
  show ?thesis
    unfolding status_def Let_def by (simp only: within slices TaskBudgetStatusV1.simps simp_thms)
qed

end
