(* ===== verification/Task_Drain.thy ===== *)
theory Task_Drain
  imports Task_Marker_Claims Task_Budget Goal_Campaign
begin

text \<open>
  The drained task in the runtime pipeline (\<open>src/crates/agent-harness-core/src/runtime_pipeline.rs\<close>, in
  \<open>run_runtime_queue_once\<close>): after the goal transition was decided, an ordinary task that yielded at its deadline is
  parked, completed or continued. The decision composes the marker of the assistant, the ledger of
  deadline extensions, the task budget and the authority of task transitions, and charges the budget.

  The state of the channel (whether the operator stopped the session and whether a newer message took its
  place) is an observation of the run, read by code that is not part of this development; so is the clock.
\<close>

section \<open>Data\<close>

record task_drain_item =
  ti_queue_id :: string
  ti_session_key :: string
  ti_agent_id :: string
  ti_task_family_id :: "string option"
  ti_task_root_queue_id :: "string option"
  ti_task_slice_generation :: "u64 option"
  ti_disposition_recovery_depth :: "u64 option"

record task_drain_run =
  tr_event :: GoalTransitionEventKind
  tr_goal_status :: "string option"
  tr_drain_disposition :: "DrainDispositionMarkerV1 option"
  tr_drain_disposition_error :: "string option"
  tr_drain_checkpoint :: "TaskContinuationCheckpointV1 option"
  tr_queue_id :: "string option"
  tr_elapsed_ms :: nat
  tr_total_tokens :: "u64 option"
  tr_context_recovery :: bool
  tr_item :: "task_drain_item option"
  tr_lane_digest :: "string option"
  tr_virtual_session_id :: "string option"
  tr_operator_stop :: bool
  tr_newer_steer :: "io_error + bool"
  tr_clock :: "io_error + int"

record task_state =
  ks_home :: task_home
  ks_budgets :: task_ledgers
  ks_deadline_decisions :: string

text \<open>The codecs of the budget ledger and the JSON parser, with the library of task transitions.\<close>

record drain_lib =
  dl_task :: task_lib
  dl_slice_enc :: "TaskBudgetSliceV1 \<Rightarrow> string"
  dl_slice_dec :: "string \<Rightarrow> TaskBudgetSliceV1 option"
  dl_value_from_str :: "string \<Rightarrow> Value option"

section \<open>Extensions of the deadline\<close>

definition string_field :: "Value \<Rightarrow> string list \<Rightarrow> string option" where
  "string_field v keys = Option.bind (find (\<lambda>k. Option.bind (value_get k v) as_str \<noteq> None) keys)
     (\<lambda>k. Option.bind (value_get k v) as_str)"

definition row_generation :: "Value \<Rightarrow> 32 word" where
  "row_generation v =
     (let n = (case value_get ''deadlineGeneration'' v of
            Some x \<Rightarrow> Some x | None \<Rightarrow> value_get ''deadline_generation'' v)
      in case Option.bind n as_u64 of
           Some g \<Rightarrow> if unat g < 2 ^ 32 then ucast g else 0
         | None \<Rightarrow> 0)"

fun deadline_generation_lines :: "(string \<Rightarrow> Value option) \<Rightarrow> string \<Rightarrow> 32 word \<Rightarrow> string list
    \<Rightarrow> io_error + 32 word" where
  "deadline_generation_lines parse queue_id g [] = Inr g"
| "deadline_generation_lines parse queue_id g (l # ls) =
     (case parse l of
        None \<Rightarrow> Inl (IoError OtherIo ''invalid JSON'')
      | Some v \<Rightarrow> deadline_generation_lines parse queue_id
          (if string_field v [''queueId'', ''queue_id''] = Some queue_id
              \<and> Option.bind (value_get ''decision'' v) as_str = Some ''applied''
           then max g (row_generation v) else g) ls)"

text \<open>A ledger that does not exist reads like an empty one.\<close>

definition latest_productive_deadline_generation :: "(string \<Rightarrow> Value option) \<Rightarrow> string \<Rightarrow> string option
    \<Rightarrow> io_error + 32 word" where
  "latest_productive_deadline_generation parse t queue_id =
     (case queue_id of
        None \<Rightarrow> Inr 0
      | Some q \<Rightarrow> deadline_generation_lines parse q 0 (jsonl_lines t))"

section \<open>The decision\<close>

definition parked_evaluation :: "DrainDispositionV1 \<Rightarrow> string \<Rightarrow> TaskDrainEvaluationV1" where
  "parked_evaluation disposition reason = \<lparr>te_schema = TASK_TRANSITION_SCHEMA, te_disposition = disposition,
     te_schedule_continuation = False, te_allow_logical_final = False, te_reason = reason\<rparr>"

text \<open>A marker settles the disposition (left) or names the checkpoint to continue from (right).\<close>

definition marker_disposition :: "task_lib \<Rightarrow> 32 word \<Rightarrow> DrainDispositionMarkerV1
    \<Rightarrow> TaskDrainEvaluationV1 + TaskContinuationCheckpointV1" where
  "marker_disposition lib expected m =
     (if dm_observed_deadline_generation m \<noteq> expected
      then Inl (parked_evaluation DrainIndeterminate ''drain disposition deadline generation is stale'')
      else case dm_disposition m of
        KindLogicalComplete \<Rightarrow> Inl logical_complete_drain
      | KindContinuationRequired \<Rightarrow>
          (case drain_marker_checkpoint lib m of
             Inr c \<Rightarrow> Inr c
           | Inl e \<Rightarrow> Inl (parked_evaluation DrainIndeterminate (io_error_text e)))
      | KindNeedsUser \<Rightarrow> Inl (parked_evaluation DrainNeedsUser
          (unwrap_or (dm_question m) ''the drained task needs user input''))
      | KindNeedsAuthority \<Rightarrow> Inl (parked_evaluation DrainNeedsAuthority
          (unwrap_or (dm_reason_code m) ''the drained task needs additional authority''))
      | KindBlocked \<Rightarrow> Inl (parked_evaluation DrainBlocked
          (unwrap_or (dm_recovery_hint m) ''the drained task is blocked'')))"

definition disposition_recovery_run :: "task_drain_run \<Rightarrow> bool" where
  "disposition_recovery_run r =
     (case Option.bind (tr_item r) ti_disposition_recovery_depth of Some d \<Rightarrow> 0 < d | None \<Rightarrow> False)"

definition accepted_ordinary_drain :: "task_drain_run \<Rightarrow> bool" where
  "accepted_ordinary_drain r \<longleftrightarrow>
     (tr_event r = DrainCompletion \<or> disposition_recovery_run r
       \<or> (tr_event r = AbsoluteTimeout \<and> tr_drain_disposition_error r \<noteq> None))
     \<and> \<not> (case tr_goal_status r of Some s \<Rightarrow> is_goal_status_active s | None \<Rightarrow> False)"

text \<open>What is known before the authority is consulted: settled, a checkpoint, or neither.\<close>

definition drain_request :: "drain_lib \<Rightarrow> task_drain_run \<Rightarrow> task_state
    \<Rightarrow> io_error + (TaskDrainEvaluationV1 + TaskContinuationCheckpointV1) option" where
  "drain_request lib r s =
     (if \<not> accepted_ordinary_drain r then Inr None
      else case tr_drain_disposition r of
        Some m \<Rightarrow>
          (case latest_productive_deadline_generation (dl_value_from_str lib) (ks_deadline_decisions s) (tr_queue_id r) of
             Inl e \<Rightarrow> Inl e
           | Inr expected \<Rightarrow> Inr (Some (marker_disposition (dl_task lib) expected m)))
      | None \<Rightarrow>
          (case tr_drain_disposition_error r of
             Some reason \<Rightarrow> Inr (Some (Inl (parked_evaluation DrainIndeterminate reason)))
           | None \<Rightarrow> Inr (map_option Inr (tr_drain_checkpoint r))))"

definition elapsed_u64 :: "nat \<Rightarrow> u64" where
  "elapsed_u64 n = (if n < 2 ^ 64 then of_nat n else - 1)"

definition drain_slice :: "task_drain_run \<Rightarrow> task_drain_item \<Rightarrow> string \<Rightarrow> string \<Rightarrow> bool \<Rightarrow> int \<Rightarrow> TaskBudgetSliceV1" where
  "drain_slice r item family_id digest recovery now =
     \<lparr>ts_schema = TASK_BUDGET_LEDGER_SCHEMA, ts_family_id = family_id,
      ts_slice_generation = unwrap_or (ti_task_slice_generation item) 0,
      ts_wall_time_ms = elapsed_u64 (tr_elapsed_ms r), ts_total_tokens = unwrap_or (tr_total_tokens r) 0,
      ts_progress_digest = digest, ts_recovery_slice = tr_context_recovery r,
      ts_disposition_recovery = recovery, ts_observed_at_ms = now\<rparr>"

definition charge_slice :: "drain_lib \<Rightarrow> task_drain_run \<Rightarrow> task_drain_item \<Rightarrow> string \<Rightarrow> string \<Rightarrow> bool
    \<Rightarrow> task_state \<Rightarrow> task_state \<times> (io_error + TaskBudgetStatusV1)" where
  "charge_slice lib r item family_id digest recovery s =
     (case tr_clock r of
        Inl e \<Rightarrow> (s, Inl e)
      | Inr now \<Rightarrow>
          (case record_task_budget_slice (dl_slice_enc lib) (dl_slice_dec lib)
                  (drain_slice r item family_id digest recovery now) (ks_budgets s) of
             (b, result) \<Rightarrow> (s\<lparr>ks_budgets := b\<rparr>, result)))"

definition drain_budget :: "drain_lib \<Rightarrow> task_drain_run \<Rightarrow> task_drain_item \<Rightarrow> TaskContinuationCheckpointV1
    \<Rightarrow> task_state \<Rightarrow> task_state \<times> (io_error + TaskBudgetStatusV1 option)" where
  "drain_budget lib r item c s =
     (if kp_authority_kind c \<noteq> ExplicitCheckpointAuthority then (s, Inr None)
      else if disposition_recovery_run r
      then (s, case task_budget_status (dl_slice_dec lib) (kp_authority_id c) (ks_budgets s) of
                 Inl e \<Rightarrow> Inl e | Inr st \<Rightarrow> Inr (Some st))
      else (case charge_slice lib r item (kp_authority_id c) (kp_checkpoint_digest c) False s of
              (s', Inl e) \<Rightarrow> (s', Inl e) | (s', Inr st) \<Rightarrow> (s', Inr (Some st))))"

definition drain_breakers :: "task_drain_run \<Rightarrow> task_drain_item \<Rightarrow> bool \<Rightarrow> TaskBudgetStatusV1 option
    \<Rightarrow> TaskContinuationBreakers" where
  "drain_breakers r item newer_steer st =
     \<lparr>bk_operator_stop = tr_operator_stop r, bk_newer_steer = newer_steer,
      bk_budget_exhausted = (case st of Some b \<Rightarrow> tb_exhausted b | None \<Rightarrow> False),
      bk_no_progress_exhausted = (case st of
         Some b \<Rightarrow> tb_reason_code b = ''no-progress-budget-exhausted'' | None \<Rightarrow> False),
      bk_continuation_depth = unwrap_or (ti_task_slice_generation item) 0,
      bk_max_continuation_depth = DEFAULT_MAX_TASK_CONTINUATION_DEPTH\<rparr>"

definition checkpoint_evaluation :: "task_lib \<Rightarrow> task_drain_run \<Rightarrow> task_drain_item \<Rightarrow> TaskContinuationBreakers
    \<Rightarrow> TaskContinuationCheckpointV1 \<Rightarrow> task_home \<Rightarrow> TaskDrainEvaluationV1" where
  "checkpoint_evaluation lib r item b c h =
     (case kp_authority_kind c of
        OperationPlanAuthority \<Rightarrow> evaluate_operation_plan_drain lib h
          \<lparr>po_checkpoint = c, po_exact_lane_digest = unwrap_or (tr_lane_digest r) [],
           po_virtual_session_id = unwrap_or (tr_virtual_session_id r) [],
           po_working_session_key = ti_session_key item, po_agent_id = ti_agent_id item, po_breakers = b\<rparr>
      | ExplicitCheckpointAuthority \<Rightarrow> evaluate_explicit_checkpoint_drain lib h
          \<lparr>xo_checkpoint = c, xo_expected_family_id = unwrap_or (ti_task_family_id item) (kp_authority_id c),
           xo_expected_root_queue_id = unwrap_or (ti_task_root_queue_id item) (ti_queue_id item),
           xo_exact_lane_digest = unwrap_or (tr_lane_digest r) [],
           xo_virtual_session_id = unwrap_or (tr_virtual_session_id r) [],
           xo_working_session_key = ti_session_key item, xo_agent_id = ti_agent_id item, xo_breakers = b\<rparr>
      | GoalAuthority \<Rightarrow> parked_evaluation DrainNeedsAuthority ''ordinary task checkpoint cannot claim Goal authority'')"

definition continue_from_checkpoint :: "drain_lib \<Rightarrow> task_drain_run \<Rightarrow> TaskContinuationCheckpointV1 \<Rightarrow> task_state
    \<Rightarrow> task_state \<times> (io_error + TaskDrainEvaluationV1)" where
  "continue_from_checkpoint lib r c s =
     (case tr_item r of
        None \<Rightarrow> (s, Inl (invalid_data ''typed drain checkpoint has no prepared exact-lane queue item''))
      | Some item \<Rightarrow>
     (case tr_newer_steer r of
        Inl e \<Rightarrow> (s, Inl e)
      | Inr newer_steer \<Rightarrow>
     (case drain_budget lib r item c s of
        (s', Inl e) \<Rightarrow> (s', Inl e)
      | (s', Inr st) \<Rightarrow>
          (s', Inr (checkpoint_evaluation (dl_task lib) r item (drain_breakers r item newer_steer st) c (ks_home s'))))))"

definition charge_recovery :: "drain_lib \<Rightarrow> task_drain_run \<Rightarrow> TaskDrainEvaluationV1 option \<Rightarrow> task_state
    \<Rightarrow> task_state \<times> (io_error + unit)" where
  "charge_recovery lib r ev s =
     (if \<not> disposition_recovery_run r then (s, Inr ())
      else case tr_item r of
        None \<Rightarrow> (s, Inl (invalid_data ''disposition recovery has no prepared exact-lane queue item''))
      | Some item \<Rightarrow>
     (case ti_task_family_id item of
        None \<Rightarrow> (s, Inl (invalid_data ''disposition recovery has no harness-owned task family''))
      | Some family_id \<Rightarrow>
          let digest = unwrap_or (Option.bind (tr_drain_disposition r) dm_checkpoint_digest)
                (task_sha256_hex (dl_task lib) (case ev of Some e \<Rightarrow> te_reason e | None \<Rightarrow> []))
          in (case charge_slice lib r item family_id digest True s of
                (s', Inl e) \<Rightarrow> (s', Inl e) | (s', Inr _) \<Rightarrow> (s', Inr ()))))"

definition evaluate_task_drain :: "drain_lib \<Rightarrow> task_drain_run \<Rightarrow> task_state
    \<Rightarrow> task_state \<times> (io_error + TaskDrainEvaluationV1 option)" where
  "evaluate_task_drain lib r s =
     (case (case drain_request lib r s of
              Inl e \<Rightarrow> (s, Inl e)
            | Inr None \<Rightarrow> (s, Inr None)
            | Inr (Some (Inl ev)) \<Rightarrow> (s, Inr (Some ev))
            | Inr (Some (Inr c)) \<Rightarrow>
                (case continue_from_checkpoint lib r c s of
                   (s', Inl e) \<Rightarrow> (s', Inl e) | (s', Inr ev) \<Rightarrow> (s', Inr (Some ev)))) of
        (s', Inl e) \<Rightarrow> (s', Inl e)
      | (s', Inr ev) \<Rightarrow>
          (case charge_recovery lib r ev s' of
             (s'', Inl e) \<Rightarrow> (s'', Inl e) | (s'', Inr _) \<Rightarrow> (s'', Inr ev)))"

end
