(* ===== verification/Task_Drain_Claims.thy ===== *)
theory Task_Drain_Claims
  imports Task_Drain
begin

text \<open>
  Properties of the drained task in the pipeline: how often a task family can go on, and when a drained task
  is reported as complete.
\<close>

section \<open>Generations in a budget ledger\<close>

definition ledger_generations :: "drain_lib \<Rightarrow> task_state \<Rightarrow> string \<Rightarrow> u64 set" where
  "ledger_generations lib s f = ts_slice_generation ` set (parsed_rows (dl_slice_dec lib) (ks_budgets s f))"

definition budgets_ok :: "drain_lib \<Rightarrow> task_state \<Rightarrow> bool" where
  "budgets_ok lib s \<longleftrightarrow> (\<forall>f. slices_file_ok (dl_slice_enc lib) (dl_slice_dec lib) (ks_budgets s f))"

definition budget_rows :: "drain_lib \<Rightarrow> task_state \<Rightarrow> string \<Rightarrow> nat" where
  "budget_rows lib s f = length (parsed_rows (dl_slice_dec lib) (ks_budgets s f))"

lemma keys_by_generation: "fst ` set (by_generation ss) = ts_slice_generation ` set ss"
proof (induction ss rule: rev_induct)
  case (snoc x xs)
  then show ?case using set_fst_btree_insert [of "ts_slice_generation x" x "by_generation xs"] by (simp add: by_generation_snoc)
qed (simp add: by_generation_def)

lemma status_slices:
  assumes "length ss < 2 ^ 64"
  shows "unat (tb_slices (status f (btree_values (by_generation ss)))) = card (ts_slice_generation ` set ss)"
proof -
  have d: "distinct (map fst (by_generation ss))"
    using btree_ok_by_generation [of ss] by (auto simp: btree_ok_def strict_sorted_iff)
  then have card: "length (by_generation ss) = card (ts_slice_generation ` set ss)"
    using keys_by_generation [of ss] by (metis distinct_card length_map list.set_map)
  have "card (ts_slice_generation ` set ss) \<le> length ss"
    by (metis card_image_le card_length finite_set le_trans)
  with assms card show ?thesis
    by (simp add: status_def Let_def btree_values_def unat_of_nat)
qed

lemma exhausted_slices: "\<not> tb_exhausted (status f vs) \<Longrightarrow> unat (tb_slices (status f vs)) < 16"
proof -
  assume "\<not> tb_exhausted (status f vs)"
  then have "tb_slices (status f vs) < 16"
    by (auto simp: status_def Let_def reason_code_def DEFAULT_MAX_TASK_SLICES_def not_le split: if_splits)
  then show ?thesis by (simp add: word_less_nat_alt)
qed

section \<open>Charging a slice\<close>

text \<open>A step from \<open>s\<close> to \<open>s'\<close> that records at most the generation \<open>g\<close>.\<close>

definition budget_step :: "drain_lib \<Rightarrow> u64 \<Rightarrow> task_state \<Rightarrow> task_state \<Rightarrow> bool" where
  "budget_step lib g s s' \<longleftrightarrow> budgets_ok lib s' \<and> ks_home s' = ks_home s
     \<and> (\<forall>f. ledger_generations lib s f \<subseteq> ledger_generations lib s' f
         \<and> ledger_generations lib s' f \<subseteq> insert g (ledger_generations lib s f)
         \<and> budget_rows lib s' f \<le> Suc (budget_rows lib s f))"

lemma charge_slice_outcome:
  assumes ok: "budgets_ok lib s" and ch: "charge_slice lib r item k digest rec s = (s', res)"
  shows "budget_step lib (unwrap_or (ti_task_slice_generation item) 0) s s'
    \<and> (res = Inr st \<longrightarrow> unwrap_or (ti_task_slice_generation item) 0 \<in> ledger_generations lib s' k
      \<and> st = status k (btree_values (by_generation (parsed_rows (dl_slice_dec lib) (ks_budgets s' k)))))"
proof (cases "tr_clock r")
    case (Inl e)
    with ch ok show ?thesis by (auto simp: charge_slice_def budget_step_def)
  next
    case (Inr now)
    let ?sl = "drain_slice r item k digest rec now" and ?enc = "dl_slice_enc lib" and ?dec = "dl_slice_dec lib"
    let ?t = "ks_budgets s k"
    have sel: "ts_family_id ?sl = k" "ts_slice_generation ?sl = unwrap_or (ti_task_slice_generation item) 0"
      by (simp_all add: drain_slice_def)
    obtain t' where t': "record_in_ledger ?enc ?dec ?sl ?t = (t', res)" "s' = s\<lparr>ks_budgets := (ks_budgets s)(k := t')\<rparr>"
      using ch Inr by (auto simp: charge_slice_def record_task_budget_slice_def sel split: prod.splits)
    have okt: "slices_file_ok ?enc ?dec ?t" using ok by (simp add: budgets_ok_def)
    have "slices_file_ok ?enc ?dec t' \<and> (parsed_rows ?dec t' = parsed_rows ?dec ?t
        \<or> parsed_rows ?dec t' = parsed_rows ?dec ?t @ [?sl])
      \<and> (res = Inr st \<longrightarrow> ts_slice_generation ?sl \<in> ts_slice_generation ` set (parsed_rows ?dec t')
          \<and> st = status k (btree_values (by_generation (parsed_rows ?dec t'))))"
    proof (cases "slice_ok ?sl")
      case False
      with record_in_ledger_refused [OF False, of ?enc ?dec ?t] t' okt show ?thesis by auto
    next
      case True
      show ?thesis
      proof (cases "find (\<lambda>r. ts_slice_generation r = ts_slice_generation ?sl) (rev (parsed_rows ?dec ?t))")
        case None
        then have "\<forall>r \<in> set (parsed_rows ?dec ?t). ts_slice_generation r \<noteq> ts_slice_generation ?sl"
          by (auto simp: find_None_iff)
        with slices_file_ok_append [OF okt True] record_in_ledger_ok [OF okt True] None t'(1) sel show ?thesis by auto
      next
        case (Some x)
        then have "x \<in> set (parsed_rows ?dec ?t)" "ts_slice_generation x = ts_slice_generation ?sl"
          by (auto dest: find_SomeD)
        with record_in_ledger_ok [OF okt True] Some t'(1) okt sel show ?thesis
          by (auto intro: rev_image_eqI split: if_splits)
      qed
    qed
    with ok t'(2) sel show ?thesis
      by (auto simp: budget_step_def budgets_ok_def ledger_generations_def budget_rows_def)
  qed

section \<open>One drained task\<close>

text \<open>The family under which an evaluation goes on.\<close>

definition continues_family :: "TaskDrainEvaluationV1 option \<Rightarrow> string \<Rightarrow> bool" where
  "continues_family ev f =
     (case map_option te_disposition ev of
        Some (DrainContinuationRequired sn) \<Rightarrow> sn_kind sn = ExplicitCheckpointAuthority \<and> sn_authority_id sn = f
      | _ \<Rightarrow> False)"

lemma continues_family_iff [simp]:
  "\<not> continues_family None f"
  "continues_family (Some ev) f \<longleftrightarrow> (\<exists>sn. te_disposition ev = DrainContinuationRequired sn
     \<and> sn_kind sn = ExplicitCheckpointAuthority \<and> sn_authority_id sn = f)"
  by (auto simp: continues_family_def split: DrainDispositionV1.splits)

definition run_generation :: "task_drain_run \<Rightarrow> u64" where
  "run_generation r = (case tr_item r of Some item \<Rightarrow> unwrap_or (ti_task_slice_generation item) 0 | None \<Rightarrow> 0)"

lemma checkpoint_continues:
  assumes "continues_family (Some (checkpoint_evaluation lib r item b c h)) f"
  shows "kp_authority_kind c = ExplicitCheckpointAuthority" "kp_authority_id c = f"
    "unwrap_or (ti_task_family_id item) f = f" "\<not> breaker_tripped b"
  using assms
  by (auto simp: checkpoint_evaluation_def evaluate_operation_plan_drain_def evaluate_explicit_checkpoint_drain_def
      drain_evaluation_cases resolve_plan_Inr resolve_family_Inr plan_snapshot_def family_snapshot_def
      family_checkpoint_ok_def parked_evaluation_def split: ContinuationAuthorityKindV1.splits)

lemma drain_request_settled:
  "drain_request lib r s = Inr (Some (Inl ev)) \<Longrightarrow> \<not> continues_family (Some ev) f"
  by (auto simp: drain_request_def marker_disposition_def parked_evaluation_def logical_complete_drain_def
      split: if_splits option.splits sum.splits DrainDispositionKindV1.splits)

lemma budget_step_refl: "budgets_ok lib s \<Longrightarrow> budget_step lib g s s"
  by (auto simp: budget_step_def)

lemma budget_step_trans:
  "budget_step lib g s s' \<Longrightarrow> budget_step lib g s' s'' \<Longrightarrow> (\<And>f. budget_rows lib s'' f \<le> Suc (budget_rows lib s f))
   \<Longrightarrow> budget_step lib g s s''"
  by (fastforce simp: budget_step_def)

lemma status_within:
  assumes "\<not> tb_exhausted (status k (btree_values (by_generation (parsed_rows (dl_slice_dec lib) (ks_budgets s f)))))"
    and "budget_rows lib s f < 2 ^ 64"
  shows "card (ledger_generations lib s f) < 16"
  using exhausted_slices [OF assms(1)] status_slices [of "parsed_rows (dl_slice_dec lib) (ks_budgets s f)" k] assms(2)
  by (simp add: ledger_generations_def budget_rows_def)

lemma drain_budget_outcome:
  assumes ok: "budgets_ok lib s" and few: "\<And>f. Suc (budget_rows lib s f) < 2 ^ 64" and item: "tr_item r = Some item"
    and b: "drain_budget lib r item c s = (s1, res)"
  shows "budget_step lib (run_generation r) s s1 \<and> (disposition_recovery_run r \<longrightarrow> s1 = s)
    \<and> (\<forall>st. res = Inr st \<longrightarrow> kp_authority_kind c = ExplicitCheckpointAuthority \<longrightarrow>
         \<not> bk_budget_exhausted (drain_breakers r item ns st) \<longrightarrow>
         card (ledger_generations lib s1 (kp_authority_id c)) < 16
         \<and> (\<not> disposition_recovery_run r \<longrightarrow> run_generation r \<in> ledger_generations lib s1 (kp_authority_id c)))"
proof (cases "kp_authority_kind c = ExplicitCheckpointAuthority \<and> \<not> disposition_recovery_run r")
  case False
  have f: "slices_file_ok (dl_slice_enc lib) (dl_slice_dec lib) (ks_budgets s (kp_authority_id c))"
    using ok by (simp add: budgets_ok_def)
  have s1: "s1 = s" using False b by (auto simp: drain_budget_def split: if_splits)
  moreover have "card (ledger_generations lib s (kp_authority_id c)) < 16"
    if "res = Inr st" "kp_authority_kind c = ExplicitCheckpointAuthority"
      "\<not> bk_budget_exhausted (drain_breakers r item ns st)" for st
  proof (rule status_within)
    have "read_slices (dl_slice_dec lib) (ks_budgets s (kp_authority_id c))
        = Inr (by_generation (parsed_rows (dl_slice_dec lib) (ks_budgets s (kp_authority_id c))))"
      using f by (simp add: read_slices_readable slices_file_ok_def)
    then show "\<not> tb_exhausted (status (kp_authority_id c) (btree_values (by_generation
        (parsed_rows (dl_slice_dec lib) (ks_budgets s (kp_authority_id c))))))"
      using False b that by (auto simp: drain_budget_def task_budget_status_def drain_breakers_def split: if_splits)
    show "budget_rows lib s (kp_authority_id c) < 2 ^ 64" using few [of "kp_authority_id c"] by simp
  qed
  ultimately show ?thesis using ok False by (auto simp: budget_step_refl)
next
  case True
  obtain s' res' where ch: "charge_slice lib r item (kp_authority_id c) (kp_checkpoint_digest c) False s = (s', res')" by fastforce
  with True b have r: "s1 = s'" "res = (case res' of Inl e \<Rightarrow> Inl e | Inr st \<Rightarrow> Inr (Some st))"
    by (auto simp: drain_budget_def split: sum.splits)
  note out = charge_slice_outcome [OF ok ch]
  have g: "run_generation r = unwrap_or (ti_task_slice_generation item) 0" by (simp add: run_generation_def item)
  have "budget_rows lib s1 (kp_authority_id c) < 2 ^ 64"
    using out few [of "kp_authority_id c"] by (force simp: budget_step_def r(1))
  then show ?thesis
    using out True status_within [where s = s1 and f = "kp_authority_id c" and k = "kp_authority_id c" and lib = lib]
    by (auto simp: r g drain_breakers_def split: sum.splits)
qed

lemma continue_outcome:
  assumes ok: "budgets_ok lib s" and few: "\<And>f. Suc (budget_rows lib s f) < 2 ^ 64"
    and c: "continue_from_checkpoint lib r c s = (s1, res)"
  shows "budget_step lib (run_generation r) s s1 \<and> (disposition_recovery_run r \<longrightarrow> s1 = s)
    \<and> (\<forall>ev f. res = Inr ev \<longrightarrow> continues_family (Some ev) f \<longrightarrow>
         run_generation r < 32 \<and> (\<exists>item. tr_item r = Some item \<and> unwrap_or (ti_task_family_id item) f = f)
         \<and> card (ledger_generations lib s1 f) < 16
         \<and> (\<not> disposition_recovery_run r \<longrightarrow> run_generation r \<in> ledger_generations lib s1 f))"
proof (cases "\<exists>item ns. tr_item r = Some item \<and> tr_newer_steer r = Inr ns")
  case False
  then have "s1 = s" "\<exists>e. res = Inl e"
    using c by (auto simp: continue_from_checkpoint_def split: option.splits sum.splits)
  with ok show ?thesis by (auto simp: budget_step_refl)
next
  case True
  then obtain item ns where i: "tr_item r = Some item" "tr_newer_steer r = Inr ns" by blast
  obtain s' st where b: "drain_budget lib r item c s = (s', st)" by fastforce
  with c i have r: "s1 = s'" "res = (case st of Inl e \<Rightarrow> Inl e | Inr x \<Rightarrow>
      Inr (checkpoint_evaluation (dl_task lib) r item (drain_breakers r item ns x) c (ks_home s')))"
    by (auto simp: continue_from_checkpoint_def split: sum.splits)
  note out = drain_budget_outcome [OF ok few i(1) b, where ns = ns]
  have "run_generation r < 32 \<and> unwrap_or (ti_task_family_id item) f = f \<and> card (ledger_generations lib s1 f) < 16
      \<and> (\<not> disposition_recovery_run r \<longrightarrow> run_generation r \<in> ledger_generations lib s1 f)"
    if "res = Inr ev" "continues_family (Some ev) f" for ev f
  proof -
    from that r(2) obtain x where x: "st = Inr x"
      "ev = checkpoint_evaluation (dl_task lib) r item (drain_breakers r item ns x) c (ks_home s')"
      by (auto split: sum.splits)
    from checkpoint_continues [OF that(2) [unfolded x(2)]]
    have k: "kp_authority_kind c = ExplicitCheckpointAuthority" "kp_authority_id c = f"
      "unwrap_or (ti_task_family_id item) f = f" "\<not> breaker_tripped (drain_breakers r item ns x)" by blast+
    then have "\<not> bk_budget_exhausted (drain_breakers r item ns x)" "\<not> depth_exhausted (drain_breakers r item ns x)"
      by (simp_all add: breaker_tripped_def)
    moreover from this(2) have "run_generation r < 32"
      by (auto simp: depth_exhausted_def drain_breakers_def DEFAULT_MAX_TASK_CONTINUATION_DEPTH_def Let_def
          run_generation_def i(1) split: if_splits)
    ultimately show ?thesis using out x(1) k r(1) by blast
  qed
  with out r(1) i(1) show ?thesis by blast
qed

lemma charge_recovery_outcome:
  assumes ok: "budgets_ok lib s" and c: "charge_recovery lib r ev s = (s', res)"
  shows "budget_step lib (run_generation r) s s' \<and> (\<not> disposition_recovery_run r \<longrightarrow> s' = s)
    \<and> (res = Inr () \<longrightarrow> disposition_recovery_run r \<longrightarrow> (\<exists>item k. tr_item r = Some item
         \<and> ti_task_family_id item = Some k \<and> run_generation r \<in> ledger_generations lib s' k))"
proof (cases "\<exists>item k. disposition_recovery_run r \<and> tr_item r = Some item \<and> ti_task_family_id item = Some k")
  case False
  then have "s' = s" "res = Inr () \<longrightarrow> \<not> disposition_recovery_run r"
    using c by (auto simp: charge_recovery_def split: if_splits option.splits)
  with ok show ?thesis by (auto simp: budget_step_refl)
next
  case True
  then obtain item k where i: "disposition_recovery_run r" "tr_item r = Some item" "ti_task_family_id item = Some k" by blast
  define digest where "digest = unwrap_or (Option.bind (tr_drain_disposition r) dm_checkpoint_digest)
    (task_sha256_hex (dl_task lib) (case ev of Some e \<Rightarrow> te_reason e | None \<Rightarrow> []))"
  obtain s1 res1 where ch: "charge_slice lib r item k digest True s = (s1, res1)" by fastforce
  with c i have "s' = s1" "res = Inr () \<longrightarrow> (\<exists>st. res1 = Inr st)"
    by (auto simp: charge_recovery_def Let_def digest_def split: sum.splits)
  with charge_slice_outcome [OF ok ch] i show ?thesis by (fastforce simp: run_generation_def)
qed

lemma evaluate_task_drain_step:
  assumes ok: "budgets_ok lib s" and ev: "evaluate_task_drain lib r s = (s', res)"
    and few: "\<And>f. Suc (budget_rows lib s f) < 2 ^ 64"
  shows "budget_step lib (run_generation r) s s'
    \<and> (\<forall>e f. res = Inr e \<longrightarrow> continues_family e f \<longrightarrow> run_generation r \<in> ledger_generations lib s' f
         \<and> card (ledger_generations lib s' f) \<le> 16 \<and> run_generation r < 32)"
proof -
  let ?g = "run_generation r"
  define goes where "goes = (\<lambda>s1 f. ?g < 32 \<and> (\<exists>item. tr_item r = Some item \<and> unwrap_or (ti_task_family_id item) f = f)
     \<and> card (ledger_generations lib s1 f) < 16 \<and> (\<not> disposition_recovery_run r \<longrightarrow> ?g \<in> ledger_generations lib s1 f))"
  obtain s1 r1 where first: "budget_step lib ?g s s1" "disposition_recovery_run r \<longrightarrow> s1 = s"
      "\<And>e f. r1 = Inr e \<Longrightarrow> continues_family e f \<Longrightarrow> goes s1 f"
    and rest: "(s', res) = (case r1 of Inl e \<Rightarrow> (s1, Inl e) | Inr e \<Rightarrow>
      (case charge_recovery lib r e s1 of (s'', Inl x) \<Rightarrow> (s'', Inl x) | (s'', Inr _) \<Rightarrow> (s'', Inr e)))"
  proof (cases "\<exists>c. drain_request lib r s = Inr (Some (Inr c))")
    case True
    then obtain c where c: "drain_request lib r s = Inr (Some (Inr c))" by blast
    obtain s2 x where cont: "continue_from_checkpoint lib r c s = (s2, x)" by fastforce
    show ?thesis
      by (rule that [of s2 "map_sum id Some x"])
        (use continue_outcome [OF ok few cont] c cont ev in
          \<open>auto simp: evaluate_task_drain_def goes_def split: sum.splits\<close>)
  next
    case False
    define x where "x = (case drain_request lib r s of Inl e \<Rightarrow> Inl e
      | Inr (Some (Inl v)) \<Rightarrow> Inr (Some v) | _ \<Rightarrow> Inr None)"
    have "\<not> continues_family e f" if "x = Inr e" for e f
      using that drain_request_settled [of lib r s _ f] by (auto simp: x_def split: sum.splits option.splits)
    moreover have "(s', res) = (case x of Inl e \<Rightarrow> (s, Inl e) | Inr e \<Rightarrow>
      (case charge_recovery lib r e s of (s'', Inl x) \<Rightarrow> (s'', Inl x) | (s'', Inr _) \<Rightarrow> (s'', Inr e)))"
      using False ev by (auto simp: evaluate_task_drain_def x_def split: sum.splits option.splits)
    ultimately show ?thesis using that budget_step_refl [OF ok] by blast
  qed
  show ?thesis
  proof (cases r1)
    case (Inl e)
    with rest first(1) show ?thesis by simp
  next
    case (Inr e)
    obtain s2 x where ch: "charge_recovery lib r e s1 = (s2, x)" by fastforce
    with rest Inr have eq: "s' = s2" "res = (case x of Inl y \<Rightarrow> Inl y | Inr _ \<Rightarrow> Inr e)"
      by (auto split: sum.splits)
    have ok1: "budgets_ok lib s1" using first(1) by (simp add: budget_step_def)
    note out = charge_recovery_outcome [OF ok1 ch]
    show ?thesis
    proof (cases "disposition_recovery_run r")
      case False
      with out eq have "s' = s1" by simp
      with first Inr eq False show ?thesis by (auto simp: goes_def less_imp_le split: sum.splits)
    next
      case True
      with first(2) have s1: "s1 = s" by simp
      have "?g \<in> ledger_generations lib s' f \<and> card (ledger_generations lib s' f) \<le> 16 \<and> ?g < 32"
        if "res = Inr e'" "continues_family e' f" for e' f
      proof -
        from that eq have x: "x = Inr ()" "e' = e" by (auto split: sum.splits)
        then have go: "goes s f" using first(3) Inr that(2) s1 by blast
        with out True x eq s1 have "?g \<in> ledger_generations lib s' f" by (auto simp: goes_def unwrap_or_def)
        moreover have "card (ledger_generations lib s' f) \<le> card (insert ?g (ledger_generations lib s f))"
          using out eq s1 by (intro card_mono) (auto simp: budget_step_def ledger_generations_def)
        moreover have "card (insert ?g (ledger_generations lib s f)) \<le> Suc (card (ledger_generations lib s f))"
          by (rule card_insert_le_m1) auto
        ultimately show ?thesis using go by (auto simp: goes_def)
      qed
      with out eq s1 show ?thesis by blast
    qed
  qed
qed

section \<open>Sequences of drained tasks\<close>

text \<open>
  Before each run, the plans, families and deadline decisions may have changed in any way. \<open>continued\<close> is the set of
  slice generations at which a run of the family was continued.
\<close>

fun continued :: "drain_lib \<Rightarrow> string \<Rightarrow> (task_home \<times> string \<times> task_drain_run) list \<Rightarrow> task_state \<Rightarrow> u64 set" where
  "continued lib f [] s = {}"
| "continued lib f ((h, t, r) # xs) s =
     (case evaluate_task_drain lib r (s\<lparr>ks_home := h, ks_deadline_decisions := t\<rparr>) of
        (s', Inr e) \<Rightarrow> (if continues_family e f then {run_generation r} else {}) \<union> continued lib f xs s'
      | (s', Inl _) \<Rightarrow> continued lib f xs s')"

text \<open>The state after such a sequence.\<close>

fun drained_state :: "drain_lib \<Rightarrow> (task_home \<times> string \<times> task_drain_run) list \<Rightarrow> task_state \<Rightarrow> task_state" where
  "drained_state lib [] s = s"
| "drained_state lib ((h, t, r) # xs) s =
     drained_state lib xs (fst (evaluate_task_drain lib r (s\<lparr>ks_home := h, ks_deadline_decisions := t\<rparr>)))"

lemma environment_budgets [simp]:
  "budgets_ok lib (s\<lparr>ks_home := h, ks_deadline_decisions := t\<rparr>) = budgets_ok lib s"
  "ledger_generations lib (s\<lparr>ks_home := h, ks_deadline_decisions := t\<rparr>) f = ledger_generations lib s f"
  "budget_rows lib (s\<lparr>ks_home := h, ks_deadline_decisions := t\<rparr>) f = budget_rows lib s f"
  by (simp_all add: budgets_ok_def ledger_generations_def budget_rows_def)

lemma continued_bound:
  assumes "budgets_ok lib s" and "\<And>f. budget_rows lib s f + length xs < 2 ^ 64"
    and "S \<subseteq> ledger_generations lib s f" and "card S \<le> 16" and "\<forall>g \<in> S. g < 32"
  shows "card (S \<union> continued lib f xs s) \<le> 16 \<and> (\<forall>g \<in> S \<union> continued lib f xs s. g < 32)
    \<and> S \<union> continued lib f xs s \<subseteq> ledger_generations lib (drained_state lib xs s) f"
  using assms
proof (induction xs arbitrary: s S)
  case (Cons x xs)
  obtain h t r where x: "x = (h, t, r)" by (cases x)
  obtain s' res where ev: "evaluate_task_drain lib r (s\<lparr>ks_home := h, ks_deadline_decisions := t\<rparr>) = (s', res)" by fastforce
  define T where "T = (case res of Inr e \<Rightarrow> if continues_family e f then {run_generation r} else {} | Inl _ \<Rightarrow> {})"
  have few: "Suc (budget_rows lib s f) < 2 ^ 64" for f using Cons.prems(2) [of f] by simp
  from evaluate_task_drain_step [OF _ ev] Cons.prems(1) few
  have st: "budget_step lib (run_generation r) (s\<lparr>ks_home := h, ks_deadline_decisions := t\<rparr>) s'"
    and go: "T \<noteq> {} \<Longrightarrow> T = {run_generation r} \<and> run_generation r \<in> ledger_generations lib s' f
      \<and> card (ledger_generations lib s' f) \<le> 16 \<and> run_generation r < 32"
    by (auto simp: T_def split: sum.splits if_splits)
  have sub: "S \<union> T \<subseteq> ledger_generations lib s' f"
    using st go Cons.prems(3) by (cases "T = {}") (auto simp: budget_step_def)
  moreover have "finite (ledger_generations lib s' f)" by (simp add: ledger_generations_def)
  then have "card (S \<union> T) \<le> 16"
    using go sub Cons.prems(4) card_mono [of "ledger_generations lib s' f" "S \<union> T"] by (cases "T = {}") auto
  moreover have "\<forall>g \<in> S \<union> T. g < 32" using go Cons.prems(5) by (cases "T = {}") auto
  moreover have "budgets_ok lib s'" using st by (simp add: budget_step_def)
  moreover have "budget_rows lib s' k + length xs < 2 ^ 64" for k
  proof -
    have "budget_rows lib s' k \<le> Suc (budget_rows lib s k)" using st by (simp add: budget_step_def)
    with Cons.prems(2) [of k] show ?thesis by simp
  qed
  ultimately have "card (S \<union> T \<union> continued lib f xs s') \<le> 16 \<and> (\<forall>g \<in> S \<union> T \<union> continued lib f xs s'. g < 32)
      \<and> S \<union> T \<union> continued lib f xs s' \<subseteq> ledger_generations lib (drained_state lib xs s') f"
    by (intro Cons.IH) auto
  moreover have "continued lib f (x # xs) s = T \<union> continued lib f xs s'"
    by (simp add: x ev T_def split: sum.splits)
  moreover have "drained_state lib (x # xs) s = drained_state lib xs s'" by (simp add: x ev)
  ultimately show ?case by (simp add: Un_assoc)
qed auto

section \<open>A concrete run\<close>

definition demo_dl :: drain_lib where
  "demo_dl = \<lparr>dl_task = demo_kl, dl_slice_enc = slice_enc, dl_slice_dec = slice_dec,
     dl_value_from_str = (\<lambda>_. None)\<rparr>"

definition demo_drain_item :: task_drain_item where
  "demo_drain_item = \<lparr>ti_queue_id = ''q'', ti_session_key = ''s'', ti_agent_id = ''a'',
     ti_task_family_id = Some demo_task_digest, ti_task_root_queue_id = None, ti_task_slice_generation = Some 1,
     ti_disposition_recovery_depth = None\<rparr>"

definition demo_drain_run :: task_drain_run where
  "demo_drain_run = \<lparr>tr_event = DrainCompletion, tr_goal_status = None, tr_drain_disposition = None,
     tr_drain_disposition_error = None, tr_drain_checkpoint = Some (demo_task_checkpoint ExplicitCheckpointAuthority),
     tr_queue_id = None, tr_elapsed_ms = 5, tr_total_tokens = Some 7, tr_context_recovery = False,
     tr_item = Some demo_drain_item, tr_lane_digest = Some demo_task_digest, tr_virtual_session_id = Some ''v'',
     tr_operator_stop = False, tr_newer_steer = Inr False, tr_clock = Inr 9\<rparr>"

definition demo_task_state :: task_state where
  "demo_task_state = \<lparr>ks_home = demo_family_home, ks_budgets = (\<lambda>_. []), ks_deadline_decisions = []\<rparr>"

lemma demo_drain_fields:
  "accepted_ordinary_drain demo_drain_run" "\<not> disposition_recovery_run demo_drain_run"
  "drain_request demo_dl demo_drain_run s = Inr (Some (Inr (demo_task_checkpoint ExplicitCheckpointAuthority)))"
  by (simp_all add: accepted_ordinary_drain_def disposition_recovery_run_def demo_drain_run_def demo_drain_item_def
      drain_request_def)

lemma demo_charged:
  "\<exists>s'. charge_slice demo_dl demo_drain_run demo_drain_item demo_task_digest demo_task_digest False demo_task_state
     = (s', Inr (status demo_task_digest [drain_slice demo_drain_run demo_drain_item demo_task_digest demo_task_digest False 9]))
   \<and> ks_home s' = demo_family_home"
proof -
  have "validate_slice (drain_slice demo_drain_run demo_drain_item demo_task_digest demo_task_digest False 9) = Inr ()"
    using demo_task_digest_hex by (simp add: validate_slice_def drain_slice_def lower_hex_def is_lower_hex_def)
  moreover have "slices_file_ok slice_enc slice_dec []" by (simp add: slices_file_ok_Nil slice_codec)
  ultimately show ?thesis
    using record_in_ledger_ok [of slice_enc slice_dec "[]"]
    by (simp add: charge_slice_def demo_drain_run_def record_task_budget_slice_def demo_dl_def demo_task_state_def
        drain_slice_def by_generation_def btree_values_def parsed_rows_def jsonl_lines_def text_lines_def)
qed

lemma demo_within: "\<not> tb_exhausted (status demo_task_digest [drain_slice demo_drain_run demo_drain_item demo_task_digest demo_task_digest False 9])
   \<and> tb_reason_code (status demo_task_digest [drain_slice demo_drain_run demo_drain_item demo_task_digest demo_task_digest False 9])
     = ''within-budget''"
  by (simp add: status_def Let_def reason_code_def drain_slice_def demo_drain_run_def sat_sum_def sat_add_def elapsed_u64_def
      unwrap_or_def DEFAULT_TASK_WALL_CLOCK_BUDGET_MS_def DEFAULT_MAX_TASK_SLICES_def DEFAULT_MAX_TASK_TOKENS_def
      DEFAULT_MAX_NO_PROGRESS_SLICES_def DEFAULT_MAX_RECOVERY_SLICES_def word_le_nat_alt)

lemma demo_drain_continues:
  "\<exists>s' ev. evaluate_task_drain demo_dl demo_drain_run demo_task_state = (s', Inr (Some ev))
     \<and> te_disposition ev = DrainContinuationRequired (family_snapshot demo_kl demo_family_options demo_family)"
proof -
  define st where "st = status demo_task_digest [drain_slice demo_drain_run demo_drain_item demo_task_digest demo_task_digest False 9]"
  obtain s' where s': "charge_slice demo_dl demo_drain_run demo_drain_item demo_task_digest demo_task_digest False demo_task_state
      = (s', Inr st)" "ks_home s' = demo_family_home" using demo_charged by (auto simp: st_def)
  let ?c = "demo_task_checkpoint ExplicitCheckpointAuthority"
  have c: "kp_authority_kind ?c = ExplicitCheckpointAuthority" "kp_authority_id ?c = demo_task_digest"
    "kp_checkpoint_digest ?c = demo_task_digest" by (simp_all add: demo_task_checkpoint_def)
  define b where "b = drain_breakers demo_drain_run demo_drain_item False (Some st)"
  have "\<not> tb_exhausted st" "tb_reason_code st = ''within-budget''" using demo_within by (simp_all add: st_def)
  then have "\<not> breaker_tripped b"
    by (simp add: b_def breaker_tripped_def drain_breakers_def depth_exhausted_def Let_def
        DEFAULT_MAX_TASK_CONTINUATION_DEPTH_def demo_drain_run_def demo_drain_item_def unwrap_or_def word_le_nat_alt)
  moreover have "checkpoint_evaluation demo_kl demo_drain_run demo_drain_item b ?c demo_family_home
      = evaluate_explicit_checkpoint_drain demo_kl demo_family_home (demo_family_options\<lparr>xo_breakers := b\<rparr>)"
    by (simp add: checkpoint_evaluation_def c demo_drain_run_def demo_drain_item_def unwrap_or_def demo_family_options_def)
  moreover obtain f where "family_checkpoint_ok demo_kl demo_family_options" "family_authority demo_kl demo_family_home demo_family_options f"
    "family_snapshot demo_kl demo_family_options f = family_snapshot demo_kl demo_family_options demo_family"
    using demo_family_drain by (auto simp: evaluate_explicit_checkpoint_drain_def drain_evaluation_cases resolve_family_Inr)
  ultimately have "te_disposition (checkpoint_evaluation demo_kl demo_drain_run demo_drain_item b ?c demo_family_home)
      = DrainContinuationRequired (family_snapshot demo_kl demo_family_options demo_family)"
    by (auto simp: evaluate_explicit_checkpoint_drain_def drain_evaluation_cases resolve_family_Inr
        family_checkpoint_ok_def family_authority_def family_snapshot_def)
  moreover have "continue_from_checkpoint demo_dl demo_drain_run ?c demo_task_state
      = (s', Inr (checkpoint_evaluation demo_kl demo_drain_run demo_drain_item b ?c demo_family_home))"
  proof -
    have "tr_item demo_drain_run = Some demo_drain_item" "tr_newer_steer demo_drain_run = Inr False" "dl_task demo_dl = demo_kl"
      by (simp_all add: demo_drain_run_def demo_dl_def)
    with s' demo_drain_fields(2) show ?thesis by (simp add: continue_from_checkpoint_def drain_budget_def c b_def)
  qed
  ultimately show ?thesis
    by (simp add: evaluate_task_drain_def demo_drain_fields charge_recovery_def)
qed

section \<open>Properties\<close>

text \<open>
  C5. A task family does not go on forever. Over any sequence of drained runs, with plans, families, deadline
  decisions and channels that change in any way between them, the runs of one family are continued at
  no more than sixteen slice generations, each below thirty-two, starting from empty budgets. Every continued
  generation, of a recovery run too, is charged: at the end the budget ledger of the family has a row for it.
  (Fewer than 2^64 runs.)
\<close>
theorem task_continuations_bounded:
  assumes "\<forall>sl. codec_ok (dl_slice_enc lib) (dl_slice_dec lib) sl" and "\<forall>k. ks_budgets s k = []"
    and "length xs < 2 ^ 64"
  shows "card (continued lib f xs s) \<le> 16 \<and> (\<forall>g \<in> continued lib f xs s. g < 32
     \<and> (\<exists>row \<in> set (parsed_rows (dl_slice_dec lib) (ks_budgets (drained_state lib xs s) f)). ts_slice_generation row = g))"
proof -
  have "budgets_ok lib s" using assms(1,2) by (simp add: budgets_ok_def slices_file_ok_Nil)
  moreover have "budget_rows lib s k + length xs < 2 ^ 64" for k
    using assms(2,3) by (simp add: budget_rows_def)
  ultimately show ?thesis using continued_bound [of lib s xs "{}" f]
    by (auto simp: ledger_generations_def)
qed

theorem task_continuations_bounded_witness:
  "continued demo_dl demo_task_digest [(demo_family_home, [], demo_drain_run)] demo_task_state = {1}
   \<and> card (continued demo_dl demo_task_digest [(demo_family_home, [], demo_drain_run)] demo_task_state) \<le> 16
   \<and> (\<exists>row. row \<in> set (parsed_rows slice_dec (ks_budgets (drained_state demo_dl [(demo_family_home, [], demo_drain_run)]
         demo_task_state) demo_task_digest)) \<and> ts_slice_generation row = 1)"
proof -
  have "demo_task_state\<lparr>ks_home := demo_family_home, ks_deadline_decisions := []\<rparr> = demo_task_state"
    by (simp add: demo_task_state_def)
  with demo_drain_continues
  have one: "continued demo_dl demo_task_digest [(demo_family_home, [], demo_drain_run)] demo_task_state = {1}"
    by (auto simp: family_snapshot_def demo_family_options_def run_generation_def demo_drain_run_def demo_drain_item_def
        unwrap_or_def)
  have "\<forall>sl. codec_ok (dl_slice_enc demo_dl) (dl_slice_dec demo_dl) sl" "\<forall>k. ks_budgets demo_task_state k = []"
    by (simp_all add: demo_dl_def demo_task_state_def slice_codec)
  from task_continuations_bounded [OF this, of "[(demo_family_home, [], demo_drain_run)]" demo_task_digest] one
  show ?thesis by (auto simp: demo_dl_def simp del: drained_state.simps)
qed

text \<open>
  C19. A drained task is reported as complete exactly when the assistant left a completion marker that
  names the latest applied extension of the deadline; an evaluation that continues the task never
  reports it as complete, and one that does neither parks it.
\<close>
theorem drained_task_final:
  assumes "evaluate_task_drain lib r s = (s', Inr (Some ev))"
  shows "(te_allow_logical_final ev \<longleftrightarrow> (\<exists>m. tr_drain_disposition r = Some m \<and> dm_disposition m = KindLogicalComplete
      \<and> latest_productive_deadline_generation (dl_value_from_str lib) (ks_deadline_decisions s) (tr_queue_id r)
          = Inr (dm_observed_deadline_generation m)))
    \<and> (te_schedule_continuation ev \<longleftrightarrow> (\<exists>sn. te_disposition ev = DrainContinuationRequired sn))
    \<and> \<not> (te_allow_logical_final ev \<and> te_schedule_continuation ev)"
proof -
  from assms consider (settled) "drain_request lib r s = Inr (Some (Inl ev))"
    | (checkpoint) c item where "drain_request lib r s = Inr (Some (Inr c))" "tr_item r = Some item"
      "\<exists>b h. ev = checkpoint_evaluation (dl_task lib) r item b c h"
    by (auto simp: evaluate_task_drain_def continue_from_checkpoint_def
        split: sum.splits prod.splits option.splits)
  then show ?thesis
  proof cases
    case settled
    then show ?thesis
      by (auto simp: drain_request_def marker_disposition_def parked_evaluation_def logical_complete_drain_def
          split: if_splits option.splits sum.splits DrainDispositionKindV1.splits)
  next
    case checkpoint
    then have "\<not> te_allow_logical_final ev
        \<and> (te_schedule_continuation ev \<longleftrightarrow> (\<exists>sn. te_disposition ev = DrainContinuationRequired sn))"
      by (cases "kp_authority_kind c")
        (auto simp: checkpoint_evaluation_def evaluate_operation_plan_drain_def evaluate_explicit_checkpoint_drain_def
          drain_evaluation_cases parked_evaluation_def)
    moreover have "\<not> (\<exists>m. tr_drain_disposition r = Some m \<and> dm_disposition m = KindLogicalComplete
      \<and> latest_productive_deadline_generation (dl_value_from_str lib) (ks_deadline_decisions s) (tr_queue_id r)
          = Inr (dm_observed_deadline_generation m))"
      using checkpoint(1) by (auto simp: drain_request_def marker_disposition_def split: if_splits)
    ultimately show ?thesis by blast
  qed
qed

theorem drained_task_final_witness:
  "\<exists>ev. snd (evaluate_task_drain demo_dl demo_drain_run demo_task_state) = Inr (Some ev)
     \<and> te_schedule_continuation ev \<and> \<not> te_allow_logical_final ev"
proof -
  obtain s' ev where ev: "evaluate_task_drain demo_dl demo_drain_run demo_task_state = (s', Inr (Some ev))"
    "te_disposition ev = DrainContinuationRequired (family_snapshot demo_kl demo_family_options demo_family)"
    using demo_drain_continues by blast
  from drained_task_final [OF ev(1)] ev show ?thesis by auto
qed

end
