(* ===== verification/Goal_Continuation.thy ===== *)
theory Goal_Continuation
  imports Task_Transition Goal_Campaign Goal_Closure
begin

text \<open>
  Continuation intents (\<open>src/crates/agent-harness-core/src/goal_continuation.rs\<close>): what stands between the
  decision that a goal or a task goes on and the run that continues it. This theory has the data, the readers
  of the ledgers and of the runtime queue, and the revalidation of an intent; \<open>Goal_Continuation_Ops\<close> has
  the operations.

  The files are the record \<open>continuation_home\<close>. An intent is revalidated against the plans and families of
  \<open>Task_Transition\<close>, the doctor of \<open>Goal_Lineage\<close> and the intents of \<open>Goal_Closure\<close>. \<open>serde_json\<close> and SHA-256 are
  the record \<open>continuation_lib\<close>. A message that reports the error of a parser or the path of a file leaves that out.
\<close>

section \<open>Data\<close>

definition GOAL_CONTINUATION_INTENT_SCHEMA :: string where
  "GOAL_CONTINUATION_INTENT_SCHEMA = ''agent-harness.goal-continuation-intent.v1''"

definition TASK_CONTINUATION_INTENT_SCHEMA :: string where
  "TASK_CONTINUATION_INTENT_SCHEMA = ''agent-harness.task-continuation-intent.v1''"

definition GOAL_CONTINUATION_RECONCILIATION_ERROR_SCHEMA :: string where
  "GOAL_CONTINUATION_RECONCILIATION_ERROR_SCHEMA = ''agent-harness.goal-continuation-reconciliation-error.v1''"

definition GOAL_CONTINUATION_FENCE_SCHEMA :: string where
  "GOAL_CONTINUATION_FENCE_SCHEMA = ''agent-harness.goal-continuation-fence.v1''"

datatype GoalAutonomyMode = AutonomyDisabled | AutonomyObserve | AutonomyActive

record GoalAutonomyActivation =
  ga_mode :: GoalAutonomyMode
  ga_configured_mode :: GoalAutonomyMode
  ga_lane_allowed :: bool
  ga_activation_reason :: string

datatype GoalContinuationIntentStatus = IntentCommitted | IntentEnqueued | IntentAcknowledged

record GoalContinuationFenceV1 =
  nf_schema :: string
  nf_fence_key :: string
  nf_intent_key :: string
  nf_parent_queue_id :: string
  nf_child_queue_id :: "string option"
  nf_lane_digest :: string
  nf_virtual_session_id :: string
  nf_disposition :: string
  nf_reason :: string
  nf_observed_at_ms :: int

record GoalContinuationReconciliationErrorV1 =
  nr_schema :: string
  nr_error_key :: string
  nr_disposition :: string
  nr_error_kind :: string
  nr_record_digest :: string
  nr_record_line :: "u64 option"
  nr_intent_key :: "string option"
  nr_reason :: string
  nr_observed_at_ms :: int

record GoalContinuationIntentV1 =
  ni_schema :: string
  ni_intent_key :: string
  ni_status :: GoalContinuationIntentStatus
  ni_parent_queue_id :: string
  ni_child_queue_id :: "string option"
  ni_working_session_key :: string
  ni_lane_digest :: string
  ni_virtual_session_id :: string
  ni_lineage_id :: string
  ni_goal_checksum :: string
  ni_campaign_family_id :: string
  ni_backend_context_generation :: string
  ni_source_slice_generation :: u64
  ni_decision_generation :: u64
  ni_campaign_slice_generation :: u64
  ni_recovery_continuation_index :: u64
  ni_decision :: GoalTransitionDecision
  ni_human_input_generation :: "u64 option"
  ni_goal_relation_at_commit :: "GoalTransitionRelation option"
  ni_goal_status_at_commit :: "string option"
  ni_authority_kind :: "ContinuationAuthorityKindV1 option"
  ni_authority_id :: "string option"
  ni_authority_version :: "u64 option"
  ni_authority_checksum :: "string option"
  ni_checkpoint_digest :: "string option"
  ni_active_item_id :: "string option"
  ni_active_item_version :: "u64 option"
  ni_disposition_recovery_depth :: "u64 option"
  ni_shell_recovery_depth :: "u64 option"
  ni_reason :: string
  ni_observed_at_ms :: int

datatype GoalContinuationLeaseGate =
    NotContinuation
  | GateAcknowledged GoalContinuationIntentV1
  | GateSuppressed GoalContinuationFenceV1

datatype EnsureGoalContinuationOutcome =
    OutcomeIntent GoalContinuationIntentV1
  | OutcomeFenced GoalContinuationFenceV1

datatype IntentRevalidationFailure =
    SupersededByHuman string
  | PolicyBlocked string
  | FailVisible string
  | RetryLater io_error

record RecoverableIntentRead =
  ri_latest :: "GoalContinuationIntentV1 option"
  ri_corruption :: "string option"

record RuntimeContinuationMetadata =
  rm_virtual_session_id :: "string option"
  rm_continuation_index :: "u64 option"
  rm_campaign_slice_generation :: "u64 option"
  rm_task_family_id :: "string option"
  rm_task_family_version :: "u64 option"
  rm_task_root_queue_id :: "string option"
  rm_task_slice_generation :: "u64 option"
  rm_disposition_recovery_depth :: "u64 option"
  rm_shell_recovery_depth :: "u64 option"
  rm_continuation_intent_key :: "string option"
  rm_completion_kind :: "string option"
  rm_task_terminal :: "bool option"
  rm_suppress_self_improvement :: bool

record ChannelStateLane =
  sl_platform :: string
  sl_account_id :: string
  sl_channel_id :: string
  sl_user_id :: string
  sl_agent_id :: string

text \<open>
  The library functions, and the files. \<open>nh_pending\<close> and \<open>nh_transitions\<close> are \<open>None\<close> when the file does not
  exist; the other ledgers read like empty ones then. \<open>nh_config\<close> has the two places of the configuration in
  order, and \<open>nh_quarantine\<close> the markers of the queue by the names of their files.
\<close>

record continuation_lib =
  nl_json :: json_codec
  nl_task :: task_lib
  nl_lineage :: lineage_lib
  nl_closure :: closure_lib
  nl_intent_to_value :: "GoalContinuationIntentV1 \<Rightarrow> Value"
  nl_intent_from_value :: "Value \<Rightarrow> GoalContinuationIntentV1 option"
  nl_fence_to_value :: "GoalContinuationFenceV1 \<Rightarrow> Value"
  nl_fence_from_value :: "Value \<Rightarrow> GoalContinuationFenceV1 option"
  nl_error_to_value :: "GoalContinuationReconciliationErrorV1 \<Rightarrow> Value"
  nl_transition_from_value :: "Value \<Rightarrow> GoalTransitionReceiptV1 option"
  nl_string_from_str :: "string \<Rightarrow> string option"

record continuation_home =
  nh_intents :: string
  nh_fences :: string
  nh_errors :: string
  nh_pending :: "string option"
  nh_transitions :: "string option"
  nh_lineage :: lineage_home
  nh_closures :: closure_home
  nh_tasks :: task_home
  nh_config :: "string option list"
  nh_quarantine :: "(string \<times> Value) list"
  nh_run_once :: string

section \<open>Identities\<close>

definition canonical_identity_bytes :: "string list \<Rightarrow> string" where
  "canonical_identity_bytes parts = concat (map length_prefixed parts)"

definition identity_digest :: "continuation_lib \<Rightarrow> string list \<Rightarrow> string" where
  "identity_digest lib parts = task_sha256_hex (nl_task lib) (canonical_identity_bytes parts)"

definition DEFAULT_CHANNEL_STATE_ACCOUNT_ID :: string where
  "DEFAULT_CHANNEL_STATE_ACCOUNT_ID = ''default''"

definition MAX_CHANNEL_STATE_LANE_AXIS_BYTES :: nat where
  "MAX_CHANNEL_STATE_LANE_AXIS_BYTES = 4 * 1024"

definition normalize_required_channel_state_lane_axis :: "string \<Rightarrow> string \<Rightarrow> bool \<Rightarrow> io_error + string" where
  "normalize_required_channel_state_lane_axis v axis lowercase =
     (let trimmed = trim v;
          normalized = (if lowercase then to_ascii_lowercase trimmed else trimmed)
      in if trimmed = []
         then Inl (invalid_input (''channel-state v2 lane requires a non-empty '' @ axis))
         else if has_control trimmed
         then Inl (invalid_input (''channel-state v2 lane '' @ axis @ '' cannot contain control characters''))
         else if MAX_CHANNEL_STATE_LANE_AXIS_BYTES < length normalized
         then Inl (invalid_input (''channel-state v2 lane '' @ axis @ '' exceeds '' @ show_nat MAX_CHANNEL_STATE_LANE_AXIS_BYTES @ '' bytes''))
         else Inr normalized)"

definition normalize_channel_state_lane_account_id :: "string option \<Rightarrow> io_error + string" where
  "normalize_channel_state_lane_account_id v =
     (case v of
        Some a \<Rightarrow> if is_blank a then Inr DEFAULT_CHANNEL_STATE_ACCOUNT_ID
                  else normalize_required_channel_state_lane_axis a ''accountId'' True
      | None \<Rightarrow> Inr DEFAULT_CHANNEL_STATE_ACCOUNT_ID)"

definition channel_state_lane_new :: "string \<Rightarrow> string option \<Rightarrow> string \<Rightarrow> string \<Rightarrow> string
    \<Rightarrow> io_error + ChannelStateLane" where
  "channel_state_lane_new platform account_id channel_id user_id agent_id =
     (case normalize_required_channel_state_lane_axis platform ''platform'' True of Inl e \<Rightarrow> Inl e | Inr p \<Rightarrow>
     (case normalize_channel_state_lane_account_id account_id of Inl e \<Rightarrow> Inl e | Inr a \<Rightarrow>
     (case normalize_required_channel_state_lane_axis channel_id ''channelId'' False of Inl e \<Rightarrow> Inl e | Inr c \<Rightarrow>
     (case normalize_required_channel_state_lane_axis user_id ''userId'' False of Inl e \<Rightarrow> Inl e | Inr u \<Rightarrow>
     (case normalize_required_channel_state_lane_axis agent_id ''agentId'' False of Inl e \<Rightarrow> Inl e | Inr g \<Rightarrow>
        Inr \<lparr>sl_platform = p, sl_account_id = a, sl_channel_id = c, sl_user_id = u, sl_agent_id = g\<rparr>)))))"

definition channel_state_lane_storage_key :: "continuation_lib \<Rightarrow> ChannelStateLane \<Rightarrow> string" where
  "channel_state_lane_storage_key lib l = identity_digest lib
     [''channel-state-lane-v2'', sl_platform l, sl_account_id l, sl_channel_id l, sl_user_id l, sl_agent_id l]"

definition derive_virtual_session_id_v2 :: "continuation_lib \<Rightarrow> ChannelStateLane \<Rightarrow> string \<Rightarrow> string" where
  "derive_virtual_session_id_v2 lib l root_session_key = ''vsession-v2-'' @ identity_digest lib
     [''virtual-session-v2'', channel_state_lane_storage_key lib l, root_session_key]"

section \<open>The runtime queue\<close>

definition str_field :: "Value \<Rightarrow> string \<Rightarrow> string option" where
  "str_field v name = Option.bind (value_get name v) as_str"

definition nonempty_field :: "Value \<Rightarrow> string \<Rightarrow> string option" where
  "nonempty_field v name = (case str_field v name of Some s \<Rightarrow> if s = [] then None else Some s | None \<Rightarrow> None)"

definition pending_values :: "continuation_lib \<Rightarrow> string \<Rightarrow> Value list" where
  "pending_values lib t = List.map_filter (js_dec (nl_json lib)) (text_lines t)"

definition pending_lane_axes :: "Value \<Rightarrow> string list option" where
  "pending_lane_axes v = those (map (nonempty_field v)
     [''platform'', ''accountId'', ''channelId'', ''userId'', ''agentId'', ''runtimeClass'', ''sessionKey''])"

definition pending_lane_axes_match :: "string list \<Rightarrow> string list \<Rightarrow> bool" where
  "pending_lane_axes_match left right \<longleftrightarrow> list_all (\<lambda>(l, r). trim l = trim r) (zip left right)"

definition full_lane_digest :: "continuation_lib \<Rightarrow> string \<Rightarrow> string \<Rightarrow> string \<Rightarrow> string \<Rightarrow> string \<Rightarrow> string
    \<Rightarrow> string \<Rightarrow> FullLaneKeyError + string" where
  "full_lane_digest lib platform account_id channel_id user_id agent_id runtime_class session_key =
     (case lane_new (\<lambda>axis. case axis of
          Platform \<Rightarrow> platform | AccountId \<Rightarrow> account_id | ChannelId \<Rightarrow> channel_id | UserId \<Rightarrow> user_id
        | AgentId \<Rightarrow> agent_id | RuntimeClass \<Rightarrow> runtime_class
        | RootVirtualSession \<Rightarrow> root_working_session_key session_key | ConcreteSession \<Rightarrow> session_key) of
        Inl e \<Rightarrow> Inl e
      | Inr lane \<Rightarrow> identity_hash (kl_sha256 (nl_task lib)) lane)"

definition pending_exact_lane_digest :: "continuation_lib \<Rightarrow> Value \<Rightarrow> io_error + string option" where
  "pending_exact_lane_digest lib v =
     (case pending_lane_axes v of
        Some [platform, account_id, channel_id, user_id, agent_id, runtime_class, session_key] \<Rightarrow>
          (case full_lane_digest lib platform account_id channel_id user_id agent_id runtime_class session_key of
             Inl e \<Rightarrow> Inl (IoError OtherIo (lane_error_display e))
           | Inr digest \<Rightarrow> Inr (Some digest))
      | _ \<Rightarrow> Inr None)"

text \<open>Whether a row of the queue is a message of a user and not a continuation.\<close>

definition non_continuation_human :: "Value \<Rightarrow> bool" where
  "non_continuation_human v \<longleftrightarrow> str_field v ''origin'' = Some ''channel''
     \<and> (case str_field v ''continuationIntentKey'' of None \<Rightarrow> True | Some k \<Rightarrow> k = [])"

fun count_generations :: "continuation_lib \<Rightarrow> string \<Rightarrow> string list \<Rightarrow> string \<Rightarrow> u64 \<Rightarrow> u64 option \<Rightarrow> Value list
    \<Rightarrow> io_error + u64 \<times> u64 option" where
  "count_generations lib parent_queue_id parent_axes exact_lane_digest current parent [] = Inr (current, parent)"
| "count_generations lib parent_queue_id parent_axes exact_lane_digest current parent (v # vs) =
     (case pending_lane_axes v of
        None \<Rightarrow> count_generations lib parent_queue_id parent_axes exact_lane_digest current parent vs
      | Some own_axes \<Rightarrow>
          if \<not> pending_lane_axes_match own_axes parent_axes
          then count_generations lib parent_queue_id parent_axes exact_lane_digest current parent vs
          else (case pending_exact_lane_digest lib v of
             Inl e \<Rightarrow> Inl e
           | Inr digest \<Rightarrow>
               if digest \<noteq> Some exact_lane_digest
               then count_generations lib parent_queue_id parent_axes exact_lane_digest current parent vs
               else let current' = (if non_continuation_human v then sat_add current 1 else current)
                    in count_generations lib parent_queue_id parent_axes exact_lane_digest current'
                         (if str_field v ''queueId'' = Some parent_queue_id then Some current' else parent) vs))"

text \<open>The generation of the user's messages in the lane at the parent, and now.\<close>

definition human_input_generation_at_parent :: "continuation_lib \<Rightarrow> continuation_home \<Rightarrow> string \<Rightarrow> string
    \<Rightarrow> io_error + u64 \<times> u64" where
  "human_input_generation_at_parent lib h parent_queue_id exact_lane_digest =
     (case nh_pending h of
        None \<Rightarrow> Inl (IoError NotFound ''pending.jsonl'')
      | Some t \<Rightarrow>
     let values = pending_values lib t in
     (case find (\<lambda>v. str_field v ''queueId'' = Some parent_queue_id) values of
        None \<Rightarrow> Inl (IoError NotFound ''continuation parent has no exact-lane human-input generation'')
      | Some parent \<Rightarrow>
     (case pending_lane_axes parent of
        None \<Rightarrow> Inl (invalid_data ''continuation parent has incomplete exact-lane axes'')
      | Some parent_axes \<Rightarrow>
     (case pending_exact_lane_digest lib parent of
        Inl e \<Rightarrow> Inl e
      | Inr None \<Rightarrow> Inl (invalid_data ''continuation parent has no valid exact-lane digest'')
      | Inr (Some digest) \<Rightarrow>
          if digest \<noteq> exact_lane_digest
          then Inl (invalid_data ''continuation parent exact-lane digest does not match its committed authority'')
          else (case count_generations lib parent_queue_id parent_axes exact_lane_digest 0 None values of
             Inl e \<Rightarrow> Inl e
           | Inr (current, Some g) \<Rightarrow> Inr (g, current)
           | Inr (_, None) \<Rightarrow>
               Inl (IoError NotFound ''continuation parent has no exact-lane human-input generation''))))))"

text \<open>The child that the queue already has for an intent.\<close>

fun child_among :: "string \<Rightarrow> string option \<Rightarrow> Value list \<Rightarrow> io_error + string option" where
  "child_among intent_key found [] = Inr found"
| "child_among intent_key found (v # vs) =
     (if str_field v ''continuationIntentKey'' \<noteq> Some intent_key then child_among intent_key found vs
      else case str_field v ''queueId'' of
        None \<Rightarrow> Inl (invalid_data ''goal child has no queueId'')
      | Some q \<Rightarrow>
          if found \<noteq> None \<and> found \<noteq> Some q
          then Inl (invalid_data ''one continuation intent owns more than one logical child'')
          else child_among intent_key (Some q) vs)"

definition find_child_queue_for_intent :: "continuation_lib \<Rightarrow> continuation_home \<Rightarrow> string
    \<Rightarrow> io_error + string option" where
  "find_child_queue_for_intent lib h intent_key =
     (case nh_pending h of None \<Rightarrow> Inr None | Some t \<Rightarrow> child_among intent_key None (pending_values lib t))"

section \<open>Reconstruction of the fields a first version did not have\<close>

definition intent_goal_status_active :: "string \<Rightarrow> bool" where
  "intent_goal_status_active status \<longleftrightarrow>
     filter (\<lambda>c. c \<notin> set ''-_ '') (to_ascii_lowercase (trim status))
       \<in> set [''active'', ''running'', ''inprogress'']"

definition current_relation :: "GoalTransitionRelation \<Rightarrow> bool" where
  "current_relation r \<longleftrightarrow> r = CurrentGoalSlice \<or> r = AuthorizedCampaignContinuation"

definition intent_open :: "GoalContinuationIntentV1 \<Rightarrow> bool" where
  "intent_open i \<longleftrightarrow> ni_status i = IntentCommitted \<or> ni_status i = IntentEnqueued"

fun from_state_error :: "io_error \<Rightarrow> IntentRevalidationFailure" where
  "from_state_error (IoError k m) =
     (if k \<in> {NotFound, InvalidData, InvalidInput} then FailVisible m else RetryLater (IoError k m))"

fun from_policy_state_error :: "io_error \<Rightarrow> IntentRevalidationFailure" where
  "from_policy_state_error (IoError k m) =
     (if k \<in> {NotFound, InvalidData, InvalidInput} then PolicyBlocked m else RetryLater (IoError k m))"

definition legacy_intent_missing_additive_fields :: "GoalContinuationIntentV1 \<Rightarrow> bool" where
  "legacy_intent_missing_additive_fields i \<longleftrightarrow> ni_human_input_generation i = None
     \<or> (ni_schema i = GOAL_CONTINUATION_INTENT_SCHEMA
         \<and> (ni_goal_relation_at_commit i = None \<or> ni_goal_status_at_commit i = None))"

definition exact_transition_proof :: "GoalContinuationIntentV1 \<Rightarrow> GoalTransitionReceiptV1 \<Rightarrow> bool" where
  "exact_transition_proof i r \<longleftrightarrow>
     gr_lineage_id r = Some (ni_lineage_id i)
     \<and> gr_campaign_family_id r = Some (ni_campaign_family_id i)
     \<and> gr_lane_digest r = Some (ni_lane_digest i)
     \<and> gr_virtual_session_id r = Some (ni_virtual_session_id i)
     \<and> gr_backend_context_generation r = Some (ni_backend_context_generation i)
     \<and> gr_goal_checksum r = Some (ni_goal_checksum i)
     \<and> gr_source_slice_generation r = ni_source_slice_generation i
     \<and> gr_decision_generation r = ni_decision_generation i
     \<and> ni_campaign_slice_generation i = sat_add (gr_source_slice_generation r) 1
     \<and> gr_decision r = ni_decision i
     \<and> gr_schedule_continuation r
     \<and> gr_authority r = AuthorityReady
     \<and> current_relation (gr_relation r)
     \<and> (case gr_goal_status r of Some s \<Rightarrow> intent_goal_status_active s | None \<Rightarrow> False)
     \<and> gr_observed_at_ms r \<le> ni_observed_at_ms i"

definition parent_transition :: "continuation_lib \<Rightarrow> Value \<Rightarrow> GoalTransitionReceiptV1 option" where
  "parent_transition lib v =
     (case nl_transition_from_value lib v of
        Some r \<Rightarrow> if gr_schema r = GOAL_TRANSITION_SCHEMA then Some r else None
      | None \<Rightarrow> None)"

definition exact_legacy_goal_transition_proof :: "continuation_lib \<Rightarrow> continuation_home \<Rightarrow> GoalContinuationIntentV1
    \<Rightarrow> IntentRevalidationFailure + GoalTransitionReceiptV1" where
  "exact_legacy_goal_transition_proof lib h i =
     (case nh_transitions h of
        None \<Rightarrow> Inl (FailVisible ''legacy goal intent has no pre-existing transition receipt'')
      | Some t \<Rightarrow>
          let rows = filter (\<lambda>v. str_field v ''queueId'' = Some (ni_parent_queue_id i))
                (List.map_filter (js_dec (nl_json lib)) (jsonl_lines t));
              corrupt = length (filter (\<lambda>v. parent_transition lib v = None) rows)
          in if 0 < corrupt
             then Inl (FailVisible (''legacy goal intent transition proof is ambiguous because '' @ show_nat corrupt
               @ '' parent-bound record(s) are corrupt''))
             else (case filter (exact_transition_proof i) (List.map_filter (parent_transition lib) rows) of
                [] \<Rightarrow> Inl (FailVisible ''legacy goal intent has no exact matching active scheduled transition proof'')
              | [r] \<Rightarrow> Inr r
              | rs \<Rightarrow> Inl (FailVisible (''legacy goal intent has '' @ show_nat (length rs)
                  @ '' exact transition proofs; reconstruction is ambiguous''))))"

definition upgrade_generation :: "continuation_lib \<Rightarrow> continuation_home \<Rightarrow> GoalContinuationIntentV1
    \<Rightarrow> IntentRevalidationFailure + GoalContinuationIntentV1" where
  "upgrade_generation lib h i =
     (if ni_human_input_generation i \<noteq> None then Inr i
      else case human_input_generation_at_parent lib h (ni_parent_queue_id i) (ni_lane_digest i) of
        Inl e \<Rightarrow> Inl (from_state_error e)
      | Inr (parent, _) \<Rightarrow> Inr (i\<lparr>ni_human_input_generation := Some parent\<rparr>))"

definition upgrade_goal_fields :: "continuation_lib \<Rightarrow> continuation_home \<Rightarrow> GoalContinuationIntentV1
    \<Rightarrow> IntentRevalidationFailure + GoalContinuationIntentV1" where
  "upgrade_goal_fields lib h i =
     (if ni_schema i = GOAL_CONTINUATION_INTENT_SCHEMA
         \<and> (ni_goal_relation_at_commit i = None \<or> ni_goal_status_at_commit i = None)
      then (case exact_legacy_goal_transition_proof lib h i of
          Inl f \<Rightarrow> Inl f
        | Inr r \<Rightarrow>
            if ni_goal_relation_at_commit i \<noteq> None \<and> ni_goal_relation_at_commit i \<noteq> Some (gr_relation r)
            then Inl (FailVisible ''legacy goal intent relation conflicts with its exact transition proof'')
            else if ni_goal_status_at_commit i \<noteq> None \<and> gr_goal_status r \<noteq> ni_goal_status_at_commit i
            then Inl (FailVisible ''legacy goal intent status conflicts with its exact transition proof'')
            else Inr (i\<lparr>ni_goal_relation_at_commit := Some (gr_relation r),
                        ni_goal_status_at_commit := gr_goal_status r\<rparr>))
      else Inr i)"

definition upgrade_open_legacy_intent :: "continuation_lib \<Rightarrow> continuation_home \<Rightarrow> GoalContinuationIntentV1
    \<Rightarrow> IntentRevalidationFailure + GoalContinuationIntentV1 \<times> bool" where
  "upgrade_open_legacy_intent lib h i =
     (if \<not> intent_open i \<or> \<not> legacy_intent_missing_additive_fields i then Inr (i, False)
      else case upgrade_generation lib h i of
        Inl f \<Rightarrow> Inl f
      | Inr i' \<Rightarrow> (case upgrade_goal_fields lib h i' of Inl f \<Rightarrow> Inl f | Inr i'' \<Rightarrow> Inr (i'', True)))"

section \<open>The ledger of intents\<close>

definition legacy_additive_field_compatible :: "'a option \<Rightarrow> 'a option \<Rightarrow> bool" where
  "legacy_additive_field_compatible existing candidate \<longleftrightarrow> existing = None \<or> existing = candidate"

definition same_intent :: "GoalContinuationIntentV1 \<Rightarrow> GoalContinuationIntentV1 \<Rightarrow> bool" where
  "same_intent a b \<longleftrightarrow>
     ni_schema a = ni_schema b
     \<and> ni_intent_key a = ni_intent_key b
     \<and> ni_parent_queue_id a = ni_parent_queue_id b
     \<and> ni_working_session_key a = ni_working_session_key b
     \<and> ni_lane_digest a = ni_lane_digest b
     \<and> ni_virtual_session_id a = ni_virtual_session_id b
     \<and> ni_lineage_id a = ni_lineage_id b
     \<and> ni_goal_checksum a = ni_goal_checksum b
     \<and> ni_campaign_family_id a = ni_campaign_family_id b
     \<and> ni_backend_context_generation a = ni_backend_context_generation b
     \<and> ni_source_slice_generation a = ni_source_slice_generation b
     \<and> ni_decision_generation a = ni_decision_generation b
     \<and> ni_campaign_slice_generation a = ni_campaign_slice_generation b
     \<and> ni_recovery_continuation_index a = ni_recovery_continuation_index b
     \<and> legacy_additive_field_compatible (ni_human_input_generation a) (ni_human_input_generation b)
     \<and> legacy_additive_field_compatible (ni_goal_relation_at_commit a) (ni_goal_relation_at_commit b)
     \<and> legacy_additive_field_compatible (ni_goal_status_at_commit a) (ni_goal_status_at_commit b)
     \<and> ni_authority_kind a = ni_authority_kind b
     \<and> ni_authority_id a = ni_authority_id b
     \<and> ni_authority_version a = ni_authority_version b
     \<and> ni_authority_checksum a = ni_authority_checksum b
     \<and> ni_checkpoint_digest a = ni_checkpoint_digest b
     \<and> ni_active_item_id a = ni_active_item_id b
     \<and> ni_active_item_version a = ni_active_item_version b
     \<and> ni_disposition_recovery_depth a = ni_disposition_recovery_depth b
     \<and> ni_shell_recovery_depth a = ni_shell_recovery_depth b"

definition ensure_same_intent :: "GoalContinuationIntentV1 \<Rightarrow> GoalContinuationIntentV1 \<Rightarrow> io_error + unit" where
  "ensure_same_intent existing candidate =
     (if same_intent existing candidate then Inr ()
      else Inl (invalid_data ''deterministic goal continuation key collided with different immutable authority''))"

definition same_additive_fields :: "GoalContinuationIntentV1 \<Rightarrow> GoalContinuationIntentV1 \<Rightarrow> bool" where
  "same_additive_fields a b \<longleftrightarrow> ni_human_input_generation a = ni_human_input_generation b
     \<and> ni_goal_relation_at_commit a = ni_goal_relation_at_commit b
     \<and> ni_goal_status_at_commit a = ni_goal_status_at_commit b"

fun transition_failure_text :: "IntentRevalidationFailure \<Rightarrow> string" where
  "transition_failure_text (RetryLater e) =
     ''continuation additive-field transition proof could not be read: '' @ io_error_text e"
| "transition_failure_text (SupersededByHuman r) =
     ''continuation additive-field transition has no exact recovery proof: '' @ r"
| "transition_failure_text (PolicyBlocked r) =
     ''continuation additive-field transition has no exact recovery proof: '' @ r"
| "transition_failure_text (FailVisible r) =
     ''continuation additive-field transition has no exact recovery proof: '' @ r"

definition ensure_authorized_intent_ledger_transition :: "continuation_lib \<Rightarrow> continuation_home
    \<Rightarrow> GoalContinuationIntentV1 \<Rightarrow> GoalContinuationIntentV1 \<Rightarrow> io_error + unit" where
  "ensure_authorized_intent_ledger_transition lib h existing candidate =
     (case ensure_same_intent existing candidate of
        Inl e \<Rightarrow> Inl e
      | Inr _ \<Rightarrow>
          if same_additive_fields existing candidate then Inr ()
          else (case upgrade_open_legacy_intent lib h existing of
             Inl f \<Rightarrow> Inl (invalid_data (transition_failure_text f))
           | Inr (recovered, changed) \<Rightarrow>
               if \<not> changed \<or> \<not> same_additive_fields recovered candidate
               then Inl (invalid_data ''continuation additive fields do not equal exact reconstructed legacy values'')
               else Inr ()))"

definition valid_intent_status_transition :: "GoalContinuationIntentStatus \<Rightarrow> GoalContinuationIntentStatus \<Rightarrow> bool" where
  "valid_intent_status_transition previous next' \<longleftrightarrow> previous = next'
     \<or> (previous, next') \<in> {(IntentCommitted, IntentEnqueued), (IntentEnqueued, IntentAcknowledged)}"

definition intent_fields_named :: "GoalContinuationIntentV1 \<Rightarrow> (string \<times> string) list" where
  "intent_fields_named i =
     [(''intentKey'', ni_intent_key i), (''parentQueueId'', ni_parent_queue_id i),
      (''workingSessionKey'', ni_working_session_key i), (''laneDigest'', ni_lane_digest i),
      (''virtualSessionId'', ni_virtual_session_id i), (''lineageId'', ni_lineage_id i),
      (''goalChecksum'', ni_goal_checksum i), (''campaignFamilyId'', ni_campaign_family_id i),
      (''backendContextGeneration'', ni_backend_context_generation i)]"

definition validate_intent_ledger_receipt :: "GoalContinuationIntentV1 \<Rightarrow> string + unit" where
  "validate_intent_ledger_receipt i =
     (case find (\<lambda>(name, v). is_blank v) (intent_fields_named i) of
        Some (name, v) \<Rightarrow> Inl (''continuation intent has no '' @ name)
      | None \<Rightarrow>
          if ni_status i = IntentCommitted
          then (if ni_child_queue_id i \<noteq> None
                then Inl ''committed continuation intent already names a child queue'' else Inr ())
          else (if ni_child_queue_id i = None \<or> ni_child_queue_id i = Some []
                then Inl ''enqueued or acknowledged continuation intent has no child queue'' else Inr ()))"

text \<open>The key of a line that does not parse: the JSON string after the first \<open>intentKey\<close>.\<close>

definition dquote :: char where
  "dquote = CHR 0x22"

fun closing_quote :: "bool \<Rightarrow> nat \<Rightarrow> string \<Rightarrow> nat option" where
  "closing_quote escaped offset [] = None"
| "closing_quote escaped offset (c # cs) =
     (if escaped then closing_quote False (offset + 1) cs
      else if c = CHR 0x5C then closing_quote True (offset + 1) cs
      else if c = dquote then Some offset
      else closing_quote False (offset + 1) cs)"

definition recover_intent_key_from_malformed_line :: "continuation_lib \<Rightarrow> string \<Rightarrow> string option" where
  "recover_intent_key_from_malformed_line lib line =
     (let marker = dquote # ''intentKey'' @ [dquote] in
      case str_find line marker of
        None \<Rightarrow> None
      | Some at \<Rightarrow>
     (case strip_prefix (trim_start (drop (at + length marker) line)) '':'' of
        None \<Rightarrow> None
      | Some rest \<Rightarrow>
          let tail = trim_start rest in
          if \<not> starts_with tail [dquote] then None
          else (case closing_quote False 0 (drop 1 tail) of
             None \<Rightarrow> None
           | Some offset \<Rightarrow>
               (case nl_string_from_str lib (take (offset + 2) tail) of
                  Some k \<Rightarrow> if is_blank k then None else Some k
                | None \<Rightarrow> None))))"

text \<open>One row that names the key, after the rows before it: why it is corrupt, or the intent.\<close>

definition read_intent_row :: "continuation_lib \<Rightarrow> continuation_home \<Rightarrow> nat \<Rightarrow> GoalContinuationIntentV1 option \<Rightarrow> Value
    \<Rightarrow> string + GoalContinuationIntentV1" where
  "read_intent_row lib h line_number latest v =
     (case nl_intent_from_value lib v of
        None \<Rightarrow> Inl (''invalid target continuation intent at line '' @ show_nat line_number)
      | Some i \<Rightarrow>
          if ni_schema i \<noteq> GOAL_CONTINUATION_INTENT_SCHEMA \<and> ni_schema i \<noteq> TASK_CONTINUATION_INTENT_SCHEMA
          then Inl (''target continuation intent has unsupported schema at line '' @ show_nat line_number)
          else (case validate_intent_ledger_receipt i of
             Inl reason \<Rightarrow> Inl (''invalid target continuation intent at line '' @ show_nat line_number @ '': '' @ reason)
           | Inr _ \<Rightarrow>
          (case latest of
             None \<Rightarrow> Inr i
           | Some existing \<Rightarrow>
               (case ensure_authorized_intent_ledger_transition lib h existing i of
                  Inl e \<Rightarrow> Inl (''invalid target continuation identity transition at line '' @ show_nat line_number
                    @ '': '' @ io_error_text e)
                | Inr _ \<Rightarrow>
                    if \<not> valid_intent_status_transition (ni_status existing) (ni_status i)
                    then Inl (''invalid target continuation status transition at line '' @ show_nat line_number)
                    else Inr i))))"

definition read_intent_line :: "continuation_lib \<Rightarrow> continuation_home \<Rightarrow> string \<Rightarrow> nat \<Rightarrow> string
    \<Rightarrow> RecoverableIntentRead \<Rightarrow> RecoverableIntentRead" where
  "read_intent_line lib h intent_key line_number line r =
     (if is_blank line then r
      else case js_dec (nl_json lib) line of
        None \<Rightarrow>
          if recover_intent_key_from_malformed_line lib line = Some intent_key \<and> ri_corruption r = None
          then r\<lparr>ri_corruption := Some (''target continuation intent has malformed JSON at line '' @ show_nat line_number)\<rparr>
          else r
      | Some v \<Rightarrow>
          if str_field v ''intentKey'' \<noteq> Some intent_key \<or> ri_corruption r \<noteq> None then r
          else (case read_intent_row lib h line_number (ri_latest r) v of
             Inl reason \<Rightarrow> r\<lparr>ri_corruption := Some reason\<rparr>
           | Inr i \<Rightarrow> r\<lparr>ri_latest := Some i\<rparr>))"

fun read_intent_lines :: "continuation_lib \<Rightarrow> continuation_home \<Rightarrow> string \<Rightarrow> nat \<Rightarrow> string list
    \<Rightarrow> RecoverableIntentRead \<Rightarrow> RecoverableIntentRead" where
  "read_intent_lines lib h intent_key index [] r = r"
| "read_intent_lines lib h intent_key index (line # lines) r =
     read_intent_lines lib h intent_key (index + 1) lines (read_intent_line lib h intent_key (index + 1) line r)"

definition latest_recoverable_intent_for_key :: "continuation_lib \<Rightarrow> continuation_home \<Rightarrow> string
    \<Rightarrow> RecoverableIntentRead" where
  "latest_recoverable_intent_for_key lib h intent_key =
     read_intent_lines lib h intent_key 0 (text_lines (nh_intents h)) \<lparr>ri_latest = None, ri_corruption = None\<rparr>"

definition latest_intent_for_key :: "continuation_lib \<Rightarrow> continuation_home \<Rightarrow> string
    \<Rightarrow> io_error + GoalContinuationIntentV1 option" where
  "latest_intent_for_key lib h intent_key =
     (let r = latest_recoverable_intent_for_key lib h intent_key in
      case ri_corruption r of Some reason \<Rightarrow> Inl (invalid_data reason) | None \<Rightarrow> Inr (ri_latest r))"

section \<open>Fences\<close>

definition fence_ok :: "GoalContinuationFenceV1 \<Rightarrow> bool" where
  "fence_ok f \<longleftrightarrow> nf_schema f = GOAL_CONTINUATION_FENCE_SCHEMA \<and> nf_disposition f = ''fenced''
     \<and> \<not> is_blank (nf_intent_key f)"

fun read_fence_lines :: "continuation_lib \<Rightarrow> string \<Rightarrow> nat \<Rightarrow> string list \<Rightarrow> GoalContinuationFenceV1 option
    \<Rightarrow> io_error + GoalContinuationFenceV1 option" where
  "read_fence_lines lib intent_key index [] latest = Inr latest"
| "read_fence_lines lib intent_key index (line # lines) latest =
     (if is_blank line then read_fence_lines lib intent_key (index + 1) lines latest
      else case js_dec (nl_json lib) line of
        None \<Rightarrow>
          if contains line intent_key
          then Inl (invalid_data (''target continuation fence has malformed JSON at line '' @ show_nat (index + 1)))
          else read_fence_lines lib intent_key (index + 1) lines latest
      | Some v \<Rightarrow>
          if str_field v ''intentKey'' \<noteq> Some intent_key
          then read_fence_lines lib intent_key (index + 1) lines latest
          else (case nl_fence_from_value lib v of
             None \<Rightarrow> Inl (invalid_data (''invalid target continuation fence at line '' @ show_nat (index + 1)))
           | Some f \<Rightarrow>
               if \<not> fence_ok f
               then Inl (invalid_data (''invalid target continuation fence at line '' @ show_nat (index + 1)))
               else read_fence_lines lib intent_key (index + 1) lines (Some f)))"

definition latest_goal_continuation_fence :: "continuation_lib \<Rightarrow> continuation_home \<Rightarrow> string
    \<Rightarrow> io_error + GoalContinuationFenceV1 option" where
  "latest_goal_continuation_fence lib h intent_key =
     read_fence_lines lib intent_key 0 (text_lines (nh_fences h)) None"

definition is_goal_continuation_intent_fenced :: "continuation_lib \<Rightarrow> continuation_home \<Rightarrow> string \<Rightarrow> io_error + bool" where
  "is_goal_continuation_intent_fenced lib h intent_key =
     (case latest_goal_continuation_fence lib h intent_key of Inl e \<Rightarrow> Inl e | Inr f \<Rightarrow> Inr (f \<noteq> None))"

definition continuation_fence :: "continuation_lib \<Rightarrow> GoalContinuationIntentV1 \<Rightarrow> string option \<Rightarrow> string \<Rightarrow> int
    \<Rightarrow> GoalContinuationFenceV1" where
  "continuation_fence lib i child reason now_ms =
     \<lparr>nf_schema = GOAL_CONTINUATION_FENCE_SCHEMA,
      nf_fence_key = identity_digest lib [''goal-continuation-fence-v1'', ni_intent_key i, ni_parent_queue_id i,
        ni_lane_digest i, ni_virtual_session_id i],
      nf_intent_key = ni_intent_key i, nf_parent_queue_id = ni_parent_queue_id i, nf_child_queue_id = child,
      nf_lane_digest = ni_lane_digest i, nf_virtual_session_id = ni_virtual_session_id i,
      nf_disposition = ''fenced'', nf_reason = reason, nf_observed_at_ms = now_ms\<rparr>"

definition append_goal_continuation_fence_once :: "continuation_lib \<Rightarrow> GoalContinuationIntentV1 \<Rightarrow> string option
    \<Rightarrow> string \<Rightarrow> int \<Rightarrow> continuation_home \<Rightarrow> continuation_home \<times> (io_error + GoalContinuationFenceV1)" where
  "append_goal_continuation_fence_once lib i child reason now_ms h =
     (case latest_goal_continuation_fence lib h (ni_intent_key i) of
        Inl e \<Rightarrow> (h, Inl e)
      | Inr (Some existing) \<Rightarrow> (h, Inr existing)
      | Inr None \<Rightarrow>
          let f = continuation_fence lib i child reason now_ms
          in (h\<lparr>nh_fences := append_jsonl_value (js_enc (nl_json lib)) (nl_fence_to_value lib f) (nh_fences h)\<rparr>, Inr f))"

section \<open>Autonomy\<close>

definition autonomy_mode :: "Value \<Rightarrow> io_error + GoalAutonomyMode" where
  "autonomy_mode goal =
     (case str_field goal ''mode'' of
        None \<Rightarrow> Inr AutonomyObserve
      | Some m \<Rightarrow>
          if m = ''disabled'' then Inr AutonomyDisabled
          else if m = ''active'' then Inr AutonomyActive
          else if m = ''observe'' then Inr AutonomyObserve
          else Inl (invalid_data (''unsupported goalAutonomy.mode `'' @ m @ ''`'')))"

definition autonomy_lanes :: "Value \<Rightarrow> string list" where
  "autonomy_lanes goal =
     (case Option.bind (value_get ''activeLaneDigests'' goal) as_array of
        Some vs \<Rightarrow> List.map_filter as_str vs | None \<Rightarrow> [])"

text \<open>The configured mode and lanes; \<open>None\<close> when the configuration has no section for goals.\<close>

definition autonomy_settings :: "continuation_lib \<Rightarrow> continuation_home
    \<Rightarrow> io_error + (GoalAutonomyMode \<times> string list) option" where
  "autonomy_settings lib h =
     (case find (\<lambda>c. c \<noteq> None) (nh_config h) of
        Some (Some t) \<Rightarrow>
          (case js_dec (nl_json lib) t of
             None \<Rightarrow> Inl (invalid_data ''invalid harness config'')
           | Some v \<Rightarrow>
               (case value_get ''goalAutonomy'' v of
                  None \<Rightarrow> Inr None
                | Some goal \<Rightarrow>
                    (case autonomy_mode goal of Inl e \<Rightarrow> Inl e | Inr m \<Rightarrow> Inr (Some (m, autonomy_lanes goal)))))
      | _ \<Rightarrow> Inr None)"

definition load_goal_autonomy_activation_for_exact_goal :: "continuation_lib \<Rightarrow> continuation_home \<Rightarrow> string option
    \<Rightarrow> bool \<Rightarrow> io_error + GoalAutonomyActivation" where
  "load_goal_autonomy_activation_for_exact_goal lib h lane_digest exact_current_authority =
     (case autonomy_settings lib h of
        Inl e \<Rightarrow> Inl e
      | Inr settings \<Rightarrow>
          if settings = None \<and> exact_current_authority \<and> lane_digest \<noteq> None
          then Inr \<lparr>ga_mode = AutonomyActive, ga_configured_mode = AutonomyActive, ga_lane_allowed = True,
            ga_activation_reason = ''goal autonomy is implicitly active for an exact current-owned authorized goal''\<rparr>
          else
            let (configured, lanes) = (case settings of Some s \<Rightarrow> s | None \<Rightarrow> (AutonomyObserve, []));
                allowed = (case lane_digest of Some d \<Rightarrow> d \<in> set lanes | None \<Rightarrow> False);
                (mode, reason) = (case configured of
                   AutonomyDisabled \<Rightarrow> (AutonomyDisabled, ''goal autonomy is explicitly disabled'')
                 | AutonomyObserve \<Rightarrow> (AutonomyObserve, ''goal autonomy defaults to observation-only behavior'')
                 | AutonomyActive \<Rightarrow>
                     if allowed
                     then (AutonomyActive, ''goal autonomy is active for the exact configured lane digest'')
                     else (AutonomyObserve,
                       ''goal autonomy requested active mode but the exact lane is not in activeLaneDigests''))
            in Inr \<lparr>ga_mode = mode, ga_configured_mode = configured, ga_lane_allowed = allowed,
                 ga_activation_reason = reason\<rparr>)"

section \<open>Revalidation of the authority of a goal\<close>

definition goal_intent_has_exact_current_authority :: "GoalContinuationIntentV1 \<Rightarrow> bool" where
  "goal_intent_has_exact_current_authority i \<longleftrightarrow>
     ni_schema i = GOAL_CONTINUATION_INTENT_SCHEMA
     \<and> ni_authority_kind i = Some GoalAuthority
     \<and> ni_authority_id i = Some (ni_lineage_id i)
     \<and> ni_authority_checksum i = Some (ni_goal_checksum i)
     \<and> (case ni_goal_relation_at_commit i of Some r \<Rightarrow> current_relation r | None \<Rightarrow> False)
     \<and> (case ni_goal_status_at_commit i of Some s \<Rightarrow> intent_goal_status_active s | None \<Rightarrow> False)"

definition exact_lineage :: "GoalContinuationIntentV1 \<Rightarrow> GoalLineageV1 \<Rightarrow> bool" where
  "exact_lineage i l \<longleftrightarrow>
     gl_campaign_family_id l = ni_campaign_family_id i
     \<and> gl_goal_checksum l = ni_goal_checksum i
     \<and> gl_source_session_key l = ni_working_session_key i
     \<and> gl_lane_digest l = Some (ni_lane_digest i)
     \<and> gl_virtual_session_id l = Some (ni_virtual_session_id i)
     \<and> gl_backend_context_generation l = Some (ni_backend_context_generation i)"

definition exact_prior_authority :: "GoalContinuationIntentV1 \<Rightarrow> string \<Rightarrow> string \<Rightarrow> u64 \<Rightarrow> GoalContinuationIntentV1
    \<Rightarrow> bool" where
  "exact_prior_authority i child parent expected prior \<longleftrightarrow>
     ni_status prior = IntentAcknowledged
     \<and> ni_child_queue_id prior = Some child
     \<and> ni_parent_queue_id prior = parent
     \<and> ni_schema prior = GOAL_CONTINUATION_INTENT_SCHEMA
     \<and> ni_working_session_key prior = ni_working_session_key i
     \<and> ni_lane_digest prior = ni_lane_digest i
     \<and> ni_virtual_session_id prior = ni_virtual_session_id i
     \<and> ni_lineage_id prior = ni_lineage_id i
     \<and> ni_goal_checksum prior = ni_goal_checksum i
     \<and> ni_campaign_family_id prior = ni_campaign_family_id i
     \<and> ni_backend_context_generation prior = ni_backend_context_generation i
     \<and> ni_human_input_generation prior = ni_human_input_generation i
     \<and> ni_campaign_slice_generation prior = expected
     \<and> ni_campaign_slice_generation prior = sat_add (ni_source_slice_generation prior) 1
     \<and> ni_authority_version prior = Some (ni_source_slice_generation prior)
     \<and> ni_authority_id prior = ni_authority_id i
     \<and> ni_authority_checksum prior = ni_authority_checksum i
     \<and> goal_intent_has_exact_current_authority prior"

text \<open>The rows of the queue with their ids, and the intent through which a row came into the queue.\<close>

definition pending_by_queue :: "continuation_lib \<Rightarrow> string \<Rightarrow> (string \<times> Value) list" where
  "pending_by_queue lib t = List.map_filter (\<lambda>v. map_option (\<lambda>q. (q, v)) (nonempty_field v ''queueId''))
     (List.map_filter (js_dec (nl_json lib)) (jsonl_lines t))"

definition prior_intent :: "continuation_lib \<Rightarrow> continuation_home \<Rightarrow> string \<Rightarrow> Value
    \<Rightarrow> IntentRevalidationFailure + string \<times> GoalContinuationIntentV1" where
  "prior_intent lib h child row =
     (case nonempty_field row ''continuationIntentKey'' of
        None \<Rightarrow> Inl (PolicyBlocked (''goal continuation parent '' @ child @ '' has no prior intent authority''))
      | Some key \<Rightarrow>
     (case nonempty_field row ''requeuedFromQueueId'' of
        None \<Rightarrow> Inl (PolicyBlocked (''goal continuation parent '' @ child @ '' has no durable predecessor''))
      | Some parent \<Rightarrow>
          let r = latest_recoverable_intent_for_key lib h key in
          (case ri_corruption r of
             Some reason \<Rightarrow> Inl (FailVisible (''goal continuation parent chain intent '' @ key @ '' is corrupt: '' @ reason))
           | None \<Rightarrow>
          (case ri_latest r of
             None \<Rightarrow> Inl (PolicyBlocked (''goal continuation parent chain intent '' @ key @ '' is missing''))
           | Some prior \<Rightarrow> Inr (parent, prior)))))"

function descend :: "continuation_lib \<Rightarrow> continuation_home \<Rightarrow> GoalContinuationIntentV1 \<Rightarrow> (string \<times> Value) list
    \<Rightarrow> string \<Rightarrow> string list \<Rightarrow> string \<Rightarrow> u64 \<Rightarrow> IntentRevalidationFailure + bool" where
  "descend lib h i rows current visited descendant expected =
     (if descendant = current then Inr True
      else if descendant \<in> set visited
      then Inl (FailVisible ''goal continuation parent chain contains a cycle'')
      else case filter (\<lambda>(q, v). q = descendant) rows of
        [(q, row)] \<Rightarrow>
          (case prior_intent lib h descendant row of
             Inl f \<Rightarrow> Inl f
           | Inr (parent, prior) \<Rightarrow>
               if \<not> exact_prior_authority i descendant parent expected prior then Inr False
               else descend lib h i rows current (descendant # visited) (ni_parent_queue_id prior)
                      (ni_source_slice_generation prior))
      | found \<Rightarrow> Inl (FailVisible (''goal continuation parent chain has '' @ show_nat (length found)
          @ '' durable queue rows for '' @ descendant)))"
  by pat_completeness auto

text \<open>Every step marks a row of the queue that was not marked before.\<close>

termination descend
proof (relation "measure (\<lambda>(lib, h, i, rows, current, visited, descendant, expected).
    card (fst ` set rows - set visited))", goal_cases)
  case 1
  show ?case by simp
next
  case (2 lib h i rows current visited descendant expected p ps q row r parent prior)
  then have "(q, row) \<in> set (filter (\<lambda>(q, v). q = descendant) rows)" by simp
  then have "descendant \<in> fst ` set rows" by force
  with 2(2) have "fst ` set rows - set (descendant # visited) \<subset> fst ` set rows - set visited" by auto
  then show ?case by (simp add: psubset_card_mono)
qed

declare descend.simps [simp del]

definition goal_parent_descends_from_current_lineage :: "continuation_lib \<Rightarrow> continuation_home
    \<Rightarrow> GoalContinuationIntentV1 \<Rightarrow> string option \<Rightarrow> IntentRevalidationFailure + bool" where
  "goal_parent_descends_from_current_lineage lib h i lineage_queue_id =
     (case lineage_queue_id of
        None \<Rightarrow> Inr False
      | Some current \<Rightarrow>
          if current = [] then Inr False
          else if ni_parent_queue_id i = current then Inr True
          else (case nh_pending h of
             None \<Rightarrow> Inl (from_state_error (IoError NotFound ''pending.jsonl''))
           | Some t \<Rightarrow> descend lib h i (pending_by_queue lib t) current [] (ni_parent_queue_id i)
               (ni_source_slice_generation i)))"

definition closure_supersedes :: "GoalContinuationIntentV1 \<Rightarrow> GoalLineageV1 \<Rightarrow> GoalClosureIntentV1 \<Rightarrow> bool" where
  "closure_supersedes i current c \<longleftrightarrow>
     ca_lane_digest (ci_authority c) = ni_lane_digest i
     \<and> ca_concrete_session_key (ci_authority c) = ni_working_session_key i
     \<and> ca_virtual_session_id (ci_authority c) = ni_virtual_session_id i
     \<and> ca_backend_context_generation (ci_authority c) = ni_backend_context_generation i
     \<and> ci_goal_generation c = ni_lineage_id i
     \<and> ci_goal_identity c = gl_goal_reference current
     \<and> ci_expected_projection_checksum c = Some (gl_projection_checksum current)"

fun closure_breaker_lines :: "continuation_lib \<Rightarrow> GoalContinuationIntentV1 \<Rightarrow> GoalLineageV1 \<Rightarrow> nat \<Rightarrow> string list
    \<Rightarrow> IntentRevalidationFailure + bool" where
  "closure_breaker_lines lib i current index [] = Inr False"
| "closure_breaker_lines lib i current index (line # lines) =
     (if is_blank line then closure_breaker_lines lib i current (index + 1) lines
      else case decode_row (cl_json (nl_closure lib)) (cl_intent (nl_closure lib)) line of
        None \<Rightarrow> Inl (FailVisible (''goal closure intent ledger is invalid at line '' @ show_nat (index + 1)))
      | Some c \<Rightarrow>
          (case validate_intent (nl_closure lib) c of
             Inl e \<Rightarrow> Inl (FailVisible (''goal closure intent ledger failed checksum validation at line ''
               @ show_nat (index + 1) @ '': '' @ io_error_text e))
           | Inr _ \<Rightarrow>
               if closure_supersedes i current c then Inr True
               else closure_breaker_lines lib i current (index + 1) lines))"

definition exact_goal_closure_breaker :: "continuation_lib \<Rightarrow> continuation_home \<Rightarrow> GoalContinuationIntentV1
    \<Rightarrow> GoalLineageV1 \<Rightarrow> IntentRevalidationFailure + bool" where
  "exact_goal_closure_breaker lib h i current =
     closure_breaker_lines lib i current 0 (text_lines (hm_closure_intents (nh_closures h)))"

fun lineage_disposition_debug :: "GoalLineageDisposition \<Rightarrow> string" where
  "lineage_disposition_debug Runnable = ''Runnable''"
| "lineage_disposition_debug Inactive = ''Inactive''"
| "lineage_disposition_debug Superseded = ''Superseded''"
| "lineage_disposition_debug StaleGeneration = ''StaleGeneration''"
| "lineage_disposition_debug MissingAuthority = ''MissingAuthority''"
| "lineage_disposition_debug InvalidIdentity = ''InvalidIdentity''"

fun turn_relation_debug :: "GoalProjectionTurnRelationV1 \<Rightarrow> string" where
  "turn_relation_debug CurrentOwnedTurn = ''CurrentOwnedTurn''"
| "turn_relation_debug ExplicitCampaignContinuation = ''ExplicitCampaignContinuation''"
| "turn_relation_debug HistoricalThreadState = ''HistoricalThreadState''"
| "turn_relation_debug AuthoritativeGoalClosure = ''AuthoritativeGoalClosure''"
| "turn_relation_debug Uncorrelated = ''Uncorrelated''"

definition lineage_running :: "GoalLineageV1 \<Rightarrow> bool" where
  "lineage_running l \<longleftrightarrow> gl_runnable l \<and> gl_disposition l = Runnable \<and> intent_goal_status_active (gl_goal_status l)
     \<and> (gl_turn_relation l = CurrentOwnedTurn \<or> gl_turn_relation l = ExplicitCampaignContinuation)"

text \<open>The checks of a lineage within the report of the doctor, after its status.\<close>

definition revalidate_lineage :: "continuation_lib \<Rightarrow> continuation_home \<Rightarrow> GoalContinuationIntentV1
    \<Rightarrow> GoalLineageDoctorReport \<Rightarrow> GoalLineageV1 \<Rightarrow> IntentRevalidationFailure + unit" where
  "revalidate_lineage lib h i report current =
     (if \<not> exact_lineage i current
      then Inl (PolicyBlocked ''current durable Goal lineage no longer matches the committed lineage/campaign/checksum/lane/session/backend authority'')
      else case goal_parent_descends_from_current_lineage lib h i (gl_queue_id current) of
        Inl f \<Rightarrow> Inl f
      | Inr descends \<Rightarrow>
          if \<not> descends
          then Inl (PolicyBlocked ''continuation parent is not an acknowledged exact-authority descendant of the current durable Goal lineage'')
          else if \<not> lineage_running current
          then Inl (PolicyBlocked (''committed Goal lineage is no longer active and runnable: disposition=''
            @ lineage_disposition_debug (gl_disposition current) @ '' status='' @ gl_goal_status current
            @ '' relation='' @ turn_relation_debug (gl_turn_relation current)))
          else (case find (\<lambda>c. gc_campaign_family_id c = ni_campaign_family_id i) (lr_campaigns report) of
             None \<Rightarrow> Inl (PolicyBlocked ''committed Goal campaign is no longer present in current durable lineage'')
           | Some campaign \<Rightarrow>
               if gc_reconciliation_required campaign \<or> gc_runnable_lineages campaign \<noteq> 1
                  \<or> gc_canonical_lineage_id campaign \<noteq> Some (ni_lineage_id i)
               then Inl (PolicyBlocked ''committed Goal lineage is no longer the unique canonical runnable lineage in its campaign'')
               else if list_ex (\<lambda>l. gl_runnable l \<and> gl_lineage_id l \<noteq> ni_lineage_id i) (lr_lineages report)
               then Inl (PolicyBlocked ''a different canonical runnable Goal lineage now owns the exact lane/virtual session'')
               else (case exact_goal_closure_breaker lib h i current of
                  Inl f \<Rightarrow> Inl f
                | Inr closed \<Rightarrow>
                    if closed
                    then Inl (PolicyBlocked ''an exact durable Goal closure intent or receipt supersedes continuation'')
                    else Inr ())))"

definition revalidate_current_goal_authority :: "continuation_lib \<Rightarrow> continuation_home \<Rightarrow> GoalContinuationIntentV1
    \<Rightarrow> IntentRevalidationFailure + unit" where
  "revalidate_current_goal_authority lib h i =
     (let report = run_goal_lineage_doctor (nl_lineage lib) (Some (ni_lane_digest i)) (Some (ni_virtual_session_id i))
            (nh_lineage h) in
      case lr_status report of
        DoctorEmpty \<Rightarrow> Inl (PolicyBlocked ''current exact-lane Goal lineage is empty'')
      | DoctorReconciliationRequired \<Rightarrow>
          Inl (PolicyBlocked ''current exact-lane Goal lineage requires reconciliation'')
      | DoctorBlocked \<Rightarrow> Inl (FailVisible (''current exact-lane Goal lineage is blocked: ''
          @ join ''; '' (lr_blockers report @ lr_warnings report)))
      | DoctorReady \<Rightarrow>
          (case filter (\<lambda>l. gl_lineage_id l = ni_lineage_id i) (lr_lineages report) of
             [current] \<Rightarrow> revalidate_lineage lib h i report current
           | found \<Rightarrow> Inl (PolicyBlocked (''current exact-lane Goal lineage contains '' @ show_nat (length found)
               @ '' rows for committed lineage '' @ ni_lineage_id i))))"

section \<open>Revalidation of an intent\<close>

definition exact_field :: "Value \<Rightarrow> string \<Rightarrow> IntentRevalidationFailure + string" where
  "exact_field v name =
     (case nonempty_field v name of
        Some s \<Rightarrow> Inr s
      | None \<Rightarrow> Inl (FailVisible (''goal continuation parent has no exact '' @ name)))"

definition parent_channel_lane :: "Value \<Rightarrow> IntentRevalidationFailure + ChannelStateLane" where
  "parent_channel_lane v =
     (case exact_field v ''platform'' of Inl f \<Rightarrow> Inl f | Inr platform \<Rightarrow>
     (case exact_field v ''accountId'' of Inl f \<Rightarrow> Inl f | Inr account_id \<Rightarrow>
     (case exact_field v ''channelId'' of Inl f \<Rightarrow> Inl f | Inr channel_id \<Rightarrow>
     (case exact_field v ''userId'' of Inl f \<Rightarrow> Inl f | Inr user_id \<Rightarrow>
     (case exact_field v ''agentId'' of Inl f \<Rightarrow> Inl f | Inr agent_id \<Rightarrow>
     (case channel_state_lane_new platform (Some account_id) channel_id user_id agent_id of
        Inl e \<Rightarrow> Inl (from_state_error e)
      | Inr lane \<Rightarrow> Inr lane))))))"

definition parent_lane_digest :: "continuation_lib \<Rightarrow> Value \<Rightarrow> ChannelStateLane \<Rightarrow> string
    \<Rightarrow> IntentRevalidationFailure + string" where
  "parent_lane_digest lib v lane session_key =
     (case exact_field v ''runtimeClass'' of
        Inl f \<Rightarrow> Inl f
      | Inr runtime_class \<Rightarrow>
          (case full_lane_digest lib (sl_platform lane) (sl_account_id lane) (sl_channel_id lane) (sl_user_id lane)
                  (sl_agent_id lane) runtime_class session_key of
             Inl e \<Rightarrow> Inl (FailVisible (lane_error_display e))
           | Inr digest \<Rightarrow> Inr digest))"

definition check_human_generation :: "continuation_lib \<Rightarrow> continuation_home \<Rightarrow> GoalContinuationIntentV1
    \<Rightarrow> IntentRevalidationFailure + unit" where
  "check_human_generation lib h i =
     (case ni_human_input_generation i of
        None \<Rightarrow> Inl (FailVisible ''continuation intent has no durable human-input generation snapshot'')
      | Some snapshot \<Rightarrow>
          (case human_input_generation_at_parent lib h (ni_parent_queue_id i) (ni_lane_digest i) of
             Inl e \<Rightarrow> Inl (from_state_error e)
           | Inr (parent, current) \<Rightarrow>
               if parent \<noteq> snapshot
               then Inl (FailVisible (''continuation human-input generation changed at its parent: committed=''
                 @ show_u64 snapshot @ '' current='' @ show_u64 parent))
               else if snapshot < current
               then Inl (SupersededByHuman (''newer same-exact-lane human input generation '' @ show_u64 current
                 @ '' supersedes continuation generation '' @ show_u64 snapshot))
               else Inr ()))"

definition snapshot_field :: "string \<Rightarrow> 'a option \<Rightarrow> IntentRevalidationFailure + 'a" where
  "snapshot_field name v = (case v of Some x \<Rightarrow> Inr x | None \<Rightarrow> Inl (FailVisible (''task intent has no '' @ name)))"

definition intent_snapshot :: "GoalContinuationIntentV1
    \<Rightarrow> IntentRevalidationFailure + ContinuationAuthoritySnapshotV1" where
  "intent_snapshot i =
     (case snapshot_field ''authority kind'' (ni_authority_kind i) of Inl f \<Rightarrow> Inl f | Inr kind \<Rightarrow>
     (case snapshot_field ''authority id'' (ni_authority_id i) of Inl f \<Rightarrow> Inl f | Inr authority_id \<Rightarrow>
     (case snapshot_field ''authority version'' (ni_authority_version i) of Inl f \<Rightarrow> Inl f | Inr version \<Rightarrow>
     (case snapshot_field ''authority checksum'' (ni_authority_checksum i) of Inl f \<Rightarrow> Inl f | Inr checksum \<Rightarrow>
     (case snapshot_field ''checkpoint digest'' (ni_checkpoint_digest i) of Inl f \<Rightarrow> Inl f | Inr digest \<Rightarrow>
        Inr \<lparr>sn_kind = kind, sn_authority_id = authority_id, sn_authority_version = version,
          sn_authority_checksum = checksum, sn_exact_lane_digest = ni_lane_digest i,
          sn_virtual_session_id = ni_virtual_session_id i, sn_active_item_id = ni_active_item_id i,
          sn_active_item_version = ni_active_item_version i, sn_checkpoint_digest = digest\<rparr>)))))"

definition check_task_authority :: "continuation_lib \<Rightarrow> continuation_home \<Rightarrow> GoalContinuationIntentV1 \<Rightarrow> string
    \<Rightarrow> string \<Rightarrow> IntentRevalidationFailure + unit" where
  "check_task_authority lib h i session_key agent_id =
     (case intent_snapshot i of
        Inl f \<Rightarrow> Inl f
      | Inr sn \<Rightarrow>
          (case revalidate_continuation_snapshot (nl_task lib) (nh_tasks h) sn session_key agent_id of
             Inl e \<Rightarrow> Inl (from_policy_state_error e)
           | Inr _ \<Rightarrow> Inr ()))"

definition check_goal_authority :: "continuation_lib \<Rightarrow> continuation_home \<Rightarrow> GoalContinuationIntentV1
    \<Rightarrow> IntentRevalidationFailure + unit" where
  "check_goal_authority lib h i =
     (if \<not> goal_intent_has_exact_current_authority i
      then Inl (FailVisible ''goal continuation intent has no durable exact current-owned authority proof'')
      else case revalidate_current_goal_authority lib h i of
        Inl f \<Rightarrow> Inl f
      | Inr _ \<Rightarrow>
          (case load_goal_autonomy_activation_for_exact_goal lib h (Some (ni_lane_digest i)) True of
             Inl e \<Rightarrow> Inl (from_policy_state_error e)
           | Inr activation \<Rightarrow>
               if ga_mode activation \<noteq> AutonomyActive
               then Inl (PolicyBlocked (''exact-lane goal autonomy is no longer active: ''
                 @ ga_activation_reason activation))
               else Inr ()))"

definition validate_parent_lane_for_intent :: "continuation_lib \<Rightarrow> continuation_home \<Rightarrow> GoalContinuationIntentV1
    \<Rightarrow> IntentRevalidationFailure + unit" where
  "validate_parent_lane_for_intent lib h i =
     (case nh_pending h of
        None \<Rightarrow> Inl (from_state_error (IoError NotFound ''pending.jsonl''))
      | Some t \<Rightarrow>
     (case find (\<lambda>v. str_field v ''queueId'' = Some (ni_parent_queue_id i)) (pending_values lib t) of
        None \<Rightarrow> Inl (FailVisible ''goal continuation parent queue item is missing'')
      | Some pending \<Rightarrow>
     (case exact_field pending ''sessionKey'' of
        Inl f \<Rightarrow> Inl f
      | Inr session_key \<Rightarrow>
          if session_key \<noteq> ni_working_session_key i
          then Inl (FailVisible ''goal continuation intent session does not match its exact parent'')
          else (case parent_channel_lane pending of
             Inl f \<Rightarrow> Inl f
           | Inr lane \<Rightarrow>
          (case parent_lane_digest lib pending lane session_key of
             Inl f \<Rightarrow> Inl f
           | Inr digest \<Rightarrow>
               if digest \<noteq> ni_lane_digest i
                  \<or> derive_virtual_session_id_v2 lib lane (root_working_session_key session_key)
                      \<noteq> ni_virtual_session_id i
               then Inl (FailVisible ''goal continuation intent does not match the exact parent lane/virtual session'')
               else (case check_human_generation lib h i of
                  Inl f \<Rightarrow> Inl f
                | Inr _ \<Rightarrow>
                    if ni_schema i = TASK_CONTINUATION_INTENT_SCHEMA
                    then check_task_authority lib h i session_key (sl_agent_id lane)
                    else check_goal_authority lib h i))))))"

end
