(* ===== verification/Goal_Continuation_Ops.thy ===== *)
theory Goal_Continuation_Ops
  imports Goal_Continuation
begin

text \<open>
  The operations on continuation intents (\<open>src/crates/agent-harness-core/src/goal_continuation.rs\<close>): an intent is
  committed, its child is enqueued, the child is admitted after its lease, and an intent that may not go on is
  settled and fenced. The operations under the lock of an intent are one step each.

  What they take from components that are not modelled is the record \<open>continuation_env\<close>, the answers of one call:
  the terminal control of the queue item (\<open>resolve_queue_terminal_control\<close>), the active session of a lane
  (\<open>read_channel_session_state_v2\<close>), whether the outbox took a notice (\<open>append_channel_outbox_message\<close>), and
  what requeueing the parent does to the queue and which child it reports (\<open>requeue_prepared_context_rollover\<close>).
\<close>

section \<open>Data\<close>

record ContextRolloverRequeuePreparedOptions =
  rq_queue_id :: string
  rq_new_working_session_key :: string
  rq_reason :: string
  rq_now_ms :: int
  rq_preserve_continuation_index :: bool
  rq_campaign_slice_generation :: "u64 option"
  rq_task_slice_generation :: "u64 option"
  rq_task_family_id :: "string option"
  rq_task_family_version :: "u64 option"
  rq_task_root_queue_id :: "string option"
  rq_disposition_recovery_depth :: "u64 option"
  rq_shell_recovery_depth :: "u64 option"
  rq_replacement_message_text :: "string option"
  rq_continuation_intent_key :: "string option"
  rq_completion_kind :: "string option"
  rq_allow_exact_state_bootstrap :: bool

record continuation_env =
  ne_terminal_control :: "io_error + (string \<times> string) option"
  ne_active_session :: "ChannelStateLane \<Rightarrow> io_error + string option"
  ne_outbox :: "io_error + bool"
  ne_requeue :: "ContextRolloverRequeuePreparedOptions \<Rightarrow> string option \<Rightarrow> string option \<times> (io_error + string)"

datatype ContinuationSettlementKind = SettledSuperseded | SettledPolicyBlocked | SettledRecoveryFailure

record SettlementDelivery =
  sd_disposition :: string
  sd_canonical_source_queue_id :: "string option"
  sd_delivery_id :: "string option"

text \<open>The fields of \<open>RuntimeQueuePreparedItem\<close> that the gate reads.\<close>

record RuntimeQueuePreparedItem =
  qi_queue_id :: string
  qi_continuation_intent_key :: "string option"

section \<open>Commit\<close>

definition required_field :: "string \<Rightarrow> string option \<Rightarrow> io_error + string" where
  "required_field name v =
     (case v of
        Some s \<Rightarrow> if s = [] then Inl (invalid_input (name @ '' is required for goal continuation intent'')) else Inr s
      | None \<Rightarrow> Inl (invalid_input (name @ '' is required for goal continuation intent'')))"

definition transition_has_exact_authority :: "GoalTransitionReceiptV1 \<Rightarrow> bool" where
  "transition_has_exact_authority r \<longleftrightarrow> gr_authority r = AuthorityReady \<and> current_relation (gr_relation r)
     \<and> (case gr_goal_status r of Some s \<Rightarrow> intent_goal_status_active s | None \<Rightarrow> False)"

text \<open>The seven identities a transition must carry.\<close>

definition transition_identities :: "GoalTransitionReceiptV1 \<Rightarrow> io_error + string list" where
  "transition_identities r =
     (case required_field ''queueId'' (gr_queue_id r) of Inl e \<Rightarrow> Inl e | Inr a \<Rightarrow>
     (case required_field ''laneDigest'' (gr_lane_digest r) of Inl e \<Rightarrow> Inl e | Inr b \<Rightarrow>
     (case required_field ''virtualSessionId'' (gr_virtual_session_id r) of Inl e \<Rightarrow> Inl e | Inr c \<Rightarrow>
     (case required_field ''lineageId'' (gr_lineage_id r) of Inl e \<Rightarrow> Inl e | Inr d \<Rightarrow>
     (case required_field ''goalChecksum'' (gr_goal_checksum r) of Inl e \<Rightarrow> Inl e | Inr e' \<Rightarrow>
     (case required_field ''campaignFamilyId'' (gr_campaign_family_id r) of Inl e \<Rightarrow> Inl e | Inr f \<Rightarrow>
     (case required_field ''backendContextGeneration'' (gr_backend_context_generation r) of Inl e \<Rightarrow> Inl e | Inr g \<Rightarrow>
        Inr [a, b, c, d, e', f, g])))))))"

definition goal_intent_key :: "continuation_lib \<Rightarrow> string \<Rightarrow> string \<Rightarrow> string \<Rightarrow> string \<Rightarrow> u64 \<Rightarrow> u64 \<Rightarrow> string" where
  "goal_intent_key lib lane session lineage checksum source decision = identity_digest lib
     [''goal-continuation-intent-v1'', lane, session, lineage, checksum, show_u64 source, show_u64 decision]"

definition goal_intent :: "continuation_lib \<Rightarrow> GoalTransitionReceiptV1 \<Rightarrow> string \<Rightarrow> RuntimeContinuationMetadata
    \<Rightarrow> int \<Rightarrow> string list \<Rightarrow> u64 \<Rightarrow> GoalContinuationIntentV1" where
  "goal_intent lib r working_session_key m now_ms ids generation =
     (let lane = ids ! 1; session = ids ! 2; lineage = ids ! 3; checksum = ids ! 4;
          source = gr_source_slice_generation r; decision = gr_decision_generation r
      in \<lparr>ni_schema = GOAL_CONTINUATION_INTENT_SCHEMA,
          ni_intent_key = goal_intent_key lib lane session lineage checksum source decision,
          ni_status = IntentCommitted, ni_parent_queue_id = ids ! 0, ni_child_queue_id = None,
          ni_working_session_key = working_session_key, ni_lane_digest = lane, ni_virtual_session_id = session,
          ni_lineage_id = lineage, ni_goal_checksum = checksum, ni_campaign_family_id = ids ! 5,
          ni_backend_context_generation = ids ! 6, ni_source_slice_generation = source,
          ni_decision_generation = decision, ni_campaign_slice_generation = sat_add source 1,
          ni_recovery_continuation_index = unwrap_or (rm_continuation_index m) 0, ni_decision = gr_decision r,
          ni_human_input_generation = Some generation, ni_goal_relation_at_commit = Some (gr_relation r),
          ni_goal_status_at_commit = gr_goal_status r, ni_authority_kind = Some GoalAuthority,
          ni_authority_id = Some lineage, ni_authority_version = Some source, ni_authority_checksum = Some checksum,
          ni_checkpoint_digest = None, ni_active_item_id = None, ni_active_item_version = None,
          ni_disposition_recovery_depth = None, ni_shell_recovery_depth = rm_shell_recovery_depth m,
          ni_reason = ''continuation intent committed before child enqueue'', ni_observed_at_ms = now_ms\<rparr>)"

definition append_intent :: "continuation_lib \<Rightarrow> GoalContinuationIntentV1 \<Rightarrow> continuation_home \<Rightarrow> continuation_home" where
  "append_intent lib i h =
     h\<lparr>nh_intents := append_jsonl_value (js_enc (nl_json lib)) (nl_intent_to_value lib i) (nh_intents h)\<rparr>"

text \<open>An intent is appended unless its key is there; then what is there has to be the same.\<close>

definition commit_intent :: "continuation_lib \<Rightarrow> GoalContinuationIntentV1 \<Rightarrow> continuation_home
    \<Rightarrow> continuation_home \<times> (io_error + GoalContinuationIntentV1)" where
  "commit_intent lib i h =
     (case latest_intent_for_key lib h (ni_intent_key i) of
        Inl e \<Rightarrow> (h, Inl e)
      | Inr (Some existing) \<Rightarrow>
          (case ensure_same_intent existing i of Inl e \<Rightarrow> (h, Inl e) | Inr _ \<Rightarrow> (h, Inr existing))
      | Inr None \<Rightarrow> (append_intent lib i h, Inr i))"

definition commit_goal_continuation_intent :: "continuation_lib \<Rightarrow> GoalTransitionReceiptV1 \<Rightarrow> string
    \<Rightarrow> RuntimeContinuationMetadata \<Rightarrow> int \<Rightarrow> continuation_home
    \<Rightarrow> continuation_home \<times> (io_error + GoalContinuationIntentV1)" where
  "commit_goal_continuation_intent lib r working_session_key m now_ms h =
     (if \<not> gr_schedule_continuation r \<or> \<not> transition_has_exact_authority r
      then (h, Inl (invalid_input ''goal continuation intent requires a scheduled active transition with exact current-owned ready authority''))
      else case transition_identities r of
        Inl e \<Rightarrow> (h, Inl e)
      | Inr ids \<Rightarrow>
          if is_blank working_session_key
          then (h, Inl (invalid_input ''workingSessionKey is required for goal continuation''))
          else (case human_input_generation_at_parent lib h (ids ! 0) (ids ! 1) of
             Inl e \<Rightarrow> (h, Inl e)
           | Inr (generation, _) \<Rightarrow> commit_intent lib (goal_intent lib r working_session_key m now_ms ids generation) h))"

fun authority_kind_text :: "ContinuationAuthorityKindV1 \<Rightarrow> string" where
  "authority_kind_text GoalAuthority = ''goal''"
| "authority_kind_text OperationPlanAuthority = ''operation-plan''"
| "authority_kind_text ExplicitCheckpointAuthority = ''explicit-checkpoint''"

definition task_intent_key :: "continuation_lib \<Rightarrow> string \<Rightarrow> ContinuationAuthoritySnapshotV1 \<Rightarrow> u64 \<Rightarrow> bool \<Rightarrow> string" where
  "task_intent_key lib parent_queue_id a source disposition_recovery = identity_digest lib
     [''task-continuation-intent-v1'', sn_exact_lane_digest a, sn_virtual_session_id a, parent_queue_id,
      show_u64 source, authority_kind_text (sn_kind a), sn_authority_id a, show_u64 (sn_authority_version a),
      sn_checkpoint_digest a,
      if disposition_recovery then ''disposition-recovery'' else ''task-continuation'']"

definition task_intent :: "continuation_lib \<Rightarrow> string \<Rightarrow> string \<Rightarrow> RuntimeContinuationMetadata
    \<Rightarrow> ContinuationAuthoritySnapshotV1 \<Rightarrow> u64 \<Rightarrow> u64 \<Rightarrow> bool \<Rightarrow> int \<Rightarrow> u64 \<Rightarrow> GoalContinuationIntentV1" where
  "task_intent lib parent_queue_id working_session_key m a source decision disposition_recovery now_ms generation =
     \<lparr>ni_schema = TASK_CONTINUATION_INTENT_SCHEMA,
      ni_intent_key = task_intent_key lib parent_queue_id a source disposition_recovery,
      ni_status = IntentCommitted, ni_parent_queue_id = parent_queue_id, ni_child_queue_id = None,
      ni_working_session_key = working_session_key, ni_lane_digest = sn_exact_lane_digest a,
      ni_virtual_session_id = sn_virtual_session_id a, ni_lineage_id = sn_authority_id a,
      ni_goal_checksum = sn_authority_checksum a, ni_campaign_family_id = ''task:'' @ sn_authority_id a,
      ni_backend_context_generation = sn_checkpoint_digest a, ni_source_slice_generation = source,
      ni_decision_generation = decision, ni_campaign_slice_generation = sat_add source 1,
      ni_recovery_continuation_index = unwrap_or (rm_continuation_index m) 0, ni_decision = DecideContinue,
      ni_human_input_generation = Some generation, ni_goal_relation_at_commit = None,
      ni_goal_status_at_commit = None, ni_authority_kind = Some (sn_kind a),
      ni_authority_id = Some (sn_authority_id a), ni_authority_version = Some (sn_authority_version a),
      ni_authority_checksum = Some (sn_authority_checksum a), ni_checkpoint_digest = Some (sn_checkpoint_digest a),
      ni_active_item_id = sn_active_item_id a, ni_active_item_version = sn_active_item_version a,
      ni_disposition_recovery_depth = (if disposition_recovery then Some 1 else None),
      ni_shell_recovery_depth = rm_shell_recovery_depth m,
      ni_reason = (if disposition_recovery
        then ''disposition recovery intent committed before observation-only child enqueue''
        else ''task continuation intent committed before child enqueue''),
      ni_observed_at_ms = now_ms\<rparr>"

definition commit_task_continuation_intent :: "continuation_lib \<Rightarrow> string \<Rightarrow> string \<Rightarrow> RuntimeContinuationMetadata
    \<Rightarrow> ContinuationAuthoritySnapshotV1 \<Rightarrow> u64 \<Rightarrow> u64 \<Rightarrow> bool \<Rightarrow> int \<Rightarrow> continuation_home
    \<Rightarrow> continuation_home \<times> (io_error + GoalContinuationIntentV1)" where
  "commit_task_continuation_intent lib parent_queue_id working_session_key m a source decision disposition_recovery
       now_ms h =
     (if is_blank parent_queue_id \<or> is_blank working_session_key
      then (h, Inl (invalid_input ''task continuation requires parent queue and working session identities''))
      else case human_input_generation_at_parent lib h parent_queue_id (sn_exact_lane_digest a) of
        Inl e \<Rightarrow> (h, Inl e)
      | Inr (generation, _) \<Rightarrow> commit_intent lib
          (task_intent lib parent_queue_id working_session_key m a source decision disposition_recovery now_ms generation) h)"

definition append_intent_state :: "continuation_lib \<Rightarrow> GoalContinuationIntentV1 \<Rightarrow> GoalContinuationIntentStatus
    \<Rightarrow> string option \<Rightarrow> string \<Rightarrow> int \<Rightarrow> continuation_home \<Rightarrow> continuation_home \<times> GoalContinuationIntentV1" where
  "append_intent_state lib i status child reason now_ms h =
     (let i' = i\<lparr>ni_status := status, ni_child_queue_id := child, ni_reason := reason, ni_observed_at_ms := now_ms\<rparr>
      in (append_intent lib i' h, i'))"

section \<open>Settlement\<close>

definition RUNTIME_QUEUE_QUARANTINE_SCHEMA :: string where
  "RUNTIME_QUEUE_QUARANTINE_SCHEMA = ''agent-harness.runtime-queue-quarantine.v1''"

definition json_i64 :: "int \<Rightarrow> Value" where
  "json_i64 n = (if n < 0 then JsonNumber (show_int n) else JsonU64 (of_int n))"

definition write_runtime_queue_quarantine_marker :: "string \<Rightarrow> string \<Rightarrow> int \<Rightarrow> continuation_home \<Rightarrow> continuation_home" where
  "write_runtime_queue_quarantine_marker queue_id reason now_ms h =
     h\<lparr>nh_quarantine := map_insert (normalize_key_part queue_id @ ''.json'')
       (JsonObject [(''schema'', JsonString RUNTIME_QUEUE_QUARANTINE_SCHEMA), (''queueId'', JsonString queue_id),
         (''status'', JsonString ''quarantined''), (''reason'', JsonString reason), (''atMs'', json_i64 now_ms)])
       (nh_quarantine h)\<rparr>"

definition quarantine_fenced_child :: "string \<Rightarrow> string \<Rightarrow> int \<Rightarrow> continuation_home \<Rightarrow> continuation_home" where
  "quarantine_fenced_child child reason now_ms h =
     write_runtime_queue_quarantine_marker child
       (''continuation child suppressed by durable intent fence: '' @ reason) now_ms h"

definition quarantine_child :: "string option \<Rightarrow> string \<Rightarrow> int \<Rightarrow> continuation_home \<Rightarrow> continuation_home" where
  "quarantine_child child reason now_ms h =
     (case child of None \<Rightarrow> h | Some c \<Rightarrow> quarantine_fenced_child c reason now_ms h)"

fun from_revalidation_failure :: "IntentRevalidationFailure \<Rightarrow> ContinuationSettlementKind option" where
  "from_revalidation_failure (SupersededByHuman _) = Some SettledSuperseded"
| "from_revalidation_failure (PolicyBlocked _) = Some SettledPolicyBlocked"
| "from_revalidation_failure (FailVisible _) = Some SettledRecoveryFailure"
| "from_revalidation_failure (RetryLater _) = None"

fun settlement_status :: "ContinuationSettlementKind \<Rightarrow> string" where
  "settlement_status SettledSuperseded = ''suppressed''"
| "settlement_status SettledPolicyBlocked = ''suppressed''"
| "settlement_status SettledRecoveryFailure = ''failed-terminal''"

fun terminal_disposition :: "ContinuationSettlementKind \<Rightarrow> string" where
  "terminal_disposition SettledSuperseded = ''terminal-suppression''"
| "terminal_disposition SettledPolicyBlocked = ''terminal-suppression''"
| "terminal_disposition SettledRecoveryFailure = ''logical-failure''"

fun source_closure_kind :: "ContinuationSettlementKind \<Rightarrow> string" where
  "source_closure_kind SettledPolicyBlocked = ''parked-policy-denied''"
| "source_closure_kind SettledSuperseded = ''suppressed-exact-owner-mismatch''"
| "source_closure_kind SettledRecoveryFailure = ''suppressed-exact-owner-mismatch''"

fun source_closure_reason :: "ContinuationSettlementKind \<Rightarrow> string" where
  "source_closure_reason SettledSuperseded = ''continuation-superseded-by-newer-human''"
| "source_closure_reason SettledPolicyBlocked = ''continuation-policy-or-authority-revoked''"
| "source_closure_reason SettledRecoveryFailure = ''continuation-recovery-proof-failed''"

text \<open>Whether a notice goes to the user; its text is not modelled.\<close>

fun provider_notice :: "ContinuationSettlementKind \<Rightarrow> bool" where
  "provider_notice SettledSuperseded = False"
| "provider_notice SettledPolicyBlocked = True"
| "provider_notice SettledRecoveryFailure = True"

definition parent_rows :: "continuation_lib \<Rightarrow> continuation_home \<Rightarrow> string \<Rightarrow> Value list" where
  "parent_rows lib h parent_queue_id =
     (case nh_pending h of
        None \<Rightarrow> []
      | Some t \<Rightarrow> filter (\<lambda>v. str_field v ''queueId'' = Some parent_queue_id) (pending_values lib t))"

definition parent_runtime_attribution :: "continuation_lib \<Rightarrow> continuation_home \<Rightarrow> string
    \<Rightarrow> string option \<times> string option" where
  "parent_runtime_attribution lib h parent_queue_id =
     (case parent_rows lib h parent_queue_id of
        [] \<Rightarrow> (None, None)
      | v # _ \<Rightarrow> (str_field v ''runtimeClass'', str_field v ''origin''))"

text \<open>Whether the parent still is the current session of its channel.\<close>

definition exact_current_parent :: "continuation_lib \<Rightarrow> continuation_env \<Rightarrow> continuation_home
    \<Rightarrow> GoalContinuationIntentV1 \<Rightarrow> io_error + bool" where
  "exact_current_parent lib env h i =
     (case parent_rows lib h (ni_parent_queue_id i) of
        [v] \<Rightarrow>
          let field = (\<lambda>name. case str_field v name of Some s \<Rightarrow> if is_blank s then None else Some s | None \<Rightarrow> None)
          in if field ''runtimeClass'' \<noteq> Some ''interactive'' \<or> field ''origin'' \<noteq> Some ''channel''
                \<or> field ''sessionKey'' \<noteq> Some (ni_working_session_key i)
             then Inr False
             else (case pending_lane_axes v of
                Some [platform, account_id, channel_id, user_id, agent_id, _, session_key] \<Rightarrow>
                  (case pending_exact_lane_digest lib v of
                     Inl e \<Rightarrow> Inl e
                   | Inr digest \<Rightarrow>
                       if digest \<noteq> Some (ni_lane_digest i) then Inr False
                       else (case channel_state_lane_new platform (Some account_id) channel_id user_id agent_id of
                          Inl e \<Rightarrow> Inl e
                        | Inr lane \<Rightarrow>
                            (case ne_active_session env lane of
                               Inl e \<Rightarrow> Inl e
                             | Inr active \<Rightarrow> Inr (active = None \<or> active = Some session_key))))
              | _ \<Rightarrow> Inr False)
      | _ \<Rightarrow> Inr False)"

definition undelivered :: SettlementDelivery where
  "undelivered = \<lparr>sd_disposition = ''explicit-non-delivery'', sd_canonical_source_queue_id = None,
     sd_delivery_id = None\<rparr>"

definition append_continuation_settlement_notice_if_current :: "continuation_lib \<Rightarrow> continuation_env
    \<Rightarrow> continuation_home \<Rightarrow> GoalContinuationIntentV1 \<Rightarrow> ContinuationSettlementKind \<Rightarrow> string
    \<Rightarrow> io_error + SettlementDelivery" where
  "append_continuation_settlement_notice_if_current lib env h i kind settlement_key =
     (if \<not> provider_notice kind then Inr undelivered
      else case exact_current_parent lib env h i of
        Inl e \<Rightarrow> Inl e
      | Inr current \<Rightarrow>
          if \<not> current then Inr undelivered
          else (case ne_outbox env of
             Inl e \<Rightarrow> Inl e
           | Inr present \<Rightarrow>
               Inr \<lparr>sd_disposition = (if present then ''already-present'' else ''appended''),
                 sd_canonical_source_queue_id = Some (ni_parent_queue_id i),
                 sd_delivery_id = Some (''delivery:v2:''
                   @ take 32 (task_sha256_hex (nl_task lib) settlement_key))\<rparr>))"

definition settlement_key :: "continuation_lib \<Rightarrow> GoalContinuationIntentV1 \<Rightarrow> string" where
  "settlement_key lib i = identity_digest lib [''continuation-non-runnable-settlement-v1'', ni_intent_key i]"

definition settlement_row :: "continuation_lib \<Rightarrow> continuation_home \<Rightarrow> GoalContinuationIntentV1
    \<Rightarrow> ContinuationSettlementKind \<Rightarrow> string \<Rightarrow> int \<Rightarrow> SettlementDelivery \<Rightarrow> Value" where
  "settlement_row lib h i kind reason now_ms d = JsonObject
     [(''schema'', JsonString ''agent-harness.runtime-run-once.v1''),
      (''queueId'', JsonString (ni_parent_queue_id i)),
      (''status'', JsonString (settlement_status kind)),
      (''runtimeClass'', opt_json (fst (parent_runtime_attribution lib h (ni_parent_queue_id i)))),
      (''origin'', opt_json (snd (parent_runtime_attribution lib h (ni_parent_queue_id i)))),
      (''continuationIntentKey'', JsonString (ni_intent_key i)),
      (''terminalDisposition'', JsonString (terminal_disposition kind)),
      (''preparedExecutionTerminalizationReason'', JsonString (source_closure_reason kind)),
      (''sourceFinalExpectation'', JsonString (if sd_delivery_id d \<noteq> None then ''required'' else ''explicit-non-delivery'')),
      (''sourceClosureKind'', JsonString (source_closure_kind kind)),
      (''sourceClosureReason'', JsonString (source_closure_reason kind)),
      (''finalOutboxDisposition'', JsonString (sd_disposition d)),
      (''canonicalSourceQueueId'', opt_json (sd_canonical_source_queue_id d)),
      (''finalDeliveryId'', opt_json (sd_delivery_id d)),
      (''sourceFinalLaneDigest'', JsonString (ni_lane_digest i)),
      (''operatorActionRequired'', JsonBool (kind \<noteq> SettledSuperseded)),
      (''continuationSettlementKey'', JsonString (settlement_key lib i)),
      (''observedAtMs'', json_i64 now_ms),
      (''reason'', JsonString (''continuation intent was settled before unsafe autonomous replay: '' @ reason))]"

definition settled :: "continuation_lib \<Rightarrow> string \<Rightarrow> string \<Rightarrow> bool" where
  "settled lib key t \<longleftrightarrow> list_ex (\<lambda>line. case js_dec (nl_json lib) line of
     Some v \<Rightarrow> str_field v ''continuationSettlementKey'' = Some key | None \<Rightarrow> False) (text_lines t)"

definition record_continuation_settlement_once :: "continuation_lib \<Rightarrow> continuation_env \<Rightarrow> GoalContinuationIntentV1
    \<Rightarrow> ContinuationSettlementKind \<Rightarrow> string \<Rightarrow> int \<Rightarrow> continuation_home \<Rightarrow> continuation_home \<times> (io_error + bool)" where
  "record_continuation_settlement_once lib env i kind reason now_ms h =
     (let h' = write_runtime_queue_quarantine_marker (ni_parent_queue_id i)
            (''continuation parent settled before unsafe autonomous replay: '' @ reason) now_ms h
      in if settled lib (settlement_key lib i) (nh_run_once h') then (h', Inr False)
         else (case append_continuation_settlement_notice_if_current lib env h' i kind (settlement_key lib i) of
            Inl e \<Rightarrow> (h', Inl e)
          | Inr d \<Rightarrow>
              (h'\<lparr>nh_run_once := append_jsonl_value (js_enc (nl_json lib))
                 (settlement_row lib h' i kind reason now_ms d) (nh_run_once h')\<rparr>, Inr True)))"

fun failure_reason :: "IntentRevalidationFailure \<Rightarrow> string" where
  "failure_reason (SupersededByHuman r) = r"
| "failure_reason (PolicyBlocked r) = r"
| "failure_reason (FailVisible r) = r"
| "failure_reason (RetryLater e) = io_error_text e"

definition settle_revalidation_failure_and_fence :: "continuation_lib \<Rightarrow> continuation_env
    \<Rightarrow> GoalContinuationIntentV1 \<Rightarrow> string option \<Rightarrow> IntentRevalidationFailure \<Rightarrow> string \<Rightarrow> int \<Rightarrow> continuation_home
    \<Rightarrow> continuation_home \<times> (io_error + GoalContinuationFenceV1)" where
  "settle_revalidation_failure_and_fence lib env i child failure boundary now_ms h =
     (case failure of
        RetryLater e \<Rightarrow> (h, Inl e)
      | _ \<Rightarrow>
     (case from_revalidation_failure failure of
        None \<Rightarrow> (h, Inl (IoError OtherIo ''non-retry continuation settlement kind is missing''))
      | Some kind \<Rightarrow>
          let reason = failure_reason failure in
          (case record_continuation_settlement_once lib env i kind reason now_ms (quarantine_child child reason now_ms h) of
             (h', Inl e) \<Rightarrow> (h', Inl e)
           | (h', Inr _) \<Rightarrow> append_goal_continuation_fence_once lib i child (boundary @ '': '' @ reason) now_ms h')))"

definition settlement_kind_for_existing_fence :: "string \<Rightarrow> ContinuationSettlementKind" where
  "settlement_kind_for_existing_fence reason =
     (let normalized = to_ascii_lowercase reason in
      if contains normalized ''newer same-exact-lane human'' \<or> contains normalized ''superseded-by-newer-human''
      then SettledSuperseded
      else if list_ex (contains normalized) [''policy'', ''autonomy'', ''authority changed'', ''terminal control'', ''operator stop'']
      then SettledPolicyBlocked
      else SettledRecoveryFailure)"

definition ensure_preexisting_fence_is_settled :: "continuation_lib \<Rightarrow> continuation_env \<Rightarrow> GoalContinuationIntentV1
    \<Rightarrow> GoalContinuationFenceV1 \<Rightarrow> int \<Rightarrow> continuation_home \<Rightarrow> continuation_home \<times> (io_error + unit)" where
  "ensure_preexisting_fence_is_settled lib env i f now_ms h =
     (if \<not> intent_open i then (h, Inr ())
      else case record_continuation_settlement_once lib env i (settlement_kind_for_existing_fence (nf_reason f))
                  (''pre-existing durable fence '' @ nf_fence_key f @ '' prevents automatic recovery: '' @ nf_reason f)
                  now_ms h of
        (h', Inl e) \<Rightarrow> (h', Inl e) | (h', Inr _) \<Rightarrow> (h', Inr ()))"

section \<open>Enqueueing the child\<close>

definition fenced_outcome :: "continuation_home \<times> (io_error + GoalContinuationFenceV1)
    \<Rightarrow> continuation_home \<times> (io_error + EnsureGoalContinuationOutcome)" where
  "fenced_outcome r = (case r of (h, Inl e) \<Rightarrow> (h, Inl e) | (h, Inr f) \<Rightarrow> (h, Inr (OutcomeFenced f)))"

text \<open>
  Fields that a first version did not have are written as a new row; when they cannot be reconstructed
  the intent is settled and fenced (left).
\<close>

definition upgrade_durably :: "continuation_lib \<Rightarrow> continuation_env \<Rightarrow> GoalContinuationIntentV1 \<Rightarrow> string option
    \<Rightarrow> string \<Rightarrow> string \<Rightarrow> int \<Rightarrow> continuation_home
    \<Rightarrow> continuation_home \<times> ((io_error + GoalContinuationFenceV1) + GoalContinuationIntentV1)" where
  "upgrade_durably lib env latest child upgraded_reason boundary now_ms h =
     (case upgrade_open_legacy_intent lib h latest of
        Inr (upgraded, True) \<Rightarrow>
          (case append_intent_state lib upgraded (ni_status upgraded) (ni_child_queue_id upgraded) upgraded_reason
                  now_ms h of (h', i) \<Rightarrow> (h', Inr i))
      | Inr (_, False) \<Rightarrow> (h, Inr latest)
      | Inl failure \<Rightarrow>
          (case settle_revalidation_failure_and_fence lib env latest child failure boundary now_ms h of
             (h', r) \<Rightarrow> (h', Inl r)))"

definition task_family_of_intent :: "continuation_lib \<Rightarrow> continuation_home \<Rightarrow> GoalContinuationIntentV1
    \<Rightarrow> io_error + TaskFamilyV1 option" where
  "task_family_of_intent lib h i =
     (if ni_schema i = TASK_CONTINUATION_INTENT_SCHEMA \<and> ni_authority_kind i = Some ExplicitCheckpointAuthority
      then (case ni_authority_id i of
          None \<Rightarrow> Inl (invalid_data ''task intent has no family id'')
        | Some family_id \<Rightarrow>
            (case read_task_family (nl_task lib) (nh_tasks h) family_id of Inl e \<Rightarrow> Inl e | Inr f \<Rightarrow> Inr (Some f)))
      else Inr None)"

definition completion_kind :: "GoalContinuationIntentV1 \<Rightarrow> string" where
  "completion_kind i =
     (if ni_schema i \<noteq> TASK_CONTINUATION_INTENT_SCHEMA then ''goal-continuation''
      else if ni_authority_kind i = Some ExplicitCheckpointAuthority
      then (if ni_disposition_recovery_depth i \<noteq> None then ''task-disposition-recovery''
            else ''task-checkpoint-continuation'')
      else ''operation-plan-continuation'')"

definition requeue_options :: "GoalContinuationIntentV1 \<Rightarrow> TaskFamilyV1 option \<Rightarrow> int
    \<Rightarrow> ContextRolloverRequeuePreparedOptions" where
  "requeue_options i family now_ms =
     (let task = (ni_schema i = TASK_CONTINUATION_INTENT_SCHEMA) in
      \<lparr>rq_queue_id = ni_parent_queue_id i, rq_new_working_session_key = ni_working_session_key i,
       rq_reason = ''task continuation intent '' @ ni_intent_key i @ '' for campaign slice ''
         @ show_u64 (ni_campaign_slice_generation i),
       rq_now_ms = now_ms, rq_preserve_continuation_index = True,
       rq_campaign_slice_generation = (if task then None else Some (ni_campaign_slice_generation i)),
       rq_task_slice_generation = (if task \<and> ni_authority_kind i = Some ExplicitCheckpointAuthority
         then Some (ni_campaign_slice_generation i) else None),
       rq_task_family_id = map_option fa_family_id family,
       rq_task_family_version = map_option fa_authority_version family,
       rq_task_root_queue_id = map_option fa_root_queue_id family,
       rq_disposition_recovery_depth = ni_disposition_recovery_depth i,
       rq_shell_recovery_depth = ni_shell_recovery_depth i,
       rq_replacement_message_text = map_option (\<lambda>_. ''Disposition recovery only: inspect the current task-family state without starting new long work or authorizing/replaying any external effect. Return exactly one valid agent-harness.drain-disposition.v1 marker for the current outcome.'')
         (ni_disposition_recovery_depth i),
       rq_continuation_intent_key = Some (ni_intent_key i),
       rq_completion_kind = Some (completion_kind i), rq_allow_exact_state_bootstrap = True\<rparr>)"

definition enqueue_child :: "continuation_lib \<Rightarrow> continuation_env \<Rightarrow> GoalContinuationIntentV1 \<Rightarrow> int \<Rightarrow> continuation_home
    \<Rightarrow> continuation_home \<times> (io_error + EnsureGoalContinuationOutcome)" where
  "enqueue_child lib env i now_ms h =
     (case task_family_of_intent lib h i of
        Inl e \<Rightarrow> (h, Inl e)
      | Inr family \<Rightarrow>
          (case ne_requeue env (requeue_options i family now_ms) (nh_pending h) of
             (pending, Inl e) \<Rightarrow> (h\<lparr>nh_pending := pending\<rparr>, Inl e)
           | (pending, Inr child) \<Rightarrow>
               (case append_intent_state lib i IntentEnqueued (Some child)
                       ''deterministic child was enqueued after the committed intent'' now_ms (h\<lparr>nh_pending := pending\<rparr>) of
                  (h', i') \<Rightarrow> (h', Inr (OutcomeIntent i')))))"

definition ensure_revalidated_intent_enqueued :: "continuation_lib \<Rightarrow> continuation_env \<Rightarrow> GoalContinuationIntentV1
    \<Rightarrow> string option \<Rightarrow> int \<Rightarrow> continuation_home \<Rightarrow> continuation_home \<times> (io_error + EnsureGoalContinuationOutcome)" where
  "ensure_revalidated_intent_enqueued lib env latest discovered now_ms h =
     (case validate_parent_lane_for_intent lib h latest of
        Inl failure \<Rightarrow> fenced_outcome (settle_revalidation_failure_and_fence lib env latest discovered failure
          ''continuation intent failed during restart revalidation'' now_ms h)
      | Inr _ \<Rightarrow>
     (case discovered of
        Some child \<Rightarrow>
          if ni_child_queue_id latest = Some child \<and> ni_status latest = IntentEnqueued
          then (h, Inr (OutcomeIntent latest))
          else (case append_intent_state lib latest IntentEnqueued (Some child)
                  ''reconciled an existing deterministic child after commit/enqueue interruption'' now_ms h of
             (h', i') \<Rightarrow> (h', Inr (OutcomeIntent i')))
      | None \<Rightarrow> enqueue_child lib env latest now_ms h))"

definition ensure_loaded_goal_continuation_enqueued :: "continuation_lib \<Rightarrow> continuation_env
    \<Rightarrow> GoalContinuationIntentV1 \<Rightarrow> int \<Rightarrow> continuation_home
    \<Rightarrow> continuation_home \<times> (io_error + EnsureGoalContinuationOutcome)" where
  "ensure_loaded_goal_continuation_enqueued lib env latest now_ms h =
     (case (case ni_child_queue_id latest of
              Some child \<Rightarrow> Inr (Some child)
            | None \<Rightarrow> find_child_queue_for_intent lib h (ni_intent_key latest)) of
        Inl e \<Rightarrow> (h, Inl e)
      | Inr discovered \<Rightarrow>
     (case latest_goal_continuation_fence lib h (ni_intent_key latest) of
        Inl e \<Rightarrow> (h, Inl e)
      | Inr (Some f) \<Rightarrow>
          (case ensure_preexisting_fence_is_settled lib env latest f now_ms h of
             (h', Inl e) \<Rightarrow> (h', Inl e)
           | (h', Inr _) \<Rightarrow> (quarantine_child discovered (nf_reason f) now_ms h', Inr (OutcomeFenced f)))
      | Inr None \<Rightarrow>
          if ni_status latest = IntentAcknowledged then (h, Inr (OutcomeIntent latest))
          else (case upgrade_durably lib env latest discovered
                  ''legacy v1 continuation additive fields reconstructed from exact durable boundaries''
                  ''legacy continuation upgrade failed closed'' now_ms h of
             (h', Inl r) \<Rightarrow> fenced_outcome (h', r)
           | (h', Inr latest') \<Rightarrow> ensure_revalidated_intent_enqueued lib env latest' discovered now_ms h')))"

definition reconcile_one_goal_continuation_intent :: "continuation_lib \<Rightarrow> continuation_env \<Rightarrow> string \<Rightarrow> int
    \<Rightarrow> continuation_home \<Rightarrow> continuation_home \<times> (io_error + EnsureGoalContinuationOutcome)" where
  "reconcile_one_goal_continuation_intent lib env intent_key now_ms h =
     (let r = latest_recoverable_intent_for_key lib h intent_key in
      case ri_latest r of
        None \<Rightarrow> (h, Inl (IoError NotFound (unwrap_or (ri_corruption r) ''goal continuation intent is missing'')))
      | Some latest \<Rightarrow>
     (case ri_corruption r of
        Some reason \<Rightarrow>
          (case find_child_queue_for_intent lib h intent_key of
             Inl e \<Rightarrow> (h, Inl e)
           | Inr found \<Rightarrow>
               let child = (case ni_child_queue_id latest of Some c \<Rightarrow> Some c | None \<Rightarrow> found)
               in fenced_outcome (settle_revalidation_failure_and_fence lib env latest child
                    (FailVisible (''continuation intent ledger is corrupt after its last recoverable state: '' @ reason))
                    ''continuation ledger corruption failed closed'' now_ms h))
      | None \<Rightarrow> ensure_loaded_goal_continuation_enqueued lib env latest now_ms h))"

definition ensure_goal_continuation_enqueued :: "continuation_lib \<Rightarrow> continuation_env \<Rightarrow> string \<Rightarrow> int
    \<Rightarrow> continuation_home \<Rightarrow> continuation_home \<times> (io_error + GoalContinuationIntentV1)" where
  "ensure_goal_continuation_enqueued lib env intent_key now_ms h =
     (case reconcile_one_goal_continuation_intent lib env intent_key now_ms h of
        (h', Inl e) \<Rightarrow> (h', Inl e)
      | (h', Inr (OutcomeIntent i)) \<Rightarrow> (h', Inr i)
      | (h', Inr (OutcomeFenced f)) \<Rightarrow> (h', Inl (IoError PermissionDenied (''goal continuation intent ''
          @ nf_intent_key f @ '' is durably fenced: '' @ nf_reason f))))"

section \<open>The gate between the lease and the run\<close>

definition owned_child :: "continuation_lib \<Rightarrow> continuation_home \<Rightarrow> GoalContinuationIntentV1 \<Rightarrow> string \<Rightarrow> string
    \<Rightarrow> io_error + bool" where
  "owned_child lib h latest intent_key queue_id =
     (if ni_child_queue_id latest = Some queue_id then Inr True
      else case find_child_queue_for_intent lib h intent_key of
        Inl e \<Rightarrow> Inl e | Inr found \<Rightarrow> Inr (found = Some queue_id))"

definition suppressed_gate :: "continuation_home \<times> (io_error + GoalContinuationFenceV1)
    \<Rightarrow> continuation_home \<times> (io_error + GoalContinuationLeaseGate)" where
  "suppressed_gate r = (case r of (h, Inl e) \<Rightarrow> (h, Inl e) | (h, Inr f) \<Rightarrow> (h, Inr (GateSuppressed f)))"

definition acknowledge_intent :: "continuation_lib \<Rightarrow> GoalContinuationIntentV1 \<Rightarrow> string \<Rightarrow> int \<Rightarrow> continuation_home
    \<Rightarrow> continuation_home \<times> GoalContinuationIntentV1" where
  "acknowledge_intent lib latest queue_id now_ms h =
     (if ni_status latest = IntentAcknowledged then (h, latest)
      else let (h', latest') = (if ni_status latest = IntentCommitted
             then append_intent_state lib latest IntentEnqueued (Some queue_id)
               ''leased child recovered the committed-to-enqueued crash window'' now_ms h
             else (h, latest))
           in append_intent_state lib latest' IntentAcknowledged (Some queue_id)
                ''child passed lease-to-execution authority and terminal-control revalidation'' now_ms h')"

definition gate_revalidated :: "continuation_lib \<Rightarrow> continuation_env \<Rightarrow> GoalContinuationIntentV1 \<Rightarrow> string \<Rightarrow> int
    \<Rightarrow> continuation_home \<Rightarrow> continuation_home \<times> (io_error + GoalContinuationLeaseGate)" where
  "gate_revalidated lib env latest queue_id now_ms h =
     (case validate_parent_lane_for_intent lib h latest of
        Inl failure \<Rightarrow> suppressed_gate (settle_revalidation_failure_and_fence lib env latest (Some queue_id) failure
          ''leased continuation child failed at the execution boundary'' now_ms h)
      | Inr _ \<Rightarrow>
     (case ne_terminal_control env of
        Inl e \<Rightarrow> (h, Inl e)
      | Inr (Some (source, reason)) \<Rightarrow>
          suppressed_gate (settle_revalidation_failure_and_fence lib env latest (Some queue_id)
            (PolicyBlocked (''leased continuation child has terminal control '' @ source @ '' before execution: '' @ reason))
            ''leased continuation child already has terminal control'' now_ms h)
      | Inr None \<Rightarrow>
          (case acknowledge_intent lib latest queue_id now_ms h of (h', i) \<Rightarrow> (h', Inr (GateAcknowledged i)))))"

definition gate_loaded :: "continuation_lib \<Rightarrow> continuation_env \<Rightarrow> GoalContinuationIntentV1 \<Rightarrow> string \<Rightarrow> string \<Rightarrow> int
    \<Rightarrow> continuation_home \<Rightarrow> continuation_home \<times> (io_error + GoalContinuationLeaseGate)" where
  "gate_loaded lib env latest intent_key queue_id now_ms h =
     (case latest_goal_continuation_fence lib h intent_key of
        Inl e \<Rightarrow> (h, Inl e)
      | Inr (Some f) \<Rightarrow>
          (case ensure_preexisting_fence_is_settled lib env latest f now_ms h of
             (h', Inl e) \<Rightarrow> (h', Inl e)
           | (h', Inr _) \<Rightarrow> (quarantine_fenced_child queue_id (nf_reason f) now_ms h', Inr (GateSuppressed f)))
      | Inr None \<Rightarrow>
          (case upgrade_durably lib env latest (Some queue_id)
                  ''legacy v1 continuation additive fields reconstructed at the lease boundary''
                  ''leased legacy continuation upgrade failed closed'' now_ms h of
             (h', Inl r) \<Rightarrow> suppressed_gate (h', r)
           | (h', Inr latest') \<Rightarrow> gate_revalidated lib env latest' queue_id now_ms h'))"

definition gate_goal_continuation_after_lease :: "continuation_lib \<Rightarrow> continuation_env \<Rightarrow> RuntimeQueuePreparedItem
    \<Rightarrow> int \<Rightarrow> continuation_home \<Rightarrow> continuation_home \<times> (io_error + GoalContinuationLeaseGate)" where
  "gate_goal_continuation_after_lease lib env item now_ms h =
     (case qi_continuation_intent_key item of
        None \<Rightarrow> (h, Inr NotContinuation)
      | Some intent_key \<Rightarrow>
          let r = latest_recoverable_intent_for_key lib h intent_key in
     (case ri_latest r of
        None \<Rightarrow> (h, Inl (invalid_data (unwrap_or (ri_corruption r)
          ''prepared goal child has no committed continuation intent'')))
      | Some latest \<Rightarrow>
     (case owned_child lib h latest intent_key (qi_queue_id item) of
        Inl e \<Rightarrow> (h, Inl e)
      | Inr owned \<Rightarrow>
          if \<not> owned
          then (h, Inl (invalid_data ''prepared goal child does not match the intent-owned queue id''))
          else (case ri_corruption r of
             Some reason \<Rightarrow> suppressed_gate (settle_revalidation_failure_and_fence lib env latest (Some (qi_queue_id item))
               (FailVisible (''continuation intent ledger is corrupt after its last recoverable state: '' @ reason))
               ''leased continuation ledger corruption failed closed'' now_ms h)
           | None \<Rightarrow> gate_loaded lib env latest intent_key (qi_queue_id item) now_ms h))))"

definition acknowledge_goal_continuation_after_lease :: "continuation_lib \<Rightarrow> continuation_env
    \<Rightarrow> RuntimeQueuePreparedItem \<Rightarrow> int \<Rightarrow> continuation_home
    \<Rightarrow> continuation_home \<times> (io_error + GoalContinuationIntentV1 option)" where
  "acknowledge_goal_continuation_after_lease lib env item now_ms h =
     (case gate_goal_continuation_after_lease lib env item now_ms h of
        (h', Inl e) \<Rightarrow> (h', Inl e)
      | (h', Inr NotContinuation) \<Rightarrow> (h', Inr None)
      | (h', Inr (GateAcknowledged i)) \<Rightarrow> (h', Inr (Some i))
      | (h', Inr (GateSuppressed f)) \<Rightarrow> (h', Inl (IoError PermissionDenied
          (''leased continuation child is durably fenced before execution: '' @ nf_reason f))))"

section \<open>Reconciliation of all intents\<close>

record ReconciliationQuarantine =
  rz_disposition :: string
  rz_error_kind :: string
  rz_record_digest :: string
  rz_record_line :: "u64 option"
  rz_intent_key :: "string option"
  rz_reason :: string

definition quarantine_for_record :: "continuation_lib \<Rightarrow> nat \<Rightarrow> string \<Rightarrow> string option \<Rightarrow> string \<Rightarrow> string
    \<Rightarrow> ReconciliationQuarantine" where
  "quarantine_for_record lib line_number line key kind reason =
     \<lparr>rz_disposition = ''quarantined'', rz_error_kind = kind,
      rz_record_digest = task_sha256_hex (nl_task lib) line, rz_record_line = Some (of_nat line_number),
      rz_intent_key = key, rz_reason = reason\<rparr>"

definition quarantine_for_intent_error :: "continuation_lib \<Rightarrow> GoalContinuationIntentV1 \<Rightarrow> io_error
    \<Rightarrow> ReconciliationQuarantine" where
  "quarantine_for_intent_error lib i e =
     \<lparr>rz_disposition = ''retry-deferred'', rz_error_kind = ''intent-reconciliation-failed'',
      rz_record_digest = task_sha256_hex (nl_task lib) (js_enc (nl_json lib) (nl_intent_to_value lib i)),
      rz_record_line = None, rz_intent_key = Some (ni_intent_key i), rz_reason = io_error_text e\<rparr>"

definition quarantine_receipt :: "continuation_lib \<Rightarrow> ReconciliationQuarantine \<Rightarrow> int
    \<Rightarrow> GoalContinuationReconciliationErrorV1" where
  "quarantine_receipt lib q now_ms =
     \<lparr>nr_schema = GOAL_CONTINUATION_RECONCILIATION_ERROR_SCHEMA,
      nr_error_key = identity_digest lib [''goal-continuation-reconciliation-error-v1'', rz_disposition q,
        rz_error_kind q, rz_record_digest q, unwrap_or (map_option show_u64 (rz_record_line q)) ''none'',
        unwrap_or (rz_intent_key q) ''none''],
      nr_disposition = rz_disposition q, nr_error_kind = rz_error_kind q, nr_record_digest = rz_record_digest q,
      nr_record_line = rz_record_line q, nr_intent_key = rz_intent_key q, nr_reason = rz_reason q,
      nr_observed_at_ms = now_ms\<rparr>"

record reconciliation_scan =
  rx_latest :: "(string \<times> GoalContinuationIntentV1) list"
  rx_blocked :: "string list"
  rx_quarantines :: "ReconciliationQuarantine list"

definition block_record :: "continuation_lib \<Rightarrow> nat \<Rightarrow> string \<Rightarrow> string option \<Rightarrow> string \<Rightarrow> string \<Rightarrow> reconciliation_scan
    \<Rightarrow> reconciliation_scan" where
  "block_record lib line_number line key kind reason r =
     r\<lparr>rx_blocked := (case key of Some k \<Rightarrow> k # rx_blocked r | None \<Rightarrow> rx_blocked r),
       rx_quarantines := rx_quarantines r @ [quarantine_for_record lib line_number line key kind reason]\<rparr>"

definition admit_record :: "continuation_lib \<Rightarrow> continuation_home \<Rightarrow> nat \<Rightarrow> string \<Rightarrow> GoalContinuationIntentV1
    \<Rightarrow> reconciliation_scan \<Rightarrow> reconciliation_scan" where
  "admit_record lib h line_number line i r =
     (case validate_intent_ledger_receipt i of
        Inl reason \<Rightarrow> block_record lib line_number line (Some (ni_intent_key i)) ''invalid-intent'' reason r
      | Inr _ \<Rightarrow>
          if ni_intent_key i \<in> set (rx_blocked r) then r
          else (case map_of (rx_latest r) (ni_intent_key i) of
             None \<Rightarrow> r\<lparr>rx_latest := btree_insert (ni_intent_key i) i (rx_latest r)\<rparr>
           | Some existing \<Rightarrow>
               (case ensure_authorized_intent_ledger_transition lib h existing i of
                  Inl e \<Rightarrow> block_record lib line_number line (Some (ni_intent_key i)) ''intent-collision''
                    (io_error_text e) r
                | Inr _ \<Rightarrow>
                    if \<not> valid_intent_status_transition (ni_status existing) (ni_status i)
                    then block_record lib line_number line (Some (ni_intent_key i)) ''intent-collision''
                      ''continuation intent ledger contains an invalid status transition'' r
                    else r\<lparr>rx_latest := btree_insert (ni_intent_key i) i (rx_latest r)\<rparr>)))"

definition scan_record :: "continuation_lib \<Rightarrow> continuation_home \<Rightarrow> nat \<Rightarrow> string \<Rightarrow> reconciliation_scan
    \<Rightarrow> reconciliation_scan" where
  "scan_record lib h line_number line r =
     (case js_dec (nl_json lib) line of
        None \<Rightarrow> block_record lib line_number line (recover_intent_key_from_malformed_line lib line) ''malformed-json''
          ''continuation intent ledger record is not valid JSON'' r
      | Some v \<Rightarrow>
          let key = (case str_field v ''intentKey'' of Some k \<Rightarrow> if is_blank k then None else Some k | None \<Rightarrow> None);
              schema = str_field v ''schema''
          in if schema \<noteq> Some GOAL_CONTINUATION_INTENT_SCHEMA \<and> schema \<noteq> Some TASK_CONTINUATION_INTENT_SCHEMA
             then block_record lib line_number line key ''unsupported-schema''
               ''continuation intent ledger record has no supported schema'' r
             else (case nl_intent_from_value lib v of
                None \<Rightarrow> block_record lib line_number line key ''malformed-intent''
                  ''continuation intent ledger record is invalid'' r
              | Some i \<Rightarrow> admit_record lib h line_number line i r))"

fun scan_records :: "continuation_lib \<Rightarrow> continuation_home \<Rightarrow> nat \<Rightarrow> string list \<Rightarrow> reconciliation_scan
    \<Rightarrow> reconciliation_scan" where
  "scan_records lib h index [] r = r"
| "scan_records lib h index (line # lines) r =
     scan_records lib h (index + 1) lines (if is_blank line then r else scan_record lib h (index + 1) line r)"

definition latest_intents_for_reconciliation :: "continuation_lib \<Rightarrow> continuation_home \<Rightarrow> reconciliation_scan" where
  "latest_intents_for_reconciliation lib h = scan_records lib h 0 (text_lines (nh_intents h))
     \<lparr>rx_latest = [], rx_blocked = [], rx_quarantines = []\<rparr>"

definition append_reconciliation_error_once :: "continuation_lib \<Rightarrow> GoalContinuationReconciliationErrorV1
    \<Rightarrow> continuation_home \<Rightarrow> continuation_home" where
  "append_reconciliation_error_once lib e h =
     (if list_ex (\<lambda>line. case js_dec (nl_json lib) line of
          Some v \<Rightarrow> str_field v ''errorKey'' = Some (nr_error_key e) | None \<Rightarrow> False) (text_lines (nh_errors h))
      then h
      else h\<lparr>nh_errors := append_jsonl_value (js_enc (nl_json lib)) (nl_error_to_value lib e) (nh_errors h)\<rparr>)"

text \<open>
  The loop over the open intents. What the environment answers may differ from intent to intent: \<open>env\<close>
  is given the key.
\<close>

fun reconcile_open_intents :: "continuation_lib \<Rightarrow> (string \<Rightarrow> continuation_env) \<Rightarrow> int \<Rightarrow> GoalContinuationIntentV1 list
    \<Rightarrow> continuation_home \<Rightarrow> continuation_home \<times> GoalContinuationIntentV1 list" where
  "reconcile_open_intents lib env now_ms [] h = (h, [])"
| "reconcile_open_intents lib env now_ms (i # is) h =
     (if \<not> intent_open i then reconcile_open_intents lib env now_ms is h
      else case reconcile_one_goal_continuation_intent lib (env (ni_intent_key i)) (ni_intent_key i) now_ms h of
        (h', Inl e) \<Rightarrow> reconcile_open_intents lib env now_ms is
          (append_reconciliation_error_once lib (quarantine_receipt lib (quarantine_for_intent_error lib i e) now_ms) h')
      | (h', Inr (OutcomeFenced _)) \<Rightarrow> reconcile_open_intents lib env now_ms is h'
      | (h', Inr (OutcomeIntent i')) \<Rightarrow>
          (case reconcile_open_intents lib env now_ms is h' of
             (h'', is') \<Rightarrow> (h'', if i' \<noteq> i then i' # is' else is')))"

definition reconcile_goal_continuation_intents :: "continuation_lib \<Rightarrow> (string \<Rightarrow> continuation_env) \<Rightarrow> int
    \<Rightarrow> continuation_home \<Rightarrow> continuation_home \<times> GoalContinuationIntentV1 list" where
  "reconcile_goal_continuation_intents lib env now_ms h =
     (let r = latest_intents_for_reconciliation lib h;
          h' = fold (\<lambda>q. append_reconciliation_error_once lib (quarantine_receipt lib q now_ms)) (rx_quarantines r) h
      in reconcile_open_intents lib env now_ms (btree_values (rx_latest r)) h')"

section \<open>Readiness for an older binary\<close>

record GoalContinuationDowngradeReadinessV1 =
  dg_schema :: string
  dg_safe_for_legacy_binary :: bool
  dg_open_new_semantics_intent_keys :: "string list"
  dg_fenced_open_intent_keys :: "string list"
  dg_corrupt_recoverable_intent_keys :: "string list"
  dg_blockers :: "string list"

fun fenced_keys :: "continuation_lib \<Rightarrow> continuation_home \<Rightarrow> string list \<Rightarrow> io_error + string list" where
  "fenced_keys lib h [] = Inr []"
| "fenced_keys lib h (k # ks) =
     (case latest_goal_continuation_fence lib h k of
        Inl e \<Rightarrow> Inl e
      | Inr f \<Rightarrow>
          (case fenced_keys lib h ks of Inl e \<Rightarrow> Inl e | Inr ks' \<Rightarrow> Inr (if f \<noteq> None then k # ks' else ks')))"

definition sorted_keys :: "string list \<Rightarrow> string list" where
  "sorted_keys ks = remdups_adj (sort ks)"

definition downgrade_blocker :: "string list \<Rightarrow> string \<Rightarrow> string list" where
  "downgrade_blocker keys message = (if keys = [] then [] else [show_nat (length keys) @ message])"

definition assess_goal_continuation_downgrade_readiness :: "continuation_lib \<Rightarrow> continuation_home
    \<Rightarrow> io_error + GoalContinuationDowngradeReadinessV1" where
  "assess_goal_continuation_downgrade_readiness lib h =
     (let r = latest_intents_for_reconciliation lib h;
          open_intents = filter intent_open (btree_values (rx_latest r));
          open_keys = map ni_intent_key open_intents;
          new_semantics = sorted_keys (map ni_intent_key (filter (\<lambda>i. ni_human_input_generation i \<noteq> None
            \<or> ni_goal_relation_at_commit i \<noteq> None \<or> ni_goal_status_at_commit i \<noteq> None) open_intents));
          corrupt = sorted_keys (filter (\<lambda>k. k \<in> set open_keys) (List.map_filter rz_intent_key (rx_quarantines r)))
      in case fenced_keys lib h open_keys of
           Inl e \<Rightarrow> Inl e
         | Inr fenced_open \<Rightarrow>
             let fenced = sorted_keys fenced_open;
                 blockers = downgrade_blocker new_semantics '' open continuation intent(s) require human-generation/current-authority semantics ignored by the legacy binary''
                   @ downgrade_blocker fenced '' open continuation intent(s) rely on the separate fence overlay ignored by the legacy binary''
                   @ downgrade_blocker corrupt '' recoverable open continuation intent(s) have later ledger corruption that must be settled before downgrade''
             in Inr \<lparr>dg_schema = ''agent-harness.goal-continuation-downgrade-readiness.v1'',
                  dg_safe_for_legacy_binary = (blockers = []),
                  dg_open_new_semantics_intent_keys = new_semantics, dg_fenced_open_intent_keys = fenced,
                  dg_corrupt_recoverable_intent_keys = corrupt, dg_blockers = blockers\<rparr>)"

end
