(* ===== verification/Goal_Continuation_Props.thy ===== *)
theory Goal_Continuation_Props
  imports Goal_Continuation_Ops
begin

text \<open>
  Continuation intents, what the readers give: the generations that \<open>count_generations\<close> counts are the
  messages of the user in the lane, an intent that is read is a valid one of its key, reconstructing
  fields keeps the rest, and a parent that descends from the current lineage does so along acknowledged
  intents of the same authority.
\<close>

section \<open>Messages of the user\<close>

text \<open>A row of the queue that is a message of the user in the lane of the parent, and a row of that lane.\<close>

definition lane_row :: "continuation_lib \<Rightarrow> string list \<Rightarrow> string \<Rightarrow> Value \<Rightarrow> bool" where
  "lane_row lib parent_axes lane v \<longleftrightarrow>
     (case pending_lane_axes v of None \<Rightarrow> False | Some own \<Rightarrow> pending_lane_axes_match own parent_axes)
     \<and> pending_exact_lane_digest lib v = Inr (Some lane)"

definition lane_message :: "continuation_lib \<Rightarrow> string list \<Rightarrow> string \<Rightarrow> Value \<Rightarrow> bool" where
  "lane_message lib parent_axes lane v \<longleftrightarrow> lane_row lib parent_axes lane v \<and> non_continuation_human v"

lemma unat_sat_add_1: "unat c + n < 2 ^ 64 \<Longrightarrow> 0 < n \<Longrightarrow> unat (sat_add c 1) = unat c + 1"
  by (simp add: unat_sat_add)

lemma count_generations_exact:
  assumes "count_generations lib p ax d c par vs = Inr (c', par')" and "unat c + length vs < 2 ^ 64"
  shows "unat c' = unat c + length (filter (lane_message lib ax d) vs)
    \<and> (par' = par \<or> (\<exists>pre v post g. vs = pre @ v # post \<and> str_field v ''queueId'' = Some p \<and> lane_row lib ax d v
         \<and> par' = Some g \<and> unat c' = unat g + length (filter (lane_message lib ax d) post)))"
  using assms
proof (induction vs arbitrary: c par)
  case (Cons v vs)
  let ?c = "if non_continuation_human v then sat_add c 1 else c"
  let ?p = "if str_field v ''queueId'' = Some p then Some ?c else par"
  show ?case
  proof (cases "lane_row lib ax d v")
    case True
    then have run: "count_generations lib p ax d ?c ?p vs = Inr (c', par')"
      using Cons.prems(1) by (auto simp: lane_row_def Let_def split: option.splits)
    have c: "unat ?c = unat c + (if non_continuation_human v then 1 else 0)"
      using unat_sat_add_1 [of c "length (v # vs)"] Cons.prems(2) by simp
    with Cons.prems(2) have "unat ?c + length vs < 2 ^ 64" by simp
    note ih = Cons.IH [OF run this]
    have "lane_message lib ax d v = non_continuation_human v" using True by (simp add: lane_message_def)
    with ih c have "unat c' = unat c + length (filter (lane_message lib ax d) (v # vs))" by simp
    moreover from ih consider "par' = ?p"
      | pre w post g where "vs = pre @ w # post" "str_field w ''queueId'' = Some p" "lane_row lib ax d w"
        "par' = Some g" "unat c' = unat g + length (filter (lane_message lib ax d) post)" by blast
    then have "par' = par \<or> (\<exists>pre w post g. v # vs = pre @ w # post \<and> str_field w ''queueId'' = Some p
        \<and> lane_row lib ax d w \<and> par' = Some g \<and> unat c' = unat g + length (filter (lane_message lib ax d) post))"
    proof cases
      case 1
      then show ?thesis using ih True by (cases "str_field v ''queueId'' = Some p") (auto intro!: exI [of _ "[]"])
    next
      case 2
      then show ?thesis by (intro disjI2 exI [of _ "v # pre"]) auto
    qed
    ultimately show ?thesis by blast
  next
    case False
    then have "count_generations lib p ax d c par vs = Inr (c', par')"
      using Cons.prems(1) by (auto simp: lane_row_def split: option.splits sum.splits if_splits)
    moreover have "unat c + length vs < 2 ^ 64" using Cons.prems(2) by simp
    ultimately have ih: "unat c' = unat c + length (filter (lane_message lib ax d) vs)"
      "par' = par \<or> (\<exists>pre v post g. vs = pre @ v # post \<and> str_field v ''queueId'' = Some p \<and> lane_row lib ax d v
         \<and> par' = Some g \<and> unat c' = unat g + length (filter (lane_message lib ax d) post))"
      using Cons.IH [of c par] by blast+
    from ih(2) have "par' = par \<or> (\<exists>pre w post g. v # vs = pre @ w # post \<and> str_field w ''queueId'' = Some p
        \<and> lane_row lib ax d w \<and> par' = Some g \<and> unat c' = unat g + length (filter (lane_message lib ax d) post))"
      by (metis append_Cons)
    moreover have "\<not> lane_message lib ax d v" using False by (simp add: lane_message_def)
    ultimately show ?thesis using ih(1) by simp
  qed
qed simp

text \<open>When no generation has passed since the parent, no message of the user follows it in the lane.\<close>

lemma no_later_message:
  assumes "human_input_generation_at_parent lib h p d = Inr (g, g)" and "nh_pending h = Some t"
    and "length (pending_values lib t) < 2 ^ 64"
  shows "\<exists>row0 ax pre row post. find (\<lambda>v. str_field v ''queueId'' = Some p) (pending_values lib t) = Some row0
    \<and> pending_lane_axes row0 = Some ax \<and> pending_values lib t = pre @ row # post
    \<and> str_field row ''queueId'' = Some p \<and> lane_row lib ax d row \<and> (\<forall>v \<in> set post. \<not> lane_message lib ax d v)"
proof -
  from assms(1,2) obtain row0 ax where r: "find (\<lambda>v. str_field v ''queueId'' = Some p) (pending_values lib t) = Some row0"
    "pending_lane_axes row0 = Some ax" "count_generations lib p ax d 0 None (pending_values lib t) = Inr (g, Some g)"
    by (auto simp: human_input_generation_at_parent_def Let_def split: option.splits sum.splits if_splits prod.splits)
  from count_generations_exact [OF r(3)] assms(3)
  obtain pre row post where "pending_values lib t = pre @ row # post" "str_field row ''queueId'' = Some p"
    "lane_row lib ax d row" "length (filter (lane_message lib ax d) post) = 0" by auto
  with r(1,2) show ?thesis by (metis filter_empty_conv length_0_conv)
qed

lemma current_generation_ge:
  assumes "human_input_generation_at_parent lib h p d = Inr (g, c)" and "nh_pending h = Some t"
    and "length (pending_values lib t) < 2 ^ 64"
  shows "g \<le> c"
proof -
  from assms(1,2) obtain ax where r: "count_generations lib p ax d 0 None (pending_values lib t) = Inr (c, Some g)"
    by (auto simp: human_input_generation_at_parent_def Let_def split: option.splits sum.splits if_splits prod.splits)
  from count_generations_exact [OF r] assms(3) show ?thesis by (auto simp: word_le_nat_alt)
qed

section \<open>What is relied on of serde\<close>

definition continuation_lib_ok :: "continuation_lib \<Rightarrow> bool" where
  "continuation_lib_ok lib \<longleftrightarrow>
     (\<forall>i. codec_ok (js_enc (nl_json lib)) (js_dec (nl_json lib)) (nl_intent_to_value lib i)
        \<and> nl_intent_from_value lib (nl_intent_to_value lib i) = Some i)
     \<and> (\<forall>f. codec_ok (js_enc (nl_json lib)) (js_dec (nl_json lib)) (nl_fence_to_value lib f)
        \<and> nl_fence_from_value lib (nl_fence_to_value lib f) = Some f)
     \<and> (\<forall>v i. nl_intent_from_value lib v = Some i \<longrightarrow> str_field v ''intentKey'' = Some (ni_intent_key i))
     \<and> (\<forall>v f. nl_fence_from_value lib v = Some f \<longrightarrow> str_field v ''intentKey'' = Some (nf_intent_key f))"

section \<open>Reading the intents\<close>

definition readable_intent :: "string \<Rightarrow> GoalContinuationIntentV1 \<Rightarrow> bool" where
  "readable_intent k i \<longleftrightarrow> ni_intent_key i = k \<and> validate_intent_ledger_receipt i = Inr ()
     \<and> (ni_schema i = GOAL_CONTINUATION_INTENT_SCHEMA \<or> ni_schema i = TASK_CONTINUATION_INTENT_SCHEMA)"

lemma read_intent_row_Inr:
  "read_intent_row lib h n latest v = Inr i \<longleftrightarrow>
     nl_intent_from_value lib v = Some i
     \<and> (ni_schema i = GOAL_CONTINUATION_INTENT_SCHEMA \<or> ni_schema i = TASK_CONTINUATION_INTENT_SCHEMA)
     \<and> validate_intent_ledger_receipt i = Inr ()
     \<and> (case latest of None \<Rightarrow> True | Some existing \<Rightarrow>
          ensure_authorized_intent_ledger_transition lib h existing i = Inr ()
          \<and> valid_intent_status_transition (ni_status existing) (ni_status i))"
  by (auto simp: read_intent_row_def split: option.splits sum.splits)

lemma read_intent_lines_readable:
  assumes "continuation_lib_ok lib" and "\<forall>i. ri_latest r = Some i \<longrightarrow> readable_intent k i"
    and "ri_latest (read_intent_lines lib h k n ls r) = Some i"
  shows "readable_intent k i"
  using assms(2,3)
proof (induction ls arbitrary: n r)
  case (Cons l ls)
  have "\<forall>i. ri_latest (read_intent_line lib h k (n + 1) l r) = Some i \<longrightarrow> readable_intent k i"
    using Cons.prems(1) assms(1)
    by (auto simp: read_intent_line_def readable_intent_def read_intent_row_Inr continuation_lib_ok_def
        split: if_splits option.splits sum.splits)
  with Cons.IH Cons.prems(2) show ?case by simp
qed simp

lemma latest_readable:
  "continuation_lib_ok lib \<Longrightarrow> ri_latest (latest_recoverable_intent_for_key lib h k) = Some i \<Longrightarrow> readable_intent k i"
  by (rule read_intent_lines_readable [of lib _ k]) (auto simp: latest_recoverable_intent_for_key_def)

lemma readable_key: "readable_intent k i \<Longrightarrow> ni_intent_key i = k \<and> \<not> is_blank k"
  by (auto simp: readable_intent_def validate_intent_ledger_receipt_def intent_fields_named_def split: option.splits if_splits)

section \<open>The additive fields\<close>

lemma upgrade_generation_same:
  "upgrade_generation lib h i = Inr i' \<Longrightarrow> i' = i\<lparr>ni_human_input_generation := ni_human_input_generation i'\<rparr>
     \<and> legacy_additive_field_compatible (ni_human_input_generation i) (ni_human_input_generation i')"
  by (auto simp: upgrade_generation_def legacy_additive_field_compatible_def split: if_splits sum.splits)

lemma upgrade_goal_fields_same:
  "upgrade_goal_fields lib h i = Inr i' \<Longrightarrow> i' = i\<lparr>ni_goal_relation_at_commit := ni_goal_relation_at_commit i',
       ni_goal_status_at_commit := ni_goal_status_at_commit i'\<rparr>
     \<and> legacy_additive_field_compatible (ni_goal_relation_at_commit i) (ni_goal_relation_at_commit i')
     \<and> legacy_additive_field_compatible (ni_goal_status_at_commit i) (ni_goal_status_at_commit i')"
  by (auto simp: upgrade_goal_fields_def legacy_additive_field_compatible_def split: if_splits sum.splits)

lemma upgrade_same:
  assumes "upgrade_open_legacy_intent lib h i = Inr (i', c)"
  shows "i' = i\<lparr>ni_human_input_generation := ni_human_input_generation i',
      ni_goal_relation_at_commit := ni_goal_relation_at_commit i',
      ni_goal_status_at_commit := ni_goal_status_at_commit i'\<rparr> \<and> same_intent i i'
    \<and> ni_status i' = ni_status i \<and> ni_child_queue_id i' = ni_child_queue_id i"
proof (cases "\<not> intent_open i \<or> \<not> legacy_intent_missing_additive_fields i")
  case True
  with assms show ?thesis
    by (simp add: upgrade_open_legacy_intent_def same_intent_def legacy_additive_field_compatible_def)
next
  case False
  with assms obtain i1 where 1: "upgrade_generation lib h i = Inr i1" and 2: "upgrade_goal_fields lib h i1 = Inr i'"
    by (auto simp: upgrade_open_legacy_intent_def split: sum.splits)
  obtain g where i1: "i1 = i\<lparr>ni_human_input_generation := g\<rparr>"
    "legacy_additive_field_compatible (ni_human_input_generation i) g"
    using upgrade_generation_same [OF 1] by blast
  obtain r st where i': "i' = i1\<lparr>ni_goal_relation_at_commit := r, ni_goal_status_at_commit := st\<rparr>"
    "legacy_additive_field_compatible (ni_goal_relation_at_commit i1) r"
    "legacy_additive_field_compatible (ni_goal_status_at_commit i1) st"
    using upgrade_goal_fields_same [OF 2] by blast
  from i1 i' show ?thesis by (simp add: same_intent_def)
qed

section \<open>What a revalidated intent rests on\<close>

text \<open>
  From the parent of an intent back to the queue item of the lineage: each run was the child of an
  acknowledged intent with the same authority, and the slices count down one by one.
\<close>

inductive acknowledged_chain :: "continuation_lib \<Rightarrow> continuation_home \<Rightarrow> GoalContinuationIntentV1 \<Rightarrow> string \<Rightarrow> string
    \<Rightarrow> u64 \<Rightarrow> bool" for lib h i current where
  here: "acknowledged_chain lib h i current current g"
| step: "latest_recoverable_intent_for_key lib h key = \<lparr>ri_latest = Some prior, ri_corruption = None\<rparr>
    \<Longrightarrow> exact_prior_authority i child (ni_parent_queue_id prior) g prior
    \<Longrightarrow> acknowledged_chain lib h i current (ni_parent_queue_id prior) (ni_source_slice_generation prior)
    \<Longrightarrow> acknowledged_chain lib h i current child g"

lemma descend_chain:
  "descend lib h i rows current visited d g = Inr True \<Longrightarrow> acknowledged_chain lib h i current d g"
proof (induction lib h i rows current visited d g rule: descend.induct)
  case (1 lib h i rows current visited d g)
  show ?case
  proof (cases "d = current")
    case True
    then show ?thesis by (simp add: here)
  next
    case False
    with 1(2) have v: "d \<notin> set visited" by (auto simp: descend.simps split: if_splits)
    from 1(2) False v obtain q row where rows: "filter (\<lambda>(q, v). q = d) rows = [(q, row)]"
      by (subst (asm) descend.simps) (auto split: list.splits prod.splits)
    from 1(2) False v rows obtain parent prior where p: "prior_intent lib h d row = Inr (parent, prior)"
      "exact_prior_authority i d parent g prior"
      "descend lib h i rows current (d # visited) (ni_parent_queue_id prior) (ni_source_slice_generation prior) = Inr True"
      by (subst (asm) descend.simps) (auto split: sum.splits if_splits)
    have chain: "acknowledged_chain lib h i current (ni_parent_queue_id prior) (ni_source_slice_generation prior)"
      using 1(1) [OF False v rows refl refl p(1) refl] p(2,3) by simp
    from p(1) obtain key where "latest_recoverable_intent_for_key lib h key = \<lparr>ri_latest = Some prior, ri_corruption = None\<rparr>"
      by (cases "latest_recoverable_intent_for_key lib h (the (nonempty_field row ''continuationIntentKey''))")
        (auto simp: prior_intent_def Let_def split: option.splits)
    moreover have "parent = ni_parent_queue_id prior" using p(2) by (simp add: exact_prior_authority_def)
    ultimately show ?thesis using p(2) chain by (auto intro: step)
  qed
qed

definition goal_authority_current :: "continuation_lib \<Rightarrow> continuation_home \<Rightarrow> GoalContinuationIntentV1 \<Rightarrow> bool" where
  "goal_authority_current lib h i \<longleftrightarrow>
     (let report = run_goal_lineage_doctor (nl_lineage lib) (Some (ni_lane_digest i)) (Some (ni_virtual_session_id i))
            (nh_lineage h) in
      lr_status report = DoctorReady
      \<and> (\<exists>current root. filter (\<lambda>l. gl_lineage_id l = ni_lineage_id i) (lr_lineages report) = [current]
          \<and> exact_lineage i current \<and> lineage_running current
          \<and> (\<forall>l \<in> set (lr_lineages report). gl_runnable l \<longrightarrow> gl_lineage_id l = ni_lineage_id i)
          \<and> gl_queue_id current = Some root
          \<and> acknowledged_chain lib h i root (ni_parent_queue_id i) (ni_source_slice_generation i)
          \<and> (\<forall>line \<in> set (text_lines (hm_closure_intents (nh_closures h))). \<forall>c.
               \<not> is_blank line \<longrightarrow> decode_row (cl_json (nl_closure lib)) (cl_intent (nl_closure lib)) line = Some c
               \<longrightarrow> \<not> closure_supersedes i current c))
      \<and> (\<exists>a. load_goal_autonomy_activation_for_exact_goal lib h (Some (ni_lane_digest i)) True = Inr a
          \<and> ga_mode a = AutonomyActive))"

lemma closure_breaker_False:
  "closure_breaker_lines lib i current n ls = Inr False \<Longrightarrow> line \<in> set ls \<Longrightarrow> \<not> is_blank line
    \<Longrightarrow> decode_row (cl_json (nl_closure lib)) (cl_intent (nl_closure lib)) line = Some c \<Longrightarrow> \<not> closure_supersedes i current c"
  by (induction ls arbitrary: n) (auto split: if_splits option.splits sum.splits)

lemma parent_descends_chain:
  "goal_parent_descends_from_current_lineage lib h i q = Inr True \<Longrightarrow>
    \<exists>root. q = Some root \<and> acknowledged_chain lib h i root (ni_parent_queue_id i) (ni_source_slice_generation i)"
  by (auto simp: goal_parent_descends_from_current_lineage_def split: option.splits if_splits
      intro: here descend_chain)

lemma revalidate_goal_current:
  assumes "check_goal_authority lib h i = Inr ()"
  shows "goal_authority_current lib h i \<and> goal_intent_has_exact_current_authority i"
proof -
  let ?report = "run_goal_lineage_doctor (nl_lineage lib) (Some (ni_lane_digest i)) (Some (ni_virtual_session_id i))
    (nh_lineage h)"
  from assms obtain a where a: "goal_intent_has_exact_current_authority i" "revalidate_current_goal_authority lib h i = Inr ()"
    "load_goal_autonomy_activation_for_exact_goal lib h (Some (ni_lane_digest i)) True = Inr a" "ga_mode a = AutonomyActive"
    by (auto simp: check_goal_authority_def split: if_splits sum.splits)
  from a(2) obtain current where c: "lr_status ?report = DoctorReady"
    "filter (\<lambda>l. gl_lineage_id l = ni_lineage_id i) (lr_lineages ?report) = [current]"
    "revalidate_lineage lib h i ?report current = Inr ()"
    by (auto simp: revalidate_current_goal_authority_def Let_def split: GoalLineageDoctorStatus.splits list.splits)
  from c(3) have l: "exact_lineage i current" "lineage_running current"
    "goal_parent_descends_from_current_lineage lib h i (gl_queue_id current) = Inr True"
    "\<not> list_ex (\<lambda>l. gl_runnable l \<and> gl_lineage_id l \<noteq> ni_lineage_id i) (lr_lineages ?report)"
    "exact_goal_closure_breaker lib h i current = Inr False"
    by (auto simp: revalidate_lineage_def split: if_splits sum.splits option.splits)
  from parent_descends_chain [OF l(3)] obtain root where
    "gl_queue_id current = Some root" "acknowledged_chain lib h i root (ni_parent_queue_id i) (ni_source_slice_generation i)"
    by blast
  moreover have "\<forall>l \<in> set (lr_lineages ?report). gl_runnable l \<longrightarrow> gl_lineage_id l = ni_lineage_id i"
    using l(4) by (auto simp: list_ex_iff)
  moreover have "\<forall>line \<in> set (text_lines (hm_closure_intents (nh_closures h))). \<forall>c. \<not> is_blank line \<longrightarrow>
      decode_row (cl_json (nl_closure lib)) (cl_intent (nl_closure lib)) line = Some c \<longrightarrow> \<not> closure_supersedes i current c"
    using closure_breaker_False [OF l(5) [unfolded exact_goal_closure_breaker_def]] by blast
  ultimately show ?thesis using a c(1,2) l(1,2) unfolding goal_authority_current_def Let_def by blast
qed

end
