(* ===== verification/Goal_Continuation_Fences.thy ===== *)
theory Goal_Continuation_Fences
  imports Goal_Continuation_Props Task_Family_Props
begin

text \<open>
  Continuation intents, the gate and the fences: what holds when the gate lets a child pass, and that every
  operation keeps every fence. The latter is the law of the locale \<open>create_once\<close>, interpreted here on
  the ledger of fences with the operations as the steps.
\<close>

section \<open>Passing the gate\<close>

text \<open>
  The authority of a task: the snapshot of the intent passes against the plans and families as they are, for the
  session of the intent and the agent of the parent's row.
\<close>

definition task_authority_current :: "continuation_lib \<Rightarrow> continuation_home \<Rightarrow> GoalContinuationIntentV1 \<Rightarrow> bool" where
  "task_authority_current lib h i \<longleftrightarrow>
     (\<exists>t row lane sn. nh_pending h = Some t
        \<and> find (\<lambda>v. str_field v ''queueId'' = Some (ni_parent_queue_id i)) (pending_values lib t) = Some row
        \<and> parent_channel_lane row = Inr lane \<and> intent_snapshot i = Inr sn
        \<and> revalidate_continuation_snapshot (nl_task lib) (nh_tasks h) sn (ni_working_session_key i) (sl_agent_id lane)
            = Inr ())"

definition authority_current :: "continuation_lib \<Rightarrow> continuation_home \<Rightarrow> GoalContinuationIntentV1 \<Rightarrow> bool" where
  "authority_current lib h i \<longleftrightarrow>
     (if ni_schema i = TASK_CONTINUATION_INTENT_SCHEMA then task_authority_current lib h i
      else goal_authority_current lib h i)"

text \<open>The parent stands in the queue, and no message of the user follows it in its lane.\<close>

definition no_newer_message :: "continuation_lib \<Rightarrow> string \<Rightarrow> GoalContinuationIntentV1 \<Rightarrow> bool" where
  "no_newer_message lib t i \<longleftrightarrow>
     (\<exists>row0 ax pre row post. find (\<lambda>v. str_field v ''queueId'' = Some (ni_parent_queue_id i)) (pending_values lib t) = Some row0
        \<and> pending_lane_axes row0 = Some ax \<and> pending_values lib t = pre @ row # post
        \<and> str_field row ''queueId'' = Some (ni_parent_queue_id i) \<and> lane_row lib ax (ni_lane_digest i) row
        \<and> (\<forall>v \<in> set post. \<not> lane_message lib ax (ni_lane_digest i) v))"

lemma validated_intent:
  assumes "validate_parent_lane_for_intent lib h i = Inr ()" and "nh_pending h = Some t"
    and "length (pending_values lib t) < 2 ^ 64"
  shows "no_newer_message lib t i \<and> authority_current lib h i"
proof -
  from assms(1,2) obtain row lane where v: "check_human_generation lib h i = Inr ()"
    "if ni_schema i = TASK_CONTINUATION_INTENT_SCHEMA
     then check_task_authority lib h i (ni_working_session_key i) (sl_agent_id lane) = Inr ()
     else check_goal_authority lib h i = Inr ()"
    "find (\<lambda>v. str_field v ''queueId'' = Some (ni_parent_queue_id i)) (pending_values lib t) = Some row"
    "parent_channel_lane row = Inr lane"
    by (auto simp: validate_parent_lane_for_intent_def split: option.splits sum.splits if_splits)
  from v(1) obtain g c where g: "human_input_generation_at_parent lib h (ni_parent_queue_id i) (ni_lane_digest i) = Inr (g, c)"
    "\<not> g < c" by (auto simp: check_human_generation_def split: option.splits sum.splits if_splits)
  with current_generation_ge [OF g(1) assms(2,3)] have "c = g" by simp
  with no_later_message [OF _ assms(2,3)] g(1) have "no_newer_message lib t i" by (simp add: no_newer_message_def)
  moreover have "authority_current lib h i"
    using v(2-4) assms(2) revalidate_goal_current [of lib h i]
    by (auto simp: authority_current_def task_authority_current_def check_task_authority_def split: if_splits sum.splits)
  ultimately show ?thesis by blast
qed

lemma upgrade_durably_Inr:
  assumes "upgrade_durably lib env latest child r b now h = (h1, Inr j)"
  shows "h1 = h\<lparr>nh_intents := nh_intents h1\<rparr> \<and> same_intent latest j \<and> ni_status j = ni_status latest"
proof (cases "upgrade_open_legacy_intent lib h latest")
  case (Inl f)
  with assms show ?thesis by (simp add: upgrade_durably_def split: prod.splits)
next
  case (Inr uc)
  obtain u c where uc: "uc = (u, c)" by fastforce
  note u = upgrade_same [OF Inr [unfolded uc]]
  show ?thesis
  proof (cases c)
    case True
    with assms Inr uc u show ?thesis
      by (auto simp: upgrade_durably_def append_intent_state_def append_intent_def Let_def same_intent_def)
  next
    case False
    with assms Inr uc show ?thesis
      by (auto simp: upgrade_durably_def same_intent_def legacy_additive_field_compatible_def)
  qed
qed

text \<open>Only the ledger of a legacy intent grows before the authority is looked at, by the one row that completes it.\<close>

lemma upgrade_durably_home:
  assumes "upgrade_durably lib env latest child r b now h = (h1, Inr j)"
  shows "h1 = h \<and> j = latest
    \<or> intent_open latest \<and> legacy_intent_missing_additive_fields latest \<and> h1 = append_intent lib j h
      \<and> same_intent latest j
      \<and> j = latest\<lparr>ni_human_input_generation := ni_human_input_generation j,
          ni_goal_relation_at_commit := ni_goal_relation_at_commit j,
          ni_goal_status_at_commit := ni_goal_status_at_commit j, ni_reason := r, ni_observed_at_ms := now\<rparr>"
proof (cases "upgrade_open_legacy_intent lib h latest")
  case (Inl f)
  with assms show ?thesis by (simp add: upgrade_durably_def split: prod.splits)
next
  case (Inr uc)
  obtain u c where uc: "uc = (u, c)" by fastforce
  show ?thesis
  proof (cases c)
    case False
    with assms Inr uc show ?thesis by (simp add: upgrade_durably_def)
  next
    case True
    then have "intent_open latest" "legacy_intent_missing_additive_fields latest"
      using Inr uc by (auto simp: upgrade_open_legacy_intent_def split: if_splits)
    moreover obtain x y z where u: "u = latest\<lparr>ni_human_input_generation := x, ni_goal_relation_at_commit := y,
        ni_goal_status_at_commit := z\<rparr>" and "same_intent latest u"
      using upgrade_same [OF Inr [unfolded uc]] by blast
    moreover have j: "h1 = append_intent lib j h" "j = u\<lparr>ni_reason := r, ni_observed_at_ms := now\<rparr>"
      using assms Inr uc True by (auto simp: upgrade_durably_def append_intent_state_def Let_def)
    ultimately show ?thesis by (simp add: same_intent_def)
  qed
qed

lemma acknowledge_intent_fields:
  "acknowledge_intent lib j q now h = (h', i) \<Longrightarrow> i = j\<lparr>ni_status := IntentAcknowledged,
     ni_child_queue_id := ni_child_queue_id i, ni_reason := ni_reason i, ni_observed_at_ms := ni_observed_at_ms i\<rparr>"
  by (auto simp: acknowledge_intent_def append_intent_state_def Let_def split: if_splits)

lemma acknowledge_intent_same:
  "acknowledge_intent lib j q now h = (h', i) \<Longrightarrow> same_intent j i \<and> ni_status i = IntentAcknowledged
     \<and> ni_schema i = ni_schema j"
  by (auto simp: acknowledge_intent_def append_intent_state_def Let_def same_intent_def
      legacy_additive_field_compatible_def split: if_splits)

lemma not_acknowledged [simp]:
  "suppressed_gate r \<noteq> (h', Inr (GateAcknowledged i))" "fenced_outcome r \<noteq> (h', Inr (OutcomeIntent i))"
  by (auto simp: suppressed_gate_def fenced_outcome_def split: prod.splits sum.splits)

lemma gate_revalidated_acknowledged:
  "gate_revalidated lib env j q now h1 = (h', Inr (GateAcknowledged i)) \<longleftrightarrow>
     validate_parent_lane_for_intent lib h1 j = Inr () \<and> ne_terminal_control env = Inr None
     \<and> acknowledge_intent lib j q now h1 = (h', i)"
  by (auto simp: gate_revalidated_def split: sum.splits option.splits prod.splits)

lemma gate_loaded_acknowledged:
  "gate_loaded lib env latest k q now h = (h', Inr (GateAcknowledged i)) \<longleftrightarrow>
     latest_goal_continuation_fence lib h k = Inr None
     \<and> (\<exists>h1 j. upgrade_durably lib env latest (Some q)
            ''legacy v1 continuation additive fields reconstructed at the lease boundary''
            ''leased legacy continuation upgrade failed closed'' now h = (h1, Inr j)
          \<and> gate_revalidated lib env j q now h1 = (h', Inr (GateAcknowledged i)))"
  by (auto simp: gate_loaded_def split: sum.splits option.splits prod.splits)

lemma gate_acknowledged:
  assumes "gate_goal_continuation_after_lease lib env item now h = (h', Inr (GateAcknowledged i))"
  obtains k latest where "qi_continuation_intent_key item = Some k"
    "latest_recoverable_intent_for_key lib h k = \<lparr>ri_latest = Some latest, ri_corruption = None\<rparr>"
    "owned_child lib h latest k (qi_queue_id item) = Inr True"
    "gate_loaded lib env latest k (qi_queue_id item) now h = (h', Inr (GateAcknowledged i))"
proof -
  from assms obtain k where k: "qi_continuation_intent_key item = Some k"
    by (auto simp: gate_goal_continuation_after_lease_def split: option.splits)
  show ?thesis
  proof (cases "latest_recoverable_intent_for_key lib h k")
    case (fields l c)
    with assms k that show ?thesis
      by (auto simp: gate_goal_continuation_after_lease_def Let_def split: option.splits sum.splits if_splits)
  qed
qed

section \<open>Fences\<close>

lemma read_fence_lines_append:
  "read_fence_lines lib k n (ls @ ms) l =
     (case read_fence_lines lib k n ls l of Inl e \<Rightarrow> Inl e | Inr l' \<Rightarrow> read_fence_lines lib k (n + length ls) ms l')"
  by (induction ls arbitrary: n l) (auto split: option.splits sum.splits)

lemma read_fence_lines_made:
  assumes "continuation_lib_ok lib" and "read_fence_lines lib k n ls l = Inr (Some f)"
    and "\<forall>g. l = Some g \<longrightarrow> nf_intent_key g = k \<and> fence_ok g"
  shows "nf_intent_key f = k \<and> fence_ok f"
  using assms(2,3)
proof (induction ls arbitrary: n l)
  case (Cons line ls)
  have key: "nl_fence_from_value lib v = Some g \<Longrightarrow> str_field v ''intentKey'' = Some (nf_intent_key g)" for v g
    using assms(1) by (simp add: continuation_lib_ok_def)
  from Cons.prems(1) consider "read_fence_lines lib k (n + 1) ls l = Inr (Some f)"
    | v g where "str_field v ''intentKey'' = Some k" "nl_fence_from_value lib v = Some g" "fence_ok g"
      "read_fence_lines lib k (n + 1) ls (Some g) = Inr (Some f)"
    by (auto split: if_splits option.splits)
  then show ?case
  proof cases
    case 1
    then show ?thesis using Cons.IH Cons.prems(2) by blast
  next
    case 2
    then show ?thesis using Cons.IH [OF 2(4)] key [OF 2(2)] by simp
  qed
qed simp

lemma read_fence_row:
  assumes "continuation_lib_ok lib"
  shows "read_fence_lines lib k n [js_enc (nl_json lib) (nl_fence_to_value lib f)] l =
    (if nf_intent_key f \<noteq> k then Inr l
     else if fence_ok f then Inr (Some f)
     else Inl (invalid_data (''invalid target continuation fence at line '' @ show_nat (n + 1))))"
  using assms by (auto simp: continuation_lib_ok_def codec_ok_def okr_line_def)

lemma latest_fence_append:
  assumes "continuation_lib_ok lib" and "okf_text (nh_fences h)"
  shows "latest_goal_continuation_fence lib
      (h\<lparr>nh_fences := append_jsonl_value (js_enc (nl_json lib)) (nl_fence_to_value lib f) (nh_fences h)\<rparr>) k =
    (case latest_goal_continuation_fence lib h k of
       Inl e \<Rightarrow> Inl e
     | Inr l \<Rightarrow> if nf_intent_key f \<noteq> k then Inr l
         else if fence_ok f then Inr (Some f)
         else Inl (invalid_data (''invalid target continuation fence at line ''
           @ show_nat (length (text_lines (nh_fences h)) + 1))))"
proof -
  have "okr_line (js_enc (nl_json lib) (nl_fence_to_value lib f))"
    using assms(1) by (simp add: continuation_lib_ok_def codec_ok_def)
  then show ?thesis
    unfolding latest_goal_continuation_fence_def
    by (simp add: append_jsonl_value_def text_lines_append_jsonl_line assms(2) read_fence_lines_append
        read_fence_row [OF assms(1)] del: read_fence_lines.simps split: sum.split)
qed

text \<open>The fence of an intent, when the ledger can be read.\<close>

definition fence_seen :: "continuation_lib \<Rightarrow> continuation_home \<Rightarrow> string \<Rightarrow> GoalContinuationFenceV1 option" where
  "fence_seen lib h k =
     (if continuation_lib_ok lib \<and> okf_text (nh_fences h)
      then case latest_goal_continuation_fence lib h k of Inr (Some f) \<Rightarrow> Some f | _ \<Rightarrow> None
      else None)"

lemma fence_seen_Some:
  "fence_seen lib h k = Some f \<longleftrightarrow> continuation_lib_ok lib \<and> okf_text (nh_fences h)
     \<and> latest_goal_continuation_fence lib h k = Inr (Some f)"
  by (auto simp: fence_seen_def split: sum.splits option.splits)

lemma fence_seen_made: "fence_seen lib h k = Some f \<Longrightarrow> nf_intent_key f = k \<and> fence_ok f"
  using read_fence_lines_made [of lib k 0 "text_lines (nh_fences h)" None f]
  by (simp add: fence_seen_Some latest_goal_continuation_fence_def)

text \<open>What any of the operations does to the fences: every fence stays.\<close>

definition fences_kept :: "continuation_lib \<Rightarrow> continuation_home \<Rightarrow> continuation_home \<Rightarrow> bool" where
  "fences_kept lib h h' \<longleftrightarrow> (\<forall>k f. fence_seen lib h k = Some f \<longrightarrow> fence_seen lib h' k = Some f)"

named_theorems fence_keeping "operations that keep every fence"

lemma fences_kept_trans: "fences_kept lib h h' \<Longrightarrow> fences_kept lib h' h'' \<Longrightarrow> fences_kept lib h h''"
  by (simp add: fences_kept_def)

lemma same_fences_kept: "nh_fences h' = nh_fences h \<Longrightarrow> fences_kept lib h h'"
  by (simp add: fences_kept_def fence_seen_Some latest_goal_continuation_fence_def)

lemma okf_append_jsonl: "okf_text (append_jsonl_value enc v t)"
  by (simp add: append_jsonl_value_def append_jsonl_line_def okf_text_def nl_def cr_def)

lemma append_fence_kept [fence_keeping]:
  "append_goal_continuation_fence_once lib i c r now h = (h', x) \<Longrightarrow> fences_kept lib h h'"
proof -
  assume a: "append_goal_continuation_fence_once lib i c r now h = (h', x)"
  let ?f = "continuation_fence lib i c r now"
  show ?thesis
  proof (cases "latest_goal_continuation_fence lib h (ni_intent_key i) = Inr None")
    case True
    with a have h': "h' = h\<lparr>nh_fences := append_jsonl_value (js_enc (nl_json lib)) (nl_fence_to_value lib ?f) (nh_fences h)\<rparr>"
      by (simp add: append_goal_continuation_fence_once_def Let_def)
    have "nf_intent_key ?f = ni_intent_key i" by (simp add: continuation_fence_def)
    then show ?thesis
      using True unfolding fences_kept_def fence_seen_Some h' by (auto simp: latest_fence_append okf_append_jsonl)
  next
    case False
    with a have "h' = h" by (auto simp: append_goal_continuation_fence_once_def Let_def split: sum.splits option.splits)
    then show ?thesis by (simp add: same_fences_kept)
  qed
qed

lemma quarantine_same [simp]:
  "nh_fences (quarantine_child c r now h) = nh_fences h" "nh_fences (quarantine_fenced_child q r now h) = nh_fences h"
  "nh_fences (write_runtime_queue_quarantine_marker q r now h) = nh_fences h"
  by (simp_all add: quarantine_child_def quarantine_fenced_child_def write_runtime_queue_quarantine_marker_def split: option.split)

lemma settlement_same: "record_continuation_settlement_once lib env i kind r now h = (h', x) \<Longrightarrow> nh_fences h' = nh_fences h"
  by (auto simp: record_continuation_settlement_once_def Let_def split: if_splits sum.splits)

lemma settle_kept [fence_keeping]:
  assumes "settle_revalidation_failure_and_fence lib env i c failure b now h = (h', x)"
  shows "fences_kept lib h h'"
proof (cases "record_continuation_settlement_once lib env i (the (from_revalidation_failure failure))
    (failure_reason failure) now (quarantine_child c (failure_reason failure) now h)")
  case (Pair h1 y)
  then have h1: "nh_fences h1 = nh_fences h" by (auto dest: settlement_same)
  show ?thesis
  proof (cases "\<exists>e. failure = RetryLater e")
    case True
    with assms show ?thesis by (auto simp: settle_revalidation_failure_and_fence_def intro: same_fences_kept)
  next
    case False
    then obtain kind where "from_revalidation_failure failure = Some kind" by (cases failure) auto
    with assms Pair False h1 show ?thesis
      by (cases y; cases failure) (auto simp: settle_revalidation_failure_and_fence_def Let_def
          intro: same_fences_kept fences_kept_trans [OF same_fences_kept append_fence_kept])
  qed
qed

lemma preexisting_same: "ensure_preexisting_fence_is_settled lib env i f now h = (h', x) \<Longrightarrow> nh_fences h' = nh_fences h"
  by (auto simp: ensure_preexisting_fence_is_settled_def split: if_splits prod.splits sum.splits dest: settlement_same)

lemma append_intent_same [simp]:
  "nh_fences (append_intent lib i h) = nh_fences h" "nh_fences (fst (append_intent_state lib i s c r now h)) = nh_fences h"
  by (simp_all add: append_intent_def append_intent_state_def Let_def)

lemma upgrade_durably_kept [fence_keeping]:
  "upgrade_durably lib env i c r b now h = (h', x) \<Longrightarrow> fences_kept lib h h'"
  by (auto simp: upgrade_durably_def append_intent_state_def Let_def intro: same_fences_kept fence_keeping
      split: sum.splits prod.splits bool.splits)

lemma wrapped_kept [fence_keeping]:
  "fenced_outcome r = (h', x) \<Longrightarrow> fences_kept lib h (fst r) \<Longrightarrow> fences_kept lib h h'"
  "suppressed_gate r = (h', y) \<Longrightarrow> fences_kept lib h (fst r) \<Longrightarrow> fences_kept lib h h'"
  by (auto simp: fenced_outcome_def suppressed_gate_def split: prod.splits sum.splits)

lemma settle_kept_fst: "fences_kept lib h (fst (settle_revalidation_failure_and_fence lib env i c failure b now h))"
  by (cases "settle_revalidation_failure_and_fence lib env i c failure b now h") (simp add: settle_kept)

lemma enqueue_child_kept [fence_keeping]:
  "enqueue_child lib env i now h = (h', x) \<Longrightarrow> fences_kept lib h h'"
  by (rule same_fences_kept)
    (auto simp: enqueue_child_def append_intent_state_def Let_def split: sum.splits prod.splits)

lemma ensure_revalidated_kept [fence_keeping]:
  "ensure_revalidated_intent_enqueued lib env i d now h = (h', x) \<Longrightarrow> fences_kept lib h h'"
  by (auto simp: ensure_revalidated_intent_enqueued_def append_intent_state_def Let_def
      intro: same_fences_kept enqueue_child_kept wrapped_kept settle_kept_fst split: sum.splits option.splits if_splits)

lemma wrapped_home:
  "fenced_outcome (h1, r) = (h', x) \<Longrightarrow> h' = h1" "suppressed_gate (h1, r) = (h', y) \<Longrightarrow> h' = h1"
  by (auto simp: fenced_outcome_def suppressed_gate_def split: sum.splits)

lemma ensure_loaded_kept [fence_keeping]:
  "ensure_loaded_goal_continuation_enqueued lib env i now h = (h', x) \<Longrightarrow> fences_kept lib h h'"
  by (auto simp: ensure_loaded_goal_continuation_enqueued_def
      intro: same_fences_kept fences_kept_trans dest!: upgrade_durably_kept ensure_revalidated_kept preexisting_same wrapped_home
      split: sum.splits option.splits if_splits prod.splits)

lemma reconcile_one_kept [fence_keeping]:
  "reconcile_one_goal_continuation_intent lib env k now h = (h', x) \<Longrightarrow> fences_kept lib h h'"
  by (auto simp: reconcile_one_goal_continuation_intent_def Let_def
      intro: same_fences_kept ensure_loaded_kept wrapped_kept settle_kept_fst split: sum.splits option.splits)

lemma ensure_kept [fence_keeping]:
  "ensure_goal_continuation_enqueued lib env k now h = (h', x) \<Longrightarrow> fences_kept lib h h'"
  by (auto simp: ensure_goal_continuation_enqueued_def intro: reconcile_one_kept
      split: prod.splits sum.splits EnsureGoalContinuationOutcome.splits)

lemma acknowledge_kept: "acknowledge_intent lib i q now h = (h', x) \<Longrightarrow> fences_kept lib h h'"
  by (rule same_fences_kept) (auto simp: acknowledge_intent_def append_intent_state_def Let_def split: if_splits)

lemma gate_revalidated_kept [fence_keeping]:
  "gate_revalidated lib env i q now h = (h', x) \<Longrightarrow> fences_kept lib h h'"
  by (auto simp: gate_revalidated_def intro: same_fences_kept wrapped_kept settle_kept_fst acknowledge_kept
      split: sum.splits option.splits prod.splits)

lemma gate_loaded_kept [fence_keeping]:
  "gate_loaded lib env i k q now h = (h', x) \<Longrightarrow> fences_kept lib h h'"
  by (auto simp: gate_loaded_def
      intro: same_fences_kept fences_kept_trans dest!: upgrade_durably_kept gate_revalidated_kept preexisting_same wrapped_home
      split: sum.splits option.splits prod.splits)

lemma gate_kept [fence_keeping]:
  "gate_goal_continuation_after_lease lib env item now h = (h', x) \<Longrightarrow> fences_kept lib h h'"
  by (auto simp: gate_goal_continuation_after_lease_def Let_def
      intro: same_fences_kept wrapped_kept settle_kept_fst gate_loaded_kept split: sum.splits option.splits if_splits)

lemma append_error_same [simp]: "nh_fences (append_reconciliation_error_once lib e h) = nh_fences h"
  by (simp add: append_reconciliation_error_once_def)

lemma fold_errors_same: "nh_fences (fold (\<lambda>q. append_reconciliation_error_once lib (f q)) qs h) = nh_fences h"
  by (induction qs arbitrary: h) simp_all

lemma reconcile_open_kept:
  "reconcile_open_intents lib env now is h = (h', x) \<Longrightarrow> fences_kept lib h h'"
proof (induction "is" arbitrary: h h' x)
  case Nil
  then show ?case by (simp add: same_fences_kept)
next
  case (Cons i "is")
  show ?case
  proof (cases "intent_open i")
    case False
    with Cons show ?thesis by simp
  next
    case True
    obtain h1 r where r: "reconcile_one_goal_continuation_intent lib (env (ni_intent_key i)) (ni_intent_key i) now h = (h1, r)"
      by fastforce
    have "fences_kept lib h1 (append_reconciliation_error_once lib e h1)" for e by (simp add: same_fences_kept)
    moreover have "fences_kept lib h1 h1" by (simp add: same_fences_kept)
    ultimately obtain h2 y where "fences_kept lib h1 h2" "reconcile_open_intents lib env now is h2 = (h', y)"
      using Cons.prems True r by (auto split: sum.splits EnsureGoalContinuationOutcome.splits prod.splits)
    with Cons.IH reconcile_one_kept [OF r] show ?thesis by (blast intro: fences_kept_trans)
  qed
qed

lemma reconcile_kept [fence_keeping]:
  assumes "reconcile_goal_continuation_intents lib env now h = (h', x)"
  shows "fences_kept lib h h'"
proof -
  let ?h = "fold (\<lambda>q. append_reconciliation_error_once lib (quarantine_receipt lib q now))
    (rx_quarantines (latest_intents_for_reconciliation lib h)) h"
  have "fences_kept lib h ?h" by (rule same_fences_kept) (rule fold_errors_same)
  moreover have "fences_kept lib ?h h'"
    using assms by (auto simp: reconcile_goal_continuation_intents_def Let_def dest: reconcile_open_kept)
  ultimately show ?thesis by (rule fences_kept_trans)
qed

lemma commit_intent_kept: "commit_intent lib i h = (h', x) \<Longrightarrow> fences_kept lib h h'"
  by (rule same_fences_kept) (auto simp: commit_intent_def split: sum.splits option.splits)

lemma commit_kept [fence_keeping]:
  "commit_goal_continuation_intent lib r s m now h = (h', x) \<Longrightarrow> fences_kept lib h h'"
  "commit_task_continuation_intent lib p s m a g d b now h = (h', x) \<Longrightarrow> fences_kept lib h h'"
  by (auto simp: commit_goal_continuation_intent_def commit_task_continuation_intent_def
      intro: same_fences_kept commit_intent_kept split: if_splits sum.splits)

section \<open>Sequences of operations\<close>

text \<open>Between the operations the files change in any way, except for the fences.\<close>

datatype continuation_op =
    CommitGoalOp GoalTransitionReceiptV1 string RuntimeContinuationMetadata int
  | CommitTaskOp string string RuntimeContinuationMetadata ContinuationAuthoritySnapshotV1 u64 u64 bool int
  | EnqueueOp continuation_env string int
  | GateOp continuation_env RuntimeQueuePreparedItem int
  | ReconcileOp "string \<Rightarrow> continuation_env" int
  | ElsewhereOp continuation_home

fun continuation_step :: "continuation_lib \<Rightarrow> continuation_op \<Rightarrow> continuation_home \<Rightarrow> continuation_home" where
  "continuation_step lib (CommitGoalOp r s m now) h = fst (commit_goal_continuation_intent lib r s m now h)"
| "continuation_step lib (CommitTaskOp p s m a g d b now) h = fst (commit_task_continuation_intent lib p s m a g d b now h)"
| "continuation_step lib (EnqueueOp env k now) h = fst (ensure_goal_continuation_enqueued lib env k now h)"
| "continuation_step lib (GateOp env item now) h = fst (gate_goal_continuation_after_lease lib env item now h)"
| "continuation_step lib (ReconcileOp env now) h = fst (reconcile_goal_continuation_intents lib env now h)"
| "continuation_step lib (ElsewhereOp h') h = h'\<lparr>nh_fences := nh_fences h\<rparr>"

lemma step_kept: "fences_kept lib h (continuation_step lib x h)"
proof (cases x)
  case (ElsewhereOp h')
  then show ?thesis by (simp add: same_fences_kept)
qed (simp; metis commit_kept ensure_kept gate_kept reconcile_kept prod.collapse)+

text \<open>The ledger of fences is a registry whose entries are made once and stay.\<close>

interpretation fences: create_once "fence_seen lib" "continuation_step lib" "\<lambda>k f. nf_intent_key f = k \<and> fence_ok f"
  for lib
  using step_kept by unfold_locales (auto simp: fences_kept_def dest: fence_seen_made)

lemma append_fence_seen:
  assumes "continuation_lib_ok lib" and "okf_text (nh_fences h)" and "\<not> is_blank (ni_intent_key i)"
    and "append_goal_continuation_fence_once lib i c r now h = (h', Inr f)"
  shows "fence_seen lib h' (ni_intent_key i) = Some f"
proof (cases "latest_goal_continuation_fence lib h (ni_intent_key i)")
  case (Inl e)
  with assms(4) show ?thesis by (simp add: append_goal_continuation_fence_once_def)
next
  case (Inr l)
  show ?thesis
  proof (cases l)
    case (Some g)
    with Inr assms show ?thesis by (simp add: append_goal_continuation_fence_once_def fence_seen_Some)
  next
    case None
    then have f: "f = continuation_fence lib i c r now"
      and h': "h' = h\<lparr>nh_fences := append_jsonl_value (js_enc (nl_json lib)) (nl_fence_to_value lib f) (nh_fences h)\<rparr>"
      using Inr assms(4) by (auto simp: append_goal_continuation_fence_once_def Let_def)
    have "fence_ok f" "nf_intent_key f = ni_intent_key i"
      using assms(3) by (simp_all add: f fence_ok_def continuation_fence_def)
    then show ?thesis unfolding h' fence_seen_Some
      using latest_fence_append [OF assms(1,2), of f "ni_intent_key i"] Inr None assms(1) by (simp add: okf_append_jsonl)
  qed
qed

lemma settle_seen:
  assumes "continuation_lib_ok lib" and "okf_text (nh_fences h)" and "\<not> is_blank (ni_intent_key i)"
    and "settle_revalidation_failure_and_fence lib env i c failure b now h = (h', Inr f)"
  shows "fence_seen lib h' (ni_intent_key i) = Some f"
proof -
  from assms(4) obtain kind h1 x where
    s: "record_continuation_settlement_once lib env i kind (failure_reason failure) now
        (quarantine_child c (failure_reason failure) now h) = (h1, x)"
    "append_goal_continuation_fence_once lib i c (b @ '': '' @ failure_reason failure) now h1 = (h', Inr f)"
    by (cases failure) (auto simp: settle_revalidation_failure_and_fence_def Let_def split: prod.splits sum.splits)
  have "nh_fences h1 = nh_fences h" using settlement_same [OF s(1)] by simp
  with append_fence_seen [OF assms(1) _ assms(3) s(2)] assms(2) show ?thesis by simp
qed

lemma suppressed_gate_Inr: "suppressed_gate r = (h', Inr (GateSuppressed f)) \<longleftrightarrow> r = (h', Inr f)"
  by (auto simp: suppressed_gate_def split: prod.splits sum.splits)

lemma gate_loaded_suppressed:
  assumes "continuation_lib_ok lib" and "okf_text (nh_fences h)" and "ni_intent_key latest = k" and "\<not> is_blank k"
    and "gate_loaded lib env latest k q now h = (h', Inr (GateSuppressed f))"
  shows "fence_seen lib h' k = Some f"
proof (cases "latest_goal_continuation_fence lib h k")
  case (Inl e)
  with assms(5) show ?thesis by (simp add: gate_loaded_def)
next
  case (Inr l)
  show ?thesis
  proof (cases l)
    case (Some g)
    obtain h1 r where e: "ensure_preexisting_fence_is_settled lib env latest g now h = (h1, r)" by fastforce
    with Inr Some assms(5) have "h' = quarantine_fenced_child q (nf_reason g) now h1" "f = g"
      by (cases r; simp add: gate_loaded_def)+
    with preexisting_same [OF e] have "nh_fences h' = nh_fences h" by simp
    then have "fences_kept lib h h'" by (rule same_fences_kept)
    moreover have "fence_seen lib h k = Some f" using Inr Some assms(1,2) \<open>f = g\<close> by (simp add: fence_seen_Some)
    ultimately show ?thesis by (simp add: fences_kept_def)
  next
    case None
    let ?u = "upgrade_durably lib env latest (Some q)
      ''legacy v1 continuation additive fields reconstructed at the lease boundary''
      ''leased legacy continuation upgrade failed closed'' now h"
    from None Inr assms(5) consider (failed) h1 r where "?u = (h1, Inl r)" "suppressed_gate (h1, r) = (h', Inr (GateSuppressed f))"
      | (upgraded) h1 j where "?u = (h1, Inr j)" "gate_revalidated lib env j q now h1 = (h', Inr (GateSuppressed f))"
      by (auto simp: gate_loaded_def split: prod.splits sum.splits)
    then show ?thesis
    proof cases
      case failed
      then have "\<exists>failure. settle_revalidation_failure_and_fence lib env latest (Some q) failure
          ''leased legacy continuation upgrade failed closed'' now h = (h', Inr f)"
        by (auto simp: upgrade_durably_def suppressed_gate_Inr append_intent_state_def Let_def
            split: sum.splits prod.splits bool.splits)
      with settle_seen [OF assms(1,2)] assms(3,4) show ?thesis by blast
    next
      case upgraded
      note u = upgrade_durably_Inr [OF upgraded(1)]
      then have j: "ni_intent_key j = k" using assms(3) by (simp add: same_intent_def)
      have "nh_fences h1 = nh_fences h" using u
        by (metis continuation_home.ext_inject continuation_home.surjective continuation_home.update_convs(1))
      with assms(2) have "okf_text (nh_fences h1)" by simp
      moreover from upgraded(2) have "\<exists>failure b. settle_revalidation_failure_and_fence lib env j (Some q) failure b now h1
          = (h', Inr f)"
        by (auto simp: gate_revalidated_def suppressed_gate_Inr split: sum.splits option.splits prod.splits)
      ultimately show ?thesis using settle_seen [OF assms(1), of h1 j] j assms(4) by blast
    qed
  qed
qed

lemma gate_suppressed_seen:
  assumes "continuation_lib_ok lib" and "okf_text (nh_fences h)" and "qi_continuation_intent_key item = Some k"
    and "gate_goal_continuation_after_lease lib env item now h = (h', Inr (GateSuppressed f))"
  shows "fence_seen lib h' k = Some f"
proof -
  from assms(3,4) obtain latest where l: "ri_latest (latest_recoverable_intent_for_key lib h k) = Some latest"
    by (auto simp: gate_goal_continuation_after_lease_def Let_def split: option.splits)
  have key: "ni_intent_key latest = k" "\<not> is_blank k"
    using readable_key [OF latest_readable [OF assms(1) l]] by simp_all
  from assms(3,4) l consider (corrupt) failure b where
      "settle_revalidation_failure_and_fence lib env latest (Some (qi_queue_id item)) failure b now h = (h', Inr f)"
    | (loaded) "gate_loaded lib env latest k (qi_queue_id item) now h = (h', Inr (GateSuppressed f))"
    by (auto simp: gate_goal_continuation_after_lease_def Let_def suppressed_gate_Inr
        split: option.splits sum.splits if_splits)
  then show ?thesis
  proof cases
    case corrupt
    with settle_seen [OF assms(1,2)] key show ?thesis by blast
  next
    case loaded
    with gate_loaded_suppressed [OF assms(1,2) key(1,2)] show ?thesis by blast
  qed
qed

text \<open>With its fence in place an intent neither passes the gate nor is enqueued.\<close>

lemma fenced_not_admitted:
  assumes "fence_seen lib h k = Some f"
  shows "qi_continuation_intent_key item = Some k \<Longrightarrow>
      snd (gate_goal_continuation_after_lease lib env item now h) \<noteq> Inr (GateAcknowledged i)"
    and "snd (ensure_goal_continuation_enqueued lib env k now h) \<noteq> Inr i"
proof -
  assume k: "qi_continuation_intent_key item = Some k"
  show "snd (gate_goal_continuation_after_lease lib env item now h) \<noteq> Inr (GateAcknowledged i)"
  proof
    assume "snd (gate_goal_continuation_after_lease lib env item now h) = Inr (GateAcknowledged i)"
    then obtain h' where "gate_goal_continuation_after_lease lib env item now h = (h', Inr (GateAcknowledged i))"
      by (metis prod.collapse)
    from gate_acknowledged [OF this] obtain k' latest where "qi_continuation_intent_key item = Some k'"
      "gate_loaded lib env latest k' (qi_queue_id item) now h = (h', Inr (GateAcknowledged i))" by metis
    with k assms show False by (simp add: gate_loaded_acknowledged fence_seen_Some)
  qed
next
  have ok: "continuation_lib_ok lib" and fence: "latest_goal_continuation_fence lib h k = Inr (Some f)"
    using assms by (simp_all add: fence_seen_Some)
  have loaded: "ensure_loaded_goal_continuation_enqueued lib env latest now h \<noteq> (h', Inr (OutcomeIntent i))"
    if "ni_intent_key latest = k" for latest h'
    using that fence by (auto simp: ensure_loaded_goal_continuation_enqueued_def split: sum.splits option.splits prod.splits)
  have "reconcile_one_goal_continuation_intent lib env k now h \<noteq> (h', Inr (OutcomeIntent i))" for h'
    using loaded readable_key [OF latest_readable [OF ok]]
    by (auto simp: reconcile_one_goal_continuation_intent_def Let_def split: option.splits sum.splits)
  then show "snd (ensure_goal_continuation_enqueued lib env k now h) \<noteq> Inr i"
    by (auto simp: ensure_goal_continuation_enqueued_def split: prod.splits sum.splits EnsureGoalContinuationOutcome.splits)
qed

end
