(* ===== verification/Goal_Continuation_Commits.thy ===== *)
theory Goal_Continuation_Commits
  imports Goal_Continuation_Fences
begin

text \<open>
  Continuation intents, the ledger of intents: what is read for a key after any further lines, and what a
  commit does when the ledger has the key and when it has not.
\<close>

section \<open>The history of an intent\<close>

fun status_rank :: "GoalContinuationIntentStatus \<Rightarrow> nat" where
  "status_rank IntentCommitted = 0"
| "status_rank IntentEnqueued = 1"
| "status_rank IntentAcknowledged = 2"

text \<open>An intent with all its fields, and what can become of it.\<close>

definition complete_intent :: "GoalContinuationIntentV1 \<Rightarrow> bool" where
  "complete_intent i \<longleftrightarrow> \<not> legacy_intent_missing_additive_fields i"

definition carried_on :: "GoalContinuationIntentV1 \<Rightarrow> GoalContinuationIntentV1 \<Rightarrow> bool" where
  "carried_on a b \<longleftrightarrow> same_intent a b \<and> same_additive_fields a b \<and> status_rank (ni_status a) \<le> status_rank (ni_status b)"

lemma carried_on_refl [simp]: "carried_on a a"
  by (simp add: carried_on_def same_intent_def same_additive_fields_def legacy_additive_field_compatible_def)

lemma carried_on_trans: "carried_on a b \<Longrightarrow> carried_on b c \<Longrightarrow> carried_on a c"
  by (auto simp: carried_on_def same_intent_def same_additive_fields_def legacy_additive_field_compatible_def)

lemma carried_on_complete: "carried_on a b \<Longrightarrow> complete_intent a \<Longrightarrow> complete_intent b"
  by (simp add: carried_on_def same_intent_def same_additive_fields_def complete_intent_def
      legacy_intent_missing_additive_fields_def)

lemma valid_status_rank: "valid_intent_status_transition a b \<Longrightarrow> status_rank a \<le> status_rank b"
  by (auto simp: valid_intent_status_transition_def)

lemma complete_transition:
  assumes "complete_intent a" and "ensure_authorized_intent_ledger_transition lib h a b = Inr ()"
    and "valid_intent_status_transition (ni_status a) (ni_status b)"
  shows "carried_on a b"
proof -
  have "upgrade_open_legacy_intent lib h a = Inr (a, False)"
    using assms(1) by (simp add: upgrade_open_legacy_intent_def complete_intent_def)
  with assms(2,3) show ?thesis
    by (auto simp: ensure_authorized_intent_ledger_transition_def ensure_same_intent_def carried_on_def valid_status_rank
        split: if_splits)
qed

lemma read_intent_lines_append:
  "read_intent_lines lib h k n (ls @ ms) r = read_intent_lines lib h k (n + length ls) ms (read_intent_lines lib h k n ls r)"
  by (induction ls arbitrary: n r) simp_all

lemma read_line_carries_on:
  assumes "ri_latest r = Some a" and "complete_intent a"
  shows "\<exists>b. ri_latest (read_intent_line lib h k n l r) = Some b \<and> carried_on a b"
proof -
  have "carried_on a b" if "read_intent_row lib h n (Some a) v = Inr b" for v b
    using complete_transition [OF assms(2), of lib h b] that by (simp add: read_intent_row_Inr)
  with assms(1) show ?thesis by (auto simp: read_intent_line_def split: option.splits sum.splits)
qed

lemma read_carries_on:
  assumes "ri_latest r = Some a" and "complete_intent a"
  shows "\<exists>b. ri_latest (read_intent_lines lib h k n ls r) = Some b \<and> carried_on a b"
  using assms
proof (induction ls arbitrary: n r a)
  case (Cons l ls)
  from read_line_carries_on [OF Cons.prems] obtain b where
    b: "ri_latest (read_intent_line lib h k (n + 1) l r) = Some b" "carried_on a b" by blast
  from Cons.IH [OF b(1) carried_on_complete [OF b(2) Cons.prems(2)]] b(2) show ?case
    by (auto intro: carried_on_trans)
qed simp

text \<open>Lines that hold no row of the key are read in the same way, whatever the other files are.\<close>

definition unread :: RecoverableIntentRead where
  "unread = \<lparr>ri_latest = None, ri_corruption = None\<rparr>"

definition silent_line :: "continuation_lib \<Rightarrow> string \<Rightarrow> string \<Rightarrow> bool" where
  "silent_line lib k l \<longleftrightarrow> is_blank l \<or> (case js_dec (nl_json lib) l of
     None \<Rightarrow> recover_intent_key_from_malformed_line lib l \<noteq> Some k | Some v \<Rightarrow> str_field v ''intentKey'' \<noteq> Some k)"

lemma read_silent: "silent_line lib k l \<Longrightarrow> read_intent_line lib h k n l r = r"
  by (auto simp: silent_line_def read_intent_line_def split: option.splits)

lemma read_loud: "\<not> silent_line lib k l \<or> r \<noteq> unread \<Longrightarrow> read_intent_line lib h k n l r \<noteq> unread"
  by (cases r) (auto simp: silent_line_def read_intent_line_def unread_def split: option.splits sum.splits)

lemma read_lines_unread:
  "read_intent_lines lib h k n ls r = unread \<longleftrightarrow> r = unread \<and> list_all (silent_line lib k) ls"
proof (induction ls arbitrary: n r)
  case (Cons l ls)
  then show ?case
    using read_silent [of lib k l h "n + 1"] read_loud [of lib k l r h "n + 1"] by auto
qed simp

text \<open>A commit of a goal or of a task that succeeds.\<close>

definition commits :: "continuation_lib \<Rightarrow> continuation_home \<Rightarrow> continuation_home \<Rightarrow> GoalContinuationIntentV1 \<Rightarrow> bool" where
  "commits lib h h' i \<longleftrightarrow>
     (\<exists>r s m now. commit_goal_continuation_intent lib r s m now h = (h', Inr i))
     \<or> (\<exists>p s m a g d b now. commit_task_continuation_intent lib p s m a g d b now h = (h', Inr i))"

lemma goal_intent_complete: "transition_has_exact_authority r \<Longrightarrow> complete_intent (goal_intent lib r s m now ids g)"
  by (auto simp: complete_intent_def legacy_intent_missing_additive_fields_def goal_intent_def Let_def
      transition_has_exact_authority_def split: option.splits)

lemma task_intent_complete: "complete_intent (task_intent lib p s m a g d b now n)"
  by (simp add: complete_intent_def legacy_intent_missing_additive_fields_def task_intent_def
      TASK_CONTINUATION_INTENT_SCHEMA_def GOAL_CONTINUATION_INTENT_SCHEMA_def)

lemma commits_intent:
  assumes "commits lib h h' i"
  obtains c where "commit_intent lib c h = (h', Inr i)" "complete_intent c"
    "ni_schema c = GOAL_CONTINUATION_INTENT_SCHEMA \<or> ni_schema c = TASK_CONTINUATION_INTENT_SCHEMA"
proof -
  from assms consider (goal) r s m now where "commit_goal_continuation_intent lib r s m now h = (h', Inr i)"
    | (task) p s m a g d b now where "commit_task_continuation_intent lib p s m a g d b now h = (h', Inr i)"
    by (auto simp: commits_def)
  then show ?thesis
  proof cases
    case goal
    then obtain ids g where "commit_intent lib (goal_intent lib r s m now ids g) h = (h', Inr i)"
      "transition_has_exact_authority r"
      by (auto simp: commit_goal_continuation_intent_def split: if_splits sum.splits)
    with goal_intent_complete that show ?thesis by (auto simp: goal_intent_def Let_def)
  next
    case task
    then obtain n where "commit_intent lib (task_intent lib p s m a g d b now n) h = (h', Inr i)"
      by (auto simp: commit_task_continuation_intent_def split: if_splits sum.splits)
    with task_intent_complete that show ?thesis by (auto simp: task_intent_def)
  qed
qed

lemma append_intent_changes: "nh_intents (append_intent lib i h) \<noteq> nh_intents h"
  by (simp add: append_intent_def append_jsonl_value_def append_jsonl_line_def)

lemma committed_new:
  assumes "commit_intent lib c h = (h', Inr i)" and "nh_intents h' \<noteq> nh_intents h"
  shows "c = i \<and> h' = append_intent lib i h \<and> latest_recoverable_intent_for_key lib h (ni_intent_key i) = unread"
  using assms
  by (cases "latest_recoverable_intent_for_key lib h (ni_intent_key c)")
    (auto simp: commit_intent_def latest_intent_for_key_def Let_def unread_def split: sum.splits option.splits)

lemma committed_again:
  assumes "commit_intent lib c h = (h', Inr i)" and "ri_latest (latest_recoverable_intent_for_key lib h (ni_intent_key i)) = Some b"
    and "continuation_lib_ok lib"
  shows "h' = h \<and> i = b"
proof -
  let ?l = "latest_recoverable_intent_for_key lib h (ni_intent_key c)"
  have key: "ni_intent_key e = ni_intent_key c" if "ri_latest ?l = Some e" for e
    using readable_key [OF latest_readable [OF assms(3) that]] by simp
  show ?thesis
  proof (cases "ri_latest ?l")
    case None
    with assms(1,2) show ?thesis
      by (auto simp: commit_intent_def latest_intent_for_key_def Let_def split: option.splits)
  next
    case (Some e)
    with assms(1) have "h' = h" "i = e"
      by (auto simp: commit_intent_def latest_intent_for_key_def Let_def split: option.splits sum.splits)
    with Some key [OF Some] assms(2) show ?thesis by simp
  qed
qed

lemma read_committed_row:
  assumes "continuation_lib_ok lib" and "validate_intent_ledger_receipt i = Inr ()"
    and "ni_schema i = GOAL_CONTINUATION_INTENT_SCHEMA \<or> ni_schema i = TASK_CONTINUATION_INTENT_SCHEMA"
  shows "read_intent_line lib h (ni_intent_key i) n (js_enc (nl_json lib) (nl_intent_to_value lib i)) unread
    = \<lparr>ri_latest = Some i, ri_corruption = None\<rparr>"
proof -
  let ?v = "nl_intent_to_value lib i"
  have v: "nl_intent_from_value lib ?v = Some i" "str_field ?v ''intentKey'' = Some (ni_intent_key i)"
    "js_dec (nl_json lib) (js_enc (nl_json lib) ?v) = Some ?v" "\<not> is_blank (js_enc (nl_json lib) ?v)"
    using assms(1) by (auto simp: continuation_lib_ok_def codec_ok_def okr_line_def)
  then have "read_intent_row lib h n None ?v = Inr i" using assms(2,3) by (simp add: read_intent_row_Inr)
  with v show ?thesis by (simp add: read_intent_line_def unread_def)
qed

end
