(* ===== verification/Goal_Continuation_Demo.thy ===== *)
theory Goal_Continuation_Demo
  imports Goal_Continuation_Commits Task_Transition_Claims Goal_Campaign_Props Goal_Closure_Claims Goal_Lineage_Props
begin

text \<open>
  Concrete homes for the continuation intents: a queue with one parent, an operation plan that is running, the
  intent to continue it, and its child after the lease; and the same with a goal that is active in the lane.
\<close>

section \<open>A concrete goal\<close>

text \<open>One active goal in the lane of the queue below, with its authority.\<close>

definition demo_continuation_session :: string where
  "demo_continuation_session = ''vsession-v2-'' @ demo_task_digest"

definition demo_goal_projection :: GoalProjectionReceipt where
  "demo_goal_projection = (demo_active ''a'')\<lparr>pj_lane_digest := Some demo_task_digest\<rparr>"

definition demo_goal_authority :: VirtualSessionAuthorityReceipt where
  "demo_goal_authority = demo_authority_receipt\<lparr>au_lane_digest := demo_task_digest,
     au_virtual_session_id := demo_continuation_session\<rparr>"

definition demo_goal_ll :: lineage_lib where
  "demo_goal_ll = demo_ll0\<lparr>ll_projection_dec := (\<lambda>l. if l = ''A'' then Some demo_goal_projection else None),
     ll_authority_dec := (\<lambda>l. if l = ''A'' then Some demo_goal_authority else None)\<rparr>"

definition demo_goal_row :: GoalLineageV1 where
  "demo_goal_row = projection_lineage demo_goal_ll (latest_authorities [demo_goal_authority]) demo_goal_projection"

lemma demo_goal_read [simp]:
  "read_schema_jsonl (ll_projection_dec demo_goal_ll) pj_schema GOAL_PROJECTION_SCHEMA lbl ''A'' = ([demo_goal_projection], [])"
  "read_schema_jsonl (ll_authority_dec demo_goal_ll) au_schema VIRTUAL_SESSION_AUTHORITY_SCHEMA lbl ''A'' = ([demo_goal_authority], [])"
  "read_schema_jsonl (ll_supersession_dec demo_goal_ll) gs_sup_schema GOAL_LINEAGE_SUPERSESSION_SCHEMA lbl [] = ([], [])"
  by (simp_all add: read_schema_jsonl_def demo_goal_ll_def demo_ll0_def demo_goal_projection_def demo_goal_authority_def)

lemma demo_goal_authority_found:
  "projection_authority demo_goal_projection (latest_authorities [demo_goal_authority]) = Some demo_goal_authority"
  by (simp add: projection_authority_def latest_authorities_def authority_insert_def authority_key_def demo_goal_authority_def
      demo_authority_receipt_def demo_goal_projection_def demo_active_def demo_projection_def)

lemma demo_goal_row_sel [simp]:
  "gl_lane_digest demo_goal_row = Some demo_task_digest" "gl_virtual_session_id demo_goal_row = Some demo_continuation_session"
  "gl_backend_context_generation demo_goal_row = Some ''g''" "gl_source_session_key demo_goal_row = ''s''"
  "gl_queue_id demo_goal_row = Some ''q''" "gl_goal_status demo_goal_row = ''active''"
  "gl_turn_relation demo_goal_row = CurrentOwnedTurn" "gl_goal_checksum demo_goal_row = ''c''"
  "gl_runnable demo_goal_row" "gl_disposition demo_goal_row = Runnable"
proof -
  show "gl_lane_digest demo_goal_row = Some demo_task_digest" "gl_virtual_session_id demo_goal_row = Some demo_continuation_session"
    "gl_backend_context_generation demo_goal_row = Some ''g''" "gl_source_session_key demo_goal_row = ''s''"
    "gl_queue_id demo_goal_row = Some ''q''" "gl_goal_status demo_goal_row = ''active''"
    by (simp_all add: demo_goal_row_def demo_goal_authority_found)
      (simp_all add: demo_goal_projection_def demo_goal_authority_def demo_active_def demo_projection_def)
  show "gl_turn_relation demo_goal_row = CurrentOwnedTurn" "gl_goal_checksum demo_goal_row = ''c''"
    by (simp_all add: demo_goal_row_def projection_lineage_def Let_def split_beta demo_goal_projection_def demo_active_def
        demo_projection_def)
  have "exact_identity demo_goal_projection (Some demo_goal_authority) \<and> is_active_status (pj_status demo_goal_projection)"
    by (simp add: exact_identity_def demo_goal_projection_def demo_goal_authority_def demo_authority_receipt_def
        demo_active_def demo_projection_def)
  then show "gl_runnable demo_goal_row" "gl_disposition demo_goal_row = Runnable"
    unfolding demo_goal_row_def projection_lineage_runnable demo_goal_authority_found by simp_all
qed

lemma demo_goal_report:
  "lr_status (run_goal_lineage_doctor demo_goal_ll (Some demo_task_digest) (Some demo_continuation_session) (demo_home ''A'' []))
     = DoctorReady"
  "lr_lineages (run_goal_lineage_doctor demo_goal_ll (Some demo_task_digest) (Some demo_continuation_session) (demo_home ''A'' []))
     = [demo_goal_row]"
  "lr_campaigns (run_goal_lineage_doctor demo_goal_ll (Some demo_task_digest) (Some demo_continuation_session) (demo_home ''A'' []))
     = [campaign_row (gl_campaign_family_id demo_goal_row) [demo_goal_row]]"
proof -
  have "btree_values (latest_projections [demo_goal_projection]) = [demo_goal_projection]"
    by (simp add: latest_projections_def projection_insert_def btree_values_def)
  then have row: "map (projection_lineage demo_goal_ll (latest_authorities [demo_goal_authority]))
      (btree_values (latest_projections [demo_goal_projection])) = [demo_goal_row]"
    by (simp add: demo_goal_row_def)
  have "\<not> campaign_identity_blocked [demo_goal_row]" "\<not> campaign_needs_reconciliation [demo_goal_row]"
    by (simp_all add: campaign_identity_blocked_def campaign_needs_reconciliation_def unresolved_count_def runnable_count_def)
  then show "lr_status (run_goal_lineage_doctor demo_goal_ll (Some demo_task_digest) (Some demo_continuation_session) (demo_home ''A'' []))
       = DoctorReady"
    "lr_lineages (run_goal_lineage_doctor demo_goal_ll (Some demo_task_digest) (Some demo_continuation_session) (demo_home ''A'' []))
       = [demo_goal_row]"
    "lr_campaigns (run_goal_lineage_doctor demo_goal_ll (Some demo_task_digest) (Some demo_continuation_session) (demo_home ''A'' []))
       = [campaign_row (gl_campaign_family_id demo_goal_row) [demo_goal_row]]"
    unfolding run_goal_lineage_doctor_def demo_home_def lineage_home.simps demo_goal_read prod.case row Let_def
    by (simp_all add: valid_supersession_map_def apply_supersession_def selected_by_option_def group_lineage_def)
qed

section \<open>A concrete library\<close>

instance GoalContinuationIntentStatus :: countable
  by countable_datatype

instance ContinuationAuthorityKindV1 :: countable
  by countable_datatype

definition continuation_intent_code :: "GoalContinuationIntentV1 \<Rightarrow> string list \<times> string option list \<times> nat list
    \<times> nat option list \<times> GoalContinuationIntentStatus \<times> GoalTransitionDecision \<times> GoalTransitionRelation option
    \<times> ContinuationAuthorityKindV1 option \<times> int" where
  "continuation_intent_code i = ([ni_schema i, ni_intent_key i, ni_parent_queue_id i, ni_working_session_key i, ni_lane_digest i,
     ni_virtual_session_id i, ni_lineage_id i, ni_goal_checksum i, ni_campaign_family_id i,
     ni_backend_context_generation i, ni_reason i],
    [ni_child_queue_id i, ni_goal_status_at_commit i, ni_authority_id i, ni_authority_checksum i,
     ni_checkpoint_digest i, ni_active_item_id i],
    map unat [ni_source_slice_generation i, ni_decision_generation i, ni_campaign_slice_generation i,
     ni_recovery_continuation_index i],
    map (map_option unat) [ni_human_input_generation i, ni_authority_version i, ni_active_item_version i,
     ni_disposition_recovery_depth i, ni_shell_recovery_depth i],
    ni_status i, ni_decision i, ni_goal_relation_at_commit i, ni_authority_kind i, ni_observed_at_ms i)"

lemma map_unat_eq: "map_option unat (a :: u64 option) = map_option unat b \<longleftrightarrow> a = b"
  by (cases a; cases b) (simp_all add: u64_unat_eq)

lemma continuation_intent_code_inj: "inj continuation_intent_code"
proof (rule injI)
  fix i j
  assume "continuation_intent_code i = continuation_intent_code j"
  then show "i = j"
    by (intro GoalContinuationIntentV1.equality) (simp_all add: continuation_intent_code_def u64_unat_eq map_unat_eq)
qed

definition fence_code :: "GoalContinuationFenceV1 \<Rightarrow> string list \<times> string option \<times> int" where
  "fence_code f = ([nf_schema f, nf_fence_key f, nf_intent_key f, nf_parent_queue_id f, nf_lane_digest f,
     nf_virtual_session_id f, nf_disposition f, nf_reason f], nf_child_queue_id f, nf_observed_at_ms f)"

lemma fence_code_inj: "inj fence_code"
proof (rule injI)
  fix f g
  assume "fence_code f = fence_code g"
  then show "f = g" by (intro GoalContinuationFenceV1.equality) (simp_all add: fence_code_def)
qed

text \<open>A record as an object with its intent key and the number of its fields.\<close>

definition keyed_object :: "('r \<Rightarrow> 'b::countable) \<Rightarrow> ('r \<Rightarrow> string) \<Rightarrow> 'r \<Rightarrow> Value" where
  "keyed_object enum key r = JsonObject [(''intentKey'', JsonString (key r)), (''row'', JsonString (keyed_enc enum r))]"

definition keyed_of_object :: "('r \<Rightarrow> 'b::countable) \<Rightarrow> ('r \<Rightarrow> string) \<Rightarrow> Value \<Rightarrow> 'r option" where
  "keyed_of_object enum key v =
     (case Option.bind (str_field v ''row'') (keyed_dec enum) of
        Some r \<Rightarrow> if str_field v ''intentKey'' = Some (key r) then Some r else None | None \<Rightarrow> None)"

lemma keyed_of_object:
  assumes "inj enum"
  shows "keyed_of_object enum key (keyed_object enum key r) = Some r"
  using codec_keyed [OF assms, of r] by (simp add: keyed_of_object_def keyed_object_def str_field_def codec_ok_def)

lemma keyed_of_object_key: "keyed_of_object enum key v = Some r \<Longrightarrow> str_field v ''intentKey'' = Some (key r)"
  by (auto simp: keyed_of_object_def split: option.splits if_splits)

definition demo_nl :: continuation_lib where
  "demo_nl = \<lparr>nl_json = number_json, nl_task = demo_kl, nl_lineage = demo_goal_ll, nl_closure = demo_cl,
     nl_intent_to_value = keyed_object continuation_intent_code ni_intent_key,
     nl_intent_from_value = keyed_of_object continuation_intent_code ni_intent_key,
     nl_fence_to_value = keyed_object fence_code nf_intent_key,
     nl_fence_from_value = keyed_of_object fence_code nf_intent_key,
     nl_error_to_value = (\<lambda>_. JsonNull), nl_transition_from_value = (\<lambda>_. None), nl_string_from_str = (\<lambda>_. None)\<rparr>"

lemma demo_nl_ok: "continuation_lib_ok demo_nl"
  by (simp add: continuation_lib_ok_def demo_nl_def number_json_def codec_number keyed_of_object
      continuation_intent_code_inj fence_code_inj keyed_of_object_key)

lemma demo_nl_sel [simp]:
  "nl_json demo_nl = number_json" "nl_task demo_nl = demo_kl"
  "nl_intent_to_value demo_nl = keyed_object continuation_intent_code ni_intent_key"
  by (simp_all add: demo_nl_def)

lemma demo_identity [simp]: "identity_digest demo_nl parts = demo_task_digest"
  by (simp add: identity_digest_def)

section \<open>A concrete queue\<close>

definition demo_parent_row :: Value where
  "demo_parent_row = JsonObject [(''queueId'', JsonString ''q''), (''platform'', JsonString ''p''),
     (''accountId'', JsonString ''b''), (''channelId'', JsonString ''c''), (''userId'', JsonString ''u''),
     (''agentId'', JsonString ''a''), (''runtimeClass'', JsonString ''r''), (''sessionKey'', JsonString ''s''),
     (''origin'', JsonString ''channel'')]"

definition demo_pending :: string where
  "demo_pending = append_jsonl_value (js_enc number_json) demo_parent_row []"

lemma demo_pending_values: "pending_values demo_nl demo_pending = [demo_parent_row]"
proof -
  have c: "codec_ok (js_enc number_json) (js_dec number_json) demo_parent_row" by (simp add: number_json_def codec_number)
  then have "text_lines demo_pending = [js_enc number_json demo_parent_row]"
    using text_lines_append_jsonl_line [of "[]" "js_enc number_json demo_parent_row"]
    by (simp add: demo_pending_def append_jsonl_value_def codec_ok_def okf_text_def text_lines_def)
  with c show ?thesis by (simp add: pending_values_def codec_ok_def List.map_filter_simps)
qed

lemma demo_root: "root_working_session_key ''s'' = ''s''"
  by code_simp

lemma one_graphic: "ascii_graphic c \<Longrightarrow> trim [c] = [c] \<and> \<not> is_blank [c] \<and> \<not> has_control [c]"
  using trim_graphic_ends [of "[c]"] not_blank_graphic_ends [of "[c]"] graphic_no_control [of "[c]"] by simp

lemma one_axis:
  assumes "ascii_graphic c"
  shows "normalize_known a [c] = Inr [c]" and "validate_canonical a [c] = Inr ()"
    and "to_ascii_lowercase [c] = [c] \<Longrightarrow> normalize_required_channel_state_lane_axis [c] n b = Inr [c]"
proof -
  show v: "validate_canonical a [c] = Inr ()" using assms by (simp add: plain_axis_canonical)
  have "\<not> starts_with [c] LEGACY_UNKNOWN_PREFIX" by (simp add: starts_with_iff LEGACY_UNKNOWN_PREFIX_def)
  with v one_graphic [OF assms] show "normalize_known a [c] = Inr [c]"
    by (auto simp: normalize_known_def validate_canonical_def split: sum.splits)
  show "to_ascii_lowercase [c] = [c] \<Longrightarrow> normalize_required_channel_state_lane_axis [c] n b = Inr [c]"
    using one_graphic [OF assms]
    by (simp add: normalize_required_channel_state_lane_axis_def MAX_CHANNEL_STATE_LANE_AXIS_BYTES_def Let_def)
qed

lemma demo_lane_digest:
  "full_lane_digest demo_nl ''p'' ''b'' ''c'' ''u'' ''a'' ''r'' ''s'' = Inr demo_task_digest"
proof -
  have g: "list_all ascii_graphic ''pbcuars''" by (simp add: ascii_graphic_def)
  define k where "k = \<lparr>fl_schema = FULL_LANE_KEY_SCHEMA, fl_platform = ''p'', fl_account_id = ''b'',
    fl_channel_id = ''c'', fl_user_id = ''u'', fl_agent_id = ''a'', fl_runtime_class = ''r'',
    fl_root_virtual_session = ''s'', fl_concrete_session = ''s''\<rparr>"
  have "lane_validate k = Inr ()" using g by (simp add: lane_validate_Inr_iff k_def axes_def one_axis)
  then have "identity_hash (kl_sha256 demo_kl) k = Inr demo_task_digest"
    by (simp add: identity_hash_def canonical_bytes_def demo_kl_def demo_task_digest_def)
  with g show ?thesis by (simp add: full_lane_digest_def lane_new_def lane_of_axes_def one_axis demo_root k_def)
qed

lemma demo_row_fields [simp]:
  "str_field demo_parent_row ''queueId'' = Some ''q''" "str_field demo_parent_row ''origin'' = Some ''channel''"
  "str_field demo_parent_row ''continuationIntentKey'' = None" "str_field demo_parent_row ''runtimeClass'' = Some ''r''"
  "nonempty_field demo_parent_row ''platform'' = Some ''p''" "nonempty_field demo_parent_row ''accountId'' = Some ''b''"
  "nonempty_field demo_parent_row ''channelId'' = Some ''c''" "nonempty_field demo_parent_row ''userId'' = Some ''u''"
  "nonempty_field demo_parent_row ''agentId'' = Some ''a''" "nonempty_field demo_parent_row ''runtimeClass'' = Some ''r''"
  "nonempty_field demo_parent_row ''sessionKey'' = Some ''s''"
  by (simp_all add: nonempty_field_def str_field_def demo_parent_row_def)

lemma demo_row_axes: "pending_lane_axes demo_parent_row = Some [''p'', ''b'', ''c'', ''u'', ''a'', ''r'', ''s'']"
  by (simp add: pending_lane_axes_def)

lemma demo_row_digest: "pending_exact_lane_digest demo_nl demo_parent_row = Inr (Some demo_task_digest)"
  by (simp add: pending_exact_lane_digest_def demo_row_axes demo_lane_digest)

definition demo_plan_snapshot :: ContinuationAuthoritySnapshotV1 where
  "demo_plan_snapshot = \<lparr>sn_kind = OperationPlanAuthority, sn_authority_id = ''p'', sn_authority_version = 4,
     sn_authority_checksum = demo_task_digest, sn_exact_lane_digest = demo_task_digest,
     sn_virtual_session_id = demo_continuation_session, sn_active_item_id = Some ''a'', sn_active_item_version = Some 3,
     sn_checkpoint_digest = demo_task_digest\<rparr>"

definition demo_metadata :: RuntimeContinuationMetadata where
  "demo_metadata = \<lparr>rm_virtual_session_id = None, rm_continuation_index = None, rm_campaign_slice_generation = None,
     rm_task_family_id = None, rm_task_family_version = None, rm_task_root_queue_id = None, rm_task_slice_generation = None,
     rm_disposition_recovery_depth = None, rm_shell_recovery_depth = None, rm_continuation_intent_key = None,
     rm_completion_kind = None, rm_task_terminal = None, rm_suppress_self_improvement = False\<rparr>"

definition demo_committed :: GoalContinuationIntentV1 where
  "demo_committed = task_intent demo_nl ''q'' ''s'' demo_metadata demo_plan_snapshot 1 1 False 0 1"

definition demo_enqueued :: GoalContinuationIntentV1 where
  "demo_enqueued = demo_committed\<lparr>ni_status := IntentEnqueued, ni_child_queue_id := Some ''c''\<rparr>"

definition demo_continuation_home :: "string \<Rightarrow> continuation_home" where
  "demo_continuation_home intents = \<lparr>nh_intents = intents, nh_fences = [], nh_errors = [],
     nh_pending = Some demo_pending, nh_transitions = None, nh_lineage = \<lparr>lh_projections = [], lh_authorities = [], lh_supersessions = []\<rparr>,
     nh_closures = demo_closed, nh_tasks = demo_task_home, nh_config = [], nh_quarantine = [], nh_run_once = []\<rparr>"

lemma demo_home_sel [simp]:
  "nh_intents (demo_continuation_home t) = t" "nh_fences (demo_continuation_home t) = []"
  "nh_pending (demo_continuation_home t) = Some demo_pending" "nh_tasks (demo_continuation_home t) = demo_task_home"
  "nh_run_once (demo_continuation_home t) = []"
  by (simp_all add: demo_continuation_home_def)

lemma demo_generation:
  assumes "nh_pending h = Some demo_pending"
  shows "human_input_generation_at_parent demo_nl h ''q'' demo_task_digest = Inr (1, 1)"
proof -
  have "pending_lane_axes_match xs xs" for xs :: "string list"
    by (auto simp: pending_lane_axes_match_def list_all_iff in_set_zip)
  moreover have "sat_add 0 1 = (1 :: u64)" by (simp add: sat_add_def)
  ultimately show ?thesis using assms
    by (simp add: human_input_generation_at_parent_def demo_pending_values demo_row_axes demo_row_digest
        non_continuation_human_def)
qed

lemma demo_intent_sel [simp]:
  "ni_schema demo_committed = TASK_CONTINUATION_INTENT_SCHEMA" "ni_intent_key demo_committed = demo_task_digest"
  "ni_parent_queue_id demo_committed = ''q''" "ni_working_session_key demo_committed = ''s''"
  "ni_lane_digest demo_committed = demo_task_digest" "ni_virtual_session_id demo_committed = demo_continuation_session"
  "ni_human_input_generation demo_committed = Some 1"
  "ni_status demo_committed = IntentCommitted" "ni_child_queue_id demo_committed = None"
  by (simp_all add: demo_committed_def task_intent_def task_intent_key_def demo_plan_snapshot_def)

lemma demo_snapshot: "intent_snapshot demo_enqueued = Inr demo_plan_snapshot"
  by (simp add: intent_snapshot_def snapshot_field_def demo_enqueued_def demo_committed_def task_intent_def demo_plan_snapshot_def)

lemma demo_snapshot_current: "revalidate_continuation_snapshot demo_kl demo_task_home demo_plan_snapshot ''s'' ''a'' = Inr ()"
  using demo_plan_authority
  by (subst revalidate_plan_iff)
    (auto simp: plan_authority_def Let_def demo_plan_options_def demo_task_checkpoint_def demo_plan_snapshot_def authority_checksum_def)

lemma demo_parent_lane:
  assumes "nh_pending h = Some demo_pending" and "ni_parent_queue_id i = ''q''" and "ni_working_session_key i = ''s''"
    and "ni_lane_digest i = demo_task_digest" and "ni_virtual_session_id i = demo_continuation_session"
    and "ni_human_input_generation i = Some 1"
  shows "validate_parent_lane_for_intent demo_nl h i =
    (if ni_schema i = TASK_CONTINUATION_INTENT_SCHEMA then check_task_authority demo_nl h i ''s'' ''a''
     else check_goal_authority demo_nl h i)"
proof -
  have g: "list_all ascii_graphic ''pbcuars''" by (simp add: ascii_graphic_def)
  have lc: "to_ascii_lowercase ''p'' = ''p''" "to_ascii_lowercase ''b'' = ''b''" "to_ascii_lowercase ''c'' = ''c''"
    "to_ascii_lowercase ''u'' = ''u''" "to_ascii_lowercase ''a'' = ''a''" by code_simp+
  have "channel_state_lane_new ''p'' (Some ''b'') ''c'' ''u'' ''a'' = Inr \<lparr>sl_platform = ''p'', sl_account_id = ''b'',
     sl_channel_id = ''c'', sl_user_id = ''u'', sl_agent_id = ''a''\<rparr>"
    using g one_graphic [of "CHR ''b''"]
    by (simp add: channel_state_lane_new_def normalize_channel_state_lane_account_id_def one_axis lc)
  then show ?thesis using assms demo_generation [OF assms(1)]
    by (simp add: validate_parent_lane_for_intent_def demo_pending_values exact_field_def parent_channel_lane_def
        parent_lane_digest_def demo_lane_digest derive_virtual_session_id_v2_def check_human_generation_def
        demo_continuation_session_def)
qed

lemma demo_validated:
  assumes "nh_pending h = Some demo_pending" and "nh_tasks h = demo_task_home"
  shows "validate_parent_lane_for_intent demo_nl h demo_enqueued = Inr ()"
  using demo_parent_lane [OF assms(1), of demo_enqueued] assms(2) demo_snapshot demo_snapshot_current
  by (simp add: check_task_authority_def demo_enqueued_def)

text \<open>The intent to continue the goal, and the home with its lineage.\<close>

definition demo_goal_intent :: GoalContinuationIntentV1 where
  "demo_goal_intent = demo_enqueued\<lparr>ni_schema := GOAL_CONTINUATION_INTENT_SCHEMA, ni_lineage_id := gl_lineage_id demo_goal_row,
     ni_goal_checksum := ''c'', ni_campaign_family_id := gl_campaign_family_id demo_goal_row,
     ni_backend_context_generation := ''g'', ni_goal_relation_at_commit := Some CurrentGoalSlice,
     ni_goal_status_at_commit := Some ''active'', ni_authority_kind := Some GoalAuthority,
     ni_authority_id := Some (gl_lineage_id demo_goal_row), ni_authority_checksum := Some ''c''\<rparr>"

definition demo_goal_home :: "string \<Rightarrow> continuation_home" where
  "demo_goal_home intents = (demo_continuation_home intents)\<lparr>nh_lineage := demo_home ''A'' [],
     nh_closures := \<lparr>hm_closure_intents = [], hm_closure_receipts = []\<rparr>\<rparr>"

lemma demo_goal_validated: "validate_parent_lane_for_intent demo_nl (demo_goal_home t) demo_goal_intent = Inr ()"
proof -
  have act: "intent_goal_status_active ''active''"
    using demo_status(1) by (simp add: intent_goal_status_active_def is_active_status_def)
  have "revalidate_current_goal_authority demo_nl (demo_goal_home t) demo_goal_intent = Inr ()"
    using act demo_goal_report
    by (simp add: revalidate_current_goal_authority_def Let_def demo_goal_home_def demo_goal_intent_def demo_enqueued_def demo_nl_def
        revalidate_lineage_def exact_lineage_def lineage_running_def goal_parent_descends_from_current_lineage_def
        campaign_row_def runnable_count_def unresolved_count_def exact_goal_closure_breaker_def)
  moreover have "goal_intent_has_exact_current_authority demo_goal_intent"
    using act by (simp add: goal_intent_has_exact_current_authority_def demo_goal_intent_def current_relation_def)
  ultimately have "check_goal_authority demo_nl (demo_goal_home t) demo_goal_intent = Inr ()"
    by (simp add: check_goal_authority_def load_goal_autonomy_activation_for_exact_goal_def autonomy_settings_def
        demo_goal_home_def demo_continuation_home_def)
  then show ?thesis
    using demo_parent_lane [of "demo_goal_home t" demo_goal_intent]
    by (simp add: demo_goal_home_def demo_goal_intent_def demo_enqueued_def TASK_CONTINUATION_INTENT_SCHEMA_def
        GOAL_CONTINUATION_INTENT_SCHEMA_def)
qed

lemma demo_intent_readable:
  "validate_intent_ledger_receipt demo_committed = Inr () \<and> validate_intent_ledger_receipt demo_enqueued = Inr ()"
proof -
  have b: "\<not> is_blank ''q''" "\<not> is_blank ''s''" "\<not> is_blank ''p''" using one_graphic by (simp_all add: ascii_graphic_def)
  have "list_all ascii_graphic demo_task_digest"
    using demo_task_digest_hex(2) by (auto simp: is_lower_hex_def list_all_iff is_lower_hex_byte_def ascii_graphic_def is_ascii_digit_def)
  moreover have "demo_task_digest \<noteq> []" using demo_task_digest_hex(1) by (metis list.size(3) zero_neq_numeral)
  ultimately have d: "ascii_graphic (last demo_task_digest)" "demo_task_digest \<noteq> []" by (simp_all add: list_all_iff)
  have "\<not> is_blank demo_continuation_session" using d
    by (intro not_blank_graphic_ends) (simp_all add: demo_continuation_session_def ascii_graphic_def)
  moreover have "\<not> is_blank (''task:'' @ ''p'')" by (rule not_blank_graphic_ends) (simp_all add: ascii_graphic_def)
  ultimately show ?thesis using b demo_digest_not_blank
    by (simp add: validate_intent_ledger_receipt_def intent_fields_named_def demo_enqueued_def)
      (simp add: demo_committed_def task_intent_def demo_plan_snapshot_def)
qed

definition demo_ledger :: string where
  "demo_ledger = append_jsonl_value (js_enc number_json) (nl_intent_to_value demo_nl demo_enqueued) []"

lemma demo_latest_row:
  assumes "readable_intent demo_task_digest i"
    and "nh_intents h = append_jsonl_value (js_enc number_json) (nl_intent_to_value demo_nl i) []"
  shows "latest_recoverable_intent_for_key demo_nl h demo_task_digest = \<lparr>ri_latest = Some i, ri_corruption = None\<rparr>"
proof -
  have "okr_line (js_enc number_json (nl_intent_to_value demo_nl i))"
    using demo_nl_ok by (simp add: continuation_lib_ok_def codec_ok_def del: demo_nl_sel(3))
  then have "text_lines (nh_intents h) = [js_enc number_json (nl_intent_to_value demo_nl i)]"
    using assms(2) text_lines_append_jsonl_line [of "[]"] by (simp add: append_jsonl_value_def okf_text_def text_lines_def)
  then show ?thesis
    using read_committed_row [OF demo_nl_ok, of i h 1] assms(1)
    by (simp add: latest_recoverable_intent_for_key_def unread_def readable_intent_def del: demo_nl_sel(3))
qed

lemma demo_intent_latest:
  "latest_recoverable_intent_for_key demo_nl (demo_continuation_home demo_ledger) demo_task_digest
     = \<lparr>ri_latest = Some demo_enqueued, ri_corruption = None\<rparr>"
  using demo_intent_readable
  by (intro demo_latest_row) (simp_all add: readable_intent_def demo_ledger_def demo_enqueued_def)

definition demo_env :: "(string \<times> string) option \<Rightarrow> continuation_env" where
  "demo_env control = \<lparr>ne_terminal_control = Inr control, ne_active_session = (\<lambda>_. Inr None), ne_outbox = Inr False,
     ne_requeue = (\<lambda>_ p. (p, Inr ''c''))\<rparr>"

definition demo_leased :: RuntimeQueuePreparedItem where
  "demo_leased = \<lparr>qi_queue_id = ''c'', qi_continuation_intent_key = Some demo_task_digest\<rparr>"

lemma demo_gate:
  "gate_goal_continuation_after_lease demo_nl env demo_leased now (demo_continuation_home demo_ledger)
     = gate_revalidated demo_nl env demo_enqueued ''c'' now (demo_continuation_home demo_ledger)"
  by (simp add: gate_goal_continuation_after_lease_def demo_leased_def demo_intent_latest owned_child_def
      gate_loaded_def latest_goal_continuation_fence_def text_lines_def upgrade_durably_def upgrade_open_legacy_intent_def
      legacy_intent_missing_additive_fields_def demo_enqueued_def TASK_CONTINUATION_INTENT_SCHEMA_def GOAL_CONTINUATION_INTENT_SCHEMA_def)

text \<open>The same for the intent of the goal.\<close>

definition demo_goal_ledger :: string where
  "demo_goal_ledger = append_jsonl_value (js_enc number_json) (nl_intent_to_value demo_nl demo_goal_intent) []"

lemma demo_goal_readable: "readable_intent demo_task_digest demo_goal_intent"
proof -
  have "\<not> is_blank (gl_lineage_id demo_goal_row)" "\<not> is_blank (gl_campaign_family_id demo_goal_row)"
    by (simp_all add: demo_goal_row_def projection_lineage_def Let_def split_beta lineage_checksum_def sha256_json_not_blank)
  moreover have "\<not> is_blank ''c''" "\<not> is_blank ''g''" using one_graphic by (simp_all add: ascii_graphic_def)
  ultimately show ?thesis
    using demo_intent_readable
    by (auto simp: readable_intent_def validate_intent_ledger_receipt_def intent_fields_named_def demo_goal_intent_def
        demo_enqueued_def split: if_splits option.splits)
qed

lemma demo_goal_latest:
  "latest_recoverable_intent_for_key demo_nl (demo_goal_home demo_goal_ledger) demo_task_digest
     = \<lparr>ri_latest = Some demo_goal_intent, ri_corruption = None\<rparr>"
  by (rule demo_latest_row [OF demo_goal_readable]) (simp add: demo_goal_home_def demo_goal_ledger_def)

lemma demo_goal_gate:
  "gate_goal_continuation_after_lease demo_nl env demo_leased now (demo_goal_home demo_goal_ledger)
     = gate_revalidated demo_nl env demo_goal_intent ''c'' now (demo_goal_home demo_goal_ledger)"
proof -
  note demo_goal_latest
  moreover have "nh_fences (demo_goal_home t) = []" for t by (simp add: demo_goal_home_def)
  moreover have "ni_child_queue_id demo_goal_intent = Some ''c''" "\<not> legacy_intent_missing_additive_fields demo_goal_intent"
    by (simp_all add: demo_goal_intent_def demo_enqueued_def legacy_intent_missing_additive_fields_def)
  ultimately show ?thesis
    by (simp add: gate_goal_continuation_after_lease_def demo_leased_def owned_child_def
        gate_loaded_def latest_goal_continuation_fence_def text_lines_def upgrade_durably_def upgrade_open_legacy_intent_def)
qed

lemma demo_settlement:
  assumes "nh_pending h = Some demo_pending"
  shows "\<exists>h' b. record_continuation_settlement_once demo_nl env demo_enqueued kind reason now h = (h', Inr b)
    \<and> nh_fences h' = nh_fences h"
proof -
  let ?h = "write_runtime_queue_quarantine_marker (ni_parent_queue_id demo_enqueued)
    (''continuation parent settled before unsafe autonomous replay: '' @ reason) now h"
  have "nh_pending ?h = Some demo_pending" using assms by (simp add: write_runtime_queue_quarantine_marker_def)
  then have "exact_current_parent demo_nl env ?h demo_enqueued = Inr False"
    by (simp add: exact_current_parent_def parent_rows_def demo_pending_values demo_enqueued_def Let_def)
  then have "\<exists>d. append_continuation_settlement_notice_if_current demo_nl env ?h demo_enqueued kind
      (settlement_key demo_nl demo_enqueued) = Inr d"
    by (simp add: append_continuation_settlement_notice_if_current_def)
  then show ?thesis by (auto simp: record_continuation_settlement_once_def Let_def)
qed

lemma demo_suppressed:
  "\<exists>h' f. gate_goal_continuation_after_lease demo_nl (demo_env (Some (''operator'', ''stop''))) demo_leased 7
     (demo_continuation_home demo_ledger) = (h', Inr (GateSuppressed f))"
proof -
  let ?reason = "''leased continuation child has terminal control '' @ ''operator'' @ '' before execution: '' @ ''stop''"
  let ?h = "quarantine_child (Some ''c'') ?reason 7 (demo_continuation_home demo_ledger)"
  have "nh_pending ?h = Some demo_pending"
    by (simp add: quarantine_child_def quarantine_fenced_child_def write_runtime_queue_quarantine_marker_def)
  from demo_settlement [OF this, of "demo_env (Some (''operator'', ''stop''))" SettledPolicyBlocked ?reason 7]
  obtain h1 b where s: "record_continuation_settlement_once demo_nl (demo_env (Some (''operator'', ''stop''))) demo_enqueued
      SettledPolicyBlocked ?reason 7 ?h = (h1, Inr b)" "nh_fences h1 = []" by auto
  then have "latest_goal_continuation_fence demo_nl h1 k = Inr None" for k
    by (simp add: latest_goal_continuation_fence_def text_lines_def)
  then have "\<exists>h' f. append_goal_continuation_fence_once demo_nl demo_enqueued (Some ''c'')
      (''leased continuation child already has terminal control'' @ '': '' @ ?reason) 7 h1 = (h', Inr f)"
    by (simp add: append_goal_continuation_fence_once_def Let_def)
  with s(1) show ?thesis
    by (auto simp: demo_gate gate_revalidated_def demo_validated demo_env_def settle_revalidation_failure_and_fence_def
        suppressed_gate_def)
qed

end
