(* ===== verification/Goal_Continuation_Claims.thy ===== *)
theory Goal_Continuation_Claims
  imports Goal_Continuation_Demo
begin

text \<open>
  Continuation intents: what the gate, the fences and the ledger of intents guarantee.
\<close>

section \<open>The gate\<close>

text \<open>
  C11. A continuation runs only on current authority. When a leased child passes the gate, the ledger has its
  intent without corruption and without a fence, the child is the one the intent owns, no terminal control stops it,
  no message of the user follows the parent in its lane, and the authority of the intent is current: for a task the
  plan or family it was given accepts the snapshot; for a goal the doctor reports exactly this lineage as the
  only runnable one, the parent descends from it through acknowledged intents of the same authority, no
  closure intent supersedes it and autonomy is active in the lane. All this holds of the home and the intent as they
  are at the lease; only an open legacy intent without the additive fields is first completed by these fields, in one
  row appended to the ledger. The intent that is acknowledged differs from it in status, child, reason and time
  only. (A queue of less than 2^64 rows.)
\<close>
theorem gate_admits_current:
  assumes "gate_goal_continuation_after_lease lib env item now h = (h', Inr (GateAcknowledged i))"
    and "nh_pending h = Some t" and "length (pending_values lib t) < 2 ^ 64"
  shows "\<exists>k latest h1 j. qi_continuation_intent_key item = Some k
    \<and> latest_recoverable_intent_for_key lib h k = \<lparr>ri_latest = Some latest, ri_corruption = None\<rparr>
    \<and> latest_goal_continuation_fence lib h k = Inr None
    \<and> (ni_child_queue_id latest = Some (qi_queue_id item)
        \<or> find_child_queue_for_intent lib h k = Inr (Some (qi_queue_id item)))
    \<and> ne_terminal_control env = Inr None
    \<and> (h1 = h \<and> j = latest
        \<or> intent_open latest \<and> legacy_intent_missing_additive_fields latest \<and> h1 = append_intent lib j h
          \<and> same_intent latest j
          \<and> j = latest\<lparr>ni_human_input_generation := ni_human_input_generation j,
              ni_goal_relation_at_commit := ni_goal_relation_at_commit j,
              ni_goal_status_at_commit := ni_goal_status_at_commit j,
              ni_reason := ''legacy v1 continuation additive fields reconstructed at the lease boundary'',
              ni_observed_at_ms := now\<rparr>)
    \<and> no_newer_message lib t j \<and> authority_current lib h1 j
    \<and> i = j\<lparr>ni_status := IntentAcknowledged, ni_child_queue_id := ni_child_queue_id i, ni_reason := ni_reason i,
          ni_observed_at_ms := ni_observed_at_ms i\<rparr>"
proof -
  from gate_acknowledged [OF assms(1)] obtain k latest where k: "qi_continuation_intent_key item = Some k"
    "latest_recoverable_intent_for_key lib h k = \<lparr>ri_latest = Some latest, ri_corruption = None\<rparr>"
    "owned_child lib h latest k (qi_queue_id item) = Inr True"
    "gate_loaded lib env latest k (qi_queue_id item) now h = (h', Inr (GateAcknowledged i))" .
  from k(4) obtain h1 j where j: "latest_goal_continuation_fence lib h k = Inr None"
    "upgrade_durably lib env latest (Some (qi_queue_id item))
       ''legacy v1 continuation additive fields reconstructed at the lease boundary''
       ''leased legacy continuation upgrade failed closed'' now h = (h1, Inr j)"
    "validate_parent_lane_for_intent lib h1 j = Inr ()" "ne_terminal_control env = Inr None"
    "acknowledge_intent lib j (qi_queue_id item) now h1 = (h', i)"
    by (auto simp: gate_loaded_acknowledged gate_revalidated_acknowledged)
  note u = upgrade_durably_home [OF j(2)]
  have "nh_pending h1 = Some t" using u assms(2) by (auto simp: append_intent_def)
  note current = validated_intent [OF j(3) this assms(3)]
  have owned: "ni_child_queue_id latest = Some (qi_queue_id item)
      \<or> find_child_queue_for_intent lib h k = Inr (Some (qi_queue_id item))"
    using k(3) by (auto simp: owned_child_def split: if_splits sum.splits)
  show ?thesis
    by (intro exI conjI) (rule k(1,2) j(1,4) owned u conjunct1 [OF current] conjunct2 [OF current]
        acknowledge_intent_fields [OF j(5)])+
qed

theorem gate_admits_current_witness:
  "(\<exists>h' i. gate_goal_continuation_after_lease demo_nl (demo_env None) demo_leased 7 (demo_continuation_home demo_ledger)
       = (h', Inr (GateAcknowledged i)) \<and> ni_schema i = TASK_CONTINUATION_INTENT_SCHEMA
     \<and> no_newer_message demo_nl demo_pending demo_enqueued
     \<and> task_authority_current demo_nl (demo_continuation_home demo_ledger) demo_enqueued)
   \<and> (\<exists>h' i. gate_goal_continuation_after_lease demo_nl (demo_env None) demo_leased 7 (demo_goal_home demo_goal_ledger)
       = (h', Inr (GateAcknowledged i)) \<and> ni_schema i = GOAL_CONTINUATION_INTENT_SCHEMA
     \<and> no_newer_message demo_nl demo_pending demo_goal_intent
     \<and> goal_authority_current demo_nl (demo_goal_home demo_goal_ledger) demo_goal_intent)"
    (is "?task \<and> ?goal")
proof -
  have k: "qi_continuation_intent_key demo_leased = Some demo_task_digest" by (simp add: demo_leased_def)
  have schema: "ni_schema demo_enqueued = TASK_CONTINUATION_INTENT_SCHEMA"
    "ni_schema demo_goal_intent = GOAL_CONTINUATION_INTENT_SCHEMA"
    "TASK_CONTINUATION_INTENT_SCHEMA \<noteq> GOAL_CONTINUATION_INTENT_SCHEMA"
    "\<not> legacy_intent_missing_additive_fields demo_enqueued" "\<not> legacy_intent_missing_additive_fields demo_goal_intent"
    by (simp_all add: demo_enqueued_def demo_goal_intent_def TASK_CONTINUATION_INTENT_SCHEMA_def
        GOAL_CONTINUATION_INTENT_SCHEMA_def legacy_intent_missing_additive_fields_def)
  have short: "length (pending_values demo_nl demo_pending) < 2 ^ 64" by (simp add: demo_pending_values)
  obtain h1 i1 where "acknowledge_intent demo_nl demo_enqueued ''c'' 7 (demo_continuation_home demo_ledger) = (h1, i1)" by fastforce
  note i1 = acknowledge_intent_same [OF this]
  from \<open>acknowledge_intent demo_nl demo_enqueued ''c'' 7 (demo_continuation_home demo_ledger) = (h1, i1)\<close>
  have g1: "gate_goal_continuation_after_lease demo_nl (demo_env None) demo_leased 7 (demo_continuation_home demo_ledger)
      = (h1, Inr (GateAcknowledged i1))"
    by (simp add: demo_gate gate_revalidated_def demo_validated demo_env_def)
  from gate_admits_current [OF g1 _ short] k demo_intent_latest schema(4)
  have 1: "no_newer_message demo_nl demo_pending demo_enqueued"
    "authority_current demo_nl (demo_continuation_home demo_ledger) demo_enqueued" by auto
  with g1 schema(1) i1 have ?task by (auto simp: authority_current_def)
  obtain h2 i2 where "acknowledge_intent demo_nl demo_goal_intent ''c'' 7 (demo_goal_home demo_goal_ledger) = (h2, i2)" by fastforce
  note i2 = acknowledge_intent_same [OF this]
  from \<open>acknowledge_intent demo_nl demo_goal_intent ''c'' 7 (demo_goal_home demo_goal_ledger) = (h2, i2)\<close>
  have g2: "gate_goal_continuation_after_lease demo_nl (demo_env None) demo_leased 7 (demo_goal_home demo_goal_ledger)
      = (h2, Inr (GateAcknowledged i2))"
    by (simp add: demo_goal_gate gate_revalidated_def demo_goal_validated demo_env_def)
  have "nh_pending (demo_goal_home demo_goal_ledger) = Some demo_pending" by (simp add: demo_goal_home_def)
  from gate_admits_current [OF g2 this short] k demo_goal_latest schema(5)
  have 2: "no_newer_message demo_nl demo_pending demo_goal_intent"
    "authority_current demo_nl (demo_goal_home demo_goal_ledger) demo_goal_intent" by auto
  with g2 schema(2,3) i2 have ?goal by (auto simp: authority_current_def)
  with \<open>?task\<close> show ?thesis by (rule conjI)
qed

section \<open>Fences\<close>

text \<open>
  C12. A fenced continuation never runs. Once the gate has suppressed a child, the fence of its intent stays in
  the ledger through any further operations, with all other files changing in any way between them: no item of
  that intent passes the gate again and the intent is never enqueued again.
\<close>
theorem fenced_intent_never_runs:
  assumes "continuation_lib_ok lib" and "okf_text (nh_fences h)" and "qi_continuation_intent_key item = Some k"
    and "gate_goal_continuation_after_lease lib env item now h = (h', Inr (GateSuppressed f))"
  shows "fence_seen lib (fold (continuation_step lib) ops h') k = Some f
    \<and> (qi_continuation_intent_key item' = Some k \<longrightarrow>
        snd (gate_goal_continuation_after_lease lib env' item' now' (fold (continuation_step lib) ops h'))
          \<noteq> Inr (GateAcknowledged i))
    \<and> snd (ensure_goal_continuation_enqueued lib env' k now' (fold (continuation_step lib) ops h')) \<noteq> Inr i"
  using fences.run_kept [OF gate_suppressed_seen [OF assms], of ops] fenced_not_admitted by blast

theorem fenced_intent_never_runs_witness:
  "\<exists>h' f. gate_goal_continuation_after_lease demo_nl (demo_env (Some (''operator'', ''stop''))) demo_leased 7
       (demo_continuation_home demo_ledger) = (h', Inr (GateSuppressed f))
     \<and> fence_seen demo_nl (fold (continuation_step demo_nl) [GateOp (demo_env None) demo_leased 8] h') demo_task_digest = Some f
     \<and> snd (gate_goal_continuation_after_lease demo_nl (demo_env None) demo_leased 9
         (fold (continuation_step demo_nl) [GateOp (demo_env None) demo_leased 8] h')) \<noteq> Inr (GateAcknowledged demo_enqueued)"
proof -
  obtain h' f where g: "gate_goal_continuation_after_lease demo_nl (demo_env (Some (''operator'', ''stop''))) demo_leased 7
      (demo_continuation_home demo_ledger) = (h', Inr (GateSuppressed f))" using demo_suppressed by blast
  have k: "qi_continuation_intent_key demo_leased = Some demo_task_digest" by (simp add: demo_leased_def)
  have "okf_text (nh_fences (demo_continuation_home demo_ledger))" by (simp add: okf_text_def)
  from fenced_intent_never_runs [OF demo_nl_ok this k g, where item' = demo_leased] k g show ?thesis by blast
qed

section \<open>Commits\<close>

text \<open>
  C13. An intent is committed once. When a commit writes an intent that the ledger can read, then whatever is
  appended to the ledger afterwards, by whomever and parseable or not, and however the other files change, the
  ledger has this intent: its lane, lineage, authority, slices and reconstructed fields are those of the commit
  and its status has only advanced. A later commit of the same key writes nothing and returns it.
\<close>
theorem intent_committed_once:
  assumes "continuation_lib_ok lib" and "okf_text (nh_intents h)" and "commits lib h h' i"
    and "nh_intents h' \<noteq> nh_intents h" and "validate_intent_ledger_receipt i = Inr ()"
    and "text_lines (nh_intents h'') = text_lines (nh_intents h') @ later"
  shows "\<exists>b. ri_latest (latest_recoverable_intent_for_key lib h'' (ni_intent_key i)) = Some b \<and> carried_on i b
    \<and> (\<forall>h3 j. commits lib h'' h3 j \<and> ni_intent_key j = ni_intent_key i \<longrightarrow> h3 = h'' \<and> j = b)"
proof -
  from commits_intent [OF assms(3)] obtain c where c: "commit_intent lib c h = (h', Inr i)" "complete_intent c"
    "ni_schema c = GOAL_CONTINUATION_INTENT_SCHEMA \<or> ni_schema c = TASK_CONTINUATION_INTENT_SCHEMA" .
  note new = committed_new [OF c(1) assms(4)]
  let ?k = "ni_intent_key i" and ?row = "js_enc (nl_json lib) (nl_intent_to_value lib i)"
  have "okr_line ?row" using assms(1) by (simp add: continuation_lib_ok_def codec_ok_def)
  then have lines: "text_lines (nh_intents h'') = text_lines (nh_intents h) @ ?row # later"
    using new assms(2,6) by (simp add: append_intent_def append_jsonl_value_def text_lines_append_jsonl_line)
  have "list_all (silent_line lib ?k) (text_lines (nh_intents h))"
    using new by (simp add: latest_recoverable_intent_for_key_def unread_def [symmetric] read_lines_unread)
  then have "read_intent_lines lib h'' ?k 0 (text_lines (nh_intents h)) unread = unread" by (simp add: read_lines_unread)
  then have "latest_recoverable_intent_for_key lib h'' ?k
      = read_intent_lines lib h'' ?k (length (text_lines (nh_intents h)) + 1) later \<lparr>ri_latest = Some i, ri_corruption = None\<rparr>"
    using read_committed_row [OF assms(1,5), of h''] c(3) new
    by (simp add: latest_recoverable_intent_for_key_def lines read_intent_lines_append unread_def)
  moreover have "complete_intent i" using c(2) new by simp
  ultimately obtain b where b: "ri_latest (latest_recoverable_intent_for_key lib h'' ?k) = Some b" "carried_on i b"
    using read_carries_on [of "\<lparr>ri_latest = Some i, ri_corruption = None\<rparr>" i] by (metis RecoverableIntentRead.select_convs(1))
  moreover have "h3 = h'' \<and> j = b" if j: "commits lib h'' h3 j" "ni_intent_key j = ?k" for h3 j
  proof -
    from commits_intent [OF j(1)] obtain c' where "commit_intent lib c' h'' = (h3, Inr j)" .
    from committed_again [OF this _ assms(1)] b(1) j(2) show ?thesis by simp
  qed
  ultimately show ?thesis by blast
qed

theorem intent_committed_once_witness:
  "\<exists>h' b. commit_task_continuation_intent demo_nl ''q'' ''s'' demo_metadata demo_plan_snapshot 1 1 False 0 (demo_continuation_home [])
       = (h', Inr demo_committed)
     \<and> ri_latest (latest_recoverable_intent_for_key demo_nl h' demo_task_digest) = Some b \<and> carried_on demo_committed b"
proof -
  let ?h = "demo_continuation_home []"
  have new: "commit_intent demo_nl demo_committed ?h = (append_intent demo_nl demo_committed ?h, Inr demo_committed)"
    by (simp add: commit_intent_def latest_intent_for_key_def latest_recoverable_intent_for_key_def text_lines_def)
  moreover have "\<not> is_blank ''q''" "\<not> is_blank ''s''" using one_graphic by (simp_all add: ascii_graphic_def)
  moreover have "sn_exact_lane_digest demo_plan_snapshot = demo_task_digest" by (simp add: demo_plan_snapshot_def)
  ultimately have c: "commit_task_continuation_intent demo_nl ''q'' ''s'' demo_metadata demo_plan_snapshot 1 1 False 0 ?h
      = (append_intent demo_nl demo_committed ?h, Inr demo_committed)"
    by (simp add: commit_task_continuation_intent_def demo_generation demo_committed_def)
  then have "commits demo_nl ?h (append_intent demo_nl demo_committed ?h) demo_committed" unfolding commits_def by blast
  moreover have "okf_text (nh_intents ?h)" by (simp add: okf_text_def)
  ultimately show ?thesis
    using intent_committed_once [of demo_nl ?h "append_intent demo_nl demo_committed ?h" demo_committed
        "append_intent demo_nl demo_committed ?h" "[]"] demo_nl_ok demo_intent_readable append_intent_changes [of demo_nl demo_committed ?h] c
    by auto
qed

end
