(* ===== verification/Supervision.thy ===== *)
theory Supervision
  imports Replay_Ledger
begin

text \<open>
  Supervision of child processes (\<open>src/crates/agent-harness-core/src/supervision.rs\<close>): from the specification and
  the persisted state of each child, whether it is healthy, stale, stopped, to be restarted, or held back
  by the crash-loop breaker, with the backoff before a restart. Times are \<open>i64\<close>, here integers with the
  saturation of the source written out; the \<open>usize\<close> counts are natural numbers. The report is appended to a
  ledger.
\<close>

section \<open>Data\<close>

definition SUPERVISION_EVALUATION_SCHEMA :: string where
  "SUPERVISION_EVALUATION_SCHEMA = ''agent-harness.supervision-evaluation.v1''"

record SupervisorRestartPolicy =
  rp_enabled :: bool
  rp_base_backoff_ms :: int
  rp_max_backoff_ms :: int
  rp_crash_loop_window_ms :: int
  rp_crash_loop_threshold :: nat

record SupervisorChildSpec =
  cs_name :: string
  cs_component :: string
  cs_command :: "string list"
  cs_heartbeat_ttl_ms :: int
  cs_restart :: SupervisorRestartPolicy
  cs_alert_channel :: "string option"

record SupervisorChildState =
  ch_name :: string
  ch_process_id :: "32 word option"
  ch_started_at_ms :: "int option"
  ch_last_heartbeat_ms :: "int option"
  ch_last_exit_ms :: "int option"
  ch_last_exit_code :: "int option"
  ch_restart_count :: nat
  ch_recent_restart_ms :: "int list"
  ch_stop_intent :: bool

datatype SupervisorChildStatus =
  ChildHealthy | ChildStale | ChildStopped | ChildRestartScheduled | ChildBreakerTripped | ChildStopIntent

record SupervisorAlert =
  sa_severity :: string
  sa_message :: string
  sa_channel :: "string option"

record SupervisorChildEvaluation =
  ce_name :: string
  ce_component :: string
  ce_status :: SupervisorChildStatus
  ce_process_id :: "32 word option"
  ce_heartbeat_age_ms :: "int option"
  ce_restart_count :: nat
  ce_next_restart_after_ms :: "int option"
  ce_alert :: "SupervisorAlert option"
  ce_detail :: string

record SupervisionSummary =
  sm_healthy :: nat
  sm_stale :: nat
  sm_stopped :: nat
  sm_restart_scheduled :: nat
  sm_breaker_tripped :: nat
  sm_stop_intent :: nat
  sm_alerts :: nat

record SupervisionEvaluationReport =
  sv_schema :: string
  sv_run_id :: string
  sv_summary :: SupervisionSummary
  sv_children :: "SupervisorChildEvaluation list"

definition default_restart_policy :: SupervisorRestartPolicy where
  "default_restart_policy = \<lparr>rp_enabled = True, rp_base_backoff_ms = 1000, rp_max_backoff_ms = 60000,
     rp_crash_loop_window_ms = 300000, rp_crash_loop_threshold = 5\<rparr>"

definition default_supervisor_child_specs :: "SupervisorChildSpec list" where
  "default_supervisor_child_specs = map (\<lambda>name. \<lparr>cs_name = name, cs_component = name, cs_command = [name],
       cs_heartbeat_ttl_ms = 120000, cs_restart = default_restart_policy, cs_alert_channel = None\<rparr>)
     [''runtime-loop'', ''worker-loop'', ''progress-delivery-loop'', ''telegram-loop'', ''discord-outbox-loop'',
      ''discord-gateway-loop'']"

section \<open>Operations\<close>

definition sat_mul_i64 :: "int \<Rightarrow> int \<Rightarrow> int" where
  "sat_mul_i64 a b = max (- (2 ^ 63)) (min (2 ^ 63 - 1) (a * b))"

definition restart_backoff_ms :: "SupervisorChildSpec \<Rightarrow> nat \<Rightarrow> int option" where
  "restart_backoff_ms spec restart_count =
     (if \<not> rp_enabled (cs_restart spec) then None
      else let backoff = sat_mul_i64 (rp_base_backoff_ms (cs_restart spec)) (2 ^ min restart_count 20)
           in Some (max (min backoff (rp_max_backoff_ms (cs_restart spec))) 0))"

definition crash_loop_tripped :: "SupervisorChildSpec \<Rightarrow> SupervisorChildState \<Rightarrow> int \<Rightarrow> bool" where
  "crash_loop_tripped spec state now_ms =
     (if \<not> rp_enabled (cs_restart spec) then False
      else let window_start = sat_sub_i64 now_ms (max (rp_crash_loop_window_ms (cs_restart spec)) 0)
           in rp_crash_loop_threshold (cs_restart spec)
                \<le> length (filter (\<lambda>at. window_start \<le> at \<and> at \<le> now_ms) (ch_recent_restart_ms state)))"

definition heartbeat_age :: "SupervisorChildState \<Rightarrow> int \<Rightarrow> int option" where
  "heartbeat_age state now_ms = map_option (sat_sub_i64 now_ms) (ch_last_heartbeat_ms state)"

definition restart_or_stopped :: "SupervisorChildSpec \<Rightarrow> SupervisorChildState option \<Rightarrow> nat \<Rightarrow> string
    \<Rightarrow> SupervisorChildEvaluation" where
  "restart_or_stopped spec state restart_count detail =
     (let status = (if rp_enabled (cs_restart spec) then ChildRestartScheduled else ChildStopped)
      in \<lparr>ce_name = cs_name spec, ce_component = cs_component spec, ce_status = status,
          ce_process_id = Option.bind state ch_process_id, ce_heartbeat_age_ms = None,
          ce_restart_count = restart_count,
          ce_next_restart_after_ms = Option.bind state (\<lambda>_. restart_backoff_ms spec restart_count),
          ce_alert = (if status = ChildStopped
            then Some \<lparr>sa_severity = ''warn'', sa_message = cs_name spec @ '' is stopped and restart is disabled'',
                       sa_channel = cs_alert_channel spec\<rparr>
            else None),
          ce_detail = detail\<rparr>)"

definition evaluate_child :: "SupervisorChildSpec \<Rightarrow> SupervisorChildState option \<Rightarrow> int \<Rightarrow> SupervisorChildEvaluation" where
  "evaluate_child spec state now_ms =
     (case state of
        None \<Rightarrow> restart_or_stopped spec None 0 ''child has no persisted state''
      | Some st \<Rightarrow>
          let evaluation = (\<lambda>status next alert detail.
            \<lparr>ce_name = cs_name spec, ce_component = cs_component spec, ce_status = status,
             ce_process_id = ch_process_id st, ce_heartbeat_age_ms = heartbeat_age st now_ms,
             ce_restart_count = ch_restart_count st, ce_next_restart_after_ms = next, ce_alert = alert,
             ce_detail = detail\<rparr>)
          in if ch_stop_intent st
             then evaluation ChildStopIntent None None ''operator stop intent is active''
             else if crash_loop_tripped spec st now_ms
             then evaluation ChildBreakerTripped None
               (Some \<lparr>sa_severity = ''error'', sa_message = cs_name spec @ '' tripped crash-loop breaker after ''
                        @ show_nat (ch_restart_count st) @ '' restart(s)'', sa_channel = cs_alert_channel spec\<rparr>)
               ''restart threshold exceeded inside crash-loop window''
             else if ch_process_id st = None
             then restart_or_stopped spec (Some st) (ch_restart_count st) ''child process is not running''
             else if (case heartbeat_age st now_ms of Some age \<Rightarrow> cs_heartbeat_ttl_ms spec < age | None \<Rightarrow> False)
             then evaluation ChildStale (restart_backoff_ms spec (ch_restart_count st))
               (Some \<lparr>sa_severity = ''warn'', sa_message = cs_name spec @ '' heartbeat is stale'',
                      sa_channel = cs_alert_channel spec\<rparr>)
               (''heartbeat age '' @ show_int (case heartbeat_age st now_ms of Some age \<Rightarrow> age | None \<Rightarrow> 0)
                 @ ''ms exceeds ttl '' @ show_int (cs_heartbeat_ttl_ms spec) @ ''ms'')
             else evaluation ChildHealthy None None ''heartbeat is fresh'')"

definition count_child :: "SupervisorChildEvaluation \<Rightarrow> SupervisionSummary \<Rightarrow> SupervisionSummary" where
  "count_child c m =
     (let m' = (case ce_status c of
          ChildHealthy \<Rightarrow> m\<lparr>sm_healthy := sm_healthy m + 1\<rparr>
        | ChildStale \<Rightarrow> m\<lparr>sm_stale := sm_stale m + 1\<rparr>
        | ChildStopped \<Rightarrow> m\<lparr>sm_stopped := sm_stopped m + 1\<rparr>
        | ChildRestartScheduled \<Rightarrow> m\<lparr>sm_restart_scheduled := sm_restart_scheduled m + 1\<rparr>
        | ChildBreakerTripped \<Rightarrow> m\<lparr>sm_breaker_tripped := sm_breaker_tripped m + 1\<rparr>
        | ChildStopIntent \<Rightarrow> m\<lparr>sm_stop_intent := sm_stop_intent m + 1\<rparr>)
      in if ce_alert c \<noteq> None then m'\<lparr>sm_alerts := sm_alerts m' + 1\<rparr> else m')"

definition summarize :: "SupervisorChildEvaluation list \<Rightarrow> SupervisionSummary" where
  "summarize children = fold count_child children
     \<lparr>sm_healthy = 0, sm_stale = 0, sm_stopped = 0, sm_restart_scheduled = 0, sm_breaker_tripped = 0,
      sm_stop_intent = 0, sm_alerts = 0\<rparr>"

definition evaluate_supervisor_children :: "(SupervisionEvaluationReport \<Rightarrow> string) \<Rightarrow> string \<Rightarrow> int
    \<Rightarrow> SupervisorChildSpec list \<Rightarrow> SupervisorChildState list \<Rightarrow> string
    \<Rightarrow> string \<times> SupervisionEvaluationReport" where
  "evaluate_supervisor_children enc run_id now_ms specs states t =
     (let children = map (\<lambda>spec. evaluate_child spec (find (\<lambda>st. ch_name st = cs_name spec) states) now_ms) specs;
          report = \<lparr>sv_schema = SUPERVISION_EVALUATION_SCHEMA, sv_run_id = run_id,
            sv_summary = summarize children, sv_children = children\<rparr>
      in (append_jsonl_value enc report t, report))"

section \<open>Counting\<close>

lemma summarize_counts:
  "sm_healthy (summarize cs) = length (filter (\<lambda>c. ce_status c = ChildHealthy) cs)"
  "sm_stale (summarize cs) = length (filter (\<lambda>c. ce_status c = ChildStale) cs)"
  "sm_stopped (summarize cs) = length (filter (\<lambda>c. ce_status c = ChildStopped) cs)"
  "sm_restart_scheduled (summarize cs) = length (filter (\<lambda>c. ce_status c = ChildRestartScheduled) cs)"
  "sm_breaker_tripped (summarize cs) = length (filter (\<lambda>c. ce_status c = ChildBreakerTripped) cs)"
  "sm_stop_intent (summarize cs) = length (filter (\<lambda>c. ce_status c = ChildStopIntent) cs)"
  "sm_alerts (summarize cs) = length (filter (\<lambda>c. ce_alert c \<noteq> None) cs)"
  by (induction cs rule: rev_induct;
      simp add: summarize_def count_child_def Let_def split: SupervisorChildStatus.splits)+

lemma alert_iff:
  "ce_alert (evaluate_child spec state now) \<noteq> None \<longleftrightarrow>
     ce_status (evaluate_child spec state now) \<in> {ChildStale, ChildStopped, ChildBreakerTripped}"
  by (auto simp: evaluate_child_def restart_or_stopped_def Let_def split: option.splits)

lemma evaluate_child_name: "ce_name (evaluate_child spec state now) = cs_name spec"
  by (simp add: evaluate_child_def restart_or_stopped_def Let_def split: option.splits)

lemma held_back:
  "ce_status (evaluate_child spec state now) \<in> {ChildStopIntent, ChildBreakerTripped} \<Longrightarrow>
     ce_next_restart_after_ms (evaluate_child spec state now) = None"
  by (auto simp: evaluate_child_def restart_or_stopped_def Let_def split: option.splits if_splits)

lemma status_partition:
  "length (filter (\<lambda>c. ce_status c = ChildHealthy) cs) + length (filter (\<lambda>c. ce_status c = ChildStale) cs)
      + length (filter (\<lambda>c. ce_status c = ChildStopped) cs) + length (filter (\<lambda>c. ce_status c = ChildRestartScheduled) cs)
      + length (filter (\<lambda>c. ce_status c = ChildBreakerTripped) cs) + length (filter (\<lambda>c. ce_status c = ChildStopIntent) cs)
    = length cs"
proof (induction cs)
  case (Cons c cs)
  then show ?case by (cases "ce_status c") simp_all
qed simp

lemma alert_count:
  assumes "\<forall>c \<in> set cs. ce_alert c \<noteq> None \<longleftrightarrow> ce_status c \<in> {ChildStale, ChildStopped, ChildBreakerTripped}"
  shows "length (filter (\<lambda>c. ce_alert c \<noteq> None) cs) = length (filter (\<lambda>c. ce_status c = ChildStale) cs)
    + length (filter (\<lambda>c. ce_status c = ChildStopped) cs) + length (filter (\<lambda>c. ce_status c = ChildBreakerTripped) cs)"
  using assms
proof (induction cs)
  case (Cons c cs)
  then show ?case by (cases "ce_status c") auto
qed simp

section \<open>Properties\<close>

text \<open>
  C40. The backoff before a restart is bounded and never shrinks: with restarts enabled and a base that is not
  negative it lies between zero and the maximum of the policy (zero when that is negative), grows with
  every restart until it reaches the maximum or the twentieth restart, never overflows, and with restarts disabled
  there is none.
\<close>
theorem restart_backoff_bounds:
  assumes "0 \<le> rp_base_backoff_ms (cs_restart spec)" and "rp_max_backoff_ms (cs_restart spec) < 2 ^ 63"
  shows "case restart_backoff_ms spec n of
      None \<Rightarrow> \<not> rp_enabled (cs_restart spec)
    | Some b \<Rightarrow> rp_enabled (cs_restart spec) \<and> 0 \<le> b \<and> b \<le> max 0 (rp_max_backoff_ms (cs_restart spec))
        \<and> b = max 0 (min (rp_base_backoff_ms (cs_restart spec) * 2 ^ min n 20) (rp_max_backoff_ms (cs_restart spec)))
        \<and> (\<forall>m. n \<le> m \<longrightarrow> (\<exists>b'. restart_backoff_ms spec m = Some b' \<and> b \<le> b'))"
proof (cases "rp_enabled (cs_restart spec)")
  case True
  let ?base = "rp_base_backoff_ms (cs_restart spec)" and ?max = "rp_max_backoff_ms (cs_restart spec)"
  have clamp: "max (min (max (- (2 ^ 63)) (min (2 ^ 63 - 1) x)) ?max) 0 = max 0 (min x ?max)" if "0 \<le> x" for x
    using that assms(2) by (simp add: min_def max_def)
  have "0 \<le> ?base * 2 ^ j" for j :: nat using assms(1) by (rule mult_nonneg_nonneg) simp
  then have "max (min (sat_mul_i64 ?base (2 ^ j)) ?max) 0 = max 0 (min (?base * 2 ^ j) ?max)" for j
    unfolding sat_mul_i64_def by (rule clamp)
  then have eq: "restart_backoff_ms spec k = Some (max 0 (min (?base * 2 ^ min k 20) ?max))" for k
    using True unfolding restart_backoff_ms_def Let_def by (simp only: if_False not_True_eq_False)
  have "?base * 2 ^ min n 20 \<le> ?base * 2 ^ min m 20" if "n \<le> m" for m
    using that assms(1) by (intro mult_left_mono power_increasing) auto
  then have mono: "max 0 (min (?base * 2 ^ min n 20) ?max) \<le> max 0 (min (?base * 2 ^ min m 20) ?max)" if "n \<le> m" for m
    using that by (intro max.mono min.mono) auto
  show ?thesis unfolding eq option.case using True
  proof (intro conjI allI impI exI)
    fix m assume "n \<le> m"
    then show "max 0 (min (?base * 2 ^ min n 20) ?max) \<le> max 0 (min (?base * 2 ^ min m 20) ?max)" by (rule mono)
  qed simp_all
qed (simp add: restart_backoff_ms_def)

theorem restart_backoff_bounds_witness:
  "restart_backoff_ms (hd default_supervisor_child_specs) 4 = Some 16000
   \<and> (\<exists>b'. restart_backoff_ms (hd default_supervisor_child_specs) 50 = Some b' \<and> 16000 \<le> b')"
proof -
  have four: "restart_backoff_ms (hd default_supervisor_child_specs) 4 = Some 16000"
    by (simp add: restart_backoff_ms_def default_supervisor_child_specs_def default_restart_policy_def sat_mul_i64_def Let_def)
  have "0 \<le> rp_base_backoff_ms (cs_restart (hd default_supervisor_child_specs))"
    "rp_max_backoff_ms (cs_restart (hd default_supervisor_child_specs)) < 2 ^ 63"
    by (simp_all add: default_supervisor_child_specs_def default_restart_policy_def)
  from restart_backoff_bounds [OF this, of 4] four show ?thesis by auto
qed

text \<open>
  The supervision report accounts for every child: it has one evaluation per specification in the order of the
  specifications, its six counts add up to their number, an alert is raised exactly for the stale, stopped and
  breaker-tripped ones, a child the operator stopped or the breaker holds back is never given a restart, and the
  report is the row appended to the ledger.
\<close>
theorem supervision_report_exact:
  assumes "codec_ok enc dec (snd (evaluate_supervisor_children enc run_id now specs states t))"
    and "readable dec (\<lambda>_. True) t"
    and "rep = snd (evaluate_supervisor_children enc run_id now specs states t)"
  shows "map ce_name (sv_children rep) = map cs_name specs
    \<and> sm_healthy (sv_summary rep) + sm_stale (sv_summary rep) + sm_stopped (sv_summary rep)
        + sm_restart_scheduled (sv_summary rep) + sm_breaker_tripped (sv_summary rep) + sm_stop_intent (sv_summary rep)
        = length specs
    \<and> sm_alerts (sv_summary rep) = sm_stale (sv_summary rep) + sm_stopped (sv_summary rep) + sm_breaker_tripped (sv_summary rep)
    \<and> (\<forall>c \<in> set (sv_children rep). ce_status c \<in> {ChildStopIntent, ChildBreakerTripped} \<longrightarrow> ce_next_restart_after_ms c = None)
    \<and> parsed_rows dec (fst (evaluate_supervisor_children enc run_id now specs states t)) = parsed_rows dec t @ [rep]"
proof -
  define cs where "cs = map (\<lambda>spec. evaluate_child spec (find (\<lambda>st. ch_name st = cs_name spec) states) now) specs"
  have rep: "sv_children rep = cs" "sv_summary rep = summarize cs"
    by (simp_all add: assms(3) cs_def evaluate_supervisor_children_def Let_def)
  have names: "map ce_name cs = map cs_name specs"
    by (simp add: cs_def evaluate_child_name)
  have alerts: "\<forall>c \<in> set cs. ce_alert c \<noteq> None \<longleftrightarrow> ce_status c \<in> {ChildStale, ChildStopped, ChildBreakerTripped}"
    using alert_iff by (auto simp: cs_def)
  have held: "\<forall>c \<in> set cs. ce_status c \<in> {ChildStopIntent, ChildBreakerTripped} \<longrightarrow> ce_next_restart_after_ms c = None"
    using held_back by (auto simp: cs_def)
  have "parsed_rows dec (append_jsonl_value enc rep t) = parsed_rows dec t @ [rep]"
    using parsed_rows_append [where okr = "\<lambda>_. True"] assms by auto
  then have row: "parsed_rows dec (fst (evaluate_supervisor_children enc run_id now specs states t)) = parsed_rows dec t @ [rep]"
    by (simp add: assms(3) evaluate_supervisor_children_def Let_def)
  have "length cs = length specs" by (simp add: cs_def)
  with names alerts held row status_partition [of cs] alert_count [OF alerts] show ?thesis
    unfolding rep summarize_counts by (intro conjI) simp_all
qed

theorem supervision_report_exact_witness:
  "\<exists>rep :: SupervisionEvaluationReport. sv_children rep = [evaluate_child (hd default_supervisor_child_specs) None 7]
     \<and> sm_restart_scheduled (sv_summary rep) = 1
     \<and> parsed_rows (\<lambda>_. Some rep) (fst (evaluate_supervisor_children (\<lambda>_. ''{}'') ''r'' 7 [hd default_supervisor_child_specs] [] [])) = [rep]"
proof -
  define rep where "rep = snd (evaluate_supervisor_children (\<lambda>_. ''{}'') ''r'' 7 [hd default_supervisor_child_specs] [] [])"
  have cs: "sv_children rep = [evaluate_child (hd default_supervisor_child_specs) None 7]"
    by (simp add: rep_def evaluate_supervisor_children_def Let_def)
  have "trim ''{}'' = ''{}''" by (rule trim_graphic_ends) (simp_all add: ascii_graphic_def)
  then have "codec_ok (\<lambda>_. ''{}'') (\<lambda>_. Some rep) rep"
    by (simp add: codec_ok_def okr_line_def is_blank_def nl_def cr_def)
  moreover have "readable (\<lambda>_. Some rep) (\<lambda>_. True) []" by simp
  ultimately have "parsed_rows (\<lambda>_. Some rep) (fst (evaluate_supervisor_children (\<lambda>_. ''{}'') ''r'' 7 [hd default_supervisor_child_specs] [] [])) = [rep]"
    using supervision_report_exact [of "\<lambda>_. ''{}''" "\<lambda>_. Some rep" "''r''" 7 "[hd default_supervisor_child_specs]" "[]" "[]" rep]
    by (simp add: rep_def)
  moreover have "sm_restart_scheduled (sv_summary rep) = 1"
    by (simp add: rep_def evaluate_supervisor_children_def Let_def summarize_counts evaluate_child_def restart_or_stopped_def
        default_supervisor_child_specs_def default_restart_policy_def)
  ultimately show ?thesis using cs by (intro exI [of _ rep]) (intro conjI)
qed

end
