(* ===== verification/Spec2Isabelle.thy ===== *)
theory Spec2Isabelle
  imports External_Effect_Admission Operation_Plan_Contracts Goal_Campaign_Props Session_Transition_Claims Task_Drain_Claims
    Goal_Continuation_Claims Supervision Channel_Session_Key
begin

text \<open>
  \<^bold>\<open>A verification of the agent harness core.\<close>

  The program under \<open>src/crates/agent-harness-core\<close> runs autonomous agents: it receives turns
  from chat channels, runs them through a backend process, decides after each run whether the
  goal goes on, and keeps every decision in append-only JSONL ledgers so that a restart finds
  the state again. Its safety rests on a few components that decide: who owns a message (lanes
  and session keys), what may still be spent (budgets), what happens after a slice of work
  (transitions of goals and of tasks, and the intents that carry a continuation to its run), which goal may run and how it is closed (lineages, closures, session
  transitions), what a plan of work allows (operation plans), which actions on the outside
  world a user has approved (external effects), and which of its own processes are to be restarted
  (supervision). These are modelled here.

  \<^bold>\<open>Theories, parts and sources.\<close>

  \<^item> \<open>Rust_Prelude\<close>: the Rust the source uses: \<open>u64\<close> as a 64-bit word with saturating addition,
    \<open>io::Error\<close> as a kind and a message, \<open>str\<close> as a byte string with \<open>trim\<close>, \<open>lines\<close>,
    \<open>rsplit_once\<close>, ASCII case folding, decimal and hexadecimal rendering, \<open>BTreeMap\<close> as a sorted
    association list, \<open>HashMap\<close> as an association list whose iteration order is a parameter
    \<open>ho\<close> with the hypothesis \<open>hash_order ho\<close> (it yields each key once).
  \<^item> \<open>Jsonl\<close> (\<open>logging.rs\<close>): the text of a ledger, \<open>append_jsonl_value\<close> with its repair of a torn
    last line, \<open>append_jsonl_value_once_by_event_key\<close>. The locale \<open>append_ledger\<close> is the contract of
    an append-only ledger; it is interpreted on the text of a JSONL file and, in
    \<open>Operation_Plan_Inv\<close>, on the item lines of a plan.
  \<^item> \<open>Replay_Ledger\<close>: the contract of a ledger that answers a repeated request from its rows
    (locale \<open>replay_ledger\<close>), interpreted on the campaign budget and on the task budget, and
    concrete codecs for the witnesses.
  \<^item> \<open>Operation_Plan\<close> (\<open>operation_plan.rs\<close>): a plan directory is the record \<open>plan_store\<close> (the plan
    file and four ledgers); every operation returns the list of its writes in the order of the
    source together with its result, so that an operation cut off by a crash is a prefix of its
    writes. \<open>Operation_Plan_Graph\<close> shows that the depth-first search decides acyclicity,
    \<open>Operation_Plan_Inv\<close> and \<open>Operation_Plan_Props\<close> that every write of every operation keeps the
    invariant (locale \<open>journaled_ops\<close>, interpreted on the plan operations), and
    \<open>Operation_Plan_Claims\<close> and \<open>Operation_Plan_Contracts\<close> what the operations promise.
  \<^item> \<open>Goal_Transition\<close> (\<open>goal_transition.rs\<close>): the decision table applied after each slice of a
    goal, branch by branch, and its receipt.
  \<^item> \<open>Goal_Budget\<close>, \<open>Goal_Budget_Props\<close> (\<open>goal_budget.rs\<close>): the campaign policy and its validation,
    the ledger of slices and the boundary each receipt names.
  \<^item> \<open>Task_Budget\<close> (\<open>task_budget.rs\<close>): the slice ledger per task family and its status.
  \<^item> \<open>Lane\<close> (\<open>lane.rs\<close>): the eight-axis lane key, its canonical bytes (a length-prefixed encoding,
    locale \<open>prefix_free_codec\<close>) and its digests; SHA-256 is a parameter without hypotheses.
  \<^item> \<open>Channel_Session_Key\<close> (\<open>channel_session_key.rs\<close>): parsing, binding, rendering and continuation
    of session keys.
  \<^item> \<open>Goal_Campaign\<close>, \<open>Goal_Campaign_Props\<close> (\<open>runtime_pipeline.rs\<close>, with data of \<open>codex_runtime.rs\<close>
    and \<open>goal_lineage.rs\<close>): the settlement of a finished run, which composes lineage selection,
    authority, the campaign budget and the transition table over the two ledgers. Its properties compose it with
    the doctor of \<open>Goal_Lineage\<close>: a lineage that the doctor accepts has the lane and session that are charged.
  \<^item> \<open>Keyed_Ledger\<close>: ledgers whose records carry an event key and are appended at most once per key,
    reading and finding as the next two components do it. The locale \<open>keyed_ledger\<close> is interpreted on
    the text of a JSONL file, so that clients are reasoned about on lists of rows.
  \<^item> \<open>Goal_Closure\<close> (\<open>goal_closure.rs\<close>): protected intents, the resolution of a target, the five phases
    of a closure and their checks. \<open>Goal_Closure_Props\<close> has the state machine \<open>closure_reachable\<close> (any
    intents and phases, in any order) and its invariant, \<open>Goal_Closure_Claims\<close> that a completed closure
    rests on an unbroken chain of receipts and that a closure can always go on.
  \<^item> \<open>Goal_Lineage\<close>, \<open>Goal_Lineage_Props\<close> (\<open>goal_lineage.rs\<close>): the lineage doctor, from the three ledgers
    it reads to its report: a closed goal is never resurrected, a runnable lineage has exact
    authority, a ready report names one runnable lineage per campaign.
  \<^item> \<open>Session_Transition\<close> (\<open>channel_session_transition.rs\<close>): the stop and new commands of a channel,
    over the closure protocol and the doctor. The home of the harness is the record \<open>channel_home\<close>.
    \<open>Session_Transition_Props\<close> shows that any sequence of operations of the two components, with
    observations that change in any way, keeps the invariant and only adds rows (locale
    \<open>ledger_steps\<close>, interpreted on these operations); \<open>Session_Transition_Claims\<close> has the properties: new
    messages wait until the boundary is committed, a boundary is ready only on a proven closure or where the doctor
    found no active goal when the command was frozen, a frozen intent is never replaced.
  \<^item> \<open>Channel_Action\<close> (\<open>channel_action.rs\<close>): the prompt of an approval, its public reference, and what is
    accepted from a provider as an answer.
  \<^item> \<open>External_Effect\<close>, \<open>External_Effect_Ops\<close> (\<open>external_effect.rs\<close>): an action on a connector that may need an
    approval. The files are the record \<open>effect_home\<close> (the latest snapshot of each effect, the transitions
    ledger, the index of public references); the operations are admission, the three ways to resolve an
    approval, expiry by pages, the fence of a lane, a direct transition and reconciliation with a
    readback. \<open>External_Effect_Props\<close> shows that each is a sequence of writes that the state machine allows
    (\<open>effect_moves\<close>); the two loops over the snapshots share the locale \<open>snapshot_sweep\<close>. \<open>External_Effect_Claims\<close>
    has what any sequence of operations guarantees (the ledger replays to the snapshots, nothing is
    submitted that was not approved, a request never changes, an effect that waits has an unused token bound to it) and what a resolution and a fence do,
    \<open>External_Effect_Scans\<close> that expiry by pages misses nothing and ends, \<open>External_Effect_Admission\<close> that an
    admission repeats, that the identity of an effect is exact (\<open>prefix_free_codec\<close> again) and when a
    resubmission is authorised. \<open>External_Effect_Demo\<close> is the concrete library of their witnesses.

  \<^item> \<open>Task_Transition\<close> (\<open>task_transition.rs\<close>): what lets a task that was stopped at its deadline go on in a new
    run: a checkpoint or a marker in the text of the assistant, the authority it claims (an open plan with a
    running item, or a task family of the harness) and the breakers. The files are the record \<open>task_home\<close> (the plan
    directories of \<open>Operation_Plan\<close> and the family files). \<open>Task_Transition_Props\<close> characterises the checks and
    follows the plan directories through any operations, each possibly cut off; \<open>Task_Family_Props\<close> has the locale
    \<open>create_once\<close> (a registry whose entries are created once and never change), interpreted on the family
    files. \<open>Task_Transition_Claims\<close> shows when a continuation is scheduled, that a snapshot is accepted at admission
    only while its authority is unchanged, and that the family files are such a registry; \<open>Task_Marker_Claims\<close>
    that a marker that is printed is read back and never shown.
  \<^item> \<open>Task_Drain\<close>, \<open>Task_Drain_Claims\<close> (\<open>runtime_pipeline.rs\<close>): the decision of the pipeline on a drained task, which
    composes the marker, the deadline generation, the task budget, the breakers and the authority: a family is
    continued a bounded number of times, and a task is final only on a current marker that says so. What the
    pipeline observes of the channel session, and the clock, are fields of the input \<open>task_drain_run\<close>.
  \<^item> \<open>Goal_Continuation\<close>, \<open>Goal_Continuation_Ops\<close> (\<open>goal_continuation.rs\<close>, with the identity of a channel lane from
    \<open>channel_state.rs\<close> and \<open>context_rollover.rs\<close> and the quarantine marker of \<open>runtime_worker.rs\<close>): the intent that a decision
    to continue commits, its child in the runtime queue, the gate between the lease of the child and its run, and
    the fence of an intent that may not go on; reconciliation after a restart and the readiness for an older
    binary. The files are the record \<open>continuation_home\<close>; the authority of an intent is read from the homes of the
    lineage doctor, of the closures, and of the plans and families. \<open>Goal_Continuation_Props\<close> has what the readers
    give, \<open>Goal_Continuation_Fences\<close> what passes the gate and that every operation keeps every fence (the locale
    \<open>create_once\<close> again, interpreted on the ledger of fences), \<open>Goal_Continuation_Commits\<close> how the ledger of intents goes
    on; \<open>Goal_Continuation_Claims\<close> shows that a continuation runs only on current authority, that a fenced one never
    runs, and that an intent is committed once. \<open>Goal_Continuation_Demo\<close> is the home of their witnesses.
  \<^item> \<open>Supervision\<close> (\<open>supervision.rs\<close>): the evaluation of the child processes, the restart backoff with its saturating
    product, the crash-loop breaker and the counts of the report.

  \<^bold>\<open>Parameters.\<close> \<open>serde_json\<close> is a pair \<open>enc\<close>, \<open>dec\<close> per record type with the hypothesis \<open>codec_ok\<close>
  (what was written on one line parses back), or, for ledgers with event keys, a translation to
  JSON values with the hypothesis \<open>serde_ok\<close>. SHA-256 is a function; where a property needs that
  different values have different digests, this is the hypothesis \<open>collision_free\<close>. The clock is an argument,
  as are random bytes and the order in which a directory is listed. What external effects take from
  libraries is the record \<open>effect_lib\<close>, with the hypothesis \<open>effect_lib_ok\<close> (what is written parses back); what task transitions take is \<open>task_lib\<close>,
  with \<open>task_lib_ok\<close>; what continuation intents take is \<open>continuation_lib\<close>, with \<open>continuation_lib_ok\<close>. The answers of the
  parts of the runtime that the continuation intents call (terminal control, active session, outbox, requeueing of
  a prepared run) are the record \<open>continuation_env\<close>, without hypotheses. Each property with such a hypothesis has a witness on a concrete codec.

  \<^bold>\<open>Termination.\<close> No definition that models code uses fuel: the depth-first search of a plan terminates by a
  measure on the items not yet on the search path, the walk from the parent of a continuation up to the current
  lineage (\<open>descend\<close>) by the rows of the queue not yet visited, every other recursion is structural. The caller's loop over
  the pages of expired approvals, \<open>expiry_sweep\<close>, is given a number of pages; as many as there are
  snapshots, and one at least, are shown to be enough.

  \<^bold>\<open>Not modelled.\<close> Lock files, log rotation and atomic file replacement (file-system effects: an
  operation under its lock is one step of the model), the text of error messages that include
  the error of a library, paths in reports, the command line, the driver of the backend
  process, components that keep their state in SQLite (workers, memory), the start and stop of
  operating-system processes, rendering of prompts and progress, and the adapters in
  JavaScript. Of external effects: the continuation that is queued after an approval
  (\<open>ensure_external_effect_continuation\<close>, which enters the runtime queue), and a crash between the append to the
  transitions ledger and the replacement of the snapshot. Of continuation intents: the text of the notice to the
  user and the wake signal after it. Simplified at the edges: a ledger is read as bytes, so that the error of
  \<open>read_to_string\<close> on a torn character is not there (its line does not parse and is skipped like any torn line); the
  report of the lineage doctor cannot fail; the expiry of a token is added to the clock without the \<open>i64\<close> overflow at
  the end of its range; the fence of a lane does not read the clock when there is no snapshot.

  \<^bold>\<open>Plan.\<close> Next: the requeueing of a prepared run (\<open>context_rollover.rs\<close>), the saga that drives a closure on the backend
  (\<open>codex_runtime.rs\<close>), the resume coordinator (\<open>coordinator_resume.rs\<close>) and the delivery state machine of
  the channels (\<open>channel_delivery.rs\<close>).
\<close>

end
